(* ===== verification/Prelude.thy ===== *)
theory Prelude
  imports Complex_Main "HOL-Library.Code_Target_Nat" "HOL-Library.Monad_Syntax"
begin

text \<open>
  Shared vocabulary of the development: the string functions of the JavaScript
  standard library that the gateway uses (split, join, trim, lower-casing, prefix and
  suffix tests, decimal printing), and document collections in insertion order with the
  find / insert / update operations of the store. Strings are lists of 8-bit code units.
\<close>

named_theorems coll_simps \<open>find / update / insert on document collections\<close>
named_theorems str_simps \<open>facts about the string functions\<close>

subsection \<open>Strings\<close>

definition is_ws :: "char \<Rightarrow> bool" where
  "is_ws c \<longleftrightarrow> (let n = of_char c :: nat in n \<in> {9, 10, 11, 12, 13, 32, 160})"

definition js_trim :: "string \<Rightarrow> string" where
  "js_trim s = rev (dropWhile is_ws (rev (dropWhile is_ws s)))"

definition lower_char :: "char \<Rightarrow> char" where
  "lower_char c = (let n = of_char c :: nat in
     if (65 \<le> n \<and> n \<le> 90) \<or> (192 \<le> n \<and> n \<le> 222 \<and> n \<noteq> 215) then char_of (n + 32) else c)"

definition js_lower :: "string \<Rightarrow> string" where
  "js_lower = map lower_char"

definition is_digit :: "char \<Rightarrow> bool" where
  "is_digit c \<longleftrightarrow> (let n = of_char c :: nat in 48 \<le> n \<and> n \<le> 57)"

definition is_alpha :: "char \<Rightarrow> bool" where
  "is_alpha c \<longleftrightarrow> (let n = of_char c :: nat in (65 \<le> n \<and> n \<le> 90) \<or> (97 \<le> n \<and> n \<le> 122))"

definition is_alnum :: "char \<Rightarrow> bool" where
  "is_alnum c \<longleftrightarrow> is_alpha c \<or> is_digit c"

definition is_hex :: "char \<Rightarrow> bool" where
  "is_hex c \<longleftrightarrow> (let n = of_char c :: nat in
     (48 \<le> n \<and> n \<le> 57) \<or> (65 \<le> n \<and> n \<le> 70) \<or> (97 \<le> n \<and> n \<le> 102))"

definition hex_val :: "char \<Rightarrow> nat" where
  "hex_val c = (let n = of_char c :: nat in
     if n \<le> 57 then n - 48 else if n \<le> 70 then n - 55 else n - 87)"

text \<open>\<open>Buffer.byteLength(s, "utf8")\<close> of a string of code units below 256.\<close>

definition utf8_len :: "string \<Rightarrow> nat" where
  "utf8_len s = sum_list (map (\<lambda>c. if (of_char c :: nat) < 128 then 1 else 2) s)"

fun starts_with :: "string \<Rightarrow> string \<Rightarrow> bool" where
  "starts_with [] s = True"
| "starts_with (p # ps) [] = False"
| "starts_with (p # ps) (c # cs) = (p = c \<and> starts_with ps cs)"

definition ends_with :: "string \<Rightarrow> string \<Rightarrow> bool" where
  "ends_with p s = starts_with (rev p) (rev s)"

fun contains_str :: "string \<Rightarrow> string \<Rightarrow> bool" where
  "contains_str p [] = (p = [])"
| "contains_str p (c # cs) = (starts_with p (c # cs) \<or> contains_str p cs)"

fun split_on :: "char \<Rightarrow> string \<Rightarrow> string list" where
  "split_on c [] = [[]]"
| "split_on c (x # xs) =
     (if x = c then [] # split_on c xs
      else (case split_on c xs of [] \<Rightarrow> [[x]] | y # ys \<Rightarrow> (x # y) # ys))"

fun join_with :: "string \<Rightarrow> string list \<Rightarrow> string" where
  "join_with sep [] = []"
| "join_with sep [x] = x"
| "join_with sep (x # y # xs) = x @ sep @ join_with sep (y # xs)"

fun index_of :: "char \<Rightarrow> string \<Rightarrow> nat option" where
  "index_of c [] = None"
| "index_of c (x # xs) = (if x = c then Some 0 else map_option Suc (index_of c xs))"

definition last_index_of :: "char \<Rightarrow> string \<Rightarrow> nat option" where
  "last_index_of c s = map_option (\<lambda>i. length s - 1 - i) (index_of c (rev s))"

fun show_nat :: "nat \<Rightarrow> string" where
  "show_nat n = (if n < 10 then [char_of (48 + n)]
     else show_nat (n div 10) @ [char_of (48 + n mod 10)])"

declare show_nat.simps [simp del]

definition show_int :: "int \<Rightarrow> string" where
  "show_int i = (if i < 0 then CHR ''-'' # show_nat (nat (- i)) else show_nat (nat i))"

definition digits_val :: "string \<Rightarrow> nat" where
  "digits_val s = foldl (\<lambda>a c. 10 * a + (of_char c - 48)) 0 s"

definition hex_digits_val :: "string \<Rightarrow> nat" where
  "hex_digits_val s = foldl (\<lambda>a c. 16 * a + hex_val c) 0 s"

lemma starts_with_iff: "starts_with p s \<longleftrightarrow> (\<exists>t. s = p @ t)"
  by (induction p s rule: starts_with.induct) auto

lemma starts_with_append [simp, str_simps]: "starts_with p (p @ t)"
  by (simp add: starts_with_iff)

lemma ends_with_iff: "ends_with p s \<longleftrightarrow> (\<exists>t. s = t @ p)"
  by (auto simp: ends_with_def starts_with_iff) (metis rev_append rev_rev_ident)

lemma contains_str_append: "starts_with p s \<Longrightarrow> contains_str p (a @ s)"
proof (induction a)
  case Nil
  then show ?case by (cases s) (auto simp: starts_with_iff)
next
  case (Cons c a)
  then show ?case by simp
qed

lemma contains_str_dest: "contains_str p s \<Longrightarrow> \<exists>a b. s = a @ p @ b"
proof (induction p s rule: contains_str.induct)
  case (1 p)
  then show ?case by simp
next
  case (2 p c cs)
  show ?case
  proof (cases "starts_with p (c # cs)")
    case True
    then show ?thesis unfolding starts_with_iff by (metis append_Nil)
  next
    case False
    with 2 obtain a b where "cs = a @ p @ b" by auto
    then have "c # cs = (c # a) @ p @ b" by simp
    then show ?thesis by blast
  qed
qed

lemma contains_str_iff: "contains_str p s \<longleftrightarrow> (\<exists>a b. s = a @ p @ b)"
  using contains_str_dest contains_str_append [OF starts_with_append] by blast

lemma split_on_neq_Nil [simp, str_simps]: "split_on c s \<noteq> []"
  by (induction s) (auto split: list.splits)

lemma join_split_on [str_simps]: "join_with [c] (split_on c s) = s"
proof (induction s)
  case Nil
  then show ?case by simp
next
  case (Cons x xs)
  obtain y ys where "split_on c xs = y # ys"
    using split_on_neq_Nil [of c xs] by (cases "split_on c xs") auto
  with Cons show ?case by (cases ys) auto
qed

lemma split_on_no_sep: "p \<in> set (split_on c s) \<Longrightarrow> c \<notin> set p"
proof (induction s arbitrary: p)
  case Nil
  then show ?case by simp
next
  case (Cons x xs)
  obtain y ys where "split_on c xs = y # ys"
    using split_on_neq_Nil [of c xs] by (cases "split_on c xs") auto
  with Cons show ?case by (auto split: if_splits)
qed

lemma split_on_append: "c \<notin> set a \<Longrightarrow> split_on c (a @ c # b) = a # split_on c b"
  by (induction a) auto

lemma split_on_single: "c \<notin> set a \<Longrightarrow> split_on c a = [a]"
  by (induction a) auto

lemma split_join_on:
  "xs \<noteq> [] \<Longrightarrow> (\<And>x. x \<in> set xs \<Longrightarrow> c \<notin> set x) \<Longrightarrow> split_on c (join_with [c] xs) = xs"
proof (induction "[c]" xs rule: join_with.induct)
  case 1
  then show ?case by simp
next
  case (2 x)
  then show ?case by (simp add: split_on_single)
next
  case (3 x y xs)
  then show ?case by (simp add: split_on_append)
qed

subsection \<open>Decimal printing\<close>

lemma of_char_digit [simp]: "n < 10 \<Longrightarrow> (of_char (char_of (48 + n) :: char) :: nat) = 48 + n"
  by simp

lemma digits_val_snoc: "digits_val (s @ [c]) = 10 * digits_val s + (of_char c - 48)"
  by (simp add: digits_val_def)

lemma digits_val_show_nat [simp, str_simps]: "digits_val (show_nat n) = n"
proof (induction n rule: show_nat.induct)
  case (1 n)
  show ?case
  proof (cases "n < 10")
    case True
    then show ?thesis by (simp add: show_nat.simps [of n] digits_val_def)
  next
    case False
    with 1 have "digits_val (show_nat (n div 10)) = n div 10" by simp
    with False show ?thesis
      by (simp add: show_nat.simps [of n] digits_val_snoc)
  qed
qed

lemma show_nat_digits: "c \<in> set (show_nat n) \<Longrightarrow> is_digit c"
proof (induction n rule: show_nat.induct)
  case (1 n)
  then show ?case
    by (cases "n < 10") (auto simp: show_nat.simps [of n] is_digit_def Let_def)
qed

lemma show_nat_neq_Nil [simp]: "show_nat n \<noteq> []"
  by (subst show_nat.simps) simp

lemma show_nat_inj: "show_nat m = show_nat n \<Longrightarrow> m = n"
  by (metis digits_val_show_nat)

subsection \<open>Collections in insertion order\<close>

text \<open>
  A collection is the list of its documents in insertion order; a filter is a predicate.
  An update rewrites the first match in place (a JavaScript map keeps a key's position when
  its value is set again); an insertion refuses an existing id.
\<close>

definition find_one :: "('d \<Rightarrow> bool) \<Rightarrow> 'd list \<Rightarrow> 'd option" where
  "find_one P ds = List.find P ds"

fun update_one :: "('d \<Rightarrow> bool) \<Rightarrow> ('d \<Rightarrow> 'd) \<Rightarrow> 'd list \<Rightarrow> 'd list" where
  "update_one P f [] = []"
| "update_one P f (d # ds) = (if P d then f d # ds else d # update_one P f ds)"

definition insert_one :: "('d \<Rightarrow> 'k) \<Rightarrow> 'd \<Rightarrow> 'd list \<Rightarrow> 'd list option" where
  "insert_one key d ds = (if key d \<in> set (map key ds) then None else Some (ds @ [d]))"

lemma find_one_Nil [simp, coll_simps]: "find_one P [] = None"
  by (simp add: find_one_def)

lemma find_one_Cons [simp, coll_simps]:
  "find_one P (d # ds) = (if P d then Some d else find_one P ds)"
  by (simp add: find_one_def)

lemma find_one_SomeD: "find_one P ds = Some d \<Longrightarrow> d \<in> set ds \<and> P d"
  by (induction ds) (auto split: if_splits)

lemma find_one_None_iff: "find_one P ds = None \<longleftrightarrow> (\<forall>d \<in> set ds. \<not> P d)"
  by (induction ds) auto

lemma find_one_append [coll_simps]:
  "find_one P (as @ bs) = (case find_one P as of None \<Rightarrow> find_one P bs | Some d \<Rightarrow> Some d)"
  by (induction as) auto

lemma find_one_map_key: "find_one (\<lambda>d. key d = k) ds \<noteq> None \<longleftrightarrow> k \<in> set (map key ds)"
  by (induction ds) auto

lemma update_one_keys [coll_simps]:
  "(\<And>d. P d \<Longrightarrow> key (f d) = key d) \<Longrightarrow> map key (update_one P f ds) = map key ds"
  by (induction ds) auto

lemma update_one_none [coll_simps]: "find_one P ds = None \<Longrightarrow> update_one P f ds = ds"
  by (induction ds) (auto split: if_splits)

lemma find_update_same [coll_simps]:
  assumes "find_one P ds = Some d" "P (f d)"
  shows "find_one P (update_one P f ds) = Some (f d)"
  using assms by (induction ds) (auto split: if_splits)

lemma find_update_other:
  assumes "\<And>d. P d \<Longrightarrow> \<not> Q d" "\<And>d. P d \<Longrightarrow> \<not> Q (f d)"
  shows "find_one Q (update_one P f ds) = find_one Q ds"
  using assms by (induction ds) auto

lemma find_one_distinct:
  assumes "distinct (map key ds)" "d \<in> set ds" "P d" "\<And>x. P x \<Longrightarrow> key x = key d"
  shows "find_one P ds = Some d"
proof -
  have "find_one P ds \<noteq> None" using assms(2,3) by (auto simp: find_one_None_iff)
  then obtain x where x: "find_one P ds = Some x" by blast
  then have "x \<in> set ds" "P x" by (auto dest: find_one_SomeD)
  with assms(4) have "key x = key d" by blast
  with assms(1,2) \<open>x \<in> set ds\<close> have "x = d" by (auto simp: distinct_map dest: inj_onD)
  with x show ?thesis by simp
qed

lemma update_one_set: "x \<in> set (update_one P f ds) \<Longrightarrow> x \<in> set ds \<or> (\<exists>d \<in> set ds. P d \<and> x = f d)"
  by (induction ds) (auto split: if_splits)

lemma sum_update_one:
  fixes g :: "'d \<Rightarrow> 'a::ab_group_add"
  shows "find_one P ds = Some d \<Longrightarrow>
    sum_list (map g (update_one P f ds)) = sum_list (map g ds) - g d + g (f d)"
  by (induction ds) (simp_all split: if_splits)

lemma length_update_one [simp]: "length (update_one P f ds) = length ds"
  by (induction ds) auto

subsection \<open>Results\<close>

text \<open>A thrown error is \<^term>\<open>Inl\<close>, a returned value is \<^term>\<open>Inr\<close>.\<close>

definition res_bind :: "'e + 'a \<Rightarrow> ('a \<Rightarrow> 'e + 'b) \<Rightarrow> 'e + 'b" where
  "res_bind r f = (case r of Inl e \<Rightarrow> Inl e | Inr a \<Rightarrow> f a)"

lemma res_bind_simps [simp]: "res_bind (Inl e) f = Inl e" "res_bind (Inr a) f = f a"
  by (simp_all add: res_bind_def)

lemma res_bind_Inr_iff: "res_bind r f = Inr b \<longleftrightarrow> (\<exists>a. r = Inr a \<and> f a = Inr b)"
  by (cases r) auto

end
