(* ===== verification/JsNumber.thy ===== *)
theory JsNumber
  imports Prelude
begin

text \<open>
  JavaScript numbers. A finite number is its exact rational value: the rounding of binary
  floating point is not modelled, the non-finite values and the comparisons that NaN makes
  false are. Also here: \<open>Math.floor\<close>, \<open>Math.ceil\<close>, \<open>Math.round\<close>, \<open>Math.min\<close>,
  \<open>Math.max\<close>, \<open>Number.isFinite\<close>, \<open>Number.isInteger\<close>, \<open>Number.isSafeInteger\<close> and the
  conversion of a string by \<open>Number\<close>.
\<close>

named_theorems jsnum_simps \<open>arithmetic and comparison of JavaScript numbers\<close>

datatype jsnum = JNaN | JPosInf | JNegInf | JFin rat

abbreviation js_int :: "int \<Rightarrow> jsnum" where
  "js_int i \<equiv> JFin (of_int i)"

fun js_finite :: "jsnum \<Rightarrow> bool" where
  "js_finite (JFin x) = True"
| "js_finite _ = False"

fun js_rat :: "jsnum \<Rightarrow> rat" where
  "js_rat (JFin x) = x"
| "js_rat _ = 0"

fun js_neg :: "jsnum \<Rightarrow> jsnum" where
  "js_neg (JFin x) = JFin (- x)"
| "js_neg JPosInf = JNegInf"
| "js_neg JNegInf = JPosInf"
| "js_neg JNaN = JNaN"

fun js_add :: "jsnum \<Rightarrow> jsnum \<Rightarrow> jsnum" where
  "js_add (JFin x) (JFin y) = JFin (x + y)"
| "js_add JNaN _ = JNaN"
| "js_add _ JNaN = JNaN"
| "js_add JPosInf JNegInf = JNaN"
| "js_add JNegInf JPosInf = JNaN"
| "js_add JPosInf _ = JPosInf"
| "js_add _ JPosInf = JPosInf"
| "js_add JNegInf _ = JNegInf"
| "js_add _ JNegInf = JNegInf"

definition js_sub :: "jsnum \<Rightarrow> jsnum \<Rightarrow> jsnum" where
  "js_sub a b = js_add a (js_neg b)"

definition js_inf :: "rat \<Rightarrow> jsnum" where
  "js_inf d = (if 0 < d then JPosInf else if d < 0 then JNegInf else JNaN)"

fun js_sgn :: "jsnum \<Rightarrow> rat" where
  "js_sgn (JFin x) = sgn x"
| "js_sgn JPosInf = 1"
| "js_sgn JNegInf = - 1"
| "js_sgn JNaN = 0"

fun js_mul :: "jsnum \<Rightarrow> jsnum \<Rightarrow> jsnum" where
  "js_mul (JFin x) (JFin y) = JFin (x * y)"
| "js_mul a b = js_inf (js_sgn a * js_sgn b)"

fun js_div :: "jsnum \<Rightarrow> jsnum \<Rightarrow> jsnum" where
  "js_div (JFin x) (JFin y) = (if y = 0 then js_inf (sgn x) else JFin (x / y))"
| "js_div JNaN _ = JNaN"
| "js_div _ JNaN = JNaN"
| "js_div (JFin x) _ = JFin 0"
| "js_div a (JFin y) = (if y = 0 then a else js_inf (js_sgn a * sgn y))"
| "js_div _ _ = JNaN"

fun js_lt :: "jsnum \<Rightarrow> jsnum \<Rightarrow> bool" where
  "js_lt (JFin x) (JFin y) = (x < y)"
| "js_lt JNaN _ = False"
| "js_lt _ JNaN = False"
| "js_lt a JPosInf = (a \<noteq> JPosInf)"
| "js_lt JNegInf b = (b \<noteq> JNegInf)"
| "js_lt _ _ = False"

fun js_le :: "jsnum \<Rightarrow> jsnum \<Rightarrow> bool" where
  "js_le (JFin x) (JFin y) = (x \<le> y)"
| "js_le JNaN _ = False"
| "js_le _ JNaN = False"
| "js_le _ JPosInf = True"
| "js_le JNegInf _ = True"
| "js_le _ _ = False"

definition js_max :: "jsnum \<Rightarrow> jsnum \<Rightarrow> jsnum" where
  "js_max a b = (if a = JNaN \<or> b = JNaN then JNaN else if js_lt a b then b else a)"

definition js_min :: "jsnum \<Rightarrow> jsnum \<Rightarrow> jsnum" where
  "js_min a b = (if a = JNaN \<or> b = JNaN then JNaN else if js_lt b a then b else a)"

fun js_floor :: "jsnum \<Rightarrow> jsnum" where
  "js_floor (JFin x) = js_int \<lfloor>x\<rfloor>"
| "js_floor a = a"

fun js_ceil :: "jsnum \<Rightarrow> jsnum" where
  "js_ceil (JFin x) = js_int \<lceil>x\<rceil>"
| "js_ceil a = a"

text \<open>\<open>Math.round\<close> rounds half towards plus infinity.\<close>

fun js_round :: "jsnum \<Rightarrow> jsnum" where
  "js_round (JFin x) = js_int \<lfloor>x + 1 / 2\<rfloor>"
| "js_round a = a"

definition max_safe_integer :: int where
  "max_safe_integer = 9007199254740991"

definition safe_int :: "int \<Rightarrow> bool" where
  "safe_int i \<longleftrightarrow> \<bar>i\<bar> \<le> max_safe_integer"

fun js_is_integer :: "jsnum \<Rightarrow> bool" where
  "js_is_integer (JFin x) = (x = of_int \<lfloor>x\<rfloor>)"
| "js_is_integer _ = False"

fun js_is_safe_integer :: "jsnum \<Rightarrow> bool" where
  "js_is_safe_integer (JFin x) = (x = of_int \<lfloor>x\<rfloor> \<and> safe_int \<lfloor>x\<rfloor>)"
| "js_is_safe_integer _ = False"

fun js_to_int :: "jsnum \<Rightarrow> int" where
  "js_to_int (JFin x) = \<lfloor>x\<rfloor>"
| "js_to_int _ = 0"

lemma js_sub_Fin [simp, jsnum_simps]: "js_sub (JFin x) (JFin y) = JFin (x - y)"
  by (simp add: js_sub_def)

lemma js_max_Fin [simp, jsnum_simps]: "js_max (JFin x) (JFin y) = JFin (max x y)"
  by (simp add: js_max_def max_def)

lemma js_min_Fin [simp, jsnum_simps]: "js_min (JFin x) (JFin y) = JFin (min x y)"
  by (simp add: js_min_def min_def)

lemma js_finite_iff: "js_finite a \<longleftrightarrow> (\<exists>x. a = JFin x)"
  by (cases a) auto

lemma js_is_safe_integer_int [simp, jsnum_simps]: "js_is_safe_integer (js_int i) = safe_int i"
  by simp

lemma js_is_safe_integerD: "js_is_safe_integer a \<Longrightarrow> \<exists>i. a = js_int i \<and> safe_int i"
  by (cases a) auto

lemma js_le_lt: "js_le (JFin x) a \<Longrightarrow> js_finite a \<Longrightarrow> x \<le> js_rat a"
  by (cases a) auto

subsection \<open>\<open>Number\<close> of a string\<close>

text \<open>
  The numeric literals \<open>Number\<close> accepts: blanks around, an optional sign, decimal digits
  with a fraction and an exponent or \<open>Infinity\<close>, or an unsigned hexadecimal, octal or binary
  integer. The empty string is 0; anything else is NaN.
\<close>

definition frac_val :: "string \<Rightarrow> rat" where
  "frac_val s = of_nat (digits_val s) / 10 ^ length s"

definition exp_part :: "string \<Rightarrow> int option" where
  "exp_part s = (case s of
      [] \<Rightarrow> Some 0
    | c # r \<Rightarrow>
        if c = CHR ''e'' \<or> c = CHR ''E'' then
          (let neg = starts_with ''-'' r;
               ds = (if neg \<or> starts_with ''+'' r then tl r else r)
           in if ds = [] \<or> \<not> list_all is_digit ds then None
              else Some (if neg then - int (digits_val ds) else int (digits_val ds)))
        else None)"

definition pow10 :: "int \<Rightarrow> rat" where
  "pow10 e = (if 0 \<le> e then 10 ^ nat e else 1 / 10 ^ nat (- e))"

definition unsigned_decimal :: "string \<Rightarrow> jsnum" where
  "unsigned_decimal s =
     (if s = ''Infinity'' then JPosInf else
      let ip = takeWhile is_digit s; r = dropWhile is_digit s;
          dot = starts_with ''.'' r;
          fp = (if dot then takeWhile is_digit (tl r) else []);
          rest = (if dot then dropWhile is_digit (tl r) else r)
      in if ip = [] \<and> fp = [] then JNaN
         else (case exp_part rest of
             None \<Rightarrow> JNaN
           | Some e \<Rightarrow> JFin ((of_nat (digits_val ip) + frac_val fp) * pow10 e)))"

definition radix_literal :: "nat \<Rightarrow> (char \<Rightarrow> bool) \<Rightarrow> string \<Rightarrow> jsnum" where
  "radix_literal base ok ds =
     (if ds = [] \<or> \<not> list_all ok ds then JNaN
      else JFin (of_nat (foldl (\<lambda>a c. base * a + hex_val c) 0 ds)))"

definition number_of_string :: "string \<Rightarrow> jsnum" where
  "number_of_string s =
     (let t = js_trim s in
      if t = [] then JFin 0
      else if starts_with ''0x'' t \<or> starts_with ''0X'' t then radix_literal 16 is_hex (drop 2 t)
      else if starts_with ''0o'' t \<or> starts_with ''0O'' t then
        radix_literal 8 (\<lambda>c. is_digit c \<and> hex_val c < 8) (drop 2 t)
      else if starts_with ''0b'' t \<or> starts_with ''0B'' t then
        radix_literal 2 (\<lambda>c. is_digit c \<and> hex_val c < 2) (drop 2 t)
      else if starts_with ''-'' t then js_neg (unsigned_decimal (tl t))
      else if starts_with ''+'' t then unsigned_decimal (tl t)
      else unsigned_decimal t)"

lemma digit_not_ws: "is_digit c \<Longrightarrow> \<not> is_ws c"
  by (auto simp: is_digit_def is_ws_def Let_def)

lemma dropWhile_ws_id: "s = [] \<or> \<not> is_ws (hd s) \<Longrightarrow> dropWhile is_ws s = s"
  by (cases s) auto

lemma trim_digits: "s \<noteq> [] \<Longrightarrow> \<forall>c \<in> set s. \<not> is_ws c \<Longrightarrow> js_trim s = s"
  by (simp add: js_trim_def dropWhile_ws_id hd_rev)

lemma takeWhile_all: "\<forall>c \<in> set s. P c \<Longrightarrow> takeWhile P s = s \<and> dropWhile P s = []"
  by (induction s) auto

lemma starts_with_second_digit:
  "\<forall>c \<in> set s. is_digit c \<Longrightarrow> \<not> is_digit x \<Longrightarrow> \<not> starts_with [y, x] s"
  by (auto simp: starts_with_iff)

lemma starts_with_first_digit:
  "\<forall>c \<in> set s. is_digit c \<Longrightarrow> \<not> is_digit x \<Longrightarrow> \<not> starts_with [x] s"
  by (auto simp: starts_with_iff)

lemma non_digits [simp]:
  "\<not> is_digit CHR ''x''" "\<not> is_digit CHR ''X''" "\<not> is_digit CHR ''o''" "\<not> is_digit CHR ''O''"
  "\<not> is_digit CHR ''b''" "\<not> is_digit CHR ''B''" "\<not> is_digit CHR ''-''" "\<not> is_digit CHR ''+''"
  "\<not> is_digit CHR ''I''" "\<not> is_digit CHR ''.''"
  by (simp_all add: is_digit_def)

lemma unsigned_decimal_digits:
  assumes "s \<noteq> []" "\<forall>c \<in> set s. is_digit c"
  shows "unsigned_decimal s = JFin (of_nat (digits_val s))"
proof -
  have inf: "s \<noteq> ''Infinity''" using assms(2) by auto
  have tw: "takeWhile is_digit s = s" and dw: "dropWhile is_digit s = []"
    using takeWhile_all [OF assms(2)] by auto
  show ?thesis
    unfolding unsigned_decimal_def Let_def tw dw
    using inf assms(1) by (simp add: exp_part_def pow10_def frac_val_def digits_val_def)
qed

lemma number_of_digits:
  assumes "s \<noteq> []" "\<forall>c \<in> set s. is_digit c"
  shows "number_of_string s = JFin (of_nat (digits_val s))"
proof -
  have "js_trim s = s" using assms digit_not_ws by (intro trim_digits) auto
  then show ?thesis
    using assms starts_with_second_digit [OF assms(2)] starts_with_first_digit [OF assms(2)]
    by (simp add: number_of_string_def Let_def unsigned_decimal_digits)
qed

text \<open>Printing an integer and reading it back by \<open>Number\<close> is the identity.\<close>

lemma number_of_show_int [simp, jsnum_simps]: "number_of_string (show_int i) = js_int i"
proof (cases "i < 0")
  case False
  have "number_of_string (show_nat (nat i)) = JFin (of_nat (nat i))"
    using show_nat_digits by (subst number_of_digits) auto
  with False show ?thesis by (simp add: show_int_def)
next
  case True
  let ?d = "show_nat (nat (- i))"
  have ws: "js_trim (CHR ''-'' # ?d) = CHR ''-'' # ?d"
    using show_nat_digits digit_not_ws by (intro trim_digits) (auto simp: is_ws_def)
  have "unsigned_decimal ?d = JFin (of_nat (nat (- i)))"
    using show_nat_digits by (subst unsigned_decimal_digits) auto
  with True ws show ?thesis by (simp add: show_int_def number_of_string_def Let_def)
qed

end
