(* ===== verification/JsonValue.thy ===== *)
theory JsonValue
  imports JsNumber
begin

text \<open>
  JSON values and the hardened JSON helpers of \<open>src/lib/util/json.ts\<close>: the iterative size and
  depth bound (a work stack, as in the code), the removal of prototype-polluting keys, the
  typed accessors and the byte-capped body reader. An object is the list of its members in
  insertion order. \<open>json_nodes\<close> and \<open>json_height\<close> are the reference measures of a tree.
\<close>

datatype json = JNull | JBool bool | JNum jsnum | JStr string | JArr "json list"
  | JObj "(string \<times> json) list"

datatype json_limit = LimBytes | LimNodes | LimDepth | LimTimeout

text \<open>Reading a member: the last one written under a key; absent is \<open>undefined\<close>.\<close>

definition get_field :: "string \<Rightarrow> (string \<times> json) list \<Rightarrow> json option" where
  "get_field k ms = map_of ms k"

fun put_field :: "string \<Rightarrow> json \<Rightarrow> (string \<times> json) list \<Rightarrow> (string \<times> json) list" where
  "put_field k v [] = [(k, v)]"
| "put_field k v ((k', v') # ms) = (if k = k' then (k, v) # ms else (k', v') # put_field k v ms)"

lemma get_put_field [simp]:
  "get_field j (put_field k v ms) = (if j = k then Some v else get_field j ms)"
  unfolding get_field_def by (induction ms) auto

subsection \<open>Typed accessors\<close>

fun is_plain_object :: "json \<Rightarrow> bool" where
  "is_plain_object (JObj _) = True"
| "is_plain_object _ = False"

fun as_record :: "json option \<Rightarrow> (string \<times> json) list" where
  "as_record (Some (JObj ms)) = ms"
| "as_record _ = []"

fun as_array :: "json option \<Rightarrow> json list" where
  "as_array (Some (JArr xs)) = xs"
| "as_array _ = []"

fun as_string :: "json option \<Rightarrow> string \<Rightarrow> string" where
  "as_string (Some (JStr s)) d = s"
| "as_string _ d = d"

fun as_number :: "json option \<Rightarrow> jsnum \<Rightarrow> jsnum" where
  "as_number (Some (JNum n)) d = (if js_finite n then n else d)"
| "as_number _ d = d"

fun as_bool :: "json option \<Rightarrow> bool \<Rightarrow> bool" where
  "as_bool (Some (JBool b)) d = b"
| "as_bool _ d = d"

subsection \<open>Bounds\<close>

fun children :: "json \<Rightarrow> json list" where
  "children (JArr xs) = xs"
| "children (JObj ms) = map snd ms"
| "children _ = []"

fun json_nodes :: "json \<Rightarrow> nat" where
  "json_nodes (JArr xs) = Suc (sum_list (map json_nodes xs))"
| "json_nodes (JObj ms) = Suc (sum_list (map (\<lambda>m. json_nodes (snd m)) ms))"
| "json_nodes _ = 1"

fun json_height :: "json \<Rightarrow> nat" where
  "json_height (JArr xs) = Suc (fold max (map json_height xs) 0)"
| "json_height (JObj ms) = Suc (fold max (map (\<lambda>m. json_height (snd m)) ms) 0)"
| "json_height _ = 1"

lemma json_nodes_children: "json_nodes v = Suc (sum_list (map json_nodes (children v)))"
  by (cases v) (auto simp: comp_def)

lemma json_height_children: "json_height v = Suc (fold max (map json_height (children v)) 0)"
  by (cases v) (auto simp: comp_def)

lemma json_nodes_pos: "1 \<le> json_nodes v"
  by (cases v) auto

type_synonym work = "(json \<times> int) list"

definition stack_nodes :: "work \<Rightarrow> nat" where
  "stack_nodes st = sum_list (map (\<lambda>e. json_nodes (fst e)) st)"

definition push_children :: "json \<Rightarrow> int \<Rightarrow> work \<Rightarrow> work" where
  "push_children v d st = rev (map (\<lambda>c. (c, d + 1)) (children v)) @ st"

lemma stack_nodes_push: "Suc (stack_nodes (push_children v d st)) = json_nodes v + stack_nodes st"
  by (simp add: push_children_def stack_nodes_def json_nodes_children [of v] rev_map comp_def
      flip: sum_list_rev [of "map json_nodes (children v)"])

text \<open>The loop of \<open>assertJsonLimits\<close>: the head of the list is the top of the stack.\<close>

function limit_walk :: "int \<Rightarrow> int \<Rightarrow> int \<Rightarrow> work \<Rightarrow> json_limit option" where
  "limit_walk max_depth max_nodes nodes [] = None"
| "limit_walk max_depth max_nodes nodes ((v, d) # st) =
     (let n = nodes + 1 in
      if n > max_nodes then Some LimNodes
      else if d > max_depth then Some LimDepth
      else if n + int (length st) + int (length (children v)) > max_nodes then Some LimNodes
      else limit_walk max_depth max_nodes n (push_children v d st))"
  by pat_completeness auto
termination
proof (relation "measure (\<lambda>(_, _, _, st). stack_nodes st)", goal_cases)
  case 1
  then show ?case by simp
next
  case (2 md mn n v d st x)
  then show ?case using stack_nodes_push [of v d st] by (simp add: stack_nodes_def)
qed

definition assert_json_limits :: "int \<Rightarrow> int \<Rightarrow> json \<Rightarrow> json_limit option" where
  "assert_json_limits max_depth max_nodes v = limit_walk max_depth max_nodes 0 [(v, 1)]"

function depth_walk :: "int \<Rightarrow> work \<Rightarrow> int" where
  "depth_walk m [] = m"
| "depth_walk m ((v, d) # st) = depth_walk (if d > m then d else m) (push_children v d st)"
  by pat_completeness auto
termination
proof (relation "measure (\<lambda>(_, st). stack_nodes st)", goal_cases)
  case 1
  then show ?case by simp
next
  case (2 m v d st)
  then show ?case using stack_nodes_push [of v d st] by (simp add: stack_nodes_def)
qed

definition json_depth :: "json \<Rightarrow> int" where
  "json_depth v = depth_walk 0 [(v, 1)]"

lemma fold_max_ge: "fold max xs (a::nat) = max a (fold max xs 0)"
proof (induction xs arbitrary: a)
  case Nil
  then show ?case by simp
next
  case (Cons x xs)
  show ?case using Cons [of "max x a"] Cons [of x] by (simp add: max.assoc max.commute)
qed

lemma fold_max_le_iff: "fold max xs (0::nat) \<le> m \<longleftrightarrow> (\<forall>x \<in> set xs. x \<le> m)"
proof (induction xs)
  case Nil
  then show ?case by simp
next
  case (Cons x xs)
  then show ?case using fold_max_ge [of xs x] by simp
qed

definition entry_ok :: "int \<Rightarrow> json \<times> int \<Rightarrow> bool" where
  "entry_ok max_depth e \<longleftrightarrow> snd e + int (json_height (fst e)) \<le> max_depth + 1"

lemma entry_ok_children:
  "entry_ok m (v, d) \<longleftrightarrow> d \<le> m \<and> (\<forall>c \<in> set (children v). entry_ok m (c, d + 1))"
proof -
  have "entry_ok m (v, d) \<longleftrightarrow> d + int (fold max (map json_height (children v)) 0) \<le> m"
    by (simp add: entry_ok_def json_height_children [of v])
  also have "\<dots> \<longleftrightarrow> d \<le> m \<and> fold max (map json_height (children v)) 0 \<le> nat (m - d)"
    by linarith
  also have "\<dots> \<longleftrightarrow> d \<le> m \<and> (\<forall>c \<in> set (children v). json_height c \<le> nat (m - d))"
    by (simp add: fold_max_le_iff)
  also have "\<dots> \<longleftrightarrow> d \<le> m \<and> (\<forall>c \<in> set (children v). entry_ok m (c, d + 1))"
    by (auto simp: entry_ok_def)
  finally show ?thesis .
qed

lemma entries_ok_push:
  "(\<forall>e \<in> set (push_children v d st). entry_ok m e) \<longleftrightarrow>
   (\<forall>c \<in> set (children v). entry_ok m (c, d + 1)) \<and> (\<forall>e \<in> set st. entry_ok m e)"
  by (auto simp: push_children_def)

lemma length_le_stack_nodes: "length st \<le> stack_nodes st"
proof (induction st)
  case Nil
  then show ?case by simp
next
  case (Cons e st)
  then show ?case using json_nodes_pos [of "fst e"] by (simp add: stack_nodes_def)
qed

lemma limit_walk_None_iff:
  "limit_walk m mx n st = None \<longleftrightarrow>
   n + int (stack_nodes st) \<le> mx \<and> (\<forall>e \<in> set st. entry_ok m e) \<or> st = []"
proof (induction m mx n st rule: limit_walk.induct)
  case (1 md mx n)
  then show ?case by simp
next
  case (2 m mx n v d st)
  let ?p = "push_children v d st"
  have nodes: "1 + int (stack_nodes ?p) = int (stack_nodes ((v, d) # st))"
    using stack_nodes_push [of v d st] by (simp add: stack_nodes_def)
  have len: "length st + length (children v) \<le> stack_nodes ?p"
    using length_le_stack_nodes [of ?p] by (simp add: push_children_def)
  have empty: "?p = [] \<Longrightarrow> st = [] \<and> children v = []" by (simp add: push_children_def)
  show ?case
  proof (cases "n + 1 > mx \<or> d > m \<or> n + 1 + int (length st) + int (length (children v)) > mx")
    case True
    then show ?thesis
      using nodes len by (auto simp: Let_def entry_ok_children [of m v d])
  next
    case False
    then have IH: "limit_walk m mx (n + 1) ?p = None \<longleftrightarrow>
        n + 1 + int (stack_nodes ?p) \<le> mx \<and> (\<forall>e \<in> set ?p. entry_ok m e) \<or> ?p = []"
      using 2 by simp
    show ?thesis
      using False IH nodes empty
      by (auto simp: Let_def entries_ok_push entry_ok_children [of m v d] stack_nodes_def)
  qed
qed

lemma depth_walk_le_iff:
  "depth_walk m st \<le> b \<longleftrightarrow> m \<le> b \<and> (\<forall>e \<in> set st. entry_ok b e)"
proof (induction m st rule: depth_walk.induct)
  case (1 m)
  then show ?case by simp
next
  case (2 m v d st)
  then show ?case
    by (auto simp: entries_ok_push entry_ok_children [of b v d])
qed

lemma json_height_pos: "1 \<le> json_height v"
  by (simp add: json_height_children [of v])

text \<open>The iterative depth is the height of the tree.\<close>

lemma json_depth_height: "json_depth v = int (json_height v)"
proof (rule antisym)
  show "json_depth v \<le> int (json_height v)"
    using json_height_pos [of v]
    by (simp add: json_depth_def depth_walk_le_iff entry_ok_def del: depth_walk.simps)
  have "json_depth v \<le> json_depth v" by simp
  then show "int (json_height v) \<le> json_depth v"
    unfolding json_depth_def depth_walk_le_iff by (simp add: entry_ok_def del: depth_walk.simps)
qed

subsection \<open>Forbidden keys\<close>

definition forbidden_key :: "string \<Rightarrow> bool" where
  "forbidden_key k \<longleftrightarrow> k \<in> {''__proto__'', ''constructor'', ''prototype''}"

fun clone_sanitized :: "json \<Rightarrow> json" where
  "clone_sanitized (JArr xs) = JArr (map clone_sanitized xs)"
| "clone_sanitized (JObj ms) =
     JObj (map (\<lambda>m. (fst m, clone_sanitized (snd m))) (filter (\<lambda>m. \<not> forbidden_key (fst m)) ms))"
| "clone_sanitized v = v"

definition sanitize_parsed :: "int \<Rightarrow> int \<Rightarrow> json \<Rightarrow> json_limit + json" where
  "sanitize_parsed max_depth max_nodes v =
     (case assert_json_limits max_depth max_nodes v of
        Some l \<Rightarrow> Inl l
      | None \<Rightarrow> Inr (clone_sanitized v))"

fun clean_json :: "json \<Rightarrow> bool" where
  "clean_json (JArr xs) = list_all clean_json xs"
| "clean_json (JObj ms) = list_all (\<lambda>m. \<not> forbidden_key (fst m) \<and> clean_json (snd m)) ms"
| "clean_json _ = True"

lemma clean_clone_sanitized: "clean_json (clone_sanitized v)"
  by (induction v rule: clone_sanitized.induct) (auto simp: list_all_iff)

lemma clone_sanitized_clean: "clean_json v \<Longrightarrow> clone_sanitized v = v"
proof (induction v rule: clone_sanitized.induct)
  case (1 xs)
  then show ?case by (auto simp: list_all_iff intro: map_idI)
next
  case (2 ms)
  then have "filter (\<lambda>m. \<not> forbidden_key (fst m)) ms = ms"
    by (auto simp: list_all_iff)
  with 2 show ?case by (auto simp: list_all_iff intro!: map_idI)
qed auto

subsection \<open>Capped reading\<close>

text \<open>
  What the reader of a request body races for: the next chunk of bytes, a read that returns no
  value, the end of the stream, the deadline or the caller's abort (a read failure is an
  abort too: the error is passed on).
\<close>

datatype read_event = Chunk "string" | NoValue | StreamEnd | DeadlineHit | ReadAbort

datatype read_error = ReadLimit json_limit | ReadAborted | ReadStarved

fun read_loop :: "int \<Rightarrow> read_event list \<Rightarrow> string list \<Rightarrow> int \<Rightarrow> read_error + string" where
  "read_loop max_bytes [] chunks tot = Inl ReadStarved"
| "read_loop max_bytes (StreamEnd # es) chunks tot = Inr (concat chunks)"
| "read_loop max_bytes (NoValue # es) chunks tot = read_loop max_bytes es chunks tot"
| "read_loop max_bytes (DeadlineHit # es) chunks tot = Inl (ReadLimit LimTimeout)"
| "read_loop max_bytes (ReadAbort # es) chunks tot = Inl ReadAborted"
| "read_loop max_bytes (Chunk c # es) chunks tot =
     (let t = tot + int (length c) in
      if t > max_bytes then Inl (ReadLimit LimBytes)
      else read_loop max_bytes es (chunks @ [c]) t)"

definition read_limited_bytes :: "int \<Rightarrow> read_event list option \<Rightarrow> read_error + string" where
  "read_limited_bytes max_bytes body =
     (case body of None \<Rightarrow> Inr [] | Some es \<Rightarrow> read_loop max_bytes es [] 0)"

fun body_of :: "read_event list \<Rightarrow> string" where
  "body_of (Chunk c # es) = c @ body_of es"
| "body_of (NoValue # es) = body_of es"
| "body_of _ = []"

lemma read_loop_Inr: "read_loop mx es chunks tot = Inr s \<Longrightarrow> s = concat chunks @ body_of es"
  by (induction mx es chunks tot rule: read_loop.induct) (auto simp: Let_def split: if_splits)

lemma read_loop_bound:
  "read_loop mx es chunks tot = Inr s \<Longrightarrow> tot = int (length (concat chunks)) \<Longrightarrow>
   tot \<le> b \<Longrightarrow> mx \<le> b \<Longrightarrow> int (length s) \<le> b"
  by (induction mx es chunks tot rule: read_loop.induct) (auto simp: Let_def split: if_splits)

end
