(* ===== verification/Redact.thy ===== *)
theory Redact
  imports JsonValue
begin

text \<open>
  Secret redaction, \<open>src/lib/http/redact.ts\<close>: a small backtracking matcher for the bounded
  regular expressions of that file (greedy repetition, optional groups, alternation of words, a
  mark at the end of group 1), the pattern table, and the exact removal of one known secret by
  splitting and joining.
\<close>

subsection \<open>Bounded regular expressions\<close>

datatype rx = RLit string | RCls "char \<Rightarrow> bool" nat nat | ROpt "rx list" | RAlt "string list" | RMark

fun rx_weight :: "rx \<Rightarrow> nat" where
  "rx_weight (ROpt xs) = Suc (sum_list (map rx_weight xs))"
| "rx_weight (RAlt ws) = Suc (length ws)"
| "rx_weight _ = 1"

definition rxs_weight :: "rx list \<Rightarrow> nat" where
  "rxs_weight xs = sum_list (map rx_weight xs)"

lemma rxs_weight_simps [simp]:
  "rxs_weight [] = 0" "rxs_weight (x # xs) = rx_weight x + rxs_weight xs"
  "rxs_weight (xs @ ys) = rxs_weight xs + rxs_weight ys"
  by (simp_all add: rxs_weight_def)

definition lit_at :: "bool \<Rightarrow> string \<Rightarrow> string \<Rightarrow> bool" where
  "lit_at ci w s = (if ci then starts_with (js_lower w) (js_lower s) else starts_with w s)"

text \<open>
  \<open>rx_match ci rs s m\<close> is the first match in backtracking order: what is left of the input
  after it, and what was left at the mark. \<open>rx_down\<close> tries a repetition from \<open>k\<close> down.
\<close>

function rx_match :: "bool \<Rightarrow> rx list \<Rightarrow> string \<Rightarrow> string \<Rightarrow> (string \<times> string) option"
  and rx_down :: "bool \<Rightarrow> rx list \<Rightarrow> string \<Rightarrow> string \<Rightarrow> nat \<Rightarrow> nat \<Rightarrow> (string \<times> string) option" where
  "rx_match ci [] s m = Some (s, m)"
| "rx_match ci (RMark # rs) s m = rx_match ci rs s s"
| "rx_match ci (RLit w # rs) s m =
     (if lit_at ci w s then rx_match ci rs (drop (length w) s) m else None)"
| "rx_match ci (RCls P lo hi # rs) s m =
     rx_down ci rs s m lo (min hi (length (takeWhile P s)))"
| "rx_match ci (ROpt xs # rs) s m =
     (case rx_match ci (xs @ rs) s m of Some r \<Rightarrow> Some r | None \<Rightarrow> rx_match ci rs s m)"
| "rx_match ci (RAlt [] # rs) s m = None"
| "rx_match ci (RAlt (w # ws) # rs) s m =
     (case (if lit_at ci w s then rx_match ci rs (drop (length w) s) m else None) of
        Some r \<Rightarrow> Some r
      | None \<Rightarrow> rx_match ci (RAlt ws # rs) s m)"
| "rx_down ci rs s m lo k =
     (if k < lo then None
      else (case rx_match ci rs (drop k s) m of
          Some r \<Rightarrow> Some r
        | None \<Rightarrow> (if k = 0 then None else rx_down ci rs s m lo (k - 1))))"
  by pat_completeness auto
termination
  by (relation "measures
      [\<lambda>x. (case x of Inl (ci, rs, s, m) \<Rightarrow> rxs_weight rs | Inr (ci, rs, s, m, lo, k) \<Rightarrow> rxs_weight rs),
       \<lambda>x. (case x of Inl _ \<Rightarrow> 0 | Inr (ci, rs, s, m, lo, k) \<Rightarrow> Suc k)]")
    (auto simp: rxs_weight_def)

record pattern =
  p_ci :: bool
  p_group :: "rx list"
  p_rest :: "rx list"
  p_tail :: string

definition redaction :: string where
  "redaction = ''[redacted]''"

text \<open>Global replacement: group 1 is kept, then the redaction mark and the pattern's tail.\<close>

function replace_global :: "pattern \<Rightarrow> string \<Rightarrow> string" where
  "replace_global p [] = []"
| "replace_global p (c # cs) =
     (case rx_match (p_ci p) (p_group p @ RMark # p_rest p) (c # cs) (c # cs) of
        Some (rest, mark) \<Rightarrow>
          (if length rest < length (c # cs) then
             take (length (c # cs) - length mark) (c # cs) @ redaction @ p_tail p @ replace_global p rest
           else c # replace_global p cs)
      | None \<Rightarrow> c # replace_global p cs)"
  by pat_completeness auto
termination
  by (relation "measure (\<lambda>(p, s). length s)") auto

definition cls :: "string \<Rightarrow> char \<Rightarrow> bool" where
  "cls extra c \<longleftrightarrow> is_alnum c \<or> c \<in> set extra"

definition plain :: "rx list \<Rightarrow> pattern" where
  "plain rs = \<lparr>p_ci = False, p_group = [], p_rest = rs, p_tail = []\<rparr>"

definition header_shape :: "string \<Rightarrow> rx list \<Rightarrow> pattern" where
  "header_shape name opt = \<lparr>p_ci = True,
     p_group = [RLit name, RCls is_ws 0 (10 ^ 6), RCls (\<lambda>c. c \<in> set '':='') 1 1, RCls is_ws 0 (10 ^ 6)],
     p_rest = opt @ [RCls (cls ''._~+/=-'') 8 400], p_tail = []\<rparr>"

definition patterns :: "pattern list" where
  "patterns = [
     plain [RLit ''sk-ant-'', RCls (cls ''_-'') 6 200],
     plain [RLit ''sk-proj-'', RCls (cls ''_-'') 6 200],
     plain [RLit ''sk-'', RCls (cls ''_-'') 12 200],
     plain [RLit ''AIza'', RCls (cls ''_-'') 20 80],
     plain [RLit ''ya29.'', RCls (cls ''._-'') 10 400],
     plain [RLit ''AKIA'', RCls (\<lambda>c. is_digit c \<or> (is_alpha c \<and> lower_char c \<noteq> c)) 12 20],
     plain [RLit ''ASIA'', RCls (\<lambda>c. is_digit c \<or> (is_alpha c \<and> lower_char c \<noteq> c)) 12 20],
     plain [RLit ''gh'', RCls (\<lambda>c. c \<in> set ''pousr'') 1 1, RLit ''_'', RCls is_alnum 20 255],
     plain [RLit ''xox'', RCls (\<lambda>c. c \<in> set ''baprs'') 1 1, RLit ''-'', RCls (cls ''-'') 10 255],
     plain [RLit ''eyJ'', RCls (cls ''_-'') 10 4000, RLit ''.'', RCls (cls ''_-'') 10 4000,
       RLit ''.'', RCls (cls ''_-'') 5 4000],
     header_shape ''authorization'' [ROpt [RLit ''bearer'', RCls is_ws 1 (10 ^ 6)]],
     header_shape ''x-api-key'' [],
     header_shape ''x-goog-api-key'' [],
     header_shape ''mj-api-secret'' [],
     \<lparr>p_ci = True,
       p_group = [RCls (\<lambda>c. c \<in> set ''?&'') 1 1, RAlt [''key'', ''api_key'', ''access_token'', ''token''],
         RLit ''=''],
       p_rest = [RCls (cls ''._~+/=-'') 8 400], p_tail = []\<rparr>,
     \<lparr>p_ci = True,
       p_group = [RLit [CHR 34], RAlt [''api_key'', ''apikey'', ''access_token'', ''accesstoken'',
         ''secret'', ''password'', ''authorization''], RLit [CHR 34], RCls is_ws 0 (10 ^ 6), RLit '':'',
         RCls is_ws 0 (10 ^ 6), RLit [CHR 34]],
       p_rest = [RCls (\<lambda>c. c \<noteq> CHR 34) 4 400, RLit [CHR 34]], p_tail = [CHR 34]\<rparr>]"

definition max_redact_input :: nat where
  "max_redact_input = 128 * 1024"

definition redact :: "string \<Rightarrow> string" where
  "redact input =
     (if input = [] then input
      else fold replace_global patterns
        (if length input > max_redact_input
         then take max_redact_input input @ ''...[truncated]'' else input))"

subsection \<open>Removal of one known secret\<close>

text \<open>The text before and after the first occurrence.\<close>

fun cut :: "string \<Rightarrow> string \<Rightarrow> (string \<times> string) option" where
  "cut sep [] = (if sep = [] then Some ([], []) else None)"
| "cut sep (c # cs) =
     (if starts_with sep (c # cs) then Some ([], drop (length sep) (c # cs))
      else map_option (\<lambda>(a, b). (c # a, b)) (cut sep cs))"

lemma cut_Some: "cut sep s = Some (a, b) \<Longrightarrow> s = a @ sep @ b"
  by (induction sep s arbitrary: a rule: cut.induct)
    (auto simp: starts_with_iff split: if_splits)

lemma cut_None: "cut sep s = None \<Longrightarrow> \<not> contains_str sep s"
  by (induction sep s rule: cut.induct) (auto split: if_splits)

lemma cut_first: "sep \<noteq> [] \<Longrightarrow> cut sep s = Some (a, b) \<Longrightarrow> \<not> contains_str sep a"
proof (induction sep s arbitrary: a rule: cut.induct)
  case (1 sep)
  then show ?case by simp
next
  case (2 sep c cs)
  show ?case
  proof (cases "starts_with sep (c # cs)")
    case True
    with 2 show ?thesis by simp
  next
    case False
    with 2 obtain a' where a': "a = c # a'" "cut sep cs = Some (a', b)" by auto
    have "\<not> starts_with sep (c # a')"
    proof
      assume "starts_with sep (c # a')"
      then obtain t where "c # a' = sep @ t" by (auto simp: starts_with_iff)
      then have "c # cs = sep @ (t @ sep @ b)" using cut_Some [OF a'(2)] by (metis append_Cons append_assoc)
      then show False using False unfolding starts_with_iff by blast
    qed
    then show ?thesis using 2 False a' by auto
  qed
qed

function split_str :: "string \<Rightarrow> string \<Rightarrow> string list" where
  "split_str sep s =
     (if sep = [] then map (\<lambda>c. [c]) s
      else (case cut sep s of None \<Rightarrow> [s] | Some (a, b) \<Rightarrow> a # split_str sep b))"
  by pat_completeness auto
termination
  by (relation "measure (\<lambda>(sep, s). length s)") (auto dest: cut_Some)

declare split_str.simps [simp del]

definition replace_all :: "string \<Rightarrow> string \<Rightarrow> string" where
  "replace_all secret s = join_with redaction (split_str secret s)"

text \<open>\<open>redactKnown\<close>: the scan goes on behind each inserted mark.\<close>

function scrub :: "string \<Rightarrow> string \<Rightarrow> string" where
  "scrub secret s =
     (if secret = [] then s
      else (case cut secret s of
          None \<Rightarrow> s
        | Some (a, b) \<Rightarrow> a @ redaction @ scrub secret b))"
  by pat_completeness auto
termination
  by (relation "measure (\<lambda>(secret, s). length s)") (auto dest: cut_Some)

declare scrub.simps [simp del]

definition redact_known :: "string \<Rightarrow> string option list \<Rightarrow> string" where
  "redact_known input secrets =
     fold (\<lambda>secret text. case secret of
         None \<Rightarrow> text
       | Some w \<Rightarrow> if length w < 6 then text else scrub w text) secrets input"

definition sanitize_outbound :: "string \<Rightarrow> string option list \<Rightarrow> string" where
  "sanitize_outbound input known = redact (redact_known input known)"

definition sanitize_provider_error :: "string \<Rightarrow> string \<Rightarrow> string" where
  "sanitize_provider_error input secret =
     redact (if secret \<noteq> [] then replace_all secret input else input)"

lemma replace_all_scrub: "secret \<noteq> [] \<Longrightarrow> replace_all secret s = scrub secret s"
proof (induction secret s rule: scrub.induct)
  case (1 secret s)
  show ?case
  proof (cases "cut secret s")
    case None
    with 1 show ?thesis by (simp add: replace_all_def split_str.simps [of secret s] scrub.simps [of secret s])
  next
    case (Some ab)
    obtain a b where ab: "ab = (a, b)" by (cases ab)
    have ne: "split_str secret b \<noteq> []"
      using "1.prems" by (subst split_str.simps) (auto split: option.splits)
    have "replace_all secret b = scrub secret b" using 1 Some ab by simp
    with 1 Some ab ne show ?thesis
      by (cases "split_str secret b")
        (simp_all add: replace_all_def split_str.simps [of secret s] scrub.simps [of secret s])
  qed
qed

lemma contains_across:
  assumes "c \<notin> set p" "p \<noteq> []"
  shows "contains_str p (a @ c # b) \<longleftrightarrow> contains_str p a \<or> contains_str p b"
proof (induction a)
  case Nil
  then show ?case using assms by (cases p) auto
next
  case (Cons x a)
  have "starts_with p (x # a @ c # b) \<longleftrightarrow> starts_with p (x # a)"
  proof -
    have "starts_with q (y @ c # b) = starts_with q y" if "c \<notin> set q" for q y
      using that by (induction q y rule: starts_with.induct) auto
    from this [OF assms(1), of "x # a"] show ?thesis by simp
  qed
  with Cons show ?case by auto
qed

lemma scrub_removes:
  assumes "secret \<noteq> []" "CHR ''['' \<notin> set secret" "CHR '']'' \<notin> set secret"
    "\<not> contains_str secret ''redacted''"
  shows "\<not> contains_str secret (scrub secret s)"
  using assms
proof (induction secret s rule: scrub.induct)
  case (1 secret s)
  show ?case
  proof (cases "cut secret s")
    case None
    with 1 cut_None show ?thesis by (simp add: scrub.simps [of secret s])
  next
    case (Some ab)
    obtain a b where ab: "ab = (a, b)" by (cases ab)
    have out: "scrub secret s = a @ CHR ''['' # (''redacted'' @ CHR '']'' # scrub secret b)"
      using 1 Some ab by (simp add: scrub.simps [of secret s] redaction_def)
    have "\<not> contains_str secret a" using cut_first 1 Some ab by blast
    moreover have "\<not> contains_str secret (scrub secret b)" using 1 Some ab by simp
    ultimately show ?thesis
      unfolding out using "1.prems" contains_across by blast
  qed
qed

subsection \<open>Redaction of structured values\<close>

fun redact_walk :: "string \<Rightarrow> json \<Rightarrow> json" where
  "redact_walk secret (JStr s) = JStr (replace_all secret s)"
| "redact_walk secret (JArr xs) = JArr (map (redact_walk secret) xs)"
| "redact_walk secret (JObj ms) =
     JObj (foldl (\<lambda>acc m. put_field (replace_all secret (fst m)) (snd m) acc) []
       (map (\<lambda>m. (fst m, redact_walk secret (snd m))) ms))"
| "redact_walk secret v = v"

definition redact_provider_value :: "int \<Rightarrow> int \<Rightarrow> json \<Rightarrow> string \<Rightarrow> json_limit + json" where
  "redact_provider_value max_depth max_nodes v secret =
     (case sanitize_parsed max_depth max_nodes v of
        Inl l \<Rightarrow> Inl l
      | Inr clean \<Rightarrow> Inr (if secret = [] then clean else redact_walk secret clean))"

definition sensitive_keys :: "string list" where
  "sensitive_keys = [''authorization'', ''api_key'', ''apikey'', ''x-api-key'', ''x-goog-api-key'',
     ''mj-api-secret'', ''key'', ''secret'', ''password'', ''session'', ''cookie'', ''set-cookie'',
     ''access_token'', ''refresh_token'', ''client_secret'', ''key_digest'', ''cipher'', ''auth_tag'']"

fun redact_deep :: "json \<Rightarrow> nat \<Rightarrow> json" where
  "redact_deep (JStr s) d = (if d > 12 then JStr s else JStr (redact s))"
| "redact_deep (JArr xs) d =
     (if d > 12 then JArr xs else JArr (map (\<lambda>x. redact_deep x (d + 1)) xs))"
| "redact_deep (JObj ms) d =
     (if d > 12 then JObj ms
      else JObj (map (\<lambda>m. (fst m,
        if js_lower (fst m) \<in> set sensitive_keys then JStr redaction
        else redact_deep (snd m) (d + 1))) ms))"
| "redact_deep v d = v"

text \<open>Strings a value holds, keys included.\<close>

fun json_texts :: "json \<Rightarrow> string list" where
  "json_texts (JStr s) = [s]"
| "json_texts (JArr xs) = concat (map json_texts xs)"
| "json_texts (JObj ms) = concat (map (\<lambda>m. fst m # json_texts (snd m)) ms)"
| "json_texts _ = []"

lemma texts_put_field:
  "t \<in> set (concat (map (\<lambda>m. fst m # json_texts (snd m)) (put_field k v ms))) \<Longrightarrow>
   t = k \<or> t \<in> set (json_texts v) \<or> t \<in> set (concat (map (\<lambda>m. fst m # json_texts (snd m)) ms))"
  by (induction ms rule: put_field.induct) (auto split: if_splits)

lemma texts_fold_put:
  "t \<in> set (concat (map (\<lambda>m. fst m # json_texts (snd m))
      (foldl (\<lambda>acc m. put_field (f (fst m)) (snd m) acc) acc ms))) \<Longrightarrow>
   t \<in> set (concat (map (\<lambda>m. fst m # json_texts (snd m)) acc)) \<or>
   (\<exists>m \<in> set ms. t = f (fst m) \<or> t \<in> set (json_texts (snd m)))"
proof (induction ms arbitrary: acc)
  case Nil
  then show ?case by simp
next
  case (Cons m ms)
  then show ?case using texts_put_field [of t "f (fst m)" "snd m" acc] by fastforce
qed

lemma redact_walk_texts: "t \<in> set (json_texts (redact_walk secret v)) \<Longrightarrow> \<exists>u. t = replace_all secret u"
proof (induction secret v arbitrary: t rule: redact_walk.induct)
  case (1 secret s)
  then show ?case by auto
next
  case (2 secret xs)
  then show ?case by fastforce
next
  case (3 secret ms)
  let ?ms = "map (\<lambda>m. (fst m, redact_walk secret (snd m))) ms"
  from "3.prems" have "\<exists>m \<in> set ?ms. t = replace_all secret (fst m) \<or> t \<in> set (json_texts (snd m))"
    using texts_fold_put [of t "replace_all secret" "[]" ?ms] by simp
  then obtain m where m: "m \<in> set ms"
    "t = replace_all secret (fst m) \<or> t \<in> set (json_texts (redact_walk secret (snd m)))" by auto
  with "3.IH" show ?case by blast
qed auto

subsection \<open>Log helpers\<close>

definition loggable :: "string list" where
  "loggable = [''content-type'', ''content-length'', ''user-agent'', ''accept'', ''accept-encoding'',
     ''anthropic-version'', ''anthropic-beta'', ''openai-beta'', ''x-request-id'']"

definition loggable_headers :: "(string \<times> string) list \<Rightarrow> (string \<times> string) list" where
  "loggable_headers hs =
     map (\<lambda>(k, v). (js_lower k, take 256 (redact v))) (filter (\<lambda>(k, v). js_lower k \<in> set loggable) hs)"

definition coarsen_ip :: "string \<Rightarrow> string" where
  "coarsen_ip ip =
     (if ip = [] then []
      else if contains_str '':'' ip then
        join_with '':'' (take 2 (split_on CHR '':'' ip)) @ ''::/32''
      else (let octets = split_on CHR ''.'' ip in
        if length octets \<noteq> 4 then []
        else join_with ''.'' (take 3 octets) @ ''.x''))"

end
