(* ===== verification/JsonText.thy ===== *)
theory JsonText
  imports JsonValue
begin

text \<open>
  \<open>JSON.parse\<close> as the code uses it: a recursive-descent reader over the grammar of JSON, with
  the input length as fuel (every nested value consumes at least one character). Members are
  stored as \<open>JSON.parse\<close> stores them, the last value of a repeated key in the first position.
  Escapes above code unit 255 lie outside the string model and make the reader fail. Then the
  byte-capped entry point \<open>safeJsonParse\<close>.
\<close>

definition json_ws :: "string \<Rightarrow> string" where
  "json_ws s = dropWhile (\<lambda>c. c \<in> {CHR '' '', CHR 9, CHR 10, CHR 13}) s"

fun json_chars :: "string \<Rightarrow> (string \<times> string) option" where
  "json_chars [] = None"
| "json_chars (c # cs) =
     (if c = CHR 34 then Some ([], cs)
      else if c = CHR 92 then
        (case cs of
           e # r \<Rightarrow>
             if e = CHR ''u'' then
               (let h = take 4 r in
                if length h = 4 \<and> list_all is_hex h \<and> hex_digits_val h < 256
                then map_option (\<lambda>(t, u). (char_of (hex_digits_val h) # t, u)) (json_chars (drop 4 r))
                else None)
             else
               (case map_of [(CHR 34, CHR 34), (CHR 92, CHR 92), (CHR ''/'', CHR ''/''), (CHR ''b'', CHR 8),
                   (CHR ''f'', CHR 12), (CHR ''n'', CHR 10), (CHR ''r'', CHR 13), (CHR ''t'', CHR 9)] e of
                  None \<Rightarrow> None
                | Some x \<Rightarrow> map_option (\<lambda>(t, u). (x # t, u)) (json_chars r))
         | [] \<Rightarrow> None)
      else if (of_char c :: nat) < 32 then None
      else map_option (\<lambda>(t, u). (c # t, u)) (json_chars cs))"

definition number_char :: "char \<Rightarrow> bool" where
  "number_char c \<longleftrightarrow> is_digit c \<or> c \<in> set ''+-.eE''"

text \<open>The JSON number grammar is narrower than \<open>Number\<close>: no leading plus, zero or point.\<close>

definition json_number_ok :: "string \<Rightarrow> bool" where
  "json_number_ok t =
     (let u = (if starts_with ''-'' t then tl t else t);
          ip = takeWhile is_digit u; r = dropWhile is_digit u
      in ip \<noteq> [] \<and> (length ip = 1 \<or> hd ip \<noteq> CHR ''0'') \<and>
         (if starts_with ''.'' r then takeWhile is_digit (tl r) \<noteq> [] \<and>
            exp_part (dropWhile is_digit (tl r)) \<noteq> None
          else exp_part r \<noteq> None))"

definition json_num :: "string \<Rightarrow> (json \<times> string) option" where
  "json_num s =
     (let t = takeWhile number_char s in
      if json_number_ok t then Some (JNum (number_of_string t), dropWhile number_char s) else None)"

fun json_value :: "nat \<Rightarrow> string \<Rightarrow> (json \<times> string) option"
  and json_elems :: "nat \<Rightarrow> json list \<Rightarrow> string \<Rightarrow> (json \<times> string) option"
  and json_members :: "nat \<Rightarrow> (string \<times> json) list \<Rightarrow> string \<Rightarrow> (json \<times> string) option" where
  "json_value 0 s = None"
| "json_value (Suc n) s =
     (case json_ws s of
        [] \<Rightarrow> None
      | c # cs \<Rightarrow>
          if c = CHR 34 then map_option (\<lambda>(t, r). (JStr t, r)) (json_chars cs)
          else if c = CHR ''['' then
            (if starts_with '']'' (json_ws cs) then Some (JArr [], tl (json_ws cs))
             else json_elems n [] cs)
          else if c = CHR ''{'' then
            (if starts_with ''}'' (json_ws cs) then Some (JObj [], tl (json_ws cs))
             else json_members n [] cs)
          else if starts_with ''true'' (c # cs) then Some (JBool True, drop 4 (c # cs))
          else if starts_with ''false'' (c # cs) then Some (JBool False, drop 5 (c # cs))
          else if starts_with ''null'' (c # cs) then Some (JNull, drop 4 (c # cs))
          else json_num (c # cs))"
| "json_elems 0 xs s = None"
| "json_elems (Suc n) xs s =
     (case json_value n s of
        None \<Rightarrow> None
      | Some (v, r) \<Rightarrow>
          (let r' = json_ws r in
           if starts_with '','' r' then json_elems n (xs @ [v]) (tl r')
           else if starts_with '']'' r' then Some (JArr (xs @ [v]), tl r')
           else None))"
| "json_members 0 ms s = None"
| "json_members (Suc n) ms s =
     (case json_ws s of
        c # cs \<Rightarrow>
          if c = CHR 34 then
            (case json_chars cs of
               None \<Rightarrow> None
             | Some (k, r) \<Rightarrow>
                 (let r1 = json_ws r in
                  if \<not> starts_with '':'' r1 then None
                  else (case json_value n (tl r1) of
                      None \<Rightarrow> None
                    | Some (v, r2) \<Rightarrow>
                        (let r3 = json_ws r2 in
                         if starts_with '','' r3 then json_members n (put_field k v ms) (tl r3)
                         else if starts_with ''}'' r3 then Some (JObj (put_field k v ms), tl r3)
                         else None))))
          else None
      | [] \<Rightarrow> None)"

definition json_parse :: "string \<Rightarrow> json option" where
  "json_parse s =
     (case json_value (2 * length s + 2) s of
        Some (v, r) \<Rightarrow> if json_ws r = [] then Some v else None
      | None \<Rightarrow> None)"

datatype json_error = SyntaxErr | LimitErr json_limit

definition safe_json_parse :: "int \<Rightarrow> int \<Rightarrow> int \<Rightarrow> string \<Rightarrow> json_error + json" where
  "safe_json_parse max_bytes max_depth max_nodes s =
     (if int (utf8_len s) > max_bytes then Inl (LimitErr LimBytes)
      else (case json_parse s of
          None \<Rightarrow> Inl SyntaxErr
        | Some v \<Rightarrow>
            (case assert_json_limits max_depth max_nodes v of
               Some l \<Rightarrow> Inl (LimitErr l)
             | None \<Rightarrow> Inr (clone_sanitized v))))"

lemma json_parse_examples:
  "json_parse ''[1, true, null]'' = Some (JArr [JNum (JFin 1), JBool True, JNull])"
  "json_parse ''{}'' = Some (JObj [])"
  "json_parse ''01'' = None"
  by code_simp+

end
