(* ===== verification/Errors.thy ===== *)
theory Errors
  imports Redact JsonText
begin

text \<open>
  The error taxonomy, \<open>src/lib/http/errors.ts\<close>: the stable codes, the kinds, the error record
  with its redacted message, the constructors, the wrapping of anything thrown, the errors made
  from an upstream answer and the retry matrix over upstream statuses.
\<close>

datatype error_code =
    MissingCredentials | InvalidApiKey | KeyDisabled | KeyExpired | KeyExhausted | IpNotAllowed
  | ModelNotAllowed | InsufficientPermissions | UserDisabled
  | InsufficientQuota | QuotaReservationFailed
  | RateLimitExceeded | TpmLimitExceeded | ConcurrencyLimit | PayloadTooLarge
  | InvalidRequest | MissingModel | UnsupportedEndpoint | UnsupportedParameter | MalformedJson
  | NoChannelAvailable | AllChannelsFailed | ChannelDisabled
  | UpstreamErr | UpstreamTimeout | UpstreamUnreachable | MalformedUpstreamBody | StreamIdleTimeout
  | SsrfBlocked | ContentFiltered
  | InternalErr | NotImplemented | NotFound | ServiceUnavailable | ConfigurationErr

datatype error_kind = InvalidRequestError | AuthenticationError | PermissionError | NotFoundError
  | RateLimitError | InsufficientQuotaError | ApiError | OverloadedError

record gateway_error_init =
  i_code :: error_code
  i_status :: int
  i_message :: string
  i_kind :: "error_kind option"
  i_param :: "string option"
  i_retryable :: "bool option"
  i_upstream_status :: "int option"
  i_channel_id :: "string option"
  i_details :: "(string \<times> jsnum) list"

record gateway_error =
  ge_code :: error_code
  ge_status :: int
  ge_message :: string
  ge_kind :: error_kind
  ge_param :: "string option"
  ge_retryable :: bool
  ge_upstream_status :: "int option"
  ge_channel_id :: "string option"
  ge_details :: "(string \<times> jsnum) list"

definition kind_for_status :: "int \<Rightarrow> error_kind" where
  "kind_for_status status =
     (if status = 401 then AuthenticationError
      else if status = 403 then PermissionError
      else if status = 404 then NotFoundError
      else if status = 429 then RateLimitError
      else if status = 402 then InsufficientQuotaError
      else if status \<ge> 500 then ApiError
      else InvalidRequestError)"

definition gateway_error :: "gateway_error_init \<Rightarrow> gateway_error" where
  "gateway_error i = \<lparr>
     ge_code = i_code i,
     ge_status = i_status i,
     ge_message = redact (i_message i),
     ge_kind = (case i_kind i of Some k \<Rightarrow> k | None \<Rightarrow> kind_for_status (i_status i)),
     ge_param = i_param i,
     ge_retryable = (case i_retryable i of Some r \<Rightarrow> r | None \<Rightarrow> False),
     ge_upstream_status = i_upstream_status i,
     ge_channel_id = i_channel_id i,
     ge_details = i_details i\<rparr>"

text \<open>An initialiser with the required fields only.\<close>

definition err_init :: "error_code \<Rightarrow> int \<Rightarrow> string \<Rightarrow> gateway_error_init" where
  "err_init code status msg = \<lparr>i_code = code, i_status = status, i_message = msg, i_kind = None,
     i_param = None, i_retryable = None, i_upstream_status = None, i_channel_id = None,
     i_details = []\<rparr>"

definition invalid_request :: "string \<Rightarrow> string option \<Rightarrow> gateway_error" where
  "invalid_request msg param = gateway_error ((err_init InvalidRequest 400 msg)\<lparr>i_param := param\<rparr>)"

definition unauthorized :: "string \<Rightarrow> error_code \<Rightarrow> gateway_error" where
  "unauthorized msg code = gateway_error (err_init code 401 msg)"

definition forbidden :: "string \<Rightarrow> error_code \<Rightarrow> gateway_error" where
  "forbidden msg code = gateway_error (err_init code 403 msg)"

definition not_found :: "string \<Rightarrow> gateway_error" where
  "not_found msg = gateway_error (err_init NotFound 404 msg)"

definition insufficient_quota :: "string \<Rightarrow> gateway_error" where
  "insufficient_quota msg =
     gateway_error ((err_init InsufficientQuota 402 msg)\<lparr>i_kind := Some InsufficientQuotaError\<rparr>)"

definition rate_limited :: "string \<Rightarrow> int option \<Rightarrow> gateway_error" where
  "rate_limited msg retry_after = gateway_error ((err_init RateLimitExceeded 429 msg)
     \<lparr>i_details := (case retry_after of None \<Rightarrow> [] | Some s \<Rightarrow> [(''retryAfterSec'', js_int s)])\<rparr>)"

definition payload_too_large :: "string \<Rightarrow> gateway_error" where
  "payload_too_large msg = gateway_error (err_init PayloadTooLarge 413 msg)"

definition not_implemented :: "string \<Rightarrow> gateway_error" where
  "not_implemented msg = gateway_error (err_init NotImplemented 501 msg)"

definition quoted :: "string \<Rightarrow> string" where
  "quoted s = CHR 34 # s @ [CHR 34]"

definition no_channel_available :: "string \<Rightarrow> string \<Rightarrow> gateway_error" where
  "no_channel_available model grp = gateway_error ((err_init NoChannelAvailable 503
     (''no channel is able to serve model '' @ quoted model @ '' for group '' @ quoted grp))
       \<lparr>i_kind := Some OverloadedError\<rparr>)"

definition upstream_timeout :: "string \<Rightarrow> gateway_error" where
  "upstream_timeout msg =
     gateway_error ((err_init UpstreamTimeout 504 msg)\<lparr>i_retryable := Some False\<rparr>)"

definition malformed_upstream_body :: "string \<Rightarrow> gateway_error" where
  "malformed_upstream_body msg =
     gateway_error ((err_init MalformedUpstreamBody 502 msg)\<lparr>i_retryable := Some False\<rparr>)"

definition ssrf_blocked :: "string \<Rightarrow> gateway_error" where
  "ssrf_blocked reason =
     gateway_error (err_init SsrfBlocked 403 (''upstream address rejected: '' @ reason))"

definition internal_error :: "string \<Rightarrow> gateway_error" where
  "internal_error msg = gateway_error (err_init InternalErr 500 msg)"

definition configuration_error :: "string \<Rightarrow> gateway_error" where
  "configuration_error msg = gateway_error (err_init ConfigurationErr 500 msg)"

text \<open>What JavaScript code can throw, as far as \<open>GatewayError.from\<close> tells it apart.\<close>

datatype thrown =
    Gateway gateway_error
  | ConfigThrown string
  | SyntaxThrown
  | JsonLimitThrown json_limit string
  | TimeoutThrown string
  | AbortThrown
  | OtherThrown

fun error_from :: "thrown \<Rightarrow> gateway_error" where
  "error_from (Gateway e) = e"
| "error_from (ConfigThrown msg) = gateway_error (err_init ConfigurationErr 503 msg)"
| "error_from SyntaxThrown = invalid_request ''request body is not valid JSON'' None"
| "error_from (JsonLimitThrown l msg) =
     (case l of
        LimTimeout \<Rightarrow> gateway_error (err_init InvalidRequest 408 msg)
      | LimBytes \<Rightarrow> payload_too_large msg
      | _ \<Rightarrow> invalid_request msg None)"
| "error_from (TimeoutThrown msg) = upstream_timeout msg"
| "error_from AbortThrown = gateway_error ((err_init UpstreamTimeout 499 ''client closed the request'')
     \<lparr>i_retryable := Some False\<rparr>)"
| "error_from OtherThrown = gateway_error (err_init InternalErr 500 ''internal server error'')"

subsection \<open>Upstream statuses\<close>

text \<open>The retry matrix, branch by branch.\<close>

definition is_retryable_status :: "int \<Rightarrow> bool" where
  "is_retryable_status status =
     (if status \<ge> 200 \<and> status < 300 then False
      else if status = 400 \<or> status = 408 \<or> status = 504 \<or> status = 524 then False
      else if status \<ge> 100 \<and> status < 200 then True
      else if status \<ge> 300 \<and> status < 400 then True
      else if status \<ge> 401 \<and> status \<le> 407 then True
      else if status \<ge> 409 \<and> status < 500 then True
      else if status \<ge> 500 \<and> status \<le> 503 then True
      else if status \<ge> 505 \<and> status \<le> 523 then True
      else if status \<ge> 525 \<and> status \<le> 599 then True
      else False)"

definition normalize_upstream_status :: "int \<Rightarrow> int" where
  "normalize_upstream_status status =
     (if status = 401 \<or> status = 403 then 502
      else if status < 400 then 502
      else if status > 599 then 502
      else status)"

definition str_field :: "string \<Rightarrow> json option \<Rightarrow> string" where
  "str_field k v = as_string (get_field k (as_record v)) []"

text \<open>
  The human message of an upstream body: \<open>error\<close> as a string or \<open>error.message\<close>, then
  \<open>message\<close>, then \<open>[0].error.message\<close> of an array.
\<close>

definition upstream_message :: "json \<Rightarrow> string" where
  "upstream_message parsed =
     (let err = get_field ''error'' (as_record (Some parsed));
          m1 = (case err of Some (JStr s) \<Rightarrow> s | _ \<Rightarrow> str_field ''message'' err);
          m2 = (if m1 = [] then str_field ''message'' (Some parsed) else m1);
          m3 = (if m2 = [] then
                  (case parsed of
                     JArr (x # _) \<Rightarrow> str_field ''message'' (get_field ''error'' (as_record (Some x)))
                   | _ \<Rightarrow> [])
                else m2)
      in m3)"

definition from_upstream :: "int \<Rightarrow> string \<Rightarrow> string option \<Rightarrow> gateway_error" where
  "from_upstream status body_text channel_id =
     (let message = (case json_parse (take 8192 body_text) of
            Some parsed \<Rightarrow> upstream_message parsed
          | None \<Rightarrow> []);
          text = (if message = [] then ''upstream returned HTTP '' @ show_int status else message)
      in gateway_error \<lparr>i_code = UpstreamErr, i_status = normalize_upstream_status status,
           i_message = take 1000 text, i_kind = None, i_param = None,
           i_retryable = Some (is_retryable_status status), i_upstream_status = Some status,
           i_channel_id = channel_id, i_details = []\<rparr>)"

lemmas error_defs = gateway_error_def err_init_def invalid_request_def unauthorized_def forbidden_def
  not_found_def insufficient_quota_def rate_limited_def payload_too_large_def not_implemented_def
  no_channel_available_def upstream_timeout_def malformed_upstream_body_def ssrf_blocked_def
  internal_error_def configuration_error_def

lemma error_codes [simp]:
  "ge_code (invalid_request m p) = InvalidRequest" "ge_code (unauthorized m c) = c"
  "ge_code (forbidden m c) = c" "ge_code (not_found m) = NotFound"
  "ge_code (insufficient_quota m) = InsufficientQuota" "ge_code (rate_limited m r) = RateLimitExceeded"
  "ge_code (no_channel_available m g) = NoChannelAvailable" "ge_code (ssrf_blocked m) = SsrfBlocked"
  "ge_code (configuration_error m) = ConfigurationErr" "ge_code (payload_too_large m) = PayloadTooLarge"
  by (simp_all add: error_defs)

lemma error_statuses [simp]:
  "ge_status (invalid_request m p) = 400" "ge_status (unauthorized m c) = 401"
  "ge_status (forbidden m c) = 403" "ge_status (not_found m) = 404"
  "ge_status (insufficient_quota m) = 402" "ge_status (rate_limited m r) = 429"
  "ge_status (no_channel_available m g) = 503" "ge_status (ssrf_blocked m) = 403"
  "ge_status (configuration_error m) = 500" "ge_status (payload_too_large m) = 413"
  by (simp_all add: error_defs)

lemma error_upstream [simp]:
  "ge_upstream_status (invalid_request m p) = None" "ge_upstream_status (unauthorized m c) = None"
  "ge_upstream_status (forbidden m c) = None" "ge_upstream_status (not_found m) = None"
  "ge_upstream_status (insufficient_quota m) = None" "ge_upstream_status (rate_limited m r) = None"
  "ge_upstream_status (no_channel_available m g) = None" "ge_upstream_status (ssrf_blocked m) = None"
  "ge_upstream_status (configuration_error m) = None"
  "ge_retryable (invalid_request m p) = False" "ge_retryable (unauthorized m c) = False"
  "ge_retryable (forbidden m c) = False" "ge_retryable (not_found m) = False"
  "ge_retryable (insufficient_quota m) = False" "ge_retryable (rate_limited m r) = False"
  "ge_retryable (no_channel_available m g) = False" "ge_retryable (ssrf_blocked m) = False"
  "ge_retryable (configuration_error m) = False"
  by (simp_all add: error_defs)

text \<open>The matrix in one line: every status from 100 to 599 but 2xx, 400, 408, 504 and 524.\<close>

lemma is_retryable_status_iff:
  "is_retryable_status s \<longleftrightarrow> 100 \<le> s \<and> s \<le> 599 \<and> \<not> (200 \<le> s \<and> s < 300) \<and>
     s \<notin> {400, 408, 504, 524}"
  by (auto simp: is_retryable_status_def)

lemma normalize_upstream_status_range:
  "400 \<le> normalize_upstream_status s \<and> normalize_upstream_status s \<le> 599 \<and>
   normalize_upstream_status s \<notin> {401, 403}"
  by (auto simp: normalize_upstream_status_def)

end
