(* ===== verification/Env.thy ===== *)
theory Env
  imports JsNumber
begin

text \<open>
  Configuration, \<open>src/lib/config/env.ts\<close>: the readers of one environment variable, a getter per
  configuration value (a function of the environment, since every getter reads it afresh) and
  the validation of a production configuration.
\<close>

type_synonym env = "string \<Rightarrow> string option"

definition env_str :: "env \<Rightarrow> string \<Rightarrow> string \<Rightarrow> string" where
  "env_str env name fallback =
     (case env name of
        None \<Rightarrow> fallback
      | Some raw \<Rightarrow> (let trimmed = js_trim raw in if trimmed = [] then fallback else trimmed))"

definition env_num :: "env \<Rightarrow> string \<Rightarrow> rat \<Rightarrow> rat" where
  "env_num env name fallback =
     (case env name of
        None \<Rightarrow> fallback
      | Some raw \<Rightarrow>
          if js_trim raw = [] then fallback
          else (let parsed = number_of_string raw in
                if js_finite parsed then js_rat parsed else fallback))"

definition trunc_rat :: "rat \<Rightarrow> int" where
  "trunc_rat x = (if 0 \<le> x then \<lfloor>x\<rfloor> else \<lceil>x\<rceil>)"

definition env_int :: "env \<Rightarrow> string \<Rightarrow> int \<Rightarrow> int" where
  "env_int env name fallback = trunc_rat (env_num env name (of_int fallback))"

definition env_bool :: "env \<Rightarrow> string \<Rightarrow> bool \<Rightarrow> bool" where
  "env_bool env name fallback =
     (case env name of
        None \<Rightarrow> fallback
      | Some raw \<Rightarrow>
          if js_trim raw = [] then fallback
          else (let v = js_lower (js_trim raw) in
                if v \<in> {''1'', ''true'', ''yes'', ''on''} then True
                else if v \<in> {''0'', ''false'', ''no'', ''off''} then False
                else fallback))"

definition env_list :: "env \<Rightarrow> string \<Rightarrow> string list \<Rightarrow> string list" where
  "env_list env name fallback =
     (case env name of
        None \<Rightarrow> fallback
      | Some raw \<Rightarrow>
          if js_trim raw = [] then fallback
          else filter (\<lambda>p. p \<noteq> []) (map js_trim (split_on CHR '','' raw)))"

datatype node_env = Development | Test | Production

definition node_env :: "env \<Rightarrow> node_env" where
  "node_env env = (let v = env_str env ''NODE_ENV'' ''development'' in
     if v = ''production'' then Production else if v = ''test'' then Test else Development)"

definition is_production :: "env \<Rightarrow> bool" where
  "is_production env \<longleftrightarrow> node_env env = Production"

subsection \<open>Getters: storage, billing, retries and timeouts\<close>

definition cfg_mongo_uri :: "env \<Rightarrow> string" where
  "cfg_mongo_uri env = env_str env ''MONGODB_URI'' []"

definition cfg_redis_url :: "env \<Rightarrow> string" where
  "cfg_redis_url env = env_str env ''UPSTASH_REDIS_REST_URL'' []"

definition cfg_redis_token :: "env \<Rightarrow> string" where
  "cfg_redis_token env = env_str env ''UPSTASH_REDIS_REST_TOKEN'' []"

definition cfg_coordination_backend :: "env \<Rightarrow> string" where
  "cfg_coordination_backend env = js_lower (env_str env ''COORDINATION_BACKEND'' ''auto'')"

definition cfg_key_pepper :: "env \<Rightarrow> string" where
  "cfg_key_pepper env = env_str env ''KEY_PEPPER'' []"

definition cfg_quota_per_unit :: "env \<Rightarrow> rat" where
  "cfg_quota_per_unit env = env_num env ''QUOTA_PER_UNIT'' 500000"

definition cfg_pre_consumed_quota :: "env \<Rightarrow> rat" where
  "cfg_pre_consumed_quota env = env_num env ''PRE_CONSUMED_QUOTA'' 1000"

definition cfg_retry_times :: "env \<Rightarrow> int" where
  "cfg_retry_times env = env_int env ''RETRY_TIMES'' 3"

definition cfg_retry_budget_ms :: "env \<Rightarrow> int" where
  "cfg_retry_budget_ms env = env_int env ''RETRY_BUDGET_MS'' 60000"

definition cfg_upstream_request_timeout_ms :: "env \<Rightarrow> int" where
  "cfg_upstream_request_timeout_ms env =
     max 1000 (min 300000 (env_int env ''UPSTREAM_REQUEST_TIMEOUT_MS'' 300000))"

definition cfg_request_body_timeout_ms :: "env \<Rightarrow> int" where
  "cfg_request_body_timeout_ms env =
     max 1000 (min 60000 (env_int env ''REQUEST_BODY_TIMEOUT_MS'' 30000))"

definition cfg_max_request_body_bytes :: "env \<Rightarrow> int" where
  "cfg_max_request_body_bytes env = trunc_rat (env_num env ''MAX_REQUEST_BODY_MB'' 32 * 1024 * 1024)"

definition cfg_max_sse_line_bytes :: "env \<Rightarrow> int" where
  "cfg_max_sse_line_bytes env = env_int env ''MAX_SSE_LINE_BYTES'' 1048576"

definition cfg_max_json_depth :: "env \<Rightarrow> int" where
  "cfg_max_json_depth env = env_int env ''MAX_JSON_DEPTH'' 64"

definition cfg_max_json_nodes :: "env \<Rightarrow> int" where
  "cfg_max_json_nodes env = env_int env ''MAX_JSON_NODES'' 200000"

definition cfg_allow_plaintext_upstream :: "env \<Rightarrow> bool" where
  "cfg_allow_plaintext_upstream env \<longleftrightarrow>
     \<not> is_production env \<and> env_bool env ''ALLOW_PLAINTEXT_UPSTREAM'' False"

subsection \<open>Getters: channel health, cache lifetimes, rate limits, network trust\<close>

definition cfg_channel_failure_threshold :: "env \<Rightarrow> int" where
  "cfg_channel_failure_threshold env = env_int env ''CHANNEL_FAILURE_THRESHOLD'' 5"

definition cfg_channel_cooldown_sec :: "env \<Rightarrow> int" where
  "cfg_channel_cooldown_sec env = env_int env ''CHANNEL_COOLDOWN_SEC'' 60"

definition cfg_channel_auto_disable_fails :: "env \<Rightarrow> int" where
  "cfg_channel_auto_disable_fails env = env_int env ''CHANNEL_AUTO_DISABLE_FAILS'' 3"

definition cfg_ability_cache_ttl_sec :: "env \<Rightarrow> int" where
  "cfg_ability_cache_ttl_sec env = env_int env ''ABILITY_CACHE_TTL_SEC'' 60"

definition cfg_channel_cache_ttl_sec :: "env \<Rightarrow> int" where
  "cfg_channel_cache_ttl_sec env = env_int env ''CHANNEL_CACHE_TTL_SEC'' 300"

definition cfg_token_cache_ttl_sec :: "env \<Rightarrow> int" where
  "cfg_token_cache_ttl_sec env = env_int env ''TOKEN_CACHE_TTL_SEC'' 600"

definition cfg_affinity_ttl_sec :: "env \<Rightarrow> int" where
  "cfg_affinity_ttl_sec env = env_int env ''AFFINITY_TTL_SEC'' 1800"

definition cfg_pricing_cache_ttl_sec :: "env \<Rightarrow> int" where
  "cfg_pricing_cache_ttl_sec env = env_int env ''PRICING_CACHE_TTL_SEC'' 300"

definition cfg_default_rpm :: "env \<Rightarrow> int" where
  "cfg_default_rpm env = env_int env ''DEFAULT_RPM'' 60"

definition cfg_default_tpm :: "env \<Rightarrow> int" where
  "cfg_default_tpm env = env_int env ''DEFAULT_TPM'' 0"

definition cfg_default_ip_rpm :: "env \<Rightarrow> int" where
  "cfg_default_ip_rpm env = env_int env ''DEFAULT_IP_RPM'' 120"

definition cfg_default_success_per_window :: "env \<Rightarrow> int" where
  "cfg_default_success_per_window env = env_int env ''DEFAULT_SUCCESS_PER_WINDOW'' 1000"

definition cfg_default_window_sec :: "env \<Rightarrow> int" where
  "cfg_default_window_sec env = env_int env ''DEFAULT_WINDOW_SEC'' 60"

definition cfg_trusted_proxy_hops :: "env \<Rightarrow> int" where
  "cfg_trusted_proxy_hops env = env_int env ''TRUSTED_PROXY_HOPS'' 1"

definition cfg_upstream_domain_allowlist :: "env \<Rightarrow> string list" where
  "cfg_upstream_domain_allowlist env = env_list env ''UPSTREAM_DOMAIN_ALLOWLIST'' []"

definition cfg_upstream_domain_denylist :: "env \<Rightarrow> string list" where
  "cfg_upstream_domain_denylist env = env_list env ''UPSTREAM_DOMAIN_DENYLIST'' []"

definition cfg_upstream_allowed_ports :: "env \<Rightarrow> int list" where
  "cfg_upstream_allowed_ports env =
     map js_to_int (filter (\<lambda>p. js_is_integer p \<and> js_lt (JFin 0) p)
       (map number_of_string (env_list env ''UPSTREAM_ALLOWED_PORTS'' [''443'', ''8443''])))"

definition cfg_min_auth_latency_ms :: "env \<Rightarrow> int" where
  "cfg_min_auth_latency_ms env = env_int env ''MIN_AUTH_LATENCY_MS'' 30"

subsection \<open>Validation\<close>

definition required_secrets :: "string list" where
  "required_secrets = [''MONGODB_URI'', ''KEY_PEPPER'', ''CHANNEL_KEY_MASTER'', ''SESSION_SECRET'',
     ''CRON_SECRET'', ''IP_HASH_SECRET'']"

definition placeholder_words :: "string list" where
  "placeholder_words = [''changeme'', ''example'', ''test'', ''dev'', ''secret'', ''password'']"

definition is_secret_name :: "string \<Rightarrow> bool" where
  "is_secret_name name \<longleftrightarrow>
     ends_with ''SECRET'' name \<or> name = ''KEY_PEPPER'' \<or> name = ''CHANNEL_KEY_MASTER''"

definition secret_issues :: "env \<Rightarrow> string \<Rightarrow> (string \<times> string) list" where
  "secret_issues env name =
     (let value = env_str env name [] in
      if value = [] then [(name, ''missing'')]
      else if is_secret_name name then
        (if length value < 32 then [(name, ''too short (need >= 32 chars of entropy)'')] else []) @
        (if list_ex (\<lambda>w. starts_with w (js_lower value)) placeholder_words
         then [(name, ''looks like a placeholder value'')] else [])
      else [])"

definition validate_config :: "env \<Rightarrow> (string \<times> string) list" where
  "validate_config env =
     concat (map (secret_issues env) required_secrets) @
     (let backend = cfg_coordination_backend env in
      (if backend \<notin> {''auto'', ''mongo'', ''upstash''}
       then [(''COORDINATION_BACKEND'', ''must be auto, mongo or upstash'')] else []) @
      (if backend = ''upstash'' \<or>
          (backend = ''auto'' \<and> (cfg_redis_url env \<noteq> [] \<or> cfg_redis_token env \<noteq> []))
       then (if cfg_redis_url env = [] then [(''UPSTASH_REDIS_REST_URL'', ''missing'')] else []) @
            (if cfg_redis_token env = [] then [(''UPSTASH_REDIS_REST_TOKEN'', ''missing'')] else [])
       else [])) @
     (if cfg_quota_per_unit env \<le> 0 then [(''QUOTA_PER_UNIT'', ''must be > 0'')] else []) @
     (if cfg_trusted_proxy_hops env < 0 then [(''TRUSTED_PROXY_HOPS'', ''must be >= 0'')] else []) @
     (if env_bool env ''ALLOW_PLAINTEXT_UPSTREAM'' False \<and> is_production env
      then [(''ALLOW_PLAINTEXT_UPSTREAM'', ''http:// upstreams must not be enabled in production'')]
      else [])"

text \<open>\<open>assertProductionReady\<close>: \<^term>\<open>True\<close> when it does not throw.\<close>

definition production_ready :: "env \<Rightarrow> bool" where
  "production_ready env \<longleftrightarrow> \<not> is_production env \<or> validate_config env = []"

lemma request_timeout_bounds:
  "1000 \<le> cfg_upstream_request_timeout_ms env \<and> cfg_upstream_request_timeout_ms env \<le> 300000"
  by (simp add: cfg_upstream_request_timeout_ms_def)

lemma trunc_rat_int [simp]: "trunc_rat (of_int i) = i"
  by (simp add: trunc_rat_def)

lemma trunc_rat_numeral [simp]: "trunc_rat (numeral n) = numeral n" "trunc_rat 0 = 0" "trunc_rat 1 = 1"
  by (simp_all add: trunc_rat_def)

lemma env_int_unset: "env name = None \<Longrightarrow> env_int env name d = d"
  by (simp add: env_int_def env_num_def)

lemma production_secret_length:
  assumes "is_production env" "production_ready env" "name \<in> set required_secrets" "is_secret_name name"
  shows "32 \<le> length (env_str env name [])"
proof -
  from assms have "secret_issues env name = []"
    by (auto simp: production_ready_def validate_config_def)
  with assms(4) show ?thesis
    by (auto simp: secret_issues_def Let_def split: if_splits)
qed

end
