(* ===== verification/Domain.thy ===== *)
theory Domain
  imports Env JsonValue
begin

text \<open>
  The document model, \<open>src/lib/db/types.ts\<close>, and the resolved caller of
  \<open>src/lib/auth/authenticate.ts\<close>. Dates are milliseconds; quota, counts and token totals of
  stored documents are integers, as every writer of them in the gateway ensures.
\<close>

datatype user_role = RoleUser | RoleAdmin | RoleRoot
datatype entity_status = Enabled | Disabled | Deleted

record user_doc =
  usr_id :: string
  usr_username :: string
  usr_display_name :: string
  usr_email :: "string option"
  usr_password_hash :: "string option"
  usr_password_salt :: "string option"
  usr_github_id :: "string option"
  usr_role :: user_role
  usr_status :: entity_status
  usr_group :: string
  usr_quota :: int
  usr_ledger_version :: "int option"
  usr_legacy_used_quota :: "int option"
  usr_used_quota :: int
  usr_request_count :: int
  usr_aff_code :: "string option"
  usr_invited_by :: "string option"
  usr_rpm_limit :: "int option"
  usr_tpm_limit :: "int option"
  usr_created_at :: int
  usr_updated_at :: int
  usr_last_login_at :: "int option"

record token_doc =
  tok_id :: string
  tok_user_id :: string
  tok_name :: string
  tok_key_prefix :: string
  tok_key_digest :: string
  tok_key_last4 :: string
  tok_status :: entity_status
  tok_quota :: int
  tok_ledger_version :: "int option"
  tok_used_quota :: int
  tok_unlimited :: bool
  tok_expires_at :: "int option"
  tok_allowed_ips :: "string list"
  tok_allowed_models :: "string list"
  tok_group :: "string option"
  tok_rpm_limit :: "int option"
  tok_tpm_limit :: "int option"
  tok_created_at :: int
  tok_updated_at :: int
  tok_accessed_at :: "int option"

text \<open>The console stores whatever text it is given as a type (\<open>asChannelType\<close> is a cast), so there is a case for the
  names outside the declared union.\<close>

datatype channel_type = Openai | Azure | Anthropic | Gemini | Vertex | Bedrock | Mistral | Cohere
  | Deepseek | Moonshot | Zhipu | Qwen | Baidu | Xai | Groq | Openrouter | Ollama | Midjourney | Suno
  | Kling | Jimeng | Vidu | Dify | Custom | OtherType string

record channel_doc =
  ch_id :: string
  ch_name :: string
  ch_type :: channel_type
  ch_base_url :: string
  ch_status :: entity_status
  ch_priority :: int
  ch_weight :: int
  ch_groups :: "string list"
  ch_models :: "string list"
  ch_model_mapping :: "(string \<times> string) list"
  ch_headers :: "(string \<times> string) list"
  ch_test_model :: "string option"
  ch_balance :: "int option"
  ch_balance_updated_at :: "int option"
  ch_auto_disabled :: bool
  ch_fail_count :: int
  ch_rpm_limit :: "int option"
  ch_config :: "(string \<times> json) list"
  ch_created_at :: int
  ch_updated_at :: int

record channel_key_doc =
  ck_id :: string
  ck_channel_id :: string
  ck_cipher :: string
  ck_iv :: string
  ck_auth_tag :: string
  ck_key_version :: int
  ck_fingerprint :: string
  ck_status :: entity_status
  ck_index :: int
  ck_fail_count :: int
  ck_last_used_at :: "int option"
  ck_created_at :: int

record ability_doc =
  ab_id :: string
  ab_group :: string
  ab_model :: string
  ab_channel_id :: string
  ab_enabled :: bool
  ab_priority :: int
  ab_weight :: int
  ab_updated_at :: int

record model_mapping_doc =
  mm_id :: string
  mm_from :: string
  mm_to :: string
  mm_channel_id :: "string option"
  mm_created_at :: int

datatype journal_kind = KReserve | KSettle | KRelease | KAdjust
datatype journal_state = Pending | Applied | Failed

record quota_journal_doc =
  qj_id :: string
  qj_request_id :: string
  qj_kind :: journal_kind
  qj_user_id :: string
  qj_token_id :: string
  qj_amount :: int
  qj_reserved :: int
  qj_state :: journal_state
  qj_created_at :: int
  qj_applied_at :: "int option"
  qj_expires_at :: "int option"
  qj_token_limited :: bool

datatype task_platform = PMidjourney | PSuno | PKling | PJimeng | PVidu | PDify | PVideo
datatype task_status = TPending | TSubmitted | TInProgress | TSuccess | TFailure | TExpired

record task_doc =
  tsk_id :: string
  tsk_task_id :: string
  tsk_upstream_id :: "string option"
  tsk_platform :: task_platform
  tsk_action :: string
  tsk_user_id :: string
  tsk_token_id :: string
  tsk_channel_id :: string
  tsk_channel_key_id :: "string option"
  tsk_model :: string
  tsk_status :: task_status
  tsk_progress :: string
  tsk_quota :: int
  tsk_quota_settled :: bool
  tsk_submit_time :: int
  tsk_start_time :: "int option"
  tsk_finish_time :: "int option"
  tsk_poll_count :: int
  tsk_next_poll_at :: "int option"
  tsk_properties :: "(string \<times> json) list"
  tsk_result :: "json option"
  tsk_fail_reason :: "string option"

record identity =
  idn_token_id :: string
  idn_token_name :: string
  idn_key_prefix :: string
  idn_key_last4 :: string
  idn_user_id :: string
  idn_username :: string
  idn_role :: user_role
  idn_group :: string
  idn_unlimited_quota :: bool
  idn_token_quota :: int
  idn_user_quota :: int
  idn_allowed_ips :: "string list"
  idn_allowed_models :: "string list"
  idn_rpm_limit :: int
  idn_tpm_limit :: int

end
