(* ===== verification/Ledger.thy ===== *)
theory Ledger
  imports Errors Domain
begin

text \<open>
  The durable quota ledger, \<open>src/lib/quota/index.ts\<close>. The state is the three collections a
  ledger transaction touches (users, tokens, quota journal) and the buffer of measured
  settlements that wait for the database to recover, with the lock of its drain. A transaction
  that throws leaves the collections as they were. The outcome of the outside world is an
  argument: whether the shared store is degraded, whether the database transaction fails,
  whether the push to the buffer fails. The laws are in
  \<open>LedgerLaws\<close>.
\<close>

subsection \<open>State\<close>

record ledger =
  l_users :: "user_doc list"
  l_tokens :: "token_doc list"
  l_journal :: "quota_journal_doc list"

record settlement =
  st_request_id :: string
  st_user_id :: string
  st_token_id :: string
  st_actual :: jsnum

record quota_world =
  qw_ledger :: ledger
  qw_buffer :: "settlement list"
  qw_lock :: "(string \<times> int) option"

record reserve_result =
  rr_id :: string
  rr_reserved :: int
  rr_remaining :: int
  rr_replayed :: bool

record settle_result =
  sr_applied :: bool
  sr_remaining :: int
  sr_refunded :: int

definition quota_ledger_version :: int where
  "quota_ledger_version = 2"

definition reservation_ttl_sec :: int where
  "reservation_ttl_sec = 900"

definition ledger_unavailable :: gateway_error where
  "ledger_unavailable = gateway_error ((err_init ServiceUnavailable 503
     ''the durable quota ledger is unavailable; refusing to serve unmetered traffic'')
       \<lparr>i_kind := Some OverloadedError\<rparr>)"

definition quota_amount :: "jsnum \<Rightarrow> string \<Rightarrow> gateway_error + int" where
  "quota_amount value field =
     (let rounded = js_ceil value in
      if \<not> js_finite value \<or> js_lt value (JFin 0) \<or> \<not> js_is_safe_integer rounded
      then Inl (invalid_request (field @ '' must be a non-negative safe number'') (Some field))
      else Inr (js_to_int rounded))"

definition require_upgraded :: "int option \<Rightarrow> gateway_error + unit" where
  "require_upgraded version =
     (if version \<noteq> Some quota_ledger_version
      then Inl (gateway_error (err_init ConfigurationErr 503
        ''quota ledger migration is required before this account can relay''))
      else Inr ())"

text \<open>All or nothing; a failure of the database itself is the ledger-unavailable error.\<close>

definition transaction ::
    "bool \<Rightarrow> (ledger \<Rightarrow> gateway_error + 'a \<times> ledger) \<Rightarrow> ledger \<Rightarrow> (gateway_error + 'a) \<times> ledger" where
  "transaction db_fails work l =
     (if db_fails then (Inl ledger_unavailable, l)
      else (case work l of
          Inl e \<Rightarrow> (Inl e, l)
        | Inr (a, l') \<Rightarrow> (Inr a, l')))"

definition hydrate_user_quota :: "ledger \<Rightarrow> string \<Rightarrow> gateway_error + int" where
  "hydrate_user_quota l user_id =
     (case find_one (\<lambda>u. usr_id u = user_id) (l_users l) of
        None \<Rightarrow> Inl ledger_unavailable
      | Some u \<Rightarrow>
          if \<not> safe_int (usr_quota u) then Inl ledger_unavailable
          else res_bind (require_upgraded (usr_ledger_version u)) (\<lambda>_. Inr (usr_quota u)))"

definition hydrate_token_quota :: "ledger \<Rightarrow> string \<Rightarrow> gateway_error + int" where
  "hydrate_token_quota l token_id =
     (case find_one (\<lambda>t. tok_id t = token_id) (l_tokens l) of
        None \<Rightarrow> Inl ledger_unavailable
      | Some t \<Rightarrow>
          if \<not> safe_int (tok_quota t) then Inl ledger_unavailable
          else res_bind (require_upgraded (tok_ledger_version t)) (\<lambda>_. Inr (tok_quota t)))"

definition pre_consumed_quota :: "env \<Rightarrow> gateway_error + int" where
  "pre_consumed_quota env =
     res_bind (quota_amount (JFin (cfg_pre_consumed_quota env)) ''quota'') (\<lambda>q. Inr (max 1 q))"

subsection \<open>Reservation\<close>

definition remaining_of :: "ledger \<Rightarrow> string \<Rightarrow> int" where
  "remaining_of l user_id =
     (case find_one (\<lambda>u. usr_id u = user_id) (l_users l) of Some u \<Rightarrow> usr_quota u | None \<Rightarrow> 0)"

definition expired :: "int \<Rightarrow> int option \<Rightarrow> bool" where
  "expired now e = (case e of Some t \<Rightarrow> t \<le> now | None \<Rightarrow> False)"

definition reserve_work ::
    "int \<Rightarrow> identity \<Rightarrow> string \<Rightarrow> int \<Rightarrow> ledger \<Rightarrow> gateway_error + reserve_result \<times> ledger" where
  "reserve_work now idn request_id need l =
     (case find_one (\<lambda>j. qj_id j = request_id) (l_journal l) of
        Some ex \<Rightarrow>
          if qj_user_id ex \<noteq> idn_user_id idn \<or> qj_token_id ex \<noteq> idn_token_id idn \<or>
             qj_state ex \<noteq> Pending \<or> qj_reserved ex \<noteq> need \<or>
             (case qj_expires_at ex of None \<Rightarrow> True | Some t \<Rightarrow> t \<le> now)
          then Inl (invalid_request ''a reservation id cannot be reused for a different operation'' None)
          else Inr (\<lparr>rr_id = request_id, rr_reserved = qj_reserved ex,
                     rr_remaining = remaining_of l (idn_user_id idn), rr_replayed = True\<rparr>, l)
      | None \<Rightarrow>
          (case (find_one (\<lambda>u. usr_id u = idn_user_id idn) (l_users l),
                 find_one (\<lambda>t. tok_id t = idn_token_id idn \<and> tok_user_id t = idn_user_id idn) (l_tokens l)) of
             (Some user, Some token) \<Rightarrow>
               if usr_status user \<noteq> Enabled \<or> tok_status token \<noteq> Enabled \<or>
                  expired now (tok_expires_at token)
               then Inl (forbidden ''this account or api key is not active'' InsufficientPermissions)
               else res_bind (require_upgraded (usr_ledger_version user)) (\<lambda>_.
                 res_bind (require_upgraded (tok_ledger_version token)) (\<lambda>_.
                 if \<not> safe_int (usr_quota user) \<or> \<not> safe_int (tok_quota token)
                 then Inl ledger_unavailable
                 else
                   let limited = \<not> tok_unlimited token in
                   if usr_quota user < need \<or> (limited \<and> tok_quota token < need)
                   then Inl (insufficient_quota ''insufficient quota for this request'')
                   else
                     let can_pay_user = (\<lambda>u. usr_id u = usr_id user \<and> usr_status u = Enabled \<and> usr_quota u \<ge> need);
                         pay_user = (\<lambda>u. u\<lparr>usr_quota := usr_quota u - need, usr_updated_at := now\<rparr>);
                         can_pay_tok = (\<lambda>t. tok_id t = tok_id token \<and> tok_status t = Enabled \<and> tok_quota t \<ge> need);
                         pay_tok = (\<lambda>t. t\<lparr>tok_quota := tok_quota t - need, tok_updated_at := now\<rparr>)
                     in (case find_one can_pay_user (l_users l) of
                           None \<Rightarrow> Inl (insufficient_quota ''insufficient quota'')
                         | Some payer \<Rightarrow>
                             if limited \<and> find_one can_pay_tok (l_tokens l) = None
                             then Inl (insufficient_quota ''insufficient quota'')
                             else (case insert_one qj_id
                                 \<lparr>qj_id = request_id, qj_request_id = request_id, qj_kind = KReserve,
                                  qj_user_id = usr_id user, qj_token_id = tok_id token, qj_amount = 0,
                                  qj_reserved = need, qj_state = Pending, qj_created_at = now,
                                  qj_applied_at = None, qj_expires_at = Some (now + reservation_ttl_sec * 1000),
                                  qj_token_limited = limited\<rparr> (l_journal l) of
                               None \<Rightarrow> Inl ledger_unavailable
                             | Some journal' \<Rightarrow> Inr
                                 (\<lparr>rr_id = request_id, rr_reserved = need,
                                   rr_remaining = usr_quota payer - need, rr_replayed = False\<rparr>,
                                  l\<lparr>l_users := update_one can_pay_user pay_user (l_users l),
                                    l_tokens := (if limited then update_one can_pay_tok pay_tok (l_tokens l)
                                                 else l_tokens l),
                                    l_journal := journal'\<rparr>)))))
           | _ \<Rightarrow> Inl (forbidden ''this account or api key is not active'' InsufficientPermissions)))"

definition reserve_quota ::
    "bool \<Rightarrow> bool \<Rightarrow> int \<Rightarrow> identity \<Rightarrow> string \<Rightarrow> jsnum \<Rightarrow> ledger \<Rightarrow>
     (gateway_error + reserve_result) \<times> ledger" where
  "reserve_quota degraded db_fails now idn request_id amount l =
     (if degraded then (Inl ledger_unavailable, l)
      else (case quota_amount amount ''quota'' of
          Inl e \<Rightarrow> (Inl e, l)
        | Inr a \<Rightarrow>
            if request_id = [] \<or> length request_id > 128
            then (Inl (invalid_request ''invalid reservation id'' None), l)
            else transaction db_fails (reserve_work now idn request_id (max 1 a)) l))"

subsection \<open>Settlement and release\<close>

definition complete_work ::
    "int \<Rightarrow> string \<Rightarrow> string \<Rightarrow> string \<Rightarrow> int \<Rightarrow> journal_kind \<Rightarrow> ledger \<Rightarrow>
     gateway_error + settle_result \<times> ledger" where
  "complete_work now user_id token_id request_id charge kind l =
     (let reservation = find_one (\<lambda>j. qj_id j = request_id \<and> qj_user_id j = user_id \<and>
            qj_token_id j = token_id) (l_journal l);
          user = find_one (\<lambda>u. usr_id u = user_id) (l_users l)
      in (case reservation of
            None \<Rightarrow> Inr (\<lparr>sr_applied = False, sr_remaining = remaining_of l user_id, sr_refunded = 0\<rparr>, l)
          | Some r \<Rightarrow>
              if qj_state r \<noteq> Pending
              then Inr (\<lparr>sr_applied = False, sr_remaining = remaining_of l user_id, sr_refunded = 0\<rparr>, l)
              else (case user of
                  None \<Rightarrow> Inl ledger_unavailable
                | Some u \<Rightarrow>
                    let delta = qj_reserved r - charge in
                    if \<not> safe_int (usr_quota u + delta) \<or> \<not> safe_int (usr_used_quota u + charge)
                    then Inl ledger_unavailable
                    else Inr
                      (\<lparr>sr_applied = True, sr_remaining = usr_quota u + delta,
                        sr_refunded = (if kind = KRelease then qj_reserved r else 0)\<rparr>,
                       l\<lparr>l_users := update_one (\<lambda>x. usr_id x = usr_id u)
                            (\<lambda>x. x\<lparr>usr_quota := usr_quota x + delta,
                                  usr_used_quota := usr_used_quota x + charge,
                                  usr_request_count := usr_request_count x + (if kind = KSettle then 1 else 0),
                                  usr_updated_at := now\<rparr>) (l_users l),
                         l_tokens := update_one (\<lambda>t. tok_id t = token_id \<and> tok_user_id t = user_id)
                            (\<lambda>t. t\<lparr>tok_quota := tok_quota t + (if qj_token_limited r then delta else 0),
                                  tok_used_quota := tok_used_quota t + charge\<rparr>) (l_tokens l),
                         l_journal := update_one (\<lambda>j. qj_id j = request_id \<and> qj_state j = Pending)
                            (\<lambda>j. j\<lparr>qj_kind := kind, qj_amount := charge, qj_state := Applied,
                                  qj_applied_at := Some now\<rparr>) (l_journal l)\<rparr>))))"

definition complete ::
    "bool \<Rightarrow> int \<Rightarrow> string \<Rightarrow> string \<Rightarrow> string \<Rightarrow> jsnum \<Rightarrow> journal_kind \<Rightarrow> ledger \<Rightarrow>
     (gateway_error + settle_result) \<times> ledger" where
  "complete db_fails now user_id token_id request_id actual kind l =
     (case quota_amount actual ''charge'' of
        Inl e \<Rightarrow> (Inl e, l)
      | Inr charge \<Rightarrow>
          transaction db_fails (complete_work now user_id token_id request_id charge kind) l)"

definition settle_quota ::
    "bool \<Rightarrow> int \<Rightarrow> identity \<Rightarrow> string \<Rightarrow> jsnum \<Rightarrow> ledger \<Rightarrow>
     (gateway_error + settle_result) \<times> ledger" where
  "settle_quota db_fails now idn request_id actual l =
     complete db_fails now (idn_user_id idn) (idn_token_id idn) request_id actual KSettle l"

text \<open>
  The push to the settlement buffer when the ledger is unavailable: it may fail in turn, and
  then its error is the caller's.
\<close>

definition push_settlement ::
    "thrown option \<Rightarrow> settlement \<Rightarrow> quota_world \<Rightarrow> (gateway_error + unit) \<times> quota_world" where
  "push_settlement push_fails s w =
     (case push_fails of
        Some t \<Rightarrow> (Inl (error_from t), w)
      | None \<Rightarrow> (Inr (), w\<lparr>qw_buffer := qw_buffer w @ [s]\<rparr>))"

definition buffered_on_503 ::
    "thrown option \<Rightarrow> settlement \<Rightarrow> settle_result \<Rightarrow>
     (gateway_error + settle_result) \<times> ledger \<Rightarrow> quota_world \<Rightarrow>
     (gateway_error + settle_result) \<times> quota_world" where
  "buffered_on_503 push_fails s fallback r w =
     (case r of
        (Inr v, l') \<Rightarrow> (Inr v, w\<lparr>qw_ledger := l'\<rparr>)
      | (Inl e, l') \<Rightarrow>
          if ge_status e \<noteq> 503 then (Inl e, w\<lparr>qw_ledger := l'\<rparr>)
          else (case push_settlement push_fails s (w\<lparr>qw_ledger := l'\<rparr>) of
              (Inl e', w') \<Rightarrow> (Inl e', w')
            | (Inr _, w') \<Rightarrow> (Inr fallback, w')))"

definition settlement_of :: "identity \<Rightarrow> string \<Rightarrow> jsnum \<Rightarrow> settlement" where
  "settlement_of idn request_id actual = \<lparr>st_request_id = request_id, st_user_id = idn_user_id idn,
     st_token_id = idn_token_id idn, st_actual = actual\<rparr>"

definition not_applied :: settle_result where
  "not_applied = \<lparr>sr_applied = False, sr_remaining = 0, sr_refunded = 0\<rparr>"

definition release_quota ::
    "bool \<Rightarrow> thrown option \<Rightarrow> int \<Rightarrow> identity \<Rightarrow> string \<Rightarrow> quota_world \<Rightarrow>
     (gateway_error + settle_result) \<times> quota_world" where
  "release_quota db_fails push_fails now idn request_id w =
     buffered_on_503 push_fails (settlement_of idn request_id (JFin 0)) not_applied
       (complete db_fails now (idn_user_id idn) (idn_token_id idn) request_id (JFin 0) KRelease
         (qw_ledger w)) w"

definition completion_kind :: "jsnum \<Rightarrow> journal_kind" where
  "completion_kind actual = (if actual = JFin 0 then KRelease else KSettle)"

definition finalize_quota ::
    "bool \<Rightarrow> thrown option \<Rightarrow> int \<Rightarrow> identity \<Rightarrow> string \<Rightarrow> jsnum \<Rightarrow> quota_world \<Rightarrow>
     (gateway_error + settle_result) \<times> quota_world" where
  "finalize_quota db_fails push_fails now idn request_id actual w =
     (case quota_amount actual ''charge'' of
        Inl e \<Rightarrow> (Inl e, w)
      | Inr _ \<Rightarrow>
          buffered_on_503 push_fails (settlement_of idn request_id actual) not_applied
            (complete db_fails now (idn_user_id idn) (idn_token_id idn) request_id actual
              (completion_kind actual) (qw_ledger w)) w)"

subsection \<open>Draining the settlement buffer\<close>

definition apply_settlement :: "int \<Rightarrow> settlement \<Rightarrow> ledger \<Rightarrow> (gateway_error + settle_result) \<times> ledger" where
  "apply_settlement now s l =
     (if st_request_id s = [] \<or> st_user_id s = [] \<or> st_token_id s = []
      then (Inl ledger_unavailable, l)
      else complete False now (st_user_id s) (st_token_id s) (st_request_id s) (st_actual s)
        (completion_kind (st_actual s)) l)"

text \<open>The loop over the peeked entries stops at the first error; what it did before stays.\<close>

fun drain :: "int \<Rightarrow> settlement list \<Rightarrow> ledger \<Rightarrow> (gateway_error + unit) \<times> ledger" where
  "drain now [] l = (Inr (), l)"
| "drain now (s # ss) l =
     (case apply_settlement now s l of
        (Inl e, l') \<Rightarrow> (Inl e, l')
      | (Inr _, l') \<Rightarrow> drain now ss l')"

definition lock_held :: "int \<Rightarrow> quota_world \<Rightarrow> bool" where
  "lock_held now w = (case qw_lock w of None \<Rightarrow> False | Some (_, t) \<Rightarrow> now < t)"

text \<open>
  Peek, apply, acknowledge. \<open>now\<close> is the time of the claim, \<open>later\<close> the time of the
  acknowledgement: a worker whose lease ran out meanwhile trims nothing.
\<close>

definition flush_quota_settlements ::
    "int \<Rightarrow> int \<Rightarrow> string \<Rightarrow> int \<Rightarrow> quota_world \<Rightarrow> (gateway_error + nat) \<times> quota_world" where
  "flush_quota_settlements now later owner limit w =
     (if lock_held now w then (Inr 0, w)
      else
        let w1 = w\<lparr>qw_lock := Some (owner, now + 120000)\<rparr>;
            raw = take (nat (max 1 (min 1000 limit))) (qw_buffer w1)
        in if raw = [] then (Inr 0, w1\<lparr>qw_lock := None\<rparr>)
           else (case drain later raw (qw_ledger w1) of
               (Inl e, l') \<Rightarrow> (Inl e, w1\<lparr>qw_ledger := l', qw_lock := None\<rparr>)
             | (Inr _, l') \<Rightarrow>
                 (Inr (length raw),
                  w1\<lparr>qw_ledger := l', qw_lock := None,
                    qw_buffer := (if later < now + 120000 then drop (length raw) (qw_buffer w1)
                                  else qw_buffer w1)\<rparr>)))"

end
