(* ===== verification/ReplayQueue.thy ===== *)
theory ReplayQueue
  imports Prelude
begin

text \<open>
  The contract behind the gateway's work queues (settlement buffer, usage buffer): a queue is
  peeked, each entry is applied, and only then is the queue trimmed, so a crash makes a prefix
  run twice. \<open>run_steps\<close> is the drain loop: it stops at the first failing entry and keeps what
  was done. The locale \<open>replayable\<close> states what an entry's application must promise for that to
  be harmless; its lemma is that a prefix that was applied is skipped when it is run again, at
  whatever later time.
\<close>

fun run_steps :: "('e \<Rightarrow> 's \<Rightarrow> 's option) \<Rightarrow> 'e list \<Rightarrow> 's \<Rightarrow> 's \<times> bool" where
  "run_steps f [] s = (s, True)"
| "run_steps f (e # es) s = (case f e s of None \<Rightarrow> (s, False) | Some s' \<Rightarrow> run_steps f es s')"

lemma run_steps_append:
  "run_steps f (xs @ ys) s =
     (case run_steps f xs s of (s', ok) \<Rightarrow> if ok then run_steps f ys s' else (s', False))"
  by (induction xs arbitrary: s) (auto split: option.splits)

locale replayable =
  fixes step :: "'t \<Rightarrow> 'e \<Rightarrow> 's \<Rightarrow> 's option"
    and settled :: "'e \<Rightarrow> 's \<Rightarrow> bool"
    and inv :: "'s \<Rightarrow> bool"
  assumes step_inv: "inv s \<Longrightarrow> step t e s = Some s' \<Longrightarrow> inv s'"
    and step_settles: "inv s \<Longrightarrow> step t e s = Some s' \<Longrightarrow> settled e s'"
    and settled_stable: "inv s \<Longrightarrow> settled e s \<Longrightarrow> step t f s = Some s' \<Longrightarrow> settled e s'"
    and settled_noop: "inv s \<Longrightarrow> settled e s \<Longrightarrow> step t e s = Some s"
begin

lemma run_inv: "inv s \<Longrightarrow> run_steps (step t) xs s = (s', ok) \<Longrightarrow> inv s'"
  by (induction xs arbitrary: s) (auto split: option.splits dest: step_inv)

lemma run_stable: "inv s \<Longrightarrow> settled e s \<Longrightarrow> run_steps (step t) xs s = (s', ok) \<Longrightarrow> settled e s'"
proof (induction xs arbitrary: s)
  case Nil
  then show ?case by simp
next
  case (Cons x xs)
  show ?case
  proof (cases "step t x s")
    case None
    with Cons show ?thesis by simp
  next
    case (Some s1)
    with Cons.prems have "inv s1" "settled e s1" by (auto intro: step_inv settled_stable)
    with Cons Some show ?thesis by simp
  qed
qed

lemma run_settles:
  "inv s \<Longrightarrow> run_steps (step t) xs s = (s', True) \<Longrightarrow> e \<in> set xs \<Longrightarrow> settled e s'"
proof (induction xs arbitrary: s)
  case Nil
  then show ?case by simp
next
  case (Cons x xs)
  then obtain s1 where s1: "step t x s = Some s1" "run_steps (step t) xs s1 = (s', True)"
    by (auto split: option.splits)
  with Cons.prems have i1: "inv s1" "settled x s1" by (auto intro: step_inv step_settles)
  show ?case
  proof (cases "e \<in> set xs")
    case True
    with Cons.IH i1 s1 show ?thesis by blast
  next
    case False
    with Cons.prems have "e = x" by simp
    with run_stable i1 s1 show ?thesis by blast
  qed
qed

lemma run_noop: "inv s \<Longrightarrow> (\<And>e. e \<in> set xs \<Longrightarrow> settled e s) \<Longrightarrow> run_steps (step t) xs s = (s, True)"
  by (induction xs) (auto simp: settled_noop)

lemma resume:
  assumes "inv s" "run_steps (step t1) xs s = (s1, True)"
  shows "run_steps (step t2) (xs @ ys) s1 = run_steps (step t2) ys s1"
proof -
  have "run_steps (step t2) xs s1 = (s1, True)"
    using assms run_inv run_settles by (intro run_noop) blast+
  then show ?thesis by (simp add: run_steps_append)
qed

end

end
