(* ===== verification/SampleData.thy ===== *)
theory SampleData
  imports Domain
begin

text \<open>Concrete documents, for the theorems that exhibit an instance of a property.\<close>

definition sample_user :: user_doc where
  "sample_user = \<lparr>usr_id = ''u1'', usr_username = ''ann'', usr_display_name = ''Ann'', usr_email = None,
     usr_password_hash = None, usr_password_salt = None, usr_github_id = None, usr_role = RoleUser,
     usr_status = Enabled, usr_group = ''default'', usr_quota = 100, usr_ledger_version = Some 2,
     usr_legacy_used_quota = None, usr_used_quota = 0, usr_request_count = 0, usr_aff_code = None,
     usr_invited_by = None, usr_rpm_limit = None, usr_tpm_limit = None, usr_created_at = 0,
     usr_updated_at = 0, usr_last_login_at = None\<rparr>"

definition sample_token :: token_doc where
  "sample_token = \<lparr>tok_id = ''t1'', tok_user_id = ''u1'', tok_name = ''key'', tok_key_prefix = ''sk-fb-'',
     tok_key_digest = ''d1'', tok_key_last4 = ''abcd'', tok_status = Enabled, tok_quota = 50,
     tok_ledger_version = Some 2, tok_used_quota = 0, tok_unlimited = False, tok_expires_at = None,
     tok_allowed_ips = [], tok_allowed_models = [], tok_group = None, tok_rpm_limit = None,
     tok_tpm_limit = None, tok_created_at = 0, tok_updated_at = 0, tok_accessed_at = None\<rparr>"

definition sample_identity :: identity where
  "sample_identity = \<lparr>idn_token_id = ''t1'', idn_token_name = ''key'', idn_key_prefix = ''sk-fb-'',
     idn_key_last4 = ''abcd'', idn_user_id = ''u1'', idn_username = ''ann'', idn_role = RoleUser,
     idn_group = ''default'', idn_unlimited_quota = False, idn_token_quota = 50, idn_user_quota = 100,
     idn_allowed_ips = [], idn_allowed_models = [], idn_rpm_limit = 60, idn_tpm_limit = 100000\<rparr>"

definition sample_channel :: "string \<Rightarrow> int \<Rightarrow> int \<Rightarrow> channel_doc" where
  "sample_channel cid prio wt = \<lparr>ch_id = cid, ch_name = cid, ch_type = Openai,
     ch_base_url = ''https://api.example.com'', ch_status = Enabled, ch_priority = prio, ch_weight = wt,
     ch_groups = [''default''], ch_models = [''gpt-4''], ch_model_mapping = [], ch_headers = [],
     ch_test_model = None, ch_balance = None, ch_balance_updated_at = None, ch_auto_disabled = False,
     ch_fail_count = 0, ch_rpm_limit = None, ch_config = [], ch_created_at = 0, ch_updated_at = 0\<rparr>"

definition sample_hold :: quota_journal_doc where
  "sample_hold = \<lparr>qj_id = ''r1'', qj_request_id = ''r1'', qj_kind = KReserve, qj_user_id = ''u1'',
     qj_token_id = ''t1'', qj_amount = 0, qj_reserved = 10, qj_state = Pending, qj_created_at = 0,
     qj_applied_at = None, qj_expires_at = Some 900000, qj_token_limited = True\<rparr>"

end
