(* ===== verification/LedgerLaws.thy ===== *)
theory LedgerLaws
  imports Ledger ReplayQueue SampleData
begin

text \<open>
  Laws of the quota ledger: money is conserved by every operation, a settlement is applied at
  most once, and replaying a prefix of the settlement buffer is harmless (the ledger is a
  \<open>replayable\<close> store).
\<close>

subsection \<open>Money is conserved\<close>

text \<open>
  What a user owns: the balance, what was consumed, and what pending reservations hold back.
\<close>

definition held :: "string \<Rightarrow> quota_journal_doc \<Rightarrow> int" where
  "held v j = (if qj_state j = Pending \<and> qj_user_id j = v then qj_reserved j else 0)"

definition owned :: "string \<Rightarrow> user_doc \<Rightarrow> int" where
  "owned v u = (if usr_id u = v then usr_quota u + usr_used_quota u else 0)"

definition funds :: "string \<Rightarrow> ledger \<Rightarrow> int" where
  "funds v l = sum_list (map (owned v) (l_users l)) + sum_list (map (held v) (l_journal l))"

definition wf_ledger :: "ledger \<Rightarrow> bool" where
  "wf_ledger l \<longleftrightarrow> distinct (map usr_id (l_users l)) \<and> distinct (map tok_id (l_tokens l)) \<and>
     distinct (map qj_id (l_journal l))"

lemma transaction_cases:
  assumes "transaction db work l = (r, l')"
  obtains "l' = l" "\<exists>e. r = Inl e" | a where "r = Inr a" "work l = Inr (a, l')"
  using assms by (auto simp: transaction_def split: if_splits sum.splits)

lemma insert_one_Some: "insert_one key d ds = Some ds' \<Longrightarrow> ds' = ds @ [d] \<and> key d \<notin> set (map key ds)"
  by (auto simp: insert_one_def split: if_splits)

lemma find_one_refine:
  "find_one P ds = Some d \<Longrightarrow> Q d \<Longrightarrow> (\<And>x. Q x \<Longrightarrow> P x) \<Longrightarrow> find_one Q ds = Some d"
  by (induction ds) (auto split: if_splits)

lemma find_update_first:
  "find_one Q ds = Some d \<Longrightarrow> P d \<Longrightarrow> (\<And>x. P x \<Longrightarrow> Q x) \<Longrightarrow> Q (f d) \<Longrightarrow>
    find_one Q (update_one P f ds) = Some (f d)"
  by (induction ds) (auto split: if_splits)

lemma require_upgraded_Inr: "require_upgraded v = Inr a \<longleftrightarrow> v = Some quota_ledger_version"
  by (simp add: require_upgraded_def)

text \<open>What a reservation that is not a replay does.\<close>

definition reserve_effect :: "int \<Rightarrow> identity \<Rightarrow> string \<Rightarrow> int \<Rightarrow> token_doc \<Rightarrow> ledger \<Rightarrow> ledger" where
  "reserve_effect now idn rid need token l =
     l\<lparr>l_users := update_one (\<lambda>u. usr_id u = idn_user_id idn \<and> usr_status u = Enabled \<and> need \<le> usr_quota u)
           (\<lambda>u. u\<lparr>usr_quota := usr_quota u - need, usr_updated_at := now\<rparr>) (l_users l),
       l_tokens := (if \<not> tok_unlimited token then
           update_one (\<lambda>t. tok_id t = idn_token_id idn \<and> tok_status t = Enabled \<and> need \<le> tok_quota t)
             (\<lambda>t. t\<lparr>tok_quota := tok_quota t - need, tok_updated_at := now\<rparr>) (l_tokens l)
         else l_tokens l),
       l_journal := l_journal l @
         [\<lparr>qj_id = rid, qj_request_id = rid, qj_kind = KReserve,
           qj_user_id = idn_user_id idn, qj_token_id = idn_token_id idn, qj_amount = 0,
           qj_reserved = need, qj_state = Pending, qj_created_at = now,
           qj_applied_at = None, qj_expires_at = Some (now + reservation_ttl_sec * 1000),
           qj_token_limited = (\<not> tok_unlimited token)\<rparr>]\<rparr>"

definition reserve_post ::
    "int \<Rightarrow> identity \<Rightarrow> string \<Rightarrow> int \<Rightarrow> ledger \<Rightarrow> ledger \<Rightarrow> user_doc \<Rightarrow> token_doc \<Rightarrow> bool" where
  "reserve_post now idn rid need l l' user token \<longleftrightarrow>
     find_one (\<lambda>j. qj_id j = rid) (l_journal l) = None \<and>
     find_one (\<lambda>u. usr_id u = idn_user_id idn) (l_users l) = Some user \<and>
     find_one (\<lambda>t. tok_id t = idn_token_id idn \<and> tok_user_id t = idn_user_id idn) (l_tokens l) = Some token \<and>
     usr_status user = Enabled \<and> tok_status token = Enabled \<and> \<not> expired now (tok_expires_at token) \<and>
     usr_ledger_version user = Some quota_ledger_version \<and> tok_ledger_version token = Some quota_ledger_version \<and>
     need \<le> usr_quota user \<and> (\<not> tok_unlimited token \<longrightarrow> need \<le> tok_quota token) \<and>
     l' = reserve_effect now idn rid need token l"

lemma reserve_work_cases:
  assumes "reserve_work now idn rid need l = Inr (r, l')"
  obtains (replay) "rr_replayed r" "l' = l"
  | (new) user token where "reserve_post now idn rid need l l' user token"
      "r = \<lparr>rr_id = rid, rr_reserved = need, rr_remaining = usr_quota user - need, rr_replayed = False\<rparr>"
proof (cases "find_one (\<lambda>j. qj_id j = rid) (l_journal l)")
  case (Some ex)
  with assms have "rr_replayed r" "l' = l" by (auto simp: reserve_work_def split: if_splits)
  then show thesis by (rule replay)
next
  case None
  from assms None obtain user token where ut:
    "find_one (\<lambda>u. usr_id u = idn_user_id idn) (l_users l) = Some user"
    "find_one (\<lambda>t. tok_id t = idn_token_id idn \<and> tok_user_id t = idn_user_id idn) (l_tokens l) = Some token"
    by (simp add: reserve_work_def split: option.splits)
  then have ids: "usr_id user = idn_user_id idn" "tok_id token = idn_token_id idn"
    by (auto dest: find_one_SomeD)
  from assms None ut have ok: "usr_status user = Enabled" "tok_status token = Enabled"
      "\<not> expired now (tok_expires_at token)"
      "usr_ledger_version user = Some quota_ledger_version" "tok_ledger_version token = Some quota_ledger_version"
      "safe_int (usr_quota user)" "safe_int (tok_quota token)"
      "need \<le> usr_quota user" "\<not> tok_unlimited token \<longrightarrow> need \<le> tok_quota token"
    by (auto simp: reserve_work_def res_bind_Inr_iff require_upgraded_Inr Let_def split: if_splits)
  have pay: "find_one (\<lambda>u. usr_id u = idn_user_id idn \<and> usr_status u = Enabled \<and> usr_quota u \<ge> need) (l_users l) = Some user"
    using ids(1) ok(1,8) by (intro find_one_refine [OF ut(1)]) auto
  have ins: "insert_one qj_id j (l_journal l) = Some (l_journal l @ [j])" if "qj_id j = rid" for j
    using None that by (auto simp: insert_one_def find_one_None_iff)
  have tpay: "find_one (\<lambda>t. tok_id t = idn_token_id idn \<and> tok_status t = Enabled \<and> tok_quota t \<ge> need) (l_tokens l) \<noteq> None"
    if "\<not> tok_unlimited token"
    using ut(2) ok(2,9) that by (auto simp: find_one_None_iff dest!: find_one_SomeD)
  let ?j = "\<lparr>qj_id = rid, qj_request_id = rid, qj_kind = KReserve,
               qj_user_id = idn_user_id idn, qj_token_id = idn_token_id idn, qj_amount = 0,
               qj_reserved = need, qj_state = Pending, qj_created_at = now,
               qj_applied_at = None, qj_expires_at = Some (now + reservation_ttl_sec * 1000),
               qj_token_limited = (\<not> tok_unlimited token)\<rparr>"
  have ins: "insert_one qj_id ?j (l_journal l) = Some (l_journal l @ [?j])"
    using None by (auto simp: insert_one_def find_one_None_iff)
  have conds: "\<not> (usr_quota user < need \<or> \<not> tok_unlimited token \<and> tok_quota token < need)"
    "\<not> (\<not> tok_unlimited token \<and> find_one (\<lambda>t. tok_id t = idn_token_id idn \<and> tok_status t = Enabled \<and> tok_quota t \<ge> need) (l_tokens l) = None)"
    using ok(8,9) tpay by auto
  have "reserve_work now idn rid need l = Inr (\<lparr>rr_id = rid, rr_reserved = need,
      rr_remaining = usr_quota user - need, rr_replayed = False\<rparr>, reserve_effect now idn rid need token l)"
    unfolding reserve_effect_def
    by (simp add: reserve_work_def require_upgraded_def ut ids pay conds Let_def ins None ok(1-7))
  with assms have
    "r = \<lparr>rr_id = rid, rr_reserved = need, rr_remaining = usr_quota user - need, rr_replayed = False\<rparr>"
    "l' = reserve_effect now idn rid need token l" by simp_all
  moreover have "reserve_post now idn rid need l (reserve_effect now idn rid need token l) user token"
    unfolding reserve_post_def using None ut ok by (intro conjI refl) assumption+
  ultimately have
    "r = \<lparr>rr_id = rid, rr_reserved = need, rr_remaining = usr_quota user - need, rr_replayed = False\<rparr>"
    "reserve_post now idn rid need l l' user token" by simp_all
  then show thesis using new by blast
qed

lemma reserve_postD:
  assumes "reserve_post now idn rid need l l' user token"
  shows "find_one (\<lambda>j. qj_id j = rid) (l_journal l) = None"
    "find_one (\<lambda>u. usr_id u = idn_user_id idn) (l_users l) = Some user"
    "find_one (\<lambda>t. tok_id t = idn_token_id idn \<and> tok_user_id t = idn_user_id idn) (l_tokens l) = Some token"
    "usr_status user = Enabled" "tok_status token = Enabled" "need \<le> usr_quota user"
    "\<not> tok_unlimited token \<longrightarrow> need \<le> tok_quota token"
    "l' = reserve_effect now idn rid need token l"
  using assms unfolding reserve_post_def by - (elim conjE, assumption)+

lemma reserve_post_ids:
  assumes "reserve_post now idn rid need l l' user token"
  shows "usr_id user = idn_user_id idn" "tok_id token = idn_token_id idn" "tok_user_id token = idn_user_id idn"
  using reserve_postD(2,3) [OF assms] by (auto dest: find_one_SomeD)

lemma reserve_post_payer:
  assumes "reserve_post now idn rid need l l' user token"
  shows "find_one (\<lambda>u. usr_id u = idn_user_id idn \<and> usr_status u = Enabled \<and> usr_quota u \<ge> need) (l_users l) = Some user"
  using reserve_postD(4,6) [OF assms] reserve_post_ids(1) [OF assms]
  by (intro find_one_refine [OF reserve_postD(2) [OF assms]]) auto

lemma funds_reserve_post:
  assumes "reserve_post now idn rid need l l' user token"
  shows "funds v l' = funds v l"
  using sum_update_one [OF reserve_post_payer [OF assms], of "owned v"]
    reserve_postD(8) [OF assms] reserve_post_ids(1) [OF assms]
  by (simp add: reserve_effect_def funds_def owned_def held_def)

lemma wf_reserve_post:
  assumes "reserve_post now idn rid need l l' user token" "wf_ledger l"
  shows "wf_ledger l'"
proof -
  have "rid \<notin> set (map qj_id (l_journal l))"
    using reserve_postD(1) [OF assms(1)] by (auto simp: find_one_None_iff)
  with assms(2) reserve_postD(8) [OF assms(1)] show ?thesis
    by (simp add: reserve_effect_def wf_ledger_def update_one_keys)
qed

text \<open>What a completion that applies does.\<close>

definition complete_effect ::
    "int \<Rightarrow> string \<Rightarrow> string \<Rightarrow> string \<Rightarrow> int \<Rightarrow> journal_kind \<Rightarrow> quota_journal_doc \<Rightarrow> ledger \<Rightarrow> ledger" where
  "complete_effect now uid tid rid charge kind res l =
     l\<lparr>l_users := update_one (\<lambda>x. usr_id x = uid)
            (\<lambda>x. x\<lparr>usr_quota := usr_quota x + (qj_reserved res - charge),
                  usr_used_quota := usr_used_quota x + charge,
                  usr_request_count := usr_request_count x + (if kind = KSettle then 1 else 0),
                  usr_updated_at := now\<rparr>) (l_users l),
       l_tokens := update_one (\<lambda>t. tok_id t = tid \<and> tok_user_id t = uid)
            (\<lambda>t. t\<lparr>tok_quota := tok_quota t + (if qj_token_limited res then qj_reserved res - charge else 0),
                  tok_used_quota := tok_used_quota t + charge\<rparr>) (l_tokens l),
       l_journal := update_one (\<lambda>j. qj_id j = rid \<and> qj_state j = Pending)
            (\<lambda>j. j\<lparr>qj_kind := kind, qj_amount := charge, qj_state := Applied,
                  qj_applied_at := Some now\<rparr>) (l_journal l)\<rparr>"

definition open_hold :: "string \<Rightarrow> string \<Rightarrow> string \<Rightarrow> ledger \<Rightarrow> bool" where
  "open_hold uid tid rid l \<longleftrightarrow>
     (\<exists>j \<in> set (l_journal l). qj_id j = rid \<and> qj_user_id j = uid \<and> qj_token_id j = tid \<and> qj_state j = Pending)"

definition complete_post ::
    "int \<Rightarrow> string \<Rightarrow> string \<Rightarrow> string \<Rightarrow> int \<Rightarrow> journal_kind \<Rightarrow> ledger \<Rightarrow> ledger \<Rightarrow>
     quota_journal_doc \<Rightarrow> user_doc \<Rightarrow> bool" where
  "complete_post now uid tid rid charge kind l l' res user \<longleftrightarrow>
     find_one (\<lambda>j. qj_id j = rid \<and> qj_user_id j = uid \<and> qj_token_id j = tid) (l_journal l) = Some res \<and>
     qj_state res = Pending \<and> find_one (\<lambda>u. usr_id u = uid) (l_users l) = Some user \<and>
     l' = complete_effect now uid tid rid charge kind res l"

lemma complete_postD:
  assumes "complete_post now uid tid rid charge kind l l' res user"
  shows "find_one (\<lambda>j. qj_id j = rid \<and> qj_user_id j = uid \<and> qj_token_id j = tid) (l_journal l) = Some res"
    "qj_state res = Pending" "find_one (\<lambda>u. usr_id u = uid) (l_users l) = Some user"
    "l' = complete_effect now uid tid rid charge kind res l"
  using assms unfolding complete_post_def by - (elim conjE, assumption)+

lemma complete_post_ids:
  assumes "complete_post now uid tid rid charge kind l l' res user"
  shows "res \<in> set (l_journal l)" "qj_id res = rid" "qj_user_id res = uid" "qj_token_id res = tid" "usr_id user = uid"
  using complete_postD(1,3) [OF assms] by (auto dest: find_one_SomeD)

lemma complete_work_cases:
  assumes "complete_work now uid tid rid charge kind l = Inr (r, l')"
  obtains (skip) "\<not> sr_applied r" "l' = l"
      "\<And>j. find_one (\<lambda>j. qj_id j = rid \<and> qj_user_id j = uid \<and> qj_token_id j = tid) (l_journal l) = Some j
        \<Longrightarrow> qj_state j \<noteq> Pending"
  | (applied) res user where "complete_post now uid tid rid charge kind l l' res user"
      "r = \<lparr>sr_applied = True, sr_remaining = usr_quota user + (qj_reserved res - charge),
             sr_refunded = (if kind = KRelease then qj_reserved res else 0)\<rparr>"
proof (cases "find_one (\<lambda>j. qj_id j = rid \<and> qj_user_id j = uid \<and> qj_token_id j = tid) (l_journal l)")
  case None
  with assms show thesis by (intro skip) (auto simp: complete_work_def)
next
  case (Some res)
  show thesis
  proof (cases "qj_state res = Pending")
    case False
    with assms Some show thesis by (intro skip) (auto simp: complete_work_def)
  next
    case True
    with assms Some obtain user where u: "find_one (\<lambda>u. usr_id u = uid) (l_users l) = Some user"
      by (auto simp: complete_work_def split: option.splits)
    then have "usr_id user = uid" by (auto dest: find_one_SomeD)
    with assms Some True u have
      "r = \<lparr>sr_applied = True, sr_remaining = usr_quota user + (qj_reserved res - charge),
             sr_refunded = (if kind = KRelease then qj_reserved res else 0)\<rparr>"
      "l' = complete_effect now uid tid rid charge kind res l"
      by (simp_all add: complete_work_def complete_effect_def Let_def split: if_splits)
    with Some True u show thesis by (intro applied) (simp_all add: complete_post_def)
  qed
qed

lemma complete_post_entry:
  assumes "complete_post now uid tid rid charge kind l l' res user" "wf_ledger l"
  shows "find_one (\<lambda>j. qj_id j = rid \<and> qj_state j = Pending) (l_journal l) = Some res"
  using assms(2) complete_post_ids(1,2) [OF assms(1)] complete_postD(2) [OF assms(1)]
  by (intro find_one_distinct [where key = qj_id]) (auto simp: wf_ledger_def)

lemma funds_complete_post:
  assumes "complete_post now uid tid rid charge kind l l' res user" "wf_ledger l"
  shows "funds v l' = funds v l"
  using sum_update_one [OF complete_postD(3) [OF assms(1)], of "owned v"]
    sum_update_one [OF complete_post_entry [OF assms], of "held v"]
    complete_postD(2,4) [OF assms(1)] complete_post_ids [OF assms(1)]
  by (simp add: complete_effect_def funds_def owned_def held_def)

lemma wf_complete_post:
  assumes "complete_post now uid tid rid charge kind l l' res user" "wf_ledger l"
  shows "wf_ledger l'"
  using assms(2) complete_postD(4) [OF assms(1)]
  by (simp add: complete_effect_def wf_ledger_def update_one_keys)

subsection \<open>The ledger as a state machine\<close>

text \<open>
  Every operation of the ledger is a sequence of two kinds of steps: a hold is taken, a hold is
  billed. \<open>reaches\<close> is their reflexive transitive closure.
\<close>

inductive ledger_step :: "ledger \<Rightarrow> ledger \<Rightarrow> bool" where
  hold: "reserve_post now idn rid need l l' user token \<Longrightarrow> 1 \<le> need \<Longrightarrow> ledger_step l l'"
| bill: "complete_post now uid tid rid charge kind l l' res user \<Longrightarrow> 0 \<le> charge \<Longrightarrow> ledger_step l l'"

abbreviation reaches :: "ledger \<Rightarrow> ledger \<Rightarrow> bool" where
  "reaches \<equiv> ledger_step\<^sup>*\<^sup>*"

lemma step_wf: "ledger_step l l' \<Longrightarrow> wf_ledger l \<Longrightarrow> wf_ledger l'"
  by (induction rule: ledger_step.induct) (auto intro: wf_reserve_post wf_complete_post)

lemma step_funds: "ledger_step l l' \<Longrightarrow> wf_ledger l \<Longrightarrow> funds v l' = funds v l"
  by (induction rule: ledger_step.induct) (auto simp: funds_reserve_post funds_complete_post)

lemma reaches_wf: "reaches l l' \<Longrightarrow> wf_ledger l \<Longrightarrow> wf_ledger l'"
  by (induction rule: rtranclp_induct) (auto intro: step_wf)

lemma reaches_funds: "reaches l l' \<Longrightarrow> wf_ledger l \<Longrightarrow> funds v l' = funds v l"
proof (induction rule: rtranclp_induct)
  case base
  then show ?case by simp
next
  case (step y z)
  then show ?case using step_funds reaches_wf by metis
qed

text \<open>The audit trail: what the used-quota counters hold beyond the applied journal entries.\<close>

definition billed :: "string \<Rightarrow> quota_journal_doc \<Rightarrow> int" where
  "billed v j = (if qj_state j = Applied \<and> qj_user_id j = v then qj_amount j else 0)"

definition used :: "string \<Rightarrow> user_doc \<Rightarrow> int" where
  "used v u = (if usr_id u = v then usr_used_quota u else 0)"

definition unaudited :: "string \<Rightarrow> ledger \<Rightarrow> int" where
  "unaudited v l = sum_list (map (used v) (l_users l)) - sum_list (map (billed v) (l_journal l))"

lemma step_unaudited: "ledger_step l l' \<Longrightarrow> wf_ledger l \<Longrightarrow> unaudited v l' = unaudited v l"
proof (induction rule: ledger_step.induct)
  case (hold now idn rid need l l' user token)
  with sum_update_one [OF reserve_post_payer [OF hold.hyps(1)], of "used v"]
    reserve_postD(8) [OF hold.hyps(1)]
  show ?case by (simp add: reserve_effect_def unaudited_def used_def billed_def)
next
  case (bill now uid tid rid charge kind l l' res user)
  with sum_update_one [OF complete_postD(3) [OF bill.hyps(1)], of "used v"]
    sum_update_one [OF complete_post_entry [OF bill.hyps(1) bill.prems], of "billed v"]
    complete_postD(2,4) [OF bill.hyps(1)] complete_post_ids [OF bill.hyps(1)]
  show ?case by (simp add: complete_effect_def unaudited_def used_def billed_def)
qed

lemma reaches_unaudited: "reaches l l' \<Longrightarrow> wf_ledger l \<Longrightarrow> unaudited v l' = unaudited v l"
proof (induction rule: rtranclp_induct)
  case base
  then show ?case by simp
next
  case (step y z)
  then show ?case using step_unaudited reaches_wf by metis
qed

subsection \<open>Operations are runs of the machine\<close>

lemma quota_amount_nonneg: "quota_amount v field = Inr n \<Longrightarrow> 0 \<le> n"
  by (cases v) (auto simp: quota_amount_def Let_def le_ceiling_iff split: if_splits)

lemma reserve_quota_cases:
  assumes "reserve_quota degraded db_fails now idn rid amount l = (r, l')"
  obtains (refused) e where "r = Inl e" "l' = l"
  | (replay) res where "r = Inr res" "rr_replayed res" "l' = l"
  | (new) a user token where "quota_amount amount ''quota'' = Inr a" "1 \<le> max 1 a"
      "reserve_post now idn rid (max 1 a) l l' user token"
      "r = Inr \<lparr>rr_id = rid, rr_reserved = max 1 a, rr_remaining = usr_quota user - max 1 a, rr_replayed = False\<rparr>"
proof (cases r)
  case (Inl e)
  with assms show thesis
    by (intro refused) (auto simp: reserve_quota_def transaction_def split: if_splits sum.splits)
next
  case (Inr res)
  with assms obtain a where a: "quota_amount amount ''quota'' = Inr a"
    "reserve_work now idn rid (max 1 a) l = Inr (res, l')"
    by (auto simp: reserve_quota_def transaction_def split: if_splits sum.splits)
  from a(2) show thesis
  proof (cases rule: reserve_work_cases)
    case replay
    with Inr show thesis by (intro that(2)) auto
  next
    case (new user token)
    with Inr a show thesis by (intro that(3)) auto
  qed
qed

lemma complete_cases:
  assumes "complete db_fails now uid tid rid actual kind l = (r, l')"
  obtains (refused) e where "r = Inl e" "l' = l"
  | (skip) res where "r = Inr res" "\<not> sr_applied res" "l' = l" "wf_ledger l \<Longrightarrow> \<not> open_hold uid tid rid l"
  | (applied) charge res user where "quota_amount actual ''charge'' = Inr charge"
      "complete_post now uid tid rid charge kind l l' res user"
      "r = Inr \<lparr>sr_applied = True, sr_remaining = usr_quota user + (qj_reserved res - charge),
             sr_refunded = (if kind = KRelease then qj_reserved res else 0)\<rparr>"
proof (cases r)
  case (Inl e)
  with assms show thesis
    by (intro refused) (auto simp: complete_def transaction_def split: if_splits sum.splits)
next
  case (Inr res)
  with assms obtain c where c: "quota_amount actual ''charge'' = Inr c"
    "complete_work now uid tid rid c kind l = Inr (res, l')"
    by (auto simp: complete_def transaction_def split: if_splits sum.splits)
  from c(2) show thesis
  proof (cases rule: complete_work_cases)
    case skip
    have "\<not> open_hold uid tid rid l" if wf: "wf_ledger l"
    proof
      assume "open_hold uid tid rid l"
      then obtain j where j: "j \<in> set (l_journal l)" "qj_id j = rid" "qj_user_id j = uid"
          "qj_token_id j = tid" "qj_state j = Pending"
        by (auto simp: open_hold_def)
      with wf have "find_one (\<lambda>j. qj_id j = rid \<and> qj_user_id j = uid \<and> qj_token_id j = tid) (l_journal l) = Some j"
        by (intro find_one_distinct [where key = qj_id]) (auto simp: wf_ledger_def)
      with skip(3) j(5) show False by blast
    qed
    with Inr skip show thesis by (intro that(2)) auto
  next
    case (applied j user)
    with Inr c show thesis by (intro that(3)) auto
  qed
qed

lemma reserve_quota_reaches:
  "reserve_quota degraded db_fails now idn rid amount l = (r, l') \<Longrightarrow> reaches l l'"
  by (erule reserve_quota_cases) (simp, simp, blast intro: ledger_step.hold)

lemma complete_reaches:
  "complete db_fails now uid tid rid actual kind l = (r, l') \<Longrightarrow> reaches l l'"
  by (erule complete_cases) (auto intro: ledger_step.bill quota_amount_nonneg)

lemma apply_settlement_reaches: "apply_settlement now s l = (r, l') \<Longrightarrow> reaches l l'"
  by (auto simp: apply_settlement_def split: if_splits intro: complete_reaches)

lemma drain_reaches: "drain now ss l = (r, l') \<Longrightarrow> reaches l l'"
proof (induction ss arbitrary: l)
  case (Cons s ss)
  then show ?case
    by (auto split: prod.splits sum.splits dest!: apply_settlement_reaches intro: rtranclp_trans)
qed simp


lemma buffered_ledger:
  "buffered_on_503 pf st fb (r, l') w = (r', w') \<Longrightarrow> qw_ledger w' = l'"
  by (auto simp: buffered_on_503_def push_settlement_def split: sum.splits option.splits if_splits)

lemma release_quota_reaches:
  "release_quota db_fails pf now idn rid w = (r, w') \<Longrightarrow> reaches (qw_ledger w) (qw_ledger w')"
  unfolding release_quota_def
  by (metis buffered_ledger complete_reaches surj_pair)

lemma finalize_quota_reaches:
  "finalize_quota db_fails pf now idn rid actual w = (r, w') \<Longrightarrow> reaches (qw_ledger w) (qw_ledger w')"
proof (cases "quota_amount actual ''charge''")
  case (Inr a)
  assume "finalize_quota db_fails pf now idn rid actual w = (r, w')"
  with Inr show ?thesis
    unfolding finalize_quota_def by (simp) (metis buffered_ledger complete_reaches surj_pair)
qed (simp add: finalize_quota_def)

lemma flush_reaches:
  "flush_quota_settlements now later own lmt w = (r, w') \<Longrightarrow> reaches (qw_ledger w) (qw_ledger w')"
  by (auto simp: flush_quota_settlements_def Let_def split: if_splits prod.splits sum.splits
      dest!: drain_reaches)

text \<open>A history: any sequence of the ledger's operations, each with its arguments and faults.\<close>

datatype quota_op =
    OpReserve bool bool int identity string jsnum
  | OpSettle bool int identity string jsnum
  | OpRelease bool "thrown option" int identity string
  | OpFinalize bool "thrown option" int identity string jsnum
  | OpFlush int int string int

fun quota_step :: "quota_op \<Rightarrow> quota_world \<Rightarrow> quota_world" where
  "quota_step (OpReserve deg dbf now idn rid amount) w =
     w\<lparr>qw_ledger := snd (reserve_quota deg dbf now idn rid amount (qw_ledger w))\<rparr>"
| "quota_step (OpSettle dbf now idn rid actual) w =
     w\<lparr>qw_ledger := snd (settle_quota dbf now idn rid actual (qw_ledger w))\<rparr>"
| "quota_step (OpRelease dbf pf now idn rid) w = snd (release_quota dbf pf now idn rid w)"
| "quota_step (OpFinalize dbf pf now idn rid actual) w = snd (finalize_quota dbf pf now idn rid actual w)"
| "quota_step (OpFlush now later owner limit) w = snd (flush_quota_settlements now later owner limit w)"

definition quota_run :: "quota_op list \<Rightarrow> quota_world \<Rightarrow> quota_world" where
  "quota_run ops w = fold quota_step ops w"

lemma quota_step_reaches: "reaches (qw_ledger w) (qw_ledger (quota_step opn w))"
  by (cases opn) (auto simp: settle_quota_def intro: reserve_quota_reaches complete_reaches
      release_quota_reaches finalize_quota_reaches flush_reaches surjective_pairing)

lemma quota_run_reaches: "reaches (qw_ledger w) (qw_ledger (quota_run ops w))"
proof (induction ops arbitrary: w)
  case Nil
  then show ?case by (simp add: quota_run_def)
next
  case (Cons opn ops)
  from quota_step_reaches Cons [of "quota_step opn w"] show ?case
    by (auto simp: quota_run_def intro: rtranclp_trans)
qed


subsection \<open>Exactly once\<close>

text \<open>A request id whose journal entry exists and is no longer pending is closed for good.\<close>

definition id_closed :: "string \<Rightarrow> ledger \<Rightarrow> bool" where
  "id_closed rid l \<longleftrightarrow> (\<exists>j \<in> set (l_journal l). qj_id j = rid \<and> qj_state j \<noteq> Pending)"

lemma update_one_keeps: "x \<in> set ds \<Longrightarrow> \<not> P x \<Longrightarrow> x \<in> set (update_one P f ds)"
  by (induction ds) auto

lemma update_one_hits: "find_one P ds = Some d \<Longrightarrow> f d \<in> set (update_one P f ds)"
  by (induction ds) (auto split: if_splits)

lemma step_closed: "ledger_step l l' \<Longrightarrow> id_closed rid l \<Longrightarrow> id_closed rid l'"
proof (induction rule: ledger_step.induct)
  case (hold now idn r need l l' user token)
  with reserve_postD(8) [OF hold.hyps(1)] show ?case
    by (auto simp: id_closed_def reserve_effect_def)
next
  case (bill now uid tid r charge kind l l' res user)
  from bill.prems obtain j where j: "j \<in> set (l_journal l)" "qj_id j = rid" "qj_state j \<noteq> Pending"
    by (auto simp: id_closed_def)
  then have "j \<in> set (l_journal l')"
    using complete_postD(4) [OF bill.hyps(1)] by (auto simp: complete_effect_def intro: update_one_keeps)
  with j show ?case by (auto simp: id_closed_def)
qed

lemma reaches_closed: "reaches l l' \<Longrightarrow> id_closed rid l \<Longrightarrow> id_closed rid l'"
  by (induction rule: rtranclp_induct) (auto intro: step_closed)

lemma complete_post_closes:
  assumes "complete_post now uid tid rid charge kind l l' res user" "wf_ledger l"
  shows "id_closed rid l'"
proof -
  let ?f = "\<lambda>j. j\<lparr>qj_kind := kind, qj_amount := charge, qj_state := Applied, qj_applied_at := Some now\<rparr>"
  have "?f res \<in> set (l_journal l')"
    using update_one_hits [OF complete_post_entry [OF assms], of ?f] complete_postD(4) [OF assms(1)]
    by (simp add: complete_effect_def)
  with complete_post_ids(2) [OF assms(1)] show ?thesis
    unfolding id_closed_def by (intro bexI [of _ "?f res"]) simp_all
qed

lemma closed_not_open: "wf_ledger l \<Longrightarrow> id_closed rid l \<Longrightarrow> \<not> open_hold uid tid rid l"
  by (auto simp: id_closed_def open_hold_def wf_ledger_def distinct_map dest: inj_onD)

lemma not_open_skip:
  assumes "\<not> open_hold uid tid rid l"
  shows "complete_work now uid tid rid charge kind l =
    Inr (\<lparr>sr_applied = False, sr_remaining = remaining_of l uid, sr_refunded = 0\<rparr>, l)"
  using assms by (auto simp: complete_work_def Let_def open_hold_def split: option.splits dest!: find_one_SomeD)

text \<open>The ledger is a replayable store for settlement entries.\<close>

definition settlement_step :: "int \<Rightarrow> settlement \<Rightarrow> ledger \<Rightarrow> ledger option" where
  "settlement_step now s l =
     (case apply_settlement now s l of (Inl _, _) \<Rightarrow> None | (Inr _, l') \<Rightarrow> Some l')"

definition settled_entry :: "settlement \<Rightarrow> ledger \<Rightarrow> bool" where
  "settled_entry s l \<longleftrightarrow> st_request_id s \<noteq> [] \<and> st_user_id s \<noteq> [] \<and> st_token_id s \<noteq> [] \<and>
     \<not> isl (quota_amount (st_actual s) ''charge'') \<and>
     \<not> open_hold (st_user_id s) (st_token_id s) (st_request_id s) l"


lemma complete_post_open:
  assumes "complete_post now uid tid rid charge kind l l' res user" "open_hold u t r l'"
  shows "open_hold u t r l"
  using assms(2) complete_postD(4) [OF assms(1)]
  by (auto simp: open_hold_def complete_effect_def dest!: update_one_set)

lemma complete_open: "complete db_fails now uid tid rid actual kind l = (r, l') \<Longrightarrow> open_hold u t q l' \<Longrightarrow> open_hold u t q l"
  by (erule complete_cases) (auto dest: complete_post_open)

lemma settlement_step_Some:
  "settlement_step now s l = Some l' \<Longrightarrow>
     st_request_id s \<noteq> [] \<and> st_user_id s \<noteq> [] \<and> st_token_id s \<noteq> [] \<and>
     (\<exists>r. complete False now (st_user_id s) (st_token_id s) (st_request_id s) (st_actual s)
        (completion_kind (st_actual s)) l = (Inr r, l'))"
  by (auto simp: settlement_step_def apply_settlement_def split: if_splits prod.splits sum.splits)

lemma complete_Inr_settles:
  assumes "complete db_fails now uid tid rid actual kind l = (Inr r, l')" "wf_ledger l"
  shows "\<not> isl (quota_amount actual ''charge'') \<and> \<not> open_hold uid tid rid l'"
proof -
  have "\<not> isl (quota_amount actual ''charge'')"
    using assms(1) by (auto simp: complete_def split: sum.splits)
  moreover from assms(1) have "\<not> open_hold uid tid rid l'"
  proof (cases rule: complete_cases)
    case (applied charge res user)
    with assms(2) show ?thesis
      by (intro closed_not_open complete_post_closes) (auto intro: wf_complete_post)
  qed (use assms(2) in auto)
  ultimately show ?thesis ..
qed

interpretation ledger: replayable settlement_step settled_entry wf_ledger
proof
  fix t e s s'
  assume inv: "wf_ledger s" and st: "settlement_step t e s = Some s'"
  from settlement_step_Some [OF st] obtain r where c:
    "complete False t (st_user_id e) (st_token_id e) (st_request_id e) (st_actual e)
      (completion_kind (st_actual e)) s = (Inr r, s')"
    and ids: "st_request_id e \<noteq> []" "st_user_id e \<noteq> []" "st_token_id e \<noteq> []" by blast
  show "wf_ledger s'" using complete_reaches [OF c] inv by (rule reaches_wf)
  show "settled_entry e s'" using complete_Inr_settles [OF c inv] ids by (simp add: settled_entry_def)
next
  fix t e f s s'
  assume "settled_entry e s" "settlement_step t f s = Some s'"
  then show "settled_entry e s'"
    by (auto simp: settled_entry_def dest!: settlement_step_Some dest: complete_open)
next
  fix t e s
  assume inv: "wf_ledger s" and "settled_entry e s"
  then show "settlement_step t e s = Some s"
    by (auto simp: settled_entry_def settlement_step_def apply_settlement_def complete_def
        transaction_def not_open_skip isl_def split: sum.splits)
qed

lemma drain_run:
  "run_steps (settlement_step now) ss l = (snd (drain now ss l), \<not> isl (fst (drain now ss l)))"
proof (induction ss arbitrary: l)
  case (Cons s ss)
  have "snd (apply_settlement now s l) = l" if "isl (fst (apply_settlement now s l))"
    using that by (auto simp: apply_settlement_def complete_def transaction_def split: sum.splits if_splits)
  with Cons show ?case
    by (auto simp: settlement_step_def split: prod.splits sum.splits)
qed simp

lemma drain_ok_iff: "drain now ss l = (Inr (), l') \<longleftrightarrow> run_steps (settlement_step now) ss l = (l', True)"
  by (cases "drain now ss l"; cases "fst (drain now ss l)") (auto simp: drain_run)


subsection \<open>Properties\<close>

definition sample_ledger :: ledger where
  "sample_ledger = \<lparr>l_users = [sample_user], l_tokens = [sample_token], l_journal = []\<rparr>"

definition sample_held :: ledger where
  "sample_held = \<lparr>l_users = [sample_user], l_tokens = [sample_token], l_journal = [sample_hold]\<rparr>"

definition sample_world :: "ledger \<Rightarrow> quota_world" where
  "sample_world l = \<lparr>qw_ledger = l, qw_buffer = [], qw_lock = None\<rparr>"

lemmas sample_defs = sample_ledger_def sample_held_def sample_world_def sample_user_def sample_token_def
  sample_identity_def sample_hold_def

lemma wf_samples: "wf_ledger sample_ledger" "wf_ledger sample_held"
  by (simp_all add: wf_ledger_def sample_defs)

text \<open>C1: over any history of reservations, settlements, releases, finalisations and drains, with
  any faults, what a user owns (balance, consumed quota and pending holds) never changes.\<close>
theorem ledger_conserves_money:
  assumes "wf_ledger (qw_ledger w)"
  shows "funds v (qw_ledger (quota_run ops w)) = funds v (qw_ledger w)"
  using reaches_funds [OF quota_run_reaches assms] .

theorem ledger_conserves_money_witness:
  "funds ''u1'' (qw_ledger (quota_run
     [OpReserve False False 0 sample_identity ''r1'' (JFin 10),
      OpFinalize False None 5 sample_identity ''r1'' (JFin 7)] (sample_world sample_ledger))) = 100"
  using ledger_conserves_money [of "sample_world sample_ledger" "''u1''"
    "[OpReserve False False 0 sample_identity ''r1'' (JFin 10), OpFinalize False None 5 sample_identity ''r1'' (JFin 7)]"]
    wf_samples(1)
  by (simp add: sample_world_def funds_def owned_def sample_ledger_def sample_user_def)

text \<open>Over any history the used-quota counters of a user move exactly with the applied journal
  entries, and document ids stay unique.\<close>
theorem ledger_audit_trail:
  assumes "wf_ledger (qw_ledger w)"
  shows "wf_ledger (qw_ledger (quota_run ops w)) \<and>
    unaudited v (qw_ledger (quota_run ops w)) = unaudited v (qw_ledger w)"
  using reaches_wf [OF quota_run_reaches assms] reaches_unaudited [OF quota_run_reaches assms] by blast

theorem ledger_audit_trail_witness:
  "unaudited ''u1'' (qw_ledger (quota_run
     [OpFinalize False None 5 sample_identity ''r1'' (JFin 7)] (sample_world sample_held))) = 0"
  using ledger_audit_trail [of "sample_world sample_held" "[OpFinalize False None 5 sample_identity ''r1'' (JFin 7)]" "''u1''"]
    wf_samples(2)
  by (simp add: sample_world_def unaudited_def used_def billed_def sample_held_def sample_user_def sample_hold_def)

text \<open>A reservation that is granted and is no replay debits the user by exactly the need, never
  below zero, from an enabled, unexpired key within its cap, and records the hold.\<close>
theorem reserve_debits_exactly:
  assumes "reserve_quota degraded db_fails now idn rid amount l = (Inr r, l')" "\<not> rr_replayed r"
  shows "rr_reserved r \<ge> 1 \<and> rr_remaining r = remaining_of l (idn_user_id idn) - rr_reserved r \<and>
    rr_remaining r \<ge> 0 \<and> remaining_of l' (idn_user_id idn) = rr_remaining r \<and>
    open_hold (idn_user_id idn) (idn_token_id idn) rid l' \<and>
    (\<exists>token. token \<in> set (l_tokens l) \<and> tok_id token = idn_token_id idn \<and> tok_status token = Enabled \<and>
       (tok_unlimited token \<or> rr_reserved r \<le> tok_quota token))"
  using assms(1)
proof (cases rule: reserve_quota_cases)
  case (new a user token)
  note post = new(3)
  let ?P = "\<lambda>u. usr_id u = idn_user_id idn \<and> usr_status u = Enabled \<and> max 1 a \<le> usr_quota u"
  let ?f = "\<lambda>u. u\<lparr>usr_quota := usr_quota u - max 1 a, usr_updated_at := now\<rparr>"
  have "find_one (\<lambda>u. usr_id u = idn_user_id idn) (update_one ?P ?f (l_users l)) = Some (?f user)"
    using reserve_postD(2,4,6) [OF post] reserve_post_ids(1) [OF post]
    by (intro find_update_first) auto
  then have "remaining_of l' (idn_user_id idn) = usr_quota user - max 1 a"
    using reserve_postD(8) [OF post] by (simp add: remaining_of_def reserve_effect_def)
  moreover have "open_hold (idn_user_id idn) (idn_token_id idn) rid l'"
    using reserve_postD(8) [OF post] by (auto simp: open_hold_def reserve_effect_def)
  moreover have "token \<in> set (l_tokens l)" using reserve_postD(3) [OF post] by (auto dest: find_one_SomeD)
  ultimately show ?thesis
    using new(4) reserve_postD(2,5,6,7) [OF post] reserve_post_ids(2) [OF post]
    by (auto simp: remaining_of_def)
qed (use assms(2) in auto)


theorem reserve_debits_exactly_witness:
  "remaining_of (snd (reserve_quota False False 0 sample_identity ''r1'' (JFin 10) sample_ledger)) ''u1'' = 90"
proof -
  let ?o = "reserve_quota False False 0 sample_identity ''r1'' (JFin 10) sample_ledger"
  have "fst ?o = Inr \<lparr>rr_id = ''r1'', rr_reserved = 10, rr_remaining = 90, rr_replayed = False\<rparr>" by code_simp
  then have "?o = (Inr \<lparr>rr_id = ''r1'', rr_reserved = 10, rr_remaining = 90, rr_replayed = False\<rparr>, snd ?o)"
    by (simp add: prod_eq_iff)
  from reserve_debits_exactly [OF this] show ?thesis by (simp add: sample_identity_def)
qed

text \<open>C2: once a completion was applied, no history whatsoever makes a completion of the same
  request id apply again, under any caller: it reports not applied and leaves the ledger alone.\<close>
theorem settlement_applied_once:
  assumes "complete db_fails now uid tid rid actual kind (qw_ledger w) = (Inr r, l')" "sr_applied r"
    "wf_ledger (qw_ledger w)" "qw_ledger w' = l'"
    "complete db_fails2 now2 uid2 tid2 rid actual2 kind2 (qw_ledger (quota_run ops w')) = (Inr r2, l2)"
  shows "\<not> sr_applied r2 \<and> l2 = qw_ledger (quota_run ops w')"
proof -
  let ?l = "qw_ledger (quota_run ops w')"
  from assms(1) have "id_closed rid l' \<and> wf_ledger l'"
  proof (cases rule: complete_cases)
    case (applied charge res user)
    with assms(3) show ?thesis by (auto intro: complete_post_closes wf_complete_post)
  qed (use assms(2) in auto)
  then have "id_closed rid ?l" "wf_ledger ?l"
    using quota_run_reaches [of w' ops] assms(4) by (auto intro: reaches_closed reaches_wf)
  then have no: "\<not> open_hold uid2 tid2 rid ?l" using closed_not_open by blast
  from assms(5) show ?thesis
    by (auto simp: complete_def transaction_def not_open_skip [OF no] split: sum.splits if_splits)
qed

theorem settlement_applied_once_witness:
  "fst (complete False 9 ''u1'' ''t1'' ''r1'' (JFin 3) KSettle (snd (complete False 5 ''u1'' ''t1'' ''r1'' (JFin 7) KSettle sample_held)))
    = Inr \<lparr>sr_applied = False, sr_remaining = 103, sr_refunded = 0\<rparr>"
proof -
  let ?w = "sample_world sample_held"
  let ?o = "complete False 5 ''u1'' ''t1'' ''r1'' (JFin 7) KSettle sample_held"
  let ?o2 = "complete False 9 ''u1'' ''t1'' ''r1'' (JFin 3) KSettle (snd ?o)"
  have 1: "fst ?o = Inr \<lparr>sr_applied = True, sr_remaining = 103, sr_refunded = 0\<rparr>" by code_simp
  have 2: "fst ?o2 = Inr \<lparr>sr_applied = False, sr_remaining = 103, sr_refunded = 0\<rparr>" by code_simp
  have "complete False 5 ''u1'' ''t1'' ''r1'' (JFin 7) KSettle (qw_ledger ?w) =
      (Inr \<lparr>sr_applied = True, sr_remaining = 103, sr_refunded = 0\<rparr>, snd ?o)"
    using 1 by (simp add: prod_eq_iff sample_world_def)
  moreover have "complete False 9 ''u1'' ''t1'' ''r1'' (JFin 3) KSettle (qw_ledger (quota_run [] (sample_world (snd ?o)))) =
      (Inr \<lparr>sr_applied = False, sr_remaining = 103, sr_refunded = 0\<rparr>, snd ?o2)"
    using 2 by (simp add: prod_eq_iff sample_world_def quota_run_def)
  ultimately have "snd ?o2 = qw_ledger (quota_run [] (sample_world (snd ?o)))"
    using settlement_applied_once [of False 5 "''u1''" "''t1''" "''r1''" "JFin 7" KSettle ?w _ "snd ?o"
        "sample_world (snd ?o)" False 9 "''u1''" "''t1''" "JFin 3" KSettle "[]"] wf_samples(2)
    by (auto simp: sample_world_def)
  with 2 show ?thesis by simp
qed


text \<open>A drain that ran a prefix of the settlement buffer and crashed before trimming it loses
  and repeats nothing: the next drain, at any later time, behaves as if only the rest were there.\<close>
theorem drain_replay_safe:
  assumes "wf_ledger l" "drain t1 xs l = (Inr (), l1)"
  shows "drain t2 (xs @ ys) l1 = drain t2 ys l1"
proof -
  from assms(2) have run: "run_steps (settlement_step t1) xs l = (l1, True)" by (simp add: drain_ok_iff)
  have "drain t2 xs l1 = (Inr (), l1)"
    using ledger.resume [OF assms(1) run, of t2 "[]"] by (simp add: drain_ok_iff)
  moreover have "drain t (as @ bs) k = (case drain t as k of (Inl e, k') \<Rightarrow> (Inl e, k') | (Inr _, k') \<Rightarrow> drain t bs k')"
    for t as bs k
    by (induction as arbitrary: k) (auto split: prod.splits sum.splits)
  ultimately show ?thesis by simp
qed

theorem drain_replay_safe_witness:
  "drain 9 ([settlement_of sample_identity ''r1'' (JFin 7)] @ [settlement_of sample_identity ''r2'' (JFin 1)])
     (snd (drain 5 [settlement_of sample_identity ''r1'' (JFin 7)] sample_held)) =
   drain 9 [settlement_of sample_identity ''r2'' (JFin 1)]
     (snd (drain 5 [settlement_of sample_identity ''r1'' (JFin 7)] sample_held))"
proof (rule drain_replay_safe [OF wf_samples(2)])
  have "fst (drain 5 [settlement_of sample_identity ''r1'' (JFin 7)] sample_held) = Inr ()" by code_simp
  then show "drain 5 [settlement_of sample_identity ''r1'' (JFin 7)] sample_held =
      (Inr (), snd (drain 5 [settlement_of sample_identity ''r1'' (JFin 7)] sample_held))"
    by (simp add: prod_eq_iff)
qed

text \<open>A drain that reports success under a live lease removes from the buffer exactly the
  entries it reports, all of them settled, and gives the lock back.\<close>
theorem flush_acknowledges_settled:
  assumes "flush_quota_settlements now later owner limit w = (Inr n, w')" "wf_ledger (qw_ledger w)"
    "later < now + 120000" "\<not> lock_held now w"
  shows "qw_buffer w' = drop n (qw_buffer w) \<and> n \<le> length (qw_buffer w) \<and> qw_lock w' = None \<and>
    (\<forall>s \<in> set (take n (qw_buffer w)). \<not> open_hold (st_user_id s) (st_token_id s) (st_request_id s) (qw_ledger w'))"
proof -
  let ?raw = "take (nat (max 1 (min 1000 limit))) (qw_buffer w)"
  show ?thesis
  proof (cases "?raw = []")
    case True
    then have "qw_buffer w = []" by (auto simp: max_def split: if_splits)
    with assms(1,4) show ?thesis by (auto simp: flush_quota_settlements_def Let_def split: if_splits)
  next
    case False
    define w1 where "w1 = w\<lparr>qw_lock := Some (owner, now + 120000)\<rparr>"
    have w1: "qw_ledger w1 = qw_ledger w" "qw_buffer w1 = qw_buffer w" by (simp_all add: w1_def)
    have flush: "flush_quota_settlements now later owner limit w =
      (case drain later ?raw (qw_ledger w) of
         (Inl e, l') \<Rightarrow> (Inl e, w1\<lparr>qw_ledger := l', qw_lock := None\<rparr>)
       | (Inr _, l') \<Rightarrow> (Inr (length ?raw), w1\<lparr>qw_ledger := l', qw_lock := None,
             qw_buffer := drop (length ?raw) (qw_buffer w)\<rparr>))"
      unfolding flush_quota_settlements_def Let_def w1_def [symmetric] w1
      by (simp only: assms(3,4) False if_True if_False)
    obtain o1 l' where o: "drain later ?raw (qw_ledger w) = (o1, l')" by fastforce
    from assms(1) have "o1 = Inr ()" unfolding flush o by (cases o1) simp_all
    with o have d: "drain later ?raw (qw_ledger w) = (Inr (), l')" by simp
    have w': "n = length ?raw" "qw_ledger w' = l'" "qw_lock w' = None"
        "qw_buffer w' = drop (length ?raw) (qw_buffer w)"
      using assms(1) unfolding flush d by auto
    have run: "run_steps (settlement_step later) ?raw (qw_ledger w) = (l', True)" using d by (simp only: drain_ok_iff)
    have n: "take n (qw_buffer w) = ?raw" "n \<le> length (qw_buffer w)" using w'(1) by (simp_all add: min_def)
    have "\<not> open_hold (st_user_id s) (st_token_id s) (st_request_id s) l'" if "s \<in> set ?raw" for s
      using ledger.run_settles [OF assms(2) run that] by (simp add: settled_entry_def)
    then show ?thesis unfolding n(1) w'(2,3,4) using n(2) w'(1) by simp
  qed
qed

theorem flush_acknowledges_settled_witness:
  "qw_buffer (snd (flush_quota_settlements 0 5 ''o'' 100
     ((sample_world sample_held)\<lparr>qw_buffer := [settlement_of sample_identity ''r1'' (JFin 7)]\<rparr>))) = []"
proof -
  let ?w = "(sample_world sample_held)\<lparr>qw_buffer := [settlement_of sample_identity ''r1'' (JFin 7)]\<rparr>"
  have "fst (flush_quota_settlements 0 5 ''o'' 100 ?w) = Inr 1" by code_simp
  then have "flush_quota_settlements 0 5 ''o'' 100 ?w = (Inr 1, snd (flush_quota_settlements 0 5 ''o'' 100 ?w))"
    by (simp add: prod_eq_iff)
  from flush_acknowledges_settled [OF this] wf_samples(2) show ?thesis
    by (simp add: sample_world_def lock_held_def)
qed

end
