(* ===== verification/Election.thy ===== *)
theory Election
  imports Prelude
begin

text \<open>
  Choosing a channel, \<open>src/lib/routing/election.ts\<close>: priority tiers, the weighted choice inside a
  tier and the election by retry attempt. The random source is a number in [0, 1). The laws give
  the exact share of every candidate and the tier an attempt draws from.
\<close>

record candidate =
  cand_channel :: string
  cand_priority :: int
  cand_weight :: int

definition weight_floor :: int where
  "weight_floor = 10"

definition share :: "candidate \<Rightarrow> int" where
  "share c = max 0 (cand_weight c) + weight_floor"

definition tiers_of :: "candidate list \<Rightarrow> candidate list list" where
  "tiers_of cs = map (\<lambda>p. filter (\<lambda>c. cand_priority c = p) cs)
     (rev (sort (remdups (map cand_priority cs))))"

text \<open>The cursor walks down the tier; the last element is the fallback.\<close>

fun pick_from :: "rat \<Rightarrow> candidate list \<Rightarrow> candidate option" where
  "pick_from cursor [] = None"
| "pick_from cursor [c] = Some c"
| "pick_from cursor (c # d # cs) =
     (if cursor - of_int (share c) < 0 then Some c else pick_from (cursor - of_int (share c)) (d # cs))"

definition total_share :: "candidate list \<Rightarrow> int" where
  "total_share cs = sum_list (map share cs)"

definition weighted_pick :: "candidate list \<Rightarrow> rat \<Rightarrow> candidate option" where
  "weighted_pick tier r =
     (case tier of [] \<Rightarrow> None | [c] \<Rightarrow> Some c | _ \<Rightarrow> pick_from (r * of_int (total_share tier)) tier)"

definition elect_from :: "candidate list \<Rightarrow> int \<Rightarrow> string option \<Rightarrow> rat \<Rightarrow> candidate option" where
  "elect_from cs attempt affinity r =
     (if cs = [] then None
      else
        let tiers = tiers_of cs; n = nat (max 0 attempt);
            tier = tiers ! min n (length tiers - 1);
            pinned = (case affinity of
                Some a \<Rightarrow> if n = 0 \<and> a \<noteq> [] then List.find (\<lambda>c. cand_channel c = a) tier else None
              | None \<Rightarrow> None)
        in (case pinned of Some c \<Rightarrow> Some c | None \<Rightarrow> weighted_pick tier r))"

subsection \<open>Tiers\<close>

lemma share_pos [simp]: "0 < share c"
  by (simp add: share_def weight_floor_def)

lemma set_tiers_of: "\<Union> (set ` set (tiers_of cs)) = set cs"
  by (auto simp: tiers_of_def)

lemma tiers_of_length: "length (tiers_of cs) = card (cand_priority ` set cs)"
  by (simp add: tiers_of_def length_remdups_card_conv)

lemma tiers_of_nonempty: "cs \<noteq> [] \<Longrightarrow> tiers_of cs \<noteq> []"
  using set_tiers_of [of cs] by auto

lemma tier_nth:
  assumes "i < length (tiers_of cs)"
  defines "ps \<equiv> rev (sort (remdups (map cand_priority cs)))"
  shows "tiers_of cs ! i = filter (\<lambda>c. cand_priority c = ps ! i) cs" "ps ! i \<in> cand_priority ` set cs"
proof -
  have i: "i < length ps" using assms(1) by (simp add: tiers_of_def ps_def)
  then show "tiers_of cs ! i = filter (\<lambda>c. cand_priority c = ps ! i) cs"
    by (simp add: tiers_of_def ps_def)
  from i have "ps ! i \<in> set ps" by (rule nth_mem)
  then show "ps ! i \<in> cand_priority ` set cs" by (simp add: ps_def)
qed

lemma tier_nth_nonempty: "i < length (tiers_of cs) \<Longrightarrow> tiers_of cs ! i \<noteq> []"
  using tier_nth [of i cs] by (auto simp: filter_empty_conv)

text \<open>Higher tiers have strictly higher priorities.\<close>

lemma tiers_descend:
  assumes "i < j" "j < length (tiers_of cs)" "c \<in> set (tiers_of cs ! i)" "d \<in> set (tiers_of cs ! j)"
  shows "cand_priority d < cand_priority c"
proof -
  let ?ps = "rev (sort (remdups (map cand_priority cs)))"
  have len: "length (tiers_of cs) = length ?ps" by (simp add: tiers_of_def)
  have "sorted_wrt (<) (sort (remdups (map cand_priority cs)))" by (simp add: strict_sorted_iff)
  then have "sorted_wrt (>) ?ps" by (simp add: sorted_wrt_rev)
  then have "?ps ! j < ?ps ! i" using assms(1,2) len by (auto simp: sorted_wrt_iff_nth_less)
  with assms tier_nth(1) [of i cs] tier_nth(1) [of j cs] len show ?thesis by auto
qed


subsection \<open>Weighted choice\<close>

lemma total_share_simps [simp]: "total_share [] = 0" "total_share (c # cs) = share c + total_share cs"
  by (simp_all add: total_share_def)

lemma total_share_nonneg: "0 \<le> total_share cs"
  by (induction cs) (auto simp: share_def weight_floor_def)

lemma pick_from_nth:
  assumes "i < length cs" "of_int (total_share (take i cs)) \<le> r" "r < of_int (total_share (take (Suc i) cs))"
  shows "pick_from r cs = Some (cs ! i)"
  using assms
proof (induction r cs arbitrary: i rule: pick_from.induct)
  case (3 r c d cs)
  show ?case
  proof (cases i)
    case 0
    with "3.prems" show ?thesis by simp
  next
    case (Suc k)
    have "0 \<le> (of_int (total_share (take k (d # cs))) :: rat)" using total_share_nonneg by simp
    with 3(3) Suc have ge: "\<not> r - of_int (share c) < 0" by simp
    have "pick_from (r - of_int (share c)) (d # cs) = Some ((d # cs) ! k)"
      using 3(2-4) Suc by (intro 3(1) [OF ge]) simp_all
    with ge have "pick_from r (c # d # cs) = Some ((d # cs) ! k)" by simp
    with Suc show ?thesis by simp
  qed
qed auto

lemma pick_from_member: "pick_from r cs = Some c \<Longrightarrow> c \<in> set cs"
  by (induction r cs rule: pick_from.induct) (auto split: if_splits)

lemma weighted_pick_eq: "weighted_pick tier r = pick_from (r * of_int (total_share tier)) tier"
  by (auto simp: weighted_pick_def split: list.splits)

lemma weighted_pick_member: "weighted_pick tier r = Some c \<Longrightarrow> c \<in> set tier"
  by (simp add: weighted_pick_eq pick_from_member)

lemma pick_from_None: "pick_from r cs = None \<longleftrightarrow> cs = []"
  by (induction r cs rule: pick_from.induct) auto

lemma weighted_pick_None: "weighted_pick tier r = None \<longleftrightarrow> tier = []"
  by (simp add: weighted_pick_eq pick_from_None)

text \<open>With a draw in [0, 1) the choice inside a tier is exactly proportional: the \<open>i\<close>-th
  candidate is chosen when the scaled draw falls in its own interval, of length its weight plus the
  floor, so a candidate of weight zero keeps a share.\<close>
theorem weighted_pick_exact:
  assumes "i < length tier" "of_int (total_share (take i tier)) \<le> r * of_int (total_share tier)"
    "r * of_int (total_share tier) < of_int (total_share (take (Suc i) tier))"
  shows "weighted_pick tier r = Some (tier ! i) \<and>
    total_share (take (Suc i) tier) - total_share (take i tier) = max 0 (cand_weight (tier ! i)) + 10 \<and>
    total_share (take (length tier) tier) = total_share tier"
proof -
  have "total_share (take (Suc i) tier) = total_share (take i tier) + share (tier ! i)"
    using assms(1) by (simp add: take_Suc_conv_app_nth total_share_def)
  moreover have "weighted_pick tier r = Some (tier ! i)"
    using pick_from_nth [OF assms] by (simp add: weighted_pick_eq)
  ultimately show ?thesis by (simp add: share_def weight_floor_def)
qed

definition cand :: "string \<Rightarrow> int \<Rightarrow> int \<Rightarrow> candidate" where
  "cand i p w = \<lparr>cand_channel = i, cand_priority = p, cand_weight = w\<rparr>"

theorem weighted_pick_exact_witness:
  "weighted_pick [cand ''zero'' 1 0, cand ''heavy'' 1 90] (11 / 110) = Some (cand ''heavy'' 1 90)"
  using weighted_pick_exact [of 1 "[cand ''zero'' 1 0, cand ''heavy'' 1 90]" "11 / 110"]
  by (simp add: cand_def share_def weight_floor_def)

subsection \<open>Election\<close>

lemma elect_tier:
  assumes "elect_from cs attempt affinity r = Some c"
  shows "c \<in> set (tiers_of cs ! min (nat (max 0 attempt)) (length (tiers_of cs) - 1))"
  using assms
  by (auto simp: elect_from_def Let_def find_Some_iff split: if_splits option.splits dest: weighted_pick_member)

lemma elect_member:
  assumes "elect_from cs attempt affinity r = Some c"
  shows "c \<in> set cs"
proof -
  have "cs \<noteq> []" using assms by (auto simp: elect_from_def)
  then have "min (nat (max 0 attempt)) (length (tiers_of cs) - 1) < length (tiers_of cs)"
    using tiers_of_nonempty [of cs] by (cases "tiers_of cs") auto
  with elect_tier [OF assms] set_tiers_of [of cs] show ?thesis
    by (metis (no_types, lifting) UN_I nth_mem)
qed

lemma elect_None: "elect_from cs attempt affinity r = None \<longleftrightarrow> cs = []"
proof (cases "cs = []")
  case False
  let ?i = "min (nat (max 0 attempt)) (length (tiers_of cs) - 1)"
  have "?i < length (tiers_of cs)" using tiers_of_nonempty [OF False] by (cases "tiers_of cs") auto
  then have "weighted_pick (tiers_of cs ! ?i) r \<noteq> None"
    using tier_nth_nonempty by (simp only: weighted_pick_None) simp
  with False show ?thesis unfolding elect_from_def Let_def by (simp split: option.split)
qed (simp add: elect_from_def)


lemma descending_above:
  fixes ps :: "'a :: linorder list"
  assumes "sorted_wrt (>) ps" "i < length ps"
  shows "card {p \<in> set ps. p > ps ! i} = i"
proof -
  have "{p \<in> set ps. p > ps ! i} = set (take i ps)"
  proof (intro set_eqI iffI)
    fix p assume "p \<in> {p \<in> set ps. p > ps ! i}"
    then obtain j where j: "j < length ps" "p = ps ! j" "ps ! j > ps ! i" by (auto simp: in_set_conv_nth)
    have "j < i"
    proof (rule ccontr)
      assume "\<not> j < i"
      then have "i = j \<or> i < j" by auto
      then show False
      proof
        assume "i < j"
        then have "ps ! j < ps ! i" using assms(1) j(1) by (simp add: sorted_wrt_iff_nth_less)
        with j(3) show False by simp
      qed (use j in simp)
    qed
    with j show "p \<in> set (take i ps)" by (auto simp: in_set_conv_nth intro!: exI [of _ j])
  next
    fix p assume "p \<in> set (take i ps)"
    then obtain j where "j < i" "p = ps ! j" using assms(2) by (auto simp: in_set_conv_nth)
    with assms show "p \<in> {p \<in> set ps. p > ps ! i}" by (auto simp: sorted_wrt_iff_nth_less)
  qed
  moreover have "distinct ps" using assms(1) by (induction ps) auto
  ultimately show ?thesis using assms(2) by (simp add: distinct_card)
qed

text \<open>An election on attempt \<open>n\<close> returns a candidate of the pool from its \<open>n\<close>-th priority tier,
  clamped to the last: exactly \<open>min n (tiers - 1)\<close> distinct priorities of the pool are above it.\<close>
theorem election_tier:
  assumes "elect_from cs attempt affinity r = Some c"
  shows "c \<in> set cs \<and> card {p \<in> cand_priority ` set cs. p > cand_priority c} =
    min (nat (max 0 attempt)) (card (cand_priority ` set cs) - 1)"
proof -
  let ?ps = "rev (sort (remdups (map cand_priority cs)))"
  let ?i = "min (nat (max 0 attempt)) (length (tiers_of cs) - 1)"
  have "cs \<noteq> []" using assms by (auto simp: elect_from_def)
  then have i: "?i < length (tiers_of cs)" using tiers_of_nonempty by (cases "tiers_of cs") auto
  have desc: "sorted_wrt (>) ?ps" by (simp add: sorted_wrt_rev strict_sorted_iff)
  have "cand_priority c = ?ps ! ?i" using elect_tier [OF assms] tier_nth(1) [OF i] by simp
  moreover have "card {p \<in> set ?ps. p > ?ps ! ?i} = ?i"
    using i by (intro descending_above [OF desc]) (simp add: tiers_of_def)
  moreover have "set ?ps = cand_priority ` set cs" by simp
  ultimately show ?thesis using elect_member [OF assms] by (simp add: tiers_of_length)
qed

theorem election_tier_witness:
  "card {p \<in> cand_priority ` set [cand ''a'' 10 0, cand ''b'' 5 0, cand ''c'' 1 0]. p > 5} = 1"
proof -
  have "elect_from [cand ''a'' 10 0, cand ''b'' 5 0, cand ''c'' 1 0] 1 None 0 = Some (cand ''b'' 5 0)" by code_simp
  from election_tier [OF this] show ?thesis by (simp add: cand_def insert_commute)
qed

end
