(* ===== verification/RedisStore.thy ===== *)
theory RedisStore
  imports JsonValue "HOL-Library.State_Monad"
begin

text \<open>
  The in-process Redis twin, \<open>src/lib/redis/memory.ts\<close>. The store keeps its keys in insertion
  order, as a JavaScript map does; every command first drops the addressed key when its expiry
  has passed. The clock (milliseconds) is an argument. Values are text; a stored number is the
  text \<open>String(n)\<close> gives, except that a non-integral number is kept as \<^term>\<open>Frac\<close> of its exact
  value (the decimal rounding of doubles is not modelled) and that the text of
  \<open>JSON.stringify(v)\<close> is kept as \<^term>\<open>Doc\<close> of \<open>v\<close>. Numeric arguments of a command are
  numbers here: their text round trip is \<open>text_num_num_text\<close>.
\<close>

subsection \<open>Text and numbers\<close>

datatype rtext = Lit string | Frac rat | Doc json

definition num_text :: "jsnum \<Rightarrow> rtext" where
  "num_text x = (case x of
      JFin q \<Rightarrow> if q = of_int \<lfloor>q\<rfloor> then Lit (show_int \<lfloor>q\<rfloor>) else Frac q
    | JNaN \<Rightarrow> Lit ''NaN'' | JPosInf \<Rightarrow> Lit ''Infinity'' | JNegInf \<Rightarrow> Lit ''-Infinity'')"

fun text_num :: "rtext \<Rightarrow> jsnum" where
  "text_num (Lit s) = number_of_string s"
| "text_num (Frac q) = JFin q"
| "text_num (Doc j) = (case j of JNum x \<Rightarrow> if js_finite x then x else JNaN | _ \<Rightarrow> JNaN)"

lemma text_num_num_text [simp]: "text_num (num_text x) = x"
proof (cases x)
  case (JFin q)
  then show ?thesis by (simp add: num_text_def)
qed (simp_all add: num_text_def, code_simp+)

lemma text_num_zero [simp]: "text_num (Lit ''0'') = JFin 0"
  by code_simp

subsection \<open>The store\<close>

datatype rvalue = VText rtext | VHash "(string \<times> rtext) list" | VList "rtext list"
  | VZset "(rat \<times> string) list"

record entry =
  en_value :: rvalue
  en_expires :: "rat option"

type_synonym rstore = "(string \<times> entry) list"

fun put :: "'k \<Rightarrow> 'v \<Rightarrow> ('k \<times> 'v) list \<Rightarrow> ('k \<times> 'v) list" where
  "put k v [] = [(k, v)]"
| "put k v (e # es) = (if fst e = k then (k, v) # es else e # put k v es)"

definition del :: "'k \<Rightarrow> ('k \<times> 'v) list \<Rightarrow> ('k \<times> 'v) list" where
  "del k es = filter (\<lambda>e. fst e \<noteq> k) es"

named_theorems store_simps \<open>reading a key after a write\<close>

lemma map_of_put [simp, store_simps]: "map_of (put k v es) j = (if j = k then Some v else map_of es j)"
  by (induction es) auto

lemma map_of_del [simp, store_simps]: "map_of (del k es) j = (if j = k then None else map_of es j)"
  by (induction es) (auto simp: del_def)

lemma put_put [simp, store_simps]: "put k v (put k w es) = put k v es"
  by (induction es) auto

lemma put_same: "map_of es k = Some v \<Longrightarrow> put k v es = es"
  by (induction es) (auto split: if_splits)

definition entry_dead :: "rat \<Rightarrow> entry \<Rightarrow> bool" where
  "entry_dead now e = (case en_expires e of None \<Rightarrow> False | Some t \<Rightarrow> t \<le> now)"

definition live :: "rat \<Rightarrow> string \<Rightarrow> rstore \<Rightarrow> rstore" where
  "live now key st =
     (case map_of st key of Some e \<Rightarrow> if entry_dead now e then del key st else st | None \<Rightarrow> st)"

definition set_value :: "string \<Rightarrow> rvalue \<Rightarrow> rstore \<Rightarrow> rstore" where
  "set_value key v st =
     put key (case map_of st key of Some e \<Rightarrow> e\<lparr>en_value := v\<rparr>
                                 | None \<Rightarrow> \<lparr>en_value = v, en_expires = None\<rparr>) st"

definition set_expiry :: "string \<Rightarrow> rat \<Rightarrow> rstore \<Rightarrow> rstore" where
  "set_expiry key t st =
     (case map_of st key of None \<Rightarrow> st | Some e \<Rightarrow> put key (e\<lparr>en_expires := Some t\<rparr>) st)"

definition set_ttl :: "rat \<Rightarrow> string \<Rightarrow> rat \<Rightarrow> rstore \<Rightarrow> rstore" where
  "set_ttl now key seconds st = set_expiry key (now + seconds * 1000) st"

definition str_at :: "string \<Rightarrow> rstore \<Rightarrow> rtext option" where
  "str_at key st =
     (case map_of st key of Some e \<Rightarrow> (case en_value e of VText t \<Rightarrow> Some t | _ \<Rightarrow> None) | None \<Rightarrow> None)"

text \<open>
  The typed views: \<^term>\<open>None\<close> when the key holds a value of another kind or, without the create
  flag, when it is absent. An empty array serves both as a list and as a sorted set.
\<close>

definition hash_at :: "string \<Rightarrow> bool \<Rightarrow> rstore \<Rightarrow> (string \<times> rtext) list option" where
  "hash_at key create st =
     (case map_of st key of
        Some e \<Rightarrow> (case en_value e of VHash m \<Rightarrow> Some m | _ \<Rightarrow> None)
      | None \<Rightarrow> if create then Some [] else None)"

definition list_at :: "string \<Rightarrow> bool \<Rightarrow> rstore \<Rightarrow> rtext list option" where
  "list_at key create st =
     (case map_of st key of
        Some e \<Rightarrow> (case en_value e of VList xs \<Rightarrow> Some xs
                                   | VZset zs \<Rightarrow> if zs = [] then Some [] else None
                                   | _ \<Rightarrow> None)
      | None \<Rightarrow> if create then Some [] else None)"

definition zset_at :: "string \<Rightarrow> bool \<Rightarrow> rstore \<Rightarrow> (rat \<times> string) list option" where
  "zset_at key create st =
     (case map_of st key of
        Some e \<Rightarrow> (case en_value e of VZset zs \<Rightarrow> Some zs
                                   | VList xs \<Rightarrow> if xs = [] then Some [] else None
                                   | _ \<Rightarrow> None)
      | None \<Rightarrow> if create then Some [] else None)"

definition or_empty :: "'a list option \<Rightarrow> 'a list" where
  "or_empty x = (case x of Some xs \<Rightarrow> xs | None \<Rightarrow> [])"

text \<open>\<open>Array.prototype.slice\<close>.\<close>

definition js_slice :: "int \<Rightarrow> int \<Rightarrow> 'a list \<Rightarrow> 'a list" where
  "js_slice a b xs =
     (let n = int (length xs);
          clamp = (\<lambda>i. if i < 0 then max (n + i) 0 else min i n);
          i = nat (clamp a); j = nat (clamp b)
      in take (j - i) (drop i xs))"

definition range_slice :: "int \<Rightarrow> int \<Rightarrow> 'a list \<Rightarrow> 'a list" where
  "range_slice start stop xs =
     (let n = int (length xs) in
      js_slice (if start < 0 then n + start else start)
        (if stop < 0 then n + stop + 1 else stop + 1) xs)"

subsection \<open>Sorted sets\<close>

fun zput :: "rat \<Rightarrow> string \<Rightarrow> (rat \<times> string) list \<Rightarrow> (rat \<times> string) list" where
  "zput sc m [] = [(sc, m)]"
| "zput sc m (e # es) = (if snd e = m then (sc, m) # es else e # zput sc m es)"

definition zadd :: "(rat \<times> string) list \<Rightarrow> (rat \<times> string) list \<Rightarrow> (rat \<times> string) list" where
  "zadd ps zs = sort_key fst (fold (\<lambda>(sc, m). zput sc m) ps zs)"

fun zadd_count :: "(rat \<times> string) list \<Rightarrow> (rat \<times> string) list \<Rightarrow> nat" where
  "zadd_count [] zs = 0"
| "zadd_count (p # ps) zs =
     (if snd p \<in> set (map snd zs) then 0 else 1) + zadd_count ps (zput (fst p) (snd p) zs)"

definition zkeep :: "rat option \<Rightarrow> rat option \<Rightarrow> (rat \<times> string) list \<Rightarrow> (rat \<times> string) list" where
  "zkeep lo hi zs = filter (\<lambda>e. (case lo of Some l \<Rightarrow> fst e < l | None \<Rightarrow> False) \<or>
     (case hi of Some h \<Rightarrow> fst e > h | None \<Rightarrow> False)) zs"

subsection \<open>Key patterns\<close>

definition line_end :: "char \<Rightarrow> bool" where
  "line_end c \<longleftrightarrow> of_char c \<in> {10, 13 :: nat}"

function (sequential) glob :: "string \<Rightarrow> string \<Rightarrow> bool" where
  "glob [] s = (s = [])"
| "glob (CHR ''*'' # p) [] = glob p []"
| "glob (CHR ''*'' # p) (c # s) = (glob p (c # s) \<or> (\<not> line_end c \<and> glob (CHR ''*'' # p) s))"
| "glob (x # p) [] = False"
| "glob (x # p) (c # s) = (x = c \<and> glob p s)"
  by pat_completeness auto
termination by (relation "measure (\<lambda>(p, s). length p + length s)") auto

subsection \<open>Commands\<close>

text \<open>The optional arguments of \<open>SET\<close> are NX, XX, EX (seconds) and PX (milliseconds).\<close>

datatype command =
    Ping
  | Get string
  | SetC string rtext bool bool "rat option" "rat option"
  | SetEx string rat rtext
  | Del "string list"
  | Exists "string list"
  | Expire string rat
  | PExpire string rat
  | Ttl string
  | Incr string
  | IncrBy string rat
  | DecrBy string rat
  | Decr string
  | HSet string "(string \<times> rtext) list"
  | HGet string string
  | HMGet string "string list"
  | HGetAll string
  | HIncrBy string string rat
  | HDel string "string list"
  | RPush string "rtext list"
  | LPush string "rtext list"
  | LRange string int int
  | LLen string
  | LTrim string int int
  | LPop string "int option"
  | ZAdd string "(rat \<times> string) list"
  | ZCard string
  | ZRem string "string list"
  | ZRemRangeByScore string "rat option" "rat option"
  | ZRange string int int
  | Scan "string option"

datatype reply = RNil | ROk | RPong | RNum jsnum | RTxt rtext | RTxts "rtext option list"
  | RHash "(string \<times> rtext) list" | RMembers "string list"

definition num_reply :: "int \<Rightarrow> reply" where
  "num_reply i = RNum (js_int i)"

definition txt_reply :: "rtext option \<Rightarrow> reply" where
  "txt_reply t = (case t of None \<Rightarrow> RNil | Some t \<Rightarrow> RTxt t)"

definition incr_by :: "string \<Rightarrow> rat \<Rightarrow> rstore \<Rightarrow> jsnum \<times> rstore" where
  "incr_by key delta st =
     (let current = (case str_at key st of Some t \<Rightarrow> text_num t | None \<Rightarrow> JFin 0);
          nxt = js_add current (JFin delta)
      in (nxt, put key \<lparr>en_value = VText (num_text nxt),
            en_expires = (case map_of st key of Some e \<Rightarrow> en_expires e | None \<Rightarrow> None)\<rparr> st))"

definition live_count :: "rat \<Rightarrow> string list \<Rightarrow> rstore \<Rightarrow> int \<times> rstore" where
  "live_count now ks st =
     fold (\<lambda>k (n, st). let st' = live now k st in
       (if map_of st' k = None then n else n + 1, st')) ks (0, st)"

definition delete_keys :: "rat \<Rightarrow> string list \<Rightarrow> rstore \<Rightarrow> int \<times> rstore" where
  "delete_keys now ks st =
     fold (\<lambda>k (n, st). let st' = live now k st in
       (if map_of st' k = None then n else n + 1, del k st')) ks (0, st)"

definition set_cmd :: "rat \<Rightarrow> string \<Rightarrow> rtext \<Rightarrow> bool \<Rightarrow> bool \<Rightarrow> rat option \<Rightarrow> rat option \<Rightarrow> rstore \<Rightarrow> reply \<times> rstore" where
  "set_cmd now key v nx xx ex px st =
     (let st1 = live now key st; exists = (map_of st1 key \<noteq> None) in
      if nx \<and> exists then (RNil, st1)
      else if xx \<and> \<not> exists then (RNil, st1)
      else
        let st2 = put key \<lparr>en_value = VText v, en_expires = None\<rparr> st1;
            st3 = (case ex of Some s \<Rightarrow> set_ttl now key s st2 | None \<Rightarrow> st2);
            st4 = (case px of Some ms \<Rightarrow> set_expiry key (now + ms) st3 | None \<Rightarrow> st3)
        in (ROk, st4))"

definition scan_keys :: "rat \<Rightarrow> string \<Rightarrow> rstore \<Rightarrow> string list \<times> rstore" where
  "scan_keys now pat st =
     fold (\<lambda>k (out, st). let st' = live now k st in
       (if map_of st' k \<noteq> None \<and> glob pat k then out @ [k] else out, st')) (map fst st) ([], st)"

text \<open>Commands on one key, once \<open>live\<close> dropped it if it was due.\<close>

fun on_key :: "rat \<Rightarrow> command \<Rightarrow> rstore \<Rightarrow> reply \<times> rstore" where
  "on_key now (Get k) st = (txt_reply (str_at k st), st)"
| "on_key now (Expire k s) st =
     (if map_of st k = None then (num_reply 0, st) else (num_reply 1, set_ttl now k s st))"
| "on_key now (PExpire k ms) st =
     (if map_of st k = None then (num_reply 0, st) else (num_reply 1, set_expiry k (now + ms) st))"
| "on_key now (Ttl k) st =
     (case map_of st k of
        None \<Rightarrow> num_reply (-2)
      | Some e \<Rightarrow> (case en_expires e of None \<Rightarrow> num_reply (-1) | Some t \<Rightarrow> num_reply \<lceil>(t - now) / 1000\<rceil>), st)"
| "on_key now (Incr k) st = (case incr_by k 1 st of (n, st') \<Rightarrow> (RNum n, st'))"
| "on_key now (IncrBy k d) st = (case incr_by k d st of (n, st') \<Rightarrow> (RNum n, st'))"
| "on_key now (DecrBy k d) st = (case incr_by k (- d) st of (n, st') \<Rightarrow> (RNum n, st'))"
| "on_key now (Decr k) st = (case incr_by k (- 1) st of (n, st') \<Rightarrow> (RNum n, st'))"
| "on_key now (HSet k fs) st =
     (case hash_at k True st of
        None \<Rightarrow> (num_reply 0, st)
      | Some m \<Rightarrow>
          let r = fold (\<lambda>(f, v) (n, m). (if map_of m f = None then n + 1 else n, put f v m)) fs (0, m)
          in (num_reply (fst r), set_value k (VHash (snd r)) st))"
| "on_key now (HGet k f) st =
     (txt_reply (case hash_at k False st of None \<Rightarrow> None | Some m \<Rightarrow> map_of m f), st)"
| "on_key now (HMGet k fs) st =
     (RTxts (map (\<lambda>f. case hash_at k False st of None \<Rightarrow> None | Some m \<Rightarrow> map_of m f) fs), st)"
| "on_key now (HGetAll k) st = (RHash (or_empty (hash_at k False st)), st)"
| "on_key now (HIncrBy k f d) st =
     (case hash_at k True st of
        None \<Rightarrow> (num_reply 0, st)
      | Some m \<Rightarrow>
          let nxt = js_add (case map_of m f of Some t \<Rightarrow> text_num t | None \<Rightarrow> JFin 0) (JFin d)
          in (RNum nxt, set_value k (VHash (put f (num_text nxt) m)) st))"
| "on_key now (HDel k fs) st =
     (case hash_at k False st of
        None \<Rightarrow> (num_reply 0, st)
      | Some m \<Rightarrow>
          let r = fold (\<lambda>f (n, m). (if map_of m f = None then n else n + 1, del f m)) fs (0, m)
          in (num_reply (fst r), set_value k (VHash (snd r)) st))"
| "on_key now (RPush k vs) st =
     (case list_at k True st of
        None \<Rightarrow> (num_reply 0, st)
      | Some xs \<Rightarrow> (num_reply (int (length (xs @ vs))), set_value k (VList (xs @ vs)) st))"
| "on_key now (LPush k vs) st =
     (case list_at k True st of
        None \<Rightarrow> (num_reply 0, st)
      | Some xs \<Rightarrow> (num_reply (int (length (rev vs @ xs))), set_value k (VList (rev vs @ xs)) st))"
| "on_key now (LRange k a b) st =
     (RTxts (map Some (range_slice a b (or_empty (list_at k False st)))), st)"
| "on_key now (LLen k) st = (num_reply (int (length (or_empty (list_at k False st)))), st)"
| "on_key now (LTrim k a b) st =
     (case list_at k False st of
        None \<Rightarrow> (ROk, st)
      | Some xs \<Rightarrow> (ROk, set_value k (VList (range_slice a b xs)) st))"
| "on_key now (LPop k cnt) st =
     (case list_at k False st of
        None \<Rightarrow> (RNil, st)
      | Some xs \<Rightarrow>
          if xs = [] then (RNil, st)
          else (case cnt of
              None \<Rightarrow> (RTxt (hd xs), set_value k (VList (tl xs)) st)
            | Some n \<Rightarrow> (RTxts (map Some (take (nat n) xs)), set_value k (VList (drop (nat n) xs)) st)))"
| "on_key now (ZAdd k ps) st =
     (case zset_at k True st of
        None \<Rightarrow> (num_reply 0, st)
      | Some zs \<Rightarrow> (num_reply (int (zadd_count ps zs)), set_value k (VZset (zadd ps zs)) st))"
| "on_key now (ZCard k) st = (num_reply (int (length (or_empty (zset_at k False st)))), st)"
| "on_key now (ZRem k ms) st =
     (case zset_at k False st of
        None \<Rightarrow> (num_reply 0, st)
      | Some zs \<Rightarrow>
          let kept = filter (\<lambda>e. snd e \<notin> set ms) zs
          in (num_reply (int (length zs - length kept)), set_value k (VZset kept) st))"
| "on_key now (ZRemRangeByScore k lo hi) st =
     (case zset_at k False st of
        None \<Rightarrow> (num_reply 0, st)
      | Some zs \<Rightarrow>
          let kept = zkeep lo hi zs
          in (num_reply (int (length zs - length kept)), set_value k (VZset kept) st))"
| "on_key now (ZRange k a b) st =
     (RMembers (map snd (range_slice a b (or_empty (zset_at k False st)))), st)"
| "on_key now c st = (RNil, st)"

fun command_key :: "command \<Rightarrow> string" where
  "command_key (Get k) = k" | "command_key (Expire k _) = k" | "command_key (PExpire k _) = k"
| "command_key (Ttl k) = k" | "command_key (Incr k) = k" | "command_key (IncrBy k _) = k"
| "command_key (DecrBy k _) = k" | "command_key (Decr k) = k" | "command_key (HSet k _) = k"
| "command_key (HGet k _) = k" | "command_key (HMGet k _) = k" | "command_key (HGetAll k) = k"
| "command_key (HIncrBy k _ _) = k" | "command_key (HDel k _) = k" | "command_key (RPush k _) = k"
| "command_key (LPush k _) = k" | "command_key (LRange k _ _) = k" | "command_key (LLen k) = k"
| "command_key (LTrim k _ _) = k" | "command_key (LPop k _) = k" | "command_key (ZAdd k _) = k"
| "command_key (ZCard k) = k" | "command_key (ZRem k _) = k"
| "command_key (ZRemRangeByScore k _ _) = k" | "command_key (ZRange k _ _) = k"
| "command_key _ = []"

fun run_command :: "rat \<Rightarrow> command \<Rightarrow> rstore \<Rightarrow> reply \<times> rstore" where
  "run_command now Ping st = (RPong, st)"
| "run_command now (SetC k v nx xx ex px) st = set_cmd now k v nx xx ex px st"
| "run_command now (SetEx k s v) st =
     (ROk, put k \<lparr>en_value = VText v, en_expires = Some (now + s * 1000)\<rparr> st)"
| "run_command now (Del ks) st = (case delete_keys now ks st of (n, st') \<Rightarrow> (num_reply n, st'))"
| "run_command now (Exists ks) st = (case live_count now ks st of (n, st') \<Rightarrow> (num_reply n, st'))"
| "run_command now (Scan pat) st =
     (case scan_keys now (case pat of Some p \<Rightarrow> p | None \<Rightarrow> ''*'') st of (ks, st') \<Rightarrow> (RMembers ks, st'))"
| "run_command now c st = on_key now c (live now (command_key c) st)"

definition pipeline :: "rat \<Rightarrow> command list \<Rightarrow> rstore \<Rightarrow> reply list \<times> rstore" where
  "pipeline now cs st =
     fold (\<lambda>c (out, st). case run_command now c st of (r, st') \<Rightarrow> (out @ [r], st')) cs ([], st)"

definition export_value :: "rat \<Rightarrow> string \<Rightarrow> rstore \<Rightarrow> entry option \<times> rstore" where
  "export_value now key st = (let st' = live now key st in (map_of st' key, st'))"

definition import_value :: "string \<Rightarrow> entry \<Rightarrow> rstore \<Rightarrow> rstore" where
  "import_value key snapshot st = put key snapshot st"

subsection \<open>Laws\<close>

lemma live_idem [simp, store_simps]: "live now k (live now k st) = live now k st"
  by (auto simp: live_def split: option.splits)

lemma live_alive: "map_of (live now k st) k = Some e \<Longrightarrow> \<not> entry_dead now e"
  by (auto simp: live_def split: option.splits if_splits)

lemma live_other [simp, store_simps]: "j \<noteq> k \<Longrightarrow> map_of (live now k st) j = map_of st j"
  by (auto simp: live_def split: option.splits)

lemma live_keep: "map_of st k = None \<or> (\<exists>e. map_of st k = Some e \<and> \<not> entry_dead now e) \<Longrightarrow> live now k st = st"
  by (auto simp: live_def)

lemma live_fresh: "map_of st k = None \<Longrightarrow> live now k st = st"
  by (simp add: live_def)

lemma map_of_set_value [simp, store_simps]:
  "map_of (set_value k v st) j = (if j = k then
     Some (case map_of st k of Some e \<Rightarrow> e\<lparr>en_value := v\<rparr> | None \<Rightarrow> \<lparr>en_value = v, en_expires = None\<rparr>)
     else map_of st j)"
  by (simp add: set_value_def)

lemma map_of_set_expiry [simp, store_simps]:
  "map_of (set_expiry k t st) j = (if j = k then
     (case map_of st k of Some e \<Rightarrow> Some (e\<lparr>en_expires := Some t\<rparr>) | None \<Rightarrow> None) else map_of st j)"
  by (simp add: set_expiry_def split: option.splits)

lemma range_slice_rest: "range_slice (int n) (- 1) xs = drop n xs"
  by (simp add: range_slice_def js_slice_def Let_def min_def)

end
