(* ===== verification/RedisScripts.thy ===== *)
theory RedisScripts
  imports RedisStore
begin

text \<open>
  The JavaScript twins of the atomic scripts, \<open>src/lib/redis/scripts.ts\<close>, as programs of the
  state monad over the store. \<open>clk\<close> is the clock of the store, which the commands read; a script
  that takes a time as an argument keeps it apart. The queue that serialises the twins makes
  one script run to its end before the next: a script is one state transformer.
\<close>

abbreviation return :: "'a \<Rightarrow> ('s, 'a) state" where
  "return \<equiv> State_Monad.return"

definition redis :: "rat \<Rightarrow> command \<Rightarrow> (rstore, reply) state" where
  "redis clk c = State (run_command clk c)"

datatype script =
    AckUsage string string string int
  | Concurrency string rat rat rat string
  | ReleaseLock string string
  | TokenBucket string rat rat rat rat rat
  | FixedWindow string rat rat rat
  | SlidingSuccess string rat rat rat string
  | Reserve string string string rat rat string rat
  | Settle string string string string rat string string string rat
  | Release string string string string string string string rat
  | NextKey string rat
  | HealthScript string rat rat rat rat

subsection \<open>Reading replies\<close>

fun reply_num :: "reply \<Rightarrow> jsnum" where
  "reply_num (RNum x) = x"
| "reply_num (RTxt t) = text_num t"
| "reply_num RNil = JFin 0"
| "reply_num _ = JNaN"

definition num_or :: "jsnum \<Rightarrow> reply \<Rightarrow> jsnum" where
  "num_or d r = (if r = RNil then d else reply_num r)"

fun txt_at :: "reply \<Rightarrow> nat \<Rightarrow> rtext option" where
  "txt_at (RTxts xs) i = (if i < length xs then xs ! i else None)"
| "txt_at _ i = None"

definition txt_num :: "jsnum \<Rightarrow> rtext option \<Rightarrow> jsnum" where
  "txt_num d t = (case t of None \<Rightarrow> d | Some t \<Rightarrow> text_num t)"

fun num_rem :: "jsnum \<Rightarrow> jsnum \<Rightarrow> jsnum" where
  "num_rem (JFin x) (JFin y) =
     (if y = 0 then JNaN
      else JFin (x - of_int (if x / y < 0 then \<lceil>x / y\<rceil> else \<lfloor>x / y\<rfloor>) * y))"
| "num_rem _ _ = JNaN"

definition flag :: "bool \<Rightarrow> jsnum" where
  "flag b = JFin (if b then 1 else 0)"

subsection \<open>Limiters\<close>

definition bucket_level :: "rat \<Rightarrow> rat \<Rightarrow> rat \<Rightarrow> jsnum \<Rightarrow> jsnum \<Rightarrow> jsnum" where
  "bucket_level capacity refill now stored ts =
     (let elapsed = js_div (js_max (JFin 0) (js_sub (JFin now) ts)) (JFin 1000)
      in js_min (JFin capacity) (js_add stored (js_mul elapsed (JFin refill))))"

definition bucket_retry :: "rat \<Rightarrow> rat \<Rightarrow> rat \<Rightarrow> jsnum \<Rightarrow> jsnum" where
  "bucket_retry refill cost ttl level =
     (if refill > 0 then js_ceil (js_mul (js_div (js_sub (JFin cost) level) (JFin refill)) (JFin 1000))
      else JFin (ttl * 1000))"

definition token_bucket :: "rat \<Rightarrow> string \<Rightarrow> rat \<Rightarrow> rat \<Rightarrow> rat \<Rightarrow> rat \<Rightarrow> rat \<Rightarrow> (rstore, jsnum list) state" where
  "token_bucket clk key capacity refill now cost ttl =
     (if capacity \<le> 0 then return [JFin 1, JFin (- 1), JFin 0]
      else do {
        data \<leftarrow> redis clk (HMGet key [''tokens'', ''ts'']);
        let stored = txt_num (JFin capacity) (txt_at data 0);
            ts = txt_num (JFin now) (txt_at data 1);
            level = bucket_level capacity refill now stored ts;
            allowed = js_le (JFin cost) level;
            tokens = (if allowed then js_sub level (JFin cost) else level);
            retry = (if allowed then JFin 0 else bucket_retry refill cost ttl level)
        in do {
          redis clk (HSet key [(''tokens'', num_text tokens), (''ts'', num_text (JFin now))]);
          redis clk (Expire key ttl);
          return [flag allowed, js_floor tokens, retry] } })"

definition ttl_or :: "rat \<Rightarrow> reply \<Rightarrow> jsnum" where
  "ttl_or window r = (if js_lt (reply_num r) (JFin 0) then JFin window else reply_num r)"

definition fixed_window :: "rat \<Rightarrow> string \<Rightarrow> rat \<Rightarrow> rat \<Rightarrow> rat \<Rightarrow> (rstore, jsnum list) state" where
  "fixed_window clk key limit window cost =
     (if limit \<le> 0 then return [JFin 1, JFin 0, JFin window]
      else do {
        raw \<leftarrow> redis clk (Get key);
        let current = num_or (JFin 0) raw
        in if js_lt (JFin limit) (js_add current (JFin cost)) then do {
             t \<leftarrow> redis clk (Ttl key);
             return [JFin 0, current, ttl_or window t] }
           else do {
             r \<leftarrow> redis clk (IncrBy key cost);
             (if reply_num r = JFin cost then redis clk (Expire key window) else return RNil);
             t \<leftarrow> redis clk (Ttl key);
             return [JFin 1, reply_num r, ttl_or window t] } })"

definition sliding_success :: "rat \<Rightarrow> string \<Rightarrow> rat \<Rightarrow> rat \<Rightarrow> rat \<Rightarrow> string \<Rightarrow> (rstore, jsnum list) state" where
  "sliding_success clk key limit window now member =
     (if limit \<le> 0 then return [JFin 1, JFin 0]
      else do {
        redis clk (ZRemRangeByScore key None (Some (now - window)));
        c \<leftarrow> redis clk (ZCard key);
        let count = reply_num c
        in if js_le (JFin limit) count then return [JFin 0, count]
           else do {
             redis clk (ZAdd key [(now, member)]);
             redis clk (PExpire key window);
             return [JFin 1, js_add count (JFin 1)] } })"

definition concurrency_gate :: "rat \<Rightarrow> string \<Rightarrow> rat \<Rightarrow> rat \<Rightarrow> rat \<Rightarrow> string \<Rightarrow> (rstore, jsnum list) state" where
  "concurrency_gate clk key limit now ttl member =
     do {
       redis clk (ZRemRangeByScore key None (Some now));
       c \<leftarrow> redis clk (ZCard key);
       let count = reply_num c
       in if js_le (JFin limit) count then return [JFin 0, count]
          else do {
            redis clk (ZAdd key [(now + ttl, member)]);
            redis clk (PExpire key (ttl + 1000));
            return [JFin 1, js_add count (JFin 1)] } }"

subsection \<open>Locks and queues\<close>

definition ack_usage :: "rat \<Rightarrow> string \<Rightarrow> string \<Rightarrow> string \<Rightarrow> int \<Rightarrow> (rstore, jsnum list) state" where
  "ack_usage clk buffer_key lock_key owner n =
     do {
       held \<leftarrow> redis clk (Get lock_key);
       (if held \<noteq> RTxt (Lit owner) then return [JFin 0]
        else do {
          redis clk (LTrim buffer_key n (- 1));
          redis clk (Del [lock_key]);
          return [JFin 1] }) }"

definition release_lock :: "rat \<Rightarrow> string \<Rightarrow> string \<Rightarrow> (rstore, jsnum list) state" where
  "release_lock clk key owner =
     do {
       held \<leftarrow> redis clk (Get key);
       (if held \<noteq> RTxt (Lit owner) then return [JFin 0]
        else do {
          n \<leftarrow> redis clk (Del [key]);
          return [reply_num n] }) }"

subsection \<open>The reservation scripts\<close>

definition exists_key :: "rat \<Rightarrow> string \<Rightarrow> (rstore, bool) state" where
  "exists_key clk key = do { n \<leftarrow> redis clk (Exists [key]); return (reply_num n = JFin 1) }"

definition reserve_script ::
    "rat \<Rightarrow> string \<Rightarrow> string \<Rightarrow> string \<Rightarrow> rat \<Rightarrow> rat \<Rightarrow> string \<Rightarrow> rat \<Rightarrow> (rstore, jsnum list) state" where
  "reserve_script clk user_key token_key resv_key amount ttl rid unlimited =
     do {
       dup \<leftarrow> exists_key clk resv_key;
       (if dup then do {
          b \<leftarrow> redis clk (Get user_key);
          return [JFin 2, num_or (JFin 0) b] }
        else if unlimited = 1 then do {
          redis clk (HSet resv_key [(''amount'', Lit ''0''), (''rid'', Lit rid), (''state'', Lit ''open''), (''unlimited'', Lit ''1'')]);
          redis clk (Expire resv_key ttl);
          return [JFin 1, JFin (- 1)] }
        else do {
          raw \<leftarrow> redis clk (Get user_key);
          let balance = num_or (JFin (- 1)) raw
          in if js_lt balance (JFin 0) then return [JFin 3, JFin 0]
             else if js_lt balance (JFin amount) then return [JFin 0, balance]
             else do {
               tok \<leftarrow> (if token_key \<noteq> [] then do { t \<leftarrow> redis clk (Get token_key); return (num_or (JFin (- 1)) t) }
                      else return (JFin (- 1)));
               (if token_key \<noteq> [] \<and> js_le (JFin 0) tok \<and> js_lt tok (JFin amount) then return [JFin 0, tok]
                else do {
                  remaining \<leftarrow> redis clk (DecrBy user_key amount);
                  (if token_key \<noteq> [] \<and> js_le (JFin 0) tok then redis clk (DecrBy token_key amount) else return RNil);
                  redis clk (HSet resv_key [(''amount'', num_text (JFin amount)), (''rid'', Lit rid),
                    (''state'', Lit ''open''), (''unlimited'', Lit ''0'')]);
                  redis clk (Expire resv_key ttl);
                  return [JFin 1, reply_num remaining] }) } }) }"

definition journal_entry :: "string \<Rightarrow> string \<Rightarrow> string \<Rightarrow> jsnum \<Rightarrow> jsnum \<Rightarrow> string \<Rightarrow> rtext" where
  "journal_entry rid uid tid amount reserved kind = Doc (JObj [(''rid'', JStr rid), (''uid'', JStr uid),
     (''tid'', JStr tid), (''amount'', JNum amount), (''reserved'', JNum reserved), (''kind'', JStr kind)])"

definition settle_script ::
    "rat \<Rightarrow> string \<Rightarrow> string \<Rightarrow> string \<Rightarrow> string \<Rightarrow> rat \<Rightarrow> string \<Rightarrow> string \<Rightarrow> string \<Rightarrow> rat \<Rightarrow> (rstore, jsnum list) state" where
  "settle_script clk user_key token_key resv_key journal_key final rid uid tid journal_ttl =
     do {
       st \<leftarrow> redis clk (HGet resv_key ''state'');
       (if st = RNil then return [JFin 0, JFin 0, JFin 0]
        else if st \<noteq> RTxt (Lit ''open'') then return [JFin 2, JFin 0, JFin 0]
        else do {
          a \<leftarrow> redis clk (HGet resv_key ''amount'');
          u \<leftarrow> redis clk (HGet resv_key ''unlimited'');
          let reserved = num_or (JFin 0) a; unlimited = num_or (JFin 0) u;
              delta = js_sub (JFin final) reserved
          in do {
            remaining \<leftarrow> (if unlimited \<noteq> JFin 0 then return (JFin (- 1))
              else if delta \<noteq> JFin 0 then do {
                r \<leftarrow> redis clk (DecrBy user_key (js_rat delta));
                has \<leftarrow> (if token_key \<noteq> [] then exists_key clk token_key else return False);
                (if has then redis clk (DecrBy token_key (js_rat delta)) else return RNil);
                return (reply_num r) }
              else do { b \<leftarrow> redis clk (Get user_key); return (num_or (JFin 0) b) });
            redis clk (HSet resv_key [(''state'', Lit ''settled''), (''final'', num_text (JFin final))]);
            redis clk (Expire resv_key 900);
            redis clk (RPush journal_key [journal_entry rid uid tid (JFin final) reserved ''settle'']);
            redis clk (Expire journal_key journal_ttl);
            return [JFin 1, remaining, delta] } }) }"

definition release_script ::
    "rat \<Rightarrow> string \<Rightarrow> string \<Rightarrow> string \<Rightarrow> string \<Rightarrow> string \<Rightarrow> string \<Rightarrow> string \<Rightarrow> rat \<Rightarrow> (rstore, jsnum list) state" where
  "release_script clk user_key token_key resv_key journal_key rid uid tid journal_ttl =
     do {
       st \<leftarrow> redis clk (HGet resv_key ''state'');
       (if st = RNil then return [JFin 0, JFin 0]
        else if st \<noteq> RTxt (Lit ''open'') then return [JFin 2, JFin 0]
        else do {
          a \<leftarrow> redis clk (HGet resv_key ''amount'');
          u \<leftarrow> redis clk (HGet resv_key ''unlimited'');
          let reserved = num_or (JFin 0) a; unlimited = num_or (JFin 0) u
          in do {
            (if unlimited = JFin 0 \<and> js_lt (JFin 0) reserved then do {
               redis clk (IncrBy user_key (js_rat reserved));
               has \<leftarrow> (if token_key \<noteq> [] then exists_key clk token_key else return False);
               (if has then redis clk (IncrBy token_key (js_rat reserved)) else return RNil) }
             else return RNil);
            redis clk (HSet resv_key [(''state'', Lit ''released'')]);
            redis clk (Expire resv_key 900);
            redis clk (RPush journal_key [journal_entry rid uid tid (JFin 0) reserved ''release'']);
            redis clk (Expire journal_key journal_ttl);
            return [JFin 1, reserved] } }) }"

subsection \<open>Routing state\<close>

definition next_key_script :: "rat \<Rightarrow> string \<Rightarrow> rat \<Rightarrow> (rstore, jsnum list) state" where
  "next_key_script clk key pool =
     (if pool \<le> 0 then return [JFin (- 1)]
      else do {
        n \<leftarrow> redis clk (Incr key);
        redis clk (Expire key 86400);
        return [num_rem (js_sub (reply_num n) (JFin 1)) (JFin pool)] })"

definition health_script :: "rat \<Rightarrow> string \<Rightarrow> rat \<Rightarrow> rat \<Rightarrow> rat \<Rightarrow> rat \<Rightarrow> (rstore, jsnum list) state" where
  "health_script clk key ok threshold cooldown now =
     (if ok = 1 then do {
        redis clk (HSet key [(''fails'', Lit ''0''), (''openUntil'', Lit ''0'')]);
        redis clk (Expire key (cooldown * 10));
        return [JFin 0, JFin 0] }
      else do {
        f \<leftarrow> redis clk (HIncrBy key ''fails'' 1);
        let fails = reply_num f; tripped = js_le (JFin threshold) fails
        in do {
          (if tripped then redis clk (HSet key [(''openUntil'', num_text (JFin (now + cooldown * 1000)))])
           else return RNil);
          redis clk (Expire key (cooldown * 10));
          return [flag tripped, fails] } })"

fun execute_script :: "rat \<Rightarrow> script \<Rightarrow> (rstore, jsnum list) state" where
  "execute_script clk (AckUsage b l own n) = ack_usage clk b l own n"
| "execute_script clk (Concurrency k lmt now ttl m) = concurrency_gate clk k lmt now ttl m"
| "execute_script clk (ReleaseLock k own) = release_lock clk k own"
| "execute_script clk (TokenBucket k cap rf now cost ttl) = token_bucket clk k cap rf now cost ttl"
| "execute_script clk (FixedWindow k lmt win cost) = fixed_window clk k lmt win cost"
| "execute_script clk (SlidingSuccess k lmt win now m) = sliding_success clk k lmt win now m"
| "execute_script clk (Reserve u t r amount ttl rid unl) = reserve_script clk u t r amount ttl rid unl"
| "execute_script clk (Settle u t r j final rid uid tid jttl) = settle_script clk u t r j final rid uid tid jttl"
| "execute_script clk (Release u t r j rid uid tid jttl) = release_script clk u t r j rid uid tid jttl"
| "execute_script clk (NextKey k n) = next_key_script clk k n"
| "execute_script clk (HealthScript k ok th cd now) = health_script clk k ok th cd now"

end
