(* ===== verification/RedisKeys.thy ===== *)
theory RedisKeys
  imports Prelude
begin

text \<open>
  The key namespace of the shared store, \<open>src/lib/redis/keys.ts\<close>: one constructor per builder
  and its rendering. The builders write every caller-supplied value through \<open>seg\<close>, which keeps
  the namespace separator out of it; the lemmas show that two keys can only be equal when they
  come from the same builder with the same escaped segments.
\<close>

definition seg_char :: "char \<Rightarrow> char" where
  "seg_char c = (if is_alnum c \<or> c \<in> set ''_.-*'' then c else CHR ''_'')"

definition seg :: "string \<Rightarrow> string" where
  "seg value = take 128 (map seg_char value)"

datatype redis_key =
    KToken string | KUser string | KUserQuota string | KTokenQuota string | KReservation string
  | KRpm string string | KTpm string string | KSuccessWindow string | KConcurrency string string
  | KAbility string string | KAbilityGeneration | KChannel string | KChannelHealth string
  | KChannelKeyIndex string | KAffinity string string | KPricing string | KUsageBuffer
  | KIdempotency string | KQuotaJournal | KQuotaSettlementBuffer | KLock string | KOauthState string
  | KRedeemAttempts string | KSsrfVerdict string

fun render :: "redis_key \<Rightarrow> string" where
  "render (KToken prefix) = ''tok:'' @ seg prefix"
| "render (KUser user_id) = ''usr:'' @ seg user_id"
| "render (KUserQuota user_id) = ''q:usr:'' @ seg user_id"
| "render (KTokenQuota token_id) = ''q:tok:'' @ seg token_id"
| "render (KReservation rid) = ''resv:'' @ seg rid"
| "render (KRpm scope i) = ''rl:rpm:'' @ seg scope @ '':'' @ seg i"
| "render (KTpm scope i) = ''rl:tpm:'' @ seg scope @ '':'' @ seg i"
| "render (KSuccessWindow user_id) = ''rl:succ:'' @ seg user_id"
| "render (KConcurrency scope i) = ''rl:conc:v2:'' @ seg scope @ '':'' @ seg i"
| "render (KAbility grp model) = ''ab:'' @ seg grp @ '':'' @ seg model"
| "render KAbilityGeneration = ''ab:generation''"
| "render (KChannel channel_id) = ''ch:'' @ seg channel_id"
| "render (KChannelHealth channel_id) = ''chhealth:'' @ seg channel_id"
| "render (KChannelKeyIndex channel_id) = ''chkey:'' @ seg channel_id @ '':idx''"
| "render (KAffinity rule hash) = ''aff:'' @ seg rule @ '':'' @ seg hash"
| "render (KPricing version) = ''pricing:v'' @ seg version"
| "render KUsageBuffer = ''usagebuf''"
| "render (KIdempotency rid) = ''idem:'' @ seg rid"
| "render KQuotaJournal = ''quota:journal''"
| "render KQuotaSettlementBuffer = ''quota:settlements:v2''"
| "render (KLock name) = ''lock:'' @ seg name"
| "render (KOauthState st) = ''oauth:'' @ seg st"
| "render (KRedeemAttempts subject) = ''redeem:att:'' @ seg subject"
| "render (KSsrfVerdict host) = ''ssrf:'' @ seg host"

text \<open>A key up to the escaping of its segments.\<close>

fun key_shape :: "redis_key \<Rightarrow> string list" where
  "key_shape (KToken a) = [''tok'', seg a]"
| "key_shape (KUser a) = [''usr'', seg a]"
| "key_shape (KUserQuota a) = [''q'', ''usr'', seg a]"
| "key_shape (KTokenQuota a) = [''q'', ''tok'', seg a]"
| "key_shape (KReservation a) = [''resv'', seg a]"
| "key_shape (KRpm a b) = [''rl'', ''rpm'', seg a, seg b]"
| "key_shape (KTpm a b) = [''rl'', ''tpm'', seg a, seg b]"
| "key_shape (KSuccessWindow a) = [''rl'', ''succ'', seg a]"
| "key_shape (KConcurrency a b) = [''rl'', ''conc'', ''v2'', seg a, seg b]"
| "key_shape (KAbility a b) = [''ab'', seg a, seg b]"
| "key_shape KAbilityGeneration = [''ab'', ''generation'']"
| "key_shape (KChannel a) = [''ch'', seg a]"
| "key_shape (KChannelHealth a) = [''chhealth'', seg a]"
| "key_shape (KChannelKeyIndex a) = [''chkey'', seg a, ''idx'']"
| "key_shape (KAffinity a b) = [''aff'', seg a, seg b]"
| "key_shape (KPricing a) = [''pricing'', CHR ''v'' # seg a]"
| "key_shape KUsageBuffer = [''usagebuf'']"
| "key_shape (KIdempotency a) = [''idem'', seg a]"
| "key_shape KQuotaJournal = [''quota'', ''journal'']"
| "key_shape KQuotaSettlementBuffer = [''quota'', ''settlements'', ''v2'']"
| "key_shape (KLock a) = [''lock'', seg a]"
| "key_shape (KOauthState a) = [''oauth'', seg a]"
| "key_shape (KRedeemAttempts a) = [''redeem'', ''att'', seg a]"
| "key_shape (KSsrfVerdict a) = [''ssrf'', seg a]"

lemma seg_no_colon: "CHR '':'' \<notin> set (seg value)"
proof -
  have "CHR '':'' \<noteq> seg_char c" for c
    by (auto simp: seg_char_def is_alnum_def is_alpha_def is_digit_def)
  then have "CHR '':'' \<notin> set (map seg_char value)" by (simp only: set_map image_iff) blast
  then show ?thesis unfolding seg_def by (blast dest: in_set_takeD)
qed

lemma render_join: "render k = join_with '':'' (key_shape k)"
  by (cases k) simp_all

lemma shape_no_colon: "s \<in> set (key_shape k) \<Longrightarrow> CHR '':'' \<notin> set s"
  by (cases k) (auto simp: seg_no_colon)

lemma shape_nonempty: "key_shape k \<noteq> []"
  by (cases k) simp_all

lemma seg_seg [simp]: "seg (seg v) = seg v"
proof -
  have "seg_char (seg_char c) = seg_char c" for c
    by (simp add: seg_char_def is_alnum_def is_alpha_def is_digit_def)
  then show ?thesis by (simp add: seg_def take_map)
qed


text \<open>A key with its segments escaped.\<close>

fun escape_key :: "redis_key \<Rightarrow> redis_key" where
  "escape_key (KToken a) = KToken (seg a)"
| "escape_key (KUser a) = KUser (seg a)"
| "escape_key (KUserQuota a) = KUserQuota (seg a)"
| "escape_key (KTokenQuota a) = KTokenQuota (seg a)"
| "escape_key (KReservation a) = KReservation (seg a)"
| "escape_key (KRpm a b) = KRpm (seg a) (seg b)"
| "escape_key (KTpm a b) = KTpm (seg a) (seg b)"
| "escape_key (KSuccessWindow a) = KSuccessWindow (seg a)"
| "escape_key (KConcurrency a b) = KConcurrency (seg a) (seg b)"
| "escape_key (KAbility a b) = KAbility (seg a) (seg b)"
| "escape_key (KChannel a) = KChannel (seg a)"
| "escape_key (KChannelHealth a) = KChannelHealth (seg a)"
| "escape_key (KChannelKeyIndex a) = KChannelKeyIndex (seg a)"
| "escape_key (KAffinity a b) = KAffinity (seg a) (seg b)"
| "escape_key (KPricing a) = KPricing (seg a)"
| "escape_key (KIdempotency a) = KIdempotency (seg a)"
| "escape_key (KLock a) = KLock (seg a)"
| "escape_key (KOauthState a) = KOauthState (seg a)"
| "escape_key (KRedeemAttempts a) = KRedeemAttempts (seg a)"
| "escape_key (KSsrfVerdict a) = KSsrfVerdict (seg a)"
| "escape_key k = k"

lemma shape_inj: "key_shape a = key_shape b \<Longrightarrow> escape_key a = escape_key b"
  by (cases a; cases b; simp)

lemma shape_escape: "key_shape (escape_key a) = key_shape a"
  by (cases a) simp_all

text \<open>Two keys of the store are the same text exactly when they come from the same builder with
  the same escaped segments: no value a caller supplies reaches another builder's namespace.\<close>
theorem namespaces_disjoint: "render a = render b \<longleftrightarrow> escape_key a = escape_key b"
proof
  assume "render a = render b"
  then have "split_on CHR '':'' (render a) = split_on CHR '':'' (render b)" by simp
  then have "key_shape a = key_shape b"
    using split_join_on [OF shape_nonempty shape_no_colon, of a] split_join_on [OF shape_nonempty shape_no_colon, of b]
    by (simp add: render_join)
  then show "escape_key a = escape_key b" by (rule shape_inj)
next
  assume "escape_key a = escape_key b"
  then have "key_shape a = key_shape b" using shape_escape by metis
  then show "render a = render b" by (simp add: render_join)
qed

end
