(* ===== verification/RedisClient.thy ===== *)
theory RedisClient
  imports RedisScripts RedisKeys Errors Env
begin

text \<open>
  Access to the shared store, \<open>src/lib/redis/client.ts\<close>: the choice of the backend, the degraded
  signal that a failed call raises for five seconds, and the convenience wrappers. Transport
  faults are an input: \<open>co_faults\<close> lists the outcome of the calls to come, the error a call
  fails with or \<^term>\<open>None\<close> (also when the list is used up). A call that fails changes nothing in
  the store. Scripts run on a shared backend (the process-local twin, used without services,
  raises no degraded signal).
\<close>

datatype redis_kind = UpstashKind | MongoKind | MemoryKind

definition get_redis :: "env \<Rightarrow> redis_kind option \<Rightarrow> thrown + redis_kind" where
  "get_redis env existing =
     (case existing of
        Some k \<Rightarrow>
          if is_production env \<and> k = MemoryKind
          then Inl (ConfigThrown ''production requires shared coordination'') else Inr k
      | None \<Rightarrow>
          let url = cfg_redis_url env; token = cfg_redis_token env; backend = cfg_coordination_backend env;
              mongo = cfg_mongo_uri env
          in if backend \<notin> {''auto'', ''mongo'', ''upstash''} then Inl (ConfigThrown ''invalid COORDINATION_BACKEND'')
             else if backend = ''mongo'' \<or> (backend = ''auto'' \<and> url = [] \<and> token = [] \<and> mongo \<noteq> []) then
               (if mongo = [] then Inl (ConfigThrown ''MongoDB coordination requires MONGODB_URI'') else Inr MongoKind)
             else if (url \<noteq> [] \<and> token = []) \<or> (token \<noteq> [] \<and> url = []) \<or>
                 (backend = ''upstash'' \<and> (url = [] \<or> token = [])) then
               Inl (ConfigThrown ''both Upstash Redis URL and token are required'')
             else if is_production env \<and> url = [] \<and> token = [] then
               Inl (ConfigThrown ''production requires durable shared coordination'')
             else if url \<noteq> [] \<and> token \<noteq> [] then Inr UpstashKind
             else Inr MemoryKind)"

record coord =
  co_store :: rstore
  co_degraded_until :: int
  co_last_error :: string
  co_faults :: "string option list"

definition is_degraded :: "int \<Rightarrow> coord \<Rightarrow> bool" where
  "is_degraded now co \<longleftrightarrow> now < co_degraded_until co"

definition degradation_reason :: "int \<Rightarrow> coord \<Rightarrow> string" where
  "degradation_reason now co = (if is_degraded now co then co_last_error co else [])"

definition mark_degraded :: "int \<Rightarrow> string \<Rightarrow> coord \<Rightarrow> coord" where
  "mark_degraded now err co = co\<lparr>co_degraded_until := now + 5000, co_last_error := err\<rparr>"

definition mark_healthy :: "coord \<Rightarrow> coord" where
  "mark_healthy co = co\<lparr>co_degraded_until := 0, co_last_error := []\<rparr>"

definition shared_call :: "int \<Rightarrow> (rstore \<Rightarrow> 'a \<times> rstore) \<Rightarrow> coord \<Rightarrow> 'a option \<times> coord" where
  "shared_call now f co =
     (let rest = co\<lparr>co_faults := tl (co_faults co)\<rparr> in
      case (if co_faults co = [] then None else hd (co_faults co)) of
        Some err \<Rightarrow> (None, mark_degraded now err rest)
      | None \<Rightarrow> (case f (co_store co) of (r, st) \<Rightarrow> (Some r, mark_healthy (rest\<lparr>co_store := st\<rparr>))))"

definition redis_command :: "int \<Rightarrow> command \<Rightarrow> coord \<Rightarrow> reply option \<times> coord" where
  "redis_command now c co = shared_call now (run_command (of_int now) c) co"

definition redis_pipeline :: "int \<Rightarrow> command list \<Rightarrow> coord \<Rightarrow> reply list option \<times> coord" where
  "redis_pipeline now cs co = shared_call now (pipeline (of_int now) cs) co"

definition run_script :: "int \<Rightarrow> script \<Rightarrow> coord \<Rightarrow> jsnum list option \<times> coord" where
  "run_script now s co = shared_call now (run_state (execute_script (of_int now) s)) co"

subsection \<open>Wrappers\<close>

text \<open>The outer option is the thrown fault, the inner one the absent key.\<close>

definition redis_get :: "int \<Rightarrow> string \<Rightarrow> coord \<Rightarrow> rtext option option \<times> coord" where
  "redis_get now key co =
     (case redis_command now (Get key) co of
        (None, co') \<Rightarrow> (None, co')
      | (Some r, co') \<Rightarrow> (Some (case r of RTxt t \<Rightarrow> Some t | _ \<Rightarrow> None), co'))"

definition redis_set :: "int \<Rightarrow> string \<Rightarrow> rtext \<Rightarrow> rat option \<Rightarrow> coord \<Rightarrow> unit option \<times> coord" where
  "redis_set now key v ttl co =
     (let ex = (case ttl of Some s \<Rightarrow> if s > 0 then Some (of_int \<lceil>s\<rceil>) else None | None \<Rightarrow> None)
      in case redis_command now (SetC key v False False ex None) co of
           (r, co') \<Rightarrow> (map_option (\<lambda>_. ()) r, co'))"

definition redis_set_nx :: "int \<Rightarrow> string \<Rightarrow> string \<Rightarrow> rat \<Rightarrow> coord \<Rightarrow> bool option \<times> coord" where
  "redis_set_nx now key v ttl co =
     (case redis_command now (SetC key (Lit v) True False (Some (of_int \<lceil>ttl\<rceil>)) None) co of
        (r, co') \<Rightarrow> (map_option (\<lambda>r. r = ROk) r, co'))"

definition redis_del :: "int \<Rightarrow> string list \<Rightarrow> coord \<Rightarrow> int option \<times> coord" where
  "redis_del now ks co =
     (if ks = [] then (Some 0, co)
      else (case redis_command now (Del ks) co of
          (r, co') \<Rightarrow> (map_option (\<lambda>r. case r of RNum x \<Rightarrow> js_to_int x | _ \<Rightarrow> 0) r, co')))"

text \<open>A value that is not the text of a JSON value is \<open>null\<close>, as an unparseable one is.\<close>

definition redis_get_json :: "int \<Rightarrow> string \<Rightarrow> coord \<Rightarrow> json option option \<times> coord" where
  "redis_get_json now key co =
     (case redis_get now key co of
        (None, co') \<Rightarrow> (None, co')
      | (Some t, co') \<Rightarrow> (Some (case t of
            Some (Doc j) \<Rightarrow> Some j
          | Some (Lit s) \<Rightarrow> json_parse s
          | Some (Frac q) \<Rightarrow> Some (JNum (JFin q))
          | None \<Rightarrow> None), co'))"

definition redis_set_json :: "int \<Rightarrow> string \<Rightarrow> json \<Rightarrow> rat option \<Rightarrow> coord \<Rightarrow> unit option \<times> coord" where
  "redis_set_json now key v ttl co = redis_set now key (Doc v) ttl co"

definition redis_incr_by :: "int \<Rightarrow> string \<Rightarrow> rat \<Rightarrow> coord \<Rightarrow> jsnum option \<times> coord" where
  "redis_incr_by now key delta co =
     (case redis_command now (IncrBy key (of_int (if 0 \<le> delta then \<lfloor>delta\<rfloor> else \<lceil>delta\<rceil>))) co of
        (r, co') \<Rightarrow> (map_option reply_num r, co'))"

text \<open>\<open>token\<close> is the random owner mark; the release runs the owner-checked script.\<close>

definition acquire_lock :: "int \<Rightarrow> string \<Rightarrow> rat \<Rightarrow> string \<Rightarrow> coord \<Rightarrow> bool option \<times> coord" where
  "acquire_lock now name ttl token co = redis_set_nx now name token ttl co"

definition release_acquired :: "int \<Rightarrow> string \<Rightarrow> string \<Rightarrow> coord \<Rightarrow> unit option \<times> coord" where
  "release_acquired now name token co =
     (case run_script now (ReleaseLock name token) co of (r, co') \<Rightarrow> (map_option (\<lambda>_. ()) r, co'))"

lemma shared_call_ok [simp]:
  "co_faults co = [] \<Longrightarrow> shared_call now f co =
     (Some (fst (f (co_store co))), mark_healthy (co\<lparr>co_faults := [], co_store := snd (f (co_store co))\<rparr>))"
  by (simp add: shared_call_def split: prod.splits)

lemma mark_healthy_sels [simp]:
  "co_store (mark_healthy co) = co_store co" "co_faults (mark_healthy co) = co_faults co"
  "\<not> is_degraded now (mark_healthy co) \<longleftrightarrow> 0 \<le> now"
  by (simp_all add: mark_healthy_def is_degraded_def) auto

end
