(* ===== verification/Routing.thy ===== *)
theory Routing
  imports Election RedisClient Domain
begin

text \<open>
  Channel routing, \<open>src/lib/routing\<close>: which channels can serve a group and model
  (\<open>abilities.ts\<close>), the per-channel breaker (\<open>health.ts\<close>), model renaming (\<open>mapping.ts\<close>), credential
  rotation (\<open>keys.ts\<close>) and the selection of a channel (\<open>index.ts\<close>). The state is the shared store
  and the collections a selection reads; \<open>rw_db_ok\<close> tells whether the database answers. The
  opening of a sealed credential (WebCrypto) and the random draws are arguments.
\<close>

record routing_world =
  rw_co :: coord
  rw_channels :: "channel_doc list"
  rw_abilities :: "ability_doc list"
  rw_mappings :: "model_mapping_doc list"
  rw_keys :: "channel_key_doc list"
  rw_db_ok :: bool

definition on_co :: "(coord \<Rightarrow> 'a \<times> coord) \<Rightarrow> routing_world \<Rightarrow> 'a \<times> routing_world" where
  "on_co f w = (case f (rw_co w) of (r, co) \<Rightarrow> (r, w\<lparr>rw_co := co\<rparr>))"

definition to_number :: "jsnum \<Rightarrow> jsnum" where
  "to_number n = (if js_finite n then n else JFin 0)"

definition reply_number :: "reply option \<Rightarrow> jsnum" where
  "reply_number r = (case r of None \<Rightarrow> JFin 0 | Some r \<Rightarrow> to_number (reply_num r))"

subsection \<open>Abilities\<close>

definition ability_generation :: "int \<Rightarrow> routing_world \<Rightarrow> int \<times> routing_world" where
  "ability_generation now w =
     (case on_co (redis_command now (Get (render KAbilityGeneration))) w of
        (raw, w') \<Rightarrow> (let n = reply_number raw in (if js_lt (JFin 0) n then js_to_int n else 1, w')))"

definition invalidate_abilities :: "int \<Rightarrow> routing_world \<Rightarrow> routing_world" where
  "invalidate_abilities now w = snd (on_co (redis_command now (Incr (render KAbilityGeneration))) w)"

definition candidate_json :: "candidate \<Rightarrow> json" where
  "candidate_json c = JObj [(''channelId'', JStr (cand_channel c)),
     (''priority'', JNum (js_int (cand_priority c))), (''weight'', JNum (js_int (cand_weight c)))]"

definition candidate_of_json :: "json \<Rightarrow> candidate" where
  "candidate_of_json j = (case j of
      JObj ms \<Rightarrow> \<lparr>cand_channel = (case get_field ''channelId'' ms of Some (JStr s) \<Rightarrow> s | _ \<Rightarrow> []),
        cand_priority = (case get_field ''priority'' ms of Some (JNum n) \<Rightarrow> js_to_int n | _ \<Rightarrow> 0),
        cand_weight = (case get_field ''weight'' ms of Some (JNum n) \<Rightarrow> js_to_int n | _ \<Rightarrow> 0)\<rparr>
    | _ \<Rightarrow> \<lparr>cand_channel = [], cand_priority = 0, cand_weight = 0\<rparr>)"

definition serves :: "channel_doc \<Rightarrow> string \<Rightarrow> string \<Rightarrow> bool" where
  "serves ch grp model \<longleftrightarrow> ch_status ch = Enabled \<and>
     (grp \<in> set (ch_groups ch) \<or> ''*'' \<in> set (ch_groups ch)) \<and>
     (ch_models ch = [] \<or> model \<in> set (ch_models ch) \<or> ''*'' \<in> set (ch_models ch))"

text \<open>Stable descending order by priority, then weight.\<close>

definition by_rank :: "('a \<Rightarrow> int) \<Rightarrow> ('a \<Rightarrow> int) \<Rightarrow> 'a list \<Rightarrow> 'a list" where
  "by_rank prio wt xs = sort_key (\<lambda>x. - prio x) (sort_key (\<lambda>x. - wt x) xs)"

definition derive_candidates :: "string \<Rightarrow> string \<Rightarrow> routing_world \<Rightarrow> candidate list" where
  "derive_candidates grp model w =
     (if \<not> rw_db_ok w then []
      else by_rank cand_priority cand_weight
        (map (\<lambda>ch. \<lparr>cand_channel = ch_id ch, cand_priority = ch_priority ch, cand_weight = ch_weight ch\<rparr>)
          (filter (\<lambda>ch. serves ch grp model)
            (take 500 (filter (\<lambda>ch. ch_status ch = Enabled) (rw_channels w))))))"

definition stored_candidates :: "string \<Rightarrow> string \<Rightarrow> routing_world \<Rightarrow> candidate list" where
  "stored_candidates grp model w =
     (if \<not> rw_db_ok w then []
      else map (\<lambda>a. \<lparr>cand_channel = ab_channel_id a, cand_priority = ab_priority a, cand_weight = ab_weight a\<rparr>)
        (take 200 (by_rank ab_priority ab_weight
          (filter (\<lambda>a. ab_group a = grp \<and> ab_model a = model \<and> ab_enabled a) (rw_abilities w)))))"

definition candidates_for :: "env \<Rightarrow> int \<Rightarrow> string \<Rightarrow> string \<Rightarrow> routing_world \<Rightarrow> candidate list \<times> routing_world" where
  "candidates_for env now grp model w =
     (case ability_generation now w of (gen, w1) \<Rightarrow>
       let key = render (KAbility grp model) @ '':g'' @ show_int gen in
       case on_co (redis_get_json now key) w1 of (cached, w2) \<Rightarrow>
         (case cached of
            Some (Some (JArr js)) \<Rightarrow> (map candidate_of_json js, w2)
          | _ \<Rightarrow>
              let stored = stored_candidates grp model w2;
                  found = (if stored = [] then derive_candidates grp model w2 else stored)
              in (found, snd (on_co (redis_set_json now key (JArr (map candidate_json found))
                    (Some (of_int (cfg_ability_cache_ttl_sec env)))) w2))))"

definition ability_rows :: "int \<Rightarrow> channel_doc \<Rightarrow> ability_doc list" where
  "ability_rows now ch = concat (map (\<lambda>g. map (\<lambda>m.
     \<lparr>ab_id = g @ '':'' @ m @ '':'' @ ch_id ch, ab_group = g, ab_model = m, ab_channel_id = ch_id ch,
      ab_enabled = True, ab_priority = ch_priority ch, ab_weight = ch_weight ch, ab_updated_at = now\<rparr>)
     (ch_models ch)) (ch_groups ch))"

text \<open>The unordered bulk insert skips a row whose id is taken.\<close>

fun insert_many :: "('d \<Rightarrow> 'k) \<Rightarrow> 'd list \<Rightarrow> 'd list \<Rightarrow> 'd list" where
  "insert_many key [] ds = ds"
| "insert_many key (x # xs) ds =
     insert_many key xs (case insert_one key x ds of None \<Rightarrow> ds | Some ds' \<Rightarrow> ds')"

definition rebuild_abilities :: "int \<Rightarrow> routing_world \<Rightarrow> (thrown + nat) \<times> routing_world" where
  "rebuild_abilities now w =
     (if \<not> rw_db_ok w then (Inl OtherThrown, w) else
      let rows = take 10000 (filter (\<lambda>ch. ch_status ch = Enabled) (rw_channels w));
          docs = concat (map (\<lambda>ch. if ch_groups ch = [] \<or> ch_models ch = [] then [] else ability_rows now ch) rows)
      in (Inr (length docs), invalidate_abilities now (w\<lparr>rw_abilities := insert_many ab_id docs []\<rparr>)))"

subsection \<open>Health\<close>

record channel_outcome =
  oc_tripped :: bool
  oc_fails :: jsnum
  oc_auto_disabled :: bool

definition is_channel_open :: "int \<Rightarrow> string \<Rightarrow> routing_world \<Rightarrow> bool \<times> routing_world" where
  "is_channel_open now cid w =
     (case on_co (redis_command now (HGet (render (KChannelHealth cid)) ''openUntil'')) w of
        (None, w') \<Rightarrow> (False, w')
      | (Some r, w') \<Rightarrow> (js_lt (JFin (of_int now)) (to_number (reply_num r)), w'))"

fun open_channels :: "int \<Rightarrow> string list \<Rightarrow> routing_world \<Rightarrow> string set \<times> routing_world" where
  "open_channels now [] w = ({}, w)"
| "open_channels now (c # cs) w =
     (case is_channel_open now c w of (o1, w1) \<Rightarrow>
       case open_channels now cs w1 of (os, w2) \<Rightarrow> ((if o1 then insert c os else os), w2))"

definition auto_disable_after :: "env \<Rightarrow> int" where
  "auto_disable_after env =
     (let configured = cfg_channel_auto_disable_fails env in
      if configured \<le> 0 then 0 else max configured (cfg_channel_failure_threshold env))"

definition auto_disable_channel :: "int \<Rightarrow> string \<Rightarrow> int \<Rightarrow> routing_world \<Rightarrow> bool \<times> routing_world" where
  "auto_disable_channel now cid fails w =
     (let P = (\<lambda>ch. ch_id ch = cid \<and> ch_status ch = Enabled) in
      if \<not> rw_db_ok w then (False, w)
      else (find_one P (rw_channels w) \<noteq> None,
        w\<lparr>rw_channels := update_one P (\<lambda>ch. ch\<lparr>ch_status := Disabled, ch_auto_disabled := True,
            ch_fail_count := fails, ch_updated_at := now\<rparr>) (rw_channels w)\<rparr>))"

definition record_channel_outcome ::
    "env \<Rightarrow> int \<Rightarrow> string \<Rightarrow> bool \<Rightarrow> routing_world \<Rightarrow> channel_outcome \<times> routing_world" where
  "record_channel_outcome env now cid ok w =
     (case on_co (run_script now (HealthScript (render (KChannelHealth cid)) (if ok then 1 else 0)
            (of_int (cfg_channel_failure_threshold env)) (of_int (cfg_channel_cooldown_sec env)) (of_int now))) w of
        (None, w') \<Rightarrow> (\<lparr>oc_tripped = False, oc_fails = JFin 0, oc_auto_disabled = False\<rparr>, w')
      | (Some r, w') \<Rightarrow>
          let tripped = (to_number (r ! 0) = JFin 1); fails = to_number (r ! 1); lmt = auto_disable_after env
          in if \<not> ok \<and> 0 < lmt \<and> js_le (JFin (of_int lmt)) fails
             then (case auto_disable_channel now cid (js_to_int fails) w' of (d, w'') \<Rightarrow>
                 (\<lparr>oc_tripped = tripped, oc_fails = fails, oc_auto_disabled = d\<rparr>, w''))
             else (\<lparr>oc_tripped = tripped, oc_fails = fails, oc_auto_disabled = False\<rparr>, w'))"

definition reset_channel_health :: "int \<Rightarrow> string \<Rightarrow> routing_world \<Rightarrow> routing_world" where
  "reset_channel_health now cid w = snd (on_co (redis_command now (Del [render (KChannelHealth cid)])) w)"

definition channel_fail_count :: "int \<Rightarrow> string \<Rightarrow> routing_world \<Rightarrow> jsnum \<times> routing_world" where
  "channel_fail_count now cid w =
     (case on_co (redis_command now (HGet (render (KChannelHealth cid)) ''fails'')) w of
        (r, w') \<Rightarrow> (reply_number r, w'))"


subsection \<open>Model renaming\<close>

text \<open>
  The tables are JavaScript objects: an absent own key may still be found on
  \<open>Object.prototype\<close>, whose members are truthy. Such a value is not a model name.
\<close>

definition prototype_members :: "string list" where
  "prototype_members = [''constructor'', ''toString'', ''toLocaleString'', ''valueOf'', ''hasOwnProperty'',
     ''isPrototypeOf'', ''propertyIsEnumerable'', ''__proto__'', ''__defineGetter__'', ''__defineSetter__'',
     ''__lookupGetter__'', ''__lookupSetter__'']"

datatype model_value = ModelName string | Inherited string

record resolved_model =
  rm_requested :: string
  rm_mapped :: model_value

text \<open>\<open>table[key]\<close> when it is truthy.\<close>

definition table_get :: "(string \<times> string) list \<Rightarrow> model_value \<Rightarrow> model_value option" where
  "table_get tbl key = (case key of
      Inherited _ \<Rightarrow> None
    | ModelName k \<Rightarrow> (case map_of tbl k of
          Some v \<Rightarrow> if v = [] then None else Some (ModelName v)
        | None \<Rightarrow> if k \<in> set prototype_members then Some (Inherited k) else None))"

text \<open>Building a table by assignments; assigning text to \<open>__proto__\<close> stores nothing.\<close>

definition mapping_table :: "model_mapping_doc list \<Rightarrow> (string \<times> string) list" where
  "mapping_table rows = fold (\<lambda>r tbl.
     if mm_from r \<noteq> [] \<and> mm_to r \<noteq> [] \<and> mm_from r \<noteq> ''__proto__'' then put (mm_from r) (mm_to r) tbl else tbl) rows []"

definition global_cache_key :: string where
  "global_cache_key = render (KChannel ''__model_map__'') @ '':global''"

definition table_of_json :: "json \<Rightarrow> (string \<times> string) list option" where
  "table_of_json j = (case j of
      JObj ms \<Rightarrow> Some (map (\<lambda>(k, v). (k, as_string (Some v) [])) ms)
    | JArr _ \<Rightarrow> Some []
    | _ \<Rightarrow> None)"

definition global_mappings :: "env \<Rightarrow> int \<Rightarrow> routing_world \<Rightarrow> (string \<times> string) list \<times> routing_world" where
  "global_mappings env now w =
     (case on_co (redis_get_json now global_cache_key) w of (cached, w1) \<Rightarrow>
       (case (case cached of Some (Some j) \<Rightarrow> table_of_json j | _ \<Rightarrow> None) of
          Some tbl \<Rightarrow> (tbl, w1)
        | None \<Rightarrow>
            if \<not> rw_db_ok w1 then ([], w1)
            else
              let tbl = mapping_table (filter (\<lambda>r. mm_channel_id r \<in> {None, Some []}) (take 2000 (rw_mappings w1)))
              in (tbl, snd (on_co (redis_set_json now global_cache_key (JObj (map (\<lambda>(k, v). (k, JStr v)) tbl))
                    (Some (of_int (cfg_channel_cache_ttl_sec env)))) w1))))"

definition channel_scoped_mappings :: "string \<Rightarrow> routing_world \<Rightarrow> (string \<times> string) list" where
  "channel_scoped_mappings cid w =
     (if \<not> rw_db_ok w then []
      else mapping_table (take 500 (filter (\<lambda>r. mm_channel_id r = Some cid) (rw_mappings w))))"

definition apply_layer :: "(string \<times> string) list \<Rightarrow> string \<Rightarrow> model_value \<Rightarrow> model_value" where
  "apply_layer tbl requested mapped =
     (case table_get tbl mapped of
        Some v \<Rightarrow> v
      | None \<Rightarrow> (case table_get tbl (ModelName requested) of Some v \<Rightarrow> v | None \<Rightarrow> mapped))"

definition resolve_model :: "env \<Rightarrow> int \<Rightarrow> string \<Rightarrow> channel_doc \<Rightarrow> routing_world \<Rightarrow> resolved_model \<times> routing_world" where
  "resolve_model env now requested ch w =
     (case global_mappings env now w of (glob_tbl, w1) \<Rightarrow>
       let m1 = (case table_get glob_tbl (ModelName requested) of Some v \<Rightarrow> v | None \<Rightarrow> ModelName requested);
           m2 = apply_layer (channel_scoped_mappings (ch_id ch) w1) requested m1;
           m3 = apply_layer (ch_model_mapping ch) requested m2
       in (\<lparr>rm_requested = requested, rm_mapped = m3\<rparr>, w1))"

definition billed_model :: "resolved_model \<Rightarrow> string" where
  "billed_model r = rm_requested r"

subsection \<open>Credentials\<close>

record selected_key =
  sk_key_id :: string
  sk_secret :: string
  sk_index :: int
  sk_fingerprint :: string

definition list_channel_keys :: "string \<Rightarrow> routing_world \<Rightarrow> thrown + channel_key_doc list" where
  "list_channel_keys cid w =
     (if \<not> rw_db_ok w then Inl OtherThrown
      else Inr (take 100 (sort_key ck_index
        (filter (\<lambda>k. ck_channel_id k = cid \<and> ck_status k = Enabled) (rw_keys w)))))"

definition selected :: "(channel_key_doc \<Rightarrow> thrown + string) \<Rightarrow> channel_key_doc \<Rightarrow> thrown + selected_key" where
  "selected open_secret k = (case open_secret k of
      Inl e \<Rightarrow> Inl e
    | Inr secret \<Rightarrow> Inr \<lparr>sk_key_id = ck_id k, sk_secret = secret, sk_index = ck_index k, sk_fingerprint = ck_fingerprint k\<rparr>)"

definition select_channel_key ::
    "(channel_key_doc \<Rightarrow> thrown + string) \<Rightarrow> string \<Rightarrow> string \<Rightarrow> routing_world \<Rightarrow> thrown + selected_key" where
  "select_channel_key open_secret cid kid w =
     (if \<not> rw_db_ok w then Inl OtherThrown
      else (case find_one (\<lambda>k. ck_id k = kid \<and> ck_channel_id k = cid \<and> ck_status k = Enabled) (rw_keys w) of
          None \<Rightarrow> Inl (Gateway (configuration_error ''the task's original provider credential is unavailable''))
        | Some k \<Rightarrow> selected open_secret k))"

text \<open>The offset the shared counter gives; a fault or a bad reply is the first key.\<close>

definition key_offset :: "nat \<Rightarrow> jsnum list option \<Rightarrow> nat" where
  "key_offset pool r = (case r of
      Some (n # _) \<Rightarrow> if js_finite n \<and> js_le (JFin 0) n then nat (js_to_int n) mod pool else 0
    | _ \<Rightarrow> 0)"

definition pick_channel_key ::
    "(channel_key_doc \<Rightarrow> thrown + string) \<Rightarrow> int \<Rightarrow> string \<Rightarrow> string list \<Rightarrow> routing_world \<Rightarrow>
     (thrown + selected_key) \<times> routing_world" where
  "pick_channel_key open_secret now cid skip w =
     (case list_channel_keys cid w of
        Inl e \<Rightarrow> (Inl e, w)
      | Inr ks \<Rightarrow>
          let usable = filter (\<lambda>k. ck_fingerprint k \<notin> set skip) ks;
              pool = (if usable \<noteq> [] then usable else ks)
          in if pool = [] then (Inl (Gateway (configuration_error (''channel '' @ cid @ '' has no enabled keys''))), w)
             else (case on_co (run_script now (NextKey (render (KChannelKeyIndex cid)) (of_nat (length pool)))) w of
                 (r, w') \<Rightarrow> (selected open_secret (pool ! key_offset (length pool) r), w')))"

definition mark_key_failure :: "string \<Rightarrow> routing_world \<Rightarrow> routing_world" where
  "mark_key_failure kid w =
     (if \<not> rw_db_ok w then w
      else w\<lparr>rw_keys := update_one (\<lambda>k. ck_id k = kid) (\<lambda>k. k\<lparr>ck_fail_count := ck_fail_count k + 1\<rparr>) (rw_keys w)\<rparr>)"

definition mark_key_used :: "int \<Rightarrow> string \<Rightarrow> routing_world \<Rightarrow> routing_world" where
  "mark_key_used now kid w =
     (if \<not> rw_db_ok w then w
      else w\<lparr>rw_keys := update_one (\<lambda>k. ck_id k = kid) (\<lambda>k. k\<lparr>ck_last_used_at := Some now\<rparr>) (rw_keys w)\<rparr>)"

subsection \<open>Selection\<close>

record selection_request =
  sq_group :: string
  sq_model :: string
  sq_attempt :: int
  sq_affinity_hash :: "string option"
  sq_excluded :: "string list"

record selection =
  sl_channel :: channel_doc
  sl_model :: resolved_model
  sl_considered :: nat

definition affinity_key :: "string \<Rightarrow> string \<Rightarrow> string \<Rightarrow> string" where
  "affinity_key grp model hash = render (KAffinity (grp @ ''/'' @ model) hash)"

definition read_affinity :: "int \<Rightarrow> string \<Rightarrow> string \<Rightarrow> string \<Rightarrow> routing_world \<Rightarrow> string option \<times> routing_world" where
  "read_affinity now grp model hash w =
     (case on_co (redis_get now (affinity_key grp model hash)) w of
        (r, w') \<Rightarrow> (case r of Some (Some (Lit s)) \<Rightarrow> if s = [] then None else Some s | _ \<Rightarrow> None, w'))"

definition write_affinity :: "env \<Rightarrow> int \<Rightarrow> string \<Rightarrow> string \<Rightarrow> string \<Rightarrow> string \<Rightarrow> routing_world \<Rightarrow> routing_world" where
  "write_affinity env now grp model hash cid w =
     snd (on_co (redis_set now (affinity_key grp model hash) (Lit cid) (Some (of_int (cfg_affinity_ttl_sec env)))) w)"

text \<open>The bounded election: \<open>rnd i\<close> is the draw of the \<open>i\<close>-th round.\<close>

fun elect_and_verify ::
    "nat \<Rightarrow> (nat \<Rightarrow> rat) \<Rightarrow> int \<Rightarrow> string option \<Rightarrow> string \<Rightarrow> string \<Rightarrow> channel_doc list \<Rightarrow> candidate list \<Rightarrow>
     channel_doc option" where
  "elect_and_verify 0 rnd attempt affinity grp model chans pool = None"
| "elect_and_verify (Suc left) rnd attempt affinity grp model chans pool =
     (if pool = [] then None
      else (case elect_from pool attempt affinity (rnd (7 - left)) of
          None \<Rightarrow> None
        | Some c \<Rightarrow>
            (case find_one (\<lambda>ch. ch_id ch = cand_channel c) chans of
               Some ch \<Rightarrow>
                 if serves ch grp model then Some ch
                 else elect_and_verify left rnd attempt affinity grp model chans
                   (filter (\<lambda>d. cand_channel d \<noteq> cand_channel c) pool)
             | None \<Rightarrow> elect_and_verify left rnd attempt affinity grp model chans
                 (filter (\<lambda>d. cand_channel d \<noteq> cand_channel c) pool))))"

definition select_channel ::
    "env \<Rightarrow> int \<Rightarrow> (nat \<Rightarrow> rat) \<Rightarrow> selection_request \<Rightarrow> routing_world \<Rightarrow> (thrown + selection) \<times> routing_world" where
  "select_channel env now rnd q w =
     (let grp = sq_group q; model = sq_model q in
      case candidates_for env now grp model w of (all, w1) \<Rightarrow>
        let left = filter (\<lambda>c. cand_channel c \<notin> set (sq_excluded q)) all in
        if left = [] then (Inl (Gateway (no_channel_available model grp)), w1)
        else (case open_channels now (map cand_channel left) w1 of (open_ids, w2) \<Rightarrow>
          let healthy = filter (\<lambda>c. cand_channel c \<notin> open_ids) left in
          if healthy = [] then (Inl (Gateway (no_channel_available model grp)), w2)
          else (case (case sq_affinity_hash q of
                 Some h \<Rightarrow> if h = [] then (None, w2) else read_affinity now grp model h w2
               | None \<Rightarrow> (None, w2)) of (affinity, w3) \<Rightarrow>
            if \<not> rw_db_ok w3 then (Inl OtherThrown, w3)
            else (case elect_and_verify 8 rnd (sq_attempt q) affinity grp model (rw_channels w3) healthy of
                None \<Rightarrow> (Inl (Gateway (no_channel_available model grp)), w3)
              | Some ch \<Rightarrow>
                  (let w4 = (case sq_affinity_hash q of
                        Some h \<Rightarrow> if h = [] then w3 else write_affinity env now grp model h (ch_id ch) w3
                      | None \<Rightarrow> w3)
                   in case resolve_model env now model ch w4 of
                        (rm, w5) \<Rightarrow> (Inr \<lparr>sl_channel = ch, sl_model = rm, sl_considered = length healthy\<rparr>, w5))))))"

end
