(* ===== verification/RateLimit.thy ===== *)
theory RateLimit
  imports RedisClient Domain
begin

text \<open>
  The limiters of \<open>src/lib/ratelimit/index.ts\<close>: requests per minute (token bucket per key, user and
  address), tokens per minute (fixed window), successful requests (sliding window) and requests
  in flight (leases). Each operation runs at one instant \<open>now\<close>. A limiter that cannot reach the
  shared store refuses.
\<close>

datatype limit_scope = ScopeToken | ScopeUser | ScopeIp | ScopeChannel

fun scope_name :: "limit_scope \<Rightarrow> string" where
  "scope_name ScopeToken = ''token''" | "scope_name ScopeUser = ''user''"
| "scope_name ScopeIp = ''ip''" | "scope_name ScopeChannel = ''channel''"

definition limiter_unavailable :: gateway_error where
  "limiter_unavailable = gateway_error ((err_init ServiceUnavailable 503
     ''rate limiting is unavailable; refusing to serve unlimited traffic'')\<lparr>i_kind := Some OverloadedError\<rparr>)"

definition limiter_reply_ok :: "jsnum list \<Rightarrow> bool" where
  "limiter_reply_ok r \<longleftrightarrow> 2 \<le> length r \<and> list_all js_finite r \<and> hd r \<in> {JFin 0, JFin 1}"

definition limit_script :: "int \<Rightarrow> script \<Rightarrow> coord \<Rightarrow> (gateway_error + jsnum list) \<times> coord" where
  "limit_script now s co =
     (if is_degraded now co then (Inl limiter_unavailable, co)
      else (case run_script now s co of
          (None, co') \<Rightarrow> (Inl limiter_unavailable, co')
        | (Some r, co') \<Rightarrow> (if limiter_reply_ok r then Inr r else Inl limiter_unavailable, co')))"

definition enforce_attempt_limit ::
    "int \<Rightarrow> string \<Rightarrow> int \<Rightarrow> int \<Rightarrow> string \<Rightarrow> coord \<Rightarrow> (gateway_error + unit) \<times> coord" where
  "enforce_attempt_limit now key limit window_sec msg co =
     (if is_degraded now co then (Inl limiter_unavailable, co)
      else (case limit_script now (FixedWindow key (of_int limit) (of_int window_sec) 1) co of
          (Inl _, co') \<Rightarrow> (Inl limiter_unavailable, co')
        | (Inr r, co') \<Rightarrow>
            (if hd r \<noteq> JFin 1 then Inl (rate_limited msg (Some window_sec)) else Inr (), co')))"

text \<open>\<^term>\<open>None\<close> is the infinite remainder of a disabled bucket.\<close>

definition bucket_ttl :: "int \<Rightarrow> rat" where
  "bucket_ttl limit = (let refill = of_int limit / 60 :: rat
     in max 60 (of_int \<lceil>of_int limit / max refill (1 / 1000)\<rceil> + 60))"

definition consume_bucket ::
    "int \<Rightarrow> string \<Rightarrow> int \<Rightarrow> int \<Rightarrow> coord \<Rightarrow> (gateway_error + bool \<times> jsnum) \<times> coord" where
  "consume_bucket now key limit cost co =
     (if limit \<le> 0 then (Inr (True, JPosInf), co)
      else (case limit_script now (TokenBucket key (of_int limit) (of_int limit / 60) (of_int now)
               (of_int cost) (bucket_ttl limit)) co of
          (Inl e, co') \<Rightarrow> (Inl e, co')
        | (Inr r, co') \<Rightarrow> (Inr (hd r = JFin 1, r ! 1), co')))"

definition retry_after_for :: "int \<Rightarrow> int" where
  "retry_after_for limit = (if limit \<le> 0 then 1 else max 1 \<lceil>60 / (of_int limit :: rat)\<rceil>)"

definition bucket_check :: "int \<Rightarrow> string \<Rightarrow> int \<Rightarrow> string \<Rightarrow> coord \<Rightarrow> (gateway_error + unit) \<times> coord" where
  "bucket_check now key limit whom co =
     (case consume_bucket now key limit 1 co of
        (Inl e, co') \<Rightarrow> (Inl e, co')
      | (Inr (allowed, _), co') \<Rightarrow>
          (if allowed then Inr ()
           else Inl (rate_limited (''request rate limit exceeded for '' @ whom @ '' ('' @ show_int limit @ ''/min)'')
             (Some (retry_after_for limit))), co'))"

definition enforce_request_limits :: "env \<Rightarrow> int \<Rightarrow> identity \<Rightarrow> string \<Rightarrow> coord \<Rightarrow> (gateway_error + unit) \<times> coord" where
  "enforce_request_limits env now idn ip_hash co =
     (if is_degraded now co then (Inl limiter_unavailable, co)
      else
        let token_limit = idn_rpm_limit idn; user_limit = max token_limit (cfg_default_rpm env) in
        case bucket_check now (render (KRpm ''token'' (idn_token_id idn))) token_limit ''this api key'' co of
          (Inl e, co1) \<Rightarrow> (Inl e, co1)
        | (Inr _, co1) \<Rightarrow>
            (case bucket_check now (render (KRpm ''user'' (idn_user_id idn))) user_limit ''this account'' co1 of
              (Inl e, co2) \<Rightarrow> (Inl e, co2)
            | (Inr _, co2) \<Rightarrow>
                if ip_hash = [] then (Inr (), co2)
                else bucket_check now (render (KRpm ''ip'' ip_hash)) (cfg_default_ip_rpm env) ''your address'' co2))"

definition enforce_token_budget :: "env \<Rightarrow> int \<Rightarrow> identity \<Rightarrow> rat \<Rightarrow> coord \<Rightarrow> (gateway_error + unit) \<times> coord" where
  "enforce_token_budget env now idn estimated co =
     (let limit = idn_tpm_limit idn; window = cfg_default_window_sec env in
      if limit \<le> 0 then (Inr (), co)
      else if is_degraded now co then (Inl limiter_unavailable, co)
      else (case limit_script now (FixedWindow (render (KTpm ''user'' (idn_user_id idn))) (of_int limit)
               (of_int window) (of_int (max 1 \<lceil>estimated\<rceil>))) co of
          (Inl e, co') \<Rightarrow> (Inl e, co')
        | (Inr r, co') \<Rightarrow>
            (if hd r = JFin 1 then Inr ()
             else Inl (gateway_error ((err_init TpmLimitExceeded 429
               (''token rate limit exceeded ('' @ show_int limit @ '' tokens per '' @ show_int window @ ''s)''))
                 \<lparr>i_details := [(''retryAfterSec'', js_int window)]\<rparr>)), co')))"

text \<open>Best effort: neither a fault nor the reply changes the outcome.\<close>

definition charge_token_budget :: "env \<Rightarrow> int \<Rightarrow> identity \<Rightarrow> rat \<Rightarrow> coord \<Rightarrow> coord" where
  "charge_token_budget env now idn extra co =
     (if idn_tpm_limit idn \<le> 0 \<or> extra \<le> 0 \<or> is_degraded now co then co
      else snd (run_script now (FixedWindow (render (KTpm ''user'' (idn_user_id idn)))
        (of_int max_safe_integer) (of_int (cfg_default_window_sec env)) (of_int \<lceil>extra\<rceil>)) co))"

definition enforce_success_window :: "env \<Rightarrow> int \<Rightarrow> identity \<Rightarrow> string \<Rightarrow> coord \<Rightarrow> (gateway_error + unit) \<times> coord" where
  "enforce_success_window env now idn request_id co =
     (let limit = cfg_default_success_per_window env; window = cfg_default_window_sec env in
      if limit \<le> 0 then (Inr (), co)
      else if is_degraded now co then (Inl limiter_unavailable, co)
      else (case limit_script now (SlidingSuccess (render (KSuccessWindow (idn_user_id idn))) (of_int limit)
               (of_int window * 1000) (of_int now) request_id) co of
          (Inl e, co') \<Rightarrow> (Inl e, co')
        | (Inr r, co') \<Rightarrow>
            (if hd r = JFin 1 then Inr ()
             else Inl (rate_limited (''too many successful requests ('' @ show_int limit @ '' per '' @ show_int window @ ''s)'')
               (Some window)), co')))"

text \<open>A lease is the key and the opaque member; \<^term>\<open>None\<close> is the lease of a disabled ceiling.\<close>

definition lease_ttl_ms :: "env \<Rightarrow> int" where
  "lease_ttl_ms env = max 900000 (cfg_request_body_timeout_ms env + cfg_retry_budget_ms env +
     cfg_upstream_request_timeout_ms env + 60000)"

definition acquire_concurrency ::
    "env \<Rightarrow> int \<Rightarrow> limit_scope \<Rightarrow> string \<Rightarrow> int \<Rightarrow> string \<Rightarrow> coord \<Rightarrow>
     (gateway_error + (string \<times> string) option) \<times> coord" where
  "acquire_concurrency env now scope i limit member co =
     (if limit \<le> 0 then (Inr None, co)
      else if is_degraded now co then (Inl limiter_unavailable, co)
      else
        let key = render (KConcurrency (scope_name scope) i) in
        case limit_script now (Concurrency key (of_int limit) (of_int now) (of_int (lease_ttl_ms env)) member) co of
          (Inl e, co') \<Rightarrow> (Inl e, co')
        | (Inr r, co') \<Rightarrow>
            (if hd r \<noteq> JFin 1
             then Inl (gateway_error ((err_init ConcurrencyLimit 429
               (''too many concurrent requests ('' @ show_int limit @ '')''))\<lparr>i_details := [(''retryAfterSec'', js_int 1)]\<rparr>))
             else Inr (Some (key, member)), co'))"

text \<open>The lease remembers that it was released; a fault on removal leaves the slot to its expiry.\<close>

definition release_lease :: "int \<Rightarrow> (string \<times> string) option \<Rightarrow> bool \<Rightarrow> coord \<Rightarrow> bool \<times> coord" where
  "release_lease now lease released co =
     (case lease of
        None \<Rightarrow> (released, co)
      | Some (key, member) \<Rightarrow>
          if released then (True, co) else (True, snd (redis_command now (ZRem key [member]) co)))"

end
