(* ===== verification/LuaScripts.thy ===== *)
theory LuaScripts
  imports RedisScripts
begin

text \<open>
  The Lua sources of the scripts, \<open>src/lib/redis/lua.ts\<close>, as the server runs them: \<open>tonumber\<close>
  may give nil, arithmetic on nil is a run-time error (\<^term>\<open>None\<close>), a missing bulk reply is
  falsy, and the numbers of the returned table are truncated to integers. \<open>redis.call\<close> is the
  command semantics of \<open>RedisStore\<close>, which the repository states to be that of the server.
  \<open>lua_twin\<close> is the equivalence with the JavaScript twins that the module promises.
\<close>

named_theorems script_simps \<open>running scripts\<close>

text \<open>On a numeral \<open>tonumber\<close> agrees with \<open>Number\<close>; blanks and infinities are not numbers.\<close>

definition lua_tonumber :: "rtext \<Rightarrow> rat option" where
  "lua_tonumber t = (case t of
      Lit s \<Rightarrow> if js_trim s = [] then None
        else (case number_of_string s of JFin q \<Rightarrow> Some q | _ \<Rightarrow> None)
    | _ \<Rightarrow> (case text_num t of JFin q \<Rightarrow> Some q | _ \<Rightarrow> None))"

fun lua_num :: "reply \<Rightarrow> rat option" where
  "lua_num (RNum (JFin q)) = Some q"
| "lua_num (RTxt t) = lua_tonumber t"
| "lua_num _ = None"

definition lua_num_or :: "rat \<Rightarrow> reply \<Rightarrow> rat option" where
  "lua_num_or d r = (if r = RNil then Some d else lua_num r)"

definition lua_field :: "reply \<Rightarrow> nat \<Rightarrow> rat option" where
  "lua_field r i = (case txt_at r i of None \<Rightarrow> None | Some t \<Rightarrow> lua_tonumber t)"

definition lua_int :: "rat \<Rightarrow> int" where
  "lua_int q = (if 0 \<le> q then \<lfloor>q\<rfloor> else \<lceil>q\<rceil>)"

type_synonym lua_program = "(rstore, int list option) state"

definition lua_return :: "rat list \<Rightarrow> lua_program" where
  "lua_return xs = return (Some (map lua_int xs))"

definition lua_with :: "rat option \<Rightarrow> (rat \<Rightarrow> lua_program) \<Rightarrow> lua_program" where
  "lua_with v k = (case v of None \<Rightarrow> return None | Some x \<Rightarrow> k x)"

definition lua_call_num :: "rat \<Rightarrow> command \<Rightarrow> (rat \<Rightarrow> lua_program) \<Rightarrow> lua_program" where
  "lua_call_num clk c k = do { r \<leftarrow> redis clk c; lua_with (lua_num r) k }"

subsection \<open>The programs\<close>

definition lua_level :: "rat \<Rightarrow> rat \<Rightarrow> rat \<Rightarrow> rat \<Rightarrow> rat \<Rightarrow> rat" where
  "lua_level capacity refill now stored ts =
     (let elapsed = max 0 (now - ts) / 1000 in min capacity (stored + elapsed * refill))"

definition lua_retry :: "rat \<Rightarrow> rat \<Rightarrow> rat \<Rightarrow> rat \<Rightarrow> rat" where
  "lua_retry refill cost ttl level =
     (if refill > 0 then of_int \<lceil>(cost - level) / refill * 1000\<rceil> else ttl * 1000)"

definition TOKEN_BUCKET_LUA :: "rat \<Rightarrow> string \<Rightarrow> rat \<Rightarrow> rat \<Rightarrow> rat \<Rightarrow> rat \<Rightarrow> rat \<Rightarrow> lua_program" where
  "TOKEN_BUCKET_LUA clk key capacity refill now cost ttl =
     (if capacity \<le> 0 then lua_return [1, - 1, 0]
      else do {
        data \<leftarrow> redis clk (HMGet key [''tokens'', ''ts'']);
        let stored = (case lua_field data 0 of None \<Rightarrow> capacity | Some q \<Rightarrow> q);
            ts = (case lua_field data 1 of None \<Rightarrow> now | Some q \<Rightarrow> q);
            level = lua_level capacity refill now stored ts;
            allowed = (cost \<le> level);
            tokens = (if allowed then level - cost else level);
            retry = (if allowed then 0 else lua_retry refill cost ttl level)
        in do {
          redis clk (HSet key [(''tokens'', num_text (JFin tokens)), (''ts'', num_text (JFin now))]);
          redis clk (Expire key ttl);
          lua_return [if allowed then 1 else 0, of_int \<lfloor>tokens\<rfloor>, retry] } })"

definition FIXED_WINDOW_LUA :: "rat \<Rightarrow> string \<Rightarrow> rat \<Rightarrow> rat \<Rightarrow> rat \<Rightarrow> lua_program" where
  "FIXED_WINDOW_LUA clk key limit window cost =
     (if limit \<le> 0 then lua_return [1, 0, window]
      else do {
        raw \<leftarrow> redis clk (Get key);
        lua_with (lua_num_or 0 raw) (\<lambda>current.
          if current + cost > limit then
            lua_call_num clk (Ttl key) (\<lambda>t. lua_return [0, current, if t < 0 then window else t])
          else
            lua_call_num clk (IncrBy key cost) (\<lambda>updated. do {
              (if updated = cost then redis clk (Expire key window) else return RNil);
              lua_call_num clk (Ttl key) (\<lambda>t. lua_return [1, updated, if t < 0 then window else t]) })) })"

definition SLIDING_SUCCESS_LUA :: "rat \<Rightarrow> string \<Rightarrow> rat \<Rightarrow> rat \<Rightarrow> rat \<Rightarrow> string \<Rightarrow> lua_program" where
  "SLIDING_SUCCESS_LUA clk key limit window now member =
     (if limit \<le> 0 then lua_return [1, 0]
      else do {
        redis clk (ZRemRangeByScore key (Some 0) (Some (now - window)));
        c \<leftarrow> redis clk (ZCard key);
        lua_with (lua_num_or 0 c) (\<lambda>count.
          if count \<ge> limit then lua_return [0, count]
          else do {
            redis clk (ZAdd key [(now, member)]);
            redis clk (PExpire key window);
            lua_return [1, count + 1] }) })"

definition RESERVE_LUA :: "rat \<Rightarrow> string \<Rightarrow> string \<Rightarrow> string \<Rightarrow> rat \<Rightarrow> rat \<Rightarrow> string \<Rightarrow> rat \<Rightarrow> lua_program" where
  "RESERVE_LUA clk user_key token_key resv_key amount ttl rid unlimited =
     do {
       dup \<leftarrow> exists_key clk resv_key;
       (if dup then do { b \<leftarrow> redis clk (Get user_key); lua_with (lua_num_or 0 b) (\<lambda>q. lua_return [2, q]) }
        else if unlimited = 1 then do {
          redis clk (HSet resv_key [(''amount'', Lit ''0''), (''rid'', Lit rid), (''state'', Lit ''open''), (''unlimited'', Lit ''1'')]);
          redis clk (Expire resv_key ttl);
          lua_return [1, - 1] }
        else do {
          raw \<leftarrow> redis clk (Get user_key);
          lua_with (lua_num_or (- 1) raw) (\<lambda>balance.
            if balance < 0 then lua_return [3, 0]
            else if balance < amount then lua_return [0, balance]
            else do {
              traw \<leftarrow> (if token_key \<noteq> [] then redis clk (Get token_key) else return RNil);
              lua_with (lua_num_or (- 1) traw) (\<lambda>tok.
                if token_key \<noteq> [] \<and> tok \<ge> 0 \<and> tok < amount then lua_return [0, tok]
                else lua_call_num clk (DecrBy user_key amount) (\<lambda>remaining. do {
                  (if token_key \<noteq> [] \<and> tok \<ge> 0 then redis clk (DecrBy token_key amount) else return RNil);
                  redis clk (HSet resv_key [(''amount'', num_text (JFin amount)), (''rid'', Lit rid),
                    (''state'', Lit ''open''), (''unlimited'', Lit ''0'')]);
                  redis clk (Expire resv_key ttl);
                  lua_return [1, remaining] })) }) }) }"

definition SETTLE_LUA ::
    "rat \<Rightarrow> string \<Rightarrow> string \<Rightarrow> string \<Rightarrow> string \<Rightarrow> rat \<Rightarrow> string \<Rightarrow> string \<Rightarrow> string \<Rightarrow> rat \<Rightarrow> lua_program" where
  "SETTLE_LUA clk user_key token_key resv_key journal_key final rid uid tid journal_ttl =
     do {
       st \<leftarrow> redis clk (HGet resv_key ''state'');
       (if st = RNil then lua_return [0, 0, 0]
        else if st \<noteq> RTxt (Lit ''open'') then lua_return [2, 0, 0]
        else do {
          a \<leftarrow> redis clk (HGet resv_key ''amount'');
          lua_with (lua_num_or 0 a) (\<lambda>reserved. do {
            u \<leftarrow> redis clk (HGet resv_key ''unlimited'');
            let unlimited = lua_num_or 0 u; delta = final - reserved;
                finish = (\<lambda>remaining. do {
                  redis clk (HSet resv_key [(''state'', Lit ''settled''), (''final'', num_text (JFin final))]);
                  redis clk (Expire resv_key 900);
                  redis clk (RPush journal_key [journal_entry rid uid tid (JFin final) (JFin reserved) ''settle'']);
                  redis clk (Expire journal_key journal_ttl);
                  lua_return [1, remaining, delta] })
            in if unlimited \<noteq> Some 0 then finish (- 1)
               else if delta \<noteq> 0 then
                 lua_call_num clk (DecrBy user_key delta) (\<lambda>remaining. do {
                   has \<leftarrow> (if token_key \<noteq> [] then exists_key clk token_key else return False);
                   (if has then redis clk (DecrBy token_key delta) else return RNil);
                   finish remaining })
               else do { b \<leftarrow> redis clk (Get user_key); lua_with (lua_num_or 0 b) finish } }) }) }"

definition RELEASE_LUA ::
    "rat \<Rightarrow> string \<Rightarrow> string \<Rightarrow> string \<Rightarrow> string \<Rightarrow> string \<Rightarrow> string \<Rightarrow> string \<Rightarrow> rat \<Rightarrow> lua_program" where
  "RELEASE_LUA clk user_key token_key resv_key journal_key rid uid tid journal_ttl =
     do {
       st \<leftarrow> redis clk (HGet resv_key ''state'');
       (if st = RNil then lua_return [0, 0]
        else if st \<noteq> RTxt (Lit ''open'') then lua_return [2, 0]
        else do {
          a \<leftarrow> redis clk (HGet resv_key ''amount'');
          lua_with (lua_num_or 0 a) (\<lambda>reserved. do {
            u \<leftarrow> redis clk (HGet resv_key ''unlimited'');
            (if lua_num_or 0 u = Some 0 \<and> reserved > 0 then do {
               redis clk (IncrBy user_key reserved);
               has \<leftarrow> (if token_key \<noteq> [] then exists_key clk token_key else return False);
               (if has then redis clk (IncrBy token_key reserved) else return RNil) }
             else return RNil);
            redis clk (HSet resv_key [(''state'', Lit ''released'')]);
            redis clk (Expire resv_key 900);
            redis clk (RPush journal_key [journal_entry rid uid tid (JFin 0) (JFin reserved) ''release'']);
            redis clk (Expire journal_key journal_ttl);
            lua_return [1, reserved] }) }) }"

definition NEXT_KEY_LUA :: "rat \<Rightarrow> string \<Rightarrow> rat \<Rightarrow> lua_program" where
  "NEXT_KEY_LUA clk key pool =
     (if pool \<le> 0 then lua_return [- 1]
      else lua_call_num clk (Incr key) (\<lambda>n. do {
        redis clk (Expire key 86400);
        lua_return [(n - 1) - of_int \<lfloor>(n - 1) / pool\<rfloor> * pool] }))"

definition HEALTH_LUA :: "rat \<Rightarrow> string \<Rightarrow> rat \<Rightarrow> rat \<Rightarrow> rat \<Rightarrow> rat \<Rightarrow> lua_program" where
  "HEALTH_LUA clk key ok threshold cooldown now =
     (if ok = 1 then do {
        redis clk (HSet key [(''fails'', Lit ''0''), (''openUntil'', Lit ''0'')]);
        redis clk (Expire key (cooldown * 10));
        lua_return [0, 0] }
      else lua_call_num clk (HIncrBy key ''fails'' 1) (\<lambda>fails. do {
        (if fails \<ge> threshold then redis clk (HSet key [(''openUntil'', num_text (JFin (now + cooldown * 1000)))])
         else return RNil);
        redis clk (Expire key (cooldown * 10));
        lua_return [if fails \<ge> threshold then 1 else 0, fails] }))"

definition CONCURRENCY_LUA :: "rat \<Rightarrow> string \<Rightarrow> rat \<Rightarrow> rat \<Rightarrow> rat \<Rightarrow> string \<Rightarrow> lua_program" where
  "CONCURRENCY_LUA clk key limit now ttl member =
     do {
       redis clk (ZRemRangeByScore key None (Some now));
       lua_call_num clk (ZCard key) (\<lambda>count.
         if count \<ge> limit then lua_return [0, count]
         else do {
           redis clk (ZAdd key [(now + ttl, member)]);
           redis clk (PExpire key (ttl + 1000));
           lua_return [1, count + 1] }) }"

definition RELEASE_LOCK_LUA :: "rat \<Rightarrow> string \<Rightarrow> string \<Rightarrow> lua_program" where
  "RELEASE_LOCK_LUA clk key owner =
     do {
       held \<leftarrow> redis clk (Get key);
       (if held = RTxt (Lit owner) then lua_call_num clk (Del [key]) (\<lambda>n. lua_return [n])
        else lua_return [0]) }"

definition ACK_USAGE_LUA :: "rat \<Rightarrow> string \<Rightarrow> string \<Rightarrow> string \<Rightarrow> int \<Rightarrow> lua_program" where
  "ACK_USAGE_LUA clk buffer_key lock_key owner n =
     do {
       held \<leftarrow> redis clk (Get lock_key);
       (if held \<noteq> RTxt (Lit owner) then lua_return [0]
        else do {
          redis clk (LTrim buffer_key n (- 1));
          redis clk (Del [lock_key]);
          lua_return [1] }) }"

fun run_lua :: "rat \<Rightarrow> script \<Rightarrow> lua_program" where
  "run_lua clk (AckUsage b l own n) = ACK_USAGE_LUA clk b l own n"
| "run_lua clk (Concurrency k lmt now ttl m) = CONCURRENCY_LUA clk k lmt now ttl m"
| "run_lua clk (ReleaseLock k own) = RELEASE_LOCK_LUA clk k own"
| "run_lua clk (TokenBucket k cap rf now cost ttl) = TOKEN_BUCKET_LUA clk k cap rf now cost ttl"
| "run_lua clk (FixedWindow k lmt win cost) = FIXED_WINDOW_LUA clk k lmt win cost"
| "run_lua clk (SlidingSuccess k lmt win now m) = SLIDING_SUCCESS_LUA clk k lmt win now m"
| "run_lua clk (Reserve u t r amount ttl rid unl) = RESERVE_LUA clk u t r amount ttl rid unl"
| "run_lua clk (Settle u t r j final rid uid tid jttl) = SETTLE_LUA clk u t r j final rid uid tid jttl"
| "run_lua clk (Release u t r j rid uid tid jttl) = RELEASE_LUA clk u t r j rid uid tid jttl"
| "run_lua clk (NextKey k n) = NEXT_KEY_LUA clk k n"
| "run_lua clk (HealthScript k ok th cd now) = HEALTH_LUA clk k ok th cd now"

end
