(* ===== verification/ScriptTwins.thy ===== *)
theory ScriptTwins
  imports LuaScripts
begin

text \<open>
  The scripts and their twins agree: on a store whose counters are numerals, a Lua source leaves
  exactly the store its JavaScript twin leaves and returns the twin's numbers, truncated.
\<close>

subsection \<open>Running programs\<close>

lemma run_redis [simp, script_simps]: "run_state (redis clk c) st = run_command clk c st"
  by (simp add: redis_def)

lemma run_bind [simp, script_simps]:
  "run_state (State_Monad.bind m f) st = (case run_state m st of (a, st') \<Rightarrow> run_state (f a) st')"
  by (cases m) (simp add: State_Monad.bind_def)

lemma run_if [simp, script_simps]:
  "run_state (if b then p else q) st = (if b then run_state p st else run_state q st)"
  by simp

lemma run_lua_with [simp, script_simps]:
  "run_state (lua_with v k) st = (case v of None \<Rightarrow> (None, st) | Some x \<Rightarrow> run_state (k x) st)"
  by (simp add: lua_with_def split: option.splits)

lemma run_lua_call_num [simp, script_simps]:
  "run_state (lua_call_num clk c k) st = (case run_command clk c st of (r, st') \<Rightarrow>
     (case lua_num r of None \<Rightarrow> (None, st') | Some x \<Rightarrow> run_state (k x) st'))"
  by (simp add: lua_call_num_def)

lemma run_lua_return [simp, script_simps]: "run_state (lua_return xs) st = (Some (map lua_int xs), st)"
  by (simp add: lua_return_def)

lemma txt_reply_simps [simp, script_simps]: "txt_reply None = RNil" "txt_reply (Some t) = RTxt t"
  by (simp_all add: txt_reply_def)

lemma num_reply_simps [simp, script_simps]:
  "lua_num (num_reply i) = Some (of_int i)" "reply_num (num_reply i) = JFin (of_int i)" "num_reply i \<noteq> RNil"
  by (simp_all add: num_reply_def)

subsection \<open>Numerals\<close>

lemma tonumber_text: "lua_tonumber t = Some q \<Longrightarrow> text_num t = JFin q"
  by (auto simp: lua_tonumber_def split: rtext.splits if_splits jsnum.splits)

definition numeral :: "rtext option \<Rightarrow> bool" where
  "numeral t = (case t of None \<Rightarrow> True | Some t \<Rightarrow> lua_tonumber t \<noteq> None)"

definition num_key :: "string \<Rightarrow> rstore \<Rightarrow> bool" where
  "num_key k st \<longleftrightarrow> numeral (str_at k st)"

definition num_field :: "string \<Rightarrow> string \<Rightarrow> rstore \<Rightarrow> bool" where
  "num_field k f st \<longleftrightarrow> numeral (case hash_at k False st of None \<Rightarrow> None | Some m \<Rightarrow> map_of m f)"

lemma numeral_cases:
  assumes "numeral t"
  obtains "t = None" | x q where "t = Some x" "lua_tonumber x = Some q" "text_num x = JFin q"
  using assms tonumber_text by (cases t) (auto simp: numeral_def)

lemma str_at_live: "str_at k (live clk j st) = str_at k st \<or> str_at k (live clk j st) = None"
  by (cases "j = k") (auto simp: str_at_def live_def split: option.splits)

lemma hash_at_live: "hash_at k False (live clk j st) = hash_at k False st \<or> hash_at k False (live clk j st) = None"
  by (cases "j = k") (auto simp: hash_at_def live_def split: option.splits)

lemma num_key_live [intro]: "num_key k st \<Longrightarrow> num_key k (live clk j st)"
  using str_at_live [of k clk j st] by (auto simp: num_key_def numeral_def)

lemma num_field_live [intro]: "num_field k f st \<Longrightarrow> num_field k f (live clk j st)"
  using hash_at_live [of k clk j st] by (auto simp: num_field_def numeral_def)

text \<open>Reading a counter and moving it.\<close>

lemma get_numeral:
  assumes "num_key k st"
  obtains q where "num_or (JFin d) (txt_reply (str_at k st)) = JFin q"
    "lua_num_or d (txt_reply (str_at k st)) = Some q"
  using assms unfolding num_key_def
  by (cases rule: numeral_cases) (auto simp: num_or_def lua_num_or_def)

lemma incr_numeral:
  assumes "num_key k st"
  obtains q st' where "incr_by k d st = (JFin q, st')"
  using assms unfolding num_key_def
  by (cases rule: numeral_cases) (auto simp: incr_by_def Let_def)

lemma field_numeral:
  assumes "num_field k f st"
  obtains q where "num_or (JFin d) (txt_reply (case hash_at k False st of None \<Rightarrow> None | Some m \<Rightarrow> map_of m f)) = JFin q"
    "lua_num_or d (txt_reply (case hash_at k False st of None \<Rightarrow> None | Some m \<Rightarrow> map_of m f)) = Some q"
  using assms unfolding num_field_def
  by (cases rule: numeral_cases) (auto simp: num_or_def lua_num_or_def)

definition truncated :: "jsnum list \<Rightarrow> int list" where
  "truncated xs = map (\<lambda>x. lua_int (js_rat x)) xs"

text \<open>The Lua program does what the twin does.\<close>

definition same_run :: "(rstore, jsnum list) state \<Rightarrow> lua_program \<Rightarrow> rstore \<Rightarrow> bool" where
  "same_run p q st \<longleftrightarrow>
     run_state q st = (case run_state p st of (xs, st') \<Rightarrow> (Some (truncated xs), st')) \<and>
     list_all js_finite (fst (run_state p st))"

subsection \<open>Script by script\<close>

lemma same_ack: "same_run (ack_usage clk b l own n) (ACK_USAGE_LUA clk b l own n) st"
  by (simp add: same_run_def ack_usage_def ACK_USAGE_LUA_def truncated_def split: prod.splits)

lemma same_release_lock: "same_run (release_lock clk k own) (RELEASE_LOCK_LUA clk k own) st"
  by (auto simp: same_run_def release_lock_def RELEASE_LOCK_LUA_def truncated_def num_reply_def
      split: prod.splits)

lemma same_concurrency: "same_run (concurrency_gate clk k lmt now ttl m) (CONCURRENCY_LUA clk k lmt now ttl m) st"
  by (auto simp: same_run_def concurrency_gate_def CONCURRENCY_LUA_def truncated_def num_reply_def Let_def
      split: prod.splits)

definition ttl_of :: "rat \<Rightarrow> string \<Rightarrow> rstore \<Rightarrow> int" where
  "ttl_of clk k st = (case map_of st k of
      None \<Rightarrow> - 2
    | Some e \<Rightarrow> (case en_expires e of None \<Rightarrow> - 1 | Some t \<Rightarrow> \<lceil>(t - clk) / 1000\<rceil>))"

lemma on_key_ttl: "on_key clk (Ttl k) st = (num_reply (ttl_of clk k st), st)"
  by (simp add: ttl_of_def split: option.splits)

lemma same_fixed_window:
  assumes "num_key k st"
  shows "same_run (fixed_window clk k lmt win cost) (FIXED_WINDOW_LUA clk k lmt win cost) st"
proof -
  obtain q where q: "num_or (JFin 0) (txt_reply (str_at k (live clk k st))) = JFin q"
    "lua_num_or 0 (txt_reply (str_at k (live clk k st))) = Some q"
    using get_numeral [of k "live clk k st" 0] assms by blast
  obtain n st' where n: "incr_by k cost (live clk k st) = (JFin n, st')"
    using incr_numeral [of k "live clk k st" cost] assms by blast
  show ?thesis
    by (simp add: same_run_def fixed_window_def FIXED_WINDOW_LUA_def q n truncated_def Let_def ttl_or_def
        on_key_ttl num_reply_def del: on_key.simps(4))
qed


lemma level_eq: "bucket_level cap rf now (JFin a) (JFin t) = JFin (lua_level cap rf now a t)"
  by (simp add: bucket_level_def lua_level_def Let_def)

lemma retry_eq: "bucket_retry rf cost ttl (JFin l) = JFin (lua_retry rf cost ttl l)"
  by (simp add: bucket_retry_def lua_retry_def)

lemma same_token_bucket:
  assumes "num_field k ''tokens'' st" "num_field k ''ts'' st"
  shows "same_run (token_bucket clk k cap rf now cost ttl) (TOKEN_BUCKET_LUA clk k cap rf now cost ttl) st"
proof -
  let ?st = "live clk k st"
  let ?f = "\<lambda>f. case hash_at k False ?st of None \<Rightarrow> None | Some m \<Rightarrow> map_of m f"
  have num: "\<exists>q. txt_num (JFin d) (?f f) = JFin q \<and>
      (case (case ?f f of None \<Rightarrow> None | Some t \<Rightarrow> lua_tonumber t) of None \<Rightarrow> d | Some q \<Rightarrow> q) = q"
    if "num_field k f st" for f d
  proof -
    from that have "num_field k f ?st" by blast
    then show ?thesis unfolding num_field_def
      by (cases rule: numeral_cases) (auto simp: txt_num_def)
  qed
  obtain a where a: "txt_num (JFin cap) (?f ''tokens'') = JFin a"
      "(case (case ?f ''tokens'' of None \<Rightarrow> None | Some t \<Rightarrow> lua_tonumber t) of None \<Rightarrow> cap | Some q \<Rightarrow> q) = a"
    using num [OF assms(1)] by blast
  obtain t where t: "txt_num (JFin now) (?f ''ts'') = JFin t"
      "(case (case ?f ''ts'' of None \<Rightarrow> None | Some t \<Rightarrow> lua_tonumber t) of None \<Rightarrow> now | Some q \<Rightarrow> q) = t"
    using num [OF assms(2)] by blast
  have get: "run_command clk (HMGet k [''tokens'', ''ts'']) st = (RTxts [?f ''tokens'', ?f ''ts''], ?st)"
    by simp
  have lua: "lua_field (RTxts [?f ''tokens'', ?f ''ts'']) 0 = (case ?f ''tokens'' of None \<Rightarrow> None | Some t \<Rightarrow> lua_tonumber t)"
    "lua_field (RTxts [?f ''tokens'', ?f ''ts'']) (Suc 0) = (case ?f ''ts'' of None \<Rightarrow> None | Some t \<Rightarrow> lua_tonumber t)"
    by (simp_all add: lua_field_def)
  define L where "L = lua_level cap rf now a t"
  have lev: "bucket_level cap rf now (JFin a) (JFin t) = JFin L" by (simp add: level_eq L_def)
  show ?thesis
  proof (cases "cap \<le> 0")
    case True
    then show ?thesis
      by (simp add: same_run_def token_bucket_def TOKEN_BUCKET_LUA_def truncated_def)
  next
    case False
    then show ?thesis
      by (cases "cost \<le> L")
        (simp_all add: same_run_def token_bucket_def TOKEN_BUCKET_LUA_def get lua a t lev L_def [symmetric] truncated_def
        Let_def flag_def retry_eq del: run_command.simps split: prod.splits)
  qed
qed

definition scores_ok :: "string \<Rightarrow> rstore \<Rightarrow> bool" where
  "scores_ok k st \<longleftrightarrow> list_all (\<lambda>e. 0 \<le> fst e) (or_empty (zset_at k False st))"

lemma zset_at_live: "zset_at k False (live clk k st) = zset_at k False st \<or> zset_at k False (live clk k st) = None"
  by (auto simp: zset_at_def live_def split: option.splits)

lemma zkeep_low:
  "list_all (\<lambda>e. 0 \<le> fst e) zs \<Longrightarrow> zkeep (Some 0) hi zs = zkeep None hi zs"
  unfolding zkeep_def by (intro filter_cong) (auto simp: list_all_iff)

lemma same_sliding:
  assumes "scores_ok k st"
  shows "same_run (sliding_success clk k lmt win now m) (SLIDING_SUCCESS_LUA clk k lmt win now m) st"
proof -
  have "list_all (\<lambda>e. 0 \<le> fst e) zs" if "zset_at k False (live clk k st) = Some zs" for zs
    using assms that zset_at_live [of k clk st]
    by (cases "zset_at k False st") (auto simp: scores_ok_def or_empty_def)
  then have "run_command clk (ZRemRangeByScore k (Some 0) hi) st = run_command clk (ZRemRangeByScore k None hi) st" for hi
    by (auto simp: zkeep_low split: option.splits)
  then have z: "run_command clk (ZRemRangeByScore k (Some 0) (Some (now - win))) st
      = run_command clk (ZRemRangeByScore k None (Some (now - win))) st" .
  obtain r s1 where r: "run_command clk (ZRemRangeByScore k None (Some (now - win))) st = (r, s1)"
    using prod.exhaust by blast
  obtain i where c: "run_command clk (ZCard k) s1 = (num_reply i, live clk k s1)" by simp
  show ?thesis
    by (cases "lmt \<le> 0"; cases "lmt \<le> of_int i")
      (simp_all add: same_run_def sliding_success_def SLIDING_SUCCESS_LUA_def truncated_def z r c
        lua_num_or_def Let_def del: run_command.simps split: prod.splits)
qed


definition counter_ok :: "string \<Rightarrow> rstore \<Rightarrow> bool" where
  "counter_ok k st \<longleftrightarrow> (case str_at k st of
      None \<Rightarrow> True | Some t \<Rightarrow> (case lua_tonumber t of None \<Rightarrow> False | Some q \<Rightarrow> 0 \<le> q))"

lemma incr_counter:
  assumes "counter_ok k st"
  obtains q st' where "incr_by k 1 (live clk k st) = (JFin q, st')" "1 \<le> q"
proof (cases "str_at k (live clk k st)")
  case None
  then show thesis by (intro that [of 1]) (auto simp: incr_by_def Let_def)
next
  case (Some t)
  with str_at_live [of k clk k st] have "str_at k st = Some t" by simp
  with assms obtain q where "lua_tonumber t = Some q" "0 \<le> q"
    by (auto simp: counter_ok_def split: option.splits)
  with Some show thesis by (intro that [of "q + 1"]) (auto simp: incr_by_def Let_def tonumber_text)
qed

lemma same_next_key:
  assumes "counter_ok k st"
  shows "same_run (next_key_script clk k n) (NEXT_KEY_LUA clk k n) st"
proof -
  obtain q st' where q: "incr_by k 1 (live clk k st) = (JFin q, st')" "1 \<le> q"
    using incr_counter [OF assms] by blast
  have r: "run_command clk (Incr k) st = (RNum (JFin q), st')" by (simp add: q)
  show ?thesis
  proof (cases "n \<le> 0")
    case True
    then show ?thesis by (simp add: same_run_def next_key_script_def NEXT_KEY_LUA_def truncated_def)
  next
    case False
    with q(2) have "num_rem (JFin (q - 1)) (JFin n) = JFin (q - 1 - of_int \<lfloor>(q - 1) / n\<rfloor> * n)"
      by (simp add: divide_less_0_iff)
    with False show ?thesis
      by (simp add: same_run_def next_key_script_def NEXT_KEY_LUA_def truncated_def r
          del: run_command.simps num_rem.simps split: prod.splits)
  qed
qed

lemma same_health:
  assumes "num_field k ''fails'' st"
  shows "same_run (health_script clk k ok th cd now) (HEALTH_LUA clk k ok th cd now) st"
proof -
  have "\<exists>q s'. run_command clk (HIncrBy k ''fails'' 1) st = (RNum (JFin q), s')"
  proof (cases "hash_at k True (live clk k st)")
    case None
    then show ?thesis by (auto simp: num_reply_def)
  next
    case (Some m)
    have "num_field k ''fails'' (live clk k st)" using assms by blast
    then have "numeral (map_of m ''fails'')"
      using Some by (auto simp: num_field_def hash_at_def numeral_def split: option.splits rvalue.splits if_splits)
    then show ?thesis by (cases rule: numeral_cases) (auto simp: Some Let_def)
  qed
  then obtain q s' where q: "run_command clk (HIncrBy k ''fails'' 1) st = (RNum (JFin q), s')" by blast
  show ?thesis
    by (cases "ok = 1"; cases "th \<le> q")
      (simp_all add: same_run_def health_script_def HEALTH_LUA_def truncated_def q flag_def Let_def
        del: run_command.simps split: prod.splits)
qed

lemma run_exists:
  "run_state (exists_key clk k) st = (map_of (live clk k st) k \<noteq> None, live clk k st)"
  by (simp add: exists_key_def live_count_def num_reply_def Let_def)

lemma run_get: "run_command clk (Get k) st = (txt_reply (str_at k (live clk k st)), live clk k st)"
  by simp

lemma run_decr_numeral:
  assumes "num_key k st"
  obtains q s' where "run_command clk (DecrBy k d) st = (RNum (JFin q), s')"
proof -
  from assms have "num_key k (live clk k st)" by blast
  then obtain q s' where "incr_by k (- d) (live clk k st) = (JFin q, s')" by (rule incr_numeral)
  then show thesis by (intro that) simp
qed

lemma same_reserve:
  assumes "num_key u st" "t \<noteq> [] \<Longrightarrow> num_key t st"
  shows "same_run (reserve_script clk u t r amount ttl rid unl) (RESERVE_LUA clk u t r amount ttl rid unl) st"
proof -
  let ?s0 = "live clk r st" and ?s1 = "live clk u (live clk r st)"
  have nu: "num_key u ?s1" and nt: "t \<noteq> [] \<Longrightarrow> num_key t ?s1" using assms by blast+
  obtain b0 where b0: "num_or (JFin 0) (txt_reply (str_at u ?s1)) = JFin b0"
    "lua_num_or 0 (txt_reply (str_at u ?s1)) = Some b0" using get_numeral [OF nu, of 0] .
  obtain b1 where b1: "num_or (JFin (- 1)) (txt_reply (str_at u ?s1)) = JFin b1"
    "lua_num_or (- 1) (txt_reply (str_at u ?s1)) = Some b1" using get_numeral [OF nu, of "- 1"] .
  obtain d1 s3 where dec1: "run_command clk (DecrBy u amount) ?s1 = (RNum (JFin d1), s3)"
    using run_decr_numeral [OF nu] .
  show ?thesis
  proof (cases "t = []")
    case True
    then show ?thesis
      by (simp add: same_run_def reserve_script_def RESERVE_LUA_def truncated_def Let_def run_exists run_get b0 b1 dec1
          lua_num_or_def [of "- 1" RNil] del: run_command.simps split: prod.splits)
  next
    case False
    let ?s2 = "live clk t ?s1"
    have nt2: "num_key t ?s2" and nu2: "num_key u ?s2" using nt [OF False] nu by blast+
    obtain tk where tk: "num_or (JFin (- 1)) (txt_reply (str_at t ?s2)) = JFin tk"
      "lua_num_or (- 1) (txt_reply (str_at t ?s2)) = Some tk" using get_numeral [OF nt2, of "- 1"] .
    obtain d2 s4 where dec2: "run_command clk (DecrBy u amount) ?s2 = (RNum (JFin d2), s4)"
      using run_decr_numeral [OF nu2] .
    from False show ?thesis
      by (simp add: same_run_def reserve_script_def RESERVE_LUA_def truncated_def Let_def run_exists run_get b0 b1 tk dec2
          del: run_command.simps split: prod.splits)
  qed
qed


abbreviation hfield :: "string \<Rightarrow> string \<Rightarrow> rstore \<Rightarrow> rtext option" where
  "hfield k f st \<equiv> (case hash_at k False st of None \<Rightarrow> None | Some m \<Rightarrow> map_of m f)"

lemma run_hget: "run_command clk (HGet k f) st = (txt_reply (hfield k f (live clk k st)), live clk k st)"
  by simp

lemma same_settle:
  assumes "num_key u st" "num_field r ''amount'' st" "num_field r ''unlimited'' st"
  shows "same_run (settle_script clk u t r j final rid uid tid jttl) (SETTLE_LUA clk u t r j final rid uid tid jttl) st"
proof -
  let ?s0 = "live clk r st"
  have nu: "num_key u ?s0" "num_key u (live clk u ?s0)" and na: "num_field r ''amount'' ?s0"
    and nl: "num_field r ''unlimited'' ?s0" using assms by blast+
  obtain a where a: "num_or (JFin 0) (txt_reply (hfield r ''amount'' ?s0)) = JFin a"
    "lua_num_or 0 (txt_reply (hfield r ''amount'' ?s0)) = Some a" using field_numeral [OF na, of 0] .
  obtain l where l: "num_or (JFin 0) (txt_reply (hfield r ''unlimited'' ?s0)) = JFin l"
    "lua_num_or 0 (txt_reply (hfield r ''unlimited'' ?s0)) = Some l" using field_numeral [OF nl, of 0] .
  obtain b where b: "num_or (JFin 0) (txt_reply (str_at u (live clk u ?s0))) = JFin b"
    "lua_num_or 0 (txt_reply (str_at u (live clk u ?s0))) = Some b" using get_numeral [OF nu(2), of 0] .
  obtain d s3 where dec: "run_command clk (DecrBy u (final - a)) ?s0 = (RNum (JFin d), s3)"
    using run_decr_numeral [OF nu(1)] .
  show ?thesis
    by (cases "t = []"; cases "l = 0"; cases "final = a")
      (simp_all add: same_run_def settle_script_def SETTLE_LUA_def truncated_def Let_def run_hget run_get run_exists a l b dec
        del: run_command.simps split: prod.splits)
qed

lemma same_release:
  assumes "num_field r ''amount'' st" "num_field r ''unlimited'' st"
  shows "same_run (release_script clk u t r j rid uid tid jttl) (RELEASE_LUA clk u t r j rid uid tid jttl) st"
proof -
  let ?s0 = "live clk r st"
  have na: "num_field r ''amount'' ?s0" and nl: "num_field r ''unlimited'' ?s0" using assms by blast+
  obtain a where a: "num_or (JFin 0) (txt_reply (hfield r ''amount'' ?s0)) = JFin a"
    "lua_num_or 0 (txt_reply (hfield r ''amount'' ?s0)) = Some a" using field_numeral [OF na, of 0] .
  obtain l where l: "num_or (JFin 0) (txt_reply (hfield r ''unlimited'' ?s0)) = JFin l"
    "lua_num_or 0 (txt_reply (hfield r ''unlimited'' ?s0)) = Some l" using field_numeral [OF nl, of 0] .
  show ?thesis
    by (cases "t = []"; cases "l = 0"; cases "0 < a")
      (simp_all add: same_run_def release_script_def RELEASE_LUA_def truncated_def Let_def run_hget run_exists a l
        del: run_command.simps split: prod.splits)
qed

subsection \<open>All scripts\<close>

text \<open>What a script reads as a number is a numeral in the store it runs on.\<close>

fun script_ok :: "script \<Rightarrow> rstore \<Rightarrow> bool" where
  "script_ok (TokenBucket k _ _ _ _ _) st = (num_field k ''tokens'' st \<and> num_field k ''ts'' st)"
| "script_ok (FixedWindow k _ _ _) st = num_key k st"
| "script_ok (SlidingSuccess k _ _ _ _) st = scores_ok k st"
| "script_ok (Reserve u t _ _ _ _ _) st = (num_key u st \<and> (t \<noteq> [] \<longrightarrow> num_key t st))"
| "script_ok (Settle u _ r _ _ _ _ _ _) st =
     (num_key u st \<and> num_field r ''amount'' st \<and> num_field r ''unlimited'' st)"
| "script_ok (Release _ _ r _ _ _ _ _) st = (num_field r ''amount'' st \<and> num_field r ''unlimited'' st)"
| "script_ok (NextKey k _) st = counter_ok k st"
| "script_ok (HealthScript k _ _ _ _) st = num_field k ''fails'' st"
| "script_ok _ st = True"

text \<open>C27: on a store whose counters are numerals every Lua script and its JavaScript twin leave the
  same store, and the server's reply is the twin's, truncated to integers; no script faults.\<close>
theorem lua_twin_equivalence:
  assumes "script_ok s st"
  shows "run_state (run_lua clk s) st =
    (case run_state (execute_script clk s) st of (xs, st') \<Rightarrow> (Some (map (\<lambda>x. lua_int (js_rat x)) xs), st')) \<and>
    list_all js_finite (fst (run_state (execute_script clk s) st))"
proof -
  have "same_run (execute_script clk s) (run_lua clk s) st"
    using assms
    by (cases s; simp only: execute_script.simps run_lua.simps script_ok.simps)
      (simp_all only: same_ack same_concurrency same_release_lock same_token_bucket
        same_fixed_window same_sliding same_reserve same_settle same_release same_next_key same_health,
        auto intro: same_reserve)
  then show ?thesis by (simp add: same_run_def truncated_def)
qed


theorem lua_twin_equivalence_witness:
  "fst (run_state (run_lua 5000 (TokenBucket ''b'' 60 1 5000 1 120))
     [(''b'', \<lparr>en_value = VHash [(''tokens'', Frac (5 / 2)), (''ts'', Frac (7999 / 2))], en_expires = None\<rparr>)])
   = Some [1, 2, 0]"
proof -
  let ?st = "[(''b'', \<lparr>en_value = VHash [(''tokens'', Frac (5 / 2)), (''ts'', Frac (7999 / 2))], en_expires = None\<rparr>)]"
  let ?s = "TokenBucket ''b'' 60 1 5000 1 120"
  have ok: "script_ok ?s ?st" by code_simp
  have "fst (run_state (execute_script 5000 ?s) ?st) = [JFin 1, JFin 2, JFin 0]" by code_simp
  with lua_twin_equivalence [OF ok, of 5000] show ?thesis
    by (simp add: lua_int_def split: prod.splits)
qed

end
