(* ===== verification/LimiterLaws.thy ===== *)
theory LimiterLaws
  imports RateLimit ScriptTwins SampleData
begin

text \<open>
  Laws of the limiters. The token bucket is a genuine ceiling: in any stretch of a history it
  grants at most its capacity plus the refill of that stretch, whatever faults occur. The leases
  and the sliding window are two admission gates, interpretations of one locale: what is admitted
  never exceeds the limit.
\<close>

subsection \<open>The token bucket as a pure state machine\<close>

type_synonym bucket = "(rat \<times> rat \<times> rat) option"

definition holds_bucket :: "string \<Rightarrow> bucket \<Rightarrow> rstore \<Rightarrow> bool" where
  "holds_bucket key b st \<longleftrightarrow> (case b of
      None \<Rightarrow> map_of st key = None
    | Some (tokens, ts, ex) \<Rightarrow> (\<exists>m. map_of st key = Some \<lparr>en_value = VHash m, en_expires = Some ex\<rparr> \<and>
        map_of m ''tokens'' = Some (num_text (JFin tokens)) \<and> map_of m ''ts'' = Some (num_text (JFin ts))))"

definition level_at :: "rat \<Rightarrow> rat \<Rightarrow> rat \<Rightarrow> bucket \<Rightarrow> rat" where
  "level_at cap rf now b = (case b of
      None \<Rightarrow> cap
    | Some (tokens, ts, ex) \<Rightarrow> if ex \<le> now then cap else lua_level cap rf now tokens ts)"

definition bucket_step :: "rat \<Rightarrow> rat \<Rightarrow> rat \<Rightarrow> rat \<Rightarrow> rat \<Rightarrow> bucket \<Rightarrow> bool \<times> bucket" where
  "bucket_step cap rf ttl now cost b =
     (let l = level_at cap rf now b in
      (cost \<le> l, Some (if cost \<le> l then l - cost else l, now, now + ttl * 1000)))"

lemma run_hset_expire:
  assumes "map_of (live clk key st) key = None \<or> (\<exists>m ex. map_of (live clk key st) key = Some \<lparr>en_value = VHash m, en_expires = ex\<rparr>)"
    "0 < ttl"
  obtains r st1 r2 st2 m' where
    "run_command clk (HSet key [(f, v), (g, w)]) st = (r, st1)"
    "run_command clk (Expire key ttl) st1 = (r2, st2)"
    "map_of st2 key = Some \<lparr>en_value = VHash m', en_expires = Some (clk + ttl * 1000)\<rparr>"
    "f \<noteq> g \<Longrightarrow> map_of m' f = Some v" "map_of m' g = Some w"
proof -
  let ?s = "live clk key st"
  define m where "m = or_empty (hash_at key True ?s)"
  define m' where "m' = put g w (put f v m)"
  have h: "hash_at key True ?s = Some m"
    using assms(1) by (auto simp: m_def hash_at_def or_empty_def)
  let ?s1 = "set_value key (VHash m') ?s"
  have r1: "run_command clk (HSet key [(f, v), (g, w)]) st =
      (num_reply (fst (fold (\<lambda>(f, v) (n, m). (if map_of m f = None then n + 1 else n, put f v m)) [(f, v), (g, w)] (0, m))), ?s1)"
    by (simp add: h Let_def m'_def)
  have "\<not> entry_dead clk e" if "map_of ?s1 key = Some e" for e
    using that live_alive [of clk key st] by (auto simp: entry_dead_def split: option.splits)
  then have lv: "live clk key ?s1 = ?s1"
    by (intro live_keep) (cases "map_of ?s1 key", auto)
  have e: "\<exists>ex. map_of ?s1 key = Some \<lparr>en_value = VHash m', en_expires = ex\<rparr>"
    using assms(1) by (auto split: option.splits)
  then have r2: "run_command clk (Expire key ttl) ?s1 = (num_reply 1, set_ttl clk key ttl ?s1)"
    using lv by auto
  show thesis
  proof (rule that [OF r1 r2])
    show "map_of (set_ttl clk key ttl ?s1) key = Some \<lparr>en_value = VHash m', en_expires = Some (clk + ttl * 1000)\<rparr>"
      using e by (auto simp: set_ttl_def)
  qed (simp_all add: m'_def)
qed

text \<open>What the script reads.\<close>

lemma read_bucket:
  assumes "holds_bucket key b st"
  obtains x0 x1 where
    "run_command now (HMGet key [''tokens'', ''ts'']) st = (RTxts [x0, x1], live now key st)"
    "bucket_level cap rf now (txt_num (JFin cap) x0) (txt_num (JFin now) x1) = JFin (level_at cap rf now b)"
    "map_of (live now key st) key = None \<or>
      (\<exists>m ex. map_of (live now key st) key = Some \<lparr>en_value = VHash m, en_expires = ex\<rparr>)"
proof (cases "map_of (live now key st) key")
  case None
  have "level_at cap rf now b = cap"
    using assms None
    by (auto simp: holds_bucket_def level_at_def live_def entry_dead_def split: option.splits if_splits)
  moreover have "bucket_level cap rf now (JFin cap) (JFin now) = JFin cap"
    by (simp add: level_eq lua_level_def)
  ultimately show thesis
    using None by (intro that [of None None]) (simp_all add: txt_num_def hash_at_def)
next
  case (Some e)
  with assms obtain tokens ts ex m where b: "b = Some (tokens, ts, ex)"
    and e: "e = \<lparr>en_value = VHash m, en_expires = Some ex\<rparr>"
    and m: "map_of m ''tokens'' = Some (num_text (JFin tokens))" "map_of m ''ts'' = Some (num_text (JFin ts))"
    by (auto simp: holds_bucket_def live_def split: option.splits if_splits)
  from live_alive [OF Some] e have "\<not> ex \<le> now" by (simp add: entry_dead_def)
  then have "level_at cap rf now b = lua_level cap rf now tokens ts" by (simp add: level_at_def b)
  with Some e m show thesis
    by (intro that [of "Some (num_text (JFin tokens))" "Some (num_text (JFin ts))"])
      (simp_all add: hash_at_def txt_num_def level_eq)
qed

lemma run_token_bucket:
  assumes "holds_bucket key b st" "0 < cap" "0 < ttl" "bucket_step cap rf ttl now cost b = (ok, b')"
  obtains x y st' where
    "run_state (execute_script now (TokenBucket key cap rf now cost ttl)) st = ([flag ok, JFin x, JFin y], st')"
    "holds_bucket key b' st'"
proof -
  define L where "L = level_at cap rf now b"
  define T where "T = (if cost \<le> L then L - cost else L)"
  obtain x0 x1 where get: "run_command now (HMGet key [''tokens'', ''ts'']) st = (RTxts [x0, x1], live now key st)"
    and lev: "bucket_level cap rf now (txt_num (JFin cap) x0) (txt_num (JFin now) x1) = JFin L"
    and here: "map_of (live now key (live now key st)) key = None \<or>
      (\<exists>m ex. map_of (live now key (live now key st)) key = Some \<lparr>en_value = VHash m, en_expires = ex\<rparr>)"
    using read_bucket [OF assms(1), of now cap rf] by (auto simp: L_def)
  have ne: "''tokens'' \<noteq> ''ts''" by simp
  obtain r st1 r2 st2 m' where w: "run_command now (HSet key [(''tokens'', num_text (JFin T)), (''ts'', num_text (JFin now))]) (live now key st) = (r, st1)"
    "run_command now (Expire key ttl) st1 = (r2, st2)"
    and m': "map_of st2 key = Some \<lparr>en_value = VHash m', en_expires = Some (now + ttl * 1000)\<rparr>"
      "map_of m' ''tokens'' = Some (num_text (JFin T))" "map_of m' ''ts'' = Some (num_text (JFin now))"
    using ne by (rule_tac run_hset_expire [OF here assms(3), of "''tokens''" "num_text (JFin T)" "''ts''" "num_text (JFin now)"]) blast
  have "bucket_step cap rf ttl now cost b = (cost \<le> L, Some (T, now, now + ttl * 1000))"
    by (simp add: bucket_step_def L_def T_def Let_def)
  with assms(4) have ok: "ok = (cost \<le> L)" and b': "b' = Some (T, now, now + ttl * 1000)" by auto
  show thesis
  proof (rule that)
    show "run_state (execute_script now (TokenBucket key cap rf now cost ttl)) st =
      ([flag ok, JFin (of_int \<lfloor>T\<rfloor>), JFin (if ok then 0 else lua_retry rf cost ttl L)], st2)"
      using assms(2) w
      by (cases "cost \<le> L") (simp_all add: token_bucket_def get lev T_def ok Let_def retry_eq del: run_command.simps)
    show "holds_bucket key b' st2" using m' by (auto simp: holds_bucket_def b')
  qed
qed

subsection \<open>The ceiling\<close>

definition bucket_inv :: "rat \<Rightarrow> rat \<Rightarrow> rat \<Rightarrow> bucket \<Rightarrow> bool" where
  "bucket_inv cap ttl now b \<longleftrightarrow> (case b of
      None \<Rightarrow> True
    | Some (tokens, ts, ex) \<Rightarrow> 0 \<le> tokens \<and> tokens \<le> cap \<and> ts \<le> now \<and> ex = ts + ttl * 1000)"

lemma level_bounds:
  assumes "bucket_inv cap ttl now b" "0 \<le> cap" "0 \<le> rf"
  shows "0 \<le> level_at cap rf now b \<and> level_at cap rf now b \<le> cap"
  using assms by (auto simp: bucket_inv_def level_at_def lua_level_def split: option.splits)

lemma bucket_step_inv:
  assumes "bucket_inv cap ttl now b" "0 \<le> cap" "0 \<le> rf" "0 \<le> cost" "bucket_step cap rf ttl now cost b = (ok, b')"
  shows "bucket_inv cap ttl now b'"
  using level_bounds [OF assms(1-3)] assms(4,5) by (auto simp: bucket_step_def bucket_inv_def Let_def)

text \<open>Between two instants the level grows by at most the refill, an expiry included.\<close>

lemma level_growth:
  assumes "bucket_inv cap ttl t b" "t \<le> u" "0 \<le> rf" "cap \<le> rf * ttl"
  shows "level_at cap rf u b \<le> level_at cap rf t b + (u - t) / 1000 * rf"
proof (cases b)
  case None
  with assms show ?thesis by (simp add: level_at_def)
next
  case (Some s)
  then obtain tokens ts where b: "b = Some (tokens, ts, ts + ttl * 1000)"
    and inv: "0 \<le> tokens" "tokens \<le> cap" "ts \<le> t"
    using assms(1) by (cases s) (auto simp: bucket_inv_def)
  have refill: "0 \<le> (u - t) / 1000 * rf" using assms(2,3) by simp
  have split: "(u - ts) / 1000 * rf = (t - ts) / 1000 * rf + (u - t) / 1000 * rf"
    by (simp add: field_simps)
  show ?thesis
  proof (cases "ts + ttl * 1000 \<le> u")
    case True
    then have "ttl \<le> (u - ts) / 1000" by (simp add: field_simps)
    with assms(3) have "rf * ttl \<le> (u - ts) / 1000 * rf" by (metis mult.commute mult_left_mono)
    with assms(4) inv(1) split have "cap \<le> tokens + (t - ts) / 1000 * rf + (u - t) / 1000 * rf" by linarith
    with True inv(3) refill show ?thesis by (auto simp: b level_at_def lua_level_def min_def)
  next
    case False
    with assms(2) have "\<not> ts + ttl * 1000 \<le> t" by simp
    with False inv(3) assms(2) have
      "level_at cap rf u b = min cap (tokens + (u - ts) / 1000 * rf)"
      "level_at cap rf t b = min cap (tokens + (t - ts) / 1000 * rf)"
      by (simp_all add: b level_at_def lua_level_def)
    then show ?thesis unfolding split using refill by (simp only: min_def add.assoc [symmetric]) auto
  qed
qed

lemma bucket_ttl_enough: "0 < limit \<Longrightarrow> 0 < bucket_ttl limit \<and> (of_int limit :: rat) \<le> of_int limit / 60 * bucket_ttl limit"
proof -
  assume "0 < limit"
  moreover have "60 \<le> bucket_ttl limit" by (simp add: bucket_ttl_def Let_def)
  ultimately show ?thesis by (simp add: field_simps)
qed

fun rpm_grants :: "string \<Rightarrow> int \<Rightarrow> int list \<Rightarrow> coord \<Rightarrow> nat" where
  "rpm_grants key limit [] co = 0"
| "rpm_grants key limit (t # ts) co =
     (case consume_bucket t key limit 1 co of
        (Inr (True, _), co') \<Rightarrow> Suc (rpm_grants key limit ts co')
      | (_, co') \<Rightarrow> rpm_grants key limit ts co')"

definition rpm_after :: "string \<Rightarrow> int \<Rightarrow> int list \<Rightarrow> coord \<Rightarrow> coord" where
  "rpm_after key limit ts co = fold (\<lambda>t co. snd (consume_bucket t key limit 1 co)) ts co"

text \<open>One call: a fault or a refusal to try leaves the bucket, otherwise it is a step.\<close>

lemma consume_cases:
  assumes "0 < limit" "holds_bucket key b (co_store co)"
  obtains (off) e co' where "consume_bucket t key limit 1 co = (Inl e, co')" "holds_bucket key b (co_store co')"
  | (run) ok b' x co' where "consume_bucket t key limit 1 co = (Inr (ok, x), co')"
      "bucket_step (of_int limit) (of_int limit / 60) (bucket_ttl limit) (of_int t) 1 b = (ok, b')"
      "holds_bucket key b' (co_store co')"
proof -
  let ?s = "TokenBucket key (of_int limit) (of_int limit / 60) (of_int t) (of_int 1) (bucket_ttl limit)"
  obtain ok b' where step: "bucket_step (of_int limit) (of_int limit / 60) (bucket_ttl limit) (of_int t) 1 b = (ok, b')"
    using prod.exhaust by blast
  obtain x y st' where r: "run_state (execute_script (of_int t) ?s) (co_store co) = ([flag ok, JFin x, JFin y], st')"
    "holds_bucket key b' st'"
    by (rule run_token_bucket [OF assms(2) _ _ step]) (use assms(1) bucket_ttl_enough in auto)
  consider "is_degraded t co" | err where "\<not> is_degraded t co" "co_faults co \<noteq> []" "hd (co_faults co) = Some err"
    | "\<not> is_degraded t co" "co_faults co = [] \<or> hd (co_faults co) = None" by (cases "hd (co_faults co)") auto
  then show thesis
  proof cases
    case 1
    with assms show thesis by (intro off [of limiter_unavailable co]) (simp_all add: consume_bucket_def limit_script_def)
  next
    case 2
    with assms show thesis
      by (intro off [of limiter_unavailable "mark_degraded t err (co\<lparr>co_faults := tl (co_faults co)\<rparr>)"])
        (simp_all add: consume_bucket_def limit_script_def run_script_def shared_call_def mark_degraded_def)
  next
    case 3
    then have "run_script t ?s co = (Some [flag ok, JFin x, JFin y], mark_healthy (co\<lparr>co_faults := tl (co_faults co), co_store := st'\<rparr>))"
      using r(1) by (auto simp: run_script_def shared_call_def)
    with 3 assms(1) r(2) step show thesis
      by (intro run [of ok "JFin x" "mark_healthy (co\<lparr>co_faults := tl (co_faults co), co_store := st'\<rparr>)" b'])
        (simp_all add: consume_bucket_def limit_script_def limiter_reply_ok_def flag_def)
  qed
qed


abbreviation rpm_inv :: "int \<Rightarrow> int \<Rightarrow> bucket \<Rightarrow> bool" where
  "rpm_inv limit t b \<equiv> bucket_inv (of_int limit) (bucket_ttl limit) (of_int t) b"

lemma rpm_inv_later: "rpm_inv limit t b \<Longrightarrow> t \<le> u \<Longrightarrow> rpm_inv limit u b"
  by (auto simp: bucket_inv_def split: option.splits)

lemma rpm_step:
  assumes "0 < limit" "rpm_inv limit t b"
    "bucket_step (of_int limit) (of_int limit / 60) (bucket_ttl limit) (of_int t) 1 b = (ok, b')"
  shows "rpm_inv limit t b'"
    "level_at (of_int limit) (of_int limit / 60) (of_int t) b' =
      level_at (of_int limit) (of_int limit / 60) (of_int t) b - (if ok then 1 else 0)"
    "0 \<le> level_at (of_int limit) (of_int limit / 60) (of_int t) b'"
proof -
  let ?l = "level_at (of_int limit) (of_int limit / 60) (of_int t)"
  from assms(1,2) have l: "0 \<le> ?l b" "?l b \<le> of_int limit"
    using level_bounds [of "of_int limit" "bucket_ttl limit" "of_int t" b "of_int limit / 60"] by auto
  show inv: "rpm_inv limit t b'"
    using bucket_step_inv [OF assms(2) _ _ _ assms(3)] assms(1) by simp
  from assms(3) have "ok = (1 \<le> ?l b)"
    "b' = Some (if ok then ?l b - 1 else ?l b, of_int t, of_int t + bucket_ttl limit * 1000)"
    by (auto simp: bucket_step_def Let_def)
  with l bucket_ttl_enough [OF assms(1)] show "?l b' = ?l b - (if ok then 1 else 0)"
    by (simp add: level_at_def [of _ _ _ "Some _"] lua_level_def)
  show "0 \<le> ?l b'" using level_bounds [OF inv, of "of_int limit / 60"] assms(1) by simp
qed

lemma rpm_bound:
  assumes "0 < limit" "holds_bucket key b (co_store co)" "rpm_inv limit t b" "sorted (t # ts)"
  shows "of_nat (rpm_grants key limit (t # ts) co) \<le>
    level_at (of_int limit) (of_int limit / 60) (of_int t) b + of_int (last (t # ts) - t) / 1000 * (of_int limit / 60)"
  using assms(2-4)
proof (induction ts arbitrary: t b co)
  case Nil
  note l = level_bounds [OF Nil.prems(2), of "of_int limit / 60"]
  from assms(1) Nil.prems(1) show ?case
  proof (cases rule: consume_cases [where t = t])
    case (run ok b' x co')
    with rpm_step(2,3) [OF assms(1) Nil.prems(2) run(2)] show ?thesis by (cases ok) auto
  qed (use l assms(1) in auto)
next
  case (Cons u us)
  let ?l = "\<lambda>t. level_at (of_int limit) (of_int limit / 60) (of_int t)"
  let ?r = "\<lambda>a b. of_int (b - a) / 1000 * (of_int limit / 60) :: rat"
  have tu: "t \<le> u" "sorted (u # us)" using Cons.prems(3) by auto
  have grow: "?l u c \<le> ?l t c + ?r t u" if "rpm_inv limit t c" for c
    using level_growth [OF that, of "of_int u" "of_int limit / 60"] tu(1) assms(1) bucket_ttl_enough [OF assms(1)] by simp
  have add: "?r t u + ?r u (last (u # us)) = ?r t (last (t # u # us))" by (simp add: field_simps)
  from assms(1) Cons.prems(1) show ?case
  proof (cases rule: consume_cases [where t = t])
    case (off e co')
    then have "of_nat (rpm_grants key limit (u # us) co') \<le> ?l u b + ?r u (last (u # us))"
      using Cons.IH rpm_inv_later [OF Cons.prems(2) tu(1)] tu(2) by blast
    with grow [OF Cons.prems(2)] add off(1) show ?thesis
      by (simp only: rpm_grants.simps(2) [of key limit t "u # us"]) simp
  next
    case (run ok b' x co')
    note st = rpm_step [OF assms(1) Cons.prems(2) run(2)]
    have "of_nat (rpm_grants key limit (u # us) co') \<le> ?l u b' + ?r u (last (u # us))"
      using Cons.IH rpm_inv_later [OF st(1) tu(1)] tu(2) run(3) by blast
    moreover have "rpm_grants key limit (t # u # us) co = (if ok then 1 else 0) + rpm_grants key limit (u # us) co'"
      unfolding rpm_grants.simps(2) [of key limit t "u # us"] run(1) by (cases ok) auto
    ultimately show ?thesis using grow [OF st(1)] st(2) add by (cases ok) auto
  qed
qed

lemma rpm_after_holds:
  assumes "0 < limit" "holds_bucket key b (co_store co)" "rpm_inv limit t0 b" "sorted (t0 # ts)"
  shows "\<exists>b'. holds_bucket key b' (co_store (rpm_after key limit ts co)) \<and> rpm_inv limit (last (t0 # ts)) b'"
  using assms(2-4)
proof (induction ts arbitrary: t0 b co)
  case Nil
  then show ?case by (auto simp: rpm_after_def)
next
  case (Cons t ts)
  have s: "t0 \<le> t" "sorted (t # ts)" using Cons.prems(3) by auto
  note inv = rpm_inv_later [OF Cons.prems(2) s(1)]
  have rest: "rpm_after key limit (t # ts) co = rpm_after key limit ts (snd (consume_bucket t key limit 1 co))"
    by (simp add: rpm_after_def)
  from assms(1) Cons.prems(1) show ?case
  proof (cases rule: consume_cases [where t = t])
    case (off e co')
    with Cons.IH [OF off(2) inv s(2)] rest show ?thesis by simp
  next
    case (run ok b' x co')
    with Cons.IH [OF run(3) rpm_step(1) [OF assms(1) inv run(2)] s(2)] rest show ?thesis by simp
  qed
qed


text \<open>C28: in any stretch of any history, with any faults, the per-minute bucket of a key grants at
  most the limit plus the refill of that stretch: a window boundary doubles nothing.\<close>
theorem rpm_is_a_ceiling:
  assumes "0 < limit" "map_of (co_store co) key = None" "sorted (xs @ y # ys)"
  shows "of_nat (rpm_grants key limit (y # ys) (rpm_after key limit xs co)) \<le>
    of_int limit + (of_int (last (y # ys) - y) / 60000 * of_int limit :: rat)"
proof -
  have h: "holds_bucket key None (co_store co)" using assms(2) by (simp add: holds_bucket_def)
  obtain b where b: "holds_bucket key b (co_store (rpm_after key limit xs co))" "rpm_inv limit y b"
  proof (cases xs)
    case Nil
    with h that [of None] show thesis by (simp add: rpm_after_def bucket_inv_def)
  next
    case (Cons x xs')
    have "sorted (x # xs)" "last (x # xs) \<le> y"
      using assms(3) Cons by (auto simp: sorted_append)
    with rpm_after_holds [OF assms(1) h, of x xs] that rpm_inv_later show thesis
      by (auto simp: bucket_inv_def)
  qed
  have full: "level_at (of_int limit) (of_int limit / 60) (of_int y) b \<le> of_int limit"
    using level_bounds [OF b(2), of "of_int limit / 60"] assms(1) by simp
  have "sorted (y # ys)" using assms(3) by (simp add: sorted_append)
  note bound = rpm_bound [OF assms(1) b this]
  have "of_int (last (y # ys) - y) / 1000 * (of_int limit / 60) = (of_int (last (y # ys) - y) / 60000 * of_int limit :: rat)"
    by simp
  then show ?thesis using bound full unfolding rpm_grants.simps(2) by linarith
qed

definition sample_coord :: coord where
  "sample_coord = \<lparr>co_store = [], co_degraded_until = 0, co_last_error = [], co_faults = []\<rparr>"

theorem rpm_is_a_ceiling_witness:
  "of_nat (rpm_grants ''rl:rpm:token:t1'' 2 [100, 100, 100, 30100] (rpm_after ''rl:rpm:token:t1'' 2 [50] sample_coord))
    \<le> (3 :: rat)"
  using rpm_is_a_ceiling [of 2 sample_coord "''rl:rpm:token:t1''" "[50]" 100 "[100, 100, 30100]"]
  by (simp add: sample_coord_def)

subsection \<open>Admission gates\<close>

datatype ('t, 'm) gate_event = Admit 't 'm | Leave 't 'm

fun event_time :: "('t, 'm) gate_event \<Rightarrow> 't" where
  "event_time (Admit t m) = t" | "event_time (Leave t m) = t"

fun gate_run :: "('t \<Rightarrow> 'm \<Rightarrow> 's \<Rightarrow> bool \<times> 's) \<Rightarrow> ('t \<Rightarrow> 'm \<Rightarrow> 's \<Rightarrow> 's) \<Rightarrow> ('t, 'm) gate_event list \<Rightarrow> 's \<Rightarrow> 's" where
  "gate_run admit leave [] s = s"
| "gate_run admit leave (Admit t m # es) s = gate_run admit leave es (snd (admit t m s))"
| "gate_run admit leave (Leave t m # es) s = gate_run admit leave es (leave t m s)"

locale admission_gate =
  fixes admit :: "rat \<Rightarrow> 'm \<Rightarrow> 's \<Rightarrow> bool \<times> 's"
    and leave :: "rat \<Rightarrow> 'm \<Rightarrow> 's \<Rightarrow> 's"
    and load :: "rat \<Rightarrow> 's \<Rightarrow> nat"
    and inv :: "rat \<Rightarrow> 's \<Rightarrow> bool"
    and limit :: nat
  assumes admitted: "inv t s \<Longrightarrow> admit t m s = (True, s') \<Longrightarrow> load t s' \<le> limit"
    and refused: "inv t s \<Longrightarrow> admit t m s = (False, s') \<Longrightarrow> load t s' = load t s"
    and left: "inv t s \<Longrightarrow> load t (leave t m s) \<le> load t s"
    and ageing: "inv t s \<Longrightarrow> t \<le> u \<Longrightarrow> load u s \<le> load t s"
    and inv_later: "inv t s \<Longrightarrow> t \<le> u \<Longrightarrow> inv u s"
    and admit_inv: "inv t s \<Longrightarrow> admit t m s = (b, s') \<Longrightarrow> inv t s'"
    and leave_inv: "inv t s \<Longrightarrow> inv t (leave t m s)"
begin

lemma step_bounded:
  assumes "inv t s" "load t s \<le> limit" "t \<le> event_time e"
  shows "inv (event_time e) (gate_run admit leave [e] s)"
    "load (event_time e) (gate_run admit leave [e] s) \<le> limit"
proof -
  have now: "load (event_time e) s \<le> limit" "inv (event_time e) s"
    using ageing [OF assms(1,3)] inv_later [OF assms(1,3)] assms(2) by simp_all
  have "inv (event_time e) (gate_run admit leave [e] s) \<and> load (event_time e) (gate_run admit leave [e] s) \<le> limit"
  proof (cases e)
    case (Admit u m)
    obtain b s' where a: "admit u m s = (b, s')" by fastforce
    with Admit now(2) have "inv u s'" using admit_inv by simp
    moreover have "load u s' \<le> limit"
    proof (cases b)
      case True
      with a Admit admitted [of u s m s'] now show ?thesis by simp
    next
      case False
      with a Admit refused [of u s m s'] now show ?thesis by simp
    qed
    ultimately show ?thesis using a Admit by simp
  next
    case (Leave u m)
    with now left [of u s m] leave_inv [of u s m] show ?thesis by simp
  qed
  then show "inv (event_time e) (gate_run admit leave [e] s)"
    "load (event_time e) (gate_run admit leave [e] s) \<le> limit" by auto
qed

lemma never_over:
  assumes "inv t s" "load t s \<le> limit" "sorted (t # map event_time es)" "last (t # map event_time es) \<le> u"
  shows "load u (gate_run admit leave es s) \<le> limit"
  using assms
proof (induction es arbitrary: s t)
  case Nil
  then show ?case using ageing [of t s u] by simp
next
  case (Cons e es)
  have run: "gate_run admit leave (e # es) s = gate_run admit leave es (gate_run admit leave [e] s)"
    by (cases e) simp_all
  from Cons.prems have "t \<le> event_time e" "sorted (event_time e # map event_time es)"
      "last (event_time e # map event_time es) \<le> u" by auto
  with Cons.IH [OF step_bounded [OF Cons.prems(1,2)]] show ?case unfolding run by blast
qed

end

subsection \<open>Leases and successes\<close>

text \<open>The members of a key's sorted set that count at time \<open>t\<close>: \<open>w\<close> after their score they are over.\<close>

definition members_at :: "string \<Rightarrow> rstore \<Rightarrow> (rat \<times> string) list" where
  "members_at key st = (case map_of st key of
      Some e \<Rightarrow> (case en_value e of VZset zs \<Rightarrow> zs | _ \<Rightarrow> []) | None \<Rightarrow> [])"

definition in_force :: "rat \<Rightarrow> string \<Rightarrow> rat \<Rightarrow> rstore \<Rightarrow> nat" where
  "in_force w key t st = length (filter (\<lambda>e. t - w < fst e) (members_at key st))"

text \<open>The key outlives its members, and its expiry is at most \<open>px\<close> away.\<close>

definition gate_inv :: "rat \<Rightarrow> rat \<Rightarrow> string \<Rightarrow> rat \<Rightarrow> rstore \<Rightarrow> bool" where
  "gate_inv w px key t st \<longleftrightarrow> (case map_of st key of
      None \<Rightarrow> True
    | Some e \<Rightarrow> (\<exists>zs ex. e = \<lparr>en_value = VZset zs, en_expires = Some ex\<rparr> \<and> ex \<le> t + px \<and>
        (\<forall>x \<in> set zs. fst x + w \<le> ex)))"

definition gate_program :: "rat \<Rightarrow> string \<Rightarrow> rat \<Rightarrow> rat \<Rightarrow> rat \<Rightarrow> string \<Rightarrow> rat \<Rightarrow> (rstore, jsnum list) state" where
  "gate_program clk key limit upper sc m px =
     do {
       redis clk (ZRemRangeByScore key None (Some upper));
       c \<leftarrow> redis clk (ZCard key);
       let count = reply_num c
       in if js_le (JFin limit) count then return [JFin 0, count]
          else do {
            redis clk (ZAdd key [(sc, m)]);
            redis clk (PExpire key px);
            return [JFin 1, js_add count (JFin 1)] } }"

lemma zput_length: "length (zput sc m zs) \<le> Suc (length zs)"
  by (induction zs) auto

lemma zput_set: "x \<in> set (zput sc m zs) \<Longrightarrow> x = (sc, m) \<or> x \<in> set zs"
  by (induction zs) (auto split: if_splits)

lemma gate_inv_cases:
  assumes "gate_inv w px key t st"
  obtains "map_of (live t key st) key = None" "in_force w key t st = 0"
  | zs ex where "map_of st key = Some \<lparr>en_value = VZset zs, en_expires = Some ex\<rparr>" "live t key st = st"
      "t < ex" "ex \<le> t + px" "\<And>x. x \<in> set zs \<Longrightarrow> fst x + w \<le> ex"
proof (cases "map_of st key")
  case None
  then show thesis by (intro that(1)) (simp_all add: live_def in_force_def members_at_def)
next
  case (Some e)
  with assms obtain zs ex where e: "e = \<lparr>en_value = VZset zs, en_expires = Some ex\<rparr>" "ex \<le> t + px"
    "\<forall>x \<in> set zs. fst x + w \<le> ex" by (auto simp: gate_inv_def)
  show thesis
  proof (cases "ex \<le> t")
    case True
    have "\<not> t - w < fst x" if "x \<in> set zs" for x using e(3) that True by fastforce
    then have "filter (\<lambda>e. t - w < fst e) zs = []" by (simp add: filter_empty_conv)
    with Some e True show thesis
      by (intro that(1)) (simp_all add: live_def entry_dead_def in_force_def members_at_def)
  next
    case False
    with Some e show thesis by (intro that(2) [of zs ex]) (simp_all add: live_def entry_dead_def)
  qed
qed

text \<open>The prune leaves exactly the members in force.\<close>

lemma prune_gate:
  assumes "gate_inv w px key t st"
  obtains r st1 where "run_command t (ZRemRangeByScore key None (Some (t - w))) st = (r, st1)" "gate_inv w px key t st1"
    "live t key st1 = st1" "length (or_empty (zset_at key False st1)) = in_force w key t st"
    "in_force w key t st1 = in_force w key t st"
  using assms
proof (cases rule: gate_inv_cases)
  case 1
  then show thesis
    by (intro that [of "num_reply 0" "live t key st"])
      (simp_all add: zset_at_def or_empty_def gate_inv_def in_force_def members_at_def)
next
  case (2 zs ex)
  define kept where "kept = filter (\<lambda>e. t - w < fst e) zs"
  let ?s1 = "set_value key (VZset kept) st"
  have at: "map_of ?s1 key = Some \<lparr>en_value = VZset kept, en_expires = Some ex\<rparr>" using 2 by simp
  show thesis
  proof (rule that [of "num_reply (int (length zs - length kept))" ?s1])
    show "run_command t (ZRemRangeByScore key None (Some (t - w))) st = (num_reply (int (length zs - length kept)), ?s1)"
      using 2 by (simp add: zset_at_def zkeep_def kept_def Let_def)
    show "gate_inv w px key t ?s1" using at 2 by (auto simp: gate_inv_def kept_def)
    show "live t key ?s1 = ?s1" using at 2 by (intro live_keep) (auto simp: entry_dead_def)
    show "length (or_empty (zset_at key False ?s1)) = in_force w key t st" "in_force w key t ?s1 = in_force w key t st"
      using at 2 by (simp_all add: zset_at_def or_empty_def in_force_def members_at_def kept_def)
  qed
qed


lemma run_gate:
  assumes "gate_inv w px key t st" "sc + w \<le> t + px" "0 < px"
  obtains r st' where "run_state (gate_program t key (of_nat n) (t - w) sc m px) st = (r, st')" "gate_inv w px key t st'"
    "hd r = JFin 1 \<longleftrightarrow> in_force w key t st < n"
    "hd r = JFin 1 \<Longrightarrow> in_force w key t st' \<le> Suc (in_force w key t st)"
    "hd r \<noteq> JFin 1 \<Longrightarrow> in_force w key t st' = in_force w key t st"
proof -
  obtain r1 st1 where pr: "run_command t (ZRemRangeByScore key None (Some (t - w))) st = (r1, st1)" "gate_inv w px key t st1"
    "live t key st1 = st1" "length (or_empty (zset_at key False st1)) = in_force w key t st"
    "in_force w key t st1 = in_force w key t st"
    using prune_gate [OF assms(1)] .
  have card: "run_command t (ZCard key) st1 = (num_reply (int (in_force w key t st)), st1)" by (simp add: pr)
  show thesis
  proof (cases "in_force w key t st < n")
    case False
    then have "run_state (gate_program t key (of_nat n) (t - w) sc m px) st =
        ([JFin 0, JFin (of_nat (in_force w key t st))], st1)"
      by (simp add: gate_program_def pr(1) card del: run_command.simps)
    then show thesis by (rule that) (use pr False in simp_all)
  next
    case True
    obtain zs where zs: "zset_at key True st1 = Some zs" "length zs = in_force w key t st"
      "\<And>x. x \<in> set zs \<Longrightarrow> fst x + w \<le> t + px"
      using pr(2,4) by (fastforce simp: gate_inv_def zset_at_def or_empty_def split: option.splits)
    define new where "new = zadd [(sc, m)] zs"
    define s2 where "s2 = set_value key (VZset new) st1"
    define s3 where "s3 = set_expiry key (t + px) s2"
    have add: "run_command t (ZAdd key [(sc, m)]) st1 = (num_reply (int (zadd_count [(sc, m)] zs)), s2)"
      by (simp add: pr(3) zs(1) new_def s2_def)
    have lv2: "live t key s2 = s2"
    proof -
      have "map_of st1 key = None \<or> (\<exists>e. map_of st1 key = Some e \<and> \<not> entry_dead t e)"
        using live_alive [of t key st1] pr(3) by (cases "map_of st1 key") auto
      then show ?thesis by (intro live_keep) (auto simp: s2_def entry_dead_def)
    qed
    have at: "map_of s3 key = Some \<lparr>en_value = VZset new, en_expires = Some (t + px)\<rparr>"
      using pr(2) by (auto simp: s3_def s2_def gate_inv_def split: option.splits)
    have pex: "run_command t (PExpire key px) s2 = (num_reply 1, s3)" using lv2 by (simp add: s3_def s2_def)
    have "fst x + w \<le> t + px" if "x \<in> set new" for x
    proof -
      have "x = (sc, m) \<or> x \<in> set zs" using that by (auto simp: new_def zadd_def dest: zput_set)
      then show ?thesis using zs(3) [of x] assms(2) by auto
    qed
    with at have inv: "gate_inv w px key t s3" by (auto simp: gate_inv_def)
    have "in_force w key t s3 \<le> length new" using at by (simp add: in_force_def members_at_def)
    also have "length new \<le> Suc (in_force w key t st)"
      using zput_length [of sc m zs] zs(2) by (simp add: new_def zadd_def)
    finally have load: "in_force w key t s3 \<le> Suc (in_force w key t st)" .
    have "run_state (gate_program t key (of_nat n) (t - w) sc m px) st =
        ([JFin 1, JFin (of_nat (in_force w key t st) + 1)], s3)"
      using True by (simp add: gate_program_def pr(1) card add pex del: run_command.simps)
    then show thesis by (rule that) (use inv load True in simp_all)
  qed
qed

definition gate_admit :: "rat \<Rightarrow> rat \<Rightarrow> string \<Rightarrow> (rat \<Rightarrow> string \<Rightarrow> script) \<Rightarrow> rat \<Rightarrow> string \<Rightarrow> rstore \<Rightarrow> bool \<times> rstore" where
  "gate_admit w px key s t m st =
     (case run_state (execute_script t (s t m)) st of (r, st') \<Rightarrow> (hd r = JFin 1, st'))"

definition gate_leave :: "string \<Rightarrow> rat \<Rightarrow> string \<Rightarrow> rstore \<Rightarrow> rstore" where
  "gate_leave key t m st = snd (run_command t (ZRem key [m]) st)"

lemma gate_leave_effect:
  assumes "gate_inv w px key t st"
  shows "gate_inv w px key t (gate_leave key t m st) \<and> in_force w key t (gate_leave key t m st) \<le> in_force w key t st"
  using assms
proof (cases rule: gate_inv_cases)
  case 1
  then show ?thesis
    by (simp add: gate_leave_def zset_at_def gate_inv_def in_force_def members_at_def)
next
  case (2 zs ex)
  let ?k = "filter (\<lambda>e. snd e \<notin> {m}) zs"
  have "gate_leave key t m st = set_value key (VZset ?k) st"
    using 2 by (simp add: gate_leave_def zset_at_def Let_def)
  moreover have "length (filter (\<lambda>e. t - w < fst e) ?k) \<le> length (filter (\<lambda>e. t - w < fst e) zs)"
    by (induction zs) auto
  ultimately show ?thesis
    using 2 by (auto simp: gate_inv_def in_force_def members_at_def)
qed


lemma gate_locale:
  assumes run: "\<And>t m st. run_state (execute_script t (s t m)) st =
      run_state (gate_program t key (of_nat n) (t - w) (score t) m px) st"
    and "\<And>t. score t + w \<le> t + px" "0 < px"
  shows "admission_gate (gate_admit w px key s) (gate_leave key) (in_force w key) (gate_inv w px key) n"
proof
  fix t st m st'
  assume inv: "gate_inv w px key t st"
  obtain r st1 where g: "run_state (execute_script t (s t m)) st = (r, st1)" "gate_inv w px key t st1"
    "hd r = JFin 1 \<longleftrightarrow> in_force w key t st < n"
    "hd r = JFin 1 \<Longrightarrow> in_force w key t st1 \<le> Suc (in_force w key t st)"
    "hd r \<noteq> JFin 1 \<Longrightarrow> in_force w key t st1 = in_force w key t st"
    unfolding run using run_gate [OF inv assms(2,3), where n = n and m = m] by metis
  show "gate_admit w px key s t m st = (True, st') \<Longrightarrow> in_force w key t st' \<le> n"
    using g by (auto simp: gate_admit_def)
  show "gate_admit w px key s t m st = (False, st') \<Longrightarrow> in_force w key t st' = in_force w key t st"
    using g by (auto simp: gate_admit_def)
  show "gate_admit w px key s t m st = (b, st') \<Longrightarrow> gate_inv w px key t st'" for b
    using g by (auto simp: gate_admit_def)
  show "in_force w key t (gate_leave key t m st) \<le> in_force w key t st" "gate_inv w px key t (gate_leave key t m st)"
    using gate_leave_effect [OF inv] by blast+
next
  fix t u :: rat and st
  assume inv: "gate_inv w px key t st" and le: "t \<le> u"
  show "in_force w key u st \<le> in_force w key t st"
  proof -
    have "length (filter (\<lambda>e. u - w < fst e) zs) \<le> length (filter (\<lambda>e. t - w < fst e) zs)" for zs :: "(rat \<times> string) list"
      using le by (induction zs) auto
    then show ?thesis by (simp add: in_force_def)
  qed
  show "gate_inv w px key u st" using inv le by (auto simp: gate_inv_def split: option.splits)
qed

text \<open>The concurrency leases: a member's score is the end of its lease.\<close>

lemma lease_ttl_pos: "900000 \<le> lease_ttl_ms env"
  by (simp add: lease_ttl_ms_def)

definition lease_admit :: "env \<Rightarrow> string \<Rightarrow> nat \<Rightarrow> rat \<Rightarrow> string \<Rightarrow> rstore \<Rightarrow> bool \<times> rstore" where
  "lease_admit env key n = gate_admit 0 (of_int (lease_ttl_ms env) + 1000) key
     (\<lambda>t m. Concurrency key (of_nat n) t (of_int (lease_ttl_ms env)) m)"

interpretation leases: admission_gate "lease_admit env key n" "gate_leave key" "in_force 0 key"
    "gate_inv 0 (of_int (lease_ttl_ms env) + 1000) key" n
  for env key n
  unfolding lease_admit_def using lease_ttl_pos [of env]
  by (intro gate_locale [where score = "\<lambda>t. t + of_int (lease_ttl_ms env)"])
    (simp_all add: concurrency_gate_def gate_program_def)

text \<open>The window of successes: a member's score is the time of the success.\<close>

definition success_admit :: "nat \<Rightarrow> string \<Rightarrow> nat \<Rightarrow> rat \<Rightarrow> string \<Rightarrow> rstore \<Rightarrow> bool \<times> rstore" where
  "success_admit window key n = gate_admit (of_nat window) (of_nat window) key
     (\<lambda>t m. SlidingSuccess key (of_nat n) (of_nat window) t m)"

interpretation successes: admission_gate "success_admit (Suc window) key (Suc n)" "gate_leave key"
    "in_force (of_nat (Suc window)) key" "gate_inv (of_nat (Suc window)) (of_nat (Suc window)) key" "Suc n"
  for window key n
  unfolding success_admit_def
  by (rule gate_locale [where score = "\<lambda>t. t"])
    (simp_all add: sliding_success_def gate_program_def del: of_nat_Suc)



text \<open>In every window of the configured length the admitted successes never exceed the limit.\<close>
theorem successes_never_exceed_limit:
  assumes "map_of st key = None" "sorted (t # map event_time es)" "last (t # map event_time es) \<le> u"
    "0 < window" "0 < n"
  shows "in_force (of_nat window) key u (gate_run (success_admit window key n) (gate_leave key) es st) \<le> n"
proof -
  obtain w k where "window = Suc w" "n = Suc k" using assms(4,5) by (metis gr0_implies_Suc)
  with assms(1) show ?thesis
    using successes.never_over [OF _ _ assms(2,3), where window = w and n = k]
    by (simp add: gate_inv_def in_force_def members_at_def)
qed

theorem successes_never_exceed_limit_witness:
  "in_force (of_nat 1000) ''s'' 900 (gate_run (success_admit 1000 ''s'' 2) (gate_leave ''s'')
     [Admit 100 ''r1'', Admit 200 ''r2'', Admit 300 ''r3''] []) \<le> 2"
  by (rule successes_never_exceed_limit [where t = 0]) simp_all


lemma limit_script_refuses:
  "is_degraded now co \<or> (\<exists>err fs. co_faults co = Some err # fs) \<Longrightarrow>
    fst (limit_script now s co) = Inl limiter_unavailable"
  by (auto simp: limit_script_def run_script_def shared_call_def)

text \<open>When the shared store is marked degraded, or the limiter's call to it fails, every limiter
  that is configured refuses with the 503 error: nothing is admitted unmetered.\<close>
theorem limiters_fail_closed:
  assumes "is_degraded now co \<or> (\<exists>err fs. co_faults co = Some err # fs)"
    "0 < idn_rpm_limit idn" "0 < idn_tpm_limit idn" "0 < cfg_default_success_per_window env" "0 < limit"
  shows "fst (enforce_request_limits env now idn ip co) = Inl limiter_unavailable \<and>
    fst (enforce_token_budget env now idn estimate co) = Inl limiter_unavailable \<and>
    fst (enforce_success_window env now idn rid co) = Inl limiter_unavailable \<and>
    fst (acquire_concurrency env now scope i limit m co) = Inl limiter_unavailable \<and>
    fst (enforce_attempt_limit now key limit win msg co) = Inl limiter_unavailable \<and>
    ge_status limiter_unavailable = 503"
proof -
  note r = limit_script_refuses [OF assms(1)]
  have refuse: "\<exists>co'. limit_script now s co = (Inl limiter_unavailable, co')" for s
    using r [of s] by (cases "limit_script now s co") simp
  have "\<exists>co'. bucket_check now k l whom co = (Inl limiter_unavailable, co')" if "0 < l" for k l whom
  proof -
    obtain co' where "limit_script now (TokenBucket k (of_int l) (of_int l / 60) (of_int now) 1 (bucket_ttl l)) co
      = (Inl limiter_unavailable, co')" using refuse by blast
    with that show ?thesis by (simp add: bucket_check_def consume_bucket_def)
  qed
  from this [OF assms(2)] obtain co' where
    "bucket_check now (render (KRpm ''token'' (idn_token_id idn))) (idn_rpm_limit idn) ''this api key'' co
      = (Inl limiter_unavailable, co')" by blast
  then have "fst (enforce_request_limits env now idn ip co) = Inl limiter_unavailable"
    by (simp add: enforce_request_limits_def Let_def)
  moreover have "fst (enforce_token_budget env now idn estimate co) = Inl limiter_unavailable"
  proof -
    obtain co' where "limit_script now (FixedWindow (render (KTpm ''user'' (idn_user_id idn))) (of_int (idn_tpm_limit idn))
        (of_int (cfg_default_window_sec env)) (of_int (max 1 \<lceil>estimate\<rceil>))) co = (Inl limiter_unavailable, co')"
      using refuse by blast
    with assms(3) show ?thesis by (simp add: enforce_token_budget_def Let_def)
  qed
  moreover have "fst (enforce_success_window env now idn rid co) = Inl limiter_unavailable"
  proof -
    obtain co' where "limit_script now (SlidingSuccess (render (KSuccessWindow (idn_user_id idn)))
        (of_int (cfg_default_success_per_window env)) (of_int (cfg_default_window_sec env) * 1000) (of_int now) rid) co = (Inl limiter_unavailable, co')"
      using refuse by blast
    with assms(4) show ?thesis by (simp add: enforce_success_window_def Let_def)
  qed
  moreover have "fst (acquire_concurrency env now scope i limit m co) = Inl limiter_unavailable"
  proof -
    obtain co' where "limit_script now (Concurrency (render (KConcurrency (scope_name scope) i)) (of_int limit) (of_int now)
        (of_int (lease_ttl_ms env)) m) co = (Inl limiter_unavailable, co')"
      using refuse by blast
    with assms(5) show ?thesis by (simp add: acquire_concurrency_def Let_def)
  qed
  moreover have "fst (enforce_attempt_limit now key limit win msg co) = Inl limiter_unavailable"
  proof -
    obtain co' where "limit_script now (FixedWindow key (of_int limit) (of_int win) 1) co = (Inl limiter_unavailable, co')"
      using refuse by blast
    then show ?thesis by (simp add: enforce_attempt_limit_def Let_def)
  qed
  moreover have "ge_status limiter_unavailable = 503" by (simp add: limiter_unavailable_def err_init_def gateway_error_def)
  ultimately show ?thesis by blast
qed

theorem limiters_fail_closed_witness:
  "fst (enforce_request_limits (\<lambda>_. None) 5 sample_identity ''h'' (sample_coord\<lparr>co_faults := [Some ''down'']\<rparr>))
    = Inl limiter_unavailable"
proof -
  have "0 < cfg_default_success_per_window (\<lambda>_. None)" by code_simp
  from limiters_fail_closed [OF _ _ _ this, of 5 "sample_coord\<lparr>co_faults := [Some ''down'']\<rparr>" sample_identity 1]
  show ?thesis by (simp add: sample_coord_def sample_identity_def)
qed

end
