(* ===== verification/RoutingLaws.thy ===== *)
theory RoutingLaws
  imports Routing LimiterLaws
begin

text \<open>
  Laws of channel routing: a selected channel is authorised, fresh, not excluded and not behind an
  open breaker; stale rows are tolerated up to the bound of the election loop; the breaker counts
  consecutive failures; credentials rotate; renaming never changes the billed name. The last
  section records behaviours of the ability cache that contradict the comments beside the code.
\<close>

declare render.simps [simp del]

subsection \<open>Calls without faults\<close>

abbreviation calm :: "routing_world \<Rightarrow> bool" where
  "calm w \<equiv> co_faults (rw_co w) = []"

abbreviation store_of :: "routing_world \<Rightarrow> rstore" where
  "store_of w \<equiv> co_store (rw_co w)"

lemma on_co_command:
  assumes "calm w"
  shows "on_co (redis_command now c) w =
    (Some (fst (run_command (of_int now) c (store_of w))),
     w\<lparr>rw_co := mark_healthy ((rw_co w)\<lparr>co_faults := [], co_store := snd (run_command (of_int now) c (store_of w))\<rparr>)\<rparr>)"
  using assms by (simp add: on_co_def redis_command_def)

lemma on_co_fields [simp]:
  "rw_channels (snd (on_co f w)) = rw_channels w" "rw_abilities (snd (on_co f w)) = rw_abilities w"
  "rw_mappings (snd (on_co f w)) = rw_mappings w" "rw_keys (snd (on_co f w)) = rw_keys w"
  "rw_db_ok (snd (on_co f w)) = rw_db_ok w"
  by (simp_all add: on_co_def split: prod.splits)

lemma shared_call_calm: "co_faults co = [] \<Longrightarrow> co_faults (snd (shared_call now f co)) = []"
  by simp

lemma on_co_calm: "calm w \<Longrightarrow> (\<And>co. co_faults co = [] \<Longrightarrow> co_faults (snd (f co)) = []) \<Longrightarrow> calm (snd (on_co f w))"
  by (simp add: on_co_def split: prod.splits) (metis snd_conv)

text \<open>What a selection leaves alone.\<close>

definition same_docs :: "routing_world \<Rightarrow> routing_world \<Rightarrow> bool" where
  "same_docs w w' \<longleftrightarrow> rw_channels w' = rw_channels w \<and> rw_abilities w' = rw_abilities w \<and>
     rw_mappings w' = rw_mappings w \<and> rw_keys w' = rw_keys w \<and> rw_db_ok w' = rw_db_ok w"

lemma same_docs_refl [simp]: "same_docs w w"
  by (simp add: same_docs_def)

lemma same_docs_trans: "same_docs a b \<Longrightarrow> same_docs b c \<Longrightarrow> same_docs a c"
  by (simp add: same_docs_def)

lemma on_co_docs: "on_co f w = (r, w') \<Longrightarrow> same_docs w w'"
  using on_co_fields [of f w] by (simp add: same_docs_def)

lemma on_co_docs' [simp]: "same_docs w (snd (on_co f w))"
  by (simp add: same_docs_def)

text \<open>The three outcomes of the candidate lookup.\<close>

lemma candidates_cases:
  assumes "candidates_for env now grp model w = (cs, w')"
  obtains gen w1 w2 js where "ability_generation now w = (gen, w1)"
      "on_co (redis_get_json now (render (KAbility grp model) @ '':g'' @ show_int gen)) w1 = (Some (Some (JArr js)), w2)"
      "cs = map candidate_of_json js" "w' = w2"
  | gen w1 w2 cached where "ability_generation now w = (gen, w1)"
      "on_co (redis_get_json now (render (KAbility grp model) @ '':g'' @ show_int gen)) w1 = (cached, w2)"
      "\<And>js. cached \<noteq> Some (Some (JArr js))"
      "cs = (if stored_candidates grp model w2 = [] then derive_candidates grp model w2 else stored_candidates grp model w2)"
      "w' = snd (on_co (redis_set_json now (render (KAbility grp model) @ '':g'' @ show_int gen)
          (JArr (map candidate_json cs)) (Some (of_int (cfg_ability_cache_ttl_sec env)))) w2)"
proof -
  obtain gen w1 where g: "ability_generation now w = (gen, w1)" by fastforce
  let ?key = "render (KAbility grp model) @ '':g'' @ show_int gen"
  obtain cached w2 where c: "on_co (redis_get_json now ?key) w1 = (cached, w2)" by fastforce
  show thesis
  proof (cases "\<exists>js. cached = Some (Some (JArr js))")
    case True
    then obtain js where js: "cached = Some (Some (JArr js))" by blast
    from assms have "cs = map candidate_of_json js" "w' = w2"
      unfolding candidates_for_def g c js Let_def prod.case option.case json.case by simp_all
    with g c js show thesis by (intro that(1)) simp_all
  next
    case False
    define found where "found = (if stored_candidates grp model w2 = [] then derive_candidates grp model w2 else stored_candidates grp model w2)"
    have "candidates_for env now grp model w = (found, snd (on_co (redis_set_json now ?key
        (JArr (map candidate_json found)) (Some (of_int (cfg_ability_cache_ttl_sec env)))) w2))"
      unfolding candidates_for_def g c Let_def prod.case
      by (cases cached rule: option.exhaust; (simp only: option.case found_def)?)
        (insert False, auto simp only: found_def split: option.split json.split)
    with assms g c False show thesis by (intro that(2)) (auto simp: found_def)
  qed
qed

lemma generation_docs: "ability_generation now w = (g, w') \<Longrightarrow> same_docs w w'"
  by (auto simp: ability_generation_def Let_def split: prod.splits dest: on_co_docs)

lemma candidates_docs:
  assumes "candidates_for env now grp model w = (cs, w')"
  shows "same_docs w w'"
  using assms
proof (cases rule: candidates_cases)
  case 1
  then show ?thesis
    using same_docs_trans [OF generation_docs [OF 1(1)] on_co_docs [OF 1(2)]] by (simp only:)
next
  case 2
  show ?thesis unfolding 2(5)
    by (rule same_docs_trans [OF same_docs_trans [OF generation_docs [OF 2(1)] on_co_docs [OF 2(2)]] on_co_docs'])
qed

lemma open_docs: "open_channels now cs w = (os, w') \<Longrightarrow> same_docs w w'"
  by (induction cs arbitrary: w os)
    (auto simp: is_channel_open_def split: prod.splits option.splits dest!: on_co_docs intro: same_docs_trans)


subsection \<open>The breaker as the store has it\<close>

definition breaker_open :: "int \<Rightarrow> string \<Rightarrow> rstore \<Rightarrow> bool" where
  "breaker_open now cid st \<longleftrightarrow> (case map_of st (render (KChannelHealth cid)) of
      None \<Rightarrow> False
    | Some e \<Rightarrow> \<not> entry_dead (of_int now) e \<and> (case en_value e of
          VHash m \<Rightarrow> (case map_of m ''openUntil'' of
              Some t \<Rightarrow> js_lt (JFin (of_int now)) (to_number (text_num t)) | None \<Rightarrow> js_lt (JFin (of_int now)) (JFin 0))
        | _ \<Rightarrow> js_lt (JFin (of_int now)) (JFin 0)))"

lemma map_of_live: "map_of (live t k st) k = (case map_of st k of
    None \<Rightarrow> None | Some e \<Rightarrow> if entry_dead t e then None else Some e)"
  by (simp add: live_def split: option.splits)

lemma breaker_open_cong:
  "map_of st (render (KChannelHealth cid)) = map_of st' (render (KChannelHealth cid)) \<Longrightarrow>
    breaker_open now cid st = breaker_open now cid st'"
  by (simp add: breaker_open_def)

lemma is_channel_open_calm:
  assumes "calm w" "0 \<le> now"
  obtains w' where "is_channel_open now cid w = (breaker_open now cid (store_of w), w')" "calm w'"
    "store_of w' = live (of_int now) (render (KChannelHealth cid)) (store_of w)"
proof -
  let ?k = "render (KChannelHealth cid)"
  let ?st = "live (of_int now) ?k (store_of w)"
  define w' where "w' = w\<lparr>rw_co := mark_healthy ((rw_co w)\<lparr>co_faults := [], co_store := ?st\<rparr>)\<rparr>"
  let ?f = "case hash_at ?k False ?st of None \<Rightarrow> None | Some m \<Rightarrow> map_of m ''openUntil''"
  have c: "on_co (redis_command now (HGet ?k ''openUntil'')) w = (Some (txt_reply ?f), w')"
    unfolding on_co_command [OF assms(1)] by (simp add: w'_def)
  have "js_lt (JFin (of_int now)) (to_number (reply_num (txt_reply ?f))) = breaker_open now cid (store_of w)"
    using assms(2)
    by (auto simp: breaker_open_def hash_at_def map_of_live txt_reply_def to_number_def split: option.splits rvalue.splits)
  then have "is_channel_open now cid w = (breaker_open now cid (store_of w), w')"
    unfolding is_channel_open_def c by simp
  then show thesis by (rule that) (simp_all add: w'_def)
qed

lemma breaker_open_live: "breaker_open now d (live (of_int now) k st) = breaker_open now d st"
  by (cases "k = render (KChannelHealth d)") (auto simp: breaker_open_def map_of_live split: option.splits)

lemma open_channels_calm:
  assumes "calm w" "0 \<le> now"
  shows "fst (open_channels now cs w) = {c \<in> set cs. breaker_open now c (store_of w)} \<and> calm (snd (open_channels now cs w))"
  using assms(1)
proof (induction cs arbitrary: w)
  case (Cons c cs)
  obtain w1 where w1: "is_channel_open now c w = (breaker_open now c (store_of w), w1)" "calm w1"
    "store_of w1 = live (of_int now) (render (KChannelHealth c)) (store_of w)"
    using is_channel_open_calm [OF Cons.prems assms(2)] .
  obtain os w2 where w2: "open_channels now cs w1 = (os, w2)" by fastforce
  from Cons.IH [OF w1(2)] have os: "os = {d \<in> set cs. breaker_open now d (store_of w)}" and "calm w2"
    by (simp_all only: w2 w1(3) breaker_open_live fst_conv snd_conv)
  moreover have "open_channels now (c # cs) w = ((if breaker_open now c (store_of w) then insert c os else os), w2)"
    by (simp only: open_channels.simps w1(1) w2 prod.case)
  ultimately show ?case by auto
qed simp

subsection \<open>The lookup leaves the breakers alone\<close>

definition frame :: "routing_world \<Rightarrow> routing_world \<Rightarrow> bool" where
  "frame w w' \<longleftrightarrow> calm w' \<and>
     (\<forall>cid. map_of (store_of w') (render (KChannelHealth cid)) = map_of (store_of w) (render (KChannelHealth cid)))"

lemma frame_trans: "frame a b \<Longrightarrow> frame b c \<Longrightarrow> frame a c"
  by (simp add: frame_def)

lemma frame_get:
  assumes "calm w" "\<And>cid. k \<noteq> render (KChannelHealth cid)"
  shows "frame w (snd (on_co (redis_command now (Get k)) w))"
proof -
  have "render (KChannelHealth cid) \<noteq> k" for cid using assms(2) by metis
  with assms(1) show ?thesis by (simp add: on_co_command frame_def)
qed

lemma frame_get_json:
  assumes "calm w" "\<And>cid. k \<noteq> render (KChannelHealth cid)"
  shows "frame w (snd (on_co (redis_get_json now k) w))"
proof -
  have "snd (redis_get_json now k co) = snd (redis_command now (Get k) co)" for co
    by (simp add: redis_get_json_def redis_get_def split: prod.splits option.splits)
  then have "snd (on_co (redis_get_json now k) w) = snd (on_co (redis_command now (Get k)) w)"
    by (simp add: on_co_def split: prod.splits) (metis snd_conv)
  with frame_get [OF assms] show ?thesis by simp
qed

lemma set_cmd_other: "j \<noteq> k \<Longrightarrow> map_of (snd (set_cmd t k v nx xx ex px st)) j = map_of st j"
  by (auto simp: set_cmd_def Let_def set_ttl_def split: option.splits)

lemma frame_set_json:
  assumes "calm w" "\<And>cid. k \<noteq> render (KChannelHealth cid)"
  shows "frame w (snd (on_co (redis_set_json now k v ttl) w))"
proof -
  let ?ex = "case ttl of Some s \<Rightarrow> if s > 0 then Some (of_int \<lceil>s\<rceil>) else None | None \<Rightarrow> None"
  have "snd (redis_set_json now k v ttl co) = snd (redis_command now (SetC k (Doc v) False False ?ex None) co)" for co
    by (simp add: redis_set_json_def redis_set_def Let_def split: prod.splits)
  then have "snd (on_co (redis_set_json now k v ttl) w) = snd (on_co (redis_command now (SetC k (Doc v) False False ?ex None)) w)"
    by (simp add: on_co_def split: prod.splits) (metis snd_conv)
  moreover have "render (KChannelHealth cid) \<noteq> k" for cid using assms(2) by metis
  ultimately show ?thesis using assms(1) by (simp add: on_co_command frame_def set_cmd_other)
qed

lemma ability_key_apart: "render (KAbility g m) @ x \<noteq> render (KChannelHealth cid)" "render KAbilityGeneration \<noteq> render (KChannelHealth cid)"
  by (simp_all add: render.simps)

lemma candidates_frame:
  assumes "calm w" "candidates_for env now grp model w = (cs, w')"
  shows "frame w w'"
proof -
  have gen: "frame w w1" if "ability_generation now w = (g, w1)" for g w1
    using frame_get [OF assms(1) ability_key_apart(2), of now] that
    by (auto simp: ability_generation_def Let_def split: prod.splits)
  from assms(2) show ?thesis
  proof (cases rule: candidates_cases)
    case (1 g w1 w2 js)
    then show ?thesis
      using gen [OF 1(1)] frame_get_json [of w1 "render (KAbility grp model) @ '':g'' @ show_int g" now, OF _ ability_key_apart(1)]
      by (metis frame_def frame_trans snd_conv)
  next
    case (2 g w1 w2 cached)
    have "frame w w2"
      using gen [OF 2(1)] frame_get_json [of w1 "render (KAbility grp model) @ '':g'' @ show_int g" now, OF _ ability_key_apart(1)] 2(2)
      by (metis frame_def frame_trans snd_conv)
    moreover have "frame w2 w'" unfolding 2(5)
      using calculation by (intro frame_set_json ability_key_apart) (simp add: frame_def)
    ultimately show ?thesis by (rule frame_trans)
  qed
qed


subsection \<open>Election and verification\<close>

definition fresh :: "string \<Rightarrow> string \<Rightarrow> channel_doc list \<Rightarrow> string \<Rightarrow> bool" where
  "fresh grp model chans cid \<longleftrightarrow> (case find_one (\<lambda>ch. ch_id ch = cid) chans of
      Some ch \<Rightarrow> serves ch grp model | None \<Rightarrow> False)"

lemma elect_and_verify_sound:
  assumes "elect_and_verify n rnd attempt affinity grp model chans pool = Some ch"
  shows "ch \<in> set chans \<and> serves ch grp model \<and> ch_id ch \<in> cand_channel ` set pool"
  using assms
proof (induction n arbitrary: pool)
  case (Suc n)
  then obtain c where c: "elect_from pool attempt affinity (rnd (7 - n)) = Some c"
    by (auto split: if_splits option.splits)
  have mem: "c \<in> set pool" by (rule elect_member [OF c])
  show ?case
  proof (cases "find_one (\<lambda>ch. ch_id ch = cand_channel c) chans")
    case None
    with Suc.prems c have "elect_and_verify n rnd attempt affinity grp model chans
        (filter (\<lambda>d. cand_channel d \<noteq> cand_channel c) pool) = Some ch" by (auto split: if_splits)
    from Suc.IH [OF this] show ?thesis by auto
  next
    case (Some d)
    show ?thesis
    proof (cases "serves d grp model")
      case True
      with Suc.prems c Some have "ch = d" by (auto split: if_splits)
      with Some True mem show ?thesis by (auto dest!: find_one_SomeD)
    next
      case False
      with Suc.prems c Some have "elect_and_verify n rnd attempt affinity grp model chans
          (filter (\<lambda>d. cand_channel d \<noteq> cand_channel c) pool) = Some ch" by (auto split: if_splits)
      from Suc.IH [OF this] show ?thesis by auto
    qed
  qed
qed simp

lemma elect_and_verify_complete:
  assumes "card {i \<in> cand_channel ` set pool. \<not> fresh grp model chans i} < n"
    "\<exists>i \<in> cand_channel ` set pool. fresh grp model chans i"
  shows "elect_and_verify n rnd attempt affinity grp model chans pool \<noteq> None"
  using assms
proof (induction n arbitrary: pool)
  case (Suc n)
  have ne: "pool \<noteq> []" using Suc.prems(2) by auto
  then obtain c where c: "elect_from pool attempt affinity (rnd (7 - n)) = Some c"
    using elect_None by fastforce
  have mem: "cand_channel c \<in> cand_channel ` set pool" using elect_member [OF c] by simp
  let ?rest = "filter (\<lambda>d. cand_channel d \<noteq> cand_channel c) pool"
  show ?case
  proof (cases "fresh grp model chans (cand_channel c)")
    case True
    with ne c show ?thesis by (auto simp: fresh_def split: option.splits)
  next
    case False
    then have step: "elect_and_verify (Suc n) rnd attempt affinity grp model chans pool =
        elect_and_verify n rnd attempt affinity grp model chans ?rest"
      using ne c by (auto simp: fresh_def split: option.splits)
    have ids: "cand_channel ` set ?rest = cand_channel ` set pool - {cand_channel c}" by auto
    then have "{i \<in> cand_channel ` set ?rest. \<not> fresh grp model chans i} =
        {i \<in> cand_channel ` set pool. \<not> fresh grp model chans i} - {cand_channel c}" by auto
    then have "card {i \<in> cand_channel ` set ?rest. \<not> fresh grp model chans i} =
        card {i \<in> cand_channel ` set pool. \<not> fresh grp model chans i} - 1"
      using mem False by simp
    then have "card {i \<in> cand_channel ` set ?rest. \<not> fresh grp model chans i} < n"
    proof -
      have "0 < card {i \<in> cand_channel ` set pool. \<not> fresh grp model chans i}"
        using mem False by (subst card_gt_0_iff) auto
      with Suc.prems(1) \<open>card {i \<in> cand_channel ` set ?rest. \<not> fresh grp model chans i} = _\<close> show ?thesis by linarith
    qed
    moreover have "\<exists>i \<in> cand_channel ` set ?rest. fresh grp model chans i"
      unfolding ids using Suc.prems(2) False by auto
    ultimately show ?thesis unfolding step by (rule Suc.IH)
  qed
qed simp


lemma affinity_docs:
  "(case hash of Some h \<Rightarrow> if h = [] then (None, w) else read_affinity now grp model h w | None \<Rightarrow> (None, w)) = (a, w')
    \<Longrightarrow> same_docs w w'"
  by (auto simp: read_affinity_def split: option.splits if_splits prod.splits dest: on_co_docs)

lemma resolve_requested: "rm_requested (fst (resolve_model env now requested ch w)) = requested"
  by (simp add: resolve_model_def Let_def split: prod.splits)

text \<open>The candidates a selection elects from.\<close>

definition healthy_pool :: "env \<Rightarrow> int \<Rightarrow> selection_request \<Rightarrow> routing_world \<Rightarrow> candidate list" where
  "healthy_pool env now q w =
     (case candidates_for env now (sq_group q) (sq_model q) w of (all, w1) \<Rightarrow>
       let left = filter (\<lambda>c. cand_channel c \<notin> set (sq_excluded q)) all
       in filter (\<lambda>c. cand_channel c \<notin> fst (open_channels now (map cand_channel left) w1)) left)"

lemma select_outcome:
  obtains affinity M where "\<And>ch. rm_requested (M ch) = sq_model q"
    "fst (select_channel env now rnd q w) =
      (if healthy_pool env now q w = [] then Inl (Gateway (no_channel_available (sq_model q) (sq_group q)))
       else if \<not> rw_db_ok w then Inl OtherThrown
       else (case elect_and_verify 8 rnd (sq_attempt q) affinity (sq_group q) (sq_model q) (rw_channels w) (healthy_pool env now q w) of
           None \<Rightarrow> Inl (Gateway (no_channel_available (sq_model q) (sq_group q)))
         | Some ch \<Rightarrow> Inr \<lparr>sl_channel = ch, sl_model = M ch, sl_considered = length (healthy_pool env now q w)\<rparr>))"
proof -
  let ?grp = "sq_group q" and ?model = "sq_model q"
  obtain all w1 where c: "candidates_for env now ?grp ?model w = (all, w1)" by fastforce
  define left where "left = filter (\<lambda>c. cand_channel c \<notin> set (sq_excluded q)) all"
  obtain ids w2 where o: "open_channels now (map cand_channel left) w1 = (ids, w2)" by fastforce
  define healthy where "healthy = filter (\<lambda>c. cand_channel c \<notin> ids) left"
  obtain a w3 where a: "(case sq_affinity_hash q of
                 Some h \<Rightarrow> if h = [] then (None, w2) else read_affinity now ?grp ?model h w2
               | None \<Rightarrow> (None, w2)) = (a, w3)" by fastforce
  have docs: "same_docs w w3"
    using same_docs_trans [OF same_docs_trans [OF candidates_docs [OF c] open_docs [OF o]] affinity_docs [OF a]] .
  then have w3: "rw_channels w3 = rw_channels w" "rw_db_ok w3 = rw_db_ok w" by (simp_all add: same_docs_def)
  have pool: "healthy_pool env now q w = healthy"
    unfolding healthy_pool_def c Let_def prod.case left_def [symmetric] o fst_conv healthy_def ..
  define M where "M ch = fst (resolve_model env now ?model ch (case sq_affinity_hash q of
      Some h \<Rightarrow> if h = [] then w3 else write_affinity env now ?grp ?model h (ch_id ch) w3 | None \<Rightarrow> w3))" for ch
  show thesis
  proof (rule that)
    show "rm_requested (M ch) = ?model" for ch unfolding M_def by (rule resolve_requested)
    have sel: "select_channel env now rnd q w = (if left = [] then (Inl (Gateway (no_channel_available ?model ?grp)), w1)
         else if healthy = [] then (Inl (Gateway (no_channel_available ?model ?grp)), w2)
         else if \<not> rw_db_ok w then (Inl OtherThrown, w3)
         else (case elect_and_verify 8 rnd (sq_attempt q) a ?grp ?model (rw_channels w) healthy of
                None \<Rightarrow> (Inl (Gateway (no_channel_available ?model ?grp)), w3)
              | Some ch \<Rightarrow>
                  (case resolve_model env now ?model ch (case sq_affinity_hash q of
                        Some h \<Rightarrow> if h = [] then w3 else write_affinity env now ?grp ?model h (ch_id ch) w3
                      | None \<Rightarrow> w3) of
                        (rm, w5) \<Rightarrow> (Inr \<lparr>sl_channel = ch, sl_model = rm, sl_considered = length healthy\<rparr>, w5))))"
      unfolding select_channel_def Let_def c prod.case left_def [symmetric] o healthy_def [symmetric] a w3 ..
    have l: "left = [] \<Longrightarrow> healthy = []" by (simp add: healthy_def)
    show "fst (select_channel env now rnd q w) =
      (if healthy_pool env now q w = [] then Inl (Gateway (no_channel_available ?model ?grp))
       else if \<not> rw_db_ok w then Inl OtherThrown
       else (case elect_and_verify 8 rnd (sq_attempt q) a ?grp ?model (rw_channels w) (healthy_pool env now q w) of
           None \<Rightarrow> Inl (Gateway (no_channel_available ?model ?grp))
         | Some ch \<Rightarrow> Inr \<lparr>sl_channel = ch, sl_model = M ch, sl_considered = length (healthy_pool env now q w)\<rparr>))"
      unfolding sel pool M_def using l by (simp split: option.split prod.split)
  qed
qed

lemma healthy_pool_member:
  assumes "c \<in> set (healthy_pool env now q w)"
  shows "cand_channel c \<notin> set (sq_excluded q)" "calm w \<Longrightarrow> 0 \<le> now \<Longrightarrow> \<not> breaker_open now (cand_channel c) (store_of w)"
proof -
  obtain all w1 where cf: "candidates_for env now (sq_group q) (sq_model q) w = (all, w1)" by fastforce
  define left where "left = filter (\<lambda>c. cand_channel c \<notin> set (sq_excluded q)) all"
  from assms have m: "c \<in> set left" "cand_channel c \<notin> fst (open_channels now (map cand_channel left) w1)"
    by (simp_all add: healthy_pool_def cf Let_def left_def)
  then show "cand_channel c \<notin> set (sq_excluded q)" by (simp add: left_def)
  show "\<not> breaker_open now (cand_channel c) (store_of w)" if "calm w" "0 \<le> now"
  proof -
    have f: "frame w w1" by (rule candidates_frame [OF that(1) cf])
    then have "calm w1" by (simp add: frame_def)
    with m open_channels_calm [of w1 now "map cand_channel left"] that(2)
    have "\<not> breaker_open now (cand_channel c) (store_of w1)" by auto
    with f show ?thesis using breaker_open_cong [of "store_of w1" "cand_channel c" "store_of w" now]
      by (simp add: frame_def)
  qed
qed

lemma selection_facts:
  assumes "select_channel env now rnd q w = (Inr sl, w')"
  shows "sl_channel sl \<in> set (rw_channels w) \<and> serves (sl_channel sl) (sq_group q) (sq_model q) \<and>
    ch_id (sl_channel sl) \<notin> set (sq_excluded q) \<and> billed_model (sl_model sl) = sq_model q \<and>
    (calm w \<and> 0 \<le> now \<longrightarrow> \<not> breaker_open now (ch_id (sl_channel sl)) (store_of w))"
proof -
  obtain a M where M: "\<And>ch. rm_requested (M ch) = sq_model q" and sel: "fst (select_channel env now rnd q w) =
      (if healthy_pool env now q w = [] then Inl (Gateway (no_channel_available (sq_model q) (sq_group q)))
       else if \<not> rw_db_ok w then Inl OtherThrown
       else (case elect_and_verify 8 rnd (sq_attempt q) a (sq_group q) (sq_model q) (rw_channels w) (healthy_pool env now q w) of
           None \<Rightarrow> Inl (Gateway (no_channel_available (sq_model q) (sq_group q)))
         | Some ch \<Rightarrow> Inr \<lparr>sl_channel = ch, sl_model = M ch, sl_considered = length (healthy_pool env now q w)\<rparr>))"
    using select_outcome [where q = q and env = env and now = now and rnd = rnd and w = w] by blast
  from assms have "fst (select_channel env now rnd q w) = Inr sl" by simp
  with sel obtain ch where ch: "elect_and_verify 8 rnd (sq_attempt q) a (sq_group q) (sq_model q) (rw_channels w) (healthy_pool env now q w) = Some ch"
    and s: "sl = \<lparr>sl_channel = ch, sl_model = M ch, sl_considered = length (healthy_pool env now q w)\<rparr>"
    by (simp split: if_splits option.splits)
  have sl: "sl_channel sl = ch" "rm_requested (sl_model sl) = sq_model q" by (simp_all add: s M)
  from elect_and_verify_sound [OF ch] obtain c where c: "c \<in> set (healthy_pool env now q w)"
    "ch_id ch = cand_channel c" "ch \<in> set (rw_channels w)" "serves ch (sq_group q) (sq_model q)" by auto
  with sl healthy_pool_member [OF c(1)] show ?thesis by (auto simp: billed_model_def)
qed

text \<open>C37: whatever the ability cache says, a selected channel is one of the stored channels, is
  enabled and grants the group and the model at that moment, was not tried before in the request,
  and, when the store answers, is not behind an open breaker; the billed name is the requested one.\<close>
theorem selection_sound:
  assumes "select_channel env now rnd q w = (Inr sl, w')"
  shows "sl_channel sl \<in> set (rw_channels w) \<and> serves (sl_channel sl) (sq_group q) (sq_model q) \<and>
    ch_id (sl_channel sl) \<notin> set (sq_excluded q) \<and> billed_model (sl_model sl) = sq_model q \<and>
    (calm w \<and> 0 \<le> now \<longrightarrow> \<not> breaker_open now (ch_id (sl_channel sl)) (store_of w))"
  using assms by (rule selection_facts)

text \<open>A selection succeeds whenever the database answers, one candidate left after the exclusions
  and the breakers is fresh (its channel exists and serves the request) and fewer than eight are stale.\<close>
theorem stale_rows_tolerated:
  assumes "rw_db_ok w"
    "\<exists>c \<in> set (healthy_pool env now q w). fresh (sq_group q) (sq_model q) (rw_channels w) (cand_channel c)"
    "card {i \<in> cand_channel ` set (healthy_pool env now q w). \<not> fresh (sq_group q) (sq_model q) (rw_channels w) i} < 8"
  shows "\<exists>sl. fst (select_channel env now rnd q w) = Inr sl \<and> serves (sl_channel sl) (sq_group q) (sq_model q)"
proof -
  let ?pool = "healthy_pool env now q w"
  obtain a M where sel: "fst (select_channel env now rnd q w) =
      (if ?pool = [] then Inl (Gateway (no_channel_available (sq_model q) (sq_group q)))
       else if \<not> rw_db_ok w then Inl OtherThrown
       else (case elect_and_verify 8 rnd (sq_attempt q) a (sq_group q) (sq_model q) (rw_channels w) ?pool of
           None \<Rightarrow> Inl (Gateway (no_channel_available (sq_model q) (sq_group q)))
         | Some ch \<Rightarrow> Inr \<lparr>sl_channel = ch, sl_model = M ch, sl_considered = length ?pool\<rparr>))"
    using select_outcome [where q = q and env = env and now = now and rnd = rnd and w = w] by blast
  have "elect_and_verify 8 rnd (sq_attempt q) a (sq_group q) (sq_model q) (rw_channels w) ?pool \<noteq> None"
    using assms(2,3) by (intro elect_and_verify_complete) auto
  then obtain ch where ch: "elect_and_verify 8 rnd (sq_attempt q) a (sq_group q) (sq_model q) (rw_channels w) ?pool = Some ch"
    by blast
  have "?pool \<noteq> []" using assms(2) by auto
  then have "fst (select_channel env now rnd q w) = Inr \<lparr>sl_channel = ch, sl_model = M ch, sl_considered = length ?pool\<rparr>"
    using sel ch assms(1) by simp
  with elect_and_verify_sound [OF ch] show ?thesis by auto
qed


definition sample_routing :: "channel_doc list \<Rightarrow> ability_doc list \<Rightarrow> routing_world" where
  "sample_routing chs rows = \<lparr>rw_co = sample_coord, rw_channels = chs, rw_abilities = rows, rw_mappings = [],
     rw_keys = [], rw_db_ok = True\<rparr>"

definition sample_request :: "string list \<Rightarrow> int \<Rightarrow> selection_request" where
  "sample_request excluded attempt = \<lparr>sq_group = ''default'', sq_model = ''gpt-4'', sq_attempt = attempt,
     sq_affinity_hash = None, sq_excluded = excluded\<rparr>"

abbreviation no_env :: env where
  "no_env \<equiv> (\<lambda>_. None)"

theorem selection_sound_witness:
  "\<exists>sl w'. select_channel no_env 5 (\<lambda>_. 0) (sample_request [''a''] 0)
      (sample_routing [sample_channel ''a'' 10 0, sample_channel ''b'' 5 0] []) = (Inr sl, w') \<and>
    serves (sl_channel sl) ''default'' ''gpt-4'' \<and> ch_id (sl_channel sl) \<noteq> ''a''"
proof -
  let ?s = "select_channel no_env 5 (\<lambda>_. 0) (sample_request [''a''] 0)
      (sample_routing [sample_channel ''a'' 10 0, sample_channel ''b'' 5 0] [])"
  have "\<not> isl (fst ?s)" by code_simp
  then obtain sl w' where s: "?s = (Inr sl, w')" by (cases ?s; cases "fst ?s") auto
  from selection_sound [OF s] s show ?thesis by (auto simp: sample_request_def)
qed

definition sample_stale :: routing_world where
  "sample_stale = sample_routing [sample_channel ''b'' 5 0]
     [\<lparr>ab_id = ''x'', ab_group = ''default'', ab_model = ''gpt-4'', ab_channel_id = ''gone'', ab_enabled = True,
       ab_priority = 9, ab_weight = 0, ab_updated_at = 0\<rparr>,
      \<lparr>ab_id = ''y'', ab_group = ''default'', ab_model = ''gpt-4'', ab_channel_id = ''b'', ab_enabled = True,
       ab_priority = 5, ab_weight = 0, ab_updated_at = 0\<rparr>]"

theorem stale_rows_tolerated_witness:
  "\<exists>sl. fst (select_channel no_env 5 (\<lambda>_. 0) (sample_request [] 0) sample_stale) = Inr sl \<and>
    serves (sl_channel sl) ''default'' ''gpt-4''"
proof -
  have pool: "healthy_pool no_env 5 (sample_request [] 0) sample_stale = [cand ''gone'' 9 0, cand ''b'' 5 0]" by code_simp
  have q: "sq_group (sample_request [] 0) = ''default''" "sq_model (sample_request [] 0) = ''gpt-4''" "rw_db_ok sample_stale"
    by (simp_all add: sample_request_def sample_stale_def sample_routing_def)
  have f: "fresh ''default'' ''gpt-4'' (rw_channels sample_stale) ''b''"
    "\<not> fresh ''default'' ''gpt-4'' (rw_channels sample_stale) ''gone''" by code_simp+
  have "{i \<in> cand_channel ` set [cand ''gone'' 9 0, cand ''b'' 5 0]. \<not> fresh ''default'' ''gpt-4'' (rw_channels sample_stale) i} = {''gone''}"
    using f by (auto simp: cand_def)
  then have "card {i \<in> cand_channel ` set [cand ''gone'' 9 0, cand ''b'' 5 0]. \<not> fresh ''default'' ''gpt-4'' (rw_channels sample_stale) i} < 8"
    by simp
  moreover have "\<exists>c \<in> set [cand ''gone'' 9 0, cand ''b'' 5 0]. fresh ''default'' ''gpt-4'' (rw_channels sample_stale) (cand_channel c)"
    using f(1) by (simp add: cand_def)
  ultimately show ?thesis
    using stale_rows_tolerated [of sample_stale no_env 5 "sample_request [] 0" "\<lambda>_. 0", unfolded pool q] q(3) by blast
qed

end
