(* ===== verification/HealthLaws.thy ===== *)
theory HealthLaws
  imports RoutingLaws
begin

text \<open>
  Laws of the state routing keeps in the shared store: the breaker counts consecutive failures and
  opens exactly at its threshold, a channel is disabled for good only after that, and credentials
  rotate in order.
\<close>

subsection \<open>The breaker's counter\<close>

text \<open>
  Outcomes are listed latest first, with their times. A record expires ten cooldowns after the
  last outcome, and the count starts again.
\<close>

fun streak :: "int \<Rightarrow> (int \<times> bool) list \<Rightarrow> nat" where
  "streak cool [] = 0"
| "streak cool ((t, ok) # h) =
     (if ok then 0
      else case h of [] \<Rightarrow> 1 | (u, _) # _ \<Rightarrow> if t < u + cool * 10000 then Suc (streak cool h) else 1)"

fun outcomes_after :: "env \<Rightarrow> string \<Rightarrow> (int \<times> bool) list \<Rightarrow> routing_world \<Rightarrow> routing_world" where
  "outcomes_after env cid [] w = w"
| "outcomes_after env cid ((t, ok) # h) w = snd (record_channel_outcome env t cid ok (outcomes_after env cid h w))"

definition holds_streak :: "env \<Rightarrow> string \<Rightarrow> (int \<times> bool) list \<Rightarrow> rstore \<Rightarrow> bool" where
  "holds_streak env key h st \<longleftrightarrow> (case h of
      [] \<Rightarrow> map_of st key = None
    | (t, ok) # _ \<Rightarrow> (\<exists>m. map_of st key = Some \<lparr>en_value = VHash m,
          en_expires = Some (of_int (t + cfg_channel_cooldown_sec env * 10000))\<rparr> \<and>
        map_of m ''fails'' = Some (num_text (js_int (int (streak (cfg_channel_cooldown_sec env) h)))) \<and>
        (if \<not> ok \<and> cfg_channel_failure_threshold env \<le> int (streak (cfg_channel_cooldown_sec env) h)
         then map_of m ''openUntil'' = Some (num_text (js_int (t + cfg_channel_cooldown_sec env * 1000)))
         else map_of m ''openUntil'' \<in> {None, Some (Lit ''0'')})))"

lemma js_add_int: "js_add (js_int a) (JFin 1) = js_int (a + 1)"
  by simp

lemma hash_at_set [simp]: "hash_at k c (set_value k (VHash m) st) = Some m"
  by (simp add: hash_at_def split: option.split)

lemma live_set_value: "live clk k st = st \<Longrightarrow> live clk k (set_value k v st) = set_value k v st"
  using live_alive [of clk k st]
  by (intro live_keep) (auto simp: entry_dead_def split: option.splits)

lemma set_value_there [simp]: "\<exists>e. map_of (set_value k v st) k = Some e"
  by simp

text \<open>A hash field is counted up, optionally another one is set, and the record is given its expiry.\<close>

lemma run_hincr:
  fixes f :: string
  assumes "hash_at k True (live clk k st) = Some m"
  defines "n \<equiv> js_add (case map_of m f of Some t \<Rightarrow> text_num t | None \<Rightarrow> JFin 0) (JFin 1)"
  obtains st1 where "run_command clk (HIncrBy k f 1) st = (RNum n, st1)"
    "hash_at k True st1 = Some (put f (num_text n) m)" "live clk k st1 = st1" "\<exists>e. map_of st1 k = Some e"
  by (rule that [of "set_value k (VHash (put f (num_text n) m)) (live clk k st)"])
    (simp_all add: assms(1) Let_def live_set_value n_def del: map_of_set_value)

lemma run_hset1:
  assumes "hash_at k True st = Some m" "live clk k st = st"
  obtains r st1 where "run_command clk (HSet k [(f, v)]) st = (r, st1)" "hash_at k True st1 = Some (put f v m)"
    "live clk k st1 = st1" "\<exists>e. map_of st1 k = Some e"
  by (rule that [of "fst (run_command clk (HSet k [(f, v)]) st)" "set_value k (VHash (put f v m)) st"])
    (simp_all add: assms Let_def live_set_value del: map_of_set_value)

lemma run_expire_hash:
  assumes "hash_at k True st = Some m" "live clk k st = st" "\<exists>e. map_of st k = Some e"
  obtains r st1 where "run_command clk (Expire k s) st = (r, st1)"
    "map_of st1 k = Some \<lparr>en_value = VHash m, en_expires = Some (clk + s * 1000)\<rparr>"
proof -
  from assms(1,3) obtain e where e: "map_of st k = Some e" "en_value e = VHash m"
    by (auto simp: hash_at_def split: option.splits rvalue.splits)
  with assms(2) show thesis
    by (intro that [of "num_reply 1" "set_ttl clk k s st"]) (simp_all add: set_ttl_def set_expiry_def)
qed

subsection \<open>One outcome\<close>

lemma run_health_failure:
  assumes "hash_at key True (live clk key st) = Some m" "ok \<noteq> 1"
  defines "n \<equiv> js_add (case map_of m ''fails'' of Some t \<Rightarrow> text_num t | None \<Rightarrow> JFin 0) (JFin 1)"
  obtains st1 m' where "run_state (execute_script clk (HealthScript key ok thr cool now)) st = ([flag (js_le (JFin thr) n), n], st1)"
    "map_of st1 key = Some \<lparr>en_value = VHash m', en_expires = Some (clk + cool * 10 * 1000)\<rparr>"
    "map_of m' ''fails'' = Some (num_text n)"
    "map_of m' ''openUntil'' = (if js_le (JFin thr) n then Some (num_text (JFin (now + cool * 1000))) else map_of m ''openUntil'')"
proof -
  obtain s1 where s1: "run_command clk (HIncrBy key ''fails'' 1) st = (RNum n, s1)"
    "hash_at key True s1 = Some (put ''fails'' (num_text n) m)" "live clk key s1 = s1" "\<exists>e. map_of s1 key = Some e"
    using run_hincr [OF assms(1), of "''fails''"] unfolding n_def by blast
  show thesis
  proof (cases "js_le (JFin thr) n")
    case True
    let ?v = "num_text (JFin (now + cool * 1000))"
    obtain r2 s2 where s2: "run_command clk (HSet key [(''openUntil'', ?v)]) s1 = (r2, s2)"
      "hash_at key True s2 = Some (put ''openUntil'' ?v (put ''fails'' (num_text n) m))" "live clk key s2 = s2" "\<exists>e. map_of s2 key = Some e"
      using run_hset1 [OF s1(2,3), of "''openUntil''" ?v] by blast
    obtain r3 s3 where s3: "run_command clk (Expire key (cool * 10)) s2 = (r3, s3)"
      "map_of s3 key = Some \<lparr>en_value = VHash (put ''openUntil'' ?v (put ''fails'' (num_text n) m)), en_expires = Some (clk + cool * 10 * 1000)\<rparr>"
      using run_expire_hash [OF s2(2,3,4)] by blast
    show thesis
      by (rule that [OF _ s3(2)])
        (use assms(2) True s1(1) s2(1) s3(1) in \<open>simp_all add: health_script_def Let_def del: run_command.simps\<close>)
  next
    case False
    obtain r3 s3 where s3: "run_command clk (Expire key (cool * 10)) s1 = (r3, s3)"
      "map_of s3 key = Some \<lparr>en_value = VHash (put ''fails'' (num_text n) m), en_expires = Some (clk + cool * 10 * 1000)\<rparr>"
      using run_expire_hash [OF s1(2,3,4)] by blast
    show thesis
      by (rule that [OF _ s3(2)])
        (use assms(2) False s1(1) s3(1) in \<open>simp_all add: health_script_def Let_def del: run_command.simps\<close>)
  qed
qed

lemma run_health_success:
  assumes "hash_at key True (live clk key st) = Some m"
  obtains st1 m' where "run_state (execute_script clk (HealthScript key 1 thr cool now)) st = ([JFin 0, JFin 0], st1)"
    "map_of st1 key = Some \<lparr>en_value = VHash m', en_expires = Some (clk + cool * 10 * 1000)\<rparr>"
    "map_of m' ''fails'' = Some (Lit ''0'')" "map_of m' ''openUntil'' = Some (Lit ''0'')"
proof -
  let ?fs = "[(''fails'', Lit ''0''), (''openUntil'', Lit ''0'')]"
  let ?m = "put ''openUntil'' (Lit ''0'') (put ''fails'' (Lit ''0'') m)"
  let ?s1 = "set_value key (VHash ?m) (live clk key st)"
  obtain r1 where s1: "run_command clk (HSet key ?fs) st = (r1, ?s1)"
    by (simp add: assms Let_def)
  have "hash_at key True ?s1 = Some ?m" "live clk key ?s1 = ?s1"
    by (simp_all add: live_set_value del: map_of_set_value)
  then obtain r2 s2 where s2: "run_command clk (Expire key (cool * 10)) ?s1 = (r2, s2)"
      "map_of s2 key = Some \<lparr>en_value = VHash ?m, en_expires = Some (clk + cool * 10 * 1000)\<rparr>"
    using run_expire_hash [OF _ _ set_value_there] by blast
  show thesis
    by (rule that [OF _ s2(2)]) (use s1 s2(1) in \<open>simp_all add: health_script_def del: run_command.simps\<close>)
qed

text \<open>A recorded outcome, when the shared store answers.\<close>

lemma record_calm:
  assumes "calm w" "flg = (if ok then 1 else 0)"
    "run_state (execute_script (of_int now) (HealthScript (render (KChannelHealth cid)) flg
      (of_int (cfg_channel_failure_threshold env)) (of_int (cfg_channel_cooldown_sec env)) (of_int now))) (store_of w) = (r, st)"
  shows "calm (snd (record_channel_outcome env now cid ok w))"
    "store_of (snd (record_channel_outcome env now cid ok w)) = st"
    "oc_tripped (fst (record_channel_outcome env now cid ok w)) = (to_number (r ! 0) = JFin 1)"
    "oc_fails (fst (record_channel_outcome env now cid ok w)) = to_number (r ! 1)"
  using assms
  by (simp_all add: record_channel_outcome_def on_co_def run_script_def Let_def auto_disable_channel_def
      del: execute_script.simps split: prod.split)

lemma streak_view:
  assumes "holds_streak env k h st"
  obtains m where "hash_at k True (live (of_int t) k st) = Some m"
    "js_add (case map_of m ''fails'' of Some v \<Rightarrow> text_num v | None \<Rightarrow> JFin 0) (JFin 1) =
       js_int (int (streak (cfg_channel_cooldown_sec env) ((t, False) # h)))"
    "map_of m ''openUntil'' \<in> {None, Some (Lit ''0'')} \<or>
       cfg_channel_failure_threshold env \<le> int (streak (cfg_channel_cooldown_sec env) ((t, False) # h))"
proof (cases h)
  case Nil
  with assms have "hash_at k True (live (of_int t) k st) = Some []"
    by (simp add: holds_streak_def live_fresh hash_at_def)
  then show thesis by (rule that) (simp_all add: Nil)
next
  case (Cons a h')
  obtain u ok where a: "a = (u, ok)" by fastforce
  let ?cool = "cfg_channel_cooldown_sec env"
  obtain m where m: "map_of st k = Some \<lparr>en_value = VHash m, en_expires = Some (of_int (u + ?cool * 10000))\<rparr>"
    "map_of m ''fails'' = Some (num_text (js_int (int (streak ?cool h))))"
    "if \<not> ok \<and> cfg_channel_failure_threshold env \<le> int (streak ?cool h)
     then map_of m ''openUntil'' = Some (num_text (js_int (u + ?cool * 1000)))
     else map_of m ''openUntil'' \<in> {None, Some (Lit ''0'')}"
    using assms unfolding holds_streak_def Cons a list.case prod.case by blast
  show thesis
  proof (cases "t < u + ?cool * 10000")
    case True
    have "\<not> entry_dead (of_int t) \<lparr>en_value = VHash m, en_expires = Some (of_int (u + ?cool * 10000))\<rparr>"
      using True unfolding entry_dead_def by (simp only: entry.simps option.case of_int_le_iff not_le)
    then have "hash_at k True (live (of_int t) k st) = Some m"
      using m(1) by (simp add: hash_at_def live_def)
    then show thesis by (rule that) (use m(2,3) True Cons a in \<open>auto split: if_splits\<close>)
  next
    case False
    have "entry_dead (of_int t) \<lparr>en_value = VHash m, en_expires = Some (of_int (u + ?cool * 10000))\<rparr>"
      using False unfolding entry_dead_def by (simp only: entry.simps option.case of_int_le_iff not_less)
    then have "hash_at k True (live (of_int t) k st) = Some []"
      using m(1) by (simp add: hash_at_def live_def)
    then show thesis by (rule that) (use False Cons a in simp_all)
  qed
qed

lemma record_streak:
  assumes "calm w" "holds_streak env (render (KChannelHealth cid)) h (store_of w)"
  shows "calm (snd (record_channel_outcome env t cid ok w)) \<and>
    holds_streak env (render (KChannelHealth cid)) ((t, ok) # h) (store_of (snd (record_channel_outcome env t cid ok w))) \<and>
    oc_fails (fst (record_channel_outcome env t cid ok w)) = js_int (int (streak (cfg_channel_cooldown_sec env) ((t, ok) # h))) \<and>
    (oc_tripped (fst (record_channel_outcome env t cid ok w)) \<longleftrightarrow>
       \<not> ok \<and> cfg_channel_failure_threshold env \<le> int (streak (cfg_channel_cooldown_sec env) ((t, ok) # h)))"
proof -
  let ?k = "render (KChannelHealth cid)"
  let ?cool = "cfg_channel_cooldown_sec env" and ?thr = "cfg_channel_failure_threshold env"
  define n where "n = int (streak ?cool ((t, False) # h))"
  obtain m where m: "hash_at ?k True (live (of_int t) ?k (store_of w)) = Some m"
    "js_add (case map_of m ''fails'' of Some v \<Rightarrow> text_num v | None \<Rightarrow> JFin 0) (JFin 1) = js_int n"
    "map_of m ''openUntil'' \<in> {None, Some (Lit ''0'')} \<or> ?thr \<le> n"
    using streak_view [OF assms(2)] unfolding n_def by blast
  show ?thesis
  proof (cases ok)
    case True
    obtain st1 m' where s: "run_state (execute_script (of_int t) (HealthScript ?k 1 (of_int ?thr) (of_int ?cool) (of_int t))) (store_of w) = ([JFin 0, JFin 0], st1)"
      "map_of st1 ?k = Some \<lparr>en_value = VHash m', en_expires = Some (of_int t + of_int ?cool * 10 * 1000)\<rparr>"
      "map_of m' ''fails'' = Some (Lit ''0'')" "map_of m' ''openUntil'' = Some (Lit ''0'')"
      using run_health_success [OF m(1)] by blast
    have z: "num_text (JFin 0) = Lit ''0''" by code_simp
    show ?thesis
      using record_calm [OF assms(1) _ s(1), of ok] True s(2-4)
      by (simp add: holds_streak_def to_number_def z)
  next
    case False
    obtain st1 m' where s: "run_state (execute_script (of_int t) (HealthScript ?k 0 (of_int ?thr) (of_int ?cool) (of_int t))) (store_of w) =
        ([flag (js_le (JFin (of_int ?thr)) (js_int n)), js_int n], st1)"
      "map_of st1 ?k = Some \<lparr>en_value = VHash m', en_expires = Some (of_int t + of_int ?cool * 10 * 1000)\<rparr>"
      "map_of m' ''fails'' = Some (num_text (js_int n))"
      "map_of m' ''openUntil'' = (if js_le (JFin (of_int ?thr)) (js_int n) then Some (num_text (JFin (of_int t + of_int ?cool * 1000))) else map_of m ''openUntil'')"
      using run_health_failure [OF m(1), of 0] unfolding m(2) by (metis zero_neq_one)
    have ok: "ok = False" using False by simp
    have e: "(of_int t + of_int ?cool * 10 * 1000 :: rat) = of_int (t + ?cool * 10000)"
      "(of_int t + of_int ?cool * 1000 :: rat) = of_int (t + ?cool * 1000)" by simp_all
    have le: "js_le (JFin (of_int ?thr)) (js_int n) \<longleftrightarrow> ?thr \<le> n" by simp
    note r = record_calm [OF assms(1) _ s(1), of False]
    have "holds_streak env ?k ((t, False) # h) st1"
      unfolding holds_streak_def list.case prod.case n_def [symmetric]
      using s(2-4) m(3) unfolding e le by auto
    then show ?thesis using r unfolding ok n_def [symmetric] le
      by (simp add: to_number_def flag_def)
  qed
qed

lemma outcomes_streak:
  assumes "calm w" "map_of (store_of w) (render (KChannelHealth cid)) = None"
  shows "calm (outcomes_after env cid h w) \<and> holds_streak env (render (KChannelHealth cid)) h (store_of (outcomes_after env cid h w))"
  using assms
proof (induction env cid h w rule: outcomes_after.induct)
  case (2 env cid t ok h w)
  then show ?case using record_streak [of "outcomes_after env cid h w" env cid h t ok] by simp
qed (simp add: holds_streak_def)

text \<open>The breaker counts consecutive failures. After any history of outcomes of a channel (latest
  first; a record is forgotten ten cooldowns after the last outcome), the next outcome reports the
  length of the current run of failures and trips exactly when it is a failure that reaches the
  threshold; from then on the channel is out of rotation for exactly the cooldown, and otherwise
  it is in rotation.\<close>
theorem breaker_counts_failures:
  assumes "calm w" "map_of (store_of w) (render (KChannelHealth cid)) = None"
    "0 \<le> now" "0 \<le> cfg_channel_cooldown_sec env"
  shows "let before = outcomes_after env cid h w; n = streak (cfg_channel_cooldown_sec env) ((t, ok) # h);
      (outcome, after) = record_channel_outcome env t cid ok before
    in oc_fails outcome = js_int (int n) \<and>
       oc_tripped outcome = (\<not> ok \<and> cfg_channel_failure_threshold env \<le> int n) \<and>
       fst (is_channel_open now cid after) =
         (\<not> ok \<and> cfg_channel_failure_threshold env \<le> int n \<and> now < t + cfg_channel_cooldown_sec env * 1000)"
proof -
  define before where "before = outcomes_after env cid h w"
  define n where "n = streak (cfg_channel_cooldown_sec env) ((t, ok) # h)"
  let ?w = "snd (record_channel_outcome env t cid ok before)"
  let ?cool = "cfg_channel_cooldown_sec env"
  have "calm before" "holds_streak env (render (KChannelHealth cid)) h (store_of before)"
    using outcomes_streak [OF assms(1,2)] by (simp_all add: before_def)
  from record_streak [OF this, of t ok]
  have c: "calm ?w" and hs: "holds_streak env (render (KChannelHealth cid)) ((t, ok) # h) (store_of ?w)"
    and r: "oc_fails (fst (record_channel_outcome env t cid ok before)) = js_int (int n)"
      "oc_tripped (fst (record_channel_outcome env t cid ok before)) = (\<not> ok \<and> cfg_channel_failure_threshold env \<le> int n)"
    by (simp_all add: n_def)
  obtain m where m: "map_of (store_of ?w) (render (KChannelHealth cid)) = Some \<lparr>en_value = VHash m, en_expires = Some (of_int (t + ?cool * 10000))\<rparr>"
    "if \<not> ok \<and> cfg_channel_failure_threshold env \<le> int n then map_of m ''openUntil'' = Some (num_text (js_int (t + ?cool * 1000)))
     else map_of m ''openUntil'' \<in> {None, Some (Lit ''0'')}"
    using hs unfolding holds_streak_def list.case prod.case n_def by blast
  have dead: "entry_dead (of_int now) \<lparr>en_value = VHash m, en_expires = Some (of_int (t + ?cool * 10000) :: rat)\<rparr> \<longleftrightarrow> t + ?cool * 10000 \<le> now"
    unfolding entry_dead_def by (simp only: entry.simps option.case of_int_le_iff)
  have "breaker_open now cid (store_of ?w) =
      (\<not> ok \<and> cfg_channel_failure_threshold env \<le> int n \<and> now < t + ?cool * 1000)"
  proof (cases "\<not> ok \<and> cfg_channel_failure_threshold env \<le> int n")
    case True
    then have "map_of m ''openUntil'' = Some (num_text (js_int (t + ?cool * 1000)))" using m(2) by simp
    moreover have "js_lt (js_int now) (to_number (text_num (num_text (js_int (t + ?cool * 1000))))) \<longleftrightarrow> now < t + ?cool * 1000"
      by (simp only: text_num_num_text) (simp add: to_number_def del: of_int_add of_int_mult)
    ultimately show ?thesis using True assms(4)
      unfolding breaker_open_def m(1) option.case dead by auto
  next
    case False
    then have "map_of m ''openUntil'' \<in> {None, Some (Lit ''0'')}" using m(2) by auto
    then have "\<not> breaker_open now cid (store_of ?w)" unfolding breaker_open_def m(1) option.case dead
      using assms(3) by (auto simp: to_number_def simp del: text_num.simps)
    with False show ?thesis by blast
  qed
  moreover have "fst (is_channel_open now cid ?w) = breaker_open now cid (store_of ?w)"
    using is_channel_open_calm [OF c assms(3)] by (metis fst_conv)
  ultimately show ?thesis using r unfolding before_def [symmetric] n_def [symmetric] Let_def by (simp add: case_prod_beta)
qed

theorem breaker_counts_failures_witness:
  "oc_tripped (fst (record_channel_outcome no_env 5000 ''c1'' False
     (outcomes_after no_env ''c1'' [(4000, False), (3000, False), (2000, False), (1000, False)] (sample_routing [] []))))"
proof -
  have "0 \<le> cfg_channel_cooldown_sec no_env" by code_simp
  moreover have "cfg_channel_failure_threshold no_env \<le>
      int (streak (cfg_channel_cooldown_sec no_env) [(5000, False), (4000, False), (3000, False), (2000, False), (1000, False)])" by code_simp
  ultimately show ?thesis
    using breaker_counts_failures [of "sample_routing [] []" "''c1''" 0 no_env "[(4000, False), (3000, False), (2000, False), (1000, False)]" 5000 False]
    by (simp add: sample_routing_def sample_coord_def Let_def case_prod_beta del: streak.simps outcomes_after.simps)
qed

subsection \<open>Automatic disabling\<close>

lemma script_tripped:
  assumes "run_state (execute_script clk (HealthScript key ok thr cool now)) st = (r, st1)" "ok \<noteq> 1"
  shows "\<exists>n. r = [flag (js_le (JFin thr) n), n]"
  using assms by (auto simp: health_script_def Let_def split: prod.splits if_splits)

text \<open>A channel is disabled for good only by a failure that also has its breaker open, only when it
  was enabled, and never while automatic disabling is switched off; no other channel is touched.\<close>
theorem auto_disable_after_breaker:
  assumes "record_channel_outcome env now cid ok w = (oc, w')" "rw_channels w' \<noteq> rw_channels w \<or> oc_auto_disabled oc"
  shows "\<not> ok \<and> 0 < cfg_channel_auto_disable_fails env \<and> oc_tripped oc \<and> oc_auto_disabled oc \<and>
    (\<exists>ch. find_one (\<lambda>ch. ch_id ch = cid \<and> ch_status ch = Enabled) (rw_channels w) = Some ch) \<and>
    rw_channels w' = update_one (\<lambda>ch. ch_id ch = cid \<and> ch_status ch = Enabled)
      (\<lambda>ch. ch\<lparr>ch_status := Disabled, ch_auto_disabled := True, ch_fail_count := js_to_int (oc_fails oc), ch_updated_at := now\<rparr>)
      (rw_channels w)"
proof -
  let ?f = "\<lambda>n ch. ch\<lparr>ch_status := Disabled, ch_auto_disabled := True, ch_fail_count := n, ch_updated_at := now\<rparr>"
  let ?P = "\<lambda>ch. ch_id ch = cid \<and> ch_status ch = Enabled"
  let ?s = "HealthScript (render (KChannelHealth cid)) (if ok then 1 else 0)
      (of_int (cfg_channel_failure_threshold env)) (of_int (cfg_channel_cooldown_sec env)) (of_int now)"
  obtain r w1 where r: "on_co (run_script now ?s) w = (r, w1)" by fastforce
  have docs: "rw_channels w1 = rw_channels w" using on_co_docs [OF r] by (simp add: same_docs_def)
  from assms(2) show ?thesis
  proof (cases r)
    case None
    with assms r docs show ?thesis by (auto simp: record_channel_outcome_def)
  next
    case (Some xs)
    let ?fails = "to_number (xs ! 1)"
    have go: "\<not> ok \<and> 0 < auto_disable_after env \<and> js_le (JFin (of_int (auto_disable_after env))) ?fails"
      using assms docs unfolding record_channel_outcome_def r Some
      by (auto simp: Let_def split: if_splits)
    with assms(1) r Some have res: "auto_disable_channel now cid (js_to_int ?fails) w1 = (oc_auto_disabled oc, w')"
        "oc_tripped oc = (to_number (xs ! 0) = JFin 1)" "oc_fails oc = ?fails"
      by (auto simp: record_channel_outcome_def Let_def split: prod.splits)
    obtain n where xs: "xs = [flag (js_le (JFin (of_int (cfg_channel_failure_threshold env))) n), n]"
      using go r Some script_tripped [of "of_int now" "render (KChannelHealth cid)" 0]
      by (auto simp: on_co_def run_script_def shared_call_def Let_def split: prod.splits option.splits if_splits
          simp del: execute_script.simps) (metis surj_pair prod.inject zero_neq_one)+
    have lm: "0 < cfg_channel_auto_disable_fails env" "cfg_channel_failure_threshold env \<le> auto_disable_after env"
      using go by (auto simp: auto_disable_after_def Let_def split: if_splits)
    have "js_le (JFin (of_int (cfg_channel_failure_threshold env))) n"
      using go lm xs by (cases n) (auto simp: to_number_def intro: order_trans)
    then have trip: "oc_tripped oc" using res(2) xs by (simp add: flag_def to_number_def)
    have "find_one ?P (rw_channels w) \<noteq> None"
    proof
      assume "find_one ?P (rw_channels w) = None"
      with res(1) docs assms(2) show False
        by (auto simp: auto_disable_channel_def Let_def update_one_none split: if_splits)
    qed
    with res docs go lm trip assms(2) show ?thesis
      by (auto simp: auto_disable_channel_def Let_def split: if_splits)
  qed
qed

definition broken_channel :: routing_world where
  "broken_channel = outcomes_after no_env ''c1'' [(4000, False), (3000, False), (2000, False), (1000, False)]
     (sample_routing [sample_channel ''c1'' 1 1] [])"

theorem auto_disable_after_breaker_witness:
  "oc_tripped (fst (record_channel_outcome no_env 5000 ''c1'' False broken_channel)) \<and>
   oc_auto_disabled (fst (record_channel_outcome no_env 5000 ''c1'' False broken_channel))"
proof -
  have d: "oc_auto_disabled (fst (record_channel_outcome no_env 5000 ''c1'' False broken_channel))" by code_simp
  show ?thesis
    using auto_disable_after_breaker [of no_env 5000 "''c1''" False broken_channel, OF prod.collapse [symmetric] disjI2 [OF d]] by blast
qed

subsection \<open>Credential rotation\<close>

text \<open>Successive picks, each with its time.\<close>

fun picks :: "(channel_key_doc \<Rightarrow> thrown + string) \<Rightarrow> string \<Rightarrow> string list \<Rightarrow> int list \<Rightarrow> routing_world \<Rightarrow>
    (thrown + selected_key) list" where
  "picks open_secret cid skip [] w = []"
| "picks open_secret cid skip (t # ts) w =
     (case pick_channel_key open_secret t cid skip w of (r, w') \<Rightarrow> r # picks open_secret cid skip ts w')"

definition key_pool :: "string \<Rightarrow> string list \<Rightarrow> channel_key_doc list \<Rightarrow> channel_key_doc list" where
  "key_pool cid skip ds =
     (let ks = take 100 (sort_key ck_index (filter (\<lambda>k. ck_channel_id k = cid \<and> ck_status k = Enabled) ds));
          usable = filter (\<lambda>k. ck_fingerprint k \<notin> set skip) ks
      in if usable \<noteq> [] then usable else ks)"

text \<open>The shared counter stands at \<open>n\<close> and lives until \<open>t\<close>.\<close>

definition counter_at :: "string \<Rightarrow> nat \<Rightarrow> int \<Rightarrow> rstore \<Rightarrow> bool" where
  "counter_at key n t st \<longleftrightarrow> map_of st key =
     Some \<lparr>en_value = VText (num_text (js_int (int n))), en_expires = Some (of_int (t + 86400000))\<rparr>"

lemma incr_key_counter:
  assumes "map_of st key = None \<and> n = 0 \<or> (\<exists>u. counter_at key n u st \<and> t < u + 86400000)"
  obtains st1 where "run_command (of_int t) (Incr key) st = (RNum (js_int (int (Suc n))), st1)"
    "str_at key st1 = Some (num_text (js_int (int (Suc n))))" "live (of_int t) key st1 = st1"
proof -
  let ?v = "\<lparr>en_value = VText (num_text (js_int (int (Suc n)))),
      en_expires = (case map_of st key of Some e \<Rightarrow> en_expires e | None \<Rightarrow> None)\<rparr>"
  have dead: "\<not> entry_dead (of_int t) e" if "map_of st key = Some e" for e
    using assms that by (auto simp: counter_at_def entry_dead_def simp del: of_int_add)
  then have live: "live (of_int t) key st = st" by (intro live_keep) (cases "map_of st key", auto)
  have cur: "(case str_at key st of Some t \<Rightarrow> text_num t | None \<Rightarrow> JFin 0) = js_int (int n)"
    using assms by (auto simp: str_at_def counter_at_def simp del: text_num.simps)
  have dead': "\<not> entry_dead (of_int t) ?v"
    using dead by (auto simp: entry_dead_def split: option.splits)
  show thesis
  proof (rule that)
    show "run_command (of_int t) (Incr key) st = (RNum (js_int (int (Suc n))), put key ?v st)"
      by (simp add: live incr_by_def cur Let_def add.commute)
    show "live (of_int t) key (put key ?v st) = put key ?v st"
      using dead' by (intro live_keep) (metis map_of_put)
  qed (simp add: str_at_def)
qed

lemma num_rem_nat:
  assumes "0 < p"
  shows "num_rem (JFin (of_nat n)) (JFin (of_nat p)) = JFin (of_nat (n mod p))"
proof -
  have "\<lfloor>of_nat n / of_nat p :: rat\<rfloor> = int (n div p)"
    using floor_divide_of_nat_eq [of n p] by simp
  moreover have "of_nat n - of_nat (n div p) * of_nat p = (of_nat (n mod p) :: rat)"
  proof -
    have "of_nat n = (of_nat (n div p * p + n mod p) :: rat)" by (simp only: div_mult_mod_eq)
    then show ?thesis by (simp only: of_nat_add of_nat_mult)
  qed
  ultimately show ?thesis using assms by (simp add: divide_less_0_iff)
qed

lemma run_next_key:
  assumes "map_of st key = None \<and> n = 0 \<or> (\<exists>u. counter_at key n u st \<and> t < u + 86400000)" "0 < p"
  obtains st1 where "run_state (execute_script (of_int t) (NextKey key (of_nat p))) st = ([JFin (of_nat (n mod p))], st1)"
    "counter_at key (Suc n) t st1"
proof -
  obtain s1 where s1: "run_command (of_int t) (Incr key) st = (RNum (js_int (int (Suc n))), s1)"
    "str_at key s1 = Some (num_text (js_int (int (Suc n))))" "live (of_int t) key s1 = s1"
    using incr_key_counter [OF assms(1)] by blast
  let ?s2 = "set_ttl (of_int t) key 86400 s1"
  from s1(2) obtain e where e: "map_of s1 key = Some e" "en_value e = VText (num_text (js_int (int (Suc n))))"
    by (auto simp: str_at_def split: option.splits rvalue.splits)
  have r2: "run_command (of_int t) (Expire key 86400) s1 = (num_reply 1, ?s2)" using e s1(3) by simp
  have "js_sub (js_int (int (Suc n))) (JFin 1) = JFin (of_nat n)" by simp
  then show thesis using assms(2) s1(1) r2 e
    by (intro that [of ?s2])
      (simp_all add: next_key_script_def num_rem_nat counter_at_def set_ttl_def set_expiry_def del: run_command.simps num_rem.simps)
qed

lemma pick_step:
  assumes "calm w" "rw_db_ok w" "key_pool cid skip (rw_keys w) \<noteq> []"
    "map_of (store_of w) (render (KChannelKeyIndex cid)) = None \<and> n = 0 \<or>
     (\<exists>u. counter_at (render (KChannelKeyIndex cid)) n u (store_of w) \<and> t < u + 86400000)"
  obtains w' where "pick_channel_key open_secret t cid skip w =
      (selected open_secret (key_pool cid skip (rw_keys w) ! (n mod length (key_pool cid skip (rw_keys w)))), w')"
    "calm w'" "same_docs w w'" "counter_at (render (KChannelKeyIndex cid)) (Suc n) t (store_of w')"
proof -
  let ?pool = "key_pool cid skip (rw_keys w)"
  obtain st1 where st1: "run_state (execute_script (of_int t) (NextKey (render (KChannelKeyIndex cid)) (of_nat (length ?pool)))) (store_of w) =
      ([JFin (of_nat (n mod length ?pool))], st1)" "counter_at (render (KChannelKeyIndex cid)) (Suc n) t st1"
    using run_next_key [OF assms(4), of "length ?pool"] assms(3) by blast
  define w' where "w' = w\<lparr>rw_co := mark_healthy ((rw_co w)\<lparr>co_faults := [], co_store := st1\<rparr>)\<rparr>"
  have call: "on_co (run_script t (NextKey (render (KChannelKeyIndex cid)) (of_nat (length ?pool)))) w =
      (Some [JFin (of_nat (n mod length ?pool))], w')"
    using assms(1) st1(1) by (simp add: on_co_def run_script_def w'_def del: execute_script.simps)
  have off: "key_offset (length ?pool) (Some [JFin (of_nat (n mod length ?pool))]) = n mod length ?pool"
    by (simp add: key_offset_def)
  have "pick_channel_key open_secret t cid skip w = (selected open_secret (?pool ! (n mod length ?pool)), w')"
    using assms(2,3) call off
    by (simp add: pick_channel_key_def list_channel_keys_def key_pool_def Let_def split del: if_split)
  then show thesis by (rule that) (simp_all add: w'_def same_docs_def st1(2))
qed

text \<open>The clock of the picks moves forward by less than the counter's day.\<close>

fun steady :: "int \<Rightarrow> int list \<Rightarrow> bool" where
  "steady t [] = True"
| "steady t (u # us) = (u < t + 86400000 \<and> steady u us)"

lemma picks_rotate:
  assumes "calm w" "rw_db_ok w" "key_pool cid skip (rw_keys w) \<noteq> []"
    "counter_at (render (KChannelKeyIndex cid)) n u (store_of w)" "steady u ts"
  shows "picks open_secret cid skip ts w =
    map (\<lambda>i. selected open_secret (key_pool cid skip (rw_keys w) ! ((n + i) mod length (key_pool cid skip (rw_keys w)))))
      [0..<length ts]"
  using assms
proof (induction ts arbitrary: w n u)
  case (Cons t ts)
  from Cons.prems have "t < u + 86400000" by simp
  then obtain w' where w': "pick_channel_key open_secret t cid skip w =
      (selected open_secret (key_pool cid skip (rw_keys w) ! (n mod length (key_pool cid skip (rw_keys w)))), w')"
    "calm w'" "same_docs w w'" "counter_at (render (KChannelKeyIndex cid)) (Suc n) t (store_of w')"
    using pick_step [OF Cons.prems(1-3)] Cons.prems(4) by blast
  from w'(3) have eq: "rw_keys w' = rw_keys w" "rw_db_ok w' = rw_db_ok w" by (simp_all add: same_docs_def)
  have "picks open_secret cid skip ts w' =
    map (\<lambda>i. selected open_secret (key_pool cid skip (rw_keys w) ! ((Suc n + i) mod length (key_pool cid skip (rw_keys w)))))
      [0..<length ts]"
    using Cons.IH [OF w'(2) _ _ w'(4)] Cons.prems eq by simp
  moreover have "[0..<length (t # ts)] = 0 # map Suc [0..<length ts]"
    by (simp add: map_Suc_upt upt_conv_Cons del: upt_Suc)
  ultimately show ?case using w'(1) by (simp add: comp_def)
qed simp

text \<open>Credentials rotate. From a fresh counter, and as long as a day does not pass between two picks,
  the \<open>i\<close>-th pick on a channel uses the \<open>i\<close>-th of its usable keys, cyclically in the order of their
  index: every invocation of the gateway shares the rotation.\<close>
theorem keys_rotate:
  assumes "calm w" "rw_db_ok w" "key_pool cid skip (rw_keys w) \<noteq> []"
    "map_of (store_of w) (render (KChannelKeyIndex cid)) = None" "steady t ts"
  shows "picks open_secret cid skip (t # ts) w =
    map (\<lambda>i. selected open_secret (key_pool cid skip (rw_keys w) ! (i mod length (key_pool cid skip (rw_keys w)))))
      [0..<Suc (length ts)]"
proof -
  obtain w' where w': "pick_channel_key open_secret t cid skip w =
      (selected open_secret (key_pool cid skip (rw_keys w) ! (0 mod length (key_pool cid skip (rw_keys w)))), w')"
    "calm w'" "same_docs w w'" "counter_at (render (KChannelKeyIndex cid)) (Suc 0) t (store_of w')"
    using pick_step [OF assms(1-3), of 0 t] assms(4) by blast
  from w'(3) have eq: "rw_keys w' = rw_keys w" "rw_db_ok w' = rw_db_ok w" by (simp_all add: same_docs_def)
  have "picks open_secret cid skip ts w' =
    map (\<lambda>i. selected open_secret (key_pool cid skip (rw_keys w) ! ((Suc 0 + i) mod length (key_pool cid skip (rw_keys w)))))
      [0..<length ts]"
    using picks_rotate [OF w'(2) _ _ w'(4) assms(5)] assms eq by simp
  moreover have "[0..<Suc (length ts)] = 0 # map Suc [0..<length ts]"
    by (simp add: map_Suc_upt upt_conv_Cons del: upt_Suc)
  ultimately show ?thesis using w'(1) by (simp add: comp_def)
qed

definition sample_key :: "string \<Rightarrow> int \<Rightarrow> channel_key_doc" where
  "sample_key kid i = \<lparr>ck_id = kid, ck_channel_id = ''c1'', ck_cipher = kid, ck_iv = [], ck_auth_tag = [],
     ck_key_version = 1, ck_fingerprint = kid, ck_status = Enabled, ck_index = i, ck_fail_count = 0,
     ck_last_used_at = None, ck_created_at = 0\<rparr>"

definition two_keys :: routing_world where
  "two_keys = (sample_routing [] [])\<lparr>rw_keys := [sample_key ''k2'' 2, sample_key ''k1'' 1]\<rparr>"

theorem keys_rotate_witness:
  "map (map_sum (\<lambda>_. ()) sk_key_id) (picks (\<lambda>k. Inr (ck_cipher k)) ''c1'' [] [0, 10, 20] two_keys) = [Inr ''k1'', Inr ''k2'', Inr ''k1'']"
proof -
  have pool: "key_pool ''c1'' [] (rw_keys two_keys) = [sample_key ''k1'' 1, sample_key ''k2'' 2]" by code_simp
  have w: "calm two_keys" "rw_db_ok two_keys" "store_of two_keys = []"
    by (simp_all add: two_keys_def sample_routing_def sample_coord_def)
  show ?thesis
    using keys_rotate [of two_keys "''c1''" "[]" 0 "[10, 20]" "\<lambda>k. Inr (ck_cipher k)"] w pool
    by (simp add: upt_rec selected_def sample_key_def del: picks.simps)
qed

end
