(* ===== verification/CacheLaws.thy ===== *)
theory CacheLaws
  imports HealthLaws
begin

text \<open>
  Laws of what routing caches: candidate lists per generation, with the staleness the time to live
  bounds, and the renaming tables. Three theorems record where the caches and the comments beside
  the code disagree.
\<close>

subsection \<open>Reading the caches\<close>

definition text_at :: "int \<Rightarrow> string \<Rightarrow> rstore \<Rightarrow> rtext option" where
  "text_at now key st = str_at key (live (of_int now) key st)"

definition text_json :: "rtext \<Rightarrow> json option" where
  "text_json t = (case t of Doc j \<Rightarrow> Some j | Lit s \<Rightarrow> json_parse s | Frac q \<Rightarrow> Some (JNum (JFin q)))"

definition gen_of :: "int \<Rightarrow> rstore \<Rightarrow> int" where
  "gen_of now st = (let n = (case text_at now (render KAbilityGeneration) st of None \<Rightarrow> JFin 0 | Some t \<Rightarrow> to_number (text_num t))
     in if js_lt (JFin 0) n then js_to_int n else 1)"

definition ability_key :: "string \<Rightarrow> string \<Rightarrow> int \<Rightarrow> string" where
  "ability_key grp model gen = render (KAbility grp model) @ '':g'' @ show_int gen"

definition found_candidates :: "string \<Rightarrow> string \<Rightarrow> routing_world \<Rightarrow> candidate list" where
  "found_candidates grp model w =
     (if stored_candidates grp model w = [] then derive_candidates grp model w else stored_candidates grp model w)"

lemma str_at_value: "str_at k st = Some t \<longleftrightarrow> (\<exists>e. map_of st k = Some e \<and> en_value e = VText t)"
  by (auto simp: str_at_def split: option.splits rvalue.splits)

lemma text_at_other: "j \<noteq> k \<Longrightarrow> text_at now j (live t k st) = text_at now j st"
  by (simp add: text_at_def str_at_def live_def split: option.split)

lemma text_at_cong: "map_of st k = map_of st' k \<Longrightarrow> text_at now k st = text_at now k st'"
  by (simp add: text_at_def str_at_def map_of_live)

lemma calm_get:
  assumes "calm w"
  obtains w' where "on_co (redis_command now (Get k)) w = (Some (txt_reply (text_at now k (store_of w))), w')" "calm w'"
    "same_docs w w'" "store_of w' = live (of_int now) k (store_of w)"
proof -
  let ?w = "w\<lparr>rw_co := mark_healthy ((rw_co w)\<lparr>co_faults := [], co_store := live (of_int now) k (store_of w)\<rparr>)\<rparr>"
  have "on_co (redis_command now (Get k)) w = (Some (txt_reply (text_at now k (store_of w))), ?w)"
    using on_co_command [OF assms, of now "Get k"] by (simp add: text_at_def)
  then show thesis by (rule that) (simp_all add: same_docs_def)
qed

lemma calm_get_json:
  assumes "calm w"
  obtains w' where "on_co (redis_get_json now k) w = (Some (Option.bind (text_at now k (store_of w)) text_json), w')" "calm w'"
    "same_docs w w'" "store_of w' = live (of_int now) k (store_of w)"
proof -
  obtain w' where w': "on_co (redis_command now (Get k)) w = (Some (txt_reply (text_at now k (store_of w))), w')" "calm w'"
    "same_docs w w'" "store_of w' = live (of_int now) k (store_of w)" using calm_get [OF assms] .
  have "on_co (redis_get_json now k) w = (Some (Option.bind (text_at now k (store_of w)) text_json), w')"
    using w'(1)
    by (cases "text_at now k (store_of w)")
      (auto simp: on_co_def redis_get_json_def redis_get_def txt_reply_def text_json_def split: prod.splits rtext.splits)
  then show thesis using w'(2-4) by (rule that)
qed

lemma calm_set_json:
  assumes "calm w" "0 < ttl"
  obtains w' where "on_co (redis_set_json now k v (Some (of_int ttl))) w = (Some (), w')" "calm w'" "same_docs w w'"
    "map_of (store_of w') k = Some \<lparr>en_value = VText (Doc v), en_expires = Some (of_int (now + ttl * 1000))\<rparr>"
    "\<And>j. j \<noteq> k \<Longrightarrow> map_of (store_of w') j = map_of (store_of w) j"
proof -
  let ?c = "SetC k (Doc v) False False (Some (of_int ttl)) None"
  let ?st = "snd (run_command (of_int now) ?c (store_of w))"
  let ?w = "w\<lparr>rw_co := mark_healthy ((rw_co w)\<lparr>co_faults := [], co_store := ?st\<rparr>)\<rparr>"
  have "on_co (redis_command now ?c) w = (Some ROk, ?w)"
    using on_co_command [OF assms(1), of now ?c] by (simp add: set_cmd_def Let_def)
  then have "on_co (redis_set_json now k v (Some (of_int ttl))) w = (Some (), ?w)"
    using assms(2)
    by (auto simp: on_co_def redis_set_json_def redis_set_def Let_def split: prod.splits)
  moreover have "map_of ?st k = Some \<lparr>en_value = VText (Doc v), en_expires = Some (of_int (now + ttl * 1000))\<rparr>"
    by (simp add: set_cmd_def Let_def set_ttl_def set_expiry_def)
  moreover have "map_of ?st j = map_of (store_of w) j" if "j \<noteq> k" for j
    using that by (simp add: set_cmd_other)
  ultimately show thesis by (intro that [of ?w]) (simp_all add: same_docs_def del: run_command.simps)
qed

lemma append_mid_neq: "c \<notin> set zs \<Longrightarrow> xs @ c # ys \<noteq> zs"
  by auto

lemma ability_keys_differ: "ability_key grp model gen \<noteq> render KAbilityGeneration"
  by (simp add: ability_key_def render.simps append_mid_neq)

lemma js_lt_zero_num: "reply_number (Some (txt_reply t)) = (case t of None \<Rightarrow> JFin 0 | Some x \<Rightarrow> to_number (text_num x))"
  by (simp add: reply_number_def txt_reply_def to_number_def split: option.split)

lemma generation_calm:
  assumes "calm w"
  obtains w' where "ability_generation now w = (gen_of now (store_of w), w')" "calm w'" "same_docs w w'"
    "store_of w' = live (of_int now) (render KAbilityGeneration) (store_of w)"
proof -
  obtain w' where w': "on_co (redis_command now (Get (render KAbilityGeneration))) w =
      (Some (txt_reply (text_at now (render KAbilityGeneration) (store_of w))), w')" "calm w'"
    "same_docs w w'" "store_of w' = live (of_int now) (render KAbilityGeneration) (store_of w)" using calm_get [OF assms] .
  have "ability_generation now w = (gen_of now (store_of w), w')"
    unfolding ability_generation_def w'(1) prod.case js_lt_zero_num gen_of_def by (simp add: Let_def)
  then show thesis using w'(2-4) by (rule that)
qed

text \<open>A lookup in a calm world: the cached list of the current generation, or the documents.\<close>

definition current_key :: "int \<Rightarrow> string \<Rightarrow> string \<Rightarrow> routing_world \<Rightarrow> string" where
  "current_key now grp model w = ability_key grp model (gen_of now (store_of w))"

definition cached_list :: "int \<Rightarrow> string \<Rightarrow> string \<Rightarrow> routing_world \<Rightarrow> candidate list option" where
  "cached_list now grp model w =
     (case Option.bind (text_at now (current_key now grp model w) (store_of w)) text_json of
        Some (JArr js) \<Rightarrow> Some (map candidate_of_json js) | _ \<Rightarrow> None)"

lemma found_docs: "same_docs w w' \<Longrightarrow> found_candidates grp model w' = found_candidates grp model w"
  by (simp add: found_candidates_def stored_candidates_def derive_candidates_def same_docs_def)

lemma candidates_calm:
  assumes "calm w" "0 < cfg_ability_cache_ttl_sec env"
  obtains (hit) cs w' where "cached_list now grp model w = Some cs"
      "candidates_for env now grp model w = (cs, w')" "calm w'" "same_docs w w'"
  | (miss) w' where "cached_list now grp model w = None"
      "candidates_for env now grp model w = (found_candidates grp model w, w')" "calm w'" "same_docs w w'"
      "map_of (store_of w') (current_key now grp model w) = Some \<lparr>en_value = VText (Doc (JArr (map candidate_json (found_candidates grp model w)))),
         en_expires = Some (of_int (now + cfg_ability_cache_ttl_sec env * 1000))\<rparr>"
      "map_of (store_of w') (render KAbilityGeneration) = map_of (live (of_int now) (render KAbilityGeneration) (store_of w)) (render KAbilityGeneration)"
proof -
  let ?gk = "render KAbilityGeneration" and ?key = "current_key now grp model w"
  have apart: "?key \<noteq> ?gk" by (simp add: current_key_def ability_keys_differ)
  obtain w1 where w1: "ability_generation now w = (gen_of now (store_of w), w1)" "calm w1" "same_docs w w1"
    "store_of w1 = live (of_int now) ?gk (store_of w)" using generation_calm [OF assms(1)] .
  obtain w2 where w2: "on_co (redis_get_json now ?key) w1 = (Some (Option.bind (text_at now ?key (store_of w1)) text_json), w2)" "calm w2"
    "same_docs w1 w2" "store_of w2 = live (of_int now) ?key (store_of w1)" using calm_get_json [OF w1(2)] .
  define r where "r = Option.bind (text_at now ?key (store_of w1)) text_json"
  have r: "r = Option.bind (text_at now ?key (store_of w)) text_json"
    unfolding r_def w1(4) by (simp add: text_at_other apart)
  have docs: "same_docs w w2" by (rule same_docs_trans [OF w1(3) w2(3)])
  show thesis
  proof (cases "cached_list now grp model w")
    case (Some cs)
    then obtain js where js: "r = Some (JArr js)" "cs = map candidate_of_json js"
      unfolding cached_list_def r [symmetric] by (auto split: option.splits json.splits)
    have "candidates_for env now grp model w = (cs, w2)"
      unfolding candidates_for_def w1(1) prod.case Let_def
      using w2(1) js by (simp add: current_key_def ability_key_def r_def)
    with Some show thesis using w2(2) docs by (intro hit) simp_all
  next
    case None
    let ?found = "found_candidates grp model w"
    obtain w3 where w3: "on_co (redis_set_json now ?key (JArr (map candidate_json ?found)) (Some (of_int (cfg_ability_cache_ttl_sec env)))) w2 = (Some (), w3)"
      "calm w3" "same_docs w2 w3"
      "map_of (store_of w3) ?key = Some \<lparr>en_value = VText (Doc (JArr (map candidate_json ?found))),
         en_expires = Some (of_int (now + cfg_ability_cache_ttl_sec env * 1000))\<rparr>"
      "\<And>j. j \<noteq> ?key \<Longrightarrow> map_of (store_of w3) j = map_of (store_of w2) j"
      by (rule calm_set_json [OF w2(2) assms(2), of now ?key "JArr (map candidate_json ?found)"]) (rule that)
    have nr: "r \<noteq> Some (JArr js)" for js
      using None unfolding cached_list_def r [symmetric] by (auto split: option.splits json.splits)
    have f: "(if stored_candidates grp model w2 = [] then derive_candidates grp model w2 else stored_candidates grp model w2) = ?found"
      using found_docs [OF docs] by (simp add: found_candidates_def)
    have g: "on_co (redis_get_json now (render (KAbility grp model) @ '':g'' @ show_int (gen_of now (store_of w)))) w1 = (Some r, w2)"
      using w2(1) by (simp add: current_key_def ability_key_def r_def)
    have "candidates_for env now grp model w = (?found, w3)"
      unfolding candidates_for_def w1(1) prod.case Let_def g f
      using nr w3(1) by (simp add: current_key_def ability_key_def split: option.split json.split)
    moreover have "map_of (store_of w3) ?gk = map_of (live (of_int now) ?gk (store_of w)) ?gk"
      using w3(5) [of ?gk] apart w2(4) w1(4) by simp
    ultimately show thesis
      using None w3(2,4) same_docs_trans [OF docs w3(3)] by (intro miss) simp_all
  qed
qed


subsection \<open>Staleness of the candidate lists\<close>

lemma candidate_json_back [simp]: "candidate_of_json (candidate_json c) = c"
  by (simp add: candidate_of_json_def candidate_json_def get_field_def)

text \<open>The documents a deployment may change between two requests, the shared store untouched.\<close>

definition with_docs :: "channel_doc list \<Rightarrow> ability_doc list \<Rightarrow> routing_world \<Rightarrow> routing_world" where
  "with_docs chs rows w = w\<lparr>rw_channels := chs, rw_abilities := rows\<rparr>"

lemma with_docs_store [simp]: "rw_co (with_docs chs rows w) = rw_co w" "rw_db_ok (with_docs chs rows w) = rw_db_ok w"
  by (simp_all add: with_docs_def)

lemma text_at_stored:
  assumes "map_of st k = Some \<lparr>en_value = VText t, en_expires = Some (of_int e)\<rparr>"
  shows "text_at now k st = (if now < e then Some t else None)"
  using assms by (auto simp: text_at_def str_at_def map_of_live entry_dead_def)

text \<open>A later lookup, in a world whose store still has the entry.\<close>

lemma stale_lookup:
  assumes "calm w" "0 < cfg_ability_cache_ttl_sec env" "cached_list t grp model w = None"
    "candidates_for env t grp model w = (cs, w')"
    "calm v" "map_of (store_of v) (current_key t grp model w) = map_of (store_of w') (current_key t grp model w)"
    "gen_of u (store_of v) = gen_of t (store_of w)"
  shows "cs = found_candidates grp model w \<and>
    fst (candidates_for env u grp model (with_docs chs rows v)) =
      (if u < t + cfg_ability_cache_ttl_sec env * 1000 then cs else found_candidates grp model (with_docs chs rows v))"
proof -
  from assms(1,2) show ?thesis
  proof (cases rule: candidates_calm [of w env t grp model])
    case (hit cs' w1)
    with assms(3) show ?thesis by simp
  next
    case (miss w1)
    then have w1: "w' = w1" "cs = found_candidates grp model w" using assms(4) by simp_all
    let ?w = "with_docs chs rows v"
    have key: "current_key u grp model ?w = current_key t grp model w"
      using assms(7) by (simp add: current_key_def)
    have "text_at u (current_key u grp model ?w) (store_of ?w) =
        (if u < t + cfg_ability_cache_ttl_sec env * 1000 then Some (Doc (JArr (map candidate_json cs))) else None)"
      unfolding key using miss(5) w1 assms(6) by (simp add: text_at_stored)
    then have list: "cached_list u grp model ?w = (if u < t + cfg_ability_cache_ttl_sec env * 1000 then Some cs else None)"
      by (simp add: cached_list_def text_json_def comp_def)
    have calm: "calm ?w" using assms(5) by simp
    have "fst (candidates_for env u grp model ?w) =
        (if u < t + cfg_ability_cache_ttl_sec env * 1000 then cs else found_candidates grp model ?w)"
      by (rule candidates_calm [OF calm assms(2), of u grp model]) (use list in \<open>auto split: if_splits\<close>)
    with w1 show ?thesis by simp
  qed
qed

text \<open>Cached candidates are stale for at most the time to live. After a lookup that read the documents,
  a later lookup under the same generation returns the same list while the time to live runs,
  whatever happened to the channels and abilities, and from its end on reads the documents again.\<close>
theorem ability_cache_staleness:
  assumes "calm w" "0 < cfg_ability_cache_ttl_sec env" "cached_list t grp model w = None"
    "candidates_for env t grp model w = (cs, w')"
    "gen_of u (store_of w') = gen_of t (store_of w)"
  shows "cs = found_candidates grp model w \<and>
    fst (candidates_for env u grp model (with_docs chs rows w')) =
      (if u < t + cfg_ability_cache_ttl_sec env * 1000 then cs else found_candidates grp model (with_docs chs rows w'))"
proof -
  have "calm w'"
    by (rule candidates_calm [OF assms(1,2), of t grp model]) (use assms(4) in simp_all)
  then show ?thesis by (rule stale_lookup [OF assms(1-4) _ refl assms(5)])
qed

theorem ability_cache_staleness_witness:
  "fst (candidates_for no_env 100000 ''default'' ''gpt-4'' (with_docs [] []
     (snd (candidates_for no_env 0 ''default'' ''gpt-4'' (sample_routing [sample_channel ''a'' 1 0] []))))) = []"
proof -
  let ?w = "sample_routing [sample_channel ''a'' 1 0] []"
  have c: "cached_list 0 ''default'' ''gpt-4'' ?w = None" "0 < cfg_ability_cache_ttl_sec no_env"
    "gen_of 100000 (store_of (snd (candidates_for no_env 0 ''default'' ''gpt-4'' ?w))) = gen_of 0 (store_of ?w)"
    "\<not> 100000 < 0 + cfg_ability_cache_ttl_sec no_env * 1000" by code_simp+
  have "found_candidates ''default'' ''gpt-4'' (with_docs [] [] (snd (candidates_for no_env 0 ''default'' ''gpt-4'' ?w))) = []"
    by code_simp
  then show ?thesis
    using ability_cache_staleness [of ?w no_env 0 "''default''" "''gpt-4''", OF _ c(2,1) prod.collapse [symmetric] c(3), of "[]" "[]"] c(4)
    by (simp add: sample_routing_def sample_coord_def)
qed


subsection \<open>Invalidation\<close>

lemma invalidate_calm:
  assumes "calm w"
  shows "calm (invalidate_abilities now w)" "same_docs w (invalidate_abilities now w)"
    "store_of (invalidate_abilities now w) = snd (incr_by (render KAbilityGeneration) 1 (live (of_int now) (render KAbilityGeneration) (store_of w)))"
  using assms by (simp_all add: invalidate_abilities_def on_co_command case_prod_beta same_docs_def)

lemma incr_by_other: "j \<noteq> k \<Longrightarrow> map_of (snd (incr_by k d st)) j = map_of st j"
  by (simp add: incr_by_def Let_def)

lemma invalidate_other: "calm w \<Longrightarrow> j \<noteq> render KAbilityGeneration \<Longrightarrow>
    map_of (store_of (invalidate_abilities now w)) j = map_of (store_of w) j"
  by (simp add: invalidate_calm incr_by_other)

text \<open>A counter without expiry, as \<open>INCR\<close> makes it.\<close>

definition generation_is :: "int option \<Rightarrow> rstore \<Rightarrow> bool" where
  "generation_is c st \<longleftrightarrow> map_of st (render KAbilityGeneration) =
     map_option (\<lambda>n. \<lparr>en_value = VText (num_text (js_int n)), en_expires = None\<rparr>) c"

lemma generation_reads:
  assumes "generation_is c st" "c \<noteq> Some 0"
  shows "gen_of u st = (case c of None \<Rightarrow> 1 | Some n \<Rightarrow> if 0 < n then n else 1)"
  using assms
  by (cases c) (simp_all add: generation_is_def gen_of_def text_at_def str_at_def map_of_live entry_dead_def to_number_def del: text_num.simps)

lemma invalidate_generation:
  assumes "calm w" "generation_is c (store_of w)"
  shows "generation_is (Some (case c of None \<Rightarrow> 1 | Some n \<Rightarrow> n + 1)) (store_of (invalidate_abilities now w))"
proof -
  let ?k = "render KAbilityGeneration"
  have "live (of_int now) ?k (store_of w) = store_of w"
    using assms(2) by (intro live_keep) (cases c, auto simp: generation_is_def entry_dead_def)
  then show ?thesis using assms
    by (cases c) (simp_all add: generation_is_def invalidate_calm incr_by_def str_at_def Let_def del: text_num.simps)
qed

text \<open>Once the generation counter exists, an invalidation takes effect at once: the next lookup reads
  the documents, whatever was cached before.\<close>
theorem invalidation_rereads:
  assumes "calm w" "0 < cfg_ability_cache_ttl_sec env" "generation_is (Some n) (store_of w)" "0 < n"
    "map_of (store_of w) (ability_key grp model (n + 1)) = None"
  shows "fst (candidates_for env u grp model (with_docs chs rows (invalidate_abilities now w))) =
    found_candidates grp model (with_docs chs rows (invalidate_abilities now w))"
proof -
  let ?w = "with_docs chs rows (invalidate_abilities now w)"
  have calm: "calm ?w" using assms(1) by (simp add: invalidate_calm)
  have "generation_is (Some (n + 1)) (store_of ?w)"
    using invalidate_generation [OF assms(1,3)] by simp
  then have key: "current_key u grp model ?w = ability_key grp model (n + 1)"
    using generation_reads [of "Some (n + 1)"] assms(4) by (simp add: current_key_def)
  have "text_at u (ability_key grp model (n + 1)) (store_of ?w) = None"
    using invalidate_other [OF assms(1) ability_keys_differ] assms(5)
    by (simp add: text_at_def str_at_def map_of_live)
  then have "cached_list u grp model ?w = None" by (simp add: cached_list_def key)
  then show ?thesis by (rule_tac candidates_calm [OF calm assms(2), of u grp model]) simp_all
qed

text \<open>The very first invalidation has no effect. An absent counter already reads as generation one, and
  counting it up gives one again, so a list cached before stays in use for its time to live.\<close>
theorem first_invalidation_lost:
  assumes "calm w" "0 < cfg_ability_cache_ttl_sec env" "generation_is None (store_of w)"
    "cached_list t grp model w = None" "candidates_for env t grp model w = (cs, w')"
    "u < t + cfg_ability_cache_ttl_sec env * 1000"
  shows "fst (candidates_for env u grp model (with_docs chs rows (invalidate_abilities now w'))) = found_candidates grp model w"
proof -
  have w': "calm w'" "generation_is None (store_of w')"
    by (rule candidates_calm [OF assms(1,2), of t grp model];
        use assms(3-5) in \<open>auto simp: generation_is_def map_of_live\<close>)+
  have "gen_of u (store_of (invalidate_abilities now w')) = gen_of t (store_of w)"
    using generation_reads [OF invalidate_generation [OF w']] generation_reads [OF assms(3)] by simp
  moreover have "map_of (store_of (invalidate_abilities now w')) (current_key t grp model w) = map_of (store_of w') (current_key t grp model w)"
    using w'(1) by (simp add: invalidate_other current_key_def ability_keys_differ)
  ultimately show ?thesis
    using stale_lookup [OF assms(1,2,4,5), of "invalidate_abilities now w'" u chs rows] invalidate_calm(1) [OF w'(1)] assms(6) by simp
qed

definition sample_counted :: routing_world where
  "sample_counted = invalidate_abilities 0 (sample_routing [sample_channel ''a'' 1 0] [])"

theorem invalidation_rereads_witness:
  "fst (candidates_for no_env 5 ''default'' ''gpt-4'' (with_docs [] [] (invalidate_abilities 4
     (snd (candidates_for no_env 3 ''default'' ''gpt-4'' sample_counted))))) = []"
proof -
  let ?w = "snd (candidates_for no_env 3 ''default'' ''gpt-4'' sample_counted)"
  have c: "0 < cfg_ability_cache_ttl_sec no_env" "co_faults (rw_co ?w) = []" "map_of (store_of ?w) (ability_key ''default'' ''gpt-4'' (1 + 1)) = None"
    "map_of (store_of ?w) (render KAbilityGeneration) = Some \<lparr>en_value = VText (num_text (js_int 1)), en_expires = None\<rparr>"
    "found_candidates ''default'' ''gpt-4'' (with_docs [] [] (invalidate_abilities 4 ?w)) = []" by code_simp+
  then show ?thesis
    using invalidation_rereads [of ?w no_env 1 "''default''" "''gpt-4''" 5 "[]" "[]" 4] by (simp add: generation_is_def)
qed

theorem first_invalidation_lost_witness:
  "fst (candidates_for no_env 5 ''default'' ''gpt-4'' (with_docs [] [] (invalidate_abilities 4
     (snd (candidates_for no_env 3 ''default'' ''gpt-4'' (sample_routing [sample_channel ''a'' 1 0] [])))))) = [cand ''a'' 1 0]"
proof -
  let ?w = "sample_routing [sample_channel ''a'' 1 0] []"
  have c: "0 < cfg_ability_cache_ttl_sec no_env" "co_faults (rw_co ?w) = []" "map_of (store_of ?w) (render KAbilityGeneration) = None"
    "5 < 3 + cfg_ability_cache_ttl_sec no_env * 1000" "cached_list 3 ''default'' ''gpt-4'' ?w = None"
    "found_candidates ''default'' ''gpt-4'' ?w = [cand ''a'' 1 0]" by code_simp+
  then show ?thesis
    using first_invalidation_lost [of ?w no_env 3 "''default''" "''gpt-4''", OF _ c(1) _ c(5) prod.collapse [symmetric] c(4)]
    by (simp add: generation_is_def)
qed

subsection \<open>Grants the rebuild forgets\<close>

lemma insert_many_from:
  "set (insert_many key xs ds) \<subseteq> set xs \<union> set ds"
  by (induction key xs ds rule: insert_many.induct) (auto simp: insert_one_def split: if_splits option.splits)

lemma ability_row:
  "a \<in> set (ability_rows now ch) \<Longrightarrow> ab_channel_id a = ch_id ch \<and> ab_group a \<in> set (ch_groups ch) \<and> ab_model a \<in> set (ch_models ch)"
  by (auto simp: ability_rows_def)

lemma rebuilt_abilities:
  assumes "rw_db_ok w"
  shows "rw_abilities (snd (rebuild_abilities now w)) = insert_many ab_id
    (concat (map (\<lambda>ch. if ch_groups ch = [] \<or> ch_models ch = [] then [] else ability_rows now ch)
      (take 10000 (filter (\<lambda>ch. ch_status ch = Enabled) (rw_channels w))))) []"
  using assms by (simp add: rebuild_abilities_def Let_def invalidate_abilities_def)

lemma rebuilt_rows:
  assumes "rw_db_ok w" "a \<in> set (rw_abilities (snd (rebuild_abilities now w)))"
  shows "\<exists>ch \<in> set (rw_channels w). ab_channel_id a = ch_id ch \<and> ab_group a \<in> set (ch_groups ch) \<and> ab_model a \<in> set (ch_models ch)"
proof -
  have "a \<in> set (concat (map (\<lambda>ch. if ch_groups ch = [] \<or> ch_models ch = [] then [] else ability_rows now ch)
      (take 10000 (filter (\<lambda>ch. ch_status ch = Enabled) (rw_channels w)))))"
    using assms(2) insert_many_from unfolding rebuilt_abilities [OF assms(1)] by fastforce
  then obtain ch where "ch \<in> set (take 10000 (filter (\<lambda>ch. ch_status ch = Enabled) (rw_channels w)))" "a \<in> set (ability_rows now ch)"
    by (auto split: if_splits)
  then show ?thesis using ability_row [of a now ch] by (auto dest!: in_set_takeD)
qed

text \<open>After a rebuild, a lookup that finds a row for the group and model offers only channels that list
  both by name: a channel that serves every model (an empty or starred list) or every group is not offered.\<close>
theorem rebuild_hides_catch_alls:
  assumes "rw_db_ok w" "stored_candidates grp model (snd (rebuild_abilities now w)) \<noteq> []"
    "c \<in> set (found_candidates grp model (snd (rebuild_abilities now w)))"
  shows "\<exists>ch \<in> set (rw_channels w). cand_channel c = ch_id ch \<and> grp \<in> set (ch_groups ch) \<and> model \<in> set (ch_models ch)"
proof -
  let ?w = "snd (rebuild_abilities now w)"
  from assms(2,3) have "c \<in> set (stored_candidates grp model ?w)" by (simp add: found_candidates_def)
  then obtain a where a: "a \<in> set (rw_abilities ?w)" "ab_group a = grp" "ab_model a = model" "cand_channel c = ab_channel_id a"
    by (auto simp: stored_candidates_def by_rank_def dest!: in_set_takeD split: if_splits)
  with rebuilt_rows [OF assms(1) a(1)] show ?thesis by auto
qed

definition sample_catch_all :: routing_world where
  "sample_catch_all = sample_routing [sample_channel ''named'' 1 0, (sample_channel ''any'' 9 0)\<lparr>ch_models := []\<rparr>] []"

theorem rebuild_hides_catch_alls_witness:
  "cand_channel ` set (found_candidates ''default'' ''gpt-4'' (snd (rebuild_abilities 0 sample_catch_all))) \<subseteq> {''named''} \<and>
   serves ((sample_channel ''any'' 9 0)\<lparr>ch_models := []\<rparr>) ''default'' ''gpt-4''"
proof -
  have c: "rw_db_ok sample_catch_all" "stored_candidates ''default'' ''gpt-4'' (snd (rebuild_abilities 0 sample_catch_all)) \<noteq> []"
    "serves ((sample_channel ''any'' 9 0)\<lparr>ch_models := []\<rparr>) ''default'' ''gpt-4''" by code_simp+
  have "cand_channel c = ''named''" if "c \<in> set (found_candidates ''default'' ''gpt-4'' (snd (rebuild_abilities 0 sample_catch_all)))" for c
    using rebuild_hides_catch_alls [OF c(1,2) that]
    by (auto simp: sample_catch_all_def sample_routing_def sample_channel_def)
  with c(3) show ?thesis by auto
qed

subsection \<open>Renaming\<close>

definition known_name :: "string \<Rightarrow> string set \<Rightarrow> model_value \<Rightarrow> bool" where
  "known_name requested targets v \<longleftrightarrow> (case v of
      ModelName m \<Rightarrow> m = requested \<or> m \<in> targets
    | Inherited k \<Rightarrow> k \<in> set prototype_members \<and> (k = requested \<or> k \<in> targets))"

lemma known_mono: "known_name requested A v \<Longrightarrow> A \<subseteq> B \<Longrightarrow> known_name requested B v"
  by (auto simp: known_name_def split: model_value.splits)

lemma table_get_known:
  assumes "table_get tbl v = Some x" "known_name requested A v"
  shows "known_name requested (A \<union> snd ` set tbl) x"
  using assms
  by (auto simp: table_get_def known_name_def split: model_value.splits option.splits if_splits dest!: map_of_SomeD intro: rev_image_eqI)

lemma layer_known:
  assumes "known_name requested A v"
  shows "known_name requested (A \<union> snd ` set tbl) (apply_layer tbl requested v)"
proof -
  have "known_name requested A (ModelName requested)" by (simp add: known_name_def)
  with assms show ?thesis
    by (auto simp: apply_layer_def split: option.splits intro: table_get_known known_mono)
qed

text \<open>Renaming follows each layer at most once: the name sent upstream is the requested one or the target
  of a row of one of the three tables, or, where a table is asked for a name every JavaScript object
  inherits, that inherited member; the billed name is always the requested one.\<close>
theorem renaming_is_bounded:
  "known_name requested (snd ` set (fst (global_mappings env now w)) \<union>
      snd ` set (channel_scoped_mappings (ch_id ch) (snd (global_mappings env now w))) \<union> snd ` set (ch_model_mapping ch))
    (rm_mapped (fst (resolve_model env now requested ch w))) \<and>
   billed_model (fst (resolve_model env now requested ch w)) = requested"
proof -
  obtain g w1 where g: "global_mappings env now w = (g, w1)" by fastforce
  let ?m1 = "case table_get g (ModelName requested) of Some v \<Rightarrow> v | None \<Rightarrow> ModelName requested"
  have "known_name requested {} (ModelName requested)" by (simp add: known_name_def)
  then have "known_name requested (snd ` set g) ?m1"
    using table_get_known [of g "ModelName requested" _ requested "{}"] by (auto simp: known_name_def split: option.split)
  from layer_known [OF layer_known [OF this]] show ?thesis
    by (simp add: resolve_model_def g Let_def billed_model_def)
qed

text \<open>A requested name that every JavaScript object inherits and no table renames is not sent as it is:
  the lookup finds the inherited member, which is truthy.\<close>
theorem inherited_names_resolve_wrongly:
  assumes "requested \<in> set prototype_members" "fst (global_mappings env now w) = []"
    "channel_scoped_mappings (ch_id ch) (snd (global_mappings env now w)) = []" "ch_model_mapping ch = []"
  shows "rm_mapped (fst (resolve_model env now requested ch w)) = Inherited requested"
  using assms by (simp add: resolve_model_def Let_def table_get_def apply_layer_def case_prod_beta)

theorem inherited_names_resolve_wrongly_witness:
  "rm_mapped (fst (resolve_model no_env 0 ''constructor'' (sample_channel ''a'' 1 0) (sample_routing [] []))) = Inherited ''constructor''"
proof -
  have c: "fst (global_mappings no_env 0 (sample_routing [] [])) = []"
    "channel_scoped_mappings ''a'' (snd (global_mappings no_env 0 (sample_routing [] []))) = []" by code_simp+
  show ?thesis
    using inherited_names_resolve_wrongly [of "''constructor''" no_env 0 "sample_routing [] []" "sample_channel ''a'' 1 0"] c
    by (simp add: prototype_members_def sample_channel_def)
qed

end
