(* ===== verification/Clock.thy ===== *)
theory Clock
  imports Prelude
begin

text \<open>
  Deadlines and backoff, \<open>src/lib/util/time.ts\<close>. The clock (milliseconds) and the random draw, a
  number in [0, 1), are arguments. Timers and abort signals are left to the callers' models.
\<close>

definition now_sec :: "int \<Rightarrow> int" where
  "now_sec now = now div 1000"

definition backoff_delay_ms :: "rat \<Rightarrow> int \<Rightarrow> int \<Rightarrow> int \<Rightarrow> int" where
  "backoff_delay_ms rnd attempt base cap = \<lfloor>rnd * of_int (min cap (base * 2 ^ nat (max 0 attempt)))\<rfloor>"

record deadline =
  dl_started :: int
  dl_budget :: int

definition elapsed_ms :: "int \<Rightarrow> deadline \<Rightarrow> int" where
  "elapsed_ms now d = now - dl_started d"

definition remaining_ms :: "int \<Rightarrow> deadline \<Rightarrow> int" where
  "remaining_ms now d = max 0 (dl_budget d - elapsed_ms now d)"

definition expired :: "int \<Rightarrow> deadline \<Rightarrow> bool" where
  "expired now d \<longleftrightarrow> remaining_ms now d \<le> 0"

definition slice_ms :: "int \<Rightarrow> int \<Rightarrow> deadline \<Rightarrow> int" where
  "slice_ms now most d = max 1 (min most (remaining_ms now d))"

lemma backoff_bounds:
  assumes "0 \<le> rnd" "rnd < 1" "0 \<le> base" "0 < cap"
  shows "0 \<le> backoff_delay_ms rnd attempt base cap \<and> backoff_delay_ms rnd attempt base cap < cap"
proof -
  define n where "n = min cap (base * 2 ^ nat (max 0 attempt))"
  have n: "0 \<le> n" "n \<le> cap" using assms(3,4) by (simp_all add: n_def)
  have "rnd * of_int n < of_int cap"
  proof (cases "n = 0")
    case False
    with n have "rnd * of_int n < 1 * of_int n" using assms(2) by (intro mult_strict_right_mono) auto
    also have "\<dots> \<le> of_int cap" using n(2) by simp
    finally show ?thesis .
  qed (use assms(4) in simp)
  moreover have "0 \<le> rnd * of_int n" using assms(1) n(1) by simp
  ultimately show ?thesis by (simp add: backoff_delay_ms_def n_def [symmetric] floor_less_iff)
qed

end
