(* ===== verification/Retry.thy ===== *)
theory Retry
  imports CacheLaws Clock
begin

text \<open>
  Retry across channels, \<open>src/lib/routing/retry.ts\<close>. The upstream call is an argument; so are, for
  each round, the clock readings, the caller's abort signal and the random draws (\<open>tick\<close>). The
  loop also returns the calls and pauses it made, in order, so that laws can speak of them.
\<close>

record attempt_context =
  ac_attempt :: nat
  ac_channel :: channel_doc
  ac_model :: resolved_model
  ac_key :: selected_key
  ac_remaining_ms :: int

record 'v relay_outcome =
  ro_value :: 'v
  ro_attempts :: nat
  ro_channel_id :: string
  ro_model :: resolved_model

record retry_request =
  rq_group :: string
  rq_model :: string
  rq_affinity_hash :: "string option"
  rq_max_attempts :: "int option"
  rq_budget_ms :: "int option"

record tick =
  tk_start :: int
  tk_call :: int
  tk_after :: int
  tk_aborted :: bool
  tk_sleep_aborted :: bool
  tk_jitter :: rat
  tk_draw :: "nat \<Rightarrow> rat"

datatype retry_event = Tried attempt_context | Slept int

definition should_retry_error :: "gateway_error \<Rightarrow> bool" where
  "should_retry_error e =
     (if ge_code e = MalformedUpstreamBody then False
      else if ge_status e = 499 then False
      else (case ge_upstream_status e of
          Some s \<Rightarrow> is_retryable_status s
        | None \<Rightarrow> ge_retryable e))"

definition max_attempts :: "env \<Rightarrow> retry_request \<Rightarrow> nat" where
  "max_attempts env q = nat (max 1 (case rq_max_attempts q of Some n \<Rightarrow> n | None \<Rightarrow> cfg_retry_times env + 1))"

definition retry_deadline :: "env \<Rightarrow> retry_request \<Rightarrow> int \<Rightarrow> deadline" where
  "retry_deadline env q now =
     \<lparr>dl_started = now, dl_budget = (case rq_budget_ms q of Some b \<Rightarrow> b | None \<Rightarrow> cfg_retry_budget_ms env)\<rparr>"

definition aborted_error :: thrown where
  "aborted_error = Gateway (error_from AbortThrown)"

definition attempt_selection :: "retry_request \<Rightarrow> nat \<Rightarrow> string list \<Rightarrow> selection_request" where
  "attempt_selection q i tried = \<lparr>sq_group = rq_group q, sq_model = rq_model q, sq_attempt = int i,
     sq_affinity_hash = rq_affinity_hash q, sq_excluded = tried\<rparr>"

text \<open>The bookkeeping of a failed call; an abort of the caller is not held against the channel.\<close>

definition note_failure :: "env \<Rightarrow> int \<Rightarrow> string \<Rightarrow> string \<Rightarrow> gateway_error \<Rightarrow> routing_world \<Rightarrow> routing_world" where
  "note_failure env now cid kid e w =
     (if ge_status e = 499 then w
      else mark_key_failure kid (snd (record_channel_outcome env now cid False w)))"

definition note_success :: "env \<Rightarrow> int \<Rightarrow> string \<Rightarrow> string \<Rightarrow> routing_world \<Rightarrow> routing_world" where
  "note_success env now cid kid w = mark_key_used now kid (snd (record_channel_outcome env now cid True w))"

definition retry_pause :: "tick \<Rightarrow> nat \<Rightarrow> deadline \<Rightarrow> int" where
  "retry_pause tk i d = min (backoff_delay_ms (tk_jitter tk) (int i) 200 8000) (remaining_ms (tk_after tk) d)"

text \<open>\<open>left\<close> rounds remain, this is round \<open>i\<close>.\<close>

fun retry_loop ::
    "env \<Rightarrow> (channel_key_doc \<Rightarrow> thrown + string) \<Rightarrow> (attempt_context \<Rightarrow> thrown + 'v) \<Rightarrow> retry_request \<Rightarrow> deadline \<Rightarrow>
     (nat \<Rightarrow> tick) \<Rightarrow> nat \<Rightarrow> nat \<Rightarrow> string list \<Rightarrow> string list \<Rightarrow> gateway_error option \<Rightarrow> routing_world \<Rightarrow>
     (thrown + 'v relay_outcome) \<times> retry_event list \<times> routing_world" where
  "retry_loop env open_secret call q d ticks 0 i tried tried_keys last_error w =
     (Inl (Gateway (case last_error of Some e \<Rightarrow> e | None \<Rightarrow> error_from OtherThrown)), [], w)"
| "retry_loop env open_secret call q d ticks (Suc left) i tried tried_keys last_error w =
     (let tk = ticks i in
      if tk_aborted tk then (Inl aborted_error, [], w)
      else case (if expired (tk_start tk) d then last_error else None) of
        Some e \<Rightarrow> (Inl (Gateway e), [], w)
      | None \<Rightarrow>
        (case select_channel env (tk_start tk) (tk_draw tk) (attempt_selection q i tried) w of
          (Inl e, w1) \<Rightarrow> (Inl e, [], w1)
        | (Inr sl, w1) \<Rightarrow>
          let cid = ch_id (sl_channel sl) in
          (case pick_channel_key open_secret (tk_start tk) cid tried_keys w1 of
            (Inl e, w2) \<Rightarrow>
              retry_loop env open_secret call q d ticks left (Suc i) (tried @ [cid]) tried_keys (Some (error_from e)) w2
          | (Inr key, w2) \<Rightarrow>
            let ctx = \<lparr>ac_attempt = i, ac_channel = sl_channel sl, ac_model = sl_model sl, ac_key = key,
                  ac_remaining_ms = remaining_ms (tk_call tk) d\<rparr> in
            (case call ctx of
              Inr v \<Rightarrow>
                (Inr \<lparr>ro_value = v, ro_attempts = i + 1, ro_channel_id = cid, ro_model = sl_model sl\<rparr>,
                 [Tried ctx], note_success env (tk_after tk) cid (sk_key_id key) w2)
            | Inl thrown \<Rightarrow>
              let failure = error_from thrown;
                  w3 = note_failure env (tk_after tk) cid (sk_key_id key) failure w2 in
              if \<not> should_retry_error failure then (Inl (Gateway failure), [Tried ctx], w3)
              else if left = 0 \<or> expired (tk_after tk) d then (Inl (Gateway failure), [Tried ctx], w3)
              else
                let pause = retry_pause tk i d in
                if 0 < pause \<and> tk_sleep_aborted tk then (Inl aborted_error, [Tried ctx], w3)
                else
                  (case retry_loop env open_secret call q d ticks left (Suc i) (tried @ [cid])
                      (tried_keys @ [sk_fingerprint key]) (Some failure) w3 of
                    (r, es, w4) \<Rightarrow> (r, Tried ctx # (if 0 < pause then [Slept pause] else []) @ es, w4))))))"

definition with_channel_retry ::
    "env \<Rightarrow> (channel_key_doc \<Rightarrow> thrown + string) \<Rightarrow> (attempt_context \<Rightarrow> thrown + 'v) \<Rightarrow> retry_request \<Rightarrow> int \<Rightarrow>
     (nat \<Rightarrow> tick) \<Rightarrow> routing_world \<Rightarrow> (thrown + 'v relay_outcome) \<times> retry_event list \<times> routing_world" where
  "with_channel_retry env open_secret call q now ticks w =
     retry_loop env open_secret call q (retry_deadline env q now) ticks (max_attempts env q) 0 [] [] None w"

end
