(* ===== verification/RetryLaws.thy ===== *)
theory RetryLaws
  imports Retry
begin

text \<open>
  Laws of the retry loop: no channel is called twice, calls are bounded, only a retryable failure
  is followed by another call, every called channel serves the request, and pauses stay within
  the budget.
\<close>

subsection \<open>What a round does to the documents\<close>

definition only_touched :: "string set \<Rightarrow> routing_world \<Rightarrow> routing_world \<Rightarrow> bool" where
  "only_touched A w w' \<longleftrightarrow> (\<forall>ch \<in> set (rw_channels w'). ch \<in> set (rw_channels w) \<or> ch_id ch \<in> A)"

lemma only_touched_refl [simp]: "only_touched A w w"
  by (simp add: only_touched_def)

lemma only_touched_trans: "only_touched A u v \<Longrightarrow> only_touched A v w \<Longrightarrow> only_touched A u w"
  by (auto simp: only_touched_def)

lemma only_touched_mono: "only_touched A u v \<Longrightarrow> A \<subseteq> B \<Longrightarrow> only_touched B u v"
  by (auto simp: only_touched_def)

lemma docs_touched: "same_docs w w' \<Longrightarrow> only_touched A w w'"
  by (simp add: same_docs_def only_touched_def)

lemma global_docs: "global_mappings env now w = (g, w') \<Longrightarrow> same_docs w w'"
  by (auto simp: global_mappings_def Let_def split: prod.splits option.splits if_splits dest!: on_co_docs intro: same_docs_trans)

lemma resolve_docs: "resolve_model env now requested ch w = (rm, w') \<Longrightarrow> same_docs w w'"
  by (auto simp: resolve_model_def Let_def split: prod.splits dest: global_docs)

lemma write_affinity_docs: "same_docs w (write_affinity env now grp model hash cid w)"
  by (simp add: write_affinity_def)

lemma select_docs:
  assumes "select_channel env now rnd q w = (r, w')"
  shows "same_docs w w'"
proof -
  let ?grp = "sq_group q" and ?model = "sq_model q"
  obtain all w1 where c: "candidates_for env now ?grp ?model w = (all, w1)" by fastforce
  define left where "left = filter (\<lambda>c. cand_channel c \<notin> set (sq_excluded q)) all"
  obtain ids w2 where o: "open_channels now (map cand_channel left) w1 = (ids, w2)" by fastforce
  define healthy where "healthy = filter (\<lambda>c. cand_channel c \<notin> ids) left"
  obtain a w3 where a: "(case sq_affinity_hash q of
                 Some h \<Rightarrow> if h = [] then (None, w2) else read_affinity now ?grp ?model h w2
               | None \<Rightarrow> (None, w2)) = (a, w3)" by fastforce
  define w4 where "w4 ch = (case sq_affinity_hash q of
      Some h \<Rightarrow> if h = [] then w3 else write_affinity env now ?grp ?model h (ch_id ch) w3 | None \<Rightarrow> w3)" for ch :: channel_doc
  have d1: "same_docs w w1" by (rule candidates_docs [OF c])
  have d2: "same_docs w w2" by (rule same_docs_trans [OF d1 open_docs [OF o]])
  have d3: "same_docs w w3" by (rule same_docs_trans [OF d2 affinity_docs [OF a]])
  have d4: "same_docs w (w4 ch)" for ch
    using d3 same_docs_trans [OF d3 write_affinity_docs] by (simp add: w4_def split: option.split)
  have "select_channel env now rnd q w =
      (let none = Inl (Gateway (no_channel_available ?model ?grp)) in
       if left = [] then (none, w1) else if healthy = [] then (none, w2)
       else if \<not> rw_db_ok w3 then (Inl OtherThrown, w3)
       else (case elect_and_verify 8 rnd (sq_attempt q) a ?grp ?model (rw_channels w3) healthy of
           None \<Rightarrow> (none, w3)
         | Some ch \<Rightarrow> (case resolve_model env now ?model ch (w4 ch) of
             (rm, w5) \<Rightarrow> (Inr \<lparr>sl_channel = ch, sl_model = rm, sl_considered = length healthy\<rparr>, w5))))"
    unfolding select_channel_def Let_def c prod.case left_def [symmetric] o healthy_def [symmetric] a w4_def ..
  with assms show ?thesis
    using d1 d2 d3 d4 same_docs_trans [OF d4 resolve_docs]
    by (auto simp: Let_def split: if_splits option.splits prod.splits)
qed

lemma pick_docs: "pick_channel_key open_secret now cid skip w = (r, w') \<Longrightarrow> same_docs w w'"
  by (auto simp: pick_channel_key_def Let_def split: sum.splits if_splits prod.splits dest: on_co_docs)

lemma record_touched: "only_touched {cid} w (snd (record_channel_outcome env now cid ok w))"
proof -
  let ?s = "HealthScript (render (KChannelHealth cid)) (if ok then 1 else 0)
      (of_int (cfg_channel_failure_threshold env)) (of_int (cfg_channel_cooldown_sec env)) (of_int now)"
  obtain r w1 where r: "on_co (run_script now ?s) w = (r, w1)" by fastforce
  have "only_touched {cid} w w1" by (rule docs_touched [OF on_co_docs [OF r]])
  moreover have "only_touched {cid} w1 (snd (auto_disable_channel now cid n w1))" for n
    by (auto simp: only_touched_def auto_disable_channel_def Let_def dest!: update_one_set)
  ultimately show ?thesis
    unfolding record_channel_outcome_def r
    by (auto simp: Let_def case_prod_beta split: option.split intro: only_touched_trans)
qed

lemma note_touched:
  "only_touched {cid} w (note_failure env now cid kid e w)" "only_touched {cid} w (note_success env now cid kid w)"
  using record_touched [of cid w env now]
  by (auto simp: note_failure_def note_success_def mark_key_failure_def mark_key_used_def only_touched_def split: if_splits)


subsection \<open>One round\<close>

definition call_of :: "(attempt_context \<Rightarrow> thrown + 'v) \<Rightarrow> attempt_context \<Rightarrow> thrown option" where
  "call_of call ctx = (case call ctx of Inl t \<Rightarrow> Some t | Inr v \<Rightarrow> None)"

lemma retry_round:
  assumes "retry_loop env open_secret call q d ticks (Suc left) i tried keys last_error w = (r, es, w')"
  obtains (stop) e where "es = []" "r = Inl e"
  | (skip) sl w1 w2 e where "select_channel env (tk_start (ticks i)) (tk_draw (ticks i)) (attempt_selection q i tried) w = (Inr sl, w1)"
      "only_touched {ch_id (sl_channel sl)} w w2"
      "retry_loop env open_secret call q d ticks left (Suc i) (tried @ [ch_id (sl_channel sl)]) keys (Some e) w2 = (r, es, w')"
  | (answered) sl w1 ctx v where "select_channel env (tk_start (ticks i)) (tk_draw (ticks i)) (attempt_selection q i tried) w = (Inr sl, w1)"
      "ac_channel ctx = sl_channel sl" "ac_attempt ctx = i" "last_error = None \<or> \<not> expired (tk_start (ticks i)) d" "es = [Tried ctx]" "call ctx = Inr v"
      "r = Inr \<lparr>ro_value = v, ro_attempts = i + 1, ro_channel_id = ch_id (sl_channel sl), ro_model = sl_model sl\<rparr>"
  | (failed) sl w1 ctx t where "select_channel env (tk_start (ticks i)) (tk_draw (ticks i)) (attempt_selection q i tried) w = (Inr sl, w1)"
      "ac_channel ctx = sl_channel sl" "ac_attempt ctx = i" "last_error = None \<or> \<not> expired (tk_start (ticks i)) d" "es = [Tried ctx]" "call ctx = Inl t"
      "r = Inl (Gateway (error_from t)) \<and> (\<not> should_retry_error (error_from t) \<or> left = 0 \<or> expired (tk_after (ticks i)) d) \<or>
       should_retry_error (error_from t) \<and> r = Inl aborted_error"
  | (again) sl w1 ctx t es' w3 keys' where "select_channel env (tk_start (ticks i)) (tk_draw (ticks i)) (attempt_selection q i tried) w = (Inr sl, w1)"
      "ac_channel ctx = sl_channel sl" "ac_attempt ctx = i" "last_error = None \<or> \<not> expired (tk_start (ticks i)) d"
      "call ctx = Inl t" "should_retry_error (error_from t)"
      "\<not> expired (tk_after (ticks i)) d"
      "es = Tried ctx # (if 0 < retry_pause (ticks i) i d then [Slept (retry_pause (ticks i) i d)] else []) @ es'"
      "only_touched {ch_id (sl_channel sl)} w w3"
      "retry_loop env open_secret call q d ticks left (Suc i) (tried @ [ch_id (sl_channel sl)]) keys' (Some (error_from t)) w3 = (r, es', w')"
proof (cases "tk_aborted (ticks i) \<or> expired (tk_start (ticks i)) d \<and> last_error \<noteq> None")
  case True
  with assms have "es = [] \<and> (\<exists>e. r = Inl e)" by (auto simp: Let_def split: if_splits)
  then show ?thesis using stop by blast
next
  case False
  then have go: "\<not> tk_aborted (ticks i)" "(if expired (tk_start (ticks i)) d then last_error else None) = None" by auto
  let ?tk = "ticks i"
  obtain s w1 where s: "select_channel env (tk_start ?tk) (tk_draw ?tk) (attempt_selection q i tried) w = (s, w1)" by fastforce
  show ?thesis
  proof (cases s)
    case (Inl e)
    with assms go s show ?thesis by (intro stop [of e]) (simp_all add: Let_def)
  next
    case (Inr sl)
    let ?cid = "ch_id (sl_channel sl)"
    have s': "select_channel env (tk_start ?tk) (tk_draw ?tk) (attempt_selection q i tried) w = (Inr sl, w1)"
      using s Inr by simp
    obtain k w2 where k: "pick_channel_key open_secret (tk_start ?tk) ?cid keys w1 = (k, w2)" by fastforce
    have docs: "same_docs w w2" by (rule same_docs_trans [OF select_docs [OF s'] pick_docs [OF k]])
    show ?thesis
    proof (cases k)
      case (Inl e)
      show ?thesis
        by (rule skip [OF s' docs_touched [OF docs]]) (use assms go s' k Inl in \<open>simp add: Let_def\<close>)
    next
      case (Inr key)
      define ctx where "ctx = \<lparr>ac_attempt = i, ac_channel = sl_channel sl, ac_model = sl_model sl, ac_key = key,
                  ac_remaining_ms = remaining_ms (tk_call ?tk) d\<rparr>"
      have c: "ac_channel ctx = sl_channel sl" "ac_attempt ctx = i" "last_error = None \<or> \<not> expired (tk_start ?tk) d"
        using go(2) by (auto simp: ctx_def split: if_splits)
      note head = assms [unfolded retry_loop.simps Let_def if_not_P [OF go(1)] go(2) option.case s' k Inr prod.case sum.case, folded ctx_def]
      show ?thesis
      proof (cases "call ctx")
        case (Inr v)
        with head show ?thesis by (intro answered [OF s' c]) auto
      next
        case (Inl t)
        define w3 where "w3 = note_failure env (tk_after ?tk) ?cid (sk_key_id key) (error_from t) w2"
        have t3: "only_touched {?cid} w w3"
          unfolding w3_def by (rule only_touched_trans [OF docs_touched [OF docs] note_touched(1)])
        note head' = head [unfolded Inl sum.case, folded w3_def]
        show ?thesis
        proof (cases "should_retry_error (error_from t) \<and> \<not> (left = 0 \<or> expired (tk_after ?tk) d) \<and>
            \<not> (0 < retry_pause ?tk i d \<and> tk_sleep_aborted ?tk)")
          case False
          with head' show ?thesis by (intro failed [OF s' c _ Inl]) (auto split: if_splits)
        next
          case True
          obtain r' es' w4 where rec: "retry_loop env open_secret call q d ticks left (Suc i) (tried @ [?cid])
              (keys @ [sk_fingerprint key]) (Some (error_from t)) w3 = (r', es', w4)" by (cases rule: prod_cases3)
          show ?thesis
            by (rule again [OF s' c Inl _ _ _ t3]) (use True head' rec in \<open>auto split: if_splits\<close>)
        qed
      qed
    qed
  qed
qed


subsection \<open>The calls\<close>

definition calls :: "retry_event list \<Rightarrow> attempt_context list" where
  "calls es = concat (map (\<lambda>e. case e of Tried c \<Rightarrow> [c] | Slept _ \<Rightarrow> []) es)"

lemma calls_simps [simp]: "calls [] = []" "calls (Tried c # es) = c # calls es" "calls (Slept n # es) = calls es"
  "calls (xs @ ys) = calls xs @ calls ys"
  by (simp_all add: calls_def)

lemma calls_pause [simp]: "calls ((if b then [Slept n] else []) @ es) = calls es"
  by simp

lemma selected_round:
  assumes "select_channel env now rnd (attempt_selection q i tried) w = (Inr sl, w1)"
  shows "sl_channel sl \<in> set (rw_channels w) \<and> serves (sl_channel sl) (rq_group q) (rq_model q) \<and> ch_id (sl_channel sl) \<notin> set tried"
  using selection_facts [OF assms] by (simp add: attempt_selection_def)

lemma retry_loop_calls:
  assumes "retry_loop env open_secret call q d ticks left i tried keys last_error w = (r, es, w')"
  shows "length (calls es) \<le> left \<and> distinct (map (\<lambda>c. ch_id (ac_channel c)) (calls es)) \<and>
    (\<forall>c \<in> set (calls es). ch_id (ac_channel c) \<notin> set tried \<and> ac_channel c \<in> set (rw_channels w) \<and>
       serves (ac_channel c) (rq_group q) (rq_model q))"
  using assms
proof (induction left arbitrary: i tried keys last_error w r es w')
  case (Suc left)
  from Suc.prems show ?case
  proof (cases rule: retry_round)
    case (skip sl w1 w2 e)
    show ?thesis using Suc.IH [OF skip(3)] skip(2) by (auto simp: only_touched_def)
  next
    case (again sl w1 ctx t es' w3 keys')
    from Suc.IH [OF again(10)] again(9) selected_round [OF again(1)] again(2) show ?thesis
      unfolding again(8) by (auto simp: only_touched_def)
  qed (use selected_round in auto)
qed simp

lemma retry_loop_final:
  assumes "retry_loop env open_secret call q d ticks left i tried keys last_error w = (r, es, w')"
  shows "(\<forall>c \<in> set (butlast (calls es)). \<exists>t. call c = Inl t \<and> should_retry_error (error_from t)) \<and>
    (\<forall>out. r = Inr out \<longrightarrow> (calls es \<noteq> [] \<and> call (last (calls es)) = Inr (ro_value out) \<and>
        ro_channel_id out = ch_id (ac_channel (last (calls es))) \<and> ro_attempts out = ac_attempt (last (calls es)) + 1)) \<and>
    (\<forall>c \<in> set (calls es). \<forall>t. call c = Inl t \<longrightarrow> \<not> should_retry_error (error_from t) \<longrightarrow>
        c = last (calls es) \<and> r = Inl (Gateway (error_from t)))"
  using assms
proof (induction left arbitrary: i tried keys last_error w r es w')
  case (Suc left)
  from Suc.prems show ?case
  proof (cases rule: retry_round)
    case (skip sl w1 w2 e)
    show ?thesis using Suc.IH [OF skip(3)] .
  next
    case (again sl w1 ctx t es' w3 keys')
    from Suc.IH [OF again(10)] again(5,6) show ?thesis unfolding again(8) by auto
  qed auto
qed simp

lemma retry_loop_budget:
  assumes "retry_loop env open_secret call q d ticks left i tried keys last_error w = (r, es, w')"
  shows "(last_error \<noteq> None \<longrightarrow> (\<forall>c \<in> set (calls es). \<not> expired (tk_start (ticks (ac_attempt c))) d)) \<and>
    (\<forall>c \<in> set (tl (calls es)). \<not> expired (tk_start (ticks (ac_attempt c))) d) \<and>
    (\<forall>c \<in> set (calls es). i \<le> ac_attempt c \<and> ac_attempt c < i + left) \<and>
    (\<forall>n. Slept n \<in> set es \<longrightarrow> 0 < n \<and> (\<exists>j < i + left. n = retry_pause (ticks j) j d))"
  using assms
proof (induction left arbitrary: i tried keys last_error w r es w')
  case (Suc left)
  from Suc.prems show ?case
  proof (cases rule: retry_round)
    case (skip sl w1 w2 e)
    from Suc.IH [OF skip(3)] show ?thesis
      by (intro conjI) (force dest: list.set_sel(2) [rotated], force dest: list.set_sel(2) [rotated], force, force)
  next
    case (again sl w1 ctx t es' w3 keys')
    from Suc.IH [OF again(10)] have ih: "\<forall>c \<in> set (calls es'). \<not> expired (tk_start (ticks (ac_attempt c))) d"
      "\<forall>c \<in> set (calls es'). Suc i \<le> ac_attempt c \<and> ac_attempt c < Suc i + left"
      "\<forall>n. Slept n \<in> set es' \<longrightarrow> 0 < n \<and> (\<exists>j < Suc i + left. n = retry_pause (ticks j) j d)"
      by blast+
    have "\<forall>c \<in> set (calls es'). i \<le> ac_attempt c \<and> ac_attempt c < i + Suc left" using ih(2) by auto
    moreover have "\<forall>n. Slept n \<in> set es \<longrightarrow> 0 < n \<and> (\<exists>j < i + Suc left. n = retry_pause (ticks j) j d)"
      unfolding again(8) using ih(3) by auto (metis le_add1 less_Suc_eq_le)
    ultimately show ?thesis using ih(1) again(3,4) unfolding again(8) by auto
  qed auto
qed simp

text \<open>C38: whatever the calls answer and whatever fails on the way, one request never calls the same channel
  twice, makes at most the configured number of calls, and calls only channels that are configured
  and serve its group and model.\<close>
theorem retry_never_repeats:
  assumes "with_channel_retry env open_secret call q now ticks w = (r, es, w')"
  shows "length (calls es) \<le> max_attempts env q \<and> distinct (map (\<lambda>c. ch_id (ac_channel c)) (calls es)) \<and>
    (\<forall>c \<in> set (calls es). ac_channel c \<in> set (rw_channels w) \<and> serves (ac_channel c) (rq_group q) (rq_model q))"
  using retry_loop_calls [OF assms [unfolded with_channel_retry_def]] by simp

text \<open>Only a retryable failure is followed by another call. A success is the answer of the last call, and a
  failure no other channel could mend (a malformed body, an abort, a gateway-side refusal such as
  exhausted quota, an upstream status outside the matrix) is the last call and the outcome.\<close>
theorem retry_only_what_can_be_mended:
  assumes "with_channel_retry env open_secret call q now ticks w = (r, es, w')"
  shows "(\<forall>c \<in> set (butlast (calls es)). \<exists>t. call c = Inl t \<and> should_retry_error (error_from t)) \<and>
    (\<forall>out. r = Inr out \<longrightarrow> calls es \<noteq> [] \<and> call (last (calls es)) = Inr (ro_value out) \<and>
        ro_channel_id out = ch_id (ac_channel (last (calls es))) \<and> ro_attempts out = ac_attempt (last (calls es)) + 1) \<and>
    (\<forall>c \<in> set (calls es). \<forall>t. call c = Inl t \<longrightarrow> \<not> should_retry_error (error_from t) \<longrightarrow>
        c = last (calls es) \<and> r = Inl (Gateway (error_from t)))"
  using retry_loop_final [OF assms [unfolded with_channel_retry_def]] by simp

text \<open>No call after the first is started once the time budget is used up, and a pause between calls never
  reaches past the budget nor past eight seconds.\<close>
theorem retry_within_budget:
  assumes "with_channel_retry env open_secret call q now ticks w = (r, es, w')"
    "\<forall>i. 0 \<le> tk_jitter (ticks i) \<and> tk_jitter (ticks i) < 1"
  shows "(\<forall>c \<in> set (tl (calls es)). \<not> expired (tk_start (ticks (ac_attempt c))) (retry_deadline env q now)) \<and>
    (\<forall>n. Slept n \<in> set es \<longrightarrow> 0 < n \<and> n < 8000 \<and> (\<exists>j < max_attempts env q. n \<le> remaining_ms (tk_after (ticks j)) (retry_deadline env q now)))"
proof -
  have pause: "retry_pause (ticks j) j d < 8000 \<and> retry_pause (ticks j) j d \<le> remaining_ms (tk_after (ticks j)) d" for j d
    using backoff_bounds [of "tk_jitter (ticks j)" 200 8000 "int j"] assms(2) by (auto simp: retry_pause_def)
  note facts = retry_loop_budget [OF assms(1) [unfolded with_channel_retry_def]]
  have "0 < n \<and> n < 8000 \<and> (\<exists>j < max_attempts env q. n \<le> remaining_ms (tk_after (ticks j)) (retry_deadline env q now))"
    if n: "Slept n \<in> set es" for n
  proof -
    obtain j where j: "0 < n" "j < max_attempts env q" "n = retry_pause (ticks j) j (retry_deadline env q now)"
      using facts n by auto
    with pause [of j "retry_deadline env q now"] show ?thesis by auto
  qed
  then show ?thesis using facts by blast
qed

definition no_jitter :: "nat \<Rightarrow> tick" where
  "no_jitter i = \<lparr>tk_start = 100 + int i, tk_call = 100 + int i, tk_after = 100 + int i, tk_aborted = False,
     tk_sleep_aborted = False, tk_jitter = 1 / 2, tk_draw = (\<lambda>_. 0)\<rparr>"

definition two_channels :: routing_world where
  "two_channels = (sample_routing [sample_channel ''c1'' 9 0, sample_channel ''c2'' 5 0] [])
     \<lparr>rw_keys := [sample_key ''k1'' 1, (sample_key ''k2'' 1)\<lparr>ck_channel_id := ''c2''\<rparr>]\<rparr>"

definition sample_retry :: retry_request where
  "sample_retry = \<lparr>rq_group = ''default'', rq_model = ''gpt-4'', rq_affinity_hash = None, rq_max_attempts = None,
     rq_budget_ms = None\<rparr>"

text \<open>The first channel answers 503, the second one answers.\<close>

definition sample_busy :: gateway_error where
  "sample_busy = \<lparr>ge_code = UpstreamErr, ge_status = 503, ge_message = ''busy'', ge_kind = ApiError, ge_param = None,
     ge_retryable = True, ge_upstream_status = Some 503, ge_channel_id = None, ge_details = []\<rparr>"

definition second_answers :: "attempt_context \<Rightarrow> thrown + string" where
  "second_answers c = (if ch_id (ac_channel c) = ''c1'' then Inl (Gateway sample_busy) else Inr ''ok'')"

definition sample_run :: "(thrown + string relay_outcome) \<times> retry_event list \<times> routing_world" where
  "sample_run = with_channel_retry no_env (\<lambda>k. Inr (ck_cipher k)) second_answers sample_retry 100 no_jitter two_channels"

lemma sample_run_calls: "map (\<lambda>c. ch_id (ac_channel c)) (calls (fst (snd sample_run))) = [''c1'', ''c2'']"
  by code_simp

lemma sample_run_pair: "with_channel_retry no_env (\<lambda>k. Inr (ck_cipher k)) second_answers sample_retry 100 no_jitter two_channels =
    (fst sample_run, fst (snd sample_run), snd (snd sample_run))"
  by (simp add: sample_run_def)

theorem retry_never_repeats_witness:
  "2 \<le> max_attempts no_env sample_retry \<and>
   list_all (\<lambda>c. serves (ac_channel c) ''default'' ''gpt-4'') (calls (fst (snd sample_run)))"
proof -
  have "length (calls (fst (snd sample_run))) = 2"
    using sample_run_calls by (metis length_map length_Cons list.size(3) numeral_2_eq_2)
  with retry_never_repeats [OF sample_run_pair] show ?thesis by (simp add: sample_retry_def list_all_iff)
qed

theorem retry_only_what_can_be_mended_witness:
  "\<exists>c t. ch_id (ac_channel c) = ''c1'' \<and> second_answers c = Inl t \<and> should_retry_error (error_from t)"
proof -
  from sample_run_calls obtain a b where ab: "calls (fst (snd sample_run)) = [a, b]" "ch_id (ac_channel a) = ''c1''"
    by (auto simp: map_eq_Cons_conv)
  with retry_only_what_can_be_mended [OF sample_run_pair] show ?thesis by auto
qed

theorem retry_within_budget_witness:
  "\<exists>c :: attempt_context. ch_id (ac_channel c) = ''c2'' \<and> \<not> expired (tk_start (no_jitter (ac_attempt c))) (retry_deadline no_env sample_retry 100)"
proof -
  from sample_run_calls obtain a b where ab: "calls (fst (snd sample_run)) = [a, b]" "ch_id (ac_channel b) = ''c2''"
    by (auto simp: map_eq_Cons_conv)
  have "\<forall>i. 0 \<le> tk_jitter (no_jitter i) \<and> tk_jitter (no_jitter i) < 1" by (simp add: no_jitter_def)
  from retry_within_budget [OF sample_run_pair this] ab show ?thesis by (auto intro!: exI [of _ b])
qed

end
