(* ===== verification/Addresses.thy ===== *)
theory Addresses
  imports Prelude "HOL-Library.Word"
begin

text \<open>
  Internet addresses, \<open>src/lib/auth/cidr.ts\<close>: the strict dotted quad, IPv6 with one \<open>::\<close> and an
  embedded IPv4 tail, IPv4-mapped addresses collapsed to four bytes, and membership in a CIDR
  block by comparing bytes. A byte array is a list of \<^typ>\<open>8 word\<close>.
\<close>

unbundle bit_operations_syntax

type_synonym byte = "8 word"

fun find_str :: "string \<Rightarrow> string \<Rightarrow> nat option" where
  "find_str p [] = (if p = [] then Some 0 else None)"
| "find_str p (c # cs) = (if starts_with p (c # cs) then Some 0 else map_option Suc (find_str p cs))"

definition octet :: "string \<Rightarrow> byte option" where
  "octet part =
     (if part = [] \<or> length part > 3 then None
      else if length part > 1 \<and> hd part = CHR ''0'' then None
      else if \<not> list_all is_digit part then None
      else let n = digits_val part in if n > 255 then None else Some (of_nat n))"

definition parse_ipv4 :: "string \<Rightarrow> byte list option" where
  "parse_ipv4 value =
     (let parts = split_on CHR ''.'' value in
      if length parts \<noteq> 4 then None else those (map octet parts))"

definition hex_group :: "string \<Rightarrow> bool" where
  "hex_group g \<longleftrightarrow> 1 \<le> length g \<and> length g \<le> 4 \<and> list_all is_hex g"

text \<open>The bytes the groups write from position \<open>pos\<close> on.\<close>

fun emit_groups :: "nat \<Rightarrow> string list \<Rightarrow> byte list option" where
  "emit_groups pos [] = Some []"
| "emit_groups pos (g # gs) =
     (if CHR ''.'' \<in> set g then
        (if gs \<noteq> [] then None
         else (case parse_ipv4 g of None \<Rightarrow> None | Some v4 \<Rightarrow> if pos + 4 > 16 then None else Some v4))
      else if \<not> hex_group g \<or> pos + 2 > 16 then None
      else let n = hex_digits_val g in
        map_option (\<lambda>rest. of_nat (n div 256) # of_nat n # rest) (emit_groups (pos + 2) gs))"

definition parse_ipv6 :: "string \<Rightarrow> byte list option" where
  "parse_ipv6 value =
     (let t1 = (if starts_with ''['' value \<and> ends_with '']'' value then tl (butlast value) else value);
          text = (case index_of CHR ''%'' t1 of None \<Rightarrow> t1 | Some z \<Rightarrow> take z t1)
      in if CHR '':'' \<notin> set text then None
         else if length text > 45 then None
         else (case find_str ''::'' text of
             None \<Rightarrow> (case emit_groups 0 (split_on CHR '':'' text) of
                 None \<Rightarrow> None
               | Some bytes \<Rightarrow> if length bytes = 16 then Some bytes else None)
           | Some dc \<Rightarrow>
               if find_str ''::'' (drop (dc + 1) text) \<noteq> None then None
               else
                 let before = take dc text; after = drop (dc + 2) text;
                     head = (if before = [] then [] else split_on CHR '':'' before);
                     tail = (if after = [] then [] else split_on CHR '':'' after)
                 in (case emit_groups 0 head of
                     None \<Rightarrow> None
                   | Some hs \<Rightarrow> (case emit_groups 0 tail of
                         None \<Rightarrow> None
                       | Some ts \<Rightarrow>
                           if length hs + length ts > 14 then None
                           else Some (hs @ replicate (16 - length hs - length ts) 0 @ ts)))))"

definition ip_to_bytes :: "string \<Rightarrow> byte list option" where
  "ip_to_bytes ip =
     (let value = js_trim ip in
      if value = [] \<or> length value > 64 then None
      else (case parse_ipv4 value of
          Some v4 \<Rightarrow> Some v4
        | None \<Rightarrow> (case parse_ipv6 value of
              None \<Rightarrow> None
            | Some v6 \<Rightarrow>
                if list_all (\<lambda>b. b = 0) (take 10 v6) \<and> v6 ! 10 = 255 \<and> v6 ! 11 = 255
                then Some (drop 12 v6) else Some v6)))"

definition is_valid_ip :: "string \<Rightarrow> bool" where
  "is_valid_ip ip \<longleftrightarrow> ip_to_bytes ip \<noteq> None"

definition parse_cidr :: "string \<Rightarrow> (byte list \<times> nat) option" where
  "parse_cidr cidr =
     (let value = js_trim cidr in
      if value = [] then None
      else
        let slash = last_index_of CHR ''/'' value;
            base = (case slash of None \<Rightarrow> value | Some s \<Rightarrow> take s value)
        in (case ip_to_bytes base of
            None \<Rightarrow> None
          | Some bytes \<Rightarrow>
              let width = length bytes * 8 in
              (case slash of
                 None \<Rightarrow> Some (bytes, width)
               | Some s \<Rightarrow>
                   let suffix = drop (s + 1) value in
                   if suffix = [] \<or> length suffix > 3 then None
                   else if \<not> list_all is_digit suffix then None
                   else let bits = digits_val suffix in
                     if bits > width then None else Some (bytes, bits))))"

definition prefix_agrees :: "nat \<Rightarrow> byte list \<Rightarrow> byte list \<Rightarrow> bool" where
  "prefix_agrees bits rule target \<longleftrightarrow>
     (let full = bits div 8; remaining = bits mod 8 in
      take full target = take full rule \<and>
      (remaining = 0 \<or>
       (let mask = push_bit (8 - remaining) 255 :: byte in
        (target ! full) AND mask = (rule ! full) AND mask)))"

definition cidr_contains :: "string \<Rightarrow> string \<Rightarrow> bool" where
  "cidr_contains cidr ip =
     (case parse_cidr cidr of
        None \<Rightarrow> False
      | Some (bytes, bits) \<Rightarrow> (case ip_to_bytes ip of
            None \<Rightarrow> False
          | Some target \<Rightarrow> if length target \<noteq> length bytes then False else prefix_agrees bits bytes target))"

definition matches_any_cidr :: "string list \<Rightarrow> string \<Rightarrow> bool" where
  "matches_any_cidr cidrs ip = list_ex (\<lambda>c. cidr_contains c ip) cidrs"

subsection \<open>Bytes as numbers\<close>

fun bytes_val :: "byte list \<Rightarrow> nat" where
  "bytes_val [] = 0"
| "bytes_val (b # bs) = unat b * 256 ^ length bs + bytes_val bs"

lemma unat_byte: "unat (b :: byte) < 256"
  using unsigned_less [of b, where 'a = nat] by simp

lemma bytes_val_bound: "bytes_val bs < 256 ^ length bs"
proof (induction bs)
  case (Cons b bs)
  have "unat b * 256 ^ length bs + bytes_val bs < (unat b + 1) * 256 ^ length bs" using Cons by simp
  also have "\<dots> \<le> 256 * 256 ^ length bs" using unat_byte [of b] by (intro mult_right_mono) simp_all
  finally show ?case by simp
qed simp

lemma mask_agree:
  fixes x y :: byte
  assumes "r < 8"
  shows "x AND push_bit (8 - r) 255 = y AND push_bit (8 - r) 255 \<longleftrightarrow> unat x div 2 ^ (8 - r) = unat y div 2 ^ (8 - r)"
proof -
  have m: "(255 :: byte) = mask 8" by (simp add: mask_eq_exp_minus_1)
  have "x AND push_bit (8 - r) 255 = y AND push_bit (8 - r) 255 \<longleftrightarrow> drop_bit (8 - r) x = drop_bit (8 - r) y" (is "?l \<longleftrightarrow> ?r")
  proof
    assume l: ?l
    show ?r
    proof (rule bit_eqI)
      fix n assume "possible_bit TYPE(8 word) n"
      show "bit (drop_bit (8 - r) x) n \<longleftrightarrow> bit (drop_bit (8 - r) y) n"
      proof (cases "8 - r + n < 8")
        case True
        have "bit (x AND push_bit (8 - r) 255) (8 - r + n) \<longleftrightarrow> bit (y AND push_bit (8 - r) 255) (8 - r + n)" using l by simp
        with True show ?thesis by (simp add: m bit_simps)
      next
        case False
        then show ?thesis by (auto simp: bit_simps dest: bit_imp_le_length)
      qed
    qed
  next
    assume r: ?r
    show ?l
    proof (rule bit_eqI)
      fix n assume "possible_bit TYPE(8 word) n"
      have "bit (drop_bit (8 - r) x) (n - (8 - r)) \<longleftrightarrow> bit (drop_bit (8 - r) y) (n - (8 - r))" using r by simp
      then show "bit (x AND push_bit (8 - r) 255) n \<longleftrightarrow> bit (y AND push_bit (8 - r) 255) n"
        by (auto simp: m bit_simps)
    qed
  qed
  also have "\<dots> \<longleftrightarrow> unat (drop_bit (8 - r) x) = unat (drop_bit (8 - r) y)" by (rule word_unat_eq_iff)
  also have "\<dots> \<longleftrightarrow> unat x div 2 ^ (8 - r) = unat y div 2 ^ (8 - r)"
    unfolding unat_drop_bit_eq unfolding drop_bit_eq_div ..
  finally show ?thesis .
qed

lemma digit_pair_eq:
  fixes k :: nat
  assumes "b < k" "d < k"
  shows "a * k + b = c * k + d \<longleftrightarrow> a = c \<and> b = d"
proof
  assume e: "a * k + b = c * k + d"
  then have "(a * k + b) div k = (c * k + d) div k" by simp
  then have "a = c" using assms by simp
  with e show "a = c \<and> b = d" by simp
qed simp

lemma top_digit:
  assumes "v < 256 ^ n" "e \<le> 8"
  shows "(u * 256 ^ n + v) div 2 ^ (e + 8 * n) = (u div 2 ^ e :: nat)"
proof -
  have "(2 :: nat) ^ (8 * n) = 256 ^ n" by (simp add: power_mult)
  then have p: "(2 :: nat) ^ (e + 8 * n) = 256 ^ n * 2 ^ e" by (simp only: power_add mult.commute)
  have "(u * 256 ^ n + v) div 2 ^ (e + 8 * n) = (u * 256 ^ n + v) div 256 ^ n div 2 ^ e"
    by (simp only: p div_mult2_eq)
  also have "\<dots> = u div 2 ^ e" using assms(1) by simp
  finally show ?thesis .
qed

lemma low_digits:
  assumes "v < 256 ^ n" "e \<le> 8 * n"
  shows "(u * 256 ^ n + v) div 2 ^ e = u * 2 ^ (8 * n - e) + v div 2 ^ e" "v div 2 ^ e < (2 :: nat) ^ (8 * n - e)"
proof -
  have p: "(256 :: nat) ^ n = 2 ^ (8 * n - e) * 2 ^ e"
    using assms(2) by (simp add: power_add [symmetric] power_mult)
  show "(u * 256 ^ n + v) div 2 ^ e = u * 2 ^ (8 * n - e) + v div 2 ^ e"
    unfolding p by (simp add: mult.assoc [symmetric])
  show "v div 2 ^ e < (2 :: nat) ^ (8 * n - e)"
    using assms(1) unfolding p by (simp add: less_mult_imp_div_less)
qed

lemma prefix_agrees_Cons:
  "8 \<le> bits \<Longrightarrow> prefix_agrees bits (x # xs) (y # ys) \<longleftrightarrow> y = x \<and> prefix_agrees (bits - 8) xs ys"
  by (auto simp: prefix_agrees_def Let_def le_div_geq le_mod_geq)

lemma prefix_agrees_div:
  assumes "length rule = length target" "bits \<le> 8 * length rule"
  shows "prefix_agrees bits rule target \<longleftrightarrow>
    bytes_val rule div 2 ^ (8 * length rule - bits) = bytes_val target div 2 ^ (8 * length rule - bits)"
  using assms
proof (induction rule target arbitrary: bits rule: list_induct2)
  case Nil
  then show ?case by (simp add: prefix_agrees_def)
next
  case (Cons x xs y ys)
  let ?n = "length xs"
  have bx: "bytes_val xs < 256 ^ ?n" "bytes_val ys < 256 ^ ?n"
    using bytes_val_bound [of xs] bytes_val_bound [of ys] Cons.hyps by simp_all
  show ?case
  proof (cases "8 \<le> bits")
    case True
    let ?e = "8 * ?n - (bits - 8)"
    have e: "8 * length (x # xs) - bits = ?e" "?e \<le> 8 * ?n" using True by simp_all
    have "prefix_agrees bits (x # xs) (y # ys) \<longleftrightarrow> x = y \<and> bytes_val xs div 2 ^ ?e = bytes_val ys div 2 ^ ?e"
      using Cons.IH [of "bits - 8"] Cons.prems True prefix_agrees_Cons [OF True] by auto
    also have "\<dots> \<longleftrightarrow> unat x = unat y \<and> bytes_val xs div 2 ^ ?e = bytes_val ys div 2 ^ ?e"
      by (simp only: word_unat_eq_iff)
    also have "\<dots> \<longleftrightarrow> bytes_val (x # xs) div 2 ^ ?e = bytes_val (y # ys) div 2 ^ ?e"
      using Cons.hyps low_digits [OF bx(1) e(2)] low_digits [OF bx(2) e(2)]
      by (simp add: digit_pair_eq)
    finally show ?thesis unfolding e(1) .
  next
    case False
    let ?e = "8 - bits"
    have e: "8 * length (x # xs) - bits = ?e + 8 * ?n" "?e \<le> 8" using False by simp_all
    have "prefix_agrees bits (x # xs) (y # ys) \<longleftrightarrow> unat x div 2 ^ ?e = unat y div 2 ^ ?e"
    proof (cases "bits = 0")
      case True
      then show ?thesis using unat_byte [of x] unat_byte [of y] by (simp add: prefix_agrees_def)
    next
      case b: False
      then show ?thesis using False mask_agree [of bits y x] by (auto simp: prefix_agrees_def)
    qed
    also have "\<dots> \<longleftrightarrow> bytes_val (x # xs) div 2 ^ (?e + 8 * ?n) = bytes_val (y # ys) div 2 ^ (?e + 8 * ?n)"
      using Cons.hyps top_digit [OF bx(1) e(2)] top_digit [OF bx(2) e(2)] by simp
    finally show ?thesis unfolding e(1) .
  qed
qed

subsection \<open>The dotted quad\<close>

definition dotted :: "byte list \<Rightarrow> string" where
  "dotted bs = join_with ''.'' (map (\<lambda>b. show_nat (unat b)) bs)"

lemma char_of_digit: "is_digit c \<Longrightarrow> char_of (48 + (of_char c - 48 :: nat)) = c \<and> (of_char c - 48 :: nat) < 10"
  by (auto simp: is_digit_def Let_def)

lemma show_zero: "show_nat 0 = ''0''"
  by code_simp

lemma digits_zero: "digits_val ''0'' = 0"
  by code_simp

lemma show_digits:
  assumes "s \<noteq> []" "list_all is_digit s" "length s > 1 \<Longrightarrow> hd s \<noteq> CHR ''0''"
  shows "show_nat (digits_val s) = s"
  using assms
proof (induction s rule: rev_induct)
  case (snoc c s)
  let ?d = "of_char c - 48 :: nat"
  have c: "char_of (48 + ?d) = c" "?d < 10" using snoc.prems(2) char_of_digit [of c] by auto
  show ?case
  proof (cases "s = []")
    case True
    with c show ?thesis by (simp add: digits_val_def show_nat.simps)
  next
    case False
    then have hd: "hd s \<noteq> CHR ''0''" using snoc.prems(3) by simp
    have ih: "show_nat (digits_val s) = s" using snoc False hd by simp
    have "digits_val s \<noteq> 0"
    proof
      assume "digits_val s = 0"
      with ih have "s = ''0''" by (simp add: show_zero)
      with hd show False by simp
    qed
    then have "\<not> 10 * digits_val s + ?d < 10" by simp
    moreover have "(10 * digits_val s + ?d) div 10 = digits_val s" "(10 * digits_val s + ?d) mod 10 = ?d" using c(2) by simp_all
    ultimately show ?thesis using ih c(1)
      by (simp add: digits_val_snoc show_nat.simps [of "10 * digits_val s + ?d"])
  qed
qed simp

lemma show_nat_head: "show_nat n \<noteq> ''0'' \<Longrightarrow> hd (show_nat n) \<noteq> CHR ''0''"
proof (induction n rule: show_nat.induct)
  case (1 n)
  show ?case
  proof (cases "n < 10")
    case True
    with "1.prems" show ?thesis by (auto simp: show_nat.simps [of n] char_of_eq_iff)
  next
    case False
    have "show_nat (n div 10) \<noteq> ''0''"
    proof
      assume "show_nat (n div 10) = ''0''"
      then have "n div 10 = 0" using digits_zero by (metis digits_val_show_nat)
      with False show False by simp
    qed
    with 1 False show ?thesis by (simp add: show_nat.simps [of n])
  qed
qed

lemma length_show_byte: "n < 256 \<Longrightarrow> length (show_nat n) \<le> 3"
  by (simp add: show_nat.simps [of n] show_nat.simps [of "n div 10"] show_nat.simps [of "n div 10 div 10"])

lemma octet_iff: "octet p = Some b \<longleftrightarrow> p = show_nat (unat b)"
proof
  assume o: "octet p = Some b"
  then have p: "p \<noteq> []" "list_all is_digit p" "length p > 1 \<Longrightarrow> hd p \<noteq> CHR ''0''" "digits_val p \<le> 255" "b = of_nat (digits_val p)"
    by (auto simp: octet_def Let_def split: if_splits)
  then have "unat b = digits_val p" by (simp add: unat_of_nat)
  with show_digits [OF p(1-3)] show "p = show_nat (unat b)" by simp
next
  assume p: "p = show_nat (unat b)"
  have "length p > 1 \<Longrightarrow> hd p \<noteq> CHR ''0''" using show_nat_head [of "unat b"] p by force
  moreover have "list_all is_digit p" using p by (simp add: list_all_iff show_nat_digits)
  moreover have "length p \<le> 3" using p length_show_byte unat_byte by blast
  moreover have "unat b \<le> 255" using unat_byte [of b] by simp
  ultimately show "octet p = Some b" using p by (auto simp: octet_def Let_def)
qed

lemma those_Some: "those xs = Some ys \<longleftrightarrow> xs = map Some ys"
  by (induction xs arbitrary: ys) (auto split: option.splits)

lemma digit_no_dot: "c \<in> set (show_nat n) \<Longrightarrow> c \<noteq> CHR ''.'' \<and> c \<noteq> CHR '':'' \<and> c \<noteq> CHR ''%'' \<and> c \<noteq> CHR ''['' \<and> \<not> is_ws c"
  using show_nat_digits [of c n] by (auto simp: is_digit_def is_ws_def Let_def)

lemma dotted_no: "c \<in> set (dotted bs) \<Longrightarrow> c = CHR ''.'' \<or> is_digit c"
proof -
  have "c \<in> set (join_with ''.'' xs) \<Longrightarrow> c = CHR ''.'' \<or> (\<exists>x \<in> set xs. c \<in> set x)" for xs
    by (induction "''.''" xs rule: join_with.induct) auto
  then show "c \<in> set (dotted bs) \<Longrightarrow> c = CHR ''.'' \<or> is_digit c"
    using show_nat_digits by (fastforce simp: dotted_def)
qed

lemma parse_ipv4_iff: "parse_ipv4 s = Some bs \<longleftrightarrow> length bs = 4 \<and> s = dotted bs"
proof
  assume a: "parse_ipv4 s = Some bs"
  then have p: "length (split_on CHR ''.'' s) = 4" "map octet (split_on CHR ''.'' s) = map Some bs"
    by (auto simp: parse_ipv4_def Let_def those_Some split: if_splits)
  from p(2) have "split_on CHR ''.'' s = map (\<lambda>b. show_nat (unat b)) bs"
    by (auto simp: list_eq_iff_nth_eq octet_iff dest!: map_eq_imp_length_eq)
  then have "s = dotted bs" using join_split_on [of "CHR ''.''" s] by (simp add: dotted_def)
  with p show "length bs = 4 \<and> s = dotted bs" by (metis length_map)
next
  assume a: "length bs = 4 \<and> s = dotted bs"
  have "split_on CHR ''.'' s = map (\<lambda>b. show_nat (unat b)) bs"
    unfolding a [THEN conjunct2] dotted_def using a digit_no_dot by (intro split_join_on) auto
  then show "parse_ipv4 s = Some bs"
    using a by (simp add: parse_ipv4_def those_Some comp_def octet_iff)
qed

subsection \<open>Mapped addresses\<close>

lemma trim_no_ws: "(\<And>c. c \<in> set s \<Longrightarrow> \<not> is_ws c) \<Longrightarrow> js_trim s = s"
proof -
  have "dropWhile is_ws s = s" if "\<And>c. c \<in> set s \<Longrightarrow> \<not> is_ws c" for s
    using that by (cases s) auto
  then show "(\<And>c. c \<in> set s \<Longrightarrow> \<not> is_ws c) \<Longrightarrow> js_trim s = s"
    unfolding js_trim_def by (metis rev_rev_ident set_rev)
qed

lemma digit_facts: "is_digit c \<Longrightarrow> \<not> is_ws c \<and> c \<noteq> CHR '':'' \<and> c \<noteq> CHR ''%'' \<and> c \<noteq> CHR ''['' \<and> c \<noteq> CHR ''/'' \<and> c \<noteq> CHR ''-''"
  by (auto simp: is_digit_def is_ws_def Let_def)

lemma dotted_facts: "c \<in> set (dotted bs) \<Longrightarrow> \<not> is_ws c \<and> c \<noteq> CHR '':'' \<and> c \<noteq> CHR ''%'' \<and> c \<noteq> CHR ''['' \<and> c \<noteq> CHR ''/''"
  using dotted_no [of c bs] digit_facts [of c] by (auto simp: is_ws_def)

lemma index_of_None: "index_of c s = None \<longleftrightarrow> c \<notin> set s"
  by (induction s) auto

lemma find_colons_None: "CHR '':'' \<notin> set s \<Longrightarrow> find_str ''::'' s = None"
  by (induction s) auto

lemma length_join: "length (join_with [c] xs) = sum_list (map length xs) + (length xs - 1)"
  by (induction "[c]" xs rule: join_with.induct) auto

lemma length_dotted: "length bs = 4 \<Longrightarrow> 7 \<le> length (dotted bs) \<and> length (dotted bs) \<le> 15"
proof -
  assume l: "length bs = 4"
  have b: "1 \<le> length (show_nat (unat b)) \<and> length (show_nat (unat b)) \<le> 3" for b :: byte
    using length_show_byte [OF unat_byte [of b]] by (simp add: Suc_le_eq)
  from l obtain a b c d where bs: "bs = [a, b, c, d]"
    by (auto simp: length_Suc_conv eval_nat_numeral)
  show ?thesis using b [of a] b [of b] b [of c] b [of d] by (simp add: dotted_def bs length_join)
qed

lemma dotted_dot: "length bs = 4 \<Longrightarrow> CHR ''.'' \<in> set (dotted bs)"
  by (auto simp: dotted_def length_Suc_conv eval_nat_numeral)

lemma dotted_bytes:
  assumes "length bs = 4"
  shows "ip_to_bytes (dotted bs) = Some bs"
proof -
  have "js_trim (dotted bs) = dotted bs" using dotted_facts by (intro trim_no_ws) blast
  moreover have "dotted bs \<noteq> []" "length (dotted bs) \<le> 64" using length_dotted [OF assms] by auto
  ultimately show ?thesis using assms parse_ipv4_iff [of "dotted bs" bs] by (simp add: ip_to_bytes_def Let_def)
qed

lemma mapped_bytes:
  assumes "length bs = 4"
  shows "ip_to_bytes (''::ffff:'' @ dotted bs) = Some bs"
proof -
  let ?v = "''::ffff:'' @ dotted bs"
  have "\<not> is_ws c" if "c \<in> set ?v" for c
    using that dotted_facts [of c bs] by (auto simp: is_ws_def)
  then have trim: "js_trim ?v = ?v" by (rule trim_no_ws)
  have len: "length ?v \<le> 45" using length_dotted [OF assms] by simp
  have "CHR '':'' \<notin> set (dotted bs)" for bs using dotted_facts by blast
  then have v4: "parse_ipv4 ?v = None"
    using parse_ipv4_iff [of ?v] by (cases "parse_ipv4 ?v") (auto simp del: append_Cons, metis list.set_intros(1) append_Cons)
  have colon: "CHR '':'' \<notin> set (dotted bs)" and pct: "CHR ''%'' \<notin> set ?v" using dotted_facts by fastforce+
  have idx: "index_of CHR ''%'' ?v = None" using pct by (simp only: index_of_None) blast
  have dc: "find_str ''::'' ?v = Some 0" by simp
  have dc2: "find_str ''::'' (drop 1 ?v) = None"
    using find_colons_None [OF colon] colon by (cases "dotted bs") auto
  have split: "split_on CHR '':'' (drop 2 ?v) = [''ffff'', dotted bs]"
    using split_on_append [of "CHR '':''" "''ffff''" "dotted bs"] split_on_single [OF colon] by simp
  have "hex_group ''ffff''" "hex_digits_val ''ffff'' = 65535" by code_simp+
  then have emit: "emit_groups 0 [''ffff'', dotted bs] = Some ([255, 255] @ bs)"
    using dotted_dot [OF assms] parse_ipv4_iff [of "dotted bs" bs] assms by simp
  have "parse_ipv6 ?v = Some (replicate 10 0 @ [255, 255] @ bs)"
    using len idx dc dc2 split emit assms
    by (simp add: parse_ipv6_def Let_def del: index_of.simps split_on.simps find_str.simps emit_groups.simps(2))
  then show ?thesis using trim v4 len by (simp add: ip_to_bytes_def Let_def nth_append list_all_iff)
qed

text \<open>The dotted-quad parser accepts exactly the canonical spelling of four bytes: decimal without leading
  zeros, so an address that another parser would read as octal is refused, and every address read
  prints back to the text it was read from.\<close>
theorem dotted_quad_is_canonical:
  "parse_ipv4 s = Some bs \<longleftrightarrow> length bs = 4 \<and> s = dotted bs"
  by (rule parse_ipv4_iff)

text \<open>C40: a rule contains an address exactly when both are of the same family and their numbers agree above
  the prefix length; a rule or an address that does not parse matches nothing. The byte and mask
  loop of the code is this comparison of numbers.\<close>
theorem cidr_is_a_prefix:
  "cidr_contains cidr ip \<longleftrightarrow> (case (parse_cidr cidr, ip_to_bytes ip) of
      (Some (rule, bits), Some target) \<Rightarrow> length target = length rule \<and> bits \<le> 8 * length rule \<and>
        bytes_val target div 2 ^ (8 * length rule - bits) = bytes_val rule div 2 ^ (8 * length rule - bits)
    | _ \<Rightarrow> False)"
proof -
  have width: "bits \<le> 8 * length rule" if "parse_cidr cidr = Some (rule, bits)" for rule bits
    using that by (auto simp: parse_cidr_def Let_def mult.commute split: option.splits if_splits)
  show ?thesis
    by (cases "parse_cidr cidr"; cases "ip_to_bytes ip")
      (auto simp: cidr_contains_def prefix_agrees_div width dest: width)
qed

text \<open>An IPv4-mapped IPv6 address means the same four bytes as the dotted quad it embeds, so every rule
  sees it as IPv4.\<close>
theorem mapped_address_is_ipv4:
  assumes "length bs = 4"
  shows "ip_to_bytes (''::ffff:'' @ dotted bs) = Some bs \<and> ip_to_bytes (dotted bs) = Some bs \<and>
    matches_any_cidr rules (''::ffff:'' @ dotted bs) = matches_any_cidr rules (dotted bs)"
  using mapped_bytes [OF assms] dotted_bytes [OF assms]
  unfolding matches_any_cidr_def cidr_contains_def by (simp only: simp_thms)

theorem mapped_address_is_ipv4_witness:
  "matches_any_cidr [''127.0.0.0/8''] (''::ffff:'' @ dotted [127, 0, 0, 1])"
proof -
  have "matches_any_cidr [''127.0.0.0/8''] (dotted [127, 0, 0, 1])" by code_simp
  then show ?thesis using mapped_address_is_ipv4 [of "[127, 0, 0, 1]"] by simp
qed

end
