(* ===== verification/Ssrf.thy ===== *)
theory Ssrf
  imports Addresses RedisClient
begin

text \<open>
  The outbound request guard, \<open>src/lib/upstream/ssrf.ts\<close>. The URL parser of the platform, the
  resolver of names and the fetches of the DNS-over-HTTPS resolver are arguments; the guard uses
  of a parsed URL the parts \<open>url\<close> lists.
\<close>

record url =
  u_href :: string
  u_protocol :: string
  u_username :: string
  u_password :: string
  u_hostname :: string
  u_port :: string

record resolved_upstream =
  ru_url :: url
  ru_hostname :: string
  ru_addresses :: "string list"

definition verdict_ttl_sec :: rat where
  "verdict_ttl_sec = 60"

definition blocked_v4_cidrs :: "string list" where
  "blocked_v4_cidrs = [''0.0.0.0/8'', ''10.0.0.0/8'', ''100.64.0.0/10'', ''127.0.0.0/8'', ''169.254.0.0/16'',
     ''172.16.0.0/12'', ''192.0.0.0/24'', ''192.0.2.0/24'', ''192.88.99.0/24'', ''192.168.0.0/16'',
     ''198.18.0.0/15'', ''198.51.100.0/24'', ''203.0.113.0/24'', ''224.0.0.0/4'', ''240.0.0.0/4'']"

definition blocked_v6_cidrs :: "string list" where
  "blocked_v6_cidrs = [''::/128'', ''::1/128'', ''64:ff9b::/96'', ''100::/64'', ''2001:db8::/32'', ''2002::/16'',
     ''fc00::/7'', ''fe80::/10'', ''ff00::/8'']"

definition blocked_suffixes :: "string list" where
  "blocked_suffixes = [''.internal'', ''.local'', ''.localhost'', ''.home.arpa'', ''.lan'', ''.localdomain'']"

definition blocked_hosts :: "string list" where
  "blocked_hosts = [''localhost'', ''metadata'', ''metadata.google.internal'', ''instance-data'']"

definition default_allowed_ports :: "int list" where
  "default_allowed_ports = [80, 443, 8080, 8443]"

definition is_blocked_address :: "string \<Rightarrow> bool" where
  "is_blocked_address ip =
     (case ip_to_bytes ip of
        None \<Rightarrow> True
      | Some bytes \<Rightarrow>
          if length bytes = 16 \<and> \<not> matches_any_cidr [''2000::/3''] ip then True
          else if length bytes = 16 \<and> matches_any_cidr [''2001::/23'', ''3fff::/20''] ip then True
          else matches_any_cidr (if length bytes = 4 then blocked_v4_cidrs else blocked_v6_cidrs) ip)"

subsection \<open>Shapes of a host\<close>

definition all_digits :: "string \<Rightarrow> bool" where
  "all_digits l \<longleftrightarrow> l \<noteq> [] \<and> list_all is_digit l"

definition hex_label :: "string \<Rightarrow> bool" where
  "hex_label l \<longleftrightarrow> 3 \<le> length l \<and> js_lower (take 2 l) = ''0x'' \<and> list_all is_hex (drop 2 l)"

definition looks_like_address_literal :: "string \<Rightarrow> bool" where
  "looks_like_address_literal hostname =
     (if CHR '':'' \<in> set hostname then True
      else let final = last (split_on CHR ''.'' hostname) in all_digits final \<or> hex_label final)"

definition plain_v4_label :: "string \<Rightarrow> bool" where
  "plain_v4_label l \<longleftrightarrow> l = ''0'' \<or>
     (l \<noteq> [] \<and> length l \<le> 3 \<and> hd l \<noteq> CHR ''0'' \<and> list_all is_digit l)"

definition scheme_char :: "char \<Rightarrow> bool" where
  "scheme_char c \<longleftrightarrow> is_alnum c \<or> c \<in> {CHR ''+'', CHR ''.'', CHR ''-''}"

text \<open>The authority the pattern \<open>^[a-z][a-z0-9+.-]*://([^/?#]*)\<close> captures.\<close>

definition raw_authority :: "string \<Rightarrow> string option" where
  "raw_authority raw =
     (let scheme = takeWhile scheme_char raw; rest = dropWhile scheme_char raw in
      if scheme \<noteq> [] \<and> is_alpha (hd scheme) \<and> starts_with ''://'' rest
      then Some (takeWhile (\<lambda>c. c \<notin> {CHR ''/'', CHR ''?'', CHR ''#''}) (drop 3 rest)) else None)"

definition has_ambiguous_host_encoding :: "string \<Rightarrow> bool" where
  "has_ambiguous_host_encoding raw =
     (case raw_authority raw of
        None \<Rightarrow> False
      | Some a \<Rightarrow>
          let authority = (case last_index_of CHR ''@'' a of None \<Rightarrow> a | Some i \<Rightarrow> drop (i + 1) a) in
          if starts_with ''['' authority then False
          else
            let host = (case last_index_of CHR '':'' authority of None \<Rightarrow> authority | Some i \<Rightarrow> take i authority) in
            if host = [] then False
            else
              let labels = split_on CHR ''.'' host; final = last labels in
              if \<not> all_digits final \<and> \<not> hex_label final then False
              else if length labels = 4 \<and> list_all plain_v4_label labels then False
              else True)"

definition strip_brackets :: "string \<Rightarrow> string" where
  "strip_brackets hostname =
     (if starts_with ''['' hostname \<and> ends_with '']'' hostname then tl (butlast hostname) else hostname)"

definition matches_domain :: "string \<Rightarrow> string \<Rightarrow> bool" where
  "matches_domain hostname pattern =
     (let host = js_lower hostname; rule = js_lower (js_trim pattern) in
      if rule = [] then False
      else if starts_with ''*.'' rule then ends_with (tl rule) host
      else host = rule \<or> ends_with (CHR ''.'' # rule) host)"

subsection \<open>Resolution over HTTPS\<close>

text \<open>
  The addresses of a DNS answer. Reading a member of \<^const>\<open>JNull\<close> throws, and iterating over what
  is no array (nor a string, whose characters have no type) throws too: the answer counts as failed.
\<close>

definition answer_addresses :: "json list \<Rightarrow> string list" where
  "answer_addresses js = concat (map (\<lambda>j. case j of
      JObj ms \<Rightarrow> (case (get_field ''type'' ms, get_field ''data'' ms) of
          (Some (JNum n), Some (JStr s)) \<Rightarrow> if n = JFin 1 \<or> n = JFin 28 then [js_trim s] else []
        | _ \<Rightarrow> [])
    | _ \<Rightarrow> []) js)"

definition doh_answer :: "json \<Rightarrow> string list option" where
  "doh_answer body = (case body of
      JObj ms \<Rightarrow>
        if get_field ''Status'' ms \<noteq> Some (JNum (JFin 0)) then None
        else (case get_field ''Answer'' ms of
            None \<Rightarrow> Some []
          | Some JNull \<Rightarrow> Some []
          | Some (JStr s) \<Rightarrow> Some []
          | Some (JArr js) \<Rightarrow> if JNull \<in> set js then None else Some (answer_addresses js)
          | Some _ \<Rightarrow> None)
    | _ \<Rightarrow> None)"

text \<open>\<open>fetch_json\<close> is the body of a successful answer for a record type, \<^term>\<open>None\<close> for any failure.\<close>

definition resolve_over_https :: "string \<Rightarrow> (string \<Rightarrow> string \<Rightarrow> json option) \<Rightarrow> string \<Rightarrow> string list" where
  "resolve_over_https endpoint fetch_json hostname =
     (if endpoint = [] then []
      else let answers = map (\<lambda>t. Option.bind (fetch_json hostname t) doh_answer) [''A'', ''AAAA''] in
        if None \<in> set answers then [] else concat (map the answers))"

subsection \<open>The guard\<close>

definition blocked :: "string \<Rightarrow> thrown" where
  "blocked reason = Gateway (ssrf_blocked reason)"

fun js_truthy :: "json \<Rightarrow> bool" where
  "js_truthy JNull = False"
| "js_truthy (JBool b) = b"
| "js_truthy (JNum n) = (n \<noteq> JFin 0 \<and> n \<noteq> JNaN)"
| "js_truthy (JStr s) = (s \<noteq> [])"
| "js_truthy (JArr js) = True"
| "js_truthy (JObj ms) = True"

text \<open>\<open>addresses.some(isBlockedAddress)\<close>; an element that is not a string throws when it is reached.\<close>

fun some_blocked :: "json list \<Rightarrow> thrown + bool" where
  "some_blocked [] = Inr False"
| "some_blocked (JStr s # js) = (if is_blocked_address s then Inr True else some_blocked js)"
| "some_blocked (_ # js) = Inl OtherThrown"

definition cached_verdict :: "json \<Rightarrow> thrown + string list" where
  "cached_verdict j =
     (let refuse = ''upstream address is not publicly routable'' in
      case j of
        JObj ms \<Rightarrow>
          if \<not> (case get_field ''ok'' ms of Some v \<Rightarrow> js_truthy v | None \<Rightarrow> False) then Inl (blocked refuse)
          else (case get_field ''addresses'' ms of
              Some (JArr js) \<Rightarrow>
                if js = [] then Inl (blocked refuse)
                else (case some_blocked js of
                    Inl e \<Rightarrow> Inl e
                  | Inr True \<Rightarrow> Inl (blocked refuse)
                  | Inr False \<Rightarrow> Inr (map (\<lambda>v. as_string (Some v) []) js))
            | _ \<Rightarrow> Inl (blocked refuse))
      | _ \<Rightarrow> Inl (blocked refuse))"

text \<open>The checks that need no resolution: the host and its kind, or the refusal.\<close>

definition upstream_host :: "url \<Rightarrow> string" where
  "upstream_host u =
     (let h = js_lower (strip_brackets (u_hostname u)) in if ends_with ''.'' h then butlast h else h)"

definition upstream_port :: "url \<Rightarrow> jsnum" where
  "upstream_port u = (if u_port u \<noteq> [] then number_of_string (u_port u)
     else if js_lower (u_protocol u) = ''https:'' then JFin 443 else JFin 80)"

definition port_text :: "url \<Rightarrow> string" where
  "port_text u = (case num_text (upstream_port u) of Lit s \<Rightarrow> s | _ \<Rightarrow> u_port u)"

definition allowed_ports :: "env \<Rightarrow> int list" where
  "allowed_ports env =
     (if cfg_upstream_allowed_ports env \<noteq> [] then cfg_upstream_allowed_ports env else default_allowed_ports)"

definition check_url :: "env \<Rightarrow> url \<Rightarrow> thrown + string" where
  "check_url env u =
     (let scheme = js_lower (u_protocol u); hostname = upstream_host u;
          allowlist = cfg_upstream_domain_allowlist env
      in if scheme \<noteq> ''https:'' \<and> scheme \<noteq> ''http:'' then Inl (blocked (''unsupported upstream scheme '' @ scheme))
         else if scheme = ''http:'' \<and> \<not> cfg_allow_plaintext_upstream env then
           Inl (blocked ''plaintext upstream requests are disabled'')
         else if u_username u \<noteq> [] \<or> u_password u \<noteq> [] then Inl (blocked ''upstream url must not embed credentials'')
         else if hostname = [] then Inl (blocked ''upstream url has no host'')
         else if upstream_port u \<notin> js_int ` set (allowed_ports env) then 
           Inl (blocked (''upstream port '' @ port_text u @ '' is not allowed''))
         else if hostname \<in> set blocked_hosts then Inl (blocked (''upstream host '' @ hostname @ '' is not routable''))
         else if list_ex (\<lambda>s. ends_with s hostname) blocked_suffixes then
           Inl (blocked (''upstream host '' @ hostname @ '' is internal''))
         else if list_ex (matches_domain hostname) (cfg_upstream_domain_denylist env) then
           Inl (blocked (''upstream host '' @ hostname @ '' is denied''))
         else if allowlist \<noteq> [] \<and> \<not> list_ex (matches_domain hostname) allowlist then
           Inl (blocked (''upstream host '' @ hostname @ '' is not on the allowlist''))
         else Inr hostname)"

definition verdict_json :: "bool \<Rightarrow> string list \<Rightarrow> json" where
  "verdict_json ok addresses = JObj [(''ok'', JBool ok), (''addresses'', JArr (map JStr addresses))]"

definition resolve_upstream ::
    "int \<Rightarrow> (string \<Rightarrow> thrown + string list) \<Rightarrow> string \<Rightarrow> coord \<Rightarrow> (thrown + string list) \<times> coord" where
  "resolve_upstream now resolver hostname co =
     (let key = render (KSsrfVerdict hostname) in
      case redis_get_json now key co of (cached, co1) \<Rightarrow>
        (case (case cached of Some (Some j) \<Rightarrow> if js_truthy j then Some j else None | _ \<Rightarrow> None) of
           Some j \<Rightarrow> (cached_verdict j, co1)
         | None \<Rightarrow>
             (case resolver hostname of
                Inl e \<Rightarrow> (Inl e, co1)
              | Inr addresses \<Rightarrow>
                  if addresses = [] then
                    (Inl (blocked (''upstream host '' @ hostname @ '' could not be resolved'')), co1)
                  else if list_ex is_blocked_address addresses then
                    (Inl (blocked ''upstream host resolves to a non-routable address''),
                     snd (redis_set_json now key (verdict_json False []) (Some verdict_ttl_sec) co1))
                  else (Inr addresses,
                    snd (redis_set_json now key (verdict_json True addresses) (Some verdict_ttl_sec) co1)))))"

definition assert_upstream_url_allowed ::
    "env \<Rightarrow> (string \<Rightarrow> url option) \<Rightarrow> (string \<Rightarrow> thrown + string list) \<Rightarrow> int \<Rightarrow> string \<Rightarrow> coord \<Rightarrow>
     (thrown + resolved_upstream) \<times> coord" where
  "assert_upstream_url_allowed env parse_url resolver now raw co =
     (if has_ambiguous_host_encoding raw then
        (Inl (blocked ''upstream host uses an ambiguous address encoding''), co)
      else (case parse_url raw of
          None \<Rightarrow> (Inl (blocked ''upstream url is not parseable''), co)
        | Some u \<Rightarrow>
            (case check_url env u of
               Inl e \<Rightarrow> (Inl e, co)
             | Inr hostname \<Rightarrow>
                 if looks_like_address_literal hostname then
                   (if ip_to_bytes hostname = None then
                      (Inl (blocked ''upstream host is a malformed address literal''), co)
                    else if is_blocked_address hostname then
                      (Inl (blocked ''upstream address is not publicly routable''), co)
                    else (Inr \<lparr>ru_url = u, ru_hostname = hostname, ru_addresses = [hostname]\<rparr>, co))
                 else (case resolve_upstream now resolver hostname co of
                     (Inl e, co1) \<Rightarrow> (Inl e, co1)
                   | (Inr addresses, co1) \<Rightarrow>
                       (Inr \<lparr>ru_url = u, ru_hostname = hostname, ru_addresses = addresses\<rparr>, co1)))))"

text \<open>\<open>new URL(location, base)\<close> is \<open>join_url\<close>; it throws a type error where it has no result.\<close>

definition assert_redirect_allowed ::
    "env \<Rightarrow> (string \<Rightarrow> url \<Rightarrow> url option) \<Rightarrow> (string \<Rightarrow> url option) \<Rightarrow> (string \<Rightarrow> thrown + string list) \<Rightarrow> int \<Rightarrow>
     string \<Rightarrow> url \<Rightarrow> coord \<Rightarrow> (thrown + resolved_upstream) \<times> coord" where
  "assert_redirect_allowed env join_url parse_url resolver now location base co =
     (case join_url location base of
        None \<Rightarrow> (Inl OtherThrown, co)
      | Some u \<Rightarrow> assert_upstream_url_allowed env parse_url resolver now (u_href u) co)"

end
