(* ===== verification/SsrfLaws.thy ===== *)
theory SsrfLaws
  imports Ssrf LimiterLaws
begin

text \<open>
  Laws of the outbound guard: what a URL that passes is guaranteed to be, and the address ranges the
  block list stands for, as numbers.
\<close>

subsection \<open>Every address that is handed out is public\<close>

lemma some_blocked_False:
  "some_blocked js = Inr False \<Longrightarrow> \<forall>a \<in> set (map (\<lambda>v. as_string (Some v) []) js). \<not> is_blocked_address a"
  by (induction js rule: some_blocked.induct) (auto split: if_splits)

lemma cached_verdict_public:
  assumes "cached_verdict j = Inr as"
  shows "as \<noteq> [] \<and> (\<forall>a \<in> set as. \<not> is_blocked_address a)"
proof -
  obtain ms js where "j = JObj ms" "js \<noteq> []" "some_blocked js = Inr False" "as = map (\<lambda>v. as_string (Some v) []) js"
    using assms by (auto simp: cached_verdict_def Let_def split: json.splits if_splits option.splits sum.splits bool.splits)
  with some_blocked_False [of js] show ?thesis by simp
qed

lemma resolve_upstream_public:
  assumes "resolve_upstream now resolver hostname co = (Inr as, co')"
  shows "as \<noteq> [] \<and> (\<forall>a \<in> set as. \<not> is_blocked_address a)"
  using assms
  by (auto simp: resolve_upstream_def Let_def list_ex_iff split: prod.splits option.splits sum.splits if_splits
      dest: cached_verdict_public)

lemma check_url_passes:
  assumes "check_url env u = Inr hostname"
  shows "hostname = upstream_host u \<and> hostname \<noteq> [] \<and> u_username u = [] \<and> u_password u = [] \<and>
    (js_lower (u_protocol u) = ''https:'' \<or> js_lower (u_protocol u) = ''http:'' \<and> cfg_allow_plaintext_upstream env) \<and>
    upstream_port u \<in> js_int ` set (allowed_ports env) \<and>
    hostname \<notin> set blocked_hosts \<and> \<not> list_ex (\<lambda>s. ends_with s hostname) blocked_suffixes \<and>
    \<not> list_ex (matches_domain hostname) (cfg_upstream_domain_denylist env) \<and>
    (cfg_upstream_domain_allowlist env = [] \<or> list_ex (matches_domain hostname) (cfg_upstream_domain_allowlist env))"
  using assms unfolding check_url_def Let_def
  by (simp split: if_split_asm) blast


definition sample_url :: url where
  "sample_url = \<lparr>u_href = ''https://api.example.com/'', u_protocol = ''https:'', u_username = [], u_password = [],
     u_hostname = ''api.example.com'', u_port = []\<rparr>"


subsection \<open>The IPv4 block list as ranges\<close>

text \<open>First address and prefix length.\<close>

definition quad :: "nat \<Rightarrow> nat \<Rightarrow> nat \<Rightarrow> nat \<Rightarrow> nat" where
  "quad a b c d = a * 2 ^ 24 + b * 2 ^ 16 + c * 2 ^ 8 + d"

definition blocked_v4_ranges :: "(nat \<times> nat) list" where
  "blocked_v4_ranges = [(quad 0 0 0 0, 8), (quad 10 0 0 0, 8), (quad 100 64 0 0, 10), (quad 127 0 0 0, 8),
     (quad 169 254 0 0, 16), (quad 172 16 0 0, 12), (quad 192 0 0 0, 24), (quad 192 0 2 0, 24),
     (quad 192 88 99 0, 24), (quad 192 168 0 0, 16), (quad 198 18 0 0, 15), (quad 198 51 100 0, 24),
     (quad 203 0 113 0, 24), (quad 224 0 0 0, 4), (quad 240 0 0 0, 4)]"

definition in_range :: "nat \<Rightarrow> nat \<times> nat \<Rightarrow> bool" where
  "in_range n r \<longleftrightarrow> fst r \<le> n \<and> n < fst r + 2 ^ (32 - snd r)"

lemma div_eq_range:
  fixes x k m :: nat
  assumes "0 < k"
  shows "x div k = m \<longleftrightarrow> m * k \<le> x \<and> x < m * k + k"
proof
  assume "x div k = m"
  then have "x = m * k + x mod k" "x mod k < k" using assms by auto
  then show "m * k \<le> x \<and> x < m * k + k" by linarith
next
  assume "m * k \<le> x \<and> x < m * k + k"
  then show "x div k = m" by (intro div_nat_eqI) (simp_all add: mult.commute)
qed

lemma cidr_in_range:
  assumes "parse_cidr cidr = Some (rule, bits)" "length rule = 4" "bits \<le> 32"
    "bytes_val rule = base" "base mod 2 ^ (32 - bits) = 0" "ip_to_bytes ip = Some bs" "length bs = 4"
  shows "cidr_contains cidr ip \<longleftrightarrow> in_range (bytes_val bs) (base, bits)"
proof -
  let ?k = "2 ^ (32 - bits) :: nat"
  have base: "base = base div ?k * ?k" using assms(5) by (metis add.right_neutral div_mult_mod_eq)
  have "cidr_contains cidr ip \<longleftrightarrow> bytes_val bs div ?k = base div ?k"
    using assms by (simp add: cidr_contains_def prefix_agrees_div) metis
  also have "\<dots> \<longleftrightarrow> base div ?k * ?k \<le> bytes_val bs \<and> bytes_val bs < base div ?k * ?k + ?k"
    by (rule div_eq_range) simp
  finally show ?thesis using base by (simp add: in_range_def)
qed

definition v4_rules :: "(byte list \<times> nat) list" where
  "v4_rules = [([0, 0, 0, 0], 8), ([10, 0, 0, 0], 8), ([100, 64, 0, 0], 10),
     ([127, 0, 0, 0], 8), ([169, 254, 0, 0], 16), ([172, 16, 0, 0], 12), ([192, 0, 0, 0], 24), ([192, 0, 2, 0], 24),
     ([192, 88, 99, 0], 24), ([192, 168, 0, 0], 16), ([198, 18, 0, 0], 15), ([198, 51, 100, 0], 24),
     ([203, 0, 113, 0], 24), ([224, 0, 0, 0], 4), ([240, 0, 0, 0], 4)]"

lemma v4_rules_parse: "map parse_cidr blocked_v4_cidrs = map Some v4_rules"
  by code_simp

definition aligned :: "byte list \<times> nat \<Rightarrow> bool" where
  "aligned r \<longleftrightarrow> length (fst r) = 4 \<and> snd r \<le> 32 \<and> bytes_val (fst r) mod 2 ^ (32 - snd r) = 0"

lemma v4_rules_aligned: "list_all aligned v4_rules"
  by code_simp

lemma v4_rules_ranges: "map (\<lambda>r. (bytes_val (fst r), snd r)) v4_rules = blocked_v4_ranges"
  by code_simp

lemma rules_as_ranges:
  assumes "map parse_cidr cs = map Some rules" "list_all aligned rules" "ip_to_bytes ip = Some bs" "length bs = 4"
  shows "list_ex (\<lambda>c. cidr_contains c ip) cs \<longleftrightarrow>
    list_ex (in_range (bytes_val bs)) (map (\<lambda>r. (bytes_val (fst r), snd r)) rules)"
  using assms(1,2)
proof (induction cs arbitrary: rules)
  case (Cons c cs)
  then obtain r rs where r: "rules = r # rs" "parse_cidr c = Some r" "map parse_cidr cs = map Some rs" by (cases rules) auto
  with Cons have "cidr_contains c ip \<longleftrightarrow> in_range (bytes_val bs) (bytes_val (fst r), snd r)"
    using cidr_in_range [of c "fst r" "snd r" _ ip bs] assms(3,4) by (simp add: aligned_def)
  with Cons r show ?case by simp
qed simp

lemma blocked_v4:
  assumes "ip_to_bytes ip = Some bs" "length bs = 4"
  shows "is_blocked_address ip \<longleftrightarrow> list_ex (in_range (bytes_val bs)) blocked_v4_ranges"
  using rules_as_ranges [OF v4_rules_parse v4_rules_aligned assms] assms
  by (simp add: is_blocked_address_def matches_any_cidr_def v4_rules_ranges)

text \<open>A dotted quad is refused as an upstream exactly when its number lies in one of the fifteen listed
  ranges (private, loopback, link-local with the metadata address, carrier, documentation, relay,
  multicast and reserved space), and spelling it as an IPv4-mapped IPv6 address changes nothing.\<close>
theorem blocked_ipv4_ranges:
  assumes "length bs = 4"
  shows "is_blocked_address (dotted bs) = list_ex (in_range (bytes_val bs)) blocked_v4_ranges \<and>
    is_blocked_address (''::ffff:'' @ dotted bs) = list_ex (in_range (bytes_val bs)) blocked_v4_ranges"
  using blocked_v4 [OF dotted_bytes [OF assms] assms] blocked_v4 [OF mapped_bytes [OF assms] assms] by simp

theorem blocked_ipv4_ranges_witness:
  "is_blocked_address (''::ffff:'' @ dotted [169, 254, 169, 254]) \<and> \<not> is_blocked_address (dotted [8, 8, 8, 8])"
proof -
  have "list_ex (in_range (bytes_val [169, 254, 169, 254])) blocked_v4_ranges"
    "\<not> list_ex (in_range (bytes_val [8, 8, 8, 8])) blocked_v4_ranges" by code_simp+
  then show ?thesis using blocked_ipv4_ranges [of "[169, 254, 169, 254]"] blocked_ipv4_ranges [of "[8, 8, 8, 8]"] by simp
qed

end
