(* ===== verification/Headers.thy ===== *)
theory Headers
  imports RedisClient
begin

text \<open>
  Header hygiene, \<open>src/lib/http/headers.ts\<close>. A \<open>Headers\<close> object is the list of its entries, names in
  lower case and each once. Setting an entry trims the value and refuses the three characters
  that could end a header line, as the platform does.
\<close>

type_synonym headers = "(string \<times> string) list"

definition hop_by_hop :: "string list" where
  "hop_by_hop = [''connection'', ''keep-alive'', ''proxy-authenticate'', ''proxy-authorization'', ''proxy-connection'',
     ''te'', ''trailer'', ''transfer-encoding'', ''upgrade'']"

definition never_forward_upstream :: "string list" where
  "never_forward_upstream = hop_by_hop @ [''host'', ''content-length'', ''authorization'', ''cookie'', ''x-api-key'',
     ''x-goog-api-key'', ''mj-api-secret'', ''api-key'', ''x-admin-token'', ''x-cron-secret'', ''x-vercel-id'',
     ''x-vercel-signature'', ''x-vercel-deployment-url'', ''x-forwarded-for'', ''x-forwarded-host'',
     ''x-forwarded-proto'', ''x-real-ip'', ''forwarded'', ''cf-connecting-ip'', ''true-client-ip'', ''x-fbapi-user'',
     ''x-fbapi-token'', ''x-fbapi-channel'']"

definition never_forward_downstream :: "string list" where
  "never_forward_downstream = hop_by_hop @ [''content-encoding'', ''content-length'', ''set-cookie'', ''authorization'',
     ''x-api-key'', ''openai-organization'', ''openai-project'', ''x-organization'', ''x-request-id'', ''cf-ray'',
     ''cf-cache-status'', ''server'', ''via'', ''x-envoy-upstream-service-time'', ''x-amzn-requestid'',
     ''x-amz-request-id'', ''x-goog-quota-user'', ''x-served-by'']"

definition passthrough_downstream :: "string list" where
  "passthrough_downstream = [''content-type'', ''retry-after'', ''x-ratelimit-limit-requests'',
     ''x-ratelimit-limit-tokens'', ''x-ratelimit-remaining-requests'', ''x-ratelimit-remaining-tokens'',
     ''x-ratelimit-reset-requests'', ''x-ratelimit-reset-tokens'', ''anthropic-ratelimit-requests-limit'',
     ''anthropic-ratelimit-requests-remaining'', ''anthropic-ratelimit-tokens-limit'',
     ''anthropic-ratelimit-tokens-remaining'']"

definition default_forward_list :: "string list" where
  "default_forward_list = [''accept'', ''accept-language'', ''anthropic-beta'', ''anthropic-version'', ''openai-beta'',
     ''x-stainless-lang'', ''x-stainless-package-version'', ''x-stainless-os'', ''x-stainless-arch'',
     ''x-stainless-runtime'', ''x-stainless-runtime-version'']"

subsection \<open>Values and names\<close>

definition control_char :: "char \<Rightarrow> bool" where
  "control_char c \<longleftrightarrow> (let n = of_char c :: nat in n \<in> {13, 10, 0, 127} \<or> n \<le> 8 \<or> n = 11 \<or> n = 12 \<or> 14 \<le> n \<and> n \<le> 31)"

definition has_header_injection :: "string \<Rightarrow> bool" where
  "has_header_injection v \<longleftrightarrow> list_ex control_char v"

definition assert_safe_header_value :: "string \<Rightarrow> thrown + string" where
  "assert_safe_header_value v =
     (if has_header_injection v then Inl OtherThrown else if length v > 8192 then Inl OtherThrown else Inr v)"

definition header_name_char :: "char \<Rightarrow> bool" where
  "header_name_char c \<longleftrightarrow> is_alnum c \<or> of_char c \<in> ({33, 35, 36, 37, 38, 39, 42, 43, 45, 46, 94, 95, 96, 124, 126} :: nat set)"

definition assert_safe_header_name :: "string \<Rightarrow> thrown + string" where
  "assert_safe_header_name n =
     (if n \<noteq> [] \<and> list_all header_name_char n then Inr (js_lower n) else Inl OtherThrown)"

definition sanitize_header_value :: "string \<Rightarrow> string" where
  "sanitize_header_value v = take 8192 (map (\<lambda>c. if of_char c < (32 :: nat) \<or> of_char c = (127 :: nat) then CHR '' '' else c)
     (filter (\<lambda>c. of_char c \<notin> ({13, 10, 0} :: nat set)) v))"

subsection \<open>The platform's header object\<close>

definition http_ws :: "char \<Rightarrow> bool" where
  "http_ws c \<longleftrightarrow> of_char c \<in> ({9, 10, 13, 32} :: nat set)"

definition http_trim :: "string \<Rightarrow> string" where
  "http_trim v = rev (dropWhile http_ws (rev (dropWhile http_ws v)))"

definition line_breaking :: "char \<Rightarrow> bool" where
  "line_breaking c \<longleftrightarrow> of_char c \<in> ({0, 10, 13} :: nat set)"

definition header_set :: "string \<Rightarrow> string \<Rightarrow> headers \<Rightarrow> thrown + headers" where
  "header_set n v hs =
     (if list_ex line_breaking (http_trim v) then Inl OtherThrown else Inr (put n (http_trim v) hs))"

subsection \<open>Towards the provider\<close>

definition forward_client :: "string list \<Rightarrow> headers \<Rightarrow> headers \<Rightarrow> thrown + headers" where
  "forward_client forward client out =
     fold (\<lambda>(raw, v) acc. case acc of Inl e \<Rightarrow> Inl e | Inr hs \<Rightarrow>
       let n = js_lower raw in
       if n \<in> set never_forward_upstream \<or> n \<notin> set forward \<or> has_header_injection v then Inr hs
       else header_set n v hs) client (Inr out)"

definition safe_set :: "bool \<Rightarrow> string \<times> string \<Rightarrow> headers \<Rightarrow> thrown + headers" where
  "safe_set guarded nv hs =
     (case assert_safe_header_name (fst nv) of
        Inl e \<Rightarrow> Inl e
      | Inr n \<Rightarrow>
          if guarded \<and> n \<in> set never_forward_upstream then Inr hs
          else (case assert_safe_header_value (snd nv) of Inl e \<Rightarrow> Inl e | Inr v \<Rightarrow> header_set n v hs))"

fun set_all :: "bool \<Rightarrow> headers \<Rightarrow> headers \<Rightarrow> thrown + headers" where
  "set_all guarded [] hs = Inr hs"
| "set_all guarded (nv # rest) hs =
     (case safe_set guarded nv hs of Inl e \<Rightarrow> Inl e | Inr hs' \<Rightarrow> set_all guarded rest hs')"

definition user_agent :: "string \<Rightarrow> string" where
  "user_agent site = filter (\<lambda>c. 32 \<le> (of_char c :: nat) \<and> of_char c \<le> (126 :: nat)) site @ ''/1.0''"

definition build_upstream_headers ::
    "string \<Rightarrow> headers \<Rightarrow> headers \<Rightarrow> headers \<Rightarrow> string option \<Rightarrow> string list option \<Rightarrow> thrown + headers" where
  "build_upstream_headers site client auth channel content_type forward_list =
     (case forward_client (case forward_list of Some f \<Rightarrow> f | None \<Rightarrow> default_forward_list) client [] of
        Inl e \<Rightarrow> Inl e
      | Inr h1 \<Rightarrow> (case set_all True channel h1 of
          Inl e \<Rightarrow> Inl e
        | Inr h2 \<Rightarrow> (case set_all False auth h2 of
            Inl e \<Rightarrow> Inl e
          | Inr h3 \<Rightarrow> (case (case content_type of
                  Some ct \<Rightarrow> if ct \<noteq> [] then header_set ''content-type'' ct h3 else Inr h3 | None \<Rightarrow> Inr h3) of
              Inl e \<Rightarrow> Inl e
            | Inr h4 \<Rightarrow> (case (if map_of h4 ''accept'' = None then header_set ''accept'' ''application/json'' h4 else Inr h4) of
                Inl e \<Rightarrow> Inl e
              | Inr h5 \<Rightarrow> header_set ''user-agent'' (user_agent site) h5)))))"

subsection \<open>Towards the client\<close>

definition filter_downstream_headers :: "headers \<Rightarrow> thrown + headers" where
  "filter_downstream_headers upstream =
     fold (\<lambda>(raw, v) acc. case acc of Inl e \<Rightarrow> Inl e | Inr hs \<Rightarrow>
       let n = js_lower raw in
       if n \<in> set never_forward_downstream \<or> n \<notin> set passthrough_downstream \<or> has_header_injection v then Inr hs
       else header_set n v hs) upstream (Inr [])"

subsection \<open>The client's address\<close>

definition normalize_ip :: "string \<Rightarrow> string" where
  "normalize_ip value =
     (let ip0 = js_lower (js_trim value);
          ip1 = (if starts_with ''['' ip0 then
                   (case index_of CHR '']'' ip0 of Some i \<Rightarrow> drop 1 (take i ip0) | None \<Rightarrow> ip0)
                 else if length (filter (\<lambda>c. c = CHR '':'') ip0) = 1 then hd (split_on CHR '':'' ip0) else ip0);
          ip2 = (if starts_with ''::ffff:'' ip1 then drop 7 ip1 else ip1)
      in if ip2 \<noteq> [] \<and> list_all (\<lambda>c. is_digit c \<or> c \<in> set ''abcdef:.'') ip2 then ip2 else [])"

definition forwarded_parts :: "string \<Rightarrow> string list" where
  "forwarded_parts xff = filter (\<lambda>p. p \<noteq> []) (map (\<lambda>p. normalize_ip (js_trim p)) (split_on CHR '','' xff))"

definition get_client_ip :: "headers \<Rightarrow> int \<Rightarrow> string" where
  "get_client_ip hs trusted_hops =
     (let xff = (case map_of hs ''x-forwarded-for'' of Some v \<Rightarrow> v | None \<Rightarrow> []);
          parts = (if xff = [] then [] else forwarded_parts xff)
      in if parts \<noteq> [] then parts ! nat (max 0 (int (length parts) - max 1 trusted_hops))
         else (case (case map_of hs ''x-real-ip'' of Some v \<Rightarrow> Some v | None \<Rightarrow> map_of hs ''cf-connecting-ip'') of
             Some v \<Rightarrow> if v = [] then [] else normalize_ip v
           | None \<Rightarrow> []))"

definition bearer_from :: "headers \<Rightarrow> string" where
  "bearer_from hs =
     (case map_of hs ''authorization'' of
        None \<Rightarrow> []
      | Some raw \<Rightarrow>
          let t = js_trim raw; rest = drop 6 t; word = dropWhile is_ws rest in
          if js_lower (take 6 t) = ''bearer'' \<and> rest \<noteq> word \<and> word \<noteq> [] \<and> \<not> list_ex (\<lambda>c. of_char c \<in> ({10, 13} :: nat set)) word
          then js_trim word else t)"

definition cfg_site_name :: "env \<Rightarrow> string" where
  "cfg_site_name env = env_str env ''SITE_NAME'' ''Femboy API''"

subsection \<open>Entries\<close>

text \<open>An entry under a permitted name whose value cannot end the header line.\<close>

definition entries_in :: "string set \<Rightarrow> headers \<Rightarrow> bool" where
  "entries_in A hs \<longleftrightarrow> (\<forall>(n, v) \<in> set hs. n \<in> A \<and> \<not> list_ex line_breaking v)"

lemma entries_Nil [simp]: "entries_in A []"
  by (simp add: entries_in_def)

lemma entries_mono: "entries_in A hs \<Longrightarrow> A \<subseteq> B \<Longrightarrow> entries_in B hs"
  by (auto simp: entries_in_def)

lemma set_put: "e \<in> set (put k v es) \<Longrightarrow> e = (k, v) \<or> e \<in> set es"
  by (induction es) (auto split: if_splits)

lemma header_set_entries:
  assumes "header_set n v hs = Inr hs'"
  shows "hs' = put n (http_trim v) hs" "entries_in A hs \<Longrightarrow> n \<in> A \<Longrightarrow> entries_in A hs'"
proof -
  from assms show e: "hs' = put n (http_trim v) hs" by (simp add: header_set_def split: if_splits)
  from assms have "\<not> list_ex line_breaking (http_trim v)" by (simp add: header_set_def split: if_splits)
  then show "entries_in A hs \<Longrightarrow> n \<in> A \<Longrightarrow> entries_in A hs'"
    unfolding e entries_in_def by (auto dest!: set_put)
qed

lemma fold_Inl: "(\<And>x e. x \<in> set xs \<Longrightarrow> f x (Inl e) = Inl e) \<Longrightarrow> fold f xs (Inl e) = Inl e"
  by (induction xs) auto

text \<open>A copying loop keeps every invariant its accepted step keeps.\<close>

lemma fold_result_inv:
  assumes "fold (\<lambda>x acc. case acc of Inl e \<Rightarrow> Inl e | Inr s \<Rightarrow> g x s) xs (Inr s) = Inr s'" "P s"
    "\<And>x s s'. x \<in> set xs \<Longrightarrow> P s \<Longrightarrow> g x s = Inr s' \<Longrightarrow> P s'"
  shows "P s'"
  using assms
proof (induction xs arbitrary: s)
  case (Cons x xs)
  show ?case
  proof (cases "g x s")
    case (Inl e)
    have "fold (\<lambda>x acc. case acc of Inl e \<Rightarrow> Inl e | Inr s \<Rightarrow> g x s) xs (Inl e) = Inl e" by (rule fold_Inl) simp
    with Cons.prems(1) Inl show ?thesis by simp
  next
    case (Inr t)
    with Cons.prems have "P t" by auto
    with Inr Cons.prems show ?thesis by (intro Cons.IH [of t]) auto
  qed
qed simp

lemma forward_client_entries:
  assumes "forward_client forward client [] = Inr hs"
  shows "entries_in (set forward - set never_forward_upstream) hs"
  using assms unfolding forward_client_def case_prod_beta
  by (rule fold_result_inv) (auto simp: Let_def split: if_splits dest: header_set_entries(2))

lemma safe_set_entries:
  assumes "safe_set guarded nv hs = Inr hs'" "entries_in A hs"
    "\<And>n. n = js_lower (fst nv) \<Longrightarrow> \<not> (guarded \<and> n \<in> set never_forward_upstream) \<Longrightarrow> n \<in> A"
  shows "entries_in A hs'"
  using assms by (auto simp: safe_set_def assert_safe_header_name_def split: sum.splits if_splits dest: header_set_entries(2))

lemma set_all_entries:
  assumes "set_all guarded nvs hs = Inr hs'" "entries_in A hs"
    "\<And>nv. nv \<in> set nvs \<Longrightarrow> \<not> (guarded \<and> js_lower (fst nv) \<in> set never_forward_upstream) \<Longrightarrow> js_lower (fst nv) \<in> A"
  shows "entries_in A hs'"
  using assms
proof (induction nvs arbitrary: hs)
  case (Cons nv nvs)
  then obtain h1 where h1: "safe_set guarded nv hs = Inr h1" "set_all guarded nvs h1 = Inr hs'" by (auto split: sum.splits)
  have "entries_in A h1" using safe_set_entries [OF h1(1) Cons.prems(2)] Cons.prems(3) by auto
  with h1(2) Cons show ?case by auto
qed simp

lemma bindE:
  assumes "(case x of Inl e \<Rightarrow> Inl e | Inr y \<Rightarrow> f y) = Inr z"
  obtains y where "x = Inr y" "f y = Inr z"
  using assms by (cases x) auto

lemma build_steps:
  assumes "build_upstream_headers site client auth channel content_type forward_list = Inr hs"
  obtains h1 h2 h3 h4 h5 where
    "forward_client (case forward_list of Some f \<Rightarrow> f | None \<Rightarrow> default_forward_list) client [] = Inr h1"
    "set_all True channel h1 = Inr h2" "set_all False auth h2 = Inr h3"
    "h4 = h3 \<or> (\<exists>ct. header_set ''content-type'' ct h3 = Inr h4)"
    "h5 = h4 \<or> map_of h4 ''accept'' = None \<and> header_set ''accept'' ''application/json'' h4 = Inr h5"
    "header_set ''user-agent'' (user_agent site) h5 = Inr hs"
  using assms unfolding build_upstream_headers_def
  apply -
  apply (elim bindE)
  apply (rule that)
  apply assumption+
    apply (auto split: option.splits if_splits)
  done

text \<open>No header sent to a provider can end its line early (no CR, LF or NUL in any value), and a header
  of the gateway's own business (the caller's credentials, cookies, hop-by-hop and forwarding
  headers) is sent only if it is one of the provider's authentication headers, whatever the client
  and the channel configuration say.\<close>
theorem upstream_headers_safe:
  assumes "build_upstream_headers site client auth channel content_type forward_list = Inr hs" "(n, v) \<in> set hs"
  shows "\<not> list_ex line_breaking v \<and> (n \<in> set never_forward_upstream \<longrightarrow> n \<in> js_lower ` fst ` set auth)"
proof -
  let ?A = "- set never_forward_upstream \<union> js_lower ` fst ` set auth"
  obtain h1 h2 h3 h4 h5 where h: "forward_client (case forward_list of Some f \<Rightarrow> f | None \<Rightarrow> default_forward_list) client [] = Inr h1"
    "set_all True channel h1 = Inr h2" "set_all False auth h2 = Inr h3"
    "h4 = h3 \<or> (\<exists>ct. header_set ''content-type'' ct h3 = Inr h4)"
    "h5 = h4 \<or> map_of h4 ''accept'' = None \<and> header_set ''accept'' ''application/json'' h4 = Inr h5"
    "header_set ''user-agent'' (user_agent site) h5 = Inr hs" using build_steps [OF assms(1)] by blast
  have "entries_in ?A h1" by (rule entries_mono [OF forward_client_entries [OF h(1)]]) auto
  then have "entries_in ?A h2" by (rule set_all_entries [OF h(2)]) auto
  then have e3: "entries_in ?A h3" by (rule set_all_entries [OF h(3)]) auto
  have names: "''content-type'' \<notin> set never_forward_upstream" "''accept'' \<notin> set never_forward_upstream"
    "''user-agent'' \<notin> set never_forward_upstream" by code_simp+
  have e4: "entries_in ?A h4" using h(4) e3 names header_set_entries(2) [of _ _ h3 h4 ?A] by auto
  have e5: "entries_in ?A h5" using h(5) e4 names header_set_entries(2) [of _ _ h4 h5 ?A] by auto
  have "entries_in ?A hs" using header_set_entries(2) [OF h(6) e5] names by auto
  with assms(2) show ?thesis by (auto simp: entries_in_def)
qed

theorem upstream_headers_safe_witness:
  "\<not> list_ex line_breaking ''Bearer up'' \<and> ''authorization'' \<in> js_lower ` fst ` set [(''Authorization'', ''Bearer up'')]"
proof -
  have "(case build_upstream_headers ''S'' [(''authorization'', ''Bearer mine''), (''cookie'', ''c'')] [(''Authorization'', ''Bearer up'')] [] None None of
      Inr hs \<Rightarrow> hs | Inl e \<Rightarrow> []) = [(''authorization'', ''Bearer up''), (''accept'', ''application/json''), (''user-agent'', ''S/1.0'')]"
    by code_simp
  then obtain hs where hs: "build_upstream_headers ''S'' [(''authorization'', ''Bearer mine''), (''cookie'', ''c'')] [(''Authorization'', ''Bearer up'')] [] None None = Inr hs"
    "(''authorization'', ''Bearer up'') \<in> set hs" by (auto split: sum.splits)
  have "''authorization'' \<in> set never_forward_upstream" by code_simp
  with upstream_headers_safe [OF hs] show ?thesis by blast
qed

subsection \<open>Spoofed addresses\<close>

lemma split_on_join: "split_on c (a @ c # b) = split_on c a @ split_on c b"
  by (induction a) (auto split: list.splits)

lemma forwarded_parts_join: "forwarded_parts (a @ CHR '','' # b) = forwarded_parts a @ forwarded_parts b"
  by (simp add: forwarded_parts_def split_on_join)

lemma forwarded_parts_Nil: "forwarded_parts [] = []"
  by code_simp

text \<open>What a caller writes at the front of \<open>X-Forwarded-For\<close> never changes the address the gateway sees, as
  long as the trusted proxies appended their entries.\<close>
theorem client_ip_not_spoofable:
  assumes "map_of hs ''x-forwarded-for'' = Some (forged @ CHR '','' # appended)"
    "max 1 trusted_hops \<le> int (length (forwarded_parts appended))"
  shows "get_client_ip hs trusted_hops = get_client_ip [(''x-forwarded-for'', appended)] trusted_hops"
proof -
  let ?p = "forwarded_parts forged" and ?q = "forwarded_parts appended"
  let ?h = "max 1 trusted_hops"
  have q: "?q \<noteq> []" using assms(2) by auto
  with forwarded_parts_Nil have a: "appended \<noteq> []" by metis
  have i: "nat (max 0 (int (length (?p @ ?q)) - ?h)) = length ?p + nat (max 0 (int (length ?q) - ?h))"
    using assms(2) by (simp add: nat_add_distrib [symmetric] max_absorb2 add_diff_eq del: max.bounded_iff)
  have "get_client_ip hs trusted_hops = (?p @ ?q) ! nat (max 0 (int (length (?p @ ?q)) - ?h))"
    using assms(1) q by (simp add: get_client_ip_def Let_def forwarded_parts_join del: length_append)
  also have "\<dots> = ?q ! nat (max 0 (int (length ?q) - ?h))" unfolding i by simp
  also have "\<dots> = get_client_ip [(''x-forwarded-for'', appended)] trusted_hops"
    using a q by (simp add: get_client_ip_def Let_def)
  finally show ?thesis .
qed

theorem client_ip_not_spoofable_witness:
  "get_client_ip [(''x-forwarded-for'', ''127.0.0.1,198.51.100.7'')] 1 = ''198.51.100.7''"
proof -
  have "forwarded_parts ''198.51.100.7'' = [''198.51.100.7'']" "get_client_ip [(''x-forwarded-for'', ''198.51.100.7'')] 1 = ''198.51.100.7''"
    by code_simp+
  then show ?thesis
    using client_ip_not_spoofable [of "[(''x-forwarded-for'', ''127.0.0.1,198.51.100.7'')]" "''127.0.0.1''" "''198.51.100.7''" 1] by simp
qed

end
