(* ===== verification/Crypto.thy ===== *)
theory Crypto
  imports Addresses
begin

text \<open>
  Encoding and comparison helpers, \<open>src/lib/util/crypto.ts\<close>: hexadecimal text of bytes, the
  comparison of digests that walks both texts to the end, and rejection-sampled alphanumeric
  secrets. Digests, HMAC and AES-GCM are calls of WebCrypto and arguments of their users; the
  random source is the stream of bytes it yields.
\<close>

definition hex_digit :: "nat \<Rightarrow> char" where
  "hex_digit n = (if n < 10 then char_of (48 + n) else char_of (87 + n))"

definition bytes_to_hex :: "byte list \<Rightarrow> string" where
  "bytes_to_hex bs = concat (map (\<lambda>b. [hex_digit (unat b div 16), hex_digit (unat b mod 16)]) bs)"

text \<open>\<open>parseInt(pair, 16) || 0\<close>: the longest hexadecimal prefix, 0 without one.\<close>

definition parse_hex :: "string \<Rightarrow> nat" where
  "parse_hex s = hex_digits_val (takeWhile is_hex s)"

fun hex_pairs :: "string \<Rightarrow> byte list" where
  "hex_pairs (a # b # s) = of_nat (parse_hex [a, b]) # hex_pairs s"
| "hex_pairs _ = []"

definition hex_to_bytes :: "string \<Rightarrow> byte list" where
  "hex_to_bytes hex = hex_pairs (if length hex mod 2 = 0 then hex else CHR ''0'' # hex)"

definition code_at :: "string \<Rightarrow> nat \<Rightarrow> nat" where
  "code_at s i = (if i < length s then of_char (s ! i) else 0)"

definition timing_safe_equal_hex :: "string \<Rightarrow> string \<Rightarrow> bool" where
  "timing_safe_equal_hex a b =
     (fold (\<lambda>i diff. diff OR (code_at a i XOR code_at b i)) [0..<max (length a) (length b)]
        (length a XOR length b) = 0)"

definition byte_at :: "byte list \<Rightarrow> nat \<Rightarrow> nat" where
  "byte_at s i = (if i < length s then unat (s ! i) else 0)"

definition timing_safe_equal_bytes :: "byte list \<Rightarrow> byte list \<Rightarrow> bool" where
  "timing_safe_equal_bytes a b =
     (fold (\<lambda>i diff. diff OR (byte_at a i XOR byte_at b i)) [0..<max (length a) (length b)]
        (length a XOR length b) = 0)"

definition alphanum :: string where
  "alphanum = ''ABCDEFGHIJKLMNOPQRSTUVWXYZabcdefghijklmnopqrstuvwxyz0123456789''"

text \<open>The accepted characters of a byte, none for the bytes past the last whole multiple of 62.\<close>

definition alphanum_of :: "nat \<Rightarrow> string" where
  "alphanum_of b = (if b \<ge> 256 - 256 mod length alphanum then [] else [alphanum ! (b mod length alphanum)])"

text \<open>The string of the wanted length, \<^term>\<open>None\<close> when the bytes run out before.\<close>

definition random_alphanumeric :: "nat \<Rightarrow> byte list \<Rightarrow> string option" where
  "random_alphanumeric n bytes =
     (let out = concat (map (\<lambda>b. alphanum_of (unat b)) bytes) in
      if n \<le> length out then Some (take n out) else None)"

subsection \<open>Comparison\<close>

lemma fold_or_zero: "fold (\<lambda>i d. d OR f i) xs d = (0 :: nat) \<longleftrightarrow> d = 0 \<and> (\<forall>i \<in> set xs. f i = 0)"
  by (induction xs arbitrary: d) (auto simp: or_eq_0_iff)

lemma nat_xor_zero: "a XOR b = (0 :: nat) \<longleftrightarrow> a = b"
  by (metis bit.xor_self bit_eq_iff bit_xor_iff bit_0_eq bot_apply bot_bool_def)

lemma timing_safe_equal_iff: "timing_safe_equal_hex a b \<longleftrightarrow> a = b"
proof
  assume "timing_safe_equal_hex a b"
  then have l: "length a = length b" and e: "\<forall>i < max (length a) (length b). code_at a i = code_at b i"
    by (auto simp: timing_safe_equal_hex_def fold_or_zero nat_xor_zero)
  show "a = b" using l e by (intro nth_equalityI) (auto simp: code_at_def)
qed (simp only: timing_safe_equal_hex_def fold_or_zero nat_xor_zero, simp)

lemma hex_digit_hex: "n < 16 \<Longrightarrow> is_hex (hex_digit n) \<and> hex_val (hex_digit n) = n"
  by (auto simp: hex_digit_def is_hex_def hex_val_def Let_def)

lemma parse_hex_pair: "n < 256 \<Longrightarrow> parse_hex [hex_digit (n div 16), hex_digit (n mod 16)] = n"
  using hex_digit_hex [of "n div 16"] hex_digit_hex [of "n mod 16"]
  by (simp add: parse_hex_def hex_digits_val_def less_mult_imp_div_less)

text \<open>Decoding the hexadecimal text of bytes gives the bytes back, and two digests compare equal exactly
  when they are the same text, although the comparison never stops early.\<close>
theorem hex_and_comparison:
  "hex_to_bytes (bytes_to_hex bs) = bs \<and> timing_safe_equal_hex a b = (a = b)"
proof -
  have "hex_pairs (bytes_to_hex bs) = bs"
    by (induction bs) (simp_all add: bytes_to_hex_def parse_hex_pair unat_byte)
  moreover have "even (length (bytes_to_hex bs))" by (induction bs) (simp_all add: bytes_to_hex_def)
  ultimately show ?thesis by (simp add: hex_to_bytes_def timing_safe_equal_iff even_iff_mod_2_eq_zero)
qed

lemma alphanum_of_alnum: "c \<in> set (alphanum_of b) \<Longrightarrow> is_alnum c"
proof -
  have "list_all is_alnum alphanum" by code_simp
  moreover assume "c \<in> set (alphanum_of b)"
  then have "c = alphanum ! (b mod length alphanum)" by (auto simp: alphanum_of_def split: if_splits)
  moreover have "length alphanum = 62" by code_simp
  ultimately show ?thesis by (simp add: list_all_length)
qed

lemma random_alphanumeric_alnum:
  "random_alphanumeric n bytes = Some s \<Longrightarrow> length s = n \<and> list_all is_alnum s"
  by (auto simp: random_alphanumeric_def Let_def list_all_iff dest!: in_set_takeD alphanum_of_alnum split: if_splits)

end
