(* ===== verification/Credentials.thy ===== *)
theory Credentials
  imports Headers Crypto
begin

text \<open>
  Credentials, \<open>src/lib/auth/extract.ts\<close> and \<open>src/lib/auth/keys.ts\<close>: where a request carries its key,
  the format of a key, its directives, its generation and the model allowlist entries. The digest
  \<open>sha\<close> is WebCrypto's SHA-256 in hexadecimal, an argument; the query parameter \<open>key\<close> is what the
  platform's URL parser finds in the address of the request.
\<close>

subsection \<open>Extraction\<close>

datatype credential_source = FromAuthorization | FromXApiKey | FromApiKey | FromXGoogApiKey | FromMjApiSecret
  | FromWebsocket | FromQuery | FromNone

record extracted_credential =
  cr_raw :: string
  cr_source :: credential_source

definition ws_key_prefix :: string where
  "ws_key_prefix = ''openai-insecure-api-key.''"

definition max_credential_length :: nat where
  "max_credential_length = 512"

definition clean :: "string option \<Rightarrow> string" where
  "clean value = (case value of
      None \<Rightarrow> []
    | Some v \<Rightarrow> let trimmed = js_trim v in if length trimmed > max_credential_length then [] else trimmed)"

definition strip_bearer :: "string \<Rightarrow> string" where
  "strip_bearer value =
     (let trimmed = js_trim value in
      if length trimmed < 7 then trimmed
      else if js_lower (take 6 trimmed) \<noteq> ''bearer'' then trimmed
      else
        let rest = drop 6 trimmed in
        if rest = [] \<or> (hd rest \<noteq> CHR '' '' \<and> hd rest \<noteq> CHR 9) then trimmed else js_trim rest)"

fun first_credential :: "(string \<times> credential_source) list \<Rightarrow> headers \<Rightarrow> extracted_credential option" where
  "first_credential [] hs = None"
| "first_credential ((name, source) # rest) hs =
     (let v = clean (map_of hs name) in
      if v \<noteq> [] then Some \<lparr>cr_raw = strip_bearer v, cr_source = source\<rparr> else first_credential rest hs)"

definition header_sources :: "(string \<times> credential_source) list" where
  "header_sources = [(''authorization'', FromAuthorization), (''x-api-key'', FromXApiKey), (''api-key'', FromApiKey),
     (''x-goog-api-key'', FromXGoogApiKey), (''mj-api-secret'', FromMjApiSecret)]"

definition protocol_entries :: "headers \<Rightarrow> string list" where
  "protocol_entries hs =
     (let protocols = clean (map_of hs ''sec-websocket-protocol'') in
      if protocols = [] then [] else map js_trim (split_on CHR '','' protocols))"

definition websocket_credential :: "headers \<Rightarrow> extracted_credential option" where
  "websocket_credential hs = map_option
     (\<lambda>c. \<lparr>cr_raw = js_trim (drop (length ws_key_prefix) c), cr_source = FromWebsocket\<rparr>)
     (find_one (starts_with ws_key_prefix) (protocol_entries hs))"

definition extract_credential :: "headers \<Rightarrow> string option \<Rightarrow> extracted_credential" where
  "extract_credential hs query_key =
     (case first_credential header_sources hs of
        Some c \<Rightarrow> c
      | None \<Rightarrow> (case websocket_credential hs of
          Some c \<Rightarrow> c
        | None \<Rightarrow>
            let q = clean query_key in
            if q \<noteq> [] then \<lparr>cr_raw = q, cr_source = FromQuery\<rparr> else \<lparr>cr_raw = [], cr_source = FromNone\<rparr>))"

definition realtime_accept_protocol :: "headers \<Rightarrow> string option" where
  "realtime_accept_protocol hs = find_one (\<lambda>c. c \<noteq> [] \<and> \<not> starts_with ws_key_prefix c) (protocol_entries hs)"

subsection \<open>Keys\<close>

definition key_scheme :: string where
  "key_scheme = ''sk''"

definition key_prefix_length :: nat where
  "key_prefix_length = 8"

definition key_secret_length :: nat where
  "key_secret_length = 48"

definition max_key_input :: nat where
  "max_key_input = 512"

definition max_body_length :: nat where
  "max_body_length = 128"

definition max_directives :: nat where
  "max_directives = 8"

definition directive_value_ok :: "string \<Rightarrow> bool" where
  "directive_value_ok v \<longleftrightarrow> 1 \<le> length v \<and> length v \<le> 64 \<and> list_all (\<lambda>c. is_alnum c \<or> c = CHR ''_'') v"

definition value_directives :: "string list" where
  "value_directives = [''ch'', ''channel'', ''g'', ''group'', ''retry'', ''tier'', ''region'']"

record key_directives =
  kd_channel_id :: "string option"
  kd_group :: "string option"
  kd_retry :: "int option"
  kd_tier :: "string option"
  kd_region :: "string option"
  kd_flags :: "string list"

record parsed_key =
  pk_prefix :: string
  pk_secret :: string
  pk_directives :: key_directives

record generated_key =
  gk_key :: string
  gk_prefix :: string
  gk_secret :: string
  gk_last4 :: string
  gk_digest :: string

definition empty_directives :: key_directives where
  "empty_directives = \<lparr>kd_channel_id = None, kd_group = None, kd_retry = None, kd_tier = None, kd_region = None, kd_flags = []\<rparr>"

definition apply_directive :: "string \<Rightarrow> string \<Rightarrow> key_directives \<Rightarrow> key_directives" where
  "apply_directive name value out =
     (if \<not> directive_value_ok value then out
      else if name = ''ch'' \<or> name = ''channel'' then out\<lparr>kd_channel_id := Some value\<rparr>
      else if name = ''g'' \<or> name = ''group'' then out\<lparr>kd_group := Some value\<rparr>
      else if name = ''retry'' then
        let n = number_of_string value in
        if js_is_integer n \<and> 0 \<le> js_to_int n \<and> js_to_int n \<le> 10 then out\<lparr>kd_retry := Some (js_to_int n)\<rparr> else out
      else if name = ''tier'' then out\<lparr>kd_tier := Some value\<rparr>
      else if name = ''region'' then out\<lparr>kd_region := Some value\<rparr>
      else out)"

fun directives_loop :: "nat \<Rightarrow> string list \<Rightarrow> key_directives \<Rightarrow> key_directives" where
  "directives_loop consumed [] out = out"
| "directives_loop consumed (s # rest) out =
     (if max_directives \<le> consumed then out
      else
        let name = js_lower s in
        if name \<notin> set value_directives then
          directives_loop (consumed + 1) rest
            (if name \<noteq> [] \<and> directive_value_ok name then out\<lparr>kd_flags := kd_flags out @ [name]\<rparr> else out)
        else directives_loop (consumed + 1) (tl rest) (apply_directive name (if rest = [] then [] else hd rest) out))"

definition parse_directives :: "string list \<Rightarrow> key_directives" where
  "parse_directives segments = directives_loop 0 segments empty_directives"

definition parse_api_key :: "string \<Rightarrow> parsed_key option" where
  "parse_api_key raw =
     (let trimmed = js_trim raw; minimum = length key_scheme + 1 + key_prefix_length + 40 in
      if length trimmed < minimum \<or> length trimmed > max_key_input then None
      else
        let segments = split_on CHR ''-'' trimmed in
        if length segments < 2 then None
        else if hd segments \<noteq> key_scheme then None
        else
          let body = segments ! 1 in
          if length body > max_body_length then None
          else if \<not> (48 \<le> length body \<and> list_all is_alnum body) then None
          else Some \<lparr>pk_prefix = take 8 body, pk_secret = drop 8 body, pk_directives = parse_directives (drop 2 segments)\<rparr>)"

definition digest_api_key :: "env \<Rightarrow> (string \<Rightarrow> string) \<Rightarrow> string \<Rightarrow> string \<Rightarrow> string" where
  "digest_api_key env sha prefix secret = sha (cfg_key_pepper env @ '':'' @ prefix @ '':'' @ secret)"

text \<open>The two byte streams are those the random source yields for the prefix and for the secret.\<close>

definition generate_api_key :: "env \<Rightarrow> (string \<Rightarrow> string) \<Rightarrow> byte list \<Rightarrow> byte list \<Rightarrow> generated_key option" where
  "generate_api_key env sha bytes1 bytes2 =
     Option.bind (random_alphanumeric key_prefix_length bytes1) (\<lambda>prefix.
     Option.bind (random_alphanumeric key_secret_length bytes2) (\<lambda>secret.
       Some \<lparr>gk_key = key_scheme @ ''-'' @ prefix @ secret, gk_prefix = prefix, gk_secret = secret,
             gk_last4 = drop (length secret - 4) secret, gk_digest = digest_api_key env sha prefix secret\<rparr>))"

definition mask_key :: "string \<Rightarrow> string \<Rightarrow> string" where
  "mask_key prefix last4 = key_scheme @ ''-'' @ prefix @ ''...'' @ last4"

definition model_matches :: "string \<Rightarrow> string \<Rightarrow> bool" where
  "model_matches pattern model =
     (if pattern = ''*'' then True
      else if ends_with ''*'' pattern then starts_with (butlast pattern) model
      else pattern = model)"

end
