(* ===== verification/Authenticate.thy ===== *)
theory Authenticate
  imports Credentials Ssrf Domain
begin

text \<open>
  Authentication of a relay request, \<open>src/lib/auth/authenticate.ts\<close>. The state is the shared store
  with the cached identities and the two collections it is checked against. SHA-256, the keyed hash
  of an address and the random request id are arguments. The clock is read at four moments: the
  start, the load of the identity, the check of the current rows, and the end before the padding.
\<close>

record auth_world =
  aw_co :: coord
  aw_users :: "user_doc list"
  aw_tokens :: "token_doc list"
  aw_db_ok :: bool

record auth_clock =
  at_start :: int
  at_load :: int
  at_check :: int
  at_end :: int

record auth_context =
  ac_identity :: identity
  ac_directives :: key_directives
  ac_source :: credential_source
  ac_client_ip :: string
  ac_ip_hash :: string
  ac_request_id :: string
  ac_started_at :: int

datatype cache_entry = CacheHit string identity "int option" | CacheMiss

definition negative_ttl_sec :: rat where
  "negative_ttl_sec = 5"

definition dummy_digest :: string where
  "dummy_digest = replicate 64 (CHR ''0'')"

definition session_token_prefix :: string where
  "session_token_prefix = ''sess-''"

text \<open>The moment a request that is ready at \<open>now\<close> is answered: not before the latency floor.\<close>

definition pad_auth_latency :: "env \<Rightarrow> int \<Rightarrow> int \<Rightarrow> int" where
  "pad_auth_latency env started_at now =
     (let least = cfg_min_auth_latency_ms env in
      if least \<le> 0 then now
      else if now - started_at < least then now + (least - (now - started_at)) else now)"

definition token_cache_key :: "string \<Rightarrow> string" where
  "token_cache_key prefix = render (KToken prefix)"

definition invalidate_token_cache :: "int \<Rightarrow> string \<Rightarrow> coord \<Rightarrow> unit option \<times> coord" where
  "invalidate_token_cache now prefix co =
     (case redis_del now [token_cache_key prefix] co of (r, co') \<Rightarrow> (map_option (\<lambda>_. ()) r, co'))"

definition invalidate_token_caches :: "int \<Rightarrow> string list \<Rightarrow> coord \<Rightarrow> unit option \<times> coord" where
  "invalidate_token_caches now prefixes co =
     (if prefixes = [] then (Some (), co)
      else (case redis_del now (map token_cache_key prefixes) co of (r, co') \<Rightarrow> (map_option (\<lambda>_. ()) r, co')))"

subsection \<open>The cached identity as a document\<close>

fun role_text :: "user_role \<Rightarrow> string" where
  "role_text RoleUser = ''user''"
| "role_text RoleAdmin = ''admin''"
| "role_text RoleRoot = ''root''"

definition role_of_text :: "string \<Rightarrow> user_role" where
  "role_of_text s = (if s = ''root'' then RoleRoot else if s = ''admin'' then RoleAdmin else RoleUser)"

definition identity_json :: "identity \<Rightarrow> json" where
  "identity_json i = JObj [(''tokenId'', JStr (idn_token_id i)), (''tokenName'', JStr (idn_token_name i)),
     (''keyPrefix'', JStr (idn_key_prefix i)), (''keyLast4'', JStr (idn_key_last4 i)), (''userId'', JStr (idn_user_id i)),
     (''username'', JStr (idn_username i)), (''role'', JStr (role_text (idn_role i))), (''group'', JStr (idn_group i)),
     (''unlimitedQuota'', JBool (idn_unlimited_quota i)), (''tokenQuota'', JNum (js_int (idn_token_quota i))),
     (''userQuota'', JNum (js_int (idn_user_quota i))), (''allowedIps'', JArr (map JStr (idn_allowed_ips i))),
     (''allowedModels'', JArr (map JStr (idn_allowed_models i))), (''rpmLimit'', JNum (js_int (idn_rpm_limit i))),
     (''tpmLimit'', JNum (js_int (idn_tpm_limit i)))]"

definition int_field :: "string \<Rightarrow> (string \<times> json) list \<Rightarrow> int" where
  "int_field k ms = (case get_field k ms of Some (JNum n) \<Rightarrow> js_to_int n | _ \<Rightarrow> 0)"

definition strings_field :: "string \<Rightarrow> (string \<times> json) list \<Rightarrow> string list" where
  "strings_field k ms = map (\<lambda>j. as_string (Some j) []) (as_array (get_field k ms))"

definition identity_of_json :: "json option \<Rightarrow> identity" where
  "identity_of_json j = (let ms = as_record j; s = (\<lambda>k. as_string (get_field k ms) []) in
     \<lparr>idn_token_id = s ''tokenId'', idn_token_name = s ''tokenName'', idn_key_prefix = s ''keyPrefix'',
      idn_key_last4 = s ''keyLast4'', idn_user_id = s ''userId'', idn_username = s ''username'',
      idn_role = role_of_text (s ''role''), idn_group = s ''group'',
      idn_unlimited_quota = as_bool (get_field ''unlimitedQuota'' ms) False,
      idn_token_quota = int_field ''tokenQuota'' ms, idn_user_quota = int_field ''userQuota'' ms,
      idn_allowed_ips = strings_field ''allowedIps'' ms, idn_allowed_models = strings_field ''allowedModels'' ms,
      idn_rpm_limit = int_field ''rpmLimit'' ms, idn_tpm_limit = int_field ''tpmLimit'' ms\<rparr>)"

fun entry_json :: "cache_entry \<Rightarrow> json" where
  "entry_json CacheMiss = JObj [(''hit'', JBool False)]"
| "entry_json (CacheHit digest i e) = JObj [(''hit'', JBool True), (''digest'', JStr digest),
     (''identity'', identity_json i), (''expiresAt'', case e of None \<Rightarrow> JNull | Some t \<Rightarrow> JNum (js_int t))]"

text \<open>
  The entry a cached document stands for, \<^term>\<open>None\<close> when it is not used: \<open>null\<close> and the other falsy
  values, and a hit whose expiry is missing, has passed or is no number.
\<close>

definition entry_of_json :: "int \<Rightarrow> json \<Rightarrow> cache_entry option" where
  "entry_of_json now j =
     (if \<not> js_truthy j then None
      else
        let ms = as_record (Some j);
            digest = as_string (get_field ''digest'' ms) [];
            identity = identity_of_json (get_field ''identity'' ms)
        in if \<not> (case get_field ''hit'' ms of Some v \<Rightarrow> js_truthy v | None \<Rightarrow> False) then Some CacheMiss
           else (case get_field ''expiresAt'' ms of
               Some JNull \<Rightarrow> Some (CacheHit digest identity None)
             | Some (JNum n) \<Rightarrow>
                 if js_lt (js_int now) n then Some (CacheHit digest identity (Some (js_to_int n))) else None
             | _ \<Rightarrow> None))"

subsection \<open>Loading an identity\<close>

definition or_else :: "'a option \<Rightarrow> 'a \<Rightarrow> 'a" where
  "or_else v d = (case v of Some x \<Rightarrow> x | None \<Rightarrow> d)"

definition effective_group :: "token_doc \<Rightarrow> user_doc \<Rightarrow> string" where
  "effective_group t u = (case tok_group t of Some g \<Rightarrow> if g \<noteq> [] then g else usr_group u | None \<Rightarrow> usr_group u)"

definition first_limit :: "int option \<Rightarrow> int option \<Rightarrow> int \<Rightarrow> int" where
  "first_limit a b d = or_else a (or_else b d)"

definition identity_of :: "env \<Rightarrow> token_doc \<Rightarrow> user_doc \<Rightarrow> identity" where
  "identity_of env t u = \<lparr>idn_token_id = tok_id t, idn_token_name = tok_name t, idn_key_prefix = tok_key_prefix t,
     idn_key_last4 = tok_key_last4 t, idn_user_id = usr_id u, idn_username = usr_username u, idn_role = usr_role u,
     idn_group = effective_group t u, idn_unlimited_quota = tok_unlimited t, idn_token_quota = tok_quota t,
     idn_user_quota = usr_quota u, idn_allowed_ips = tok_allowed_ips t, idn_allowed_models = tok_allowed_models t,
     idn_rpm_limit = first_limit (tok_rpm_limit t) (usr_rpm_limit u) (cfg_default_rpm env),
     idn_tpm_limit = first_limit (tok_tpm_limit t) (usr_tpm_limit u) (cfg_default_tpm env)\<rparr>"

definition past :: "int \<Rightarrow> int option \<Rightarrow> bool" where
  "past now e = (case e of Some t \<Rightarrow> t \<le> now | None \<Rightarrow> False)"

definition entry_ttl :: "env \<Rightarrow> int \<Rightarrow> int option \<Rightarrow> int" where
  "entry_ttl env now e = (case e of
      None \<Rightarrow> cfg_token_cache_ttl_sec env
    | Some t \<Rightarrow> max 1 (min (cfg_token_cache_ttl_sec env) \<lceil>of_int (t - now) / (1000 :: rat)\<rceil>))"

text \<open>What the documents say about a prefix.\<close>

definition stored_entry :: "env \<Rightarrow> int \<Rightarrow> string \<Rightarrow> user_doc list \<Rightarrow> token_doc list \<Rightarrow> cache_entry" where
  "stored_entry env now prefix us ts =
     (case find_one (\<lambda>t. tok_key_prefix t = prefix) ts of
        None \<Rightarrow> CacheMiss
      | Some t \<Rightarrow>
          if tok_status t \<noteq> Enabled then CacheMiss
          else if past now (tok_expires_at t) then CacheMiss
          else (case find_one (\<lambda>u. usr_id u = tok_user_id t) us of
              None \<Rightarrow> CacheMiss
            | Some u \<Rightarrow>
                if usr_status u \<noteq> Enabled then CacheMiss
                else CacheHit (tok_key_digest t) (identity_of env t u) (tok_expires_at t)))"

definition stored_ttl :: "env \<Rightarrow> int \<Rightarrow> cache_entry \<Rightarrow> rat" where
  "stored_ttl env now entry = (case entry of
      CacheMiss \<Rightarrow> negative_ttl_sec | CacheHit d i e \<Rightarrow> of_int (entry_ttl env now e))"

text \<open>A failure of the shared store or of the database ends the request; nothing is caught here.\<close>

definition load_identity :: "env \<Rightarrow> int \<Rightarrow> string \<Rightarrow> auth_world \<Rightarrow> (thrown + cache_entry) \<times> auth_world" where
  "load_identity env now prefix w =
     (let key = token_cache_key prefix in
      case redis_get_json now key (aw_co w) of
        (None, co1) \<Rightarrow> (Inl OtherThrown, w\<lparr>aw_co := co1\<rparr>)
      | (Some cached, co1) \<Rightarrow>
          (case Option.bind cached (entry_of_json now) of
             Some entry \<Rightarrow> (Inr entry, w\<lparr>aw_co := co1\<rparr>)
           | None \<Rightarrow>
               if \<not> aw_db_ok w then (Inl OtherThrown, w\<lparr>aw_co := co1\<rparr>)
               else
                 let entry = stored_entry env now prefix (aw_users w) (aw_tokens w) in
                 (case redis_set_json now key (entry_json entry) (Some (stored_ttl env now entry)) co1 of
                    (None, co2) \<Rightarrow> (Inl OtherThrown, w\<lparr>aw_co := co2\<rparr>)
                  | (Some _, co2) \<Rightarrow> (Inr entry, w\<lparr>aw_co := co2\<rparr>))))"

subsection \<open>Authentication\<close>

definition refused :: "string \<Rightarrow> error_code \<Rightarrow> thrown" where
  "refused msg code = Gateway (unauthorized msg code)"

text \<open>The current rows, when they still let the presented key in.\<close>

definition current_rows ::
    "int \<Rightarrow> string \<Rightarrow> identity \<Rightarrow> auth_world \<Rightarrow> (token_doc \<times> user_doc) option" where
  "current_rows now presented i w =
     (case (find_one (\<lambda>t. tok_id t = idn_token_id i \<and> tok_user_id t = idn_user_id i) (aw_tokens w),
            find_one (\<lambda>u. usr_id u = idn_user_id i) (aw_users w)) of
        (Some t, Some u) \<Rightarrow>
          if tok_status t \<noteq> Enabled \<or> usr_status u \<noteq> Enabled \<or> past now (tok_expires_at t) \<or>
             \<not> timing_safe_equal_hex presented (tok_key_digest t)
          then None else Some (t, u)
      | _ \<Rightarrow> None)"

definition refresh_identity :: "env \<Rightarrow> token_doc \<Rightarrow> user_doc \<Rightarrow> identity \<Rightarrow> identity" where
  "refresh_identity env t u i = i\<lparr>idn_token_name := tok_name t, idn_username := usr_username u, idn_role := usr_role u,
     idn_group := effective_group t u, idn_unlimited_quota := tok_unlimited t, idn_token_quota := tok_quota t,
     idn_user_quota := usr_quota u, idn_allowed_ips := tok_allowed_ips t, idn_allowed_models := tok_allowed_models t,
     idn_rpm_limit := first_limit (tok_rpm_limit t) (usr_rpm_limit u) (cfg_default_rpm env),
     idn_tpm_limit := first_limit (tok_tpm_limit t) (usr_tpm_limit u) (cfg_default_tpm env)\<rparr>"

definition production_issues :: "env \<Rightarrow> string" where
  "production_issues env = ''invalid production configuration: '' @
     join_with ''; '' (map (\<lambda>(name, problem). name @ '' '' @ problem) (validate_config env))"

text \<open>The decision on a loaded entry.\<close>

definition admit ::
    "env \<Rightarrow> (string \<Rightarrow> string) \<Rightarrow> int \<Rightarrow> string \<Rightarrow> parsed_key \<Rightarrow> cache_entry \<Rightarrow> auth_world \<Rightarrow> thrown + identity" where
  "admit env sha now client_ip parsed entry w =
     (let presented = digest_api_key env sha (pk_prefix parsed) (pk_secret parsed);
          expected = (case entry of CacheHit d i e \<Rightarrow> d | CacheMiss \<Rightarrow> dummy_digest);
          matches = timing_safe_equal_hex presented expected
      in case entry of
           CacheMiss \<Rightarrow> Inl (refused ''invalid api key'' InvalidApiKey)
         | CacheHit d i e \<Rightarrow>
             if \<not> matches then Inl (refused ''invalid api key'' InvalidApiKey)
             else if \<not> aw_db_ok w then Inl OtherThrown
             else (case current_rows now presented i w of
                 None \<Rightarrow> Inl (refused ''invalid api key'' InvalidApiKey)
               | Some (t, u) \<Rightarrow>
                   let identity = refresh_identity env t u i in
                   if idn_allowed_ips identity \<noteq> [] \<and>
                      (client_ip = [] \<or> \<not> matches_any_cidr (idn_allowed_ips identity) client_ip)
                   then Inl (Gateway (forbidden ''this api key is not permitted from your address'' IpNotAllowed))
                   else Inr identity))"

text \<open>The result and the moment of the answer. Only admissions and refusals are padded.\<close>

definition authenticate ::
    "env \<Rightarrow> (string \<Rightarrow> string) \<Rightarrow> (string \<Rightarrow> string) \<Rightarrow> string \<Rightarrow> auth_clock \<Rightarrow> headers \<Rightarrow> string option \<Rightarrow> auth_world \<Rightarrow>
     (thrown + auth_context) \<times> int \<times> auth_world" where
  "authenticate env sha hash_ip request_id clk hs query_key w =
     (let client_ip = get_client_ip hs (cfg_trusted_proxy_hops env);
          credential = extract_credential hs query_key;
          padded = pad_auth_latency env (at_start clk) (at_end clk)
      in if \<not> production_ready env then (Inl (ConfigThrown (production_issues env)), at_start clk, w)
         else if starts_with session_token_prefix (cr_raw credential) then
           (Inl (refused ''session tokens cannot be used as api keys'' InvalidApiKey), padded, w)
         else (case parse_api_key (cr_raw credential) of
             None \<Rightarrow> (Inl (refused (if cr_source credential = FromNone then ''no api key was provided''
                 else ''the api key is malformed'') InvalidApiKey), padded, w)
           | Some parsed \<Rightarrow>
               (case load_identity env (at_load clk) (pk_prefix parsed) w of
                  (Inl e, w1) \<Rightarrow> (Inl e, at_end clk, w1)
                | (Inr entry, w1) \<Rightarrow>
                    (case admit env sha (at_check clk) client_ip parsed entry w1 of
                       Inl e \<Rightarrow> (Inl e, if e = OtherThrown then at_end clk else padded, w1)
                     | Inr identity \<Rightarrow>
                         (Inr \<lparr>ac_identity = identity, ac_directives = pk_directives parsed,
                            ac_source = cr_source credential, ac_client_ip = client_ip,
                            ac_ip_hash = hash_ip client_ip, ac_request_id = request_id,
                            ac_started_at = at_start clk\<rparr>, padded, w1)))))"

definition assert_model_allowed :: "identity \<Rightarrow> string \<Rightarrow> gateway_error + unit" where
  "assert_model_allowed i model =
     (if idn_allowed_models i = [] then Inr ()
      else if list_ex (\<lambda>p. model_matches p model) (idn_allowed_models i) then Inr ()
      else Inl (forbidden (''this api key may not use model '' @ quoted model) ModelNotAllowed))"

fun role_rank :: "user_role \<Rightarrow> int" where
  "role_rank RoleUser = 0"
| "role_rank RoleAdmin = 1"
| "role_rank RoleRoot = 2"

definition assert_role :: "identity \<Rightarrow> user_role \<Rightarrow> gateway_error + unit" where
  "assert_role i minimum =
     (if role_rank (idn_role i) < role_rank minimum
      then Inl (forbidden ''this operation requires elevated privileges'' InsufficientPermissions) else Inr ())"

definition effective_directives :: "auth_context \<Rightarrow> key_directives" where
  "effective_directives ctx =
     (if idn_role (ac_identity ctx) = RoleUser \<and> kd_channel_id (ac_directives ctx) \<notin> {None, Some []}
      then (ac_directives ctx)\<lparr>kd_channel_id := None\<rparr> else ac_directives ctx)"

end
