(* ===== verification/AuthLaws.thy ===== *)
theory AuthLaws
  imports Authenticate SampleData
begin

text \<open>
  What authentication guarantees: keys round-trip through their text, directives are bounded, a
  caller is only let in on the rows of the moment, a valid key is let in, refusals tell nothing apart
  and no answer about a credential comes before the latency floor.
\<close>

subsection \<open>Keys\<close>

definition word_char :: "char \<Rightarrow> bool" where
  "word_char c \<longleftrightarrow> is_alnum c \<or> c = CHR ''_''"

definition dashed :: "string list \<Rightarrow> string" where
  "dashed segs = concat (map (\<lambda>s. CHR ''-'' # s) segs)"

lemma word_char_plain: "word_char c \<Longrightarrow> \<not> is_ws c \<and> c \<noteq> CHR ''-''"
  by (auto simp: word_char_def is_alnum_def is_alpha_def is_digit_def is_ws_def Let_def)

lemma dash_plain: "\<not> is_ws CHR ''-''"
  by code_simp

lemma split_dashed:
  assumes "list_all (list_all word_char) segs"
  shows "CHR ''-'' \<notin> set a \<Longrightarrow> split_on CHR ''-'' (a @ dashed segs) = a # segs"
  using assms
proof (induction segs arbitrary: a)
  case Nil
  then show ?case by (simp add: dashed_def split_on_single)
next
  case (Cons s segs)
  have s: "CHR ''-'' \<notin> set s" using Cons.prems(2) word_char_plain by (auto simp: list_all_iff)
  have "split_on CHR ''-'' (a @ CHR ''-'' # (s @ dashed segs)) = split_on CHR ''-'' a @ split_on CHR ''-'' (s @ dashed segs)"
    by (rule split_on_join)
  then show ?case using Cons s by (simp add: dashed_def split_on_single)
qed

lemma parse_key_text:
  assumes "length prefix = 8" "length secret = 48" "list_all is_alnum prefix" "list_all is_alnum secret"
    "list_all (list_all word_char) segs" "length (dashed segs) \<le> 453"
  shows "parse_api_key (''sk-'' @ prefix @ secret @ dashed segs) =
    Some \<lparr>pk_prefix = prefix, pk_secret = secret, pk_directives = parse_directives segs\<rparr>"
proof -
  let ?raw = "''sk-'' @ prefix @ secret @ dashed segs"
  have word: "c \<in> set (prefix @ secret) \<Longrightarrow> word_char c" for c
    using assms(3,4) by (auto simp: word_char_def list_all_iff)
  have d: "c \<in> set (dashed segs) \<Longrightarrow> \<not> is_ws c" for c
    using assms(5) word_char_plain dash_plain by (fastforce simp: dashed_def list_all_iff split: if_splits)
  have sk: "\<not> is_ws CHR ''s''" "\<not> is_ws CHR ''k''" by code_simp+
  have "\<not> is_ws c" if "c \<in> set ?raw" for c
    using that d word word_char_plain sk dash_plain by auto
  then have trim: "js_trim ?raw = ?raw" by (intro trim_digits) auto
  have "split_on CHR ''-'' (''sk'' @ CHR ''-'' # ((prefix @ secret) @ dashed segs)) =
      split_on CHR ''-'' ''sk'' @ split_on CHR ''-'' ((prefix @ secret) @ dashed segs)" by (rule split_on_join)
  moreover have "split_on CHR ''-'' ((prefix @ secret) @ dashed segs) = (prefix @ secret) # segs"
    using word word_char_plain by (intro split_dashed assms) blast
  ultimately have split: "split_on CHR ''-'' ?raw = ''sk'' # (prefix @ secret) # segs" by simp
  show ?thesis using assms
    by (simp add: parse_api_key_def Let_def trim split key_scheme_def key_prefix_length_def max_key_input_def
        max_body_length_def del: append.simps)
qed

text \<open>A generated key, with any directives appended as dash-separated words, parses back to its prefix,
  its secret and these directives, and the digest stored for it is the digest of what was parsed.\<close>
theorem generated_key_parses:
  assumes "generate_api_key env sha bytes1 bytes2 = Some g" "list_all (list_all word_char) segs" "length (dashed segs) \<le> 453"
  shows "\<exists>p. parse_api_key (gk_key g @ dashed segs) = Some p \<and> pk_prefix p = gk_prefix g \<and> pk_secret p = gk_secret g \<and>
    pk_directives p = parse_directives segs \<and> digest_api_key env sha (pk_prefix p) (pk_secret p) = gk_digest g"
proof -
  obtain prefix secret where d: "random_alphanumeric 8 bytes1 = Some prefix" "random_alphanumeric 48 bytes2 = Some secret"
    "gk_key g = ''sk-'' @ prefix @ secret" "gk_prefix g = prefix" "gk_secret g = secret" "gk_digest g = digest_api_key env sha prefix secret"
    using assms(1) by (auto simp: generate_api_key_def key_prefix_length_def key_secret_length_def key_scheme_def split: bind_splits)
  have "parse_api_key (''sk-'' @ prefix @ secret @ dashed segs) =
      Some \<lparr>pk_prefix = prefix, pk_secret = secret, pk_directives = parse_directives segs\<rparr>"
    using random_alphanumeric_alnum [OF d(1)] random_alphanumeric_alnum [OF d(2)] assms(2,3) by (intro parse_key_text) auto
  with d show ?thesis by simp
qed

theorem generated_key_parses_witness:
  "\<exists>p. parse_api_key (''sk-AAAAAAAABBBBBBBBBBBBBBBBBBBBBBBBBBBBBBBBBBBBBBBBBBBBBBBB'' @ dashed [''ch'', ''c1'']) = Some p \<and>
    pk_prefix p = ''AAAAAAAA'' \<and> pk_directives p = parse_directives [''ch'', ''c1'']"
proof -
  let ?g = "generate_api_key (\<lambda>_. None) (\<lambda>s. ''d'') (replicate 8 62) (replicate 48 1)"
  have "(case ?g of Some g \<Rightarrow> (gk_key g, gk_prefix g) | None \<Rightarrow> ([], [])) =
      (''sk-AAAAAAAABBBBBBBBBBBBBBBBBBBBBBBBBBBBBBBBBBBBBBBBBBBBBBBB'', ''AAAAAAAA'')" by code_simp
  then obtain g where g: "?g = Some g" "gk_key g = ''sk-AAAAAAAABBBBBBBBBBBBBBBBBBBBBBBBBBBBBBBBBBBBBBBBBBBBBBBB''" "gk_prefix g = ''AAAAAAAA''"
    by (cases ?g) auto
  have "list_all (list_all word_char) [''ch'', ''c1'']" "length (dashed [''ch'', ''c1'']) \<le> 453" by code_simp+
  from generated_key_parses [OF g(1) this] show ?thesis unfolding g(2,3) by blast
qed

text \<open>Directives never exceed their bounds, whatever the segments say.\<close>

definition directives_ok :: "key_directives \<Rightarrow> bool" where
  "directives_ok d \<longleftrightarrow> (case kd_retry d of Some n \<Rightarrow> 0 \<le> n \<and> n \<le> 10 | None \<Rightarrow> True) \<and>
     list_all directive_value_ok (kd_flags d) \<and>
     list_all (\<lambda>v. case v of Some s \<Rightarrow> directive_value_ok s | None \<Rightarrow> True) [kd_channel_id d, kd_group d, kd_tier d, kd_region d]"

lemma apply_directive_ok: "directives_ok d \<Longrightarrow> directives_ok (apply_directive name value d)"
  by (auto simp: apply_directive_def directives_ok_def Let_def)

lemma apply_directive_flags [simp]: "kd_flags (apply_directive name value d) = kd_flags d"
  by (simp add: apply_directive_def Let_def)

lemma directives_loop_ok:
  "directives_ok d \<Longrightarrow> directives_ok (directives_loop n segs d) \<and>
    length (kd_flags (directives_loop n segs d)) \<le> length (kd_flags d) + (max_directives - n)"
proof (induction n segs d rule: directives_loop.induct)
  case (2 n s rest out)
  let ?flag = "js_lower s \<notin> set value_directives"
  let ?out = "if js_lower s \<noteq> [] \<and> directive_value_ok (js_lower s) then out\<lparr>kd_flags := kd_flags out @ [js_lower s]\<rparr> else out"
  have ok: "directives_ok ?out" using 2(3) by (auto simp: directives_ok_def)
  consider "max_directives \<le> n" | "\<not> max_directives \<le> n" ?flag | "\<not> max_directives \<le> n" "\<not> ?flag" by blast
  then show ?case
  proof cases
    case 2
    then have e: "directives_loop n (s # rest) out = directives_loop (n + 1) rest ?out" by (simp add: Let_def)
    from e have "length (kd_flags (directives_loop n (s # rest) out)) = length (kd_flags (directives_loop (n + 1) rest ?out))" by (rule arg_cong)
    moreover have "length (kd_flags ?out) \<le> length (kd_flags out) + 1" by simp
    moreover note ih = "2.IH"(1) [OF 2(1) refl 2(2) ok]
    ultimately have "length (kd_flags (directives_loop n (s # rest) out)) \<le> length (kd_flags out) + (max_directives - n)"
      using 2(1) by linarith
    with e ih show ?thesis by metis
  next
    case 3
    with "2.IH"(2) [OF 3(1) refl 3(2) apply_directive_ok [OF "2.prems"]] show ?thesis by (cases rest) (auto simp: Let_def)
  qed (use "2.prems" in simp)
qed auto

text \<open>Whatever follows a key, its directives keep their bounds: a retry count of 0 to 10, at most eight
  flags, and every value a word of 1 to 64 characters.\<close>
theorem directives_bounded:
  "directives_ok (parse_directives segs) \<and> length (kd_flags (parse_directives segs)) \<le> 8"
  using directives_loop_ok [of empty_directives 0 segs]
  by (simp add: parse_directives_def max_directives_def empty_directives_def directives_ok_def)

subsection \<open>Who is let in\<close>

text \<open>A key, the documents it belongs to and a digest that keeps the last eight characters.\<close>

definition sample_key :: string where
  "sample_key = ''sk-AbCdEfGh0123456789012345678901234567890123456789secret77''"

definition sample_sha :: "string \<Rightarrow> string" where
  "sample_sha s = drop (length s - 8) s"

definition sample_auth :: auth_world where
  "sample_auth = \<lparr>aw_co = \<lparr>co_store = [], co_degraded_until = 0, co_last_error = [], co_faults = []\<rparr>,
     aw_users = [sample_user], aw_tokens = [sample_token\<lparr>tok_key_prefix := ''AbCdEfGh'', tok_key_digest := ''secret77''\<rparr>],
     aw_db_ok = True\<rparr>"

definition sample_clock :: auth_clock where
  "sample_clock = \<lparr>at_start = 1000, at_load = 1001, at_check = 1002, at_end = 1003\<rparr>"

definition sample_call :: "string \<Rightarrow> (thrown + auth_context) \<times> int \<times> auth_world" where
  "sample_call key = authenticate (\<lambda>_. None) sample_sha (\<lambda>_. ''h'') ''req1'' sample_clock
     [(''authorization'', ''Bearer '' @ key), (''x-forwarded-for'', ''198.51.100.7'')] None sample_auth"

lemma currentD:
  assumes "current_rows now presented i w = Some (t, u)"
  shows "t \<in> set (aw_tokens w)" "tok_id t = idn_token_id i" "tok_user_id t = usr_id u" "u \<in> set (aw_users w)"
    "usr_id u = idn_user_id i" "tok_status t = Enabled" "usr_status u = Enabled" "\<not> past now (tok_expires_at t)"
    "presented = tok_key_digest t"
  using assms by (auto simp: current_rows_def timing_safe_equal_iff split: option.splits if_splits dest!: find_one_SomeD)

lemma load_identity_docs:
  "aw_tokens (snd (load_identity env now prefix w)) = aw_tokens w \<and>
   aw_users (snd (load_identity env now prefix w)) = aw_users w \<and> aw_db_ok (snd (load_identity env now prefix w)) = aw_db_ok w"
  by (auto simp: load_identity_def Let_def split: prod.splits option.splits)

lemma admit_success:
  assumes "admit env sha now client_ip p entry w = Inr idn"
  obtains d i e t u where "entry = CacheHit d i e" "idn = refresh_identity env t u i"
    "current_rows now (digest_api_key env sha (pk_prefix p) (pk_secret p)) i w = Some (t, u)"
    "tok_allowed_ips t = [] \<or> matches_any_cidr (tok_allowed_ips t) client_ip"
proof (cases entry)
  case (CacheHit d i e)
  with assms obtain t u where c: "current_rows now (digest_api_key env sha (pk_prefix p) (pk_secret p)) i w = Some (t, u)"
    by (auto simp: admit_def Let_def split: if_splits option.splits)
  with assms CacheHit have "idn = refresh_identity env t u i" "tok_allowed_ips t = [] \<or> matches_any_cidr (tok_allowed_ips t) client_ip"
    by (auto simp: admit_def Let_def refresh_identity_def split: if_splits)
  with c CacheHit show ?thesis by (auto intro: that)
qed (use assms in \<open>simp add: admit_def Let_def\<close>)

lemma admit_error:
  assumes "admit env sha now client_ip p entry w = Inl (Gateway e)"
  shows "e = unauthorized ''invalid api key'' InvalidApiKey \<or>
    e = forbidden ''this api key is not permitted from your address'' IpNotAllowed \<and>
    (\<exists>t \<in> set (aw_tokens w). tok_key_digest t = digest_api_key env sha (pk_prefix p) (pk_secret p) \<and> tok_status t = Enabled)"
proof (cases entry)
  case (CacheHit d i e')
  show ?thesis
  proof (cases "current_rows now (digest_api_key env sha (pk_prefix p) (pk_secret p)) i w")
    case (Some tu)
    then obtain t u where "tu = (t, u)" by (cases tu)
    with Some have c: "current_rows now (digest_api_key env sha (pk_prefix p) (pk_secret p)) i w = Some (t, u)" by simp
    show ?thesis using assms CacheHit c currentD [OF c]
      by (auto simp: admit_def Let_def refused_def split: if_splits)
  qed (use assms CacheHit in \<open>auto simp: admit_def Let_def refused_def split: if_splits\<close>)
qed (use assms in \<open>simp add: admit_def Let_def refused_def\<close>)

lemma load_identity_error [simp]: "load_identity env now prefix w \<noteq> (Inl (Gateway e), w')"
  by (auto simp: load_identity_def Let_def split: prod.splits option.splits)

lemma admitted_rows:
  assumes "authenticate env sha hash_ip request_id clk hs query_key w = (Inr ctx, finish, w')"
  shows "\<exists>t u p. t \<in> set (aw_tokens w) \<and> u \<in> set (aw_users w) \<and> tok_user_id t = usr_id u \<and>
    tok_status t = Enabled \<and> usr_status u = Enabled \<and> \<not> past (at_check clk) (tok_expires_at t) \<and>
    parse_api_key (cr_raw (extract_credential hs query_key)) = Some p \<and>
    digest_api_key env sha (pk_prefix p) (pk_secret p) = tok_key_digest t \<and>
    (tok_allowed_ips t = [] \<or> matches_any_cidr (tok_allowed_ips t) (ac_client_ip ctx)) \<and>
    idn_token_id (ac_identity ctx) = tok_id t \<and> idn_user_id (ac_identity ctx) = usr_id u \<and>
    idn_role (ac_identity ctx) = usr_role u \<and> idn_group (ac_identity ctx) = effective_group t u \<and>
    idn_user_quota (ac_identity ctx) = usr_quota u \<and> idn_allowed_models (ac_identity ctx) = tok_allowed_models t"
proof -
  obtain p entry where h: "parse_api_key (cr_raw (extract_credential hs query_key)) = Some p"
    "load_identity env (at_load clk) (pk_prefix p) w = (Inr entry, w')"
    "admit env sha (at_check clk) (ac_client_ip ctx) p entry w' = Inr (ac_identity ctx)"
    using assms by (auto simp: authenticate_def Let_def split: if_splits option.splits prod.splits sum.splits)
  from h(3) obtain d i e t u where a: "ac_identity ctx = refresh_identity env t u i"
    "current_rows (at_check clk) (digest_api_key env sha (pk_prefix p) (pk_secret p)) i w' = Some (t, u)"
    "tok_allowed_ips t = [] \<or> matches_any_cidr (tok_allowed_ips t) (ac_client_ip ctx)" by (rule admit_success)
  have w: "aw_tokens w' = aw_tokens w" "aw_users w' = aw_users w"
    using load_identity_docs [of env "at_load clk" "pk_prefix p" w] h(2) by simp_all
  show ?thesis using currentD [OF a(2)] a(1,3) h(1) unfolding w
    by (intro exI [of _ t] exI [of _ u] exI [of _ p]) (simp add: refresh_identity_def)
qed

text \<open>C31: whatever the cache holds, a caller is let in only on rows of this moment: an enabled, unexpired token
  of an enabled user whose stored digest is the digest of the presented key, and from an address its
  rules admit; role, group, quotas, limits and model list are those of these rows.\<close>
theorem only_current_rows_admit:
  assumes "authenticate env sha hash_ip request_id clk hs query_key w = (Inr ctx, finish, w')"
  shows "\<exists>t u p. t \<in> set (aw_tokens w) \<and> u \<in> set (aw_users w) \<and> tok_user_id t = usr_id u \<and>
    tok_status t = Enabled \<and> usr_status u = Enabled \<and> \<not> past (at_check clk) (tok_expires_at t) \<and>
    parse_api_key (cr_raw (extract_credential hs query_key)) = Some p \<and>
    digest_api_key env sha (pk_prefix p) (pk_secret p) = tok_key_digest t \<and>
    (tok_allowed_ips t = [] \<or> matches_any_cidr (tok_allowed_ips t) (ac_client_ip ctx)) \<and>
    idn_token_id (ac_identity ctx) = tok_id t \<and> idn_user_id (ac_identity ctx) = usr_id u \<and>
    idn_role (ac_identity ctx) = usr_role u \<and> idn_group (ac_identity ctx) = effective_group t u \<and>
    idn_user_quota (ac_identity ctx) = usr_quota u \<and> idn_allowed_models (ac_identity ctx) = tok_allowed_models t"
  by (rule admitted_rows [OF assms])

lemma sample_admission:
  "\<exists>ctx w'. sample_call sample_key = (Inr ctx, 1030, w') \<and> ac_client_ip ctx = ''198.51.100.7''"
proof -
  have "(case sample_call sample_key of (Inr ctx, f, w) \<Rightarrow> (ac_client_ip ctx, f) | (Inl e, f, w) \<Rightarrow> ([], 0)) = (''198.51.100.7'', 1030)"
    by code_simp
  then show ?thesis by (auto split: prod.splits sum.splits)
qed

lemma sample_refusal:
  "\<exists>w'. sample_call (butlast sample_key @ ''8'') = (Inl (Gateway (unauthorized ''invalid api key'' InvalidApiKey)), 1030, w')"
proof -
  have "(case sample_call (butlast sample_key @ ''8'') of (Inl e, f, w) \<Rightarrow> (e, f) | (Inr ctx, f, w) \<Rightarrow> (OtherThrown, 0)) =
      (Gateway (unauthorized ''invalid api key'' InvalidApiKey), 1030)"
    by code_simp
  then show ?thesis by (auto split: prod.splits sum.splits)
qed

theorem only_current_rows_admit_witness:
  "\<exists>t u. t \<in> set (aw_tokens sample_auth) \<and> u \<in> set (aw_users sample_auth) \<and> tok_user_id t = usr_id u \<and> tok_status t = Enabled"
proof -
  obtain ctx w' where "sample_call sample_key = (Inr ctx, 1030, w')" using sample_admission by blast
  then show ?thesis unfolding sample_call_def by (blast dest: only_current_rows_admit)
qed

text \<open>No answer about a credential, admission or refusal, comes before the latency floor, so the time of
  the answer tells nothing apart; only a broken configuration or a failing store is answered at once.\<close>
theorem answers_keep_the_floor:
  assumes "authenticate env sha hash_ip request_id clk hs query_key w = (r, finish, w')" "r = Inr ctx \<or> r = Inl (Gateway e)"
  shows "at_start clk + cfg_min_auth_latency_ms env \<le> finish \<or> cfg_min_auth_latency_ms env \<le> 0"
proof -
  have "finish = pad_auth_latency env (at_start clk) (at_end clk)"
    using assms by (auto simp: authenticate_def Let_def split: if_splits option.splits prod.splits sum.splits)
  then show ?thesis by (auto simp: pad_auth_latency_def Let_def)
qed

theorem answers_keep_the_floor_witness:
  "at_start sample_clock + cfg_min_auth_latency_ms (\<lambda>_. None) \<le> 1030 \<or> cfg_min_auth_latency_ms (\<lambda>_. None) \<le> 0"
proof -
  obtain ctx w' where "sample_call sample_key = (Inr ctx, 1030, w')" using sample_admission by blast
  then show ?thesis unfolding sample_call_def by (rule answers_keep_the_floor) blast
qed



end
