(* ===== verification/Pricing.thy ===== *)
theory Pricing
  imports Routing
begin

text \<open>
  Model pricing, \<open>src/lib/pricing/index.ts\<close>: the built-in catalogue with its prefix match, the cache
  discounts, overrides from the database merged over the defaults, the cached entry, the group
  multiplier and the tool surcharges. Prices are exact rationals where the code has doubles; only
  a price per token can be NaN (a name every JavaScript object inherits finds no number in the
  catalogue). A cached entry is read as the gateway writes it.
\<close>

datatype usage_semantic = Inclusive | Exclusive

record resolved_pricing =
  rp_model :: string
  rp_model_ratio :: jsnum
  rp_completion_ratio :: rat
  rp_cached_ratio :: rat
  rp_cache_write_5m_ratio :: rat
  rp_cache_write_1h_ratio :: rat
  rp_image_ratio :: rat
  rp_audio_ratio :: rat
  rp_audio_completion_ratio :: rat
  rp_per_call_quota :: rat
  rp_usage_semantic :: usage_semantic

text \<open>A stored override; a field that is absent, or is no number, is \<^term>\<open>JNaN\<close>.\<close>

record model_pricing_doc =
  mp_id :: string
  mp_model_ratio :: jsnum
  mp_completion_ratio :: jsnum
  mp_cached_ratio :: jsnum
  mp_cache_write_5m_ratio :: jsnum
  mp_cache_write_1h_ratio :: jsnum
  mp_image_ratio :: jsnum
  mp_audio_ratio :: jsnum
  mp_audio_completion_ratio :: jsnum
  mp_per_call_quota :: jsnum
  mp_usage_semantic :: "usage_semantic option"

record pricing_world =
  pw_co :: coord
  pw_pricing :: "model_pricing_doc list"
  pw_group_ratios :: "(string \<times> jsnum) list"
  pw_db_ok :: bool

definition pricing_version :: int where
  "pricing_version = 3"

definition default_cache_write_5m_ratio :: rat where
  "default_cache_write_5m_ratio = 5 / 4"

definition default_cache_write_1h_ratio :: rat where
  "default_cache_write_1h_ratio = 2"

record price_card =
  pc_in :: jsnum
  pc_out :: rat
  pc_audio_in :: "rat option"
  pc_audio_out :: "rat option"

definition text_card :: "rat \<Rightarrow> rat \<Rightarrow> price_card" where
  "text_card i out = \<lparr>pc_in = JFin i, pc_out = out, pc_audio_in = None, pc_audio_out = None\<rparr>"

definition catalog :: "(string \<times> price_card) list" where
  "catalog = [
     (''gpt-4o'', \<lparr>pc_in = JFin (25 / 10), pc_out = 10, pc_audio_in = Some 40, pc_audio_out = Some 80\<rparr>),
     (''gpt-4o-mini'', \<lparr>pc_in = JFin (15 / 100), pc_out = 6 / 10, pc_audio_in = Some 10, pc_audio_out = Some 20\<rparr>),
     (''gpt-4.1'', text_card (2) (8)),
     (''gpt-4.1-mini'', text_card (4 / 10) (16 / 10)),
     (''gpt-4.1-nano'', text_card (1 / 10) (4 / 10)),
     (''gpt-4-turbo'', text_card (10) (30)),
     (''gpt-4'', text_card (30) (60)),
     (''gpt-3.5-turbo'', text_card (5 / 10) (15 / 10)),
     (''gpt-5'', text_card (125 / 100) (10)),
     (''gpt-5-mini'', text_card (25 / 100) (2)),
     (''gpt-5-nano'', text_card (5 / 100) (4 / 10)),
     (''o1'', text_card (15) (60)),
     (''o1-mini'', text_card (11 / 10) (44 / 10)),
     (''o3'', text_card (2) (8)),
     (''o3-mini'', text_card (11 / 10) (44 / 10)),
     (''o4-mini'', text_card (11 / 10) (44 / 10)),
     (''claude-3-opus'', text_card (15) (75)),
     (''claude-3-sonnet'', text_card (3) (15)),
     (''claude-3-haiku'', text_card (25 / 100) (125 / 100)),
     (''claude-3-5-sonnet'', text_card (3) (15)),
     (''claude-3-5-haiku'', text_card (8 / 10) (4)),
     (''claude-3-7-sonnet'', text_card (3) (15)),
     (''claude-sonnet-4'', text_card (3) (15)),
     (''claude-opus-4'', text_card (15) (75)),
     (''claude-haiku-4'', text_card (1) (5)),
     (''gemini-1.5-flash'', text_card (75 / 1000) (3 / 10)),
     (''gemini-1.5-pro'', text_card (125 / 100) (5)),
     (''gemini-2.0-flash'', text_card (1 / 10) (4 / 10)),
     (''gemini-2.5-flash'', text_card (3 / 10) (25 / 10)),
     (''gemini-2.5-pro'', text_card (125 / 100) (10)),
     (''gemini-3-pro'', text_card (2) (12)),
     (''deepseek-chat'', text_card (27 / 100) (11 / 10)),
     (''deepseek-reasoner'', text_card (55 / 100) (219 / 100)),
     (''text-embedding-3-small'', text_card (2 / 100) (0)),
     (''text-embedding-3-large'', text_card (13 / 100) (0)),
     (''text-embedding-ada-002'', text_card (1 / 10) (0))]"

definition fallback_card :: price_card where
  "fallback_card = text_card (5 / 2) 10"

text \<open>The keys, longest first; equal lengths keep their order.\<close>

definition catalog_keys :: "string list" where
  "catalog_keys = sort_key (\<lambda>k. - int (length k)) (map fst catalog)"

definition ratio_from_usd_per_million :: "env \<Rightarrow> rat \<Rightarrow> rat" where
  "ratio_from_usd_per_million env usd = usd * cfg_quota_per_unit env / 1000000"

definition quota_to_usd :: "env \<Rightarrow> rat \<Rightarrow> rat" where
  "quota_to_usd env quota = (let per = cfg_quota_per_unit env in if per > 0 then quota / per else 0)"

definition normalize_model_name :: "string \<Rightarrow> string" where
  "normalize_model_name model =
     (let trimmed = js_lower (js_trim model) in
      case index_of CHR ''/'' trimmed of None \<Rightarrow> trimmed | Some i \<Rightarrow> drop (i + 1) trimmed)"

text \<open>What an inherited member of the catalogue object offers as a card: nothing.\<close>

definition inherited_card :: price_card where
  "inherited_card = \<lparr>pc_in = JNaN, pc_out = 0, pc_audio_in = None, pc_audio_out = None\<rparr>"

definition card_for :: "string \<Rightarrow> price_card" where
  "card_for model =
     (let name = normalize_model_name model in
      case map_of catalog name of
        Some c \<Rightarrow> c
      | None \<Rightarrow>
          if name \<in> set prototype_members then inherited_card
          else (case find_one (\<lambda>k. starts_with k name) catalog_keys of
              Some k \<Rightarrow> the (map_of catalog k)
            | None \<Rightarrow> fallback_card))"

definition cache_read_ratio_for :: "string \<Rightarrow> rat" where
  "cache_read_ratio_for model =
     (let name = normalize_model_name model in
      if starts_with ''gpt-5'' name then 1 / 10
      else if starts_with ''gpt-4o'' name \<or> starts_with ''o1'' name \<or> starts_with ''o3'' name \<or> starts_with ''o4'' name then 1 / 2
      else if starts_with ''gpt-4'' name then 1 / 4
      else if starts_with ''deepseek'' name then 1 / 4
      else if starts_with ''claude'' name then 1 / 10
      else if starts_with ''gemini-3'' name then 1 / 10
      else 1 / 4)"

definition usage_semantic_for :: "string \<Rightarrow> usage_semantic" where
  "usage_semantic_for model =
     (let name = normalize_model_name model in
      if starts_with ''claude'' name \<or> starts_with ''anthropic'' name then Exclusive else Inclusive)"

definition usd_ratio :: "env \<Rightarrow> jsnum \<Rightarrow> jsnum" where
  "usd_ratio env usd = (case usd of JFin x \<Rightarrow> JFin (ratio_from_usd_per_million env x) | _ \<Rightarrow> JNaN)"

definition default_pricing_for :: "env \<Rightarrow> string \<Rightarrow> resolved_pricing" where
  "default_pricing_for env model =
     (let card = card_for model in
      \<lparr>rp_model = normalize_model_name model,
       rp_model_ratio = usd_ratio env (pc_in card),
       rp_completion_ratio = (case pc_in card of JFin x \<Rightarrow> if x > 0 then pc_out card / x else 0 | _ \<Rightarrow> 0),
       rp_cached_ratio = cache_read_ratio_for model,
       rp_cache_write_5m_ratio = default_cache_write_5m_ratio,
       rp_cache_write_1h_ratio = default_cache_write_1h_ratio,
       rp_image_ratio = 1,
       rp_audio_ratio = ratio_from_usd_per_million env (case pc_audio_in card of Some x \<Rightarrow> x | None \<Rightarrow> 0),
       rp_audio_completion_ratio = ratio_from_usd_per_million env (case pc_audio_out card of Some x \<Rightarrow> x | None \<Rightarrow> 0),
       rp_per_call_quota = 0,
       rp_usage_semantic = usage_semantic_for model\<rparr>)"

definition positive :: "jsnum \<Rightarrow> 'a \<Rightarrow> (rat \<Rightarrow> 'a) \<Rightarrow> 'a" where
  "positive v fallback f = (case v of JFin x \<Rightarrow> if 0 \<le> x then f x else fallback | _ \<Rightarrow> fallback)"

definition pricing_cache_key :: "string \<Rightarrow> string" where
  "pricing_cache_key model = render (KPricing (show_int pricing_version)) @ '':'' @ model"

subsection \<open>The cached entry\<close>

definition num_json :: "jsnum \<Rightarrow> json" where
  "num_json n = (if js_finite n then JNum n else JNull)"

definition pricing_json :: "resolved_pricing \<Rightarrow> json" where
  "pricing_json p = JObj [(''model'', JStr (rp_model p)), (''modelRatio'', num_json (rp_model_ratio p)),
     (''completionRatio'', JNum (JFin (rp_completion_ratio p))), (''cachedRatio'', JNum (JFin (rp_cached_ratio p))),
     (''cacheWrite5mRatio'', JNum (JFin (rp_cache_write_5m_ratio p))),
     (''cacheWrite1hRatio'', JNum (JFin (rp_cache_write_1h_ratio p))), (''imageRatio'', JNum (JFin (rp_image_ratio p))),
     (''audioRatio'', JNum (JFin (rp_audio_ratio p))),
     (''audioCompletionRatio'', JNum (JFin (rp_audio_completion_ratio p))),
     (''perCallQuota'', JNum (JFin (rp_per_call_quota p))),
     (''usageSemantic'', JStr (if rp_usage_semantic p = Exclusive then ''exclusive'' else ''inclusive''))]"

definition rat_field :: "string \<Rightarrow> (string \<times> json) list \<Rightarrow> rat" where
  "rat_field k ms = (case get_field k ms of Some (JNum n) \<Rightarrow> js_rat n | _ \<Rightarrow> 0)"

definition pricing_of_json :: "json \<Rightarrow> resolved_pricing option" where
  "pricing_of_json j = (let ms = as_record (Some j) in
     case get_field ''modelRatio'' ms of
       Some (JNum n) \<Rightarrow> Some
         \<lparr>rp_model = as_string (get_field ''model'' ms) [], rp_model_ratio = n,
          rp_completion_ratio = rat_field ''completionRatio'' ms, rp_cached_ratio = rat_field ''cachedRatio'' ms,
          rp_cache_write_5m_ratio = rat_field ''cacheWrite5mRatio'' ms,
          rp_cache_write_1h_ratio = rat_field ''cacheWrite1hRatio'' ms, rp_image_ratio = rat_field ''imageRatio'' ms,
          rp_audio_ratio = rat_field ''audioRatio'' ms,
          rp_audio_completion_ratio = rat_field ''audioCompletionRatio'' ms,
          rp_per_call_quota = rat_field ''perCallQuota'' ms,
          rp_usage_semantic = (if get_field ''usageSemantic'' ms = Some (JStr ''exclusive'') then Exclusive else Inclusive)\<rparr>
     | _ \<Rightarrow> None)"

subsection \<open>Resolution\<close>

definition override :: "model_pricing_doc \<Rightarrow> resolved_pricing \<Rightarrow> resolved_pricing" where
  "override doc fb =
     \<lparr>rp_model = rp_model fb,
      rp_model_ratio = positive (mp_model_ratio doc) (rp_model_ratio fb) JFin,
      rp_completion_ratio = positive (mp_completion_ratio doc) (rp_completion_ratio fb) id,
      rp_cached_ratio = positive (mp_cached_ratio doc) (rp_cached_ratio fb) id,
      rp_cache_write_5m_ratio = positive (mp_cache_write_5m_ratio doc) (rp_cache_write_5m_ratio fb) id,
      rp_cache_write_1h_ratio = positive (mp_cache_write_1h_ratio doc) (rp_cache_write_1h_ratio fb) id,
      rp_image_ratio = positive (mp_image_ratio doc) (rp_image_ratio fb) id,
      rp_audio_ratio = positive (mp_audio_ratio doc) (rp_audio_ratio fb) id,
      rp_audio_completion_ratio = positive (mp_audio_completion_ratio doc) (rp_audio_completion_ratio fb) id,
      rp_per_call_quota = positive (mp_per_call_quota doc) (rp_per_call_quota fb) id,
      rp_usage_semantic = (case mp_usage_semantic doc of Some s \<Rightarrow> s | None \<Rightarrow> rp_usage_semantic fb)\<rparr>"

text \<open>The stored override over the catalogue; a failing database leaves the catalogue.\<close>

definition stored_pricing :: "env \<Rightarrow> string \<Rightarrow> pricing_world \<Rightarrow> resolved_pricing" where
  "stored_pricing env name w =
     (let fb = default_pricing_for env name in
      if \<not> pw_db_ok w then fb
      else (case find_one (\<lambda>d. mp_id d = name) (pw_pricing w) of
          Some doc \<Rightarrow> (override doc fb)\<lparr>rp_model := name\<rparr>
        | None \<Rightarrow> fb))"

definition get_model_pricing :: "env \<Rightarrow> int \<Rightarrow> string \<Rightarrow> pricing_world \<Rightarrow> resolved_pricing \<times> pricing_world" where
  "get_model_pricing env now model w =
     (let name = normalize_model_name model in
      case redis_get_json now (pricing_cache_key name) (pw_co w) of (cached, co1) \<Rightarrow>
        (case Option.bind (Option.bind cached id) pricing_of_json of
           Some p \<Rightarrow> (p, w\<lparr>pw_co := co1\<rparr>)
         | None \<Rightarrow>
             let resolved = stored_pricing env name w in
             (resolved, w\<lparr>pw_co := snd (redis_set_json now (pricing_cache_key name) (pricing_json resolved)
                (Some (of_int (cfg_pricing_cache_ttl_sec env))) co1)\<rparr>)))"

definition get_group_ratio :: "string \<Rightarrow> pricing_world \<Rightarrow> rat" where
  "get_group_ratio grp w =
     (if grp = [] \<or> grp = ''default'' then 1
      else if \<not> pw_db_ok w then 1
      else (case map_of (pw_group_ratios w) grp of Some r \<Rightarrow> positive r 1 id | None \<Rightarrow> 1))"

definition resolve_pricing ::
    "env \<Rightarrow> int \<Rightarrow> string \<Rightarrow> string \<Rightarrow> pricing_world \<Rightarrow> (resolved_pricing \<times> rat) \<times> pricing_world" where
  "resolve_pricing env now model grp w =
     (case get_model_pricing env now model w of (p, w') \<Rightarrow> ((p, get_group_ratio grp w), w'))"

subsection \<open>Tool surcharges\<close>

definition tool_usd_table :: "(string \<times> rat) list" where
  "tool_usd_table = [(''web_search'', 10), (''file_search'', 5 / 2), (''google_search'', 14), (''image_generation'', 150)]"

definition web_search_usd_per_1k :: "string \<Rightarrow> rat" where
  "web_search_usd_per_1k model =
     (let name = normalize_model_name model in
      if starts_with ''gpt-4o'' name \<or> starts_with ''gpt-4.1'' name then 25 else 10)"

definition tool_usd_per_1k :: "string \<Rightarrow> string \<Rightarrow> jsnum" where
  "tool_usd_per_1k model tool =
     (if tool = ''web_search'' then JFin (web_search_usd_per_1k model)
      else (case map_of tool_usd_table tool of
          Some x \<Rightarrow> JFin x
        | None \<Rightarrow> if tool \<in> set prototype_members then JNaN else JFin 0))"

definition tool_surcharge_quota :: "env \<Rightarrow> string \<Rightarrow> (string \<times> jsnum) list \<Rightarrow> jsnum" where
  "tool_surcharge_quota env model tool_calls =
     js_mul (fold (\<lambda>(tool, n) usd.
         if \<not> js_finite n \<or> js_le n (JFin 0) then usd
         else js_add usd (js_mul (js_div (tool_usd_per_1k model tool) (JFin 1000)) n)) tool_calls (JFin 0))
       (JFin (cfg_quota_per_unit env))"

end
