(* ===== verification/Measure.thy ===== *)
theory Measure
  imports JsonValue
begin

text \<open>
  Usage measurement, \<open>src/lib/usage/measure.ts\<close>: the usage objects of three provider families brought
  to one record whose prompt count contains every prompt token once, and the merging of the
  reports of a stream.
\<close>

record normalized_usage =
  nu_prompt :: int
  nu_completion :: int
  nu_cached :: int
  nu_write_5m :: int
  nu_write_1h :: int
  nu_image :: int
  nu_audio_prompt :: int
  nu_audio_completion :: int
  nu_reasoning :: int
  nu_tool_calls :: "(string \<times> jsnum) list"

definition empty_usage :: normalized_usage where
  "empty_usage = \<lparr>nu_prompt = 0, nu_completion = 0, nu_cached = 0, nu_write_5m = 0, nu_write_1h = 0, nu_image = 0,
     nu_audio_prompt = 0, nu_audio_completion = 0, nu_reasoning = 0, nu_tool_calls = []\<rparr>"

text \<open>\<open>Number(value)\<close>; an array is converted through its text.\<close>

fun js_number :: "json option \<Rightarrow> jsnum" where
  "js_number None = JNaN"
| "js_number (Some JNull) = JFin 0"
| "js_number (Some (JBool b)) = (if b then JFin 1 else JFin 0)"
| "js_number (Some (JNum n)) = n"
| "js_number (Some (JStr s)) = number_of_string s"
| "js_number (Some (JArr [])) = JFin 0"
| "js_number (Some (JArr [v])) = (case v of JBool b \<Rightarrow> JNaN | _ \<Rightarrow> js_number (Some v))"
| "js_number (Some (JArr (v # w # vs))) = JNaN"
| "js_number (Some (JObj ms)) = JNaN"

text \<open>\<open>num\<close>: a positive finite number rounded down, 0 otherwise.\<close>

definition token_count :: "json option \<Rightarrow> int" where
  "token_count v = (case js_number v of JFin x \<Rightarrow> if x > 0 then \<lfloor>x\<rfloor> else 0 | _ \<Rightarrow> 0)"

datatype usage_shape = OpenAiShape | AnthropicShape | GeminiShape | UnknownShape

definition has_field :: "string \<Rightarrow> (string \<times> json) list \<Rightarrow> bool" where
  "has_field k ms \<longleftrightarrow> get_field k ms \<noteq> None"

definition detect_usage_shape :: "json option \<Rightarrow> usage_shape" where
  "detect_usage_shape raw =
     (let r = as_record raw in
      if has_field ''promptTokenCount'' r \<or> has_field ''candidatesTokenCount'' r \<or> has_field ''totalTokenCount'' r then GeminiShape
      else if has_field ''input_tokens'' r \<or> has_field ''output_tokens'' r then AnthropicShape
      else if has_field ''prompt_tokens'' r \<or> has_field ''completion_tokens'' r then OpenAiShape
      else UnknownShape)"

definition from_openai :: "(string \<times> json) list \<Rightarrow> normalized_usage" where
  "from_openai r =
     (let prompt_details = as_record (get_field ''prompt_tokens_details'' r);
          completion_details = as_record (get_field ''completion_tokens_details'' r)
      in empty_usage
        \<lparr>nu_prompt := token_count (get_field ''prompt_tokens'' r),
         nu_completion := token_count (get_field ''completion_tokens'' r),
         nu_cached := token_count (get_field ''cached_tokens'' prompt_details),
         nu_audio_prompt := token_count (get_field ''audio_tokens'' prompt_details),
         nu_image := token_count (get_field ''image_tokens'' prompt_details),
         nu_audio_completion := token_count (get_field ''audio_tokens'' completion_details),
         nu_reasoning := token_count (get_field ''reasoning_tokens'' completion_details)\<rparr>)"

definition from_anthropic :: "(string \<times> json) list \<Rightarrow> normalized_usage" where
  "from_anthropic r =
     (let input = token_count (get_field ''input_tokens'' r);
          cache_read = token_count (get_field ''cache_read_input_tokens'' r);
          creation = as_record (get_field ''cache_creation'' r);
          write5m = token_count (get_field ''ephemeral_5m_input_tokens'' creation);
          write1h = token_count (get_field ''ephemeral_1h_input_tokens'' creation);
          flat_creation = token_count (get_field ''cache_creation_input_tokens'' r);
          resolved5m = (if write5m + write1h > 0 then write5m else flat_creation)
      in empty_usage
        \<lparr>nu_prompt := input + cache_read + resolved5m + write1h,
         nu_completion := token_count (get_field ''output_tokens'' r),
         nu_cached := cache_read, nu_write_5m := resolved5m, nu_write_1h := write1h\<rparr>)"

definition from_gemini :: "(string \<times> json) list \<Rightarrow> normalized_usage" where
  "from_gemini r =
     (let thoughts = token_count (get_field ''thoughtsTokenCount'' r) in empty_usage
        \<lparr>nu_prompt := token_count (get_field ''promptTokenCount'' r),
         nu_completion := token_count (get_field ''candidatesTokenCount'' r) + thoughts,
         nu_cached := token_count (get_field ''cachedContentTokenCount'' r),
         nu_reasoning := thoughts\<rparr>)"

text \<open>\<open>a ?? b\<close> on members.\<close>

definition nullish :: "json option \<Rightarrow> json option \<Rightarrow> json option" where
  "nullish a b = (case a of None \<Rightarrow> b | Some JNull \<Rightarrow> b | Some v \<Rightarrow> Some v)"

definition normalize_usage :: "json option \<Rightarrow> bool \<Rightarrow> normalized_usage" where
  "normalize_usage raw exclusive =
     (let r = as_record raw in
      case detect_usage_shape (Some (JObj r)) of
        OpenAiShape \<Rightarrow> from_openai r
      | AnthropicShape \<Rightarrow> from_anthropic r
      | GeminiShape \<Rightarrow> from_gemini r
      | UnknownShape \<Rightarrow>
          let prompt = token_count (nullish (get_field ''prompt_tokens'' r) (nullish (get_field ''input_tokens'' r) (get_field ''promptTokens'' r)));
              cached = token_count (nullish (get_field ''cached_tokens'' r) (get_field ''cache_read_input_tokens'' r))
          in empty_usage
            \<lparr>nu_prompt := (if exclusive then prompt + cached else prompt),
             nu_completion := token_count (nullish (get_field ''completion_tokens'' r)
                (nullish (get_field ''output_tokens'' r) (get_field ''completionTokens'' r))),
             nu_cached := cached\<rparr>)"

fun set_call :: "string \<Rightarrow> jsnum \<Rightarrow> (string \<times> jsnum) list \<Rightarrow> (string \<times> jsnum) list" where
  "set_call k v [] = [(k, v)]"
| "set_call k v ((k', v') # cs) = (if k = k' then (k, v) # cs else (k', v') # set_call k v cs)"

fun merge_calls :: "(jsnum \<Rightarrow> jsnum \<Rightarrow> jsnum) \<Rightarrow> (string \<times> jsnum) list \<Rightarrow> (string \<times> jsnum) list \<Rightarrow> (string \<times> jsnum) list" where
  "merge_calls f a [] = a"
| "merge_calls f a ((tool, n) # b) =
     merge_calls f (set_call tool (f (case map_of a tool of Some m \<Rightarrow> m | None \<Rightarrow> JFin 0) n) a) b"

definition merge_usage ::
    "(int \<Rightarrow> int \<Rightarrow> int) \<Rightarrow> (jsnum \<Rightarrow> jsnum \<Rightarrow> jsnum) \<Rightarrow> normalized_usage \<Rightarrow> normalized_usage \<Rightarrow> normalized_usage" where
  "merge_usage f g a b =
     \<lparr>nu_prompt = f (nu_prompt a) (nu_prompt b), nu_completion = f (nu_completion a) (nu_completion b),
      nu_cached = f (nu_cached a) (nu_cached b), nu_write_5m = f (nu_write_5m a) (nu_write_5m b),
      nu_write_1h = f (nu_write_1h a) (nu_write_1h b), nu_image = f (nu_image a) (nu_image b),
      nu_audio_prompt = f (nu_audio_prompt a) (nu_audio_prompt b),
      nu_audio_completion = f (nu_audio_completion a) (nu_audio_completion b),
      nu_reasoning = f (nu_reasoning a) (nu_reasoning b),
      nu_tool_calls = merge_calls g (nu_tool_calls a) (nu_tool_calls b)\<rparr>"

definition add_usage :: "normalized_usage \<Rightarrow> normalized_usage \<Rightarrow> normalized_usage" where
  "add_usage = merge_usage (+) js_add"

definition max_usage :: "normalized_usage \<Rightarrow> normalized_usage \<Rightarrow> normalized_usage" where
  "max_usage = merge_usage max js_max"

lemma token_count_nonneg [simp]: "0 \<le> token_count v"
  by (auto simp: token_count_def split: jsnum.splits)

end
