(* ===== verification/Billing.thy ===== *)
theory Billing
  imports Pricing Measure
begin

text \<open>
  The quota formula, \<open>src/lib/usage/billing.ts\<close>, over the canonical usage record and a resolved price.
\<close>

record quota_breakdown =
  qb_base_tokens :: rat
  qb_prompt_units :: rat
  qb_completion_units :: rat
  qb_text_quota :: rat
  qb_audio_quota :: rat
  qb_tool_quota :: jsnum
  qb_per_call_quota :: rat
  qb_quota :: jsnum

definition clamp_non_negative :: "jsnum \<Rightarrow> rat" where
  "clamp_non_negative v = (case v of JFin x \<Rightarrow> if x > 0 then x else 0 | _ \<Rightarrow> 0)"

definition compute_quota :: "env \<Rightarrow> normalized_usage \<Rightarrow> resolved_pricing \<Rightarrow> rat \<Rightarrow> string \<Rightarrow> quota_breakdown" where
  "compute_quota env usage pricing group_ratio model =
     (let count = (\<lambda>n. clamp_non_negative (js_int n));
          ratio = clamp_non_negative (rp_model_ratio pricing);
          group = (if clamp_non_negative (JFin group_ratio) = 0 then 1 else clamp_non_negative (JFin group_ratio));
          prompt = count (nu_prompt usage);
          cached = count (nu_cached usage);
          write5m = count (nu_write_5m usage);
          write1h = count (nu_write_1h usage);
          image = count (nu_image usage);
          audio_prompt = count (nu_audio_prompt usage);
          audio_completion = count (nu_audio_completion usage);
          completion = count (nu_completion usage);
          base_tokens = clamp_non_negative (JFin (prompt - cached - write5m - write1h - image - audio_prompt));
          prompt_units = base_tokens + cached * rp_cached_ratio pricing + write5m * rp_cache_write_5m_ratio pricing +
            write1h * rp_cache_write_1h_ratio pricing + image * rp_image_ratio pricing;
          completion_units = completion * rp_completion_ratio pricing;
          text_quota = (prompt_units + completion_units) * ratio * group;
          audio_quota = (audio_prompt * rp_audio_ratio pricing + audio_completion * rp_audio_completion_ratio pricing) * group;
          tool_quota = tool_surcharge_quota env model (nu_tool_calls usage);
          per_call_quota = clamp_non_negative (JFin (rp_per_call_quota pricing));
          total = js_add (JFin (text_quota + audio_quota + per_call_quota)) tool_quota;
          rounded = js_round total;
          quota = (if js_lt rounded (JFin 1) \<and> js_lt (JFin 0) total then JFin 1 else rounded)
      in \<lparr>qb_base_tokens = base_tokens, qb_prompt_units = prompt_units, qb_completion_units = completion_units,
          qb_text_quota = text_quota, qb_audio_quota = audio_quota, qb_tool_quota = tool_quota,
          qb_per_call_quota = per_call_quota, qb_quota = quota\<rparr>)"

definition quota_for :: "env \<Rightarrow> normalized_usage \<Rightarrow> resolved_pricing \<Rightarrow> rat \<Rightarrow> string \<Rightarrow> jsnum" where
  "quota_for env usage pricing group_ratio model = qb_quota (compute_quota env usage pricing group_ratio model)"

definition billed_model_for :: "string \<Rightarrow> string \<Rightarrow> string" where
  "billed_model_for requested mapped = requested"

end
