(* ===== verification/BillingLaws.thy ===== *)
theory BillingLaws
  imports Billing
begin

text \<open>
  What a request costs: the charge is the rounded total and never nothing for a priced request, more
  tokens never cost less, the three families' reports of the same work cost the same, and the
  catalogue is matched by its longest prefix.
\<close>

subsection \<open>The total and its rounding\<close>

definition round_charge :: "rat \<Rightarrow> int" where
  "round_charge t = (let r = \<lfloor>t + 1 / 2\<rfloor> in if r < 1 \<and> 0 < t then 1 else r)"

definition text_total :: "quota_breakdown \<Rightarrow> rat" where
  "text_total b = qb_text_quota b + qb_audio_quota b + qb_per_call_quota b"

definition prices_ok :: "resolved_pricing \<Rightarrow> bool" where
  "prices_ok p \<longleftrightarrow> 0 \<le> rp_completion_ratio p \<and> 0 \<le> rp_cached_ratio p \<and> 0 \<le> rp_cache_write_5m_ratio p \<and>
     0 \<le> rp_cache_write_1h_ratio p \<and> 0 \<le> rp_image_ratio p \<and> 0 \<le> rp_audio_ratio p \<and>
     0 \<le> rp_audio_completion_ratio p \<and> 0 \<le> rp_per_call_quota p"

lemma round_charge_mono: "s \<le> t \<Longrightarrow> round_charge s \<le> round_charge t"
proof -
  assume st: "s \<le> t"
  then have "\<lfloor>s + 1 / 2\<rfloor> \<le> \<lfloor>t + 1 / 2\<rfloor>" by (intro floor_mono) simp
  with st show ?thesis by (auto simp: round_charge_def Let_def)
qed

lemma round_charge_near: "0 \<le> t \<Longrightarrow> round_charge t = 1 \<and> 0 < t \<and> t < 1 / 2 \<or> \<bar>of_int (round_charge t) - t\<bar> \<le> 1 / 2"
proof -
  assume t: "0 \<le> t"
  define r where "r = \<lfloor>t + 1 / 2\<rfloor>"
  have r: "of_int r \<le> t + 1 / 2" "t + 1 / 2 < of_int r + 1" using floor_correct [of "t + 1 / 2"] by (simp_all add: r_def)
  have "0 \<le> r" using t by (simp add: r_def)
  then have "r < 1 \<Longrightarrow> r = 0" by simp
  with r t show ?thesis unfolding round_charge_def Let_def r_def [symmetric] by (auto simp: abs_if)
qed

lemma half_floor [simp]: "\<lfloor>1 / 2 :: rat\<rfloor> = 0"
  by (simp add: floor_eq_iff)

lemma round_charge_pos: "0 \<le> t \<Longrightarrow> 0 \<le> round_charge t \<and> (round_charge t = 0) = (t = 0)"
proof -
  assume t: "0 \<le> t"
  define r where "r = \<lfloor>t + 1 / 2\<rfloor>"
  have "0 \<le> r" "r = 0 \<longleftrightarrow> t < 1 / 2" using t by (auto simp: r_def floor_eq_iff)
  with t show ?thesis unfolding round_charge_def Let_def r_def [symmetric] by auto
qed

lemma clamp_rat [simp]: "clamp_non_negative (JFin x) = max 0 x"
  by (simp add: clamp_non_negative_def)

lemma clamp_nonneg [simp]: "0 \<le> clamp_non_negative v"
  by (simp add: clamp_non_negative_def split: jsnum.splits)

lemma no_tools [simp]: "tool_surcharge_quota env model [] = JFin 0"
  by (simp add: tool_surcharge_quota_def)

lemma quota_of_total:
  "quota_for env u p g m =
    (let total = js_add (JFin (text_total (compute_quota env u p g m))) (tool_surcharge_quota env m (nu_tool_calls u));
         rounded = js_round total
     in if js_lt rounded (JFin 1) \<and> js_lt (JFin 0) total then JFin 1 else rounded)"
  unfolding quota_for_def text_total_def compute_quota_def Let_def quota_breakdown.simps by (rule refl)

lemma quota_rounds:
  assumes "nu_tool_calls u = []"
  shows "quota_for env u p g m = js_int (round_charge (text_total (compute_quota env u p g m)))"
  unfolding quota_of_total assms no_tools round_charge_def by (simp add: Let_def)

definition group_factor :: "rat \<Rightarrow> rat" where
  "group_factor g = (if max 0 g = 0 then 1 else max 0 g)"

abbreviation tokens :: "int \<Rightarrow> rat" where
  "tokens n \<equiv> max 0 (of_int n)"

lemma text_total_eq:
  "text_total (compute_quota env u p g m) =
     (max 0 (tokens (nu_prompt u) - tokens (nu_cached u) - tokens (nu_write_5m u) - tokens (nu_write_1h u) -
        tokens (nu_image u) - tokens (nu_audio_prompt u)) +
      tokens (nu_cached u) * rp_cached_ratio p + tokens (nu_write_5m u) * rp_cache_write_5m_ratio p +
      tokens (nu_write_1h u) * rp_cache_write_1h_ratio p + tokens (nu_image u) * rp_image_ratio p +
      tokens (nu_completion u) * rp_completion_ratio p) * clamp_non_negative (rp_model_ratio p) * group_factor g +
     (tokens (nu_audio_prompt u) * rp_audio_ratio p + tokens (nu_audio_completion u) * rp_audio_completion_ratio p) *
        group_factor g + max 0 (rp_per_call_quota p)"
  unfolding text_total_def compute_quota_def Let_def quota_breakdown.simps clamp_rat group_factor_def by (rule refl)

lemma group_factor_nonneg [simp]: "0 \<le> group_factor g"
  by (simp add: group_factor_def max_def)

lemma text_total_nonneg: "prices_ok p \<Longrightarrow> 0 \<le> text_total (compute_quota env u p g m)"
  unfolding text_total_eq prices_ok_def
  by (intro add_nonneg_nonneg mult_nonneg_nonneg) simp_all

definition sample_price :: resolved_pricing where
  "sample_price = default_pricing_for (\<lambda>_. None) ''claude-sonnet-4''"

definition sample_usage :: normalized_usage where
  "sample_usage = empty_usage\<lparr>nu_prompt := 110, nu_cached := 100, nu_completion := 20\<rparr>"

lemma sample_price_ok: "prices_ok sample_price"
  unfolding prices_ok_def by code_simp

lemma sample_no_tools: "nu_tool_calls sample_usage = []"
  by (simp add: sample_usage_def empty_usage_def)

text \<open>The charge of a request without tool calls is a whole number that differs from the exact total by at most
  one half, except that a positive total below one half costs 1: a priced request is never free and
  nothing is charged for a total of 0.\<close>
theorem charge_rounds_fairly:
  assumes "prices_ok p" "nu_tool_calls u = []"
  shows "\<exists>n. quota_for env u p g m = js_int n \<and> 0 \<le> n \<and>
    (n = 0) = (text_total (compute_quota env u p g m) = 0) \<and>
    (n = 1 \<or> \<bar>of_int n - text_total (compute_quota env u p g m)\<bar> \<le> 1 / 2)"
proof -
  let ?t = "text_total (compute_quota env u p g m)"
  have t: "0 \<le> ?t" by (rule text_total_nonneg [OF assms(1)])
  show ?thesis using quota_rounds [OF assms(2)] round_charge_near [OF t] round_charge_pos [OF t] by blast
qed

theorem charge_rounds_fairly_witness:
  "\<exists>n. quota_for (\<lambda>_. None) sample_usage sample_price 1 ''claude-sonnet-4'' = js_int n \<and> 0 \<le> n"
  using charge_rounds_fairly [OF sample_price_ok sample_no_tools, of "\<lambda>_. None" 1 "''claude-sonnet-4''"] by blast

text \<open>More tokens never cost less: raising the prompt and completion counts of a report never lowers its charge.\<close>
theorem charge_is_monotone:
  assumes "prices_ok p" "nu_tool_calls u = []" "nu_prompt u \<le> prompt" "nu_completion u \<le> completion"
  shows "js_le (quota_for env u p g m) (quota_for env (u\<lparr>nu_prompt := prompt, nu_completion := completion\<rparr>) p g m)"
proof -
  let ?v = "u\<lparr>nu_prompt := prompt, nu_completion := completion\<rparr>"
  have "text_total (compute_quota env u p g m) \<le> text_total (compute_quota env ?v p g m)"
    using assms unfolding prices_ok_def text_total_eq normalized_usage.simps
    by (intro add_mono mult_right_mono max.mono diff_right_mono order_refl) simp_all
  then have "round_charge (text_total (compute_quota env u p g m)) \<le> round_charge (text_total (compute_quota env ?v p g m))"
    by (rule round_charge_mono)
  then show ?thesis using assms(2) by (simp add: quota_rounds)
qed

theorem charge_is_monotone_witness:
  "js_le (quota_for (\<lambda>_. None) sample_usage sample_price 1 ''m'')
     (quota_for (\<lambda>_. None) (sample_usage\<lparr>nu_prompt := 110, nu_completion := 50\<rparr>) sample_price 1 ''m'')"
  by (rule charge_is_monotone [OF sample_price_ok sample_no_tools]) (simp_all add: sample_usage_def)

subsection \<open>Provider families\<close>

lemma token_count_int [simp]: "token_count (Some (JNum (js_int i))) = max 0 i"
  by (auto simp: token_count_def)

lemma token_count_None [simp]: "token_count None = 0"
  by (simp add: token_count_def)

lemmas report_defs = normalize_usage_def detect_usage_shape_def has_field_def get_field_def empty_usage_def Let_def

lemma openai_report:
  "normalize_usage (Some (JObj [(''prompt_tokens'', JNum (js_int p)),
      (''prompt_tokens_details'', JObj [(''cached_tokens'', JNum (js_int c))]), (''completion_tokens'', JNum (js_int a)),
      (''completion_tokens_details'', JObj [(''reasoning_tokens'', JNum (js_int t))])])) ex =
    empty_usage\<lparr>nu_prompt := max 0 p, nu_completion := max 0 a, nu_cached := max 0 c, nu_reasoning := max 0 t\<rparr>"
  by (simp add: report_defs from_openai_def)

lemma anthropic_report:
  "normalize_usage (Some (JObj [(''input_tokens'', JNum (js_int i)), (''cache_read_input_tokens'', JNum (js_int c)),
      (''output_tokens'', JNum (js_int a))])) ex =
    empty_usage\<lparr>nu_prompt := max 0 i + max 0 c, nu_completion := max 0 a, nu_cached := max 0 c\<rparr>"
  by (simp add: report_defs from_anthropic_def)

lemma gemini_report:
  "normalize_usage (Some (JObj [(''promptTokenCount'', JNum (js_int p)), (''cachedContentTokenCount'', JNum (js_int c)),
      (''candidatesTokenCount'', JNum (js_int a)), (''thoughtsTokenCount'', JNum (js_int t))])) ex =
    empty_usage\<lparr>nu_prompt := max 0 p, nu_completion := max 0 a + max 0 t, nu_cached := max 0 c, nu_reasoning := max 0 t\<rparr>"
  by (simp add: report_defs from_gemini_def)

lemma quota_ignores_reasoning: "quota_for env (u\<lparr>nu_reasoning := t\<rparr>) p g m = quota_for env u p g m"
proof -
  let ?v = "u\<lparr>nu_reasoning := t\<rparr>"
  have "nu_prompt ?v = nu_prompt u" "nu_cached ?v = nu_cached u" "nu_write_5m ?v = nu_write_5m u" "nu_write_1h ?v = nu_write_1h u"
    "nu_image ?v = nu_image u" "nu_audio_prompt ?v = nu_audio_prompt u" "nu_audio_completion ?v = nu_audio_completion u"
    "nu_completion ?v = nu_completion u" "nu_tool_calls ?v = nu_tool_calls u" by simp_all
  note same = this
  show ?thesis unfolding quota_for_def compute_quota_def same by (rule refl)
qed

text \<open>For every Anthropic usage object the tokens charged at the full price are exactly its \<open>input_tokens\<close>,
  whatever cache reads and cache writes it reports beside them.\<close>
theorem anthropic_input_charged_in_full:
  assumes "detect_usage_shape (Some (JObj r)) = AnthropicShape"
  shows "qb_base_tokens (compute_quota env (normalize_usage (Some (JObj r)) ex) p g m) =
    of_int (token_count (get_field ''input_tokens'' r))"
  using assms token_count_nonneg [of "get_field ''input_tokens'' r"]
  by (simp add: normalize_usage_def from_anthropic_def empty_usage_def compute_quota_def Let_def max_absorb2)

theorem anthropic_input_charged_in_full_witness:
  "qb_base_tokens (compute_quota (\<lambda>_. None) (normalize_usage (Some (JObj [(''input_tokens'', JNum (JFin 7)),
      (''cache_read_input_tokens'', JNum (JFin 900))])) False) sample_price 1 ''m'') = 7"
proof -
  have "detect_usage_shape (Some (JObj [(''input_tokens'', JNum (JFin 7)), (''cache_read_input_tokens'', JNum (JFin 900))])) = AnthropicShape"
    by code_simp
  from anthropic_input_charged_in_full [OF this] show ?thesis by (simp add: get_field_def token_count_def)
qed

text \<open>C33: the same work reported the OpenAI way, the Anthropic way and the Gemini way costs the same: new tokens,
  cached tokens, completion and reasoning are each counted once.\<close>
theorem providers_bill_alike:
  assumes "0 \<le> new" "0 \<le> cached" "0 \<le> answer" "0 \<le> thought"
  shows "quota_for env (normalize_usage (Some (JObj [(''prompt_tokens'', JNum (js_int (new + cached))),
        (''prompt_tokens_details'', JObj [(''cached_tokens'', JNum (js_int cached))]),
        (''completion_tokens'', JNum (js_int (answer + thought))),
        (''completion_tokens_details'', JObj [(''reasoning_tokens'', JNum (js_int thought))])])) ex) p g m =
      quota_for env (normalize_usage (Some (JObj [(''input_tokens'', JNum (js_int new)),
        (''cache_read_input_tokens'', JNum (js_int cached)), (''output_tokens'', JNum (js_int (answer + thought)))])) ex') p g m \<and>
    quota_for env (normalize_usage (Some (JObj [(''promptTokenCount'', JNum (js_int (new + cached))),
        (''cachedContentTokenCount'', JNum (js_int cached)), (''candidatesTokenCount'', JNum (js_int answer)),
        (''thoughtsTokenCount'', JNum (js_int thought))])) ex'') p g m =
      quota_for env (normalize_usage (Some (JObj [(''input_tokens'', JNum (js_int new)),
        (''cache_read_input_tokens'', JNum (js_int cached)), (''output_tokens'', JNum (js_int (answer + thought)))])) ex') p g m"
proof -
  have m: "max 0 (new + cached) = max 0 new + max 0 cached" "max 0 (answer + thought) = max 0 answer + max 0 thought"
    using assms by simp_all
  show ?thesis unfolding openai_report anthropic_report gemini_report quota_ignores_reasoning m by (intro conjI refl)
qed

theorem providers_bill_alike_witness:
  "quota_for (\<lambda>_. None) (normalize_usage (Some (JObj [(''promptTokenCount'', JNum (js_int (7 + 3))),
        (''cachedContentTokenCount'', JNum (js_int 3)), (''candidatesTokenCount'', JNum (js_int 5)),
        (''thoughtsTokenCount'', JNum (js_int 2))])) False) sample_price 1 ''m'' =
      quota_for (\<lambda>_. None) (normalize_usage (Some (JObj [(''input_tokens'', JNum (js_int 7)),
        (''cache_read_input_tokens'', JNum (js_int 3)), (''output_tokens'', JNum (js_int (5 + 2)))])) False) sample_price 1 ''m''"
  by (rule providers_bill_alike [THEN conjunct2]) simp_all

subsection \<open>The catalogue\<close>

lemma catalog_keys_set: "set catalog_keys = fst ` set catalog"
  by (simp add: catalog_keys_def)

lemma find_one_sorted:
  assumes "sorted (map f ks)" "find_one P ks = Some k" "k' \<in> set ks" "P k'"
  shows "(f k :: int) \<le> f k'"
  using assms by (induction ks) (auto split: if_splits dest: find_one_SomeD)

lemma prefix_same_length: "starts_with a s \<Longrightarrow> starts_with b s \<Longrightarrow> length a = length b \<Longrightarrow> a = b"
  by (auto simp: starts_with_iff)

text \<open>A model is priced by the longest catalogue name its normalised name starts with, so a dated snapshot costs
  what its family costs.\<close>
theorem longest_prefix_prices:
  assumes "k \<in> fst ` set catalog" "starts_with k (normalize_model_name model)"
    "list_all (\<lambda>k'. starts_with k' (normalize_model_name model) \<longrightarrow> length k' \<le> length k) (map fst catalog)"
    "normalize_model_name model \<notin> set prototype_members"
  shows "Some (card_for model) = map_of catalog k"
proof (cases "map_of catalog (normalize_model_name model)")
  case (Some c)
  let ?n = "normalize_model_name model"
  from Some have "?n \<in> fst ` set catalog" by (metis map_of_eq_None_iff option.simps(3))
  moreover have "starts_with ?n ?n" using starts_with_append [of ?n "[]"] by simp
  ultimately have "length ?n \<le> length k" using assms(3) by (auto simp: list_all_iff)
  with assms(2) have "k = ?n" by (auto simp: starts_with_iff)
  with Some show ?thesis by (simp add: card_for_def Let_def)
next
  case None
  let ?n = "normalize_model_name model"
  have "find_one (\<lambda>k. starts_with k ?n) catalog_keys \<noteq> None"
    using assms(1,2) by (auto simp: find_one_None_iff catalog_keys_set)
  then obtain k1 where k1: "find_one (\<lambda>k. starts_with k ?n) catalog_keys = Some k1" by blast
  have "sorted (map (\<lambda>k. - int (length k)) catalog_keys)" by (simp add: catalog_keys_def)
  then have "- int (length k1) \<le> - int (length k)"
    by (rule find_one_sorted [OF _ k1]) (use assms(1,2) in \<open>simp_all add: catalog_keys_set\<close>)
  moreover have k1c: "k1 \<in> fst ` set catalog" "starts_with k1 ?n" using find_one_SomeD [OF k1] by (auto simp: catalog_keys_set)
  ultimately have "length k1 = length k" using assms(3) by (force simp: list_all_iff)
  then have "k1 = k" using k1c(2) assms(2) by (intro prefix_same_length)
  moreover have "map_of catalog k \<noteq> None" using assms(1) by (simp add: map_of_eq_None_iff)
  ultimately show ?thesis using None k1 assms(4) by (auto simp: card_for_def Let_def)
qed

theorem longest_prefix_prices_witness:
  "Some (card_for ''OpenAI/gpt-4o-2024-08-06'') = map_of catalog ''gpt-4o''"
  by (rule longest_prefix_prices; code_simp)

text \<open>A model called like a member every JavaScript object inherits finds that member in the catalogue instead of
  the fallback price: without an override its price per token is no number, and using it is free.\<close>
theorem inherited_names_are_free:
  assumes "model \<in> {''constructor'', ''__proto__''}" "find_one (\<lambda>d. mp_id d = model) (pw_pricing w) = None" "nu_tool_calls u = []"
    "nu_audio_prompt u = 0"
  shows "quota_for env u (stored_pricing env model w) g model = JFin 0"
proof -
  have n: "normalize_model_name ''constructor'' = ''constructor''" "normalize_model_name ''__proto__'' = ''__proto__''" by code_simp+
  have c: "map_of catalog ''constructor'' = None" "map_of catalog ''__proto__'' = None" by code_simp+
  have "card_for model = inherited_card" using assms(1) n c by (auto simp: card_for_def Let_def prototype_members_def)
  then have p: "stored_pricing env model w = default_pricing_for env model" "rp_model_ratio (default_pricing_for env model) = JNaN"
    "rp_audio_ratio (default_pricing_for env model) = 0" "rp_audio_completion_ratio (default_pricing_for env model) = 0"
    "rp_per_call_quota (default_pricing_for env model) = 0"
    using assms(2) by (simp_all add: stored_pricing_def Let_def default_pricing_for_def inherited_card_def usd_ratio_def ratio_from_usd_per_million_def)
  have "text_total (compute_quota env u (stored_pricing env model w) g model) = 0"
    unfolding p(1) by (simp add: compute_quota_def Let_def text_total_def p(2-5) clamp_non_negative_def)
  then show ?thesis using assms(3) by (simp add: quota_rounds round_charge_def)
qed

definition sample_pricing_world :: pricing_world where
  "sample_pricing_world = \<lparr>pw_co = \<lparr>co_store = [], co_degraded_until = 0, co_last_error = [], co_faults = []\<rparr>,
     pw_pricing = [], pw_group_ratios = [], pw_db_ok = True\<rparr>"

theorem inherited_names_are_free_witness:
  "quota_for (\<lambda>_. None) sample_usage (stored_pricing (\<lambda>_. None) ''constructor'' sample_pricing_world) 1 ''constructor'' = JFin 0"
  by (rule inherited_names_are_free) (simp_all add: sample_pricing_world_def sample_usage_def empty_usage_def)

end
