(* ===== verification/Calendar.thy ===== *)
theory Calendar
  imports Prelude
begin

text \<open>
  UTC dates, as \<open>src/lib/util/time.ts\<close> and \<open>src/lib/usage/index.ts\<close> use them: a moment is its
  milliseconds since 1970, its calendar day comes from the count of days in the proleptic
  Gregorian calendar (as \<open>Date\<close> computes it).
\<close>

definition day_of :: "int \<Rightarrow> int" where
  "day_of ms = ms div 86400000"

text \<open>Year, month (1 to 12) and day of a day number; years are counted from March inside.\<close>

definition civil_of_day :: "int \<Rightarrow> int \<times> int \<times> int" where
  "civil_of_day z0 =
     (let z = z0 + 719468; era = z div 146097; doe = z mod 146097;
          yoe = (doe - doe div 1460 + doe div 36524 - doe div 146096) div 365;
          doy = doe - (365 * yoe + yoe div 4 - yoe div 100);
          mp = (5 * doy + 2) div 153; d = doy - (153 * mp + 2) div 5 + 1;
          m = (if mp < 10 then mp + 3 else mp - 9)
      in (yoe + era * 400 + (if m \<le> 2 then 1 else 0), m, d))"

definition day_of_civil :: "int \<Rightarrow> int \<Rightarrow> int \<Rightarrow> int" where
  "day_of_civil y0 m d =
     (let y = (if m \<le> 2 then y0 - 1 else y0); era = y div 400; yoe = y mod 400;
          mp = (if m > 2 then m - 3 else m + 9); doy = (153 * mp + 2) div 5 + d - 1;
          doe = yoe * 365 + yoe div 4 - yoe div 100 + doy
      in era * 146097 + doe - 719468)"

definition pad :: "nat \<Rightarrow> string \<Rightarrow> string" where
  "pad n s = replicate (n - length s) (CHR ''0'') @ s"

definition month_bucket :: "int \<Rightarrow> string" where
  "month_bucket ms = (case civil_of_day (day_of ms) of (y, m, d) \<Rightarrow> show_int y @ pad 2 (show_int m))"

definition iso_year :: "int \<Rightarrow> string" where
  "iso_year y = (if 0 \<le> y \<and> y \<le> 9999 then pad 4 (show_int y)
     else (if y < 0 then ''-'' else ''+'') @ pad 6 (show_int \<bar>y\<bar>))"

definition iso_day_hour :: "int \<Rightarrow> string" where
  "iso_day_hour ms = (case civil_of_day (day_of ms) of (y, m, d) \<Rightarrow>
     iso_year y @ ''-'' @ pad 2 (show_int m) @ ''-'' @ pad 2 (show_int d) @ ''T'' @
       pad 2 (show_int (ms mod 86400000 div 3600000)))"

text \<open>\<open>toISOString().slice(0, 13)\<close>.\<close>

definition hour_bucket :: "int \<Rightarrow> string" where
  "hour_bucket ms = take 13 (iso_day_hour ms)"

definition iso_string :: "int \<Rightarrow> string" where
  "iso_string ms = iso_day_hour ms @ '':'' @ pad 2 (show_int (ms mod 3600000 div 60000)) @ '':'' @
     pad 2 (show_int (ms mod 60000 div 1000)) @ ''.'' @ pad 3 (show_int (ms mod 1000)) @ ''Z''"

definition add_months :: "int \<Rightarrow> int \<Rightarrow> int" where
  "add_months ms months = (case civil_of_day (day_of ms) of (y, m, d) \<Rightarrow>
     let k = m - 1 + months in
     (day_of_civil (y + k div 12) (k mod 12 + 1) 1 + (d - 1)) * 86400000 + ms mod 86400000)"

definition start_of_utc_day :: "int \<Rightarrow> int" where
  "start_of_utc_day ms = day_of ms * 86400000"

definition start_of_utc_hour :: "int \<Rightarrow> int" where
  "start_of_utc_hour ms = day_of ms * 86400000 + ms mod 86400000 div 3600000 * 3600000"

lemma calendar_examples:
  "civil_of_day 0 = (1970, 1, 1)" "civil_of_day 20695 = (2026, 8, 30)" "civil_of_day 11016 = (2000, 2, 29)"
  "month_bucket 1788000000000 = ''202608''" "hour_bucket 1788000000000 = ''2026-08-29T10''"
  "add_months 1788000000000 6 = 1803897600000" "iso_string 1788000000042 = ''2026-08-29T10:40:00.042Z''"
  by code_simp+

end
