(* ===== verification/UsageLedger.thy ===== *)
theory UsageLedger
  imports RedisClient Measure Calendar
begin

text \<open>
  The usage ledger, \<open>src/lib/usage/index.ts\<close>: one row per request in the collection of its month, the
  hourly totals kept with it in one transaction, the buffer of rows in the shared store and its
  drain. Dates travel as milliseconds. The outcomes of the database transactions to come are a
  list, as the faults of the shared store are.
\<close>

datatype usage_status = UsageSuccess | UsageError | UsageAborted

record usage_log_doc =
  ul_id :: string
  ul_request_id :: string
  ul_user_id :: string
  ul_token_id :: string
  ul_channel_id :: string
  ul_group :: string
  ul_model :: string
  ul_mapped_model :: string
  ul_billed_model :: string
  ul_endpoint :: string
  ul_dialect :: string
  ul_stream :: bool
  ul_prompt_tokens :: int
  ul_completion_tokens :: int
  ul_cached_tokens :: int
  ul_write_5m_tokens :: int
  ul_write_1h_tokens :: int
  ul_image_tokens :: int
  ul_audio_prompt_tokens :: int
  ul_audio_completion_tokens :: int
  ul_reasoning_tokens :: int
  ul_tool_calls :: "(string \<times> jsnum) list"
  ul_quota :: int
  ul_elapsed_ms :: int
  ul_first_byte_ms :: int
  ul_retries :: int
  ul_status :: usage_status
  ul_error_code :: "string option"
  ul_http_status :: int
  ul_ip_hash :: string
  ul_created_at :: int

record usage_record_input =
  ui_request_id :: string
  ui_user_id :: string
  ui_token_id :: string
  ui_channel_id :: string
  ui_group :: string
  ui_model :: string
  ui_mapped_model :: string
  ui_billed_model :: string
  ui_endpoint :: string
  ui_dialect :: string
  ui_stream :: bool
  ui_usage :: "normalized_usage option"
  ui_quota :: jsnum
  ui_elapsed_ms :: jsnum
  ui_first_byte_ms :: jsnum
  ui_retries :: jsnum
  ui_status :: usage_status
  ui_error_code :: "string option"
  ui_http_status :: jsnum
  ui_ip_hash :: string
  ui_created_at :: "int option"

datatype rollup_scope = ScopeUser | ScopeChannel | ScopeModel | ScopeGlobal

record usage_rollup_doc =
  ro_scope :: rollup_scope
  ro_key :: string
  ro_bucket :: string
  ro_requests :: int
  ro_errors :: int
  ro_quota :: int
  ro_prompt_tokens :: int
  ro_completion_tokens :: int
  ro_updated_at :: int

text \<open>Rows by the month of their collection; the totals by scope, key and hour.\<close>

record usage_db =
  ud_logs :: "(string \<times> usage_log_doc list) list"
  ud_rollups :: "usage_rollup_doc list"

datatype tx_outcome = TxCommits | TxDuplicateKey | TxFails

record usage_world =
  uw_co :: coord
  uw_db :: usage_db
  uw_tx :: "tx_outcome list"

subsection \<open>Rows\<close>

definition round_count :: "jsnum \<Rightarrow> int" where
  "round_count v = (case v of JFin x \<Rightarrow> if x > 0 then \<lfloor>x + 1 / 2\<rfloor> else 0 | _ \<Rightarrow> 0)"

definition build_usage_log :: "int \<Rightarrow> usage_record_input \<Rightarrow> usage_log_doc" where
  "build_usage_log now i =
     (let usage = (case ui_usage i of Some u \<Rightarrow> u | None \<Rightarrow> empty_usage); n = (\<lambda>k. round_count (js_int k)) in
      \<lparr>ul_id = ui_request_id i, ul_request_id = ui_request_id i, ul_user_id = ui_user_id i, ul_token_id = ui_token_id i,
       ul_channel_id = ui_channel_id i, ul_group = ui_group i, ul_model = ui_model i, ul_mapped_model = ui_mapped_model i,
       ul_billed_model = ui_billed_model i, ul_endpoint = ui_endpoint i, ul_dialect = ui_dialect i, ul_stream = ui_stream i,
       ul_prompt_tokens = n (nu_prompt usage), ul_completion_tokens = n (nu_completion usage),
       ul_cached_tokens = n (nu_cached usage), ul_write_5m_tokens = n (nu_write_5m usage),
       ul_write_1h_tokens = n (nu_write_1h usage), ul_image_tokens = n (nu_image usage),
       ul_audio_prompt_tokens = n (nu_audio_prompt usage), ul_audio_completion_tokens = n (nu_audio_completion usage),
       ul_reasoning_tokens = n (nu_reasoning usage), ul_tool_calls = nu_tool_calls usage,
       ul_quota = round_count (ui_quota i), ul_elapsed_ms = round_count (ui_elapsed_ms i),
       ul_first_byte_ms = round_count (ui_first_byte_ms i), ul_retries = round_count (ui_retries i),
       ul_status = ui_status i,
       ul_error_code = (case ui_error_code i of Some c \<Rightarrow> if c = [] then None else Some c | None \<Rightarrow> None),
       ul_http_status = round_count (ui_http_status i), ul_ip_hash = ui_ip_hash i,
       ul_created_at = (case ui_created_at i of Some t \<Rightarrow> t | None \<Rightarrow> now)\<rparr>)"

subsection \<open>Hourly totals\<close>

definition rollup_scopes :: "usage_log_doc \<Rightarrow> (rollup_scope \<times> string) list" where
  "rollup_scopes d = [(ScopeUser, ul_user_id d), (ScopeChannel, ul_channel_id d), (ScopeModel, ul_billed_model d),
     (ScopeGlobal, ''all'')]"

definition is_rollup :: "rollup_scope \<Rightarrow> string \<Rightarrow> string \<Rightarrow> usage_rollup_doc \<Rightarrow> bool" where
  "is_rollup scope key bucket r \<longleftrightarrow> ro_scope r = scope \<and> ro_key r = key \<and> ro_bucket r = bucket"

definition empty_rollup :: "rollup_scope \<Rightarrow> string \<Rightarrow> string \<Rightarrow> usage_rollup_doc" where
  "empty_rollup scope key bucket = \<lparr>ro_scope = scope, ro_key = key, ro_bucket = bucket, ro_requests = 0, ro_errors = 0,
     ro_quota = 0, ro_prompt_tokens = 0, ro_completion_tokens = 0, ro_updated_at = 0\<rparr>"

definition add_row :: "int \<Rightarrow> usage_log_doc \<Rightarrow> usage_rollup_doc \<Rightarrow> usage_rollup_doc" where
  "add_row now d r = r\<lparr>ro_requests := ro_requests r + 1,
     ro_errors := ro_errors r + (if ul_status d = UsageSuccess then 0 else 1),
     ro_quota := ro_quota r + ul_quota d, ro_prompt_tokens := ro_prompt_tokens r + ul_prompt_tokens d,
     ro_completion_tokens := ro_completion_tokens r + ul_completion_tokens d, ro_updated_at := now\<rparr>"

text \<open>The upsert of one total.\<close>

definition bump :: "int \<Rightarrow> usage_log_doc \<Rightarrow> rollup_scope \<times> string \<Rightarrow> usage_rollup_doc list \<Rightarrow> usage_rollup_doc list" where
  "bump now d sk rs =
     (let bucket = hour_bucket (ul_created_at d); P = is_rollup (fst sk) (snd sk) bucket in
      if snd sk = [] then rs
      else (case find_one P rs of
          Some r \<Rightarrow> update_one P (add_row now d) rs
        | None \<Rightarrow> rs @ [add_row now d (empty_rollup (fst sk) (snd sk) bucket)]))"

definition increment_rollups :: "int \<Rightarrow> usage_log_doc \<Rightarrow> usage_rollup_doc list \<Rightarrow> usage_rollup_doc list" where
  "increment_rollups now d rs = fold (bump now d) (rollup_scopes d) rs"

subsection \<open>Persisting rows\<close>

definition rows_of :: "string \<Rightarrow> usage_db \<Rightarrow> usage_log_doc list" where
  "rows_of bucket db = (case map_of (ud_logs db) bucket of Some ds \<Rightarrow> ds | None \<Rightarrow> [])"

definition record_row :: "int \<Rightarrow> string \<Rightarrow> usage_log_doc \<Rightarrow> usage_db \<Rightarrow> usage_db" where
  "record_row now bucket d db =
     (if list_ex (\<lambda>x. ul_id x = ul_id d) (rows_of bucket db) then db
      else db\<lparr>ud_logs := put bucket (rows_of bucket db @ [d]) (ud_logs db),
              ud_rollups := increment_rollups now d (ud_rollups db)\<rparr>)"

text \<open>The rows by month, months in the order of their first row.\<close>

definition row_bucket :: "usage_log_doc \<Rightarrow> string" where
  "row_bucket d = month_bucket (ul_created_at d)"

definition by_bucket :: "usage_log_doc list \<Rightarrow> (string \<times> usage_log_doc list) list" where
  "by_bucket docs = fold (\<lambda>d g. put (row_bucket d) ((case map_of g (row_bucket d) of Some ds \<Rightarrow> ds | None \<Rightarrow> []) @ [d]) g) docs []"

text \<open>A month in one transaction, tried up to three times when the unique id raced.\<close>

function persist_bucket :: "nat \<Rightarrow> int \<Rightarrow> string \<Rightarrow> usage_log_doc list \<Rightarrow> tx_outcome list \<Rightarrow> usage_db \<Rightarrow>
    bool \<times> tx_outcome list \<times> usage_db" where
  "persist_bucket attempt now bucket rows tx db =
     (case (case tx of [] \<Rightarrow> TxCommits | t # _ \<Rightarrow> t) of
        TxCommits \<Rightarrow> (True, tl tx, fold (record_row now bucket) rows db)
      | TxDuplicateKey \<Rightarrow> if attempt \<ge> 2 then (False, tl tx, db) else persist_bucket (attempt + 1) now bucket rows (tl tx) db
      | TxFails \<Rightarrow> (False, tl tx, db))"
  by pat_completeness auto
termination by (relation "measure (\<lambda>(attempt, _). 2 - attempt)") auto

declare persist_bucket.simps [simp del]

fun persist_buckets :: "int \<Rightarrow> (string \<times> usage_log_doc list) list \<Rightarrow> nat \<Rightarrow> tx_outcome list \<Rightarrow> usage_db \<Rightarrow>
    (thrown + nat) \<times> tx_outcome list \<times> usage_db" where
  "persist_buckets now [] written tx db = (Inr written, tx, db)"
| "persist_buckets now ((bucket, rows) # rest) written tx db =
     (case persist_bucket 0 now bucket rows tx db of
        (True, tx', db') \<Rightarrow> persist_buckets now rest (written + length rows) tx' db'
      | (False, tx', db') \<Rightarrow> (Inl OtherThrown, tx', db'))"

definition persist :: "int \<Rightarrow> usage_log_doc list \<Rightarrow> usage_world \<Rightarrow> (thrown + nat) \<times> usage_world" where
  "persist now docs w =
     (case persist_buckets now (by_bucket docs) 0 (uw_tx w) (uw_db w) of
        (r, tx', db') \<Rightarrow> (r, w\<lparr>uw_tx := tx', uw_db := db'\<rparr>))"

definition apply_rollups :: "int \<Rightarrow> usage_log_doc list \<Rightarrow> usage_world \<Rightarrow> (thrown + unit) \<times> usage_world" where
  "apply_rollups now docs w = (case persist now docs w of (Inl e, w') \<Rightarrow> (Inl e, w') | (Inr _, w') \<Rightarrow> (Inr (), w'))"

subsection \<open>The buffer\<close>

fun status_text :: "usage_status \<Rightarrow> string" where
  "status_text UsageSuccess = ''success''"
| "status_text UsageError = ''error''"
| "status_text UsageAborted = ''aborted''"

definition status_of_text :: "string \<Rightarrow> usage_status" where
  "status_of_text s = (if s = ''success'' then UsageSuccess else if s = ''aborted'' then UsageAborted else UsageError)"

definition row_json :: "usage_log_doc \<Rightarrow> json" where
  "row_json d = JObj ([(''_id'', JStr (ul_id d)), (''requestId'', JStr (ul_request_id d)), (''userId'', JStr (ul_user_id d)),
     (''tokenId'', JStr (ul_token_id d)), (''channelId'', JStr (ul_channel_id d)), (''group'', JStr (ul_group d)),
     (''model'', JStr (ul_model d)), (''mappedModel'', JStr (ul_mapped_model d)), (''billedModel'', JStr (ul_billed_model d)),
     (''endpoint'', JStr (ul_endpoint d)), (''dialect'', JStr (ul_dialect d)), (''stream'', JBool (ul_stream d)),
     (''promptTokens'', JNum (js_int (ul_prompt_tokens d))), (''completionTokens'', JNum (js_int (ul_completion_tokens d))),
     (''cachedTokens'', JNum (js_int (ul_cached_tokens d))), (''cacheWrite5mTokens'', JNum (js_int (ul_write_5m_tokens d))),
     (''cacheWrite1hTokens'', JNum (js_int (ul_write_1h_tokens d))), (''imageTokens'', JNum (js_int (ul_image_tokens d))),
     (''audioPromptTokens'', JNum (js_int (ul_audio_prompt_tokens d))),
     (''audioCompletionTokens'', JNum (js_int (ul_audio_completion_tokens d))),
     (''reasoningTokens'', JNum (js_int (ul_reasoning_tokens d))),
     (''toolCalls'', JObj (map (\<lambda>(k, n). (k, JNum n)) (ul_tool_calls d))), (''quota'', JNum (js_int (ul_quota d))),
     (''elapsedMs'', JNum (js_int (ul_elapsed_ms d))), (''firstByteMs'', JNum (js_int (ul_first_byte_ms d))),
     (''retries'', JNum (js_int (ul_retries d))), (''status'', JStr (status_text (ul_status d)))] @
     (case ul_error_code d of Some c \<Rightarrow> [(''errorCode'', JStr c)] | None \<Rightarrow> []) @
     [(''httpStatus'', JNum (js_int (ul_http_status d))), (''ipHash'', JStr (ul_ip_hash d)),
      (''createdAt'', JNum (js_int (ul_created_at d)))])"

text \<open>The checks of the drain: a text id and a date; the other fields as the gateway writes them.\<close>

definition row_of_json :: "json \<Rightarrow> usage_log_doc option" where
  "row_of_json j =
     (let ms = as_record (Some j); s = (\<lambda>k. as_string (get_field k ms) []);
          i = (\<lambda>k. case get_field k ms of Some (JNum n) \<Rightarrow> js_to_int n | _ \<Rightarrow> 0)
      in case (get_field ''_id'' ms, get_field ''createdAt'' ms) of
           (Some (JStr rid), Some (JNum (JFin t))) \<Rightarrow> Some
             \<lparr>ul_id = rid, ul_request_id = s ''requestId'', ul_user_id = s ''userId'', ul_token_id = s ''tokenId'',
              ul_channel_id = s ''channelId'', ul_group = s ''group'', ul_model = s ''model'', ul_mapped_model = s ''mappedModel'',
              ul_billed_model = s ''billedModel'', ul_endpoint = s ''endpoint'', ul_dialect = s ''dialect'',
              ul_stream = as_bool (get_field ''stream'' ms) False, ul_prompt_tokens = i ''promptTokens'',
              ul_completion_tokens = i ''completionTokens'', ul_cached_tokens = i ''cachedTokens'',
              ul_write_5m_tokens = i ''cacheWrite5mTokens'', ul_write_1h_tokens = i ''cacheWrite1hTokens'',
              ul_image_tokens = i ''imageTokens'', ul_audio_prompt_tokens = i ''audioPromptTokens'',
              ul_audio_completion_tokens = i ''audioCompletionTokens'', ul_reasoning_tokens = i ''reasoningTokens'',
              ul_tool_calls = map (\<lambda>(k, v). (k, case v of JNum n \<Rightarrow> n | _ \<Rightarrow> JNaN)) (as_record (get_field ''toolCalls'' ms)),
              ul_quota = i ''quota'', ul_elapsed_ms = i ''elapsedMs'', ul_first_byte_ms = i ''firstByteMs'',
              ul_retries = i ''retries'', ul_status = status_of_text (s ''status''),
              ul_error_code = (case get_field ''errorCode'' ms of Some (JStr c) \<Rightarrow> Some c | _ \<Rightarrow> None),
              ul_http_status = i ''httpStatus'', ul_ip_hash = s ''ipHash'', ul_created_at = \<lfloor>t\<rfloor>\<rparr>
         | _ \<Rightarrow> None)"

text \<open>A buffered text: skipped when it is no JSON or no row.\<close>

definition row_of_text :: "rtext option \<Rightarrow> usage_log_doc option" where
  "row_of_text t = (case t of
      Some (Doc j) \<Rightarrow> row_of_json j
    | Some (Lit s) \<Rightarrow> Option.bind (json_parse s) row_of_json
    | _ \<Rightarrow> None)"

definition record_usage :: "int \<Rightarrow> usage_record_input \<Rightarrow> bool \<Rightarrow> usage_world \<Rightarrow> (thrown + unit) \<times> usage_world" where
  "record_usage now input buffered w =
     (let doc = build_usage_log now input;
          direct = (\<lambda>w'. case persist now [doc] w' of (Inl e, w2) \<Rightarrow> (Inl e, w2) | (Inr _, w2) \<Rightarrow> (Inr (), w2))
      in if buffered then
           (case redis_command now (RPush (render KUsageBuffer) [Doc (row_json doc)]) (uw_co w) of
              (Some _, co') \<Rightarrow> (Inr (), w\<lparr>uw_co := co'\<rparr>)
            | (None, co') \<Rightarrow> direct (w\<lparr>uw_co := co'\<rparr>))
         else direct w)"

definition usage_lock :: string where
  "usage_lock = render (KLock ''usage-flush'')"

text \<open>\<open>now\<close> is the time of the claim, \<open>later\<close> that of the acknowledgement.\<close>

definition flush_usage_buffer :: "int \<Rightarrow> int \<Rightarrow> string \<Rightarrow> int \<Rightarrow> usage_world \<Rightarrow> (thrown + nat) \<times> usage_world" where
  "flush_usage_buffer now later owner limit w =
     (let size = max 1 (min limit 1000);
          release = (\<lambda>r w'. (r, w'\<lparr>uw_co := snd (run_script later (ReleaseLock usage_lock owner) (uw_co w'))\<rparr>))
      in case redis_set_nx now usage_lock owner 120 (uw_co w) of
           (None, co1) \<Rightarrow> (Inr 0, w\<lparr>uw_co := co1\<rparr>)
         | (Some False, co1) \<Rightarrow> (Inr 0, w\<lparr>uw_co := co1\<rparr>)
         | (Some True, co1) \<Rightarrow>
             (case redis_command now (LRange (render KUsageBuffer) 0 (size - 1)) co1 of
                (None, co2) \<Rightarrow> release (Inl OtherThrown) (w\<lparr>uw_co := co2\<rparr>)
              | (Some reply, co2) \<Rightarrow>
                  let raw = (case reply of RTxts ts \<Rightarrow> ts | _ \<Rightarrow> []) in
                  if raw = [] then release (Inr 0) (w\<lparr>uw_co := co2\<rparr>)
                  else (case persist later (List.map_filter row_of_text raw) (w\<lparr>uw_co := co2\<rparr>) of
                      (Inl e, w3) \<Rightarrow> release (Inl e) w3
                    | (Inr written, w3) \<Rightarrow>
                        (case run_script later (AckUsage (render KUsageBuffer) usage_lock owner (int (length raw))) (uw_co w3) of
                           (None, co4) \<Rightarrow> release (Inl OtherThrown) (w3\<lparr>uw_co := co4\<rparr>)
                         | (Some _, co4) \<Rightarrow> release (Inr written) (w3\<lparr>uw_co := co4\<rparr>)))))"

definition pending_usage_count :: "int \<Rightarrow> usage_world \<Rightarrow> jsnum \<times> usage_world" where
  "pending_usage_count now w =
     (case redis_command now (LLen (render KUsageBuffer)) (uw_co w) of
        (None, co') \<Rightarrow> (JFin 0, w\<lparr>uw_co := co'\<rparr>)
      | (Some r, co') \<Rightarrow>
          (let n = reply_num r in if js_finite n \<and> js_lt (JFin 0) n then n else JFin 0, w\<lparr>uw_co := co'\<rparr>))"

end
