(* ===== verification/UsageLaws.thy ===== *)
theory UsageLaws
  imports UsageLedger ReplayQueue
begin

text \<open>
  What the usage ledger guarantees: a delivered row is never counted twice (an instance of the replay
  contract), the hourly totals are exactly the sums of the rows, and a drain loses no row whatever
  fails meanwhile.
\<close>

subsection \<open>One row per request\<close>

definition recorded :: "usage_log_doc \<Rightarrow> usage_db \<Rightarrow> bool" where
  "recorded d db \<longleftrightarrow> list_ex (\<lambda>x. ul_id x = ul_id d) (rows_of (row_bucket d) db)"

definition row_step :: "int \<Rightarrow> usage_log_doc \<Rightarrow> usage_db \<Rightarrow> usage_db option" where
  "row_step now d db = Some (record_row now (row_bucket d) d db)"

lemma rows_of_record:
  "rows_of b (record_row now bucket d db) =
     (if b = bucket \<and> \<not> list_ex (\<lambda>x. ul_id x = ul_id d) (rows_of bucket db) then rows_of bucket db @ [d] else rows_of b db)"
  by (simp add: record_row_def rows_of_def)

interpretation usage_rows: replayable row_step recorded "\<lambda>_. True"
proof
  fix t e f s s'
  show "row_step t e s = Some s' \<Longrightarrow> recorded e s'"
    by (auto simp: row_step_def recorded_def rows_of_record)
  show "recorded e s \<Longrightarrow> row_step t f s = Some s' \<Longrightarrow> recorded e s'"
    by (auto simp: row_step_def recorded_def rows_of_record)
  show "recorded e s \<Longrightarrow> row_step t e s = Some s"
    by (auto simp: row_step_def recorded_def record_row_def)
qed simp

lemma run_rows: "run_steps (row_step t) ds db = (fold (\<lambda>d. record_row t (row_bucket d) d) ds db, True)"
  by (induction ds arbitrary: db) (simp_all add: row_step_def)

text \<open>Grouping by month keeps the rows and files each under its own month.\<close>

definition grouped :: "(string \<times> usage_log_doc list) list \<Rightarrow> bool" where
  "grouped g \<longleftrightarrow> (\<forall>(b, ds) \<in> set g. \<forall>d \<in> set ds. row_bucket d = b)"

lemma set_put_iff: "x \<in> set (put k v es) \<Longrightarrow> x = (k, v) \<or> x \<in> set es"
  by (induction es) (auto split: if_splits)

lemma put_keeps: "(k, v) \<in> set es \<Longrightarrow> k \<noteq> j \<Longrightarrow> (k, v) \<in> set (put j w es)"
  by (induction es) auto

lemma put_in: "(k, v) \<in> set (put k v es)"
  by (induction es) auto

definition grouped_rows :: "(string \<times> usage_log_doc list) list \<Rightarrow> usage_log_doc set" where
  "grouped_rows g = {d. \<exists>ds. map_of g (row_bucket d) = Some ds \<and> d \<in> set ds}"

lemma by_bucket_step:
  "grouped_rows (put (row_bucket d) ((case map_of g (row_bucket d) of Some ds \<Rightarrow> ds | None \<Rightarrow> []) @ [d]) g) = insert d (grouped_rows g)"
  by (auto simp: grouped_rows_def split: option.splits if_splits)

lemma grouped_put:
  assumes "grouped g" shows "grouped (put (row_bucket d) ((case map_of g (row_bucket d) of Some ds \<Rightarrow> ds | None \<Rightarrow> []) @ [d]) g)"
  using assms by (fastforce simp: grouped_def dest!: set_put_iff map_of_SomeD split: option.splits)

lemma by_bucket_rows: "grouped_rows (by_bucket docs) = set docs"
proof -
  have "grouped_rows (fold (\<lambda>d g. put (row_bucket d) ((case map_of g (row_bucket d) of Some ds \<Rightarrow> ds | None \<Rightarrow> []) @ [d]) g) docs g) =
      grouped_rows g \<union> set docs" for g
    by (induction docs arbitrary: g) (auto simp: by_bucket_step)
  from this [of "[]"] show ?thesis by (simp add: by_bucket_def grouped_rows_def)
qed

lemma by_bucket_grouped: "grouped (by_bucket docs)"
proof -
  have "grouped g \<Longrightarrow> grouped (fold (\<lambda>d g. put (row_bucket d) ((case map_of g (row_bucket d) of Some ds \<Rightarrow> ds | None \<Rightarrow> []) @ [d]) g) docs g)" for g
    by (induction docs arbitrary: g) (auto simp: grouped_put)
  from this [of "[]"] show ?thesis by (simp add: by_bucket_def grouped_def)
qed

abbreviation by_month :: "usage_log_doc list \<Rightarrow> usage_log_doc list" where
  "by_month docs \<equiv> concat (map snd (by_bucket docs))"

lemma by_month_set: "set (by_month docs) = set docs"
proof
  show "set docs \<subseteq> set (by_month docs)"
    using by_bucket_rows [of docs] by (force simp: grouped_rows_def dest!: map_of_SomeD)
next
  have k: "distinct (map fst (put k v g))" if "distinct (map fst g)" for k v and g :: "(string \<times> usage_log_doc list) list"
    using that by (induction g) (auto dest!: set_put_iff)
  have "distinct (map fst g) \<Longrightarrow>
      distinct (map fst (fold (\<lambda>d g. put (row_bucket d) ((case map_of g (row_bucket d) of Some ds \<Rightarrow> ds | None \<Rightarrow> []) @ [d]) g) docs g))" for g
    by (induction docs arbitrary: g) (auto simp: k)
  then have d: "distinct (map fst (by_bucket docs))" by (simp add: by_bucket_def)
  show "set (by_month docs) \<subseteq> set docs"
  proof
    fix x assume "x \<in> set (by_month docs)"
    then obtain b ds where m: "(b, ds) \<in> set (by_bucket docs)" "x \<in> set ds" by auto
    with by_bucket_grouped [of docs] have "row_bucket x = b" by (fastforce simp: grouped_def)
    with m d have "map_of (by_bucket docs) (row_bucket x) = Some ds" by simp
    with m(2) have "x \<in> grouped_rows (by_bucket docs)" by (auto simp: grouped_rows_def)
    then show "x \<in> set docs" by (simp add: by_bucket_rows)
  qed
qed

text \<open>A month is written whole or not at all.\<close>

lemma persist_bucket_cases:
  "(\<exists>tx'. persist_bucket a now bucket rows tx db = (True, tx', fold (record_row now bucket) rows db)) \<or>
   (\<exists>tx'. persist_bucket a now bucket rows tx db = (False, tx', db))"
proof (induction a now bucket rows tx db rule: persist_bucket.induct)
  case (1 attempt now bucket rows tx db)
  show ?case
  proof (cases "case tx of [] \<Rightarrow> TxCommits | t # _ \<Rightarrow> t")
    case TxDuplicateKey
    with 1 show ?thesis by (subst (1 2) persist_bucket.simps) (auto simp: TxDuplicateKey)
  qed (subst (1 2) persist_bucket.simps, simp)+
qed

lemma fold_same_bucket:
  "(\<And>d. d \<in> set ds \<Longrightarrow> row_bucket d = b) \<Longrightarrow> fold (record_row now b) ds db = fold (\<lambda>d. record_row now (row_bucket d) d) ds db"
  by (induction ds arbitrary: db) auto

lemma persist_buckets_prefix:
  assumes "grouped g" "persist_buckets now g n tx db = (r, tx', db')"
  shows "\<exists>pre post. concat (map snd g) = pre @ post \<and> db' = fold (\<lambda>d. record_row now (row_bucket d) d) pre db \<and>
    ((\<exists>k. r = Inr k) \<longrightarrow> post = [])"
  using assms
proof (induction g arbitrary: n tx db)
  case (Cons e g)
  obtain b rows where e: "e = (b, rows)" by (cases e)
  from Cons.prems(1) have g: "grouped g" and b: "\<And>d. d \<in> set rows \<Longrightarrow> row_bucket d = b" by (auto simp: grouped_def e)
  consider (ok) tx1 where "persist_bucket 0 now b rows tx db = (True, tx1, fold (record_row now b) rows db)"
    | (no) tx1 where "persist_bucket 0 now b rows tx db = (False, tx1, db)" using persist_bucket_cases by blast
  then show ?case
  proof cases
    case ok
    then have "persist_buckets now g (n + length rows) tx1 (fold (record_row now b) rows db) = (r, tx', db')"
      using Cons.prems(2) by (simp add: e del: persist_bucket.simps)
    from Cons.IH [OF g this] obtain pre post where "concat (map snd g) = pre @ post"
      "db' = fold (\<lambda>d. record_row now (row_bucket d) d) pre (fold (record_row now b) rows db)" "(\<exists>k. r = Inr k) \<longrightarrow> post = []" by blast
    then show ?thesis by (intro exI [of _ "rows @ pre"] exI [of _ post]) (simp add: e fold_same_bucket [OF b])
  next
    case no
    then show ?thesis using Cons.prems(2) by (intro exI [of _ "[]"] exI [of _ "snd e @ concat (map snd g)"]) (auto simp: e)
  qed
qed simp

text \<open>Persisting is running the rows, in some order, up to where it stopped.\<close>

lemma persist_runs:
  assumes "persist now docs w = (r, w')"
  shows "\<exists>pre post. by_month docs = pre @ post \<and> run_steps (row_step now) pre (uw_db w) = (uw_db w', True) \<and>
    ((\<exists>k. r = Inr k) \<longrightarrow> post = []) \<and> uw_co w' = uw_co w"
proof -
  obtain tx' db' where p: "persist_buckets now (by_bucket docs) 0 (uw_tx w) (uw_db w) = (r, tx', db')" "w' = w\<lparr>uw_tx := tx', uw_db := db'\<rparr>"
    using assms by (auto simp: persist_def split: prod.splits)
  from persist_buckets_prefix [OF by_bucket_grouped p(1)] obtain pre post where q: "by_month docs = pre @ post"
    "db' = fold (\<lambda>d. record_row now (row_bucket d) d) pre (uw_db w)" "(\<exists>k. r = Inr k) \<longrightarrow> post = []" by blast
  show ?thesis by (intro exI [of _ pre] exI [of _ post]) (use q p(2) in \<open>simp add: run_rows\<close>)
qed

lemma persist_records: "persist now docs w = (Inr n, w') \<Longrightarrow> d \<in> set docs \<Longrightarrow> recorded d (uw_db w')"
proof -
  assume p: "persist now docs w = (Inr n, w')" and d: "d \<in> set docs"
  obtain pre post where q: "by_month docs = pre @ post" "run_steps (row_step now) pre (uw_db w) = (uw_db w', True)"
    "post = []" using persist_runs [OF p] by auto
  then have "d \<in> set pre" using d by_month_set [of docs] by simp
  from usage_rows.run_settles [OF _ q(2) this] show ?thesis by simp
qed

definition sample_usage_input :: usage_record_input where
  "sample_usage_input = \<lparr>ui_request_id = ''r1'', ui_user_id = ''u1'', ui_token_id = ''t1'', ui_channel_id = ''c1'', ui_group = ''g'',
     ui_model = ''m'', ui_mapped_model = ''m'', ui_billed_model = ''m'', ui_endpoint = ''chat'', ui_dialect = ''openai'', ui_stream = False,
     ui_usage = None, ui_quota = JFin 7, ui_elapsed_ms = JFin 3, ui_first_byte_ms = JFin 1, ui_retries = JFin 0,
     ui_status = UsageSuccess, ui_error_code = None, ui_http_status = JFin 200, ui_ip_hash = ''h'', ui_created_at = Some 1788000000000\<rparr>"

definition sample_row :: usage_log_doc where
  "sample_row = build_usage_log 0 sample_usage_input"

definition sample_usage_world :: "rstore \<Rightarrow> usage_world" where
  "sample_usage_world st = \<lparr>uw_co = \<lparr>co_store = st, co_degraded_until = 0, co_last_error = [], co_faults = []\<rparr>,
     uw_db = \<lparr>ud_logs = [], ud_rollups = []\<rparr>, uw_tx = [TxDuplicateKey]\<rparr>"

text \<open>Rows that were written once are never counted again: delivering them a second time, all or some of
  them, at any later time and whatever happens to the transactions, changes neither the rows nor
  the hourly totals.\<close>
theorem redelivery_changes_nothing:
  assumes "persist t1 docs w = (Inr n, w1)" "set again \<subseteq> set docs"
  shows "uw_db (snd (persist t2 again w1)) = uw_db w1"
proof -
  obtain r w2 where p: "persist t2 again w1 = (r, w2)" by (cases "persist t2 again w1")
  then have "\<exists>pre post. by_month again = pre @ post \<and> run_steps (row_step t2) pre (uw_db w1) = (uw_db w2, True)"
    using persist_runs [OF p] by blast
  then obtain pre post where q: "by_month again = pre @ post" "run_steps (row_step t2) pre (uw_db w1) = (uw_db w2, True)"
    by blast
  have "recorded d (uw_db w1)" if "d \<in> set pre" for d
  proof (rule persist_records [OF assms(1)])
    from that q(1) have "d \<in> set (by_month again)" by simp
    then show "d \<in> set docs" unfolding by_month_set using assms(2) by blast
  qed
  then have "run_steps (row_step t2) pre (uw_db w1) = (uw_db w1, True)" by (intro usage_rows.run_noop) simp_all
  with q(2) p show ?thesis by simp
qed

subsection \<open>The hourly totals are the sums of the rows\<close>

text \<open>A total \<open>f\<close> that adds \<open>g\<close> of every row.\<close>

definition tally :: "(usage_rollup_doc \<Rightarrow> int) \<Rightarrow> (usage_log_doc \<Rightarrow> int) \<Rightarrow> bool" where
  "tally f g \<longleftrightarrow> (\<forall>now d r. f (add_row now d r) = f r + g d) \<and> (\<forall>s k b. f (empty_rollup s k b) = 0)"

definition rollup_value :: "(usage_rollup_doc \<Rightarrow> int) \<Rightarrow> rollup_scope \<Rightarrow> string \<Rightarrow> string \<Rightarrow> usage_db \<Rightarrow> int" where
  "rollup_value f scope key hour db = (case find_one (is_rollup scope key hour) (ud_rollups db) of None \<Rightarrow> 0 | Some r \<Rightarrow> f r)"

definition belongs :: "rollup_scope \<Rightarrow> string \<Rightarrow> string \<Rightarrow> usage_log_doc \<Rightarrow> bool" where
  "belongs scope key hour d \<longleftrightarrow> (scope, key) \<in> set (rollup_scopes d) \<and> hour_bucket (ul_created_at d) = hour"

definition row_total :: "(usage_log_doc \<Rightarrow> int) \<Rightarrow> rollup_scope \<Rightarrow> string \<Rightarrow> string \<Rightarrow> usage_db \<Rightarrow> int" where
  "row_total g scope key hour db = sum_list (map g (filter (belongs scope key hour) (concat (map snd (ud_logs db)))))"

lemma is_rollup_iff [simp]:
  "is_rollup s k b (add_row now d r) = is_rollup s k b r" "is_rollup s k b (empty_rollup s' k' b') \<longleftrightarrow> s' = s \<and> k' = k \<and> b' = b"
  by (simp_all add: is_rollup_def add_row_def empty_rollup_def)

lemma bump_value:
  assumes "tally f g" "key \<noteq> []"
  shows "rollup_value f scope key hour (db\<lparr>ud_rollups := bump now d sk rs\<rparr>) =
    rollup_value f scope key hour (db\<lparr>ud_rollups := rs\<rparr>) +
      (if sk = (scope, key) \<and> hour_bucket (ul_created_at d) = hour then g d else 0)"
proof -
  let ?h = "hour_bucket (ul_created_at d)"
  consider (empty) "snd sk = []" | (same) "sk = (scope, key)" "?h = hour" | (other) "snd sk \<noteq> []" "\<not> (sk = (scope, key) \<and> ?h = hour)"
    by blast
  then show ?thesis
  proof cases
    case empty
    with assms(2) show ?thesis by (auto simp: bump_def rollup_value_def)
  next
    case same
    have "find_one (is_rollup scope key hour) (update_one (is_rollup scope key hour) (add_row now d) rs) = Some (add_row now d r)"
      if "find_one (is_rollup scope key hour) rs = Some r" for r
      using that find_one_SomeD [OF that] by (intro find_update_same) simp_all
    with same assms show ?thesis
      by (auto simp: bump_def rollup_value_def Let_def tally_def find_one_append split: option.splits)
  next
    case other
    then have "find_one (is_rollup scope key hour) (update_one (is_rollup (fst sk) (snd sk) ?h) (add_row now d) rs) =
        find_one (is_rollup scope key hour) rs"
      by (intro find_update_other) (auto simp: is_rollup_def add_row_def)
    moreover have "\<not> is_rollup scope key hour (add_row now d (empty_rollup (fst sk) (snd sk) ?h))"
      using other(2) by (cases sk) auto
    ultimately show ?thesis using other
      by (auto simp: bump_def rollup_value_def Let_def find_one_append split: option.splits)
  qed
qed

lemma increment_value:
  assumes "tally f g" "key \<noteq> []"
  shows "rollup_value f scope key hour (db\<lparr>ud_rollups := increment_rollups now d rs\<rparr>) =
    rollup_value f scope key hour (db\<lparr>ud_rollups := rs\<rparr>) + (if belongs scope key hour d then g d else 0)"
  using assms by (cases scope) (auto simp: increment_rollups_def belongs_def rollup_scopes_def bump_value)

lemma sum_put_row:
  "sum_list (map g (filter P (concat (map snd (put b ((case map_of es b of Some ds \<Rightarrow> ds | None \<Rightarrow> []) @ [d]) es))))) =
    sum_list (map g (filter P (concat (map snd es)))) + (if P d then g d else (0 :: int))"
  by (induction es) auto

definition books_balance :: "usage_db \<Rightarrow> bool" where
  "books_balance db \<longleftrightarrow> (\<forall>f g scope key hour. tally f g \<longrightarrow> key \<noteq> [] \<longrightarrow>
     rollup_value f scope key hour db = row_total g scope key hour db) \<and> (\<forall>b. distinct (map ul_id (rows_of b db)))"

lemma books_record:
  assumes "books_balance db" shows "books_balance (record_row now b d db)"
proof (cases "list_ex (\<lambda>x. ul_id x = ul_id d) (rows_of b db)")
  case False
  let ?db = "record_row now b d db"
  have e: "?db = db\<lparr>ud_logs := put b (rows_of b db @ [d]) (ud_logs db), ud_rollups := increment_rollups now d (ud_rollups db)\<rparr>"
    using False by (simp add: record_row_def)
  have "rollup_value f scope key hour ?db = row_total g scope key hour ?db" if "tally f g" "key \<noteq> []" for f g scope key hour
  proof -
    have "row_total g scope key hour ?db = row_total g scope key hour db + (if belongs scope key hour d then g d else 0)"
      unfolding e row_total_def rows_of_def by (simp add: sum_put_row)
    moreover have "rollup_value f scope key hour ?db = rollup_value f scope key hour db + (if belongs scope key hour d then g d else 0)"
      using increment_value [OF that, where db = "db\<lparr>ud_logs := put b (rows_of b db @ [d]) (ud_logs db)\<rparr>" and rs = "ud_rollups db"]
      unfolding e by (simp add: rollup_value_def)
    ultimately show ?thesis using assms that unfolding books_balance_def by simp
  qed
  moreover have "distinct (map ul_id (rows_of b' ?db))" for b'
    using assms False unfolding books_balance_def rows_of_record by (auto simp: list_ex_iff)
  ultimately show ?thesis unfolding books_balance_def by blast
qed (use assms in \<open>simp add: record_row_def\<close>)

lemma books_run: "books_balance db \<Longrightarrow> books_balance (fst (run_steps (row_step now) ds db))"
  by (induction ds arbitrary: db) (simp_all add: row_step_def books_record)

lemma persist_books: "persist now docs w = (r, w') \<Longrightarrow> books_balance (uw_db w) \<Longrightarrow> books_balance (uw_db w')"
  using persist_runs [of now docs w r w'] books_run by (metis fst_conv)

datatype usage_op = RecordOp int usage_record_input bool | FlushOp int int string int

fun usage_step :: "usage_op \<Rightarrow> usage_world \<Rightarrow> usage_world" where
  "usage_step (RecordOp now input buffered) w = snd (record_usage now input buffered w)"
| "usage_step (FlushOp now later owner limit) w = snd (flush_usage_buffer now later owner limit w)"

lemma step_books: "books_balance (uw_db w) \<Longrightarrow> books_balance (uw_db (usage_step op w))"
  by (cases op)
    (auto simp: record_usage_def flush_usage_buffer_def Let_def split: option.splits prod.splits sum.splits bool.splits if_splits
      dest!: persist_books)

lemma history_books: "books_balance (uw_db w) \<Longrightarrow> books_balance (uw_db (fold usage_step ops w))"
  by (induction ops arbitrary: w) (simp_all add: step_books)

lemma tallies: "tally ro_requests (\<lambda>_. 1)" "tally ro_quota ul_quota" "tally ro_prompt_tokens ul_prompt_tokens"
  "tally ro_completion_tokens ul_completion_tokens" "tally ro_errors (\<lambda>d. if ul_status d = UsageSuccess then 0 else 1)"
  by (simp_all add: tally_def add_row_def empty_rollup_def)



subsection \<open>A drain loses no row\<close>

abbreviation usage_key :: string where
  "usage_key \<equiv> render KUsageBuffer"

definition queued :: "usage_world \<Rightarrow> rtext list" where
  "queued w = or_empty (list_at usage_key False (co_store (uw_co w)))"

text \<open>The buffer is a list without a time to live, or absent.\<close>

definition buffer_ok :: "rstore \<Rightarrow> bool" where
  "buffer_ok st \<longleftrightarrow> (case map_of st usage_key of None \<Rightarrow> True
     | Some e \<Rightarrow> en_expires e = None \<and> (\<exists>xs. en_value e = VList xs))"

lemma keys_differ: "usage_lock \<noteq> usage_key"
  by (simp add: usage_lock_def)

lemma shared_call_store:
  assumes "shared_call now f co = (r, co')"
  shows "r = None \<and> co_store co' = co_store co \<or> (\<exists>x. r = Some x \<and> f (co_store co) = (x, co_store co'))"
  using assms by (auto simp: shared_call_def Let_def mark_degraded_def mark_healthy_def split: option.splits prod.splits if_splits)

lemma live_buffer: "buffer_ok st \<Longrightarrow> live now usage_key st = st"
  by (auto simp: buffer_ok_def live_def entry_dead_def split: option.splits)

lemma claim_cmd_other: "k \<noteq> j \<Longrightarrow> map_of (snd (set_cmd now k v nx xx ex px st)) j = map_of st j"
  by (auto simp: set_cmd_def set_ttl_def Let_def split: option.splits)

lemma del_key_other: "k \<noteq> j \<Longrightarrow> map_of (snd (run_command now (Del [k]) st)) j = map_of st j"
  by (auto simp: delete_keys_def Let_def)

lemma get_other: "k \<noteq> j \<Longrightarrow> map_of (snd (run_command now (Get k) st)) j = map_of st j"
  by simp

lemma release_lock_other: "k \<noteq> j \<Longrightarrow> map_of (snd (run_state (execute_script now (ReleaseLock k own)) st)) j = map_of st j"
proof -
  assume kj: "k \<noteq> j"
  obtain held st1 where g: "run_command now (Get k) st = (held, st1)" by (cases "run_command now (Get k) st")
  obtain r2 st2 where d: "run_command now (Del [k]) st1 = (r2, st2)" by (cases "run_command now (Del [k]) st1")
  have s1: "map_of st1 j = map_of st j" using get_other [OF kj, of now st] g by simp
  have s2: "map_of st2 j = map_of st1 j" using del_key_other [OF kj, of now st1] d by simp
  have "snd (run_state (execute_script now (ReleaseLock k own)) st) \<in> {st1, st2}"
    by (simp add: release_lock_def redis_def g d del: run_command.simps)
  then show ?thesis using s1 s2 by auto
qed

text \<open>The acknowledgement trims the peeked prefix or leaves the buffer.\<close>

definition same_buffer :: "rstore \<Rightarrow> rstore \<Rightarrow> bool" where
  "same_buffer st st' \<longleftrightarrow> map_of st' usage_key = map_of st usage_key"

lemma ack_buffer:
  assumes "buffer_ok st" "run_state (execute_script now (AckUsage usage_key usage_lock own (int n))) st = (r, st')"
  shows "same_buffer st st' \<or>
    buffer_ok st' \<and> or_empty (list_at usage_key False st') = drop n (or_empty (list_at usage_key False st))"
proof -
  obtain held st1 where g: "run_command now (Get usage_lock) st = (held, st1)" by (cases "run_command now (Get usage_lock) st")
  then have s1: "map_of st1 usage_key = map_of st usage_key" using get_other [OF keys_differ, of now st] by simp
  show ?thesis
  proof (cases "held = RTxt (Lit own)")
    case False
    with g assms(2) s1 show ?thesis by (auto simp: ack_usage_def redis_def same_buffer_def)
  next
    case True
    have ok1: "buffer_ok st1" using assms(1) s1 by (simp add: buffer_ok_def)
    obtain r2 st2 where t: "run_command now (LTrim usage_key (int n) (- 1)) st1 = (r2, st2)" by (cases "run_command now (LTrim usage_key (int n) (- 1)) st1")
    have st': "st' = snd (run_command now (Del [usage_lock]) st2)"
      using assms(2) g True t by (auto simp: ack_usage_def redis_def split: prod.splits)
    have "map_of st' usage_key = map_of st2 usage_key" unfolding st' by (rule del_key_other [OF keys_differ])
    moreover have "buffer_ok st2 \<and> or_empty (list_at usage_key False st2) = drop n (or_empty (list_at usage_key False st1))"
      using t ok1 live_buffer [OF ok1, of now]
      by (auto simp: buffer_ok_def list_at_def or_empty_def range_slice_rest split: option.splits)
    moreover have "list_at usage_key False st1 = list_at usage_key False st" using s1 by (simp add: list_at_def)
    ultimately show ?thesis by (simp add: buffer_ok_def list_at_def)
  qed
qed

lemma range_slice_prefix: "0 \<le> k \<Longrightarrow> range_slice 0 k xs = take (nat (k + 1)) xs"
  by (auto simp: range_slice_def js_slice_def Let_def min_def)

lemma same_buffer_queued: "same_buffer (co_store (uw_co w)) (co_store (uw_co w')) \<Longrightarrow> queued w' = queued w \<and>
    buffer_ok (co_store (uw_co w')) = buffer_ok (co_store (uw_co w))"
  by (simp add: queued_def list_at_def buffer_ok_def same_buffer_def)

lemma release_buffer: "same_buffer (co_store co) (co_store (snd (run_script now (ReleaseLock usage_lock own) co)))"
proof -
  obtain r co' where c: "run_script now (ReleaseLock usage_lock own) co = (r, co')" by (cases "run_script now (ReleaseLock usage_lock own) co")
  from shared_call_store [OF c [unfolded run_script_def]] show ?thesis
    using release_lock_other [OF keys_differ, of "of_int now" own "co_store co"] c by (auto simp: same_buffer_def)
qed

lemma claim_buffer: "redis_set_nx now usage_lock own ttl co = (r, co') \<Longrightarrow> same_buffer (co_store co) (co_store co')"
proof -
  assume a: "redis_set_nx now usage_lock own ttl co = (r, co')"
  then obtain r1 where c: "shared_call now (run_command (of_int now) (SetC usage_lock (Lit own) True False (Some (of_int \<lceil>ttl\<rceil>)) None)) co = (r1, co')"
    by (auto simp: redis_set_nx_def redis_command_def split: prod.splits)
  from shared_call_store [OF c] show ?thesis
    using claim_cmd_other [OF keys_differ, of "of_int now" "Lit own" True False "Some (of_int \<lceil>ttl\<rceil>)" None "co_store co"]
    by (auto simp: same_buffer_def)
qed

lemma peek_buffer:
  assumes "buffer_ok (co_store co)" "redis_command now (LRange usage_key 0 k) co = (r, co')" "0 \<le> k"
  shows "co_store co' = co_store co"
    "r = Some reply \<Longrightarrow> reply = RTxts (map Some (take (nat (k + 1)) (or_empty (list_at usage_key False (co_store co)))))"
  using shared_call_store [OF assms(2) [unfolded redis_command_def]] live_buffer [OF assms(1), of "of_int now"] range_slice_prefix [OF assms(3)]
  by auto

lemma ack_call:
  assumes "buffer_ok (co_store co)" "run_script now (AckUsage usage_key usage_lock own (int n)) co = (r, co')"
  shows "same_buffer (co_store co) (co_store co') \<or>
    buffer_ok (co_store co') \<and> or_empty (list_at usage_key False (co_store co')) = drop n (or_empty (list_at usage_key False (co_store co)))"
  using shared_call_store [OF assms(2) [unfolded run_script_def]] ack_buffer [OF assms(1), of "of_int now" own n]
  by (auto simp: same_buffer_def)

lemma same_buffer_trans: "same_buffer a b \<Longrightarrow> same_buffer b c \<Longrightarrow> same_buffer a c"
  by (simp add: same_buffer_def)

lemma same_list: "same_buffer a b \<Longrightarrow> list_at usage_key c b = list_at usage_key c a"
  by (simp add: same_buffer_def list_at_def)

lemma same_buffer_refl [simp]: "same_buffer a a"
  by (simp add: same_buffer_def)

text \<open>What a drain can have done to the buffer and the database.\<close>

lemma flush_outcome:
  assumes "buffer_ok (co_store (uw_co w))" "flush_usage_buffer now later own limit w = (r, w')"
  shows "queued w' = queued w \<or>
    (\<exists>n. queued w' = drop n (queued w) \<and>
      (\<forall>t \<in> set (take n (queued w)). \<forall>d. row_of_text (Some t) = Some d \<longrightarrow> recorded d (uw_db w')))"
proof -
  let ?rel = "\<lambda>w. w\<lparr>uw_co := snd (run_script later (ReleaseLock usage_lock own) (uw_co w))\<rparr>"
  have rel: "queued (?rel v) = queued v" for v
    using same_buffer_queued [of v "?rel v"] release_buffer [of "uw_co v" later own] by simp
  obtain got co1 where c1: "redis_set_nx now usage_lock own 120 (uw_co w) = (got, co1)" by (cases "redis_set_nx now usage_lock own 120 (uw_co w)")
  let ?w1 = "w\<lparr>uw_co := co1\<rparr>"
  have q1: "queued ?w1 = queued w" and ok1: "buffer_ok (co_store co1)"
    using same_buffer_queued [of w ?w1] claim_buffer [OF c1] assms(1) by simp_all
  show ?thesis
  proof (cases "got = Some True")
    case False
    with c1 assms(2) q1 show ?thesis by (cases got) (auto simp: flush_usage_buffer_def Let_def)
  next
    case True
    let ?size = "max 1 (min limit 1000)"
    obtain peek co2 where c2: "redis_command now (LRange usage_key 0 (?size - 1)) co1 = (peek, co2)"
      by (cases "redis_command now (LRange usage_key 0 (?size - 1)) co1")
    have "0 \<le> ?size - 1" by simp
    note p = peek_buffer [OF ok1 c2 this]
    let ?w2 = "w\<lparr>uw_co := co2\<rparr>"
    have q2: "queued ?w2 = queued w" and ok2: "buffer_ok (co_store co2)" using q1 ok1 p(1) by (simp_all add: queued_def)
    show ?thesis
    proof (cases peek)
      case None
      with assms(2) c1 c2 True q2 rel [of ?w2] show ?thesis by (auto simp: flush_usage_buffer_def Let_def)
    next
      case (Some reply)
      let ?raw = "map Some (take (nat ?size) (queued w))"
      have reply: "reply = RTxts ?raw" using p(2) [OF Some] q1 by (simp add: queued_def)
      show ?thesis
      proof (cases "?raw = []")
        case True
        with assms(2) c1 c2 \<open>got = Some True\<close> Some reply q2 rel [of ?w2] show ?thesis
          by (auto simp: flush_usage_buffer_def Let_def)
      next
        case False
        obtain res w3 where c3: "persist later (List.map_filter row_of_text ?raw) ?w2 = (res, w3)"
          by (cases "persist later (List.map_filter row_of_text ?raw) ?w2")
        have co3: "uw_co w3 = co2" using persist_runs [OF c3] by auto
        have q3: "queued w3 = queued w" using q2 co3 by (simp add: queued_def)
        show ?thesis
        proof (cases res)
          case (Inl e)
          with assms(2) c1 c2 \<open>got = Some True\<close> Some reply False c3 q3 rel [of w3] show ?thesis
            by (auto simp: flush_usage_buffer_def Let_def)
        next
          case (Inr written)
          obtain ans co4 where c4: "run_script later (AckUsage usage_key usage_lock own (int (length ?raw))) co2 = (ans, co4)"
            by (cases "run_script later (AckUsage usage_key usage_lock own (int (length ?raw))) co2")
          let ?w4 = "w3\<lparr>uw_co := co4\<rparr>"
          have w': "w' = ?rel ?w4" using assms(2) c1 c2 \<open>got = Some True\<close> Some reply False c3 Inr c4 co3
            by (auto simp: flush_usage_buffer_def Let_def split: option.splits)
          have all: "recorded d (uw_db w')" if "t \<in> set (take (nat ?size) (queued w))" "row_of_text (Some t) = Some d" for t d
          proof -
            have "d \<in> set (List.map_filter row_of_text ?raw)" using that by (force simp: List.map_filter_def)
            with persist_records [OF c3 [unfolded Inr]] show ?thesis by (simp add: w')
          qed
          have "queued w' = queued ?w4" unfolding w' by (rule rel)
          moreover have "queued ?w4 = queued w \<or> queued ?w4 = drop (length ?raw) (queued w)"
            using ack_call [OF ok2 c4] same_list [of "co_store co2" "co_store co4"] q2 by (auto simp: queued_def)
          moreover have "drop (length ?raw) (queued w) = drop (nat ?size) (queued w)" by (simp add: min_def)
          ultimately show ?thesis using all by metis
        qed
      qed
    qed
  qed
qed

text \<open>A drain of the usage buffer loses no row, whatever call of the store or transaction of the database
  fails on the way and even when its lock ran out: every well-formed buffered row is afterwards
  still in the buffer or written to its month.\<close>
theorem drain_loses_no_row:
  assumes "buffer_ok (co_store (uw_co w))" "flush_usage_buffer now later own limit w = (r, w')"
    "t \<in> set (queued w)" "row_of_text (Some t) = Some d"
  shows "t \<in> set (queued w') \<or> recorded d (uw_db w')"
  using flush_outcome [OF assms(1,2)] assms(3,4) by (metis UnE append_take_drop_id set_append)

theorem drain_loses_no_row_witness:
  "let w = sample_usage_world [(''usagebuf'', \<lparr>en_value = VList [Doc (row_json sample_row)], en_expires = None\<rparr>)];
       w' = snd (flush_usage_buffer 5 6 ''o'' 500 w)
   in Doc (row_json sample_row) \<in> set (queued w') \<or> recorded sample_row (uw_db w')"
proof -
  let ?w = "sample_usage_world [(''usagebuf'', \<lparr>en_value = VList [Doc (row_json sample_row)], en_expires = None\<rparr>)]"
  have "buffer_ok (co_store (uw_co ?w))" by (simp add: buffer_ok_def sample_usage_world_def)
  moreover have "flush_usage_buffer 5 6 ''o'' 500 ?w = (fst (flush_usage_buffer 5 6 ''o'' 500 ?w), snd (flush_usage_buffer 5 6 ''o'' 500 ?w))"
    by simp
  moreover have "Doc (row_json sample_row) \<in> set (queued ?w)"
    by (simp add: queued_def list_at_def or_empty_def sample_usage_world_def)
  moreover have "row_of_text (Some (Doc (row_json sample_row))) = Some sample_row" by code_simp
  ultimately show ?thesis unfolding Let_def by (rule drain_loses_no_row)
qed

end
