(* ===== verification/Sse.thy ===== *)
theory Sse
  imports Errors Env
begin

text \<open>
  Server-sent events and line-delimited JSON, \<open>src/lib/transform/sse.ts\<close>: the serialiser, the
  incremental parser with its caps, the reader of a whole stream and the line parser. A parser is a
  state that each \<open>push\<close> takes and returns; a thrown error ends its use. Decoding bytes to text is
  the platform's, chunks are given as text.
\<close>

record sse_event =
  se_event :: "string option"
  se_data :: string
  se_id :: "string option"
  se_retry :: "int option"
  se_comment :: "string option"

text \<open>What \<open>formatSse\<close> is given: any field may be missing.\<close>

record sse_frame =
  sf_event :: "string option"
  sf_data :: "string option"
  sf_id :: "string option"
  sf_retry :: "jsnum option"
  sf_comment :: "string option"

definition sse_done_mark :: string where
  "sse_done_mark = ''[DONE]''"

abbreviation LF :: char where
  "LF \<equiv> CHR 10"

abbreviation CR :: char where
  "CR \<equiv> CHR 13"

definition line_break :: "char \<Rightarrow> bool" where
  "line_break c \<longleftrightarrow> c = CR \<or> c = LF"

subsection \<open>Serialising\<close>

text \<open>Every run of line breaks becomes one space.\<close>

fun one_line :: "string \<Rightarrow> string" where
  "one_line [] = []"
| "one_line (c # s) =
     (if line_break c then (if s \<noteq> [] \<and> line_break (hd s) then one_line s else CHR '' '' # one_line s)
      else c # one_line s)"

fun split_lines :: "string \<Rightarrow> string list" where
  "split_lines [] = [[]]"
| "split_lines (c # s) =
     (if c = CR then [] # split_lines (if s \<noteq> [] \<and> hd s = LF then tl s else s)
      else if c = LF then [] # split_lines s
      else (case split_lines s of l # ls \<Rightarrow> (c # l) # ls | [] \<Rightarrow> [[c]]))"

definition text_field :: "string \<Rightarrow> string option \<Rightarrow> string" where
  "text_field name v = (case v of Some s \<Rightarrow> if s \<noteq> [] then name @ '': '' @ one_line s @ [LF] else [] | None \<Rightarrow> [])"

definition format_sse :: "sse_frame \<Rightarrow> string" where
  "format_sse e =
     (case sf_comment e of Some c \<Rightarrow> '': '' @ one_line c @ [LF] | None \<Rightarrow> []) @
     text_field ''id'' (sf_id e) @
     text_field ''event'' (sf_event e) @
     (case sf_retry e of Some (JFin x) \<Rightarrow> ''retry: '' @ show_int (max 0 \<lfloor>x\<rfloor>) @ [LF] | _ \<Rightarrow> []) @
     (case sf_data e of Some d \<Rightarrow> concat (map (\<lambda>l. ''data: '' @ l @ [LF]) (split_lines d)) | None \<Rightarrow> []) @ [LF]"

definition data_frame :: "string \<Rightarrow> string option \<Rightarrow> sse_frame" where
  "data_frame d event = \<lparr>sf_event = event, sf_data = Some d, sf_id = None, sf_retry = None, sf_comment = None\<rparr>"

text \<open>\<open>json_text\<close> is \<open>JSON.stringify(value) ?? "null"\<close>.\<close>

definition sse_json :: "string \<Rightarrow> string option \<Rightarrow> string" where
  "sse_json json_text event_name = format_sse (data_frame json_text event_name)"

definition sse_done :: string where
  "sse_done = format_sse (data_frame sse_done_mark None)"

definition sse_ping :: "string \<Rightarrow> string" where
  "sse_ping msg = '': '' @ one_line msg @ [LF, LF]"

subsection \<open>Parsing\<close>

record sse_parser =
  sp_buffer :: string
  sp_data_lines :: "string list"
  sp_event :: "string option"
  sp_last_id :: "string option"
  sp_retry :: "int option"
  sp_pending :: bool
  sp_event_bytes :: nat

definition create_sse_parser :: sse_parser where
  "create_sse_parser = \<lparr>sp_buffer = [], sp_data_lines = [], sp_event = None, sp_last_id = None, sp_retry = None,
     sp_pending = False, sp_event_bytes = 0\<rparr>"

definition line_over :: "int \<Rightarrow> thrown" where
  "line_over mx = Gateway (payload_too_large (''upstream sent an SSE line over '' @ show_int mx @ '' bytes''))"

definition event_over :: "int \<Rightarrow> thrown" where
  "event_over mx = Gateway (payload_too_large (''upstream SSE event exceeded '' @ show_int mx @ '' bytes''))"

definition dispatch :: "sse_parser \<Rightarrow> sse_event list \<Rightarrow> sse_parser \<times> sse_event list" where
  "dispatch p out =
     (if \<not> sp_pending p then (p, out)
      else (p\<lparr>sp_event := None, sp_data_lines := [], sp_retry := None, sp_pending := False, sp_event_bytes := 0\<rparr>,
            out @ [\<lparr>se_event = sp_event p, se_data = join_with [LF] (sp_data_lines p), se_id = sp_last_id p,
                    se_retry = sp_retry p, se_comment = None\<rparr>]))"

definition drop_space :: "string \<Rightarrow> string" where
  "drop_space s = (if s \<noteq> [] \<and> hd s = CHR '' '' then tl s else s)"

definition set_field :: "int \<Rightarrow> string \<Rightarrow> string \<Rightarrow> sse_parser \<Rightarrow> thrown + sse_parser" where
  "set_field mx field value p =
     (if field = ''data'' then
        let n = sp_event_bytes p + utf8_len value + 1 in
        if int n > mx then Inl (event_over mx)
        else Inr (p\<lparr>sp_event_bytes := n, sp_data_lines := sp_data_lines p @ [value], sp_pending := True\<rparr>)
      else if field = ''event'' then Inr (p\<lparr>sp_event := Some value, sp_pending := True\<rparr>)
      else if field = ''id'' then
        Inr (p\<lparr>sp_last_id := (if CHR 0x00 \<notin> set value then Some value else sp_last_id p), sp_pending := True\<rparr>)
      else if field = ''retry'' then
        let n = number_of_string value in
        Inr (p\<lparr>sp_retry := (if js_is_integer n \<and> 0 \<le> js_to_int n then Some (js_to_int n) else sp_retry p), sp_pending := True\<rparr>)
      else Inr p)"

definition handle_line :: "int \<Rightarrow> string \<Rightarrow> sse_parser \<Rightarrow> sse_event list \<Rightarrow> thrown + sse_parser \<times> sse_event list" where
  "handle_line mx line p out =
     (if int (utf8_len line) > mx then Inl (line_over mx)
      else if line = [] then Inr (dispatch p out)
      else if hd line = CHR '':'' then
        Inr (p, out @ [\<lparr>se_event = None, se_data = [], se_id = None, se_retry = None, se_comment = Some (drop_space (tl line))\<rparr>])
      else
        let field = (case index_of CHR '':'' line of None \<Rightarrow> line | Some i \<Rightarrow> take i line);
            value = (case index_of CHR '':'' line of None \<Rightarrow> [] | Some i \<Rightarrow> drop_space (drop (i + 1) line))
        in (case set_field mx field value p of Inl e \<Rightarrow> Inl e | Inr p' \<Rightarrow> Inr (p', out)))"

text \<open>The first line of a buffer and what follows; a CR at the very end may be half a CRLF.\<close>

fun next_line :: "string \<Rightarrow> (string \<times> string) option" where
  "next_line [] = None"
| "next_line (c # s) =
     (if c = LF then Some ([], s)
      else if c = CR then
        (if s = [] then None else if hd s = LF then Some ([], tl s) else Some ([], s))
      else map_option (\<lambda>(l, r). (c # l, r)) (next_line s))"

lemma next_line_shorter: "next_line b = Some (l, r) \<Longrightarrow> length r < length b"
  by (induction b arbitrary: l) (auto split: if_splits)

function push_loop :: "int \<Rightarrow> string \<Rightarrow> sse_parser \<Rightarrow> sse_event list \<Rightarrow> thrown + string \<times> sse_parser \<times> sse_event list" where
  "push_loop mx buffer p out =
     (case next_line buffer of
        None \<Rightarrow> Inr (buffer, p, out)
      | Some (line, rest) \<Rightarrow>
          (case handle_line mx line p out of
             Inl e \<Rightarrow> Inl e
           | Inr (p', out') \<Rightarrow> push_loop mx rest p' out'))"
  by pat_completeness auto
termination
  by (relation "measure (\<lambda>(mx, buffer, p, out). length buffer)") (auto simp: next_line_shorter)

declare push_loop.simps [simp del]

definition strip_cr :: "string \<Rightarrow> string" where
  "strip_cr s = (if s \<noteq> [] \<and> last s = CR then butlast s else s)"

definition sse_push :: "int \<Rightarrow> string \<Rightarrow> sse_parser \<Rightarrow> thrown + sse_parser \<times> sse_event list" where
  "sse_push mx chunk p =
     (case push_loop mx (sp_buffer p @ chunk) p [] of
        Inl e \<Rightarrow> Inl e
      | Inr (rest, p', out) \<Rightarrow>
          if int (utf8_len (strip_cr rest)) > mx then Inl (line_over mx)
          else Inr (p'\<lparr>sp_buffer := rest\<rparr>, out))"

definition sse_flush :: "int \<Rightarrow> sse_parser \<Rightarrow> thrown + sse_parser \<times> sse_event list" where
  "sse_flush mx p =
     (if sp_buffer p = [] then Inr (dispatch p [])
      else (case handle_line mx (strip_cr (sp_buffer p)) (p\<lparr>sp_buffer := []\<rparr>) [] of
          Inl e \<Rightarrow> Inl e
        | Inr (p', out) \<Rightarrow> Inr (dispatch p' out)))"

text \<open>The limits are those of the configuration.\<close>

definition parse_sse_data :: "int \<Rightarrow> int \<Rightarrow> int \<Rightarrow> string \<Rightarrow> json option" where
  "parse_sse_data max_bytes max_depth max_nodes data =
     (let trimmed = js_trim data in
      if trimmed = [] \<or> trimmed = sse_done_mark then None
      else (case safe_json_parse max_bytes max_depth max_nodes trimmed of Inl e \<Rightarrow> None | Inr v \<Rightarrow> Some v))"

text \<open>A whole stream: the events handed over, and the error that ended it, if any.\<close>

fun event_stream :: "int \<Rightarrow> string list \<Rightarrow> sse_parser \<Rightarrow> sse_event list \<times> thrown option" where
  "event_stream mx [] p = (case sse_flush mx p of Inl e \<Rightarrow> ([], Some e) | Inr (p', es) \<Rightarrow> (es, None))"
| "event_stream mx (c # cs) p =
     (case sse_push mx c p of
        Inl e \<Rightarrow> ([], Some e)
      | Inr (p', es) \<Rightarrow> (case event_stream mx cs p' of (es', r) \<Rightarrow> (es @ es', r)))"

definition sse_event_stream :: "int \<Rightarrow> string list \<Rightarrow> sse_event list \<times> thrown option" where
  "sse_event_stream mx chunks = event_stream mx chunks create_sse_parser"

definition encode_sse_stream :: "(sse_frame + string) list \<Rightarrow> string" where
  "encode_sse_stream xs = concat (map (\<lambda>x. case x of Inl e \<Rightarrow> format_sse e | Inr s \<Rightarrow> s) xs)"

subsection \<open>Line-delimited JSON\<close>

definition ndjson_over :: "int \<Rightarrow> thrown" where
  "ndjson_over mx = Gateway (payload_too_large (''upstream sent a line over '' @ show_int mx @ '' bytes''))"

function ndjson_loop :: "int \<Rightarrow> string \<Rightarrow> string list \<Rightarrow> thrown + string \<times> string list" where
  "ndjson_loop mx buffer out =
     (case index_of LF buffer of
        None \<Rightarrow> Inr (buffer, out)
      | Some i \<Rightarrow>
          let line = js_trim (take i buffer) in
          if int (utf8_len line) > mx then Inl (ndjson_over mx)
          else ndjson_loop mx (drop (i + 1) buffer) (if line \<noteq> [] then out @ [line] else out))"
  by pat_completeness auto
termination
proof (relation "measure (\<lambda>(mx, buffer, out). length buffer)")
  fix mx buffer out i and line :: string
  assume "index_of LF buffer = Some i"
  then have "buffer \<noteq> []" by auto
  then show "((mx, drop (i + 1) buffer, if line \<noteq> [] then out @ [line] else out), mx, buffer, out)
      \<in> measure (\<lambda>(mx, buffer, out). length buffer)" by simp
qed simp

declare ndjson_loop.simps [simp del]

definition ndjson_push :: "int \<Rightarrow> string \<Rightarrow> string \<Rightarrow> thrown + string \<times> string list" where
  "ndjson_push mx chunk buffer =
     (case ndjson_loop mx (buffer @ chunk) [] of
        Inl e \<Rightarrow> Inl e
      | Inr (rest, out) \<Rightarrow> if int (utf8_len rest) > mx then Inl (ndjson_over mx) else Inr (rest, out))"

definition ndjson_flush :: "string \<Rightarrow> string list" where
  "ndjson_flush buffer = (let line = js_trim buffer in if line = [] then [] else [line])"

end
