(* ===== verification/SseLaws.thy ===== *)
theory SseLaws
  imports Sse
begin

text \<open>
  What the event framing guarantees: how a stream is cut into chunks is invisible, a parser never
  holds more than its cap, and a formatted frame is read back as exactly one event whatever its
  payload contains.
\<close>

subsection \<open>Chunks\<close>

text \<open>Prefixing the events that are already out, and the buffer field, commute with every step.\<close>

abbreviation buffered :: "string \<Rightarrow> sse_parser \<Rightarrow> sse_parser" where
  "buffered x p \<equiv> p\<lparr>sp_buffer := x\<rparr>"

definition shift :: "string \<Rightarrow> sse_event list \<Rightarrow> thrown + sse_parser \<times> sse_event list \<Rightarrow> thrown + sse_parser \<times> sse_event list" where
  "shift x pre r = (case r of Inl e \<Rightarrow> Inl e | Inr (p, out) \<Rightarrow> Inr (buffered x p, pre @ out))"

lemma dispatch_shift: "dispatch (buffered x p) (pre @ out) = (buffered x (fst (dispatch p out)), pre @ snd (dispatch p out))"
  by (simp add: dispatch_def)

lemma set_field_buffer:
  "set_field mx f v (buffered x p) = (case set_field mx f v p of Inl e \<Rightarrow> Inl e | Inr p' \<Rightarrow> Inr (buffered x p'))"
  by (simp add: set_field_def Let_def)

lemma handle_line_shift: "handle_line mx l (buffered x p) (pre @ out) = shift x pre (handle_line mx l p out)"
  by (auto simp: handle_line_def Let_def shift_def dispatch_shift set_field_buffer split: sum.splits prod.splits)

lemma push_loop_shift:
  "push_loop mx b (buffered x p) (pre @ out) =
    (case push_loop mx b p out of Inl e \<Rightarrow> Inl e | Inr (r, p', out') \<Rightarrow> Inr (r, buffered x p', pre @ out'))"
proof (induction mx b p out rule: push_loop.induct)
  case (1 mx b p out)
  show ?case
  proof (cases "next_line b")
    case None
    then show ?thesis by (subst (1 2) push_loop.simps) simp
  next
    case (Some lr)
    obtain l r where lr: "lr = (l, r)" by (cases lr)
    show ?thesis
    proof (cases "handle_line mx l p out")
      case (Inl e)
      then show ?thesis using Some lr by (subst (1 2) push_loop.simps) (simp add: handle_line_shift shift_def)
    next
      case (Inr po)
      obtain p' out' where po: "po = (p', out')" by (cases po)
      have ih: "push_loop mx r (buffered x p') (pre @ out') =
          (case push_loop mx r p' out' of Inl e \<Rightarrow> Inl e | Inr (r, p', out') \<Rightarrow> Inr (r, buffered x p', pre @ out'))"
        by (rule 1 [OF Some lr [symmetric] Inr po [symmetric]])
      show ?thesis using Some lr Inr po ih by (subst (1 2) push_loop.simps) (simp add: handle_line_shift shift_def)
    qed
  qed
qed

lemma next_line_append: "next_line a = Some (l, r) \<Longrightarrow> next_line (a @ b) = Some (l, r @ b)"
proof (induction a arbitrary: l)
  case (Cons c a)
  then show ?case by (cases a) (auto split: if_splits)
qed simp

lemma push_loop_append:
  "push_loop mx (a @ b) p out =
    (case push_loop mx a p out of Inl e \<Rightarrow> Inl e | Inr (r, p', out') \<Rightarrow> push_loop mx (r @ b) p' out')"
proof (induction mx a p out rule: push_loop.induct)
  case (1 mx a p out)
  show ?case
  proof (cases "next_line a")
    case None
    then show ?thesis by (subst (2) push_loop.simps) simp
  next
    case (Some lr)
    obtain l r where lr: "lr = (l, r)" by (cases lr)
    have ab: "next_line (a @ b) = Some (l, r @ b)" using Some lr by (simp add: next_line_append)
    show ?thesis
    proof (cases "handle_line mx l p out")
      case (Inr po)
      obtain p' out' where po: "po = (p', out')" by (cases po)
      show ?thesis using 1 [OF Some lr [symmetric] Inr po [symmetric]] Some lr Inr po ab by (subst (1 2) push_loop.simps) simp
    qed (use Some lr ab in \<open>subst (1 2) push_loop.simps, simp\<close>)
  qed
qed

lemma push_loop_rest: "push_loop mx b p out = Inr (r, p', out') \<Longrightarrow> next_line r = None"
proof (induction mx b p out rule: push_loop.induct)
  case (1 mx b p out)
  show ?case
  proof (cases "next_line b")
    case None
    with 1(2) show ?thesis by (subst (asm) push_loop.simps) simp
  next
    case (Some lr)
    obtain l s where lr: "lr = (l, s)" by (cases lr)
    with 1(2) Some obtain p1 out1 where h: "handle_line mx l p out = Inr (p1, out1)" and q: "push_loop mx s p1 out1 = Inr (r, p', out')"
      by (subst (asm) push_loop.simps) (auto split: sum.splits)
    show ?thesis by (rule 1(1) [OF Some lr [symmetric] h refl q])
  qed
qed

text \<open>What is held is the beginning of the line to come.\<close>

lemma utf8_len_append [simp]: "utf8_len (a @ b) = utf8_len a + utf8_len b"
  by (simp add: utf8_len_def)

lemma strip_cr_Cons [simp]: "s \<noteq> [] \<Longrightarrow> strip_cr (c # s) = c # strip_cr s"
  by (simp add: strip_cr_def)

lemma held_line_starts: "next_line r = None \<Longrightarrow> next_line (r @ b) = Some (l, rest) \<Longrightarrow> \<exists>t. l = strip_cr r @ t"
proof (induction r arbitrary: l)
  case Nil
  then show ?case by (simp add: strip_cr_def)
next
  case (Cons c r)
  show ?case
  proof (cases "c = CR")
    case True
    with Cons.prems(1) have "r = []" by (auto split: if_splits)
    with True show ?thesis by (simp add: strip_cr_def)
  next
    case False
    with Cons.prems(1) have c: "c \<noteq> LF" "next_line r = None" by (auto split: if_splits)
    with Cons.prems(2) False obtain l' where l': "next_line (r @ b) = Some (l', rest)" "l = c # l'" by auto
    from Cons.IH [OF c(2) this(1)] l'(2) False show ?thesis by (cases "r = []") (auto simp: strip_cr_def)
  qed
qed

lemma held_grows: "next_line r = None \<Longrightarrow> next_line (r @ b) = None \<Longrightarrow> \<exists>t. strip_cr (r @ b) = strip_cr r @ t"
proof (induction r)
  case Nil
  then show ?case by (simp add: strip_cr_def)
next
  case (Cons c r)
  show ?case
  proof (cases "c = CR")
    case True
    with Cons.prems have "r = []" "b = []" by (auto split: if_splits)
    with True show ?thesis by (simp add: strip_cr_def)
  next
    case False
    with Cons.prems have c: "c \<noteq> LF" "next_line r = None" "next_line (r @ b) = None" by (auto split: if_splits)
    from Cons.IH [OF c(2,3)] obtain t where t: "strip_cr (r @ b) = strip_cr r @ t" by blast
    show ?thesis
    proof (cases "r = []")
      case True
      with False show ?thesis by (cases "b = []") (auto simp: strip_cr_def)
    qed (use t in auto)
  qed
qed

lemma push_append:
  "sse_push mx (a @ b) p =
    (case sse_push mx a p of
       Inl e \<Rightarrow> Inl e
     | Inr (p1, e1) \<Rightarrow> (case sse_push mx b p1 of Inl e \<Rightarrow> Inl e | Inr (p2, e2) \<Rightarrow> Inr (p2, e1 @ e2)))"
proof (cases "push_loop mx (sp_buffer p @ a) p []")
  case (Inl e)
  then show ?thesis using push_loop_append [of mx "sp_buffer p @ a" b p "[]"] by (simp add: sse_push_def)
next
  case (Inr rpo)
  obtain r p' out where rpo: "rpo = (r, p', out)" by (cases rpo)
  have whole: "push_loop mx (sp_buffer p @ a @ b) p [] = push_loop mx (r @ b) p' out"
    using push_loop_append [of mx "sp_buffer p @ a" b p "[]"] Inr rpo by simp
  have rest: "next_line r = None" using push_loop_rest Inr rpo by blast
  show ?thesis
  proof (cases "int (utf8_len (strip_cr r)) > mx")
    case True
    have "sse_push mx (a @ b) p = Inl (line_over mx)"
    proof (cases "next_line (r @ b)")
      case None
      from held_grows [OF rest this] obtain t where "strip_cr (r @ b) = strip_cr r @ t" by blast
      then show ?thesis using None True whole by (subst (asm) (2) push_loop.simps) (simp add: sse_push_def)
    next
      case (Some lr)
      obtain l s where "lr = (l, s)" by (cases lr)
      with held_line_starts [OF rest] Some obtain t where "lr = (l, s)" "l = strip_cr r @ t" by blast
      then have "push_loop mx (r @ b) p' out = Inl (line_over mx)"
        using Some True by (subst push_loop.simps) (simp add: handle_line_def)
      with whole show ?thesis by (simp add: sse_push_def)
    qed
    with True Inr rpo show ?thesis by (simp add: sse_push_def)
  next
    case False
    let ?p1 = "buffered r p'"
    have one: "sse_push mx a p = Inr (?p1, out)" using False Inr rpo by (simp add: sse_push_def)
    have two: "push_loop mx (r @ b) ?p1 [] = (case push_loop mx (r @ b) p' [] of Inl e \<Rightarrow> Inl e
        | Inr (r2, p2, o2) \<Rightarrow> Inr (r2, buffered r p2, o2))"
      using push_loop_shift [of mx "r @ b" r p' "[]" "[]"] by (auto split: sum.splits)
    have three: "push_loop mx (r @ b) p' out = (case push_loop mx (r @ b) p' [] of Inl e \<Rightarrow> Inl e
        | Inr (r2, p2, o2) \<Rightarrow> Inr (r2, buffered (sp_buffer p') p2, out @ o2))"
      using push_loop_shift [of mx "r @ b" "sp_buffer p'" p' out "[]"] by (auto split: sum.splits)
    show ?thesis unfolding one using whole two three
      by (auto simp: sse_push_def split: sum.splits prod.splits)
  qed
qed

lemma push_nothing: "next_line (sp_buffer p) = None \<Longrightarrow> int (utf8_len (strip_cr (sp_buffer p))) \<le> mx \<Longrightarrow> sse_push mx [] p = Inr (p, [])"
  by (subst sse_push_def, subst push_loop.simps) simp

text \<open>A parser between two pushes: no whole line is left, and what is held is within the cap.\<close>

definition settled :: "int \<Rightarrow> sse_parser \<Rightarrow> bool" where
  "settled mx p \<longleftrightarrow> next_line (sp_buffer p) = None \<and> int (utf8_len (strip_cr (sp_buffer p))) \<le> mx"

lemma push_settled: "sse_push mx c p = Inr (p', es) \<Longrightarrow> settled mx p'"
  using push_loop_rest by (fastforce simp: sse_push_def settled_def split: sum.splits prod.splits if_splits)

lemma stream_concat:
  assumes "settled mx p"
  shows "snd (event_stream mx cs p) = snd (event_stream mx [concat cs] p) \<and>
    (snd (event_stream mx cs p) = None \<longrightarrow> event_stream mx cs p = event_stream mx [concat cs] p)"
  using assms
proof (induction cs arbitrary: p)
  case Nil
  then show ?case by (simp add: push_nothing settled_def split: prod.splits sum.splits)
next
  case (Cons c cs)
  show ?case
  proof (cases "sse_push mx c p")
    case (Inl e)
    then show ?thesis by (simp add: push_append)
  next
    case (Inr pe)
    obtain p1 e1 where pe: "pe = (p1, e1)" by (cases pe)
    from push_settled Inr pe have "settled mx p1" by blast
    from Cons.IH [OF this] show ?thesis using Inr pe
      by (auto simp: push_append split: sum.splits prod.splits)
  qed
qed

lemma same_end:
  "snd a = snd c \<and> (snd a = None \<longrightarrow> a = c) \<Longrightarrow> snd b = snd c \<and> (snd b = None \<longrightarrow> b = c) \<Longrightarrow>
    snd a = snd b \<and> (snd a = None \<longrightarrow> a = b)"
  by metis

text \<open>How an upstream's bytes are cut into chunks is invisible: two ways of cutting the same text end with the
  same error or both without one, and in the latter case hand over the same events in the same
  order.\<close>
theorem chunking_is_invisible:
  assumes "concat cs = concat ds" "0 \<le> mx"
  shows "snd (sse_event_stream mx cs) = snd (sse_event_stream mx ds) \<and>
    (snd (sse_event_stream mx cs) = None \<longrightarrow> sse_event_stream mx cs = sse_event_stream mx ds)"
proof -
  have "settled mx create_sse_parser" using assms(2) by (simp add: settled_def create_sse_parser_def strip_cr_def utf8_len_def)
  note s = stream_concat [OF this]
  show ?thesis unfolding sse_event_stream_def by (rule same_end [OF s [of cs] s [of ds, folded assms(1)]])
qed

theorem chunking_is_invisible_witness:
  "snd (sse_event_stream 64 [''data: a'', [CR], [LF, LF]]) = snd (sse_event_stream 64 [''data: a'' @ [CR, LF], [LF]])"
  by (rule chunking_is_invisible [of "[''data: a'', [CR], [LF, LF]]" "[''data: a'' @ [CR, LF], [LF]]" 64, THEN conjunct1]) simp_all

subsection \<open>Frames\<close>

definition unbroken :: "string \<Rightarrow> bool" where
  "unbroken s \<longleftrightarrow> (\<forall>c \<in> set s. \<not> line_break c)"

lemma unbroken_Cons [simp]: "unbroken (c # s) \<longleftrightarrow> \<not> line_break c \<and> unbroken s"
  by (simp add: unbroken_def)

lemma unbroken_Nil [simp]: "unbroken []"
  by (simp add: unbroken_def)

lemma one_line_unbroken: "unbroken (one_line s)"
  by (induction s rule: one_line.induct) (auto simp: line_break_def)

lemma split_lines_unbroken: "list_all unbroken (split_lines s)"
  by (induction s rule: split_lines.induct) (auto simp: line_break_def split: list.splits)

lemma split_lines_nonempty: "split_lines s \<noteq> []"
  by (induction s rule: split_lines.induct) (auto split: list.splits)

lemma next_line_unbroken: "unbroken l \<Longrightarrow> next_line (l @ LF # rest) = Some (l, rest)"
  by (induction l) (auto simp: line_break_def)

lemma push_loop_line:
  "unbroken l \<Longrightarrow> push_loop mx (l @ LF # rest) p out =
    (case handle_line mx l p out of Inl e \<Rightarrow> Inl e | Inr (p', out') \<Rightarrow> push_loop mx rest p' out')"
  by (subst push_loop.simps) (simp add: next_line_unbroken)

abbreviation data_line :: "string \<Rightarrow> string" where
  "data_line l \<equiv> ''data: '' @ l @ [LF]"

lemma handle_data_line:
  assumes "int (utf8_len (data_line l)) \<le> mx" "int (sp_event_bytes p + utf8_len l + 1) \<le> mx"
  shows "handle_line mx (''data: '' @ l) p out = Inr (p\<lparr>sp_event_bytes := sp_event_bytes p + utf8_len l + 1,
    sp_data_lines := sp_data_lines p @ [l], sp_pending := True\<rparr>, out)"
  using assms by (simp add: handle_line_def set_field_def drop_space_def utf8_len_def)

definition with_lines :: "string list \<Rightarrow> sse_parser \<Rightarrow> sse_parser" where
  "with_lines ls p = p\<lparr>sp_event_bytes := sp_event_bytes p + sum_list (map (\<lambda>l. utf8_len l + 1) ls),
    sp_data_lines := sp_data_lines p @ ls, sp_pending := (sp_pending p \<or> ls \<noteq> [])\<rparr>"

lemma push_data_lines:
  assumes "list_all unbroken ls" "int (sp_event_bytes p + utf8_len (concat (map data_line ls))) \<le> mx"
  shows "push_loop mx (concat (map data_line ls) @ rest) p out = push_loop mx rest (with_lines ls p) out"
  using assms
proof (induction ls arbitrary: p)
  case Nil
  then show ?case by (simp add: with_lines_def)
next
  case (Cons l ls)
  let ?p = "p\<lparr>sp_event_bytes := sp_event_bytes p + utf8_len l + 1, sp_data_lines := sp_data_lines p @ [l], sp_pending := True\<rparr>"
  from Cons.prems have l: "unbroken (''data: '' @ l)" by (simp add: line_break_def)
  from Cons.prems have h: "handle_line mx (''data: '' @ l) p out = Inr (?p, out)"
    by (intro handle_data_line) (simp_all add: utf8_len_def)
  from Cons.prems have "push_loop mx (concat (map data_line ls) @ rest) ?p out = push_loop mx rest (with_lines ls ?p) out"
    by (intro Cons.IH) (simp_all add: utf8_len_def)
  moreover have "with_lines ls ?p = with_lines (l # ls) p" by (simp add: with_lines_def)
  ultimately show ?case using push_loop_line [OF l, of mx "concat (map data_line ls) @ rest" p out] h by simp
qed

text \<open>A parser that is between two events and holds no text.\<close>

definition idle :: "sse_parser \<Rightarrow> bool" where
  "idle p \<longleftrightarrow> p = create_sse_parser\<lparr>sp_last_id := sp_last_id p\<rparr>"

definition frame_event :: "string option \<Rightarrow> string \<times> string option \<Rightarrow> sse_event" where
  "frame_event last_id x = \<lparr>se_event = (case snd x of Some n \<Rightarrow> if n \<noteq> [] then Some (one_line n) else None | None \<Rightarrow> None),
     se_data = join_with [LF] (split_lines (fst x)), se_id = last_id, se_retry = None, se_comment = None\<rparr>"

lemma push_frame:
  assumes "idle p" "int (utf8_len (format_sse (data_frame d n))) \<le> mx"
  shows "push_loop mx (format_sse (data_frame d n) @ rest) p out = push_loop mx rest p (out @ [frame_event (sp_last_id p) (d, n)])"
proof -
  let ?ls = "split_lines d"
  let ?text = "concat (map data_line ?ls)"
  let ?named = "p\<lparr>sp_event := se_event (frame_event (sp_last_id p) (d, n)), sp_pending := (case n of Some x \<Rightarrow> x \<noteq> [] | None \<Rightarrow> False)\<rparr>"
  have e: "sp_event_bytes p = 0" "sp_data_lines p = []" "\<not> sp_pending p" "sp_event p = None" "sp_retry p = None"
    by (subst assms(1) [unfolded idle_def create_sse_parser_def], simp)+
  have fmt: "format_sse (data_frame d n) = text_field ''event'' n @ ?text @ [LF]"
    by (simp add: format_sse_def data_frame_def text_field_def)
  have size: "int (utf8_len (text_field ''event'' n)) \<le> mx" "int (sp_event_bytes ?named + utf8_len ?text) \<le> mx" "0 \<le> mx"
    using assms(2) e unfolding fmt by simp_all
  have name: "push_loop mx (text_field ''event'' n @ x) p out = push_loop mx x ?named out" for x
  proof (cases "n = None \<or> n = Some []")
    case True
    then have "?named = p" using e by (auto simp: frame_event_def)
    then show ?thesis using True by (auto simp: text_field_def)
  next
    case False
    then obtain y where y: "n = Some y" "y \<noteq> []" by auto
    have u: "unbroken (''event: '' @ one_line y)" by (simp add: line_break_def one_line_unbroken)
    have "handle_line mx (''event: '' @ one_line y) p out = Inr (?named, out)"
      using size(1) y by (simp add: handle_line_def set_field_def drop_space_def text_field_def frame_event_def utf8_len_def)
    then show ?thesis using push_loop_line [OF u, of mx x p out] y by (simp add: text_field_def)
  qed
  have blank: "handle_line mx [] (with_lines ?ls ?named) out = Inr (p, out @ [frame_event (sp_last_id p) (d, n)])"
    using size(3) e split_lines_nonempty [of d]
    by (simp add: handle_line_def dispatch_def with_lines_def frame_event_def utf8_len_def)
  have "push_loop mx (format_sse (data_frame d n) @ rest) p out = push_loop mx (?text @ LF # rest) ?named out"
    unfolding fmt using name [of "?text @ LF # rest"] by simp
  also have "\<dots> = push_loop mx ([] @ LF # rest) (with_lines ?ls ?named) out"
    unfolding append_Nil by (rule push_data_lines [OF split_lines_unbroken size(2)])
  also have "\<dots> = push_loop mx rest p (out @ [frame_event (sp_last_id p) (d, n)])"
    by (subst push_loop_line) (simp_all only: unbroken_Nil blank sum.case prod.case)
  finally show ?thesis .
qed

lemma push_frames:
  assumes "idle p" "list_all (\<lambda>(d, n). int (utf8_len (format_sse (data_frame d n))) \<le> mx) fs"
  shows "push_loop mx (concat (map (\<lambda>(d, n). format_sse (data_frame d n)) fs)) p out =
    Inr ([], p, out @ map (frame_event (sp_last_id p)) fs)"
  using assms(2)
proof (induction fs arbitrary: out)
  case Nil
  then show ?case by (subst push_loop.simps) simp
next
  case (Cons f fs)
  obtain d n where f: "f = (d, n)" by (cases f)
  with Cons.prems have "int (utf8_len (format_sse (data_frame d n))) \<le> mx" by simp
  from push_frame [OF assms(1) this] Cons show ?case by (simp add: f)
qed

lemma frames_read:
  assumes "concat cs = concat (map (\<lambda>(d, n). format_sse (data_frame d n)) fs)"
    "list_all (\<lambda>(d, n). int (utf8_len (format_sse (data_frame d n))) \<le> mx) fs" "0 \<le> mx"
  shows "sse_event_stream mx cs = (map (frame_event None) fs, None)"
proof -
  have idle: "idle create_sse_parser" by (simp add: idle_def)
  have start: "settled mx create_sse_parser" using assms(3) by (simp add: settled_def create_sse_parser_def strip_cr_def utf8_len_def)
  have one: "event_stream mx [concat cs] create_sse_parser = (map (frame_event None) fs, None)"
    using push_frames [OF idle assms(2), of "[]"] assms(3)
    by (simp add: assms(1) sse_push_def sse_flush_def dispatch_def create_sse_parser_def strip_cr_def utf8_len_def)
  with stream_concat [OF start, of cs] show ?thesis by (simp add: sse_event_stream_def)
qed

text \<open>No payload can forge a frame. Whatever the data and the event names contain, line breaks and
  blank lines included, and however the bytes are cut into chunks on the way, the frames the gateway
  writes are read back as exactly one event each, in order: the data with its line breaks
  normalised, the name with its line breaks flattened.\<close>
theorem frames_are_read_back:
  assumes "concat cs = concat (map (\<lambda>(d, n). format_sse (data_frame d n)) fs)"
    "list_all (\<lambda>(d, n). int (utf8_len (format_sse (data_frame d n))) \<le> mx) fs" "0 \<le> mx"
  shows "sse_event_stream mx cs = (map (frame_event None) fs, None)"
  by (rule frames_read [OF assms])

theorem frames_are_read_back_witness:
  "sse_event_stream 100 [''data: a'', LF # ''data: '', [LF] @ ''data: data: x'' @ [LF, LF]] =
    (map (frame_event None) [(''a'' @ [LF, LF] @ ''data: x'', None)], None)"
  by (rule frames_are_read_back) (simp_all add: format_sse_def data_frame_def text_field_def utf8_len_def)

end
