(* ===== verification/JsonPrint.thy ===== *)
theory JsonPrint
  imports JsonText
begin

text \<open>
  \<open>JSON.stringify\<close> of a JSON value, as the gateway uses it on bodies, chunks and tool arguments,
  and the fact the framing rests on: the reader gives back what was printed. A number is printed as
  JavaScript prints it: plain digits below \<open>10 ^ 21\<close>, an exponent beyond and under one millionth.
  A fraction without a finite expansion is cut after 24 digits.
\<close>

fun frac_text :: "nat \<Rightarrow> rat \<Rightarrow> string" where
  "frac_text n x =
     (if n = 0 \<or> x = 0 then []
      else char_of (48 + nat \<lfloor>10 * x\<rfloor>) # frac_text (n - 1) (10 * x - of_int \<lfloor>10 * x\<rfloor>))"

declare frac_text.simps [simp del]

definition plain_text :: "rat \<Rightarrow> string" where
  "plain_text x =
     (let i = \<lfloor>x\<rfloor>; f = x - of_int i in show_int i @ (if f = 0 then [] else CHR ''.'' # frac_text 24 f))"

fun scale_up :: "nat \<Rightarrow> nat \<Rightarrow> rat \<Rightarrow> nat" where
  "scale_up fuel e x = (if fuel = 0 \<or> 1 \<le> x then e else scale_up (fuel - 1) (e + 1) (10 * x))"

fun scale_down :: "nat \<Rightarrow> nat \<Rightarrow> rat \<Rightarrow> nat" where
  "scale_down fuel e x = (if fuel = 0 \<or> x < 10 then e else scale_down (fuel - 1) (e + 1) (x / 10))"

declare scale_up.simps [simp del] scale_down.simps [simp del]

definition magnitude_text :: "rat \<Rightarrow> string" where
  "magnitude_text x =
     (if x \<ge> 10 ^ 21 then
        (let e = scale_down 400 0 x in plain_text (x / 10 ^ e) @ ''e+'' @ show_nat e)
      else if 0 < x \<and> x < 1 / 10 ^ 6 then
        (let e = scale_up 400 0 x in plain_text (x * 10 ^ e) @ ''e-'' @ show_nat e)
      else plain_text x)"

fun number_text :: "jsnum \<Rightarrow> string" where
  "number_text (JFin x) = (if x < 0 then CHR ''-'' # magnitude_text (- x) else magnitude_text x)"
| "number_text JNaN = ''NaN''"
| "number_text JPosInf = ''Infinity''"
| "number_text JNegInf = ''-Infinity''"

definition hex_digit :: "nat \<Rightarrow> char" where
  "hex_digit n = char_of (if n < 10 then 48 + n else 87 + n)"

definition escape_char :: "char \<Rightarrow> string" where
  "escape_char c =
     (let n = of_char c :: nat in
      if n = 34 then [CHR 92, CHR 34]
      else if n = 92 then [CHR 92, CHR 92]
      else if n = 8 then [CHR 92, CHR ''b'']
      else if n = 9 then [CHR 92, CHR ''t'']
      else if n = 10 then [CHR 92, CHR ''n'']
      else if n = 12 then [CHR 92, CHR ''f'']
      else if n = 13 then [CHR 92, CHR ''r'']
      else if n < 32 then [CHR 92, CHR ''u'', CHR ''0'', CHR ''0'', hex_digit (n div 16), hex_digit (n mod 16)]
      else [c])"

definition json_quote :: "string \<Rightarrow> string" where
  "json_quote s = CHR 34 # concat (map escape_char s) @ [CHR 34]"

fun json_stringify :: "json \<Rightarrow> string" where
  "json_stringify JNull = ''null''"
| "json_stringify (JBool b) = (if b then ''true'' else ''false'')"
| "json_stringify (JNum n) = (if js_finite n then number_text n else ''null'')"
| "json_stringify (JStr s) = json_quote s"
| "json_stringify (JArr xs) = ''['' @ join_with '','' (map json_stringify xs) @ '']''"
| "json_stringify (JObj ms) =
     ''{'' @ join_with '','' (map (\<lambda>m. json_quote (fst m) @ '':'' @ json_stringify (snd m)) ms) @ ''}''"

subsection \<open>Reading back\<close>

text \<open>The values whose numbers are integers below \<open>10 ^ 21\<close> and whose keys are distinct.\<close>

fun printable :: "json \<Rightarrow> bool" where
  "printable (JNum n) = (case n of JFin x \<Rightarrow> x = of_int \<lfloor>x\<rfloor> \<and> \<bar>x\<bar> < 10 ^ 21 | _ \<Rightarrow> False)"
| "printable (JArr xs) = list_all printable xs"
| "printable (JObj ms) = (distinct (map fst ms) \<and> list_all (\<lambda>m. printable (snd m)) ms)"
| "printable _ = True"

lemma hex_digit_back: "n < 16 \<Longrightarrow> is_hex (hex_digit n) \<and> hex_val (hex_digit n) = n"
  by (auto simp: hex_digit_def is_hex_def hex_val_def Let_def)

lemma hex_pair: "n < 256 \<Longrightarrow>
    list_all is_hex [CHR ''0'', CHR ''0'', hex_digit (n div 16), hex_digit (n mod 16)] \<and>
    hex_digits_val [CHR ''0'', CHR ''0'', hex_digit (n div 16), hex_digit (n mod 16)] = n"
  using hex_digit_back [of "n div 16"] hex_digit_back [of "n mod 16"]
  by (auto simp: hex_digits_val_def is_hex_def hex_val_def [of "CHR ''0''"])

lemma char_code: "(of_char c :: nat) = of_char d \<longleftrightarrow> c = d"
  by simp

lemmas char_codes = char_code [of _ "CHR 34", simplified] char_code [of _ "CHR 92", simplified]
  char_code [of _ "CHR 8", simplified] char_code [of _ "CHR 9", simplified] char_code [of _ "CHR 10", simplified]
  char_code [of _ "CHR 12", simplified] char_code [of _ "CHR 13", simplified]

lemma json_chars_unicode:
  "list_all is_hex [a, b, d, e] \<Longrightarrow> hex_digits_val [a, b, d, e] = n \<Longrightarrow> n < 256 \<Longrightarrow> c = char_of n \<Longrightarrow>
   json_chars ([CHR 92, CHR ''u'', a, b, d, e] @ r) = map_option (\<lambda>(t, u). (c # t, u)) (json_chars r)"
  by (subst append_Cons, subst json_chars.simps(2)) (simp add: Let_def)

lemma json_chars_escape: "json_chars (escape_char c @ r) = map_option (\<lambda>(t, u). (c # t, u)) (json_chars r)"
proof -
  let ?n = "of_char c :: nat"
  have n: "?n < 256" by simp
  show ?thesis
  proof (cases "c \<in> {CHR 34, CHR 92, CHR 8, CHR 9, CHR 10, CHR 12, CHR 13}")
    case True
    then show ?thesis by (elim insertE emptyE) (simp_all add: escape_char_def)
  next
    case False
    then have c: "c \<noteq> CHR 34" "c \<noteq> CHR 92" "c \<noteq> CHR 8" "c \<noteq> CHR 9" "c \<noteq> CHR 10" "c \<noteq> CHR 12" "c \<noteq> CHR 13"
      by simp_all
    show ?thesis
    proof (cases "?n < 32")
      case True
      with c have e: "escape_char c =
          [CHR 92, CHR ''u'', CHR ''0'', CHR ''0'', hex_digit (?n div 16), hex_digit (?n mod 16)]"
        by (simp add: escape_char_def Let_def char_codes)
      from hex_pair [OF n] show ?thesis unfolding e by (intro json_chars_unicode [OF _ _ n char_of_char [symmetric]]) simp_all
    next
      case False
      with c have "escape_char c = [c]" by (simp add: escape_char_def Let_def char_codes)
      with c False show ?thesis by simp
    qed
  qed
qed

lemma json_chars_quoted: "json_chars (concat (map escape_char s) @ CHR 34 # r) = Some (s, r)"
  by (induction s) (simp_all add: json_chars_escape)

lemma json_ws_id: "s \<noteq> [] \<Longrightarrow> hd s \<notin> {CHR '' '', CHR 9, CHR 10, CHR 13} \<Longrightarrow> json_ws s = s"
  by (cases s) (auto simp: json_ws_def)

text \<open>What may follow a value without being read as part of it.\<close>

definition boundary :: "string \<Rightarrow> bool" where
  "boundary r \<longleftrightarrow> r = [] \<or> \<not> number_char (hd r)"

lemma number_text_int: "x = of_int \<lfloor>x\<rfloor> \<Longrightarrow> \<bar>x\<bar> < 10 ^ 21 \<Longrightarrow> number_text (JFin x) = show_int \<lfloor>x\<rfloor>"
proof -
  assume x: "x = of_int \<lfloor>x\<rfloor>" and b: "\<bar>x\<bar> < 10 ^ 21"
  obtain i where i: "x = of_int i" using x by blast
  have small: "\<not> (0 < (of_int j :: rat) \<and> (of_int j :: rat) < 1 / 10 ^ 6)" for j :: int
  proof (cases "j \<le> 0")
    case False
    then have "(1 :: rat) \<le> of_int j" by simp
    then show ?thesis by simp
  qed simp
  have plain: "\<bar>of_int j :: rat\<bar> < 10 ^ 21 \<Longrightarrow> magnitude_text (of_int j) = show_int j" for j :: int
    using small [of j] by (auto simp: magnitude_text_def plain_text_def)
  show ?thesis
  proof (cases "i < 0")
    case True
    have "magnitude_text (of_int (- i)) = show_int (- i)" using b i True by (intro plain) simp
    then show ?thesis using True i by (simp add: show_int_def)
  next
    case False
    have "magnitude_text (of_int i) = show_int i" using b i by (intro plain) simp
    then show ?thesis using False i by simp
  qed
qed

lemma show_nat_canonical: "length (show_nat n) = 1 \<or> hd (show_nat n) \<noteq> CHR ''0''"
proof (induction n rule: show_nat.induct)
  case (1 n)
  show ?case
  proof (cases "n < 10")
    case False
    then have ih: "length (show_nat (n div 10)) = 1 \<or> hd (show_nat (n div 10)) \<noteq> CHR ''0''" by (rule 1)
    have "hd (show_nat (n div 10)) \<noteq> CHR ''0''"
    proof
      assume z: "hd (show_nat (n div 10)) = CHR ''0''"
      with ih have "length (show_nat (n div 10)) = 1" by blast
      with z have "show_nat (n div 10) = [CHR ''0'']" by (cases "show_nat (n div 10)") auto
      then have "digits_val (show_nat (n div 10)) = 0" by (simp add: digits_val_def)
      with False show False by simp
    qed
    with False show ?thesis by (subst (2) show_nat.simps) simp
  qed (simp add: show_nat.simps)
qed

lemma show_nat_number_chars: "list_all number_char (show_nat n)"
  using show_nat_digits by (auto simp: list_all_iff number_char_def)

lemma all_digits_split: "list_all is_digit s \<Longrightarrow> takeWhile is_digit s = s \<and> dropWhile is_digit s = []"
  by (induction s) auto

lemma show_nat_all_digits: "list_all is_digit (show_nat n)"
  using show_nat_digits by (auto simp: list_all_iff)

lemma show_nat_split:
  "takeWhile is_digit (show_nat n) = show_nat n" "dropWhile is_digit (show_nat n) = []"
  using all_digits_split [OF show_nat_all_digits [of n]] by blast+

lemma json_number_ok_show: "json_number_ok (show_int i)"
proof (cases "i < 0")
  case True
  then show ?thesis
    by (simp add: json_number_ok_def show_int_def exp_part_def show_nat_split show_nat_canonical [simplified])
next
  case False
  have "\<not> starts_with ''-'' (show_nat (nat i))"
    using show_nat_digits by (intro starts_with_first_digit) (auto simp: is_digit_def)
  with False show ?thesis
    by (simp add: json_number_ok_def show_int_def exp_part_def show_nat_split show_nat_canonical [simplified])
qed

lemma take_drop_boundary:
  "list_all number_char s \<Longrightarrow> boundary r \<Longrightarrow> takeWhile number_char (s @ r) = s \<and> dropWhile number_char (s @ r) = r"
  by (induction s) (cases r, auto simp: boundary_def)

lemma json_num_show: "boundary r \<Longrightarrow> json_num (show_int i @ r) = Some (JNum (js_int i), r)"
proof -
  assume r: "boundary r"
  have "list_all number_char (show_int i)"
    using show_nat_number_chars by (auto simp: show_int_def number_char_def)
  from take_drop_boundary [OF this r] show ?thesis
    by (simp add: json_num_def json_number_ok_show)
qed

definition starts_value :: "string \<Rightarrow> bool" where
  "starts_value s \<longleftrightarrow> s \<noteq> [] \<and> hd s \<notin> {CHR '' '', CHR 9, CHR 10, CHR 13, CHR '']'', CHR ''}''}"

lemma starts_value_append: "starts_value s \<Longrightarrow> starts_value (s @ r)"
  by (simp add: starts_value_def)

lemma starts_value_ws: "starts_value s \<Longrightarrow> json_ws s = s"
  by (intro json_ws_id) (auto simp: starts_value_def)

lemma show_int_head: "\<exists>c cs. show_int i = c # cs \<and> (c = CHR ''-'' \<or> is_digit c)"
proof (cases "i < 0")
  case False
  then show ?thesis using show_nat_digits [of "hd (show_nat (nat i))" "nat i"]
    by (cases "show_nat (nat i)") (auto simp: show_int_def)
qed (simp add: show_int_def)

lemma stringify_int: "printable (JNum n) \<Longrightarrow> \<exists>i. n = js_int i \<and> json_stringify (JNum n) = show_int i"
  by (cases n) (auto simp: number_text_int simp del: number_text.simps)

lemma stringify_starts: "printable v \<Longrightarrow> starts_value (json_stringify v)"
proof (cases v)
  case (JNum n)
  assume "printable v"
  with JNum obtain i where "json_stringify v = show_int i" using stringify_int by blast
  with show_int_head [of i] show ?thesis by (auto simp: starts_value_def is_digit_def)
qed (simp_all add: starts_value_def json_quote_def)

lemma boundary_Cons: "c \<in> {CHR '','', CHR '']'', CHR ''}''} \<Longrightarrow> boundary (c # r)"
  by (auto simp: boundary_def number_char_def is_digit_def)

definition reads_back :: "json \<Rightarrow> bool" where
  "reads_back v \<longleftrightarrow> (\<forall>n r. boundary r \<longrightarrow> length (json_stringify v) \<le> n \<longrightarrow>
     json_value (Suc n) (json_stringify v @ r) = Some (v, r))"

lemma reads_backD:
  "reads_back v \<Longrightarrow> boundary r \<Longrightarrow> length (json_stringify v) < n \<Longrightarrow> json_value n (json_stringify v @ r) = Some (v, r)"
  by (cases n) (auto simp: reads_back_def)

lemma json_ws_sep [simp]: "json_ws (CHR '','' # r) = CHR '','' # r" "json_ws (CHR '']'' # r) = CHR '']'' # r"
  "json_ws (CHR ''}'' # r) = CHR ''}'' # r" "json_ws (CHR '':'' # r) = CHR '':'' # r" "json_ws (CHR 34 # r) = CHR 34 # r"
  by (simp_all add: json_ws_def)

lemma join_Cons: "join_with sep (x # xs) = x @ (if xs = [] then [] else sep @ join_with sep xs)"
  by (cases xs) auto

lemma elems_back:
  "vs \<noteq> [] \<Longrightarrow> list_all reads_back vs \<Longrightarrow> length (join_with '','' (map json_stringify vs)) + 1 < n \<Longrightarrow>
   json_elems n acc (join_with '','' (map json_stringify vs) @ CHR '']'' # r) = Some (JArr (acc @ vs), r)"
proof (induction vs arbitrary: acc n)
  case (Cons v vs)
  obtain m where n: "n = Suc m" using Cons.prems(3) by (cases n) auto
  let ?rest = "(if vs = [] then [] else '','' @ join_with '','' (map json_stringify vs)) @ CHR '']'' # r"
  have tx: "join_with '','' (map json_stringify (v # vs)) @ CHR '']'' # r = json_stringify v @ ?rest"
    by (simp add: join_Cons del: join_with.simps)
  have "json_value m (json_stringify v @ ?rest) = Some (v, ?rest)"
    using Cons.prems n by (intro reads_backD) (auto simp: join_Cons boundary_Cons simp del: join_with.simps)
  then have step: "json_elems n acc (json_stringify v @ ?rest) =
      (if vs = [] then Some (JArr (acc @ [v]), r)
       else json_elems m (acc @ [v]) (join_with '','' (map json_stringify vs) @ CHR '']'' # r))"
    by (simp add: n Let_def)
  show ?case
  proof (cases "vs = []")
    case True
    then show ?thesis unfolding tx step by simp
  next
    case False
    have "json_elems m (acc @ [v]) (join_with '','' (map json_stringify vs) @ CHR '']'' # r) = Some (JArr ((acc @ [v]) @ vs), r)"
      using Cons.prems n False by (intro Cons.IH) (auto simp: join_Cons simp del: join_with.simps)
    with False show ?thesis unfolding tx step by simp
  qed
qed simp

lemma put_field_new: "k \<notin> fst ` set ms \<Longrightarrow> put_field k v ms = ms @ [(k, v)]"
  by (induction ms) auto

abbreviation member_text :: "string \<times> json \<Rightarrow> string" where
  "member_text m \<equiv> json_quote (fst m) @ CHR '':'' # json_stringify (snd m)"

lemma members_back:
  "ms \<noteq> [] \<Longrightarrow> list_all (\<lambda>m. reads_back (snd m)) ms \<Longrightarrow> distinct (map fst (acc @ ms)) \<Longrightarrow>
   length (join_with '','' (map member_text ms)) + 1 < n \<Longrightarrow>
   json_members n acc (join_with '','' (map member_text ms) @ CHR ''}'' # r) = Some (JObj (acc @ ms), r)"
proof (induction ms arbitrary: acc n)
  case (Cons kv ms)
  obtain k v where kv: "kv = (k, v)" by (cases kv)
  obtain m where n: "n = Suc m" using Cons.prems(4) by (cases n) auto
  let ?rest = "(if ms = [] then [] else '','' @ join_with '','' (map member_text ms)) @ CHR ''}'' # r"
  have tx: "join_with '','' (map member_text (kv # ms)) @ CHR ''}'' # r =
      CHR 34 # concat (map escape_char k) @ CHR 34 # CHR '':'' # json_stringify v @ ?rest"
    by (simp add: join_Cons kv json_quote_def del: join_with.simps)
  have "json_value m (json_stringify v @ ?rest) = Some (v, ?rest)"
    using Cons.prems n kv by (intro reads_backD) (auto simp: join_Cons boundary_Cons simp del: join_with.simps)
  moreover have new: "put_field k v acc = acc @ [(k, v)]" using Cons.prems(3) kv by (intro put_field_new) auto
  ultimately have step: "json_members n acc (CHR 34 # concat (map escape_char k) @ CHR 34 # CHR '':'' # json_stringify v @ ?rest) =
      (if ms = [] then Some (JObj (acc @ [(k, v)]), r)
       else json_members m (acc @ [(k, v)]) (join_with '','' (map member_text ms) @ CHR ''}'' # r))"
    by (simp add: n Let_def json_chars_quoted)
  show ?case
  proof (cases "ms = []")
    case True
    then show ?thesis unfolding tx step by (simp add: kv)
  next
    case False
    have "json_members m (acc @ [(k, v)]) (join_with '','' (map member_text ms) @ CHR ''}'' # r) = Some (JObj ((acc @ [(k, v)]) @ ms), r)"
      using Cons.prems n kv False by (intro Cons.IH) (auto simp: join_Cons simp del: join_with.simps)
    with False show ?thesis unfolding tx step by (simp add: kv)
  qed
qed simp

lemma printable_reads_back: "printable v \<Longrightarrow> reads_back v"
proof (induction v)
  case (JNum x)
  then obtain i where i: "x = js_int i" "json_stringify (JNum x) = show_int i" using stringify_int by blast
  obtain c cs where c: "show_int i = c # cs" "c = CHR ''-'' \<or> is_digit c" using show_int_head by blast
  have ws: "json_ws (c # cs @ r) = c # cs @ r" for r
    using c by (subst json_ws_id) (auto simp: is_digit_def)
  have not: "c \<noteq> CHR 34" "c \<noteq> CHR ''[''" "c \<noteq> CHR ''{''" "c \<noteq> CHR ''t''" "c \<noteq> CHR ''f''" "c \<noteq> CHR ''n''"
    using c(2) by (auto simp: is_digit_def)
  show ?case unfolding reads_back_def i(2)
    using json_num_show [of _ i] not by (auto simp: ws i(1) c(1))
next
  case (JStr s)
  then show ?case by (simp add: reads_back_def json_quote_def json_chars_quoted)
next
  case (JArr xs)
  then have inner: "list_all reads_back xs" by (simp add: list_all_iff)
  show ?case
  proof (cases xs)
    case (Cons y ys)
    have "starts_value (json_stringify y)" using JArr.prems Cons by (simp add: stringify_starts)
    then have st: "starts_value (join_with '','' (map json_stringify xs) @ s)" for s
      using Cons by (auto simp: join_Cons starts_value_append simp del: join_with.simps)
    then have ws: "json_ws (join_with '','' (map json_stringify xs) @ s) = join_with '','' (map json_stringify xs) @ s" for s
      by (rule starts_value_ws)
    have no: "\<not> starts_with '']'' (join_with '','' (map json_stringify xs) @ s)" for s
      using st [of s] by (cases "join_with '','' (map json_stringify xs) @ s") (auto simp: starts_value_def)
    show ?thesis unfolding reads_back_def
    proof (intro allI impI)
      fix n r
      assume "length (json_stringify (JArr xs)) \<le> n"
      then have "json_elems n [] (join_with '','' (map json_stringify xs) @ CHR '']'' # r) = Some (JArr ([] @ xs), r)"
        using inner Cons by (intro elems_back) (auto simp del: join_with.simps)
      then show "json_value (Suc n) (json_stringify (JArr xs) @ r) = Some (JArr xs, r)"
        by (simp add: json_ws_def [of "CHR ''['' # _"] ws no del: join_with.simps)
    qed
  qed (simp add: reads_back_def json_ws_def)
next
  case (JObj ms)
  then have inner: "list_all (\<lambda>m. reads_back (snd m)) ms" by (auto simp: list_all_iff snds.simps)
  show ?case
  proof (cases ms)
    case (Cons y ys)
    have st: "\<exists>t. join_with '','' (map member_text ms) @ s = CHR 34 # t" for s
      using Cons by (auto simp: join_Cons json_quote_def simp del: join_with.simps)
    have ws: "json_ws (join_with '','' (map member_text ms) @ s) = join_with '','' (map member_text ms) @ s"
      "\<not> starts_with ''}'' (join_with '','' (map member_text ms) @ s)" for s
      using st [of s] by auto
    show ?thesis unfolding reads_back_def
    proof (intro allI impI)
      fix n r
      assume "length (json_stringify (JObj ms)) \<le> n"
      then have "json_members n [] (join_with '','' (map member_text ms) @ CHR ''}'' # r) = Some (JObj ([] @ ms), r)"
        using inner Cons JObj.prems by (intro members_back) (auto simp del: join_with.simps)
      then show "json_value (Suc n) (json_stringify (JObj ms) @ r) = Some (JObj ms, r)"
        by (simp add: json_ws_def [of "CHR ''{'' # _"] ws del: join_with.simps)
    qed
  qed (simp add: reads_back_def json_ws_def)
qed (simp_all add: reads_back_def json_ws_def)

lemma parse_stringify:
  assumes "printable v"
  shows "json_parse (json_stringify v) = Some v"
proof -
  have "json_value (2 * length (json_stringify v) + 2) (json_stringify v @ []) = Some (v, [])"
    using printable_reads_back [OF assms] by (intro reads_backD) (simp_all add: boundary_def)
  then show ?thesis by (simp add: json_parse_def json_ws_def)
qed

text \<open>What \<open>JSON.stringify\<close> prints, \<open>JSON.parse\<close> reads back, for every value whose numbers are
  integers below \<open>10 ^ 21\<close> and whose objects have distinct keys, whatever its strings contain.\<close>
theorem stringify_parses_back:
  assumes "printable v"
  shows "json_parse (json_stringify v) = Some v"
  by (rule parse_stringify [OF assms])

theorem stringify_parses_back_witness:
  "json_parse (json_stringify (JObj [(''a'', JArr [JNum (js_int (- 5)), JStr [CHR 10, CHR 34]])])) =
    Some (JObj [(''a'', JArr [JNum (js_int (- 5)), JStr [CHR 10, CHR 34]])])"
  by (rule stringify_parses_back) simp

subsection \<open>One line\<close>

text \<open>Printed text has no line breaks, whatever the strings hold.\<close>

lemma escape_char_visible: "c \<in> set (escape_char d) \<Longrightarrow> 32 \<le> (of_char c :: nat)"
  by (auto simp: escape_char_def Let_def hex_digit_def split: if_splits)

lemma quote_visible: "c \<in> set (json_quote s) \<Longrightarrow> 32 \<le> (of_char c :: nat)"
  by (auto simp: json_quote_def dest: escape_char_visible)

lemma digit_visible: "is_digit c \<Longrightarrow> 32 \<le> (of_char c :: nat)"
  by (simp add: is_digit_def Let_def)

lemma show_int_visible: "c \<in> set (show_int i) \<Longrightarrow> 32 \<le> (of_char c :: nat)"
  using show_nat_digits digit_visible by (auto simp: show_int_def split: if_splits)

lemma join_visible:
  "(\<And>x c. x \<in> set xs \<Longrightarrow> c \<in> set x \<Longrightarrow> 32 \<le> (of_char c :: nat)) \<Longrightarrow> c \<in> set (join_with '','' xs) \<Longrightarrow> 32 \<le> (of_char c :: nat)"
  by (induction xs rule: list.induct) (auto simp: join_Cons simp del: join_with.simps(2,3) split: if_splits)

lemma stringify_visible: "printable v \<Longrightarrow> c \<in> set (json_stringify v) \<Longrightarrow> 32 \<le> (of_char c :: nat)"
proof (induction v arbitrary: c)
  case (JNum x)
  then obtain i where "json_stringify (JNum x) = show_int i" using stringify_int by blast
  with JNum show ?case by (simp add: show_int_visible del: json_stringify.simps)
next
  case (JStr s)
  then show ?case by (simp add: quote_visible)
next
  case (JArr xs)
  have "32 \<le> (of_char c :: nat)" if "c \<in> set (join_with '','' (map json_stringify xs))"
    by (rule join_visible [OF _ that]) (use JArr in \<open>auto simp: list_all_iff\<close>)
  with JArr.prems(2) show ?case by auto
next
  case (JObj ms)
  have "32 \<le> (of_char c :: nat)" if "c \<in> set (join_with '','' (map member_text ms))"
    by (rule join_visible [OF _ that]) (use JObj in \<open>auto simp: list_all_iff snds.simps dest: quote_visible\<close>)
  with JObj.prems(2) show ?case by auto
qed (auto split: if_splits)

end
