(* ===== verification/Dialects.thy ===== *)
theory Dialects
  imports JsonPrint Sse Domain Routing
begin

text \<open>
  The dialects of \<open>src/lib/transform/index.ts\<close>: which wire format a channel type speaks, the
  URL of an operation, the authentication headers of a provider. Then what the converters share:
  records under the JSON limits, numbers and texts with a fallback, conversation turns that merge
  with the previous one of the same role, and the two readers of a data URL and of tool arguments.
\<close>

datatype dialect = DOpenai | DAnthropic | DGemini

datatype endpoint = Chat | Completions | Embeddings | Models | CountTokens | ImageGenerations | ImageEdits
  | AudioSpeech | AudioTranscriptions | AudioTranslations | Moderations | Rerank

type_synonym members = "(string \<times> json) list"

text \<open>The name a channel type has in the database.\<close>

fun channel_type_name :: "channel_type \<Rightarrow> string" where
  "channel_type_name Openai = ''openai''" | "channel_type_name Azure = ''azure''"
| "channel_type_name Anthropic = ''anthropic''" | "channel_type_name Gemini = ''gemini''"
| "channel_type_name Vertex = ''vertex''" | "channel_type_name Bedrock = ''bedrock''"
| "channel_type_name Mistral = ''mistral''" | "channel_type_name Cohere = ''cohere''"
| "channel_type_name Deepseek = ''deepseek''" | "channel_type_name Moonshot = ''moonshot''"
| "channel_type_name Zhipu = ''zhipu''" | "channel_type_name Qwen = ''qwen''" | "channel_type_name Baidu = ''baidu''"
| "channel_type_name Xai = ''xai''" | "channel_type_name Groq = ''groq''" | "channel_type_name Openrouter = ''openrouter''"
| "channel_type_name Ollama = ''ollama''" | "channel_type_name Midjourney = ''midjourney''" | "channel_type_name Suno = ''suno''"
| "channel_type_name Kling = ''kling''" | "channel_type_name Jimeng = ''jimeng''" | "channel_type_name Vidu = ''vidu''"
| "channel_type_name Dify = ''dify''" | "channel_type_name Custom = ''custom''"
| "channel_type_name (OtherType s) = s"

definition dialect_for :: "channel_type \<Rightarrow> thrown + dialect" where
  "dialect_for t =
     (if t = Anthropic then Inr DAnthropic
      else if t = Gemini \<or> t = Vertex then Inr DGemini
      else if t \<in> {Openai, Azure, Deepseek, Moonshot, Zhipu, Qwen, Baidu, Xai, Groq, Mistral, Cohere, Openrouter, Ollama}
      then Inr DOpenai
      else Inl (Gateway (not_implemented (''channel type '' @ quoted (channel_type_name t) @ '' has no chat dialect''))))"

subsection \<open>URLs\<close>

definition trim_slash :: "string \<Rightarrow> string" where
  "trim_slash s = rev (dropWhile (\<lambda>c. c = CHR ''/'') (rev s))"

definition upper_hex :: "nat \<Rightarrow> char" where
  "upper_hex n = char_of (if n < 10 then 48 + n else 55 + n)"

definition percent_byte :: "nat \<Rightarrow> string" where
  "percent_byte n = [CHR ''%'', upper_hex (n div 16), upper_hex (n mod 16)]"

definition uri_plain :: "char \<Rightarrow> bool" where
  "uri_plain c \<longleftrightarrow> is_alnum c \<or> c \<in> {CHR ''-'', CHR ''_'', CHR ''.'', CHR ''!'', CHR ''~'', CHR ''*'', CHR 39, CHR ''('', CHR '')''}"

text \<open>\<open>encodeURIComponent\<close>: the bytes of UTF-8, of code units below 256 one or two.\<close>

definition encode_uri_component :: "string \<Rightarrow> string" where
  "encode_uri_component s = concat (map (\<lambda>c. let n = of_char c :: nat in
     if uri_plain c then [c]
     else if n < 128 then percent_byte n
     else percent_byte (192 + n div 64) @ percent_byte (128 + n mod 64)) s)"

fun openai_suffix :: "endpoint \<Rightarrow> string" where
  "openai_suffix Chat = ''/v1/chat/completions''"
| "openai_suffix Completions = ''/v1/completions''"
| "openai_suffix Embeddings = ''/v1/embeddings''"
| "openai_suffix Models = ''/v1/models''"
| "openai_suffix ImageGenerations = ''/v1/images/generations''"
| "openai_suffix ImageEdits = ''/v1/images/edits''"
| "openai_suffix AudioSpeech = ''/v1/audio/speech''"
| "openai_suffix AudioTranscriptions = ''/v1/audio/transcriptions''"
| "openai_suffix AudioTranslations = ''/v1/audio/translations''"
| "openai_suffix Moderations = ''/v1/moderations''"
| "openai_suffix Rerank = ''/v1/rerank''"
| "openai_suffix CountTokens = ''/v1/chat/completions''"

definition azure_suffix :: "endpoint \<Rightarrow> string" where
  "azure_suffix e =
     (case e of Embeddings \<Rightarrow> ''/embeddings'' | Completions \<Rightarrow> ''/completions''
      | ImageGenerations \<Rightarrow> ''/images/generations'' | AudioSpeech \<Rightarrow> ''/audio/speech''
      | AudioTranscriptions \<Rightarrow> ''/audio/transcriptions'' | _ \<Rightarrow> ''/chat/completions'')"

definition text_or :: "string \<Rightarrow> string \<Rightarrow> string" where
  "text_or a b = (if a \<noteq> [] then a else b)"

definition num_or :: "jsnum \<Rightarrow> jsnum \<Rightarrow> jsnum" where
  "num_or a b = (if a \<noteq> JFin 0 then a else b)"

abbreviation str_of :: "string \<Rightarrow> members \<Rightarrow> string" where
  "str_of k ms \<equiv> as_string (get_field k ms) []"

abbreviation num_of :: "string \<Rightarrow> members \<Rightarrow> jsnum" where
  "num_of k ms \<equiv> as_number (get_field k ms) (JFin 0)"

abbreviation rec_of :: "string \<Rightarrow> members \<Rightarrow> members" where
  "rec_of k ms \<equiv> as_record (get_field k ms)"

abbreviation arr_of :: "string \<Rightarrow> members \<Rightarrow> json list" where
  "arr_of k ms \<equiv> as_array (get_field k ms)"

definition cfg_azure_default_api_version :: "env \<Rightarrow> string" where
  "cfg_azure_default_api_version env = env_str env ''AZURE_DEFAULT_API_VERSION'' ''2024-10-21''"

definition cfg_anthropic_version :: "env \<Rightarrow> string" where
  "cfg_anthropic_version env = env_str env ''ANTHROPIC_VERSION'' ''2023-06-01''"

definition cfg_gemini_safety_off :: "env \<Rightarrow> bool" where
  "cfg_gemini_safety_off env = env_bool env ''GEMINI_SAFETY_OFF'' False"

definition gemini_method :: "endpoint \<Rightarrow> bool \<Rightarrow> string" where
  "gemini_method e stream =
     (if e = Embeddings then ''embedContent'' else if e = CountTokens then ''countTokens''
      else if stream then ''streamGenerateContent'' else ''generateContent'')"

definition azure_url :: "env \<Rightarrow> channel_doc \<Rightarrow> endpoint \<Rightarrow> string \<Rightarrow> string" where
  "azure_url env ch e model =
     (let settings = ch_config ch;
          version = text_or (str_of ''apiVersion'' settings) (cfg_azure_default_api_version env);
          deployment = text_or (str_of model (rec_of ''deployments'' settings)) model
      in trim_slash (ch_base_url ch) @ ''/openai/deployments/'' @ encode_uri_component deployment @ azure_suffix e @
         ''?api-version='' @ encode_uri_component version)"

definition upstream_url_for :: "env \<Rightarrow> channel_doc \<Rightarrow> endpoint \<Rightarrow> string \<Rightarrow> bool \<Rightarrow> thrown + string" where
  "upstream_url_for env ch e model stream =
     (let base = trim_slash (ch_base_url ch) in
      if ch_type ch = Azure then Inr (azure_url env ch e model)
      else (case dialect_for (ch_type ch) of
          Inl t \<Rightarrow> Inl t
        | Inr DGemini \<Rightarrow>
            (let method = gemini_method e stream in
             if e = Models then Inr (base @ ''/v1beta/models'')
             else Inr (base @ ''/v1beta/models/'' @ encode_uri_component model @ '':'' @ method @
               (if method = ''streamGenerateContent'' then ''?alt=sse'' else [])))
        | Inr DAnthropic \<Rightarrow>
            Inr (base @ (if e = CountTokens then ''/v1/messages/count_tokens'' else if e = Models then ''/v1/models''
              else ''/v1/messages''))
        | Inr DOpenai \<Rightarrow> Inr (base @ openai_suffix e)))"

definition provider_auth_headers :: "env \<Rightarrow> channel_type \<Rightarrow> string \<Rightarrow> thrown + (string \<times> string) list" where
  "provider_auth_headers env t secret =
     (if t = Midjourney then Inr [(''mj-api-secret'', secret)]
      else if t \<in> {Suno, Kling, Jimeng, Vidu, Dify, OtherType ''video''} then Inr [(''authorization'', ''Bearer '' @ secret)]
      else (case dialect_for t of
          Inl e \<Rightarrow> Inl e
        | Inr DAnthropic \<Rightarrow> Inr [(''x-api-key'', secret), (''anthropic-version'', cfg_anthropic_version env)]
        | Inr DGemini \<Rightarrow> Inr [(''x-goog-api-key'', secret)]
        | Inr DOpenai \<Rightarrow>
            Inr (if t = Azure then [(''api-key'', secret)] else [(''authorization'', ''Bearer '' @ secret)])))"

subsection \<open>What the converters share\<close>

definition limit_text :: "env \<Rightarrow> json_limit \<Rightarrow> string" where
  "limit_text env l = (case l of
      LimDepth \<Rightarrow> ''payload nests deeper than '' @ show_int (cfg_max_json_depth env) @ '' levels''
    | _ \<Rightarrow> ''payload exceeds '' @ show_int (cfg_max_json_nodes env) @ '' JSON nodes'')"

text \<open>\<open>sanitizeParsed(asRecord(value))\<close>.\<close>

definition sanitized_record :: "env \<Rightarrow> json option \<Rightarrow> thrown + members" where
  "sanitized_record env v =
     (case sanitize_parsed (cfg_max_json_depth env) (cfg_max_json_nodes env) (JObj (as_record v)) of
        Inl l \<Rightarrow> Inl (JsonLimitThrown l (limit_text env l))
      | Inr j \<Rightarrow> Inr (as_record (Some j)))"

definition remove_field :: "string \<Rightarrow> members \<Rightarrow> members" where
  "remove_field k ms = filter (\<lambda>m. fst m \<noteq> k) ms"

text \<open>
  The member \<open>model\<close> of a body. A name found on every JavaScript object is no string: a function is
  dropped by \<open>JSON.stringify\<close>, the prototype prints as an empty object; in a path they read as their
  source text.
\<close>

definition model_member :: "model_value \<Rightarrow> json option" where
  "model_member m = (case m of ModelName s \<Rightarrow> Some (JStr s)
     | Inherited k \<Rightarrow> if k = ''__proto__'' then Some (JObj []) else None)"

definition set_model :: "model_value \<Rightarrow> members \<Rightarrow> members" where
  "set_model m ms = (case model_member m of Some j \<Rightarrow> put_field ''model'' j ms | None \<Rightarrow> remove_field ''model'' ms)"

definition model_text :: "model_value \<Rightarrow> string" where
  "model_text m = (case m of ModelName s \<Rightarrow> s
     | Inherited k \<Rightarrow> if k = ''__proto__'' then ''[object Object]''
         else ''function '' @ (if k = ''constructor'' then ''Object'' else k) @ ''() { [native code] }'')"

definition openai_roles :: "string list" where
  "openai_roles = [''system'', ''developer'', ''user'', ''assistant'', ''tool'', ''function'']"

definition bad_role :: "string \<Rightarrow> thrown" where
  "bad_role role = Gateway (invalid_request (''unsupported message role '' @ quoted role) (Some ''messages''))"

type_synonym turns = "(string \<times> json list) list"

definition append_turn :: "string \<Rightarrow> json list \<Rightarrow> turns \<Rightarrow> turns" where
  "append_turn role blocks ts =
     (if ts \<noteq> [] \<and> fst (last ts) = role then butlast ts @ [(role, snd (last ts) @ blocks)] else ts @ [(role, blocks)])"

definition turns_json :: "string \<Rightarrow> turns \<Rightarrow> json" where
  "turns_json field ts = JArr (map (\<lambda>(role, blocks). JObj [(''role'', JStr role), (field, JArr blocks)]) ts)"

definition parse_arguments :: "env \<Rightarrow> json option \<Rightarrow> members" where
  "parse_arguments env v =
     (case v of
        Some (JObj ms) \<Rightarrow> ms
      | _ \<Rightarrow>
          let s = as_string v [] in
          if s = [] then []
          else (case json_parse s of
              Some (JObj ms) \<Rightarrow> (case sanitized_record env (Some (JObj ms)) of Inl e \<Rightarrow> [] | Inr ms' \<Rightarrow> ms')
            | _ \<Rightarrow> []))"

text \<open>The media type and the data of \<open>data:<type>;base64,<data>\<close>.\<close>

definition data_url :: "string \<Rightarrow> (string \<times> string) option" where
  "data_url u =
     (if \<not> starts_with ''data:'' u then None
      else let r = drop 5 u;
               ok = (\<lambda>c. c \<noteq> CHR '';'' \<and> c \<noteq> CHR '','');
               mt = takeWhile ok r; rest = dropWhile ok r
           in if mt \<noteq> [] \<and> starts_with '';base64,'' rest then Some (mt, drop 8 rest) else None)"

definition sse_payload :: "env \<Rightarrow> string \<Rightarrow> json option" where
  "sse_payload env data =
     parse_sse_data (cfg_max_request_body_bytes env) (cfg_max_json_depth env) (cfg_max_json_nodes env) data"

definition text_part :: "string \<Rightarrow> json" where
  "text_part s = JObj [(''type'', JStr ''text''), (''text'', JStr s)]"

definition object_schema :: json where
  "object_schema = JObj [(''type'', JStr ''object''), (''properties'', JObj [])]"

definition given :: "string \<Rightarrow> members \<Rightarrow> (json option \<Rightarrow> json) \<Rightarrow> string \<Rightarrow> members" where
  "given k ms f k' = (case get_field k ms of None \<Rightarrow> [] | Some v \<Rightarrow> [(k', f (Some v))])"

definition number_json :: "json option \<Rightarrow> json" where
  "number_json v = JNum (as_number v (JFin 0))"

definition is_true :: "json option \<Rightarrow> json" where
  "is_true v = JBool (v = Some (JBool True))"

definition stop_list :: "json option \<Rightarrow> json" where
  "stop_list v = (case v of Some (JStr s) \<Rightarrow> JArr [JStr s] | _ \<Rightarrow> JArr (as_array v))"

end
