(* ===== verification/OpenaiDialect.thy ===== *)
theory OpenaiDialect
  imports Dialects
begin

text \<open>
  \<open>src/lib/transform/openai.ts\<close>: what the gateway checks and changes in a request of its own
  dialect, the passthrough of a response, usage with its defaults, and the translator of a stream.
\<close>

definition stripped_fields :: "string list" where
  "stripped_fields = [''api_key'', ''apiKey'', ''authorization'', ''base_url'', ''organization'', ''project'']"

record normalized_request =
  nr_body :: members
  nr_stream :: bool
  nr_model :: string
  nr_usage_injected :: bool

fun first_bad_role :: "json list \<Rightarrow> string option" where
  "first_bad_role [] = None"
| "first_bad_role (m # ms) =
     (let role = str_of ''role'' (as_record (Some m)) in if role \<notin> set openai_roles then Some role else first_bad_role ms)"

definition messages_checked :: "bool \<Rightarrow> members \<Rightarrow> thrown + unit" where
  "messages_checked chat input =
     (if \<not> chat then Inr ()
      else (case get_field ''messages'' input of
          Some (JArr ms) \<Rightarrow> (case first_bad_role ms of None \<Rightarrow> Inr () | Some role \<Rightarrow> Inl (bad_role role))
        | _ \<Rightarrow> Inl (Gateway (invalid_request ''the messages field must be an array'' (Some ''messages'')))))"

definition wants_usage :: "members \<Rightarrow> bool" where
  "wants_usage input \<longleftrightarrow> get_field ''include_usage'' (rec_of ''stream_options'' input) = Some (JBool True)"

definition with_usage :: "members \<Rightarrow> members" where
  "with_usage input = put_field ''stream_options''
     (JObj (put_field ''include_usage'' (JBool True) (rec_of ''stream_options'' input))) input"

definition normalize_openai_request :: "env \<Rightarrow> json \<Rightarrow> bool \<Rightarrow> thrown + normalized_request" where
  "normalize_openai_request env body chat =
     (if \<not> is_plain_object body then Inl (Gateway (invalid_request ''request body must be a JSON object'' None))
      else (case sanitized_record env (Some body) of
          Inl e \<Rightarrow> Inl e
        | Inr ms \<Rightarrow>
            let input = filter (\<lambda>m. fst m \<notin> set stripped_fields) ms;
                model = str_of ''model'' input
            in if model = [] then Inl (Gateway (invalid_request ''the model field is required'' (Some ''model'')))
               else (case messages_checked chat input of
                   Inl e \<Rightarrow> Inl e
                 | Inr _ \<Rightarrow>
                     let stream = (get_field ''stream'' input = Some (JBool True));
                         inject = stream \<and> \<not> wants_usage input
                     in Inr \<lparr>nr_body = (if inject then with_usage input else input), nr_stream = stream,
                              nr_model = model, nr_usage_injected = inject\<rparr>)))"

definition openai_response_passthrough :: "env \<Rightarrow> json option \<Rightarrow> string \<Rightarrow> thrown + members" where
  "openai_response_passthrough env body requested =
     (case sanitized_record env body of
        Inl e \<Rightarrow> Inl e
      | Inr input \<Rightarrow> Inr (if requested \<noteq> [] then put_field ''model'' (JStr requested) input else input))"

definition usage_block :: "jsnum \<Rightarrow> jsnum \<Rightarrow> jsnum \<Rightarrow> members \<Rightarrow> members \<Rightarrow> members" where
  "usage_block prompt completion tot prompt_details rest =
     [(''prompt_tokens'', JNum prompt), (''completion_tokens'', JNum completion), (''total_tokens'', JNum tot),
      (''prompt_tokens_details'', JObj prompt_details)] @ rest"

definition usage_from_openai :: "json option \<Rightarrow> members" where
  "usage_from_openai raw =
     (let usage = as_record raw;
          prompt = num_of ''prompt_tokens'' usage; completion = num_of ''completion_tokens'' usage
      in usage_block prompt completion (num_or (num_of ''total_tokens'' usage) (js_add prompt completion))
           [(''cached_tokens'', JNum (num_of ''cached_tokens'' (rec_of ''prompt_tokens_details'' usage)))]
           [(''completion_tokens_details'', JObj
             [(''reasoning_tokens'', JNum (num_of ''reasoning_tokens'' (rec_of ''completion_tokens_details'' usage)))])])"

subsection \<open>Streams\<close>

record openai_stream =
  os_model :: string
  os_suppress :: bool
  os_finished :: bool
  os_usage :: members

definition create_openai_stream :: "string \<Rightarrow> bool \<Rightarrow> openai_stream" where
  "create_openai_stream model suppress = \<lparr>os_model = model, os_suppress = suppress, os_finished = False, os_usage = []\<rparr>"

definition is_some_value :: "json option \<Rightarrow> bool" where
  "is_some_value v \<longleftrightarrow> v \<noteq> None \<and> v \<noteq> Some JNull"

definition openai_handle :: "env \<Rightarrow> sse_event \<Rightarrow> openai_stream \<Rightarrow> members list \<times> openai_stream" where
  "openai_handle env ev s =
     (if js_trim (se_data ev) = sse_done_mark then ([], s\<lparr>os_finished := True\<rparr>)
      else (case sse_payload env (se_data ev) of
          Some (JObj payload) \<Rightarrow>
            let usage = get_field ''usage'' payload;
                s1 = (if is_some_value usage then s\<lparr>os_usage := usage_from_openai usage\<rparr> else s);
                out = put_field ''model'' (JStr (os_model s)) payload;
                choices = arr_of ''choices'' out;
                s2 = (if list_ex (\<lambda>c. str_of ''finish_reason'' (as_record (Some c)) \<noteq> []) choices
                      then s1\<lparr>os_finished := True\<rparr> else s1)
            in (if choices = [] \<and> usage \<noteq> None \<and> os_suppress s then [] else [out], s2)
        | _ \<Rightarrow> ([], s)))"

definition openai_stream_usage :: "openai_stream \<Rightarrow> members" where
  "openai_stream_usage s = (if os_usage s \<noteq> [] then os_usage s else usage_from_openai None)"

end
