(* ===== verification/AnthropicDialect.thy ===== *)
theory AnthropicDialect
  imports OpenaiDialect
begin

text \<open>
  \<open>src/lib/transform/anthropic.ts\<close>: requests and responses in both directions, usage, and the
  translator of an Anthropic event stream into OpenAI chunks. Random identifiers are arguments: \<open>ids i j\<close>
  is the hexadecimal text drawn at message \<open>i\<close> for its call \<open>j\<close>; the current second is an argument.
\<close>

definition default_max_tokens :: jsnum where
  "default_max_tokens = JFin 4096"

definition finish_reason_from_anthropic :: "json option \<Rightarrow> string option" where
  "finish_reason_from_anthropic v =
     (let s = as_string v [] in
      if s = ''end_turn'' \<or> s = ''stop_sequence'' then Some ''stop''
      else if s = ''max_tokens'' then Some ''length''
      else if s = ''tool_use'' then Some ''tool_calls''
      else if s = ''refusal'' then Some ''content_filter''
      else if s = [] then None else Some ''stop'')"

definition stop_reason_from_openai :: "json option \<Rightarrow> string" where
  "stop_reason_from_openai v =
     (let s = as_string v [] in
      if s = ''length'' then ''max_tokens''
      else if s = ''tool_calls'' \<or> s = ''function_call'' then ''tool_use''
      else if s = ''content_filter'' then ''refusal'' else ''end_turn'')"

subsection \<open>Content\<close>

definition anthropic_image :: "string \<Rightarrow> json" where
  "anthropic_image url = JObj [(''type'', JStr ''image''), (''source'', case data_url url of
      Some (mt, d) \<Rightarrow> JObj [(''type'', JStr ''base64''), (''media_type'', JStr mt), (''data'', JStr d)]
    | None \<Rightarrow> JObj [(''type'', JStr ''url''), (''url'', JStr url)])]"

definition anthropic_part :: "json \<Rightarrow> json list" where
  "anthropic_part raw =
     (let part = as_record (Some raw); t = str_of ''type'' part in
      if t = ''text'' then (let s = str_of ''text'' part in if s \<noteq> [] then [text_part s] else [])
      else if t = ''image_url'' then
        (let url = str_of ''url'' (rec_of ''image_url'' part) in if url = [] then [] else [anthropic_image url])
      else [])"

definition to_anthropic_blocks :: "json option \<Rightarrow> json list" where
  "to_anthropic_blocks content =
     (case content of
        Some (JStr s) \<Rightarrow> if s = [] then [] else [text_part s]
      | _ \<Rightarrow> concat (map anthropic_part (as_array content)))"

record message_parts =
  mp_text :: string
  mp_calls :: "json list"
  mp_reasoning :: string

definition call_json :: "string \<Rightarrow> string \<Rightarrow> string \<Rightarrow> json" where
  "call_json i name args = JObj [(''id'', JStr i), (''type'', JStr ''function''),
     (''function'', JObj [(''name'', JStr name), (''arguments'', JStr args)])]"

text \<open>\<open>JSON.stringify(value ?? {})\<close>.\<close>

definition stringify_or_empty :: "json option \<Rightarrow> string" where
  "stringify_or_empty v = json_stringify (case v of None \<Rightarrow> JObj [] | Some JNull \<Rightarrow> JObj [] | Some j \<Rightarrow> j)"

definition read_block :: "(nat \<Rightarrow> string) \<Rightarrow> json \<Rightarrow> message_parts \<Rightarrow> message_parts" where
  "read_block ids raw p =
     (let block = as_record (Some raw); t = str_of ''type'' block in
      if t = ''text'' then p\<lparr>mp_text := mp_text p @ str_of ''text'' block\<rparr>
      else if t = ''thinking'' then p\<lparr>mp_reasoning := mp_reasoning p @ str_of ''thinking'' block\<rparr>
      else if t = ''tool_use'' then
        p\<lparr>mp_calls := mp_calls p @ [call_json (text_or (str_of ''id'' block) (''call_'' @ ids (length (mp_calls p))))
            (str_of ''name'' block) (stringify_or_empty (get_field ''input'' block))]\<rparr>
      else p)"

definition from_anthropic_blocks :: "(nat \<Rightarrow> string) \<Rightarrow> json option \<Rightarrow> message_parts" where
  "from_anthropic_blocks ids content =
     (case content of
        Some (JStr s) \<Rightarrow> \<lparr>mp_text = s, mp_calls = [], mp_reasoning = []\<rparr>
      | _ \<Rightarrow> fold (read_block ids) (as_array content) \<lparr>mp_text = [], mp_calls = [], mp_reasoning = []\<rparr>)"

definition tool_choice_to_anthropic :: "json option \<Rightarrow> json option" where
  "tool_choice_to_anthropic choice =
     (case choice of
        Some (JStr s) \<Rightarrow>
          (if s = ''auto'' then Some (JObj [(''type'', JStr ''auto'')])
           else if s = ''none'' then Some (JObj [(''type'', JStr ''none'')])
           else if s = ''required'' then Some (JObj [(''type'', JStr ''any'')]) else None)
      | _ \<Rightarrow> (let name = str_of ''name'' (rec_of ''function'' (as_record choice)) in
          if name \<noteq> [] then Some (JObj [(''type'', JStr ''tool''), (''name'', JStr name)]) else None))"

definition tool_choice_to_openai :: "json option \<Rightarrow> json option" where
  "tool_choice_to_openai choice =
     (let record = as_record choice; t = str_of ''type'' record in
      if t = ''auto'' then Some (JStr ''auto'')
      else if t = ''any'' then Some (JStr ''required'')
      else if t = ''none'' then Some (JStr ''none'')
      else if t = ''tool'' then
        Some (JObj [(''type'', JStr ''function''), (''function'', JObj [(''name'', JStr (str_of ''name'' record))])])
      else None)"

subsection \<open>Requests\<close>

definition tool_use_block :: "env \<Rightarrow> string \<Rightarrow> json \<Rightarrow> json" where
  "tool_use_block env fresh raw =
     (let call = as_record (Some raw); fn = rec_of ''function'' call in
      JObj [(''type'', JStr ''tool_use''), (''id'', JStr (text_or (str_of ''id'' call) (''toolu_'' @ fresh))),
        (''name'', JStr (str_of ''name'' fn)), (''input'', JObj (parse_arguments env (get_field ''arguments'' fn)))])"

definition tool_uses :: "env \<Rightarrow> (nat \<Rightarrow> string) \<Rightarrow> json list \<Rightarrow> json list" where
  "tool_uses env ids calls = map (\<lambda>(j, c). tool_use_block env (ids j) c) (enumerate 0 calls)"

definition tool_result_block :: "members \<Rightarrow> json" where
  "tool_result_block m = JObj [(''type'', JStr ''tool_result''), (''tool_use_id'', JStr (str_of ''tool_call_id'' m)),
     (''content'', JStr (str_of ''content'' m))]"

definition is_system :: "string \<Rightarrow> bool" where
  "is_system role \<longleftrightarrow> role = ''system'' \<or> role = ''developer''"

definition is_tool :: "string \<Rightarrow> bool" where
  "is_tool role \<longleftrightarrow> role = ''tool'' \<or> role = ''function''"

fun anthropic_turns ::
    "env \<Rightarrow> (nat \<Rightarrow> nat \<Rightarrow> string) \<Rightarrow> nat \<Rightarrow> json list \<Rightarrow> json list \<Rightarrow> turns \<Rightarrow> thrown + json list \<times> turns" where
  "anthropic_turns env ids i [] sys ts = Inr (sys, ts)"
| "anthropic_turns env ids i (raw # rest) sys ts =
     (let m = as_record (Some raw); role = str_of ''role'' m; blocks = to_anthropic_blocks (get_field ''content'' m) in
      if role \<notin> set openai_roles then Inl (bad_role role)
      else if is_system role then anthropic_turns env ids (i + 1) rest (sys @ blocks) ts
      else if is_tool role then
        anthropic_turns env ids (i + 1) rest sys (append_turn ''user'' [tool_result_block m] ts)
      else
        let all = blocks @ (if role = ''assistant'' then tool_uses env (ids i) (arr_of ''tool_calls'' m) else [])
        in anthropic_turns env ids (i + 1) rest sys (if all \<noteq> [] then append_turn role all ts else ts))"

definition anthropic_tool :: "json \<Rightarrow> json" where
  "anthropic_tool raw =
     (let fn = rec_of ''function'' (as_record (Some raw)) in
      JObj [(''name'', JStr (str_of ''name'' fn)), (''description'', JStr (str_of ''description'' fn)),
        (''input_schema'', case get_field ''parameters'' fn of Some (JObj p) \<Rightarrow> JObj p | _ \<Rightarrow> object_schema)])"

definition openai_to_anthropic_request :: "env \<Rightarrow> (nat \<Rightarrow> nat \<Rightarrow> string) \<Rightarrow> members \<Rightarrow> thrown + members" where
  "openai_to_anthropic_request env ids body =
     (case sanitized_record env (Some (JObj body)) of
        Inl e \<Rightarrow> Inl e
      | Inr input \<Rightarrow>
          (case anthropic_turns env ids 0 (arr_of ''messages'' input) [] [] of
             Inl e \<Rightarrow> Inl e
           | Inr (sys, ts) \<Rightarrow>
               let max_tokens = num_or (num_or (num_of ''max_tokens'' input) (num_of ''max_completion_tokens'' input))
                     default_max_tokens;
                   tools = arr_of ''tools'' input
               in Inr ([(''model'', JStr (str_of ''model'' input)), (''max_tokens'', JNum max_tokens),
                        (''messages'', turns_json ''content'' ts)] @
                       (if sys \<noteq> [] then [(''system'', JArr sys)] else []) @
                       given ''temperature'' input number_json ''temperature'' @
                       given ''top_p'' input number_json ''top_p'' @
                       given ''stream'' input is_true ''stream'' @
                       given ''stop'' input stop_list ''stop_sequences'' @
                       (if tools \<noteq> [] then [(''tools'', JArr (map anthropic_tool tools))] else []) @
                       (case tool_choice_to_anthropic (get_field ''tool_choice'' input) of
                          Some c \<Rightarrow> [(''tool_choice'', c)] | None \<Rightarrow> []))))"

definition system_message :: "json option \<Rightarrow> json list" where
  "system_message sys =
     (let txt = (case sys of Some (JStr s) \<Rightarrow> s
                 | _ \<Rightarrow> join_with [LF] (map (\<lambda>b. str_of ''text'' (as_record (Some b))) (as_array sys)))
      in if txt \<noteq> [] then [JObj [(''role'', JStr ''system''), (''content'', JStr txt)]] else [])"

definition is_tool_result :: "json \<Rightarrow> bool" where
  "is_tool_result b \<longleftrightarrow> str_of ''type'' (as_record (Some b)) = ''tool_result''"

definition tool_message :: "json \<Rightarrow> json" where
  "tool_message raw =
     (let block = as_record (Some raw) in
      JObj [(''role'', JStr ''tool''), (''tool_call_id'', JStr (str_of ''tool_use_id'' block)),
        (''content'', JStr (case get_field ''content'' block of Some (JStr s) \<Rightarrow> s
            | c \<Rightarrow> mp_text (from_anthropic_blocks (\<lambda>_. []) c)))])"

definition turn_message :: "string \<Rightarrow> message_parts \<Rightarrow> json list" where
  "turn_message role p =
     (if mp_text p = [] \<and> mp_calls p = [] \<and> mp_reasoning p = [] then []
      else [JObj ([(''role'', JStr role),
              (''content'', if mp_calls p \<noteq> [] \<and> mp_text p = [] then JNull else JStr (mp_text p))] @
            (if mp_calls p \<noteq> [] then [(''tool_calls'', JArr (mp_calls p))] else []))])"

fun openai_messages :: "(nat \<Rightarrow> nat \<Rightarrow> string) \<Rightarrow> nat \<Rightarrow> json list \<Rightarrow> json list \<Rightarrow> thrown + json list" where
  "openai_messages ids i [] out = Inr out"
| "openai_messages ids i (raw # rest) out =
     (let m = as_record (Some raw); role = str_of ''role'' m in
      if role \<noteq> ''user'' \<and> role \<noteq> ''assistant'' then Inl (bad_role role)
      else openai_messages ids (i + 1) rest
        (out @ map tool_message (filter is_tool_result (arr_of ''content'' m)) @
         turn_message role (from_anthropic_blocks (ids i) (get_field ''content'' m))))"

definition openai_tool :: "string \<Rightarrow> json \<Rightarrow> json \<Rightarrow> json" where
  "openai_tool schema_field fallback raw =
     (let tool = as_record (Some raw) in
      JObj [(''type'', JStr ''function''), (''function'', JObj
        [(''name'', JStr (str_of ''name'' tool)), (''description'', JStr (str_of ''description'' tool)),
         (''parameters'', case get_field schema_field tool of Some (JObj p) \<Rightarrow> JObj p | _ \<Rightarrow> fallback)])])"

definition anthropic_to_openai_request :: "env \<Rightarrow> (nat \<Rightarrow> nat \<Rightarrow> string) \<Rightarrow> members \<Rightarrow> thrown + members" where
  "anthropic_to_openai_request env ids body =
     (case sanitized_record env (Some (JObj body)) of
        Inl e \<Rightarrow> Inl e
      | Inr input \<Rightarrow>
          (case openai_messages ids 0 (arr_of ''messages'' input) (system_message (get_field ''system'' input)) of
             Inl e \<Rightarrow> Inl e
           | Inr msgs \<Rightarrow>
               let tools = arr_of ''tools'' input
               in Inr ([(''model'', JStr (str_of ''model'' input)), (''messages'', JArr msgs),
                        (''max_tokens'', JNum (num_or (num_of ''max_tokens'' input) default_max_tokens))] @
                       given ''temperature'' input number_json ''temperature'' @
                       given ''top_p'' input number_json ''top_p'' @
                       given ''stream'' input is_true ''stream'' @
                       given ''stop_sequences'' input (\<lambda>v. JArr (as_array v)) ''stop'' @
                       (if tools \<noteq> [] then [(''tools'', JArr (map (openai_tool ''input_schema'' object_schema) tools))] else []) @
                       (case tool_choice_to_openai (get_field ''tool_choice'' input) of
                          Some c \<Rightarrow> [(''tool_choice'', c)] | None \<Rightarrow> []))))"

subsection \<open>Responses\<close>

definition usage_from_anthropic :: "json option \<Rightarrow> members" where
  "usage_from_anthropic raw =
     (let usage = as_record raw;
          input = num_of ''input_tokens'' usage; cache_read = num_of ''cache_read_input_tokens'' usage;
          cache_write = num_of ''cache_creation_input_tokens'' usage; output = num_of ''output_tokens'' usage;
          prompt = js_add (js_add input cache_read) cache_write
      in usage_block prompt output (js_add prompt output)
           [(''cached_tokens'', JNum cache_read), (''cache_creation_tokens'', JNum cache_write)] [])"

definition assistant_message :: "message_parts \<Rightarrow> json" where
  "assistant_message p =
     JObj ([(''role'', JStr ''assistant''),
       (''content'', if mp_text p = [] \<and> mp_calls p \<noteq> [] then JNull else JStr (mp_text p))] @
       (if mp_calls p \<noteq> [] then [(''tool_calls'', JArr (mp_calls p))] else []) @
       (if mp_reasoning p \<noteq> [] then [(''reasoning_content'', JStr (mp_reasoning p))] else []))"

definition completion :: "string \<Rightarrow> int \<Rightarrow> string \<Rightarrow> json list \<Rightarrow> members \<Rightarrow> members" where
  "completion i now model choices usage =
     [(''id'', JStr i), (''object'', JStr ''chat.completion''), (''created'', JNum (js_int now)),
      (''model'', JStr model), (''choices'', JArr choices), (''usage'', JObj usage)]"

definition anthropic_to_openai_response ::
    "env \<Rightarrow> int \<Rightarrow> (nat \<Rightarrow> nat \<Rightarrow> string) \<Rightarrow> json option \<Rightarrow> string \<Rightarrow> thrown + members" where
  "anthropic_to_openai_response env now ids body requested =
     (case sanitized_record env body of
        Inl e \<Rightarrow> Inl e
      | Inr input \<Rightarrow>
          let p = from_anthropic_blocks (ids 0) (get_field ''content'' input);
              reason = (case finish_reason_from_anthropic (get_field ''stop_reason'' input) of Some r \<Rightarrow> r | None \<Rightarrow> ''stop'')
          in Inr (completion (text_or (str_of ''id'' input) (''chatcmpl-'' @ ids 1 0)) now
               (text_or requested (str_of ''model'' input))
               [JObj [(''index'', JNum (JFin 0)), (''message'', assistant_message p), (''finish_reason'', JStr reason)]]
               (usage_from_anthropic (get_field ''usage'' input))))"

definition openai_to_anthropic_response ::
    "env \<Rightarrow> (nat \<Rightarrow> nat \<Rightarrow> string) \<Rightarrow> members \<Rightarrow> string \<Rightarrow> thrown + members" where
  "openai_to_anthropic_response env ids body requested =
     (case sanitized_record env (Some (JObj body)) of
        Inl e \<Rightarrow> Inl e
      | Inr input \<Rightarrow>
          let choice = as_record (case arr_of ''choices'' input of c # _ \<Rightarrow> Some c | [] \<Rightarrow> None);
              msg = rec_of ''message'' choice;
              txt = str_of ''content'' msg;
              usage = rec_of ''usage'' input;
              cached = num_of ''cached_tokens'' (rec_of ''prompt_tokens_details'' usage);
              prompt = num_of ''prompt_tokens'' usage
          in Inr [(''id'', JStr (text_or (str_of ''id'' input) (''msg_'' @ ids 1 0))), (''type'', JStr ''message''),
               (''role'', JStr ''assistant''), (''model'', JStr (text_or requested (str_of ''model'' input))),
               (''content'', JArr ((if txt \<noteq> [] then [text_part txt] else []) @
                  tool_uses env (ids 0) (arr_of ''tool_calls'' msg))),
               (''stop_reason'', JStr (stop_reason_from_openai (get_field ''finish_reason'' choice))),
               (''stop_sequence'', JNull),
               (''usage'', JObj [(''input_tokens'', JNum (js_max (JFin 0) (js_sub prompt cached))),
                  (''cache_read_input_tokens'', JNum cached),
                  (''output_tokens'', JNum (num_of ''completion_tokens'' usage))])])"

subsection \<open>Streams\<close>

record anthropic_stream =
  an_id :: string
  an_created :: int
  an_model :: string
  an_tools :: "(jsnum \<times> nat) list"
  an_tool_count :: nat
  an_finished :: bool
  an_prompt :: jsnum
  an_cached :: jsnum
  an_cache_write :: jsnum
  an_completion :: jsnum

definition create_anthropic_stream :: "string \<Rightarrow> int \<Rightarrow> string \<Rightarrow> anthropic_stream" where
  "create_anthropic_stream i now model = \<lparr>an_id = i, an_created = now, an_model = model, an_tools = [], an_tool_count = 0,
     an_finished = False, an_prompt = JFin 0, an_cached = JFin 0, an_cache_write = JFin 0, an_completion = JFin 0\<rparr>"

definition chunk_json :: "string \<Rightarrow> int \<Rightarrow> string \<Rightarrow> members \<Rightarrow> json \<Rightarrow> members" where
  "chunk_json i now model delta reason =
     [(''id'', JStr i), (''object'', JStr ''chat.completion.chunk''), (''created'', JNum (js_int now)), (''model'', JStr model),
      (''choices'', JArr [JObj [(''index'', JNum (JFin 0)), (''delta'', JObj delta), (''finish_reason'', reason)]])]"

definition an_chunk :: "anthropic_stream \<Rightarrow> members \<Rightarrow> json \<Rightarrow> members" where
  "an_chunk s delta reason = chunk_json (an_id s) (an_created s) (an_model s) delta reason"

definition tool_start :: "nat \<Rightarrow> string \<Rightarrow> members \<Rightarrow> members" where
  "tool_start index fresh block =
     [(''tool_calls'', JArr [JObj [(''index'', JNum (js_int (int index))),
        (''id'', JStr (text_or (str_of ''id'' block) (''toolu_'' @ fresh))), (''type'', JStr ''function''),
        (''function'', JObj [(''name'', JStr (str_of ''name'' block)), (''arguments'', JStr [])])]])]"

definition tool_fragment :: "nat \<Rightarrow> string \<Rightarrow> members" where
  "tool_fragment index args =
     [(''tool_calls'', JArr [JObj [(''index'', JNum (js_int (int index))), (''function'', JObj [(''arguments'', JStr args)])]])]"

definition block_delta :: "members \<Rightarrow> anthropic_stream \<Rightarrow> members list" where
  "block_delta payload s =
     (let delta = rec_of ''delta'' payload; t = str_of ''type'' delta in
      if t = ''text_delta'' then
        (let x = str_of ''text'' delta in if x = [] then [] else [an_chunk s [(''content'', JStr x)] JNull])
      else if t = ''thinking_delta'' then
        (let x = str_of ''thinking'' delta in if x = [] then [] else [an_chunk s [(''reasoning_content'', JStr x)] JNull])
      else if t = ''input_json_delta'' then
        (case map_of (an_tools s) (num_of ''index'' payload) of
           None \<Rightarrow> []
         | Some i \<Rightarrow> [an_chunk s (tool_fragment i (str_of ''partial_json'' delta)) JNull])
      else [])"

definition stream_error :: "members \<Rightarrow> anthropic_stream \<Rightarrow> members" where
  "stream_error payload s =
     (let e = rec_of ''error'' payload in
      an_chunk s [] (JStr ''error'') @
      [(''error'', JObj [(''message'', JStr (text_or (str_of ''message'' e) ''upstream stream error'')),
          (''type'', JStr (text_or (str_of ''type'' e) ''api_error''))])])"

definition anthropic_handle :: "env \<Rightarrow> string \<Rightarrow> sse_event \<Rightarrow> anthropic_stream \<Rightarrow> members list \<times> anthropic_stream" where
  "anthropic_handle env fresh ev s =
     (let payload = as_record (sse_payload env (se_data ev));
          t = text_or (str_of ''type'' payload) (case se_event ev of Some e \<Rightarrow> e | None \<Rightarrow> [])
      in if t = ''message_start'' then
           (let usage = rec_of ''usage'' (rec_of ''message'' payload) in
            ([an_chunk s [(''role'', JStr ''assistant''), (''content'', JStr [])] JNull],
             s\<lparr>an_prompt := num_of ''input_tokens'' usage, an_cached := num_of ''cache_read_input_tokens'' usage,
               an_cache_write := num_of ''cache_creation_input_tokens'' usage\<rparr>))
         else if t = ''content_block_start'' then
           (let block = rec_of ''content_block'' payload in
            if str_of ''type'' block \<noteq> ''tool_use'' then ([], s)
            else ([an_chunk s (tool_start (an_tool_count s) fresh block) JNull],
                  s\<lparr>an_tools := put (num_of ''index'' payload) (an_tool_count s) (an_tools s),
                    an_tool_count := an_tool_count s + 1\<rparr>))
         else if t = ''content_block_delta'' then (block_delta payload s, s)
         else if t = ''message_delta'' then
           (let usage = rec_of ''usage'' payload;
                s1 = (if get_field ''output_tokens'' usage \<noteq> None
                      then s\<lparr>an_completion := num_of ''output_tokens'' usage\<rparr> else s)
            in case finish_reason_from_anthropic (get_field ''stop_reason'' (rec_of ''delta'' payload)) of
                 None \<Rightarrow> ([], s1)
               | Some r \<Rightarrow> ([an_chunk s [] (JStr r)], s1\<lparr>an_finished := True\<rparr>))
         else if t = ''message_stop'' then ([], s\<lparr>an_finished := True\<rparr>)
         else if t = ''error'' then ([stream_error payload s], s\<lparr>an_finished := True\<rparr>)
         else ([], s))"

definition anthropic_stream_usage :: "anthropic_stream \<Rightarrow> members" where
  "anthropic_stream_usage s =
     (let prompt = js_add (js_add (an_prompt s) (an_cached s)) (an_cache_write s) in
      usage_block prompt (an_completion s) (js_add prompt (an_completion s))
        [(''cached_tokens'', JNum (an_cached s)), (''cache_creation_tokens'', JNum (an_cache_write s))] [])"

end
