(* ===== verification/GeminiDialect.thy ===== *)
theory GeminiDialect
  imports AnthropicDialect
begin

text \<open>
  \<open>src/lib/transform/gemini.ts\<close>: requests and responses in both directions, the narrowing of tool
  schemas, usage, and the translator of a Gemini stream. Random texts and the second are arguments.
\<close>

definition harm_categories :: "string list" where
  "harm_categories = [''HARM_CATEGORY_HARASSMENT'', ''HARM_CATEGORY_HATE_SPEECH'', ''HARM_CATEGORY_SEXUALLY_EXPLICIT'',
     ''HARM_CATEGORY_DANGEROUS_CONTENT'', ''HARM_CATEGORY_CIVIC_INTEGRITY'']"

definition finish_reason_from_gemini :: "json option \<Rightarrow> bool \<Rightarrow> string option" where
  "finish_reason_from_gemini reason has_tool_call =
     (let s = as_string reason [] in
      if s = [] then None
      else if s = ''STOP'' then Some (if has_tool_call then ''tool_calls'' else ''stop'')
      else if s = ''MAX_TOKENS'' then Some ''length''
      else if s \<in> {''SAFETY'', ''RECITATION'', ''BLOCKLIST'', ''PROHIBITED_CONTENT'', ''SPII''} then Some ''content_filter''
      else Some ''stop'')"

definition finish_reason_to_gemini :: "json option \<Rightarrow> string" where
  "finish_reason_to_gemini reason =
     (let s = as_string reason [] in
      if s = ''length'' then ''MAX_TOKENS'' else if s = ''content_filter'' then ''SAFETY'' else ''STOP'')"

subsection \<open>Content\<close>

definition gemini_text :: "string \<Rightarrow> json" where
  "gemini_text s = JObj [(''text'', JStr s)]"

definition gemini_image :: "string \<Rightarrow> json" where
  "gemini_image url = (case data_url url of
      Some (mt, d) \<Rightarrow> JObj [(''inlineData'', JObj [(''mimeType'', JStr mt), (''data'', JStr d)])]
    | None \<Rightarrow> JObj [(''fileData'', JObj [(''mimeType'', JStr ''image/*''), (''fileUri'', JStr url)])])"

definition gemini_part :: "json \<Rightarrow> json list" where
  "gemini_part raw =
     (let part = as_record (Some raw); t = str_of ''type'' part in
      if t = ''text'' then (let s = str_of ''text'' part in if s \<noteq> [] then [gemini_text s] else [])
      else if t = ''image_url'' then
        (let url = str_of ''url'' (rec_of ''image_url'' part) in if url = [] then [] else [gemini_image url])
      else [])"

definition to_gemini_parts :: "json option \<Rightarrow> json list" where
  "to_gemini_parts content =
     (case content of
        Some (JStr s) \<Rightarrow> if s = [] then [] else [gemini_text s]
      | _ \<Rightarrow> concat (map gemini_part (as_array content)))"

definition read_part :: "(nat \<Rightarrow> string) \<Rightarrow> json \<Rightarrow> message_parts \<Rightarrow> message_parts" where
  "read_part ids raw p =
     (let part = as_record (Some raw) in
      if get_field ''functionCall'' part \<noteq> None then
        (let call = rec_of ''functionCall'' part in
         p\<lparr>mp_calls := mp_calls p @ [call_json (''call_'' @ ids (length (mp_calls p))) (str_of ''name'' call)
             (stringify_or_empty (get_field ''args'' call))]\<rparr>)
      else if get_field ''text'' part \<noteq> None then
        (if get_field ''thought'' part = Some (JBool True) then p\<lparr>mp_reasoning := mp_reasoning p @ str_of ''text'' part\<rparr>
         else p\<lparr>mp_text := mp_text p @ str_of ''text'' part\<rparr>)
      else p)"

definition from_gemini_parts :: "(nat \<Rightarrow> string) \<Rightarrow> json option \<Rightarrow> message_parts" where
  "from_gemini_parts ids parts = fold (read_part ids) (as_array parts) \<lparr>mp_text = [], mp_calls = [], mp_reasoning = []\<rparr>"

subsection \<open>Schemas\<close>

definition schema_fields :: "string list" where
  "schema_fields = [''type'', ''format'', ''description'', ''nullable'', ''enum'', ''items'', ''properties'', ''required'']"

definition with_type :: "members \<Rightarrow> members" where
  "with_type ms = (if get_field ''type'' ms = None then ms @ [(''type'', JStr ''object'')] else ms)"

text \<open>The depth is what remains of the limit; below zero nothing is read.\<close>

fun gemini_schema :: "nat \<Rightarrow> json option \<Rightarrow> members" where
  "gemini_schema left schema =
     (case schema of
        Some (JObj ms) \<Rightarrow>
          if left = 0 then [(''type'', JStr ''object'')]
          else with_type (concat (map (\<lambda>(k, v).
            if k \<notin> set schema_fields then []
            else if k = ''properties'' \<and> is_plain_object v then
              [(k, JObj (map (\<lambda>(n, c). (n, JObj (gemini_schema (left - 1) (Some c)))) (as_record (Some v))))]
            else if k = ''items'' then [(k, JObj (gemini_schema (left - 1) (Some v)))]
            else [(k, v)]) ms))
      | _ \<Rightarrow> [(''type'', JStr ''object'')])"

declare gemini_schema.simps [simp del]

text \<open>\<open>depth > maxJsonDepth\<close> ends the walk that starts at 0.\<close>

definition to_gemini_schema :: "env \<Rightarrow> json option \<Rightarrow> members" where
  "to_gemini_schema env schema = gemini_schema (nat (cfg_max_json_depth env + 1)) schema"

definition safety_settings :: "env \<Rightarrow> members" where
  "safety_settings env =
     (if \<not> cfg_gemini_safety_off env then []
      else [(''safetySettings'', JArr (map (\<lambda>c. JObj [(''category'', JStr c), (''threshold'', JStr ''BLOCK_NONE'')]) harm_categories))])"

subsection \<open>Requests\<close>

definition function_call_part :: "env \<Rightarrow> json \<Rightarrow> json" where
  "function_call_part env raw =
     (let fn = rec_of ''function'' (as_record (Some raw)) in
      JObj [(''functionCall'', JObj [(''name'', JStr (str_of ''name'' fn)),
        (''args'', JObj (parse_arguments env (get_field ''arguments'' fn)))])])"

definition function_response_part :: "members \<Rightarrow> json" where
  "function_response_part m =
     JObj [(''functionResponse'', JObj [(''name'', JStr (text_or (str_of ''name'' m) (str_of ''tool_call_id'' m))),
       (''response'', JObj [(''content'', JStr (str_of ''content'' m))])])]"

fun gemini_turns :: "env \<Rightarrow> json list \<Rightarrow> json list \<Rightarrow> turns \<Rightarrow> thrown + json list \<times> turns" where
  "gemini_turns env [] sys ts = Inr (sys, ts)"
| "gemini_turns env (raw # rest) sys ts =
     (let m = as_record (Some raw); role = str_of ''role'' m; parts = to_gemini_parts (get_field ''content'' m) in
      if role \<notin> set openai_roles then Inl (bad_role role)
      else if is_system role then gemini_turns env rest (sys @ parts) ts
      else if is_tool role then gemini_turns env rest sys (append_turn ''user'' [function_response_part m] ts)
      else
        let all = parts @ (if role = ''assistant'' then map (function_call_part env) (arr_of ''tool_calls'' m) else [])
        in gemini_turns env rest sys
             (if all \<noteq> [] then append_turn (if role = ''assistant'' then ''model'' else ''user'') all ts else ts))"

definition generation_config :: "members \<Rightarrow> members" where
  "generation_config input =
     (let mx = num_or (num_of ''max_tokens'' input) (num_of ''max_completion_tokens'' input) in
      given ''temperature'' input number_json ''temperature'' @
      given ''top_p'' input number_json ''topP'' @
      (if js_lt (JFin 0) mx then [(''maxOutputTokens'', JNum mx)] else []) @
      given ''stop'' input stop_list ''stopSequences'' @
      (if str_of ''type'' (rec_of ''response_format'' input) = ''json_object''
       then [(''responseMimeType'', JStr ''application/json'')] else []))"

definition calling_config :: "members \<Rightarrow> members" where
  "calling_config cfg = [(''toolConfig'', JObj [(''functionCallingConfig'', JObj cfg)])]"

definition gemini_tool_choice :: "json option \<Rightarrow> members" where
  "gemini_tool_choice choice =
     (if choice = None then []
      else if choice = Some (JStr ''required'') then calling_config [(''mode'', JStr ''ANY'')]
      else if choice = Some (JStr ''none'') then calling_config [(''mode'', JStr ''NONE'')]
      else if choice = Some (JStr ''auto'') then calling_config [(''mode'', JStr ''AUTO'')]
      else (let name = str_of ''name'' (rec_of ''function'' (as_record choice)) in
          if name \<noteq> [] then calling_config [(''mode'', JStr ''ANY''), (''allowedFunctionNames'', JArr [JStr name])] else []))"

definition gemini_declaration :: "env \<Rightarrow> json \<Rightarrow> json" where
  "gemini_declaration env raw =
     (let fn = rec_of ''function'' (as_record (Some raw)) in
      JObj [(''name'', JStr (str_of ''name'' fn)), (''description'', JStr (str_of ''description'' fn)),
        (''parameters'', JObj (to_gemini_schema env (get_field ''parameters'' fn)))])"

definition openai_to_gemini_request :: "env \<Rightarrow> members \<Rightarrow> thrown + members" where
  "openai_to_gemini_request env body =
     (case sanitized_record env (Some (JObj body)) of
        Inl e \<Rightarrow> Inl e
      | Inr input \<Rightarrow>
          (case gemini_turns env (arr_of ''messages'' input) [] [] of
             Inl e \<Rightarrow> Inl e
           | Inr (sys, ts) \<Rightarrow>
               let generation = generation_config input; tools = arr_of ''tools'' input
               in Inr ([(''contents'', turns_json ''parts'' ts)] @
                       (if sys \<noteq> [] then [(''systemInstruction'', JObj [(''parts'', JArr sys)])] else []) @
                       (if generation \<noteq> [] then [(''generationConfig'', JObj generation)] else []) @
                       (if tools \<noteq> [] then [(''tools'', JArr [JObj [(''functionDeclarations'',
                          JArr (map (gemini_declaration env) tools))]])] else []) @
                       gemini_tool_choice (get_field ''tool_choice'' input) @ safety_settings env)))"

definition function_result_message :: "json \<Rightarrow> json list" where
  "function_result_message raw =
     (let part = as_record (Some raw) in
      if get_field ''functionResponse'' part = None then []
      else (let response = rec_of ''functionResponse'' part in
        [JObj [(''role'', JStr ''tool''), (''tool_call_id'', JStr (str_of ''name'' response)),
           (''name'', JStr (str_of ''name'' response)),
           (''content'', JStr (stringify_or_empty (get_field ''response'' response)))]]))"

definition gemini_turn_message :: "string \<Rightarrow> message_parts \<Rightarrow> json list" where
  "gemini_turn_message role p =
     (if mp_text p = [] \<and> mp_calls p = [] then []
      else [JObj ([(''role'', JStr role), (''content'', if mp_text p = [] then JNull else JStr (mp_text p))] @
            (if mp_calls p \<noteq> [] then [(''tool_calls'', JArr (mp_calls p))] else []))])"

fun messages_of_gemini :: "(nat \<Rightarrow> nat \<Rightarrow> string) \<Rightarrow> nat \<Rightarrow> json list \<Rightarrow> json list \<Rightarrow> thrown + json list" where
  "messages_of_gemini ids i [] out = Inr out"
| "messages_of_gemini ids i (raw # rest) out =
     (let content = as_record (Some raw); role = str_of ''role'' content; parts = get_field ''parts'' content in
      if role \<noteq> [] \<and> role \<noteq> ''user'' \<and> role \<noteq> ''model''
      then Inl (Gateway (invalid_request (''unsupported content role '' @ quoted role) (Some ''contents'')))
      else messages_of_gemini ids (i + 1) rest
        (out @ concat (map function_result_message (as_array parts)) @
         gemini_turn_message (if role = ''model'' then ''assistant'' else ''user'') (from_gemini_parts (ids i) parts)))"

definition gemini_system_message :: "members \<Rightarrow> json list" where
  "gemini_system_message input =
     (let txt = join_with [LF] (filter (\<lambda>t. t \<noteq> [])
            (map (\<lambda>p. str_of ''text'' (as_record (Some p))) (arr_of ''parts'' (rec_of ''systemInstruction'' input))))
      in if txt \<noteq> [] then [JObj [(''role'', JStr ''system''), (''content'', JStr txt)]] else [])"

definition gemini_to_openai_request :: "env \<Rightarrow> (nat \<Rightarrow> nat \<Rightarrow> string) \<Rightarrow> members \<Rightarrow> model_value \<Rightarrow> thrown + members" where
  "gemini_to_openai_request env ids body model =
     (case sanitized_record env (Some (JObj body)) of
        Inl e \<Rightarrow> Inl e
      | Inr input \<Rightarrow>
          (case messages_of_gemini ids 0 (arr_of ''contents'' input) (gemini_system_message input) of
             Inl e \<Rightarrow> Inl e
           | Inr msgs \<Rightarrow>
               let generation = rec_of ''generationConfig'' input;
                   declarations = concat (map (\<lambda>t. arr_of ''functionDeclarations'' (as_record (Some t))) (arr_of ''tools'' input))
               in Inr ((case model_member model of Some j \<Rightarrow> [(''model'', j)] | None \<Rightarrow> []) @
                       [(''messages'', JArr msgs)] @
                       given ''temperature'' generation number_json ''temperature'' @
                       given ''topP'' generation number_json ''top_p'' @
                       given ''maxOutputTokens'' generation number_json ''max_tokens'' @
                       given ''stopSequences'' generation (\<lambda>v. JArr (as_array v)) ''stop'' @
                       (if declarations \<noteq> [] then [(''tools'', JArr (map
                          (openai_tool ''parameters'' (JObj [(''type'', JStr ''object'')])) declarations))] else []))))"

subsection \<open>Responses\<close>

definition usage_from_gemini :: "json option \<Rightarrow> members" where
  "usage_from_gemini raw =
     (let usage = as_record raw;
          prompt = num_of ''promptTokenCount'' usage; cached = num_of ''cachedContentTokenCount'' usage;
          reasoning = num_of ''thoughtsTokenCount'' usage;
          completion = js_add (num_of ''candidatesTokenCount'' usage) reasoning
      in usage_block prompt completion (js_add prompt completion) [(''cached_tokens'', JNum cached)]
           [(''completion_tokens_details'', JObj [(''reasoning_tokens'', JNum reasoning)])])"

definition gemini_choice :: "(nat \<Rightarrow> nat \<Rightarrow> string) \<Rightarrow> nat \<times> json \<Rightarrow> json" where
  "gemini_choice ids x =
     (let candidate = as_record (Some (snd x));
          p = from_gemini_parts (ids (fst x)) (get_field ''parts'' (rec_of ''content'' candidate));
          reason = (case finish_reason_from_gemini (get_field ''finishReason'' candidate) (mp_calls p \<noteq> []) of
              Some r \<Rightarrow> r | None \<Rightarrow> ''stop'')
      in JObj [(''index'', JNum (num_or (num_of ''index'' candidate) (js_int (int (fst x))))),
           (''message'', assistant_message p), (''finish_reason'', JStr reason)])"

definition blocked_choice :: "members \<Rightarrow> json" where
  "blocked_choice input =
     JObj [(''index'', JNum (JFin 0)),
       (''message'', JObj [(''role'', JStr ''assistant''), (''content'', JStr [])]),
       (''finish_reason'', JStr (if str_of ''blockReason'' (rec_of ''promptFeedback'' input) = [] then ''stop'' else ''content_filter''))]"

text \<open>The identifier of the completion is drawn apart from those of the calls.\<close>

definition gemini_to_openai_response ::
    "env \<Rightarrow> int \<Rightarrow> string \<Rightarrow> (nat \<Rightarrow> nat \<Rightarrow> string) \<Rightarrow> json option \<Rightarrow> string \<Rightarrow> thrown + members" where
  "gemini_to_openai_response env now fresh ids body requested =
     (case sanitized_record env body of
        Inl e \<Rightarrow> Inl e
      | Inr input \<Rightarrow>
          let candidates = arr_of ''candidates'' input
          in Inr (completion (''chatcmpl-'' @ fresh) now (text_or requested (str_of ''modelVersion'' input))
               (if candidates = [] then [blocked_choice input] else map (gemini_choice ids) (enumerate 0 candidates))
               (usage_from_gemini (get_field ''usageMetadata'' input))))"

definition gemini_usage_metadata :: "members \<Rightarrow> members" where
  "gemini_usage_metadata usage =
     (let reasoning = num_of ''reasoning_tokens'' (rec_of ''completion_tokens_details'' usage);
          completion = num_of ''completion_tokens'' usage
      in [(''promptTokenCount'', JNum (num_of ''prompt_tokens'' usage)),
          (''candidatesTokenCount'', JNum (js_max (JFin 0) (js_sub completion reasoning))),
          (''thoughtsTokenCount'', JNum reasoning),
          (''totalTokenCount'', JNum (num_of ''total_tokens'' usage)),
          (''cachedContentTokenCount'', JNum (num_of ''cached_tokens'' (rec_of ''prompt_tokens_details'' usage)))])"

definition gemini_candidate :: "env \<Rightarrow> nat \<times> json \<Rightarrow> json" where
  "gemini_candidate env x =
     (let choice = as_record (Some (snd x)); msg = rec_of ''message'' choice; txt = str_of ''content'' msg;
          parts = (if txt \<noteq> [] then [gemini_text txt] else []) @ map (function_call_part env) (arr_of ''tool_calls'' msg)
      in JObj [(''content'', JObj [(''role'', JStr ''model''), (''parts'', JArr parts)]),
           (''finishReason'', JStr (finish_reason_to_gemini (get_field ''finish_reason'' choice))),
           (''index'', JNum (num_or (num_of ''index'' choice) (js_int (int (fst x))))), (''safetyRatings'', JArr [])])"

definition openai_to_gemini_response :: "env \<Rightarrow> members \<Rightarrow> string \<Rightarrow> thrown + members" where
  "openai_to_gemini_response env body requested =
     (case sanitized_record env (Some (JObj body)) of
        Inl e \<Rightarrow> Inl e
      | Inr input \<Rightarrow>
          Inr [(''candidates'', JArr (map (gemini_candidate env) (enumerate 0 (arr_of ''choices'' input)))),
               (''modelVersion'', JStr (text_or requested (str_of ''model'' input))),
               (''usageMetadata'', JObj (gemini_usage_metadata (rec_of ''usage'' input)))])"

subsection \<open>Streams\<close>

record gemini_stream =
  gm_id :: string
  gm_created :: int
  gm_model :: string
  gm_sent_role :: bool
  gm_tool_count :: nat
  gm_finished :: bool
  gm_usage :: members

definition create_gemini_stream :: "string \<Rightarrow> int \<Rightarrow> string \<Rightarrow> gemini_stream" where
  "create_gemini_stream i now model = \<lparr>gm_id = i, gm_created = now, gm_model = model, gm_sent_role = False,
     gm_tool_count = 0, gm_finished = False, gm_usage = []\<rparr>"

definition gm_chunk :: "gemini_stream \<Rightarrow> members \<Rightarrow> json \<Rightarrow> members" where
  "gm_chunk s delta reason = chunk_json (gm_id s) (gm_created s) (gm_model s) delta reason"

definition gemini_handle :: "env \<Rightarrow> (nat \<Rightarrow> string) \<Rightarrow> sse_event \<Rightarrow> gemini_stream \<Rightarrow> members list \<times> gemini_stream" where
  "gemini_handle env ids ev s =
     (let payload = as_record (sse_payload env (se_data ev)) in
      if payload = [] then ([], s)
      else
        let usage = (if get_field ''usageMetadata'' payload \<noteq> None then rec_of ''usageMetadata'' payload else gm_usage s);
            candidate = as_record (case arr_of ''candidates'' payload of c # _ \<Rightarrow> Some c | [] \<Rightarrow> None);
            p = from_gemini_parts ids (get_field ''parts'' (rec_of ''content'' candidate));
            reason = finish_reason_from_gemini (get_field ''finishReason'' candidate) (mp_calls p \<noteq> []);
            calls = map (\<lambda>(j, c). gm_chunk s [(''tool_calls'', JArr [JObj (as_record (Some c) @ [(''index'', JNum (js_int (int j)))])])] JNull)
              (enumerate (gm_tool_count s) (mp_calls p))
        in ((if gm_sent_role s then [] else [gm_chunk s [(''role'', JStr ''assistant''), (''content'', JStr [])] JNull]) @
            (if mp_reasoning p \<noteq> [] then [gm_chunk s [(''reasoning_content'', JStr (mp_reasoning p))] JNull] else []) @
            (if mp_text p \<noteq> [] then [gm_chunk s [(''content'', JStr (mp_text p))] JNull] else []) @ calls @
            (case reason of Some r \<Rightarrow> [gm_chunk s [] (JStr r)] | None \<Rightarrow> []),
            s\<lparr>gm_sent_role := True, gm_tool_count := gm_tool_count s + length (mp_calls p), gm_usage := usage,
              gm_finished := (gm_finished s \<or> reason \<noteq> None)\<rparr>))"

definition gemini_stream_usage :: "gemini_stream \<Rightarrow> members" where
  "gemini_stream_usage s = usage_from_gemini (Some (JObj (gm_usage s)))"

end
