(* ===== verification/Transform.thy ===== *)
theory Transform
  imports GeminiDialect
begin

text \<open>
  The dispatch of \<open>src/lib/transform/index.ts\<close> over the converters, with the OpenAI shape as the form
  in between, and \<open>src/lib/transform/framing.ts\<close>: writing a translated stream in the dialect of the
  client. A translator and a framer are states that each call takes and returns.
\<close>

subsection \<open>Bodies\<close>

definition canonical_request :: "env \<Rightarrow> (nat \<Rightarrow> nat \<Rightarrow> string) \<Rightarrow> dialect \<Rightarrow> members \<Rightarrow> model_value \<Rightarrow> thrown + members" where
  "canonical_request env ids from body model =
     (case from of
        DOpenai \<Rightarrow> Inr body
      | DAnthropic \<Rightarrow> anthropic_to_openai_request env ids body
      | DGemini \<Rightarrow> gemini_to_openai_request env ids body model)"

text \<open>\<open>ids\<close> are the draws of the first conversion, \<open>ids'\<close> those of the second.\<close>

definition transform_request ::
    "env \<Rightarrow> (nat \<Rightarrow> nat \<Rightarrow> string) \<Rightarrow> (nat \<Rightarrow> nat \<Rightarrow> string) \<Rightarrow> dialect \<Rightarrow> dialect \<Rightarrow> members \<Rightarrow> model_value \<Rightarrow> thrown + members" where
  "transform_request env ids ids' from wire body model =
     (case canonical_request env ids from body model of
        Inl e \<Rightarrow> Inl e
      | Inr canonical \<Rightarrow>
          (case wire of
             DOpenai \<Rightarrow> Inr (set_model model canonical)
           | DAnthropic \<Rightarrow>
               (case openai_to_anthropic_request env ids' (set_model model canonical) of
                  Inl e \<Rightarrow> Inl e | Inr out \<Rightarrow> Inr (set_model model out))
           | DGemini \<Rightarrow> openai_to_gemini_request env (set_model model canonical)))"

definition canonical_response ::
    "env \<Rightarrow> int \<Rightarrow> string \<Rightarrow> (nat \<Rightarrow> nat \<Rightarrow> string) \<Rightarrow> dialect \<Rightarrow> json option \<Rightarrow> string \<Rightarrow> thrown + members" where
  "canonical_response env now fresh ids from body requested =
     (case from of
        DOpenai \<Rightarrow> openai_response_passthrough env body requested
      | DAnthropic \<Rightarrow> anthropic_to_openai_response env now ids body requested
      | DGemini \<Rightarrow> gemini_to_openai_response env now fresh ids body requested)"

definition transform_response ::
    "env \<Rightarrow> int \<Rightarrow> string \<Rightarrow> (nat \<Rightarrow> nat \<Rightarrow> string) \<Rightarrow> (nat \<Rightarrow> nat \<Rightarrow> string) \<Rightarrow> dialect \<Rightarrow> dialect \<Rightarrow> json option \<Rightarrow> string \<Rightarrow>
     thrown + members" where
  "transform_response env now fresh ids ids' from wire body requested =
     (case canonical_response env now fresh ids from body requested of
        Inl e \<Rightarrow> Inl e
      | Inr canonical \<Rightarrow>
          (case wire of
             DOpenai \<Rightarrow> Inr canonical
           | DAnthropic \<Rightarrow> openai_to_anthropic_response env ids' canonical requested
           | DGemini \<Rightarrow> openai_to_gemini_response env canonical requested))"

definition usage_from_response ::
    "env \<Rightarrow> int \<Rightarrow> string \<Rightarrow> (nat \<Rightarrow> nat \<Rightarrow> string) \<Rightarrow> dialect \<Rightarrow> json option \<Rightarrow> thrown + members" where
  "usage_from_response env now fresh ids d body =
     (let rec = Some (JObj (as_record body)) in
      case d of
        DAnthropic \<Rightarrow> (case anthropic_to_openai_response env now ids rec [] of
            Inl e \<Rightarrow> Inl e | Inr r \<Rightarrow> Inr (usage_from_openai (get_field ''usage'' r)))
      | DGemini \<Rightarrow> (case gemini_to_openai_response env now fresh ids rec [] of
            Inl e \<Rightarrow> Inl e | Inr r \<Rightarrow> Inr (usage_from_openai (get_field ''usage'' r)))
      | DOpenai \<Rightarrow> Inr (usage_from_openai (get_field ''usage'' (as_record rec))))"

subsection \<open>Translators\<close>

datatype translator = FromOpenaiStream openai_stream | FromAnthropicStream anthropic_stream | FromGeminiStream gemini_stream

definition create_stream_translator :: "dialect \<Rightarrow> string \<Rightarrow> string \<Rightarrow> int \<Rightarrow> bool \<Rightarrow> translator" where
  "create_stream_translator from model i now suppress =
     (case from of
        DAnthropic \<Rightarrow> FromAnthropicStream (create_anthropic_stream i now model)
      | DGemini \<Rightarrow> FromGeminiStream (create_gemini_stream i now model)
      | DOpenai \<Rightarrow> FromOpenaiStream (create_openai_stream model suppress))"

fun translator_handle :: "env \<Rightarrow> (nat \<Rightarrow> string) \<Rightarrow> sse_event \<Rightarrow> translator \<Rightarrow> members list \<times> translator" where
  "translator_handle env ids ev (FromOpenaiStream s) =
     (case openai_handle env ev s of (cs, s') \<Rightarrow> (cs, FromOpenaiStream s'))"
| "translator_handle env ids ev (FromAnthropicStream s) =
     (case anthropic_handle env (ids 0) ev s of (cs, s') \<Rightarrow> (cs, FromAnthropicStream s'))"
| "translator_handle env ids ev (FromGeminiStream s) =
     (case gemini_handle env ids ev s of (cs, s') \<Rightarrow> (cs, FromGeminiStream s'))"

fun translator_usage :: "translator \<Rightarrow> members" where
  "translator_usage (FromOpenaiStream s) = openai_stream_usage s"
| "translator_usage (FromAnthropicStream s) = anthropic_stream_usage s"
| "translator_usage (FromGeminiStream s) = gemini_stream_usage s"

fun translator_done :: "translator \<Rightarrow> bool" where
  "translator_done (FromOpenaiStream s) = os_finished s"
| "translator_done (FromAnthropicStream s) = an_finished s"
| "translator_done (FromGeminiStream s) = gm_finished s"

subsection \<open>Framing\<close>

record delta =
  dl_content :: string
  dl_reasoning :: string
  dl_calls :: "members list"
  dl_finish :: string

definition read_delta :: "members \<Rightarrow> delta" where
  "read_delta chunk =
     (let choice = as_record (case arr_of ''choices'' chunk of c # _ \<Rightarrow> Some c | [] \<Rightarrow> None);
          d = rec_of ''delta'' choice
      in \<lparr>dl_content = str_of ''content'' d, dl_reasoning = str_of ''reasoning_content'' d,
          dl_calls = map (\<lambda>c. as_record (Some c)) (arr_of ''tool_calls'' d), dl_finish = str_of ''finish_reason'' choice\<rparr>)"

record anthropic_framer =
  af_id :: string
  af_model :: string
  af_tools :: "(jsnum \<times> nat) list"
  af_next :: nat
  af_text :: "nat option"
  af_stop :: string
  af_closed :: bool

datatype framer = OpenaiFramer | GeminiFramer bool | AnthropicFramer anthropic_framer

definition data_event :: "members \<Rightarrow> string" where
  "data_event ms = format_sse (data_frame (json_stringify (JObj ms)) None)"

definition named_event :: "string \<Rightarrow> members \<Rightarrow> string" where
  "named_event event payload =
     format_sse (data_frame (json_stringify (JObj ((''type'', JStr event) # payload))) (Some event))"

definition create_client_framer :: "dialect \<Rightarrow> string \<Rightarrow> string \<Rightarrow> framer" where
  "create_client_framer d model i =
     (case d of
        DAnthropic \<Rightarrow> AnthropicFramer \<lparr>af_id = i, af_model = model, af_tools = [], af_next = 0, af_text = None,
          af_stop = ''end_turn'', af_closed = False\<rparr>
      | DGemini \<Rightarrow> GeminiFramer False
      | DOpenai \<Rightarrow> OpenaiFramer)"

definition message_start :: "anthropic_framer \<Rightarrow> string" where
  "message_start f = named_event ''message_start'' [(''message'', JObj
     [(''id'', JStr (af_id f)), (''type'', JStr ''message''), (''role'', JStr ''assistant''), (''model'', JStr (af_model f)),
      (''content'', JArr []), (''stop_reason'', JNull), (''stop_sequence'', JNull),
      (''usage'', JObj [(''input_tokens'', JNum (JFin 0)), (''output_tokens'', JNum (JFin 0))])])]"

fun framer_start :: "framer \<Rightarrow> string" where
  "framer_start (AnthropicFramer f) = message_start f"
| "framer_start _ = []"

definition gemini_call_part :: "members \<Rightarrow> json list" where
  "gemini_call_part call =
     (let fn = rec_of ''function'' call; name = str_of ''name'' fn in
      if name = [] then []
      else [JObj [(''functionCall'', JObj [(''name'', JStr name),
             (''args'', case json_parse (text_or (str_of ''arguments'' fn) ''{}'') of Some j \<Rightarrow> j | None \<Rightarrow> JObj [])])]])"

definition gemini_frame :: "members \<Rightarrow> bool \<Rightarrow> string \<times> bool" where
  "gemini_frame chunk saw_finish =
     (let d = read_delta chunk;
          parts = (if dl_reasoning d \<noteq> [] then [JObj [(''text'', JStr (dl_reasoning d)), (''thought'', JBool True)]] else []) @
            (if dl_content d \<noteq> [] then [gemini_text (dl_content d)] else []) @ concat (map gemini_call_part (dl_calls d))
      in if parts = [] \<and> dl_finish d = [] then ([], saw_finish)
         else (data_event [(''candidates'', JArr [JObj ([(''content'', JObj [(''role'', JStr ''model''), (''parts'', JArr parts)]),
                 (''index'', JNum (JFin 0))] @
                 (if dl_finish d \<noteq> [] then [(''finishReason'', JStr (finish_reason_to_gemini (Some (JStr (dl_finish d)))))] else []))])],
               saw_finish \<or> dl_finish d \<noteq> []))"

definition block_start :: "nat \<Rightarrow> members \<Rightarrow> string" where
  "block_start i block = named_event ''content_block_start'' [(''index'', JNum (js_int (int i))), (''content_block'', JObj block)]"

definition delta_frame :: "nat \<Rightarrow> members \<Rightarrow> string" where
  "delta_frame i d = named_event ''content_block_delta'' [(''index'', JNum (js_int (int i))), (''delta'', JObj d)]"

definition frame_text :: "string \<Rightarrow> anthropic_framer \<Rightarrow> string \<times> anthropic_framer" where
  "frame_text content f =
     (if content = [] then ([], f)
      else (case af_text f of
          Some i \<Rightarrow> (delta_frame i [(''type'', JStr ''text_delta''), (''text'', JStr content)], f)
        | None \<Rightarrow>
            let i = af_next f in
            (block_start i [(''type'', JStr ''text''), (''text'', JStr [])] @
             delta_frame i [(''type'', JStr ''text_delta''), (''text'', JStr content)],
             f\<lparr>af_text := Some i, af_next := i + 1\<rparr>)))"

definition frame_call :: "string \<Rightarrow> members \<Rightarrow> anthropic_framer \<Rightarrow> string \<times> anthropic_framer" where
  "frame_call fresh call f =
     (let index = num_of ''index'' call; fn = rec_of ''function'' call; partial = str_of ''arguments'' fn;
          tail = (\<lambda>i. if partial \<noteq> [] then delta_frame i [(''type'', JStr ''input_json_delta''), (''partial_json'', JStr partial)] else [])
      in case map_of (af_tools f) index of
           Some i \<Rightarrow> (tail i, f)
         | None \<Rightarrow>
             let i = af_next f in
             (block_start i [(''type'', JStr ''tool_use''), (''id'', JStr (text_or (str_of ''id'' call) (''toolu_'' @ fresh))),
                (''name'', JStr (str_of ''name'' fn)), (''input'', JObj [])] @ tail i,
              f\<lparr>af_tools := af_tools f @ [(index, i)], af_next := i + 1\<rparr>))"

fun frame_calls :: "(nat \<Rightarrow> string) \<Rightarrow> nat \<Rightarrow> members list \<Rightarrow> anthropic_framer \<Rightarrow> string \<times> anthropic_framer" where
  "frame_calls ids j [] f = ([], f)"
| "frame_calls ids j (c # cs) f =
     (case frame_call (ids j) c f of (out, f1) \<Rightarrow> (case frame_calls ids (j + 1) cs f1 of (out', f2) \<Rightarrow> (out @ out', f2)))"

definition anthropic_frames :: "(nat \<Rightarrow> string) \<Rightarrow> members \<Rightarrow> anthropic_framer \<Rightarrow> string \<times> anthropic_framer" where
  "anthropic_frames ids chunk f =
     (let d = read_delta chunk in
      case frame_text (dl_content d) f of (out1, f1) \<Rightarrow>
        (case frame_calls ids 0 (dl_calls d) f1 of (out2, f2) \<Rightarrow>
          (out1 @ out2, if dl_finish d \<noteq> [] then f2\<lparr>af_stop := stop_reason_from_openai (Some (JStr (dl_finish d)))\<rparr> else f2)))"

fun framer_chunk :: "(nat \<Rightarrow> string) \<Rightarrow> members \<Rightarrow> framer \<Rightarrow> string \<times> framer" where
  "framer_chunk ids chunk OpenaiFramer = (data_event chunk, OpenaiFramer)"
| "framer_chunk ids chunk (GeminiFramer saw) = (case gemini_frame chunk saw of (out, saw') \<Rightarrow> (out, GeminiFramer saw'))"
| "framer_chunk ids chunk (AnthropicFramer f) = (case anthropic_frames ids chunk f of (out, f') \<Rightarrow> (out, AnthropicFramer f'))"

definition gemini_finish :: "bool \<Rightarrow> members option \<Rightarrow> string" where
  "gemini_finish saw usage =
     (let payload = (if saw then [] else [(''candidates'', JArr [JObj [(''content'', JObj [(''role'', JStr ''model''), (''parts'', JArr [])]),
              (''finishReason'', JStr ''STOP''), (''index'', JNum (JFin 0))]])]) @
            (case usage of None \<Rightarrow> [] | Some u \<Rightarrow> [(''usageMetadata'', JObj (gemini_usage_metadata u))])
      in if payload = [] then [] else data_event payload)"

definition open_blocks :: "anthropic_framer \<Rightarrow> nat list" where
  "open_blocks f = rev (sort (map snd (af_tools f) @ (case af_text f of Some i \<Rightarrow> [i] | None \<Rightarrow> [])))"

definition anthropic_finish :: "members option \<Rightarrow> anthropic_framer \<Rightarrow> string \<times> anthropic_framer" where
  "anthropic_finish usage f =
     (if af_closed f then ([], f)
      else (concat (map (\<lambda>i. named_event ''content_block_stop'' [(''index'', JNum (js_int (int i)))]) (open_blocks f)) @
            named_event ''message_delta'' [(''delta'', JObj [(''stop_reason'', JStr (af_stop f)), (''stop_sequence'', JNull)]),
              (''usage'', JObj [(''output_tokens'', JNum (case usage of Some u \<Rightarrow> num_of ''completion_tokens'' u | None \<Rightarrow> JFin 0))])] @
            named_event ''message_stop'' [],
            f\<lparr>af_closed := True\<rparr>))"

fun framer_finish :: "members option \<Rightarrow> framer \<Rightarrow> string \<times> framer" where
  "framer_finish usage OpenaiFramer = (sse_done, OpenaiFramer)"
| "framer_finish usage (GeminiFramer saw) = (gemini_finish saw usage, GeminiFramer saw)"
| "framer_finish usage (AnthropicFramer f) = (case anthropic_finish usage f of (out, f') \<Rightarrow> (out, AnthropicFramer f'))"

end
