(* ===== verification/TransformLaws.thy ===== *)
theory TransformLaws
  imports Transform SseLaws BillingLaws
begin

text \<open>
  What the converters guarantee: instructions stay instructions, turns alternate, a client sees the
  model it asked for, the frames of a stream are read back as what was framed and form a
  well-bracketed message; and one thing they lose, the price of a cache write in a stream.
\<close>

subsection \<open>Roles\<close>

abbreviation role_in :: "json \<Rightarrow> string" where
  "role_in m \<equiv> str_of ''role'' (as_record (Some m))"

abbreviation content_in :: "json \<Rightarrow> json option" where
  "content_in m \<equiv> get_field ''content'' (as_record (Some m))"

definition system_parts :: "(json option \<Rightarrow> json list) \<Rightarrow> json list \<Rightarrow> json list" where
  "system_parts f ms = concat (map (\<lambda>m. f (content_in m)) (filter (\<lambda>m. is_system (role_in m)) ms))"

definition alternating :: "string list \<Rightarrow> turns \<Rightarrow> bool" where
  "alternating roles ts \<longleftrightarrow> successively (\<lambda>a b. fst a \<noteq> fst b) ts \<and> list_all (\<lambda>t. fst t \<in> set roles) ts"

lemma alternating_append_turn:
  assumes "alternating roles ts" "role \<in> set roles"
  shows "alternating roles (append_turn role blocks ts)"
proof (cases "ts = []")
  case False
  then obtain us t where ts: "ts = us @ [t]" by (cases ts rule: rev_cases) auto
  with assms show ?thesis
    by (auto simp: alternating_def append_turn_def successively_append_iff)
qed (use assms in \<open>simp add: alternating_def append_turn_def\<close>)

lemma anthropic_turns_structure:
  "anthropic_turns env ids i ms sys ts = Inr (sys', ts') \<Longrightarrow> alternating [''user'', ''assistant''] ts \<Longrightarrow>
   sys' = sys @ system_parts to_anthropic_blocks ms \<and> alternating [''user'', ''assistant''] ts'"
proof (induction env ids i ms sys ts rule: anthropic_turns.induct)
  case (2 env ids i raw rest sys ts)
  then show ?case
    by (auto simp: Let_def system_parts_def openai_roles_def is_system_def is_tool_def alternating_append_turn split: if_splits)
qed (simp add: system_parts_def)

lemma gemini_turns_structure:
  "gemini_turns env ms sys ts = Inr (sys', ts') \<Longrightarrow> alternating [''user'', ''model''] ts \<Longrightarrow>
   sys' = sys @ system_parts to_gemini_parts ms \<and> alternating [''user'', ''model''] ts'"
proof (induction env ms sys ts rule: gemini_turns.induct)
  case (2 env raw rest sys ts)
  then show ?case
    by (auto simp: Let_def system_parts_def openai_roles_def is_system_def is_tool_def alternating_append_turn split: if_splits)
qed (simp add: system_parts_def)

lemma get_append [simp]: "get_field k (a @ b) = (case get_field k a of Some v \<Rightarrow> Some v | None \<Rightarrow> get_field k b)"
  by (simp add: get_field_def map_add_def split: option.splits)

lemma get_Cons [simp]: "get_field k ((k', v) # ms) = (if k = k' then Some v else get_field k ms)"
  by (simp add: get_field_def)

lemma get_Nil [simp]: "get_field k [] = None"
  by (simp add: get_field_def)

lemma get_given [simp]: "get_field k (given k1 ms f k2) = (if k = k2 then map_option (\<lambda>v. f (Some v)) (get_field k1 ms) else None)"
  by (simp add: given_def split: option.splits)

lemma get_remove_field [simp]: "get_field k (remove_field k' ms) = (if k = k' then None else get_field k ms)"
  by (induction ms) (auto simp: remove_field_def)

lemma get_set_model [simp]: "k \<noteq> ''model'' \<Longrightarrow> get_field k (set_model m ms) = get_field k ms"
  by (simp add: set_model_def split: option.splits)

text \<open>Where each provider keeps its instructions and its turns.\<close>

definition instructions :: "dialect \<Rightarrow> members \<Rightarrow> json list" where
  "instructions d out = (if d = DGemini then arr_of ''parts'' (rec_of ''systemInstruction'' out) else arr_of ''system'' out)"

definition turns_of :: "dialect \<Rightarrow> turns \<Rightarrow> string \<times> json" where
  "turns_of d ts = (if d = DGemini then (''contents'', turns_json ''parts'' ts) else (''messages'', turns_json ''content'' ts))"

lemma anthropic_request_roles:
  assumes "openai_to_anthropic_request env ids body = Inr out" "sanitized_record env (Some (JObj body)) = Inr input"
  shows "arr_of ''system'' out = system_parts to_anthropic_blocks (arr_of ''messages'' input) \<and>
    (\<exists>ts. get_field ''messages'' out = Some (turns_json ''content'' ts) \<and> alternating [''user'', ''assistant''] ts)"
proof -
  obtain sys ts where t: "anthropic_turns env ids 0 (arr_of ''messages'' input) [] [] = Inr (sys, ts)"
    using assms by (auto simp: openai_to_anthropic_request_def split: sum.splits)
  have "sys = system_parts to_anthropic_blocks (arr_of ''messages'' input) \<and> alternating [''user'', ''assistant''] ts"
    using anthropic_turns_structure [OF t] by (simp add: alternating_def)
  then show ?thesis using assms t
    by (auto simp: openai_to_anthropic_request_def Let_def split: option.splits)
qed

lemma gemini_request_roles:
  assumes "openai_to_gemini_request env body = Inr out" "sanitized_record env (Some (JObj body)) = Inr input"
  shows "arr_of ''parts'' (rec_of ''systemInstruction'' out) = system_parts to_gemini_parts (arr_of ''messages'' input) \<and>
    (\<exists>ts. get_field ''contents'' out = Some (turns_json ''parts'' ts) \<and> alternating [''user'', ''model''] ts)"
proof -
  obtain sys ts where t: "gemini_turns env (arr_of ''messages'' input) [] [] = Inr (sys, ts)"
    using assms by (auto simp: openai_to_gemini_request_def split: sum.splits)
  have "sys = system_parts to_gemini_parts (arr_of ''messages'' input) \<and> alternating [''user'', ''model''] ts"
    using gemini_turns_structure [OF t] by (simp add: alternating_def)
  then show ?thesis using assms t
    by (auto simp: openai_to_gemini_request_def gemini_tool_choice_def calling_config_def safety_settings_def Let_def split: option.splits)
qed


definition sample_chat :: members where
  "sample_chat = [(''messages'', JArr [JObj [(''role'', JStr ''system''), (''content'', JStr ''Be kind'')],
     JObj [(''role'', JStr ''user''), (''content'', JStr ''Hi'')]])]"

lemma sample_chat_read: "sanitized_record (\<lambda>_. None) (Some (JObj (set_model (ModelName ''m'') sample_chat))) =
    Inr (sample_chat @ [(''model'', JStr ''m'')])"
  by code_simp

lemma sample_chat_converts: "\<exists>out. transform_request (\<lambda>_. None) (\<lambda>_ _. ''r'') (\<lambda>_ _. ''r'') DOpenai DAnthropic sample_chat (ModelName ''m'') = Inr out"
proof -
  have "\<not> isl (transform_request (\<lambda>_. None) (\<lambda>_ _. ''r'') (\<lambda>_ _. ''r'') DOpenai DAnthropic sample_chat (ModelName ''m''))"
    by code_simp
  then show ?thesis by (metis sum.collapse(2))
qed


subsection \<open>Model names\<close>

fun translator_model :: "translator \<Rightarrow> string" where
  "translator_model (FromOpenaiStream s) = os_model s"
| "translator_model (FromAnthropicStream s) = an_model s"
| "translator_model (FromGeminiStream s) = gm_model s"

fun translate_all :: "env \<Rightarrow> (nat \<Rightarrow> nat \<Rightarrow> string) \<Rightarrow> nat \<Rightarrow> sse_event list \<Rightarrow> translator \<Rightarrow> members list \<times> translator" where
  "translate_all env ids i [] t = ([], t)"
| "translate_all env ids i (ev # evs) t =
     (case translator_handle env (ids i) ev t of (cs, t1) \<Rightarrow>
       (case translate_all env ids (i + 1) evs t1 of (cs', t2) \<Rightarrow> (cs @ cs', t2)))"

abbreviation names_model :: "string \<Rightarrow> members \<Rightarrow> bool" where
  "names_model m c \<equiv> get_field ''model'' c = Some (JStr m)"

lemma chunk_json_model [simp]: "names_model m (chunk_json i now m d r)"
  by (simp add: chunk_json_def)

lemma openai_handle_model: "openai_handle env ev s = (cs, s') \<Longrightarrow> list_all (names_model (os_model s)) cs \<and> os_model s' = os_model s"
  by (auto simp: openai_handle_def Let_def split: if_splits option.splits json.splits)

lemma block_delta_model: "list_all (names_model (an_model s)) (block_delta p s)"
  by (auto simp: block_delta_def an_chunk_def Let_def split: option.splits)

lemma an_chunk_model: "names_model (an_model s) (an_chunk s d r)"
  by (simp add: an_chunk_def)

lemma stream_error_model: "names_model (an_model s) (stream_error p s)"
  by (simp add: stream_error_def an_chunk_model Let_def)

lemma anthropic_handle_model:
  "anthropic_handle env f ev s = (cs, s') \<Longrightarrow> list_all (names_model (an_model s)) cs \<and> an_model s' = an_model s"
  unfolding anthropic_handle_def Let_def
  by (auto simp: block_delta_model stream_error_model an_chunk_model split: if_splits option.splits)

lemma gemini_handle_model:
  "gemini_handle env f ev s = (cs, s') \<Longrightarrow> list_all (names_model (gm_model s)) cs \<and> gm_model s' = gm_model s"
  by (auto simp: gemini_handle_def gm_chunk_def Let_def list_all_iff split: if_splits option.splits)

lemma translator_handle_model:
  "translator_handle env ids ev t = (cs, t') \<Longrightarrow> list_all (names_model (translator_model t)) cs \<and> translator_model t' = translator_model t"
  by (cases t) (auto split: prod.splits dest: openai_handle_model anthropic_handle_model gemini_handle_model)

lemma translate_all_model:
  "translate_all env ids i evs t = (cs, t') \<Longrightarrow> list_all (names_model (translator_model t)) cs"
proof (induction evs arbitrary: i t cs t')
  case (Cons ev evs)
  obtain c1 t1 where h: "translator_handle env (ids i) ev t = (c1, t1)" by fastforce
  obtain c2 t2 where r: "translate_all env ids (i + 1) evs t1 = (c2, t2)" by fastforce
  show ?case using Cons.prems translator_handle_model [OF h] Cons.IH [OF r] h r by auto
qed simp

lemma passthrough_model:
  "openai_response_passthrough env body m = Inr out \<Longrightarrow> m \<noteq> [] \<Longrightarrow> names_model m out"
  by (auto simp: openai_response_passthrough_def split: sum.splits)

lemma canonical_model:
  "canonical_response env now f ids d body m = Inr out \<Longrightarrow> m \<noteq> [] \<Longrightarrow> names_model m out"
  by (cases d) (auto simp: canonical_response_def passthrough_model anthropic_to_openai_response_def gemini_to_openai_response_def
      completion_def text_or_def Let_def split: sum.splits)

text \<open>C25: the mapping a channel applies is never disclosed: in every pair of dialects, a buffered response names
  the model the client asked for, and so does every chunk of a stream, whatever name the provider
  reports.\<close>
theorem client_sees_its_own_model:
  assumes "m \<noteq> []" "transform_response env now f ids ids' wire client body m = Inr out"
    "translate_all env idss 0 evs (create_stream_translator wire m i now' suppress) = (cs, t)"
  shows "get_field (if client = DGemini then ''modelVersion'' else ''model'') out = Some (JStr m) \<and>
    list_all (\<lambda>c. get_field ''model'' c = Some (JStr m)) cs"
proof
  obtain c where c: "canonical_response env now f ids wire body m = Inr c"
    using assms(2) by (auto simp: transform_response_def split: sum.splits)
  from canonical_model [OF c assms(1)] assms show "get_field (if client = DGemini then ''modelVersion'' else ''model'') out = Some (JStr m)"
    by (cases client) (auto simp: transform_response_def c openai_to_anthropic_response_def openai_to_gemini_response_def
        text_or_def Let_def split: sum.splits)
  have "translator_model (create_stream_translator wire m i now' suppress) = m"
    by (cases wire) (simp_all add: create_stream_translator_def create_openai_stream_def create_anthropic_stream_def create_gemini_stream_def)
  with translate_all_model [OF assms(3)] show "list_all (\<lambda>c. get_field ''model'' c = Some (JStr m)) cs" by simp
qed

theorem client_sees_its_own_model_witness:
  "\<exists>out. transform_response (\<lambda>_. None) 0 ''f'' (\<lambda>_ _. ''r'') (\<lambda>_ _. ''r'') DOpenai DAnthropic
      (Some (JObj [(''model'', JStr ''mapped''), (''choices'', JArr [])])) ''m'' = Inr out \<and> get_field ''model'' out = Some (JStr ''m'')"
proof -
  let ?r = "transform_response (\<lambda>_. None) 0 ''f'' (\<lambda>_ _. ''r'') (\<lambda>_ _. ''r'') DOpenai DAnthropic
      (Some (JObj [(''model'', JStr ''mapped''), (''choices'', JArr [])])) ''m''"
  have "\<not> isl ?r" by code_simp
  then obtain out where o: "?r = Inr out" by (metis sum.collapse(2))
  obtain cs t where t: "translate_all (\<lambda>_. None) (\<lambda>_ _. ''r'') 0
      [\<lparr>se_event = None, se_data = ''{}'', se_id = None, se_retry = None, se_comment = None\<rparr>]
      (create_stream_translator DOpenai ''m'' ''i'' 0 False) = (cs, t)" by fastforce
  from client_sees_its_own_model [OF _ o t] o show ?thesis by simp
qed

subsection \<open>Cache writes in a stream\<close>

text \<open>What Anthropic reports for \<open>i\<close> new, \<open>r\<close> cached and \<open>w\<close> written prompt tokens and \<open>n\<close> output tokens.\<close>

definition anthropic_usage_report :: "int \<Rightarrow> int \<Rightarrow> int \<Rightarrow> int \<Rightarrow> members" where
  "anthropic_usage_report i r w n = [(''input_tokens'', JNum (js_int i)), (''cache_read_input_tokens'', JNum (js_int r)),
     (''cache_creation_input_tokens'', JNum (js_int w)), (''output_tokens'', JNum (js_int n))]"

text \<open>A stream whose events carried the same counts.\<close>

definition streamed :: "int \<Rightarrow> int \<Rightarrow> int \<Rightarrow> int \<Rightarrow> anthropic_stream \<Rightarrow> bool" where
  "streamed i r w n s \<longleftrightarrow> an_prompt s = js_int i \<and> an_cached s = js_int r \<and> an_cache_write s = js_int w \<and> an_completion s = js_int n"

lemma js_int_sum: "JFin (of_int a + of_int b) = js_int (a + b)"
  by simp

lemma buffered_usage:
  "0 \<le> i \<Longrightarrow> 0 \<le> r \<Longrightarrow> 0 \<le> w \<Longrightarrow> 0 \<le> n \<Longrightarrow>
   normalize_usage (Some (JObj (anthropic_usage_report i r w n))) b =
     empty_usage\<lparr>nu_prompt := i + r + w, nu_completion := n, nu_cached := r, nu_write_5m := w, nu_write_1h := 0\<rparr>"
  by (simp add: normalize_usage_def detect_usage_shape_def has_field_def anthropic_usage_report_def from_anthropic_def Let_def)

lemma streamed_usage:
  assumes "streamed i r w n s" "0 \<le> i" "0 \<le> r" "0 \<le> w" "0 \<le> n"
  shows "normalize_usage (Some (JObj (anthropic_stream_usage s))) b =
     empty_usage\<lparr>nu_prompt := i + r + w, nu_completion := n, nu_cached := r\<rparr>"
  using assms token_count_int [of "i + r + w"]
  by (simp add: streamed_def anthropic_stream_usage_def usage_block_def normalize_usage_def detect_usage_shape_def has_field_def
      from_openai_def Let_def empty_usage_def)

text \<open>A stream loses the price of a cache write: for the same work reported by Anthropic, the buffered
  response charges the tokens written to the cache at their own ratio, the stream at the plain input ratio,
  because its usage is passed on in the OpenAI shape, which the reader of that shape knows no cache
  writes in. The prompt of a stream is cheaper by \<open>w * (ratio - 1)\<close> units.\<close>
theorem streamed_cache_writes_lose_their_price:
  assumes "streamed i r w n s" "0 \<le> i" "0 \<le> r" "0 \<le> w" "0 \<le> n"
  shows "qb_prompt_units (compute_quota env (normalize_usage (Some (JObj (anthropic_stream_usage s))) b) p g m) =
    qb_prompt_units (compute_quota env (normalize_usage (Some (JObj (anthropic_usage_report i r w n))) b) p g m) -
    of_int w * (rp_cache_write_5m_ratio p - 1)"
  unfolding streamed_usage [OF assms] buffered_usage [OF assms(2-5)]
  using assms by (simp add: compute_quota_def empty_usage_def Let_def algebra_simps)

theorem streamed_cache_writes_lose_their_price_witness:
  "\<exists>s. qb_prompt_units (compute_quota (\<lambda>_. None) (normalize_usage (Some (JObj (anthropic_stream_usage s))) False) sample_price 1 ''m'') =
    qb_prompt_units (compute_quota (\<lambda>_. None) (normalize_usage (Some (JObj (anthropic_usage_report 10 0 900 5))) False) sample_price 1 ''m'') -
    900 * (rp_cache_write_5m_ratio sample_price - 1)"
proof -
  let ?s = "create_anthropic_stream ''i'' 0 ''m''\<lparr>an_prompt := JFin 10, an_cache_write := JFin 900, an_completion := JFin 5\<rparr>"
  have "streamed 10 0 900 5 ?s" by (simp add: streamed_def create_anthropic_stream_def)
  from streamed_cache_writes_lose_their_price [OF this, of "\<lambda>_. None" False sample_price 1 "''m''"] show ?thesis
    by (intro exI [of _ ?s]) simp
qed

end
