(* ===== verification/FramingLaws.thy ===== *)
theory FramingLaws
  imports Transform SseLaws "HOL-Library.Multiset"
begin

text \<open>
  What a client is sent for a stream. An Anthropic client gets one complete message of its protocol,
  followed here event by event with the blocks that are open; an OpenAI client reads back exactly the
  chunks that were framed.
\<close>

subsection \<open>The Anthropic message protocol\<close>

datatype message_event = MessageStart members | BlockStart nat members | BlockDelta nat members | BlockStop nat
  | MessageDelta members members | MessageStop

fun event_frame :: "message_event \<Rightarrow> string" where
  "event_frame (MessageStart m) = named_event ''message_start'' [(''message'', JObj m)]"
| "event_frame (BlockStart i b) = named_event ''content_block_start'' [(''index'', JNum (js_int (int i))), (''content_block'', JObj b)]"
| "event_frame (BlockDelta i d) = named_event ''content_block_delta'' [(''index'', JNum (js_int (int i))), (''delta'', JObj d)]"
| "event_frame (BlockStop i) = named_event ''content_block_stop'' [(''index'', JNum (js_int (int i)))]"
| "event_frame (MessageDelta d u) = named_event ''message_delta'' [(''delta'', JObj d), (''usage'', JObj u)]"
| "event_frame MessageStop = named_event ''message_stop'' []"

text \<open>A message, as a reader of the protocol follows it: which index the next block must have and which
  blocks are open.\<close>

datatype message_state = Unstarted | Writing nat "nat set" | Closing | Ended

fun message_step :: "message_event \<Rightarrow> message_state \<Rightarrow> message_state option" where
  "message_step (MessageStart m) Unstarted = Some (Writing 0 {})"
| "message_step (BlockStart i b) (Writing n bs) = (if i = n then Some (Writing (n + 1) (insert i bs)) else None)"
| "message_step (BlockDelta i d) (Writing n bs) = (if i \<in> bs then Some (Writing n bs) else None)"
| "message_step (BlockStop i) (Writing n bs) = (if i \<in> bs then Some (Writing n (bs - {i})) else None)"
| "message_step (MessageDelta d u) (Writing n bs) = (if bs = {} then Some Closing else None)"
| "message_step MessageStop Closing = Some Ended"
| "message_step _ _ = None"

fun message_run :: "message_event list \<Rightarrow> message_state \<Rightarrow> message_state option" where
  "message_run [] s = Some s"
| "message_run (e # es) s = (case message_step e s of Some s' \<Rightarrow> message_run es s' | None \<Rightarrow> None)"

fun event_text :: "message_event \<Rightarrow> string" where
  "event_text (BlockDelta i d) = str_of ''text'' d"
| "event_text _ = []"

lemma message_run_append: "message_run es s = Some s' \<Longrightarrow> message_run (es @ es') s = message_run es' s'"
  by (induction es arbitrary: s) (auto split: option.splits)

subsection \<open>The framer writes it\<close>

definition framer_blocks :: "anthropic_framer \<Rightarrow> nat list" where
  "framer_blocks f = map snd (af_tools f) @ (case af_text f of Some i \<Rightarrow> [i] | None \<Rightarrow> [])"

definition framer_ok :: "anthropic_framer \<Rightarrow> bool" where
  "framer_ok f \<longleftrightarrow> distinct (framer_blocks f) \<and> (\<forall>i \<in> set (framer_blocks f). i < af_next f) \<and> \<not> af_closed f"

abbreviation writing :: "anthropic_framer \<Rightarrow> message_state" where
  "writing f \<equiv> Writing (af_next f) (set (framer_blocks f))"

definition writes :: "anthropic_framer \<Rightarrow> string \<Rightarrow> string \<Rightarrow> anthropic_framer \<Rightarrow> bool" where
  "writes f out txt f' \<longleftrightarrow> framer_ok f' \<and> (\<exists>es. out = concat (map event_frame es) \<and>
     message_run es (writing f) = Some (writing f') \<and> concat (map event_text es) = txt)"

lemma writesI:
  "framer_ok f' \<Longrightarrow> out = concat (map event_frame es) \<Longrightarrow> message_run es (writing f) = Some (writing f') \<Longrightarrow>
   concat (map event_text es) = txt \<Longrightarrow> writes f out txt f'"
  unfolding writes_def by blast

lemma writes_trans: "writes f a t f1 \<Longrightarrow> writes f1 b u f2 \<Longrightarrow> writes f (a @ b) (t @ u) f2"
proof -
  assume "writes f a t f1" "writes f1 b u f2"
  then obtain es es' where "framer_ok f2" "a = concat (map event_frame es)" "b = concat (map event_frame es')"
    "message_run es (writing f) = Some (writing f1)" "message_run es' (writing f1) = Some (writing f2)"
    "t = concat (map event_text es)" "u = concat (map event_text es')"
    unfolding writes_def by blast
  then show ?thesis by (intro writesI [where es = "es @ es'"]) (simp_all add: message_run_append)
qed

lemma writes_nothing: "framer_ok f \<Longrightarrow> writes f [] [] f"
  by (rule writesI [where es = "[]"]) simp_all

definition opened_in :: "nat \<Rightarrow> anthropic_framer \<Rightarrow> anthropic_framer \<Rightarrow> bool" where
  "opened_in i f f' \<longleftrightarrow> i = af_next f \<and> af_next f' = i + 1 \<and> af_closed f' = af_closed f \<and>
     mset (framer_blocks f') = mset (i # framer_blocks f)"

lemma opened_in_ok:
  assumes "framer_ok f" "opened_in i f f'"
  shows "framer_ok f'" "set (framer_blocks f') = insert i (set (framer_blocks f))"
proof -
  have m: "mset (framer_blocks f') = mset (i # framer_blocks f)" using assms(2) by (simp add: opened_in_def)
  then show s: "set (framer_blocks f') = insert i (set (framer_blocks f))" using mset_eq_setD [OF m] by simp
  have n: "i = af_next f" "af_next f' = Suc i" "af_closed f' = af_closed f" using assms(2) by (simp_all add: opened_in_def)
  have below: "j < i" if "j \<in> set (framer_blocks f)" for j using that assms(1) n by (simp add: framer_ok_def)
  then have "i \<notin> set (framer_blocks f)" by blast
  then have "distinct (i # framer_blocks f)" using assms(1) by (simp add: framer_ok_def)
  then have "distinct (framer_blocks f')" using mset_eq_imp_distinct_iff [OF m] by simp
  moreover have "\<forall>j \<in> set (framer_blocks f'). j < af_next f'"
    unfolding s n(2) using below by (auto intro: less_SucI)
  ultimately show "framer_ok f'" using assms(1) n(3) by (simp add: framer_ok_def)
qed

lemma open_block_writes:
  assumes "framer_ok f" "opened_in i f f'"
  shows "writes f (block_start i b) [] f'"
  using assms opened_in_ok [OF assms]
  by (intro writesI [where es = "[BlockStart i b]"]) (simp_all add: block_start_def opened_in_def)

lemma delta_writes:
  "framer_ok f \<Longrightarrow> i \<in> set (framer_blocks f) \<Longrightarrow> writes f (delta_frame i d) (str_of ''text'' d) f"
  by (rule writesI [where es = "[BlockDelta i d]"]) (simp_all add: delta_frame_def)

lemma block_writes:
  assumes "framer_ok f" "opened_in i f f'"
  shows "writes f (block_start i b @ delta_frame i d) (str_of ''text'' d) f'"
  using writes_trans [OF open_block_writes [OF assms] delta_writes] opened_in_ok [OF assms] by simp

lemma frame_text_writes: "framer_ok f \<Longrightarrow> frame_text c f = (out, f') \<Longrightarrow> writes f out c f'"
proof (cases "af_text f")
  case None
  then have o: "opened_in (af_next f) f (f\<lparr>af_text := Some (af_next f), af_next := Suc (af_next f)\<rparr>)"
    by (simp add: opened_in_def framer_blocks_def)
  assume a: "framer_ok f" "frame_text c f = (out, f')"
  show ?thesis using None a block_writes [OF a(1) o, of _ "[(''type'', JStr ''text_delta''), (''text'', JStr c)]"]
    by (cases "c = []") (auto simp: frame_text_def Let_def writes_nothing get_field_def)
next
  case (Some i)
  assume a: "framer_ok f" "frame_text c f = (out, f')"
  then show ?thesis using Some delta_writes [OF a(1), of i "[(''type'', JStr ''text_delta''), (''text'', JStr c)]"]
    by (cases "c = []") (auto simp: frame_text_def writes_nothing get_field_def framer_blocks_def)
qed

lemma frame_call_writes: "framer_ok f \<Longrightarrow> frame_call r c f = (out, f') \<Longrightarrow> writes f out [] f'"
proof -
  assume a: "framer_ok f" "frame_call r c f = (out, f')"
  let ?p = "str_of ''arguments'' (rec_of ''function'' c)"
  let ?d = "[(''type'', JStr ''input_json_delta''), (''partial_json'', JStr ?p)]"
  have t: "str_of ''text'' ?d = []" by (simp add: get_field_def)
  show ?thesis
  proof (cases "map_of (af_tools f) (num_of ''index'' c)")
    case None
    have o: "opened_in (af_next f) f (f\<lparr>af_tools := af_tools f @ [(num_of ''index'' c, af_next f)], af_next := Suc (af_next f)\<rparr>)"
      by (simp add: opened_in_def framer_blocks_def)
    show ?thesis using None a t block_writes [OF a(1) o, of _ ?d] open_block_writes [OF a(1) o]
      by (auto simp: frame_call_def Let_def split: if_splits)
  next
    case (Some i)
    then have "(num_of ''index'' c, i) \<in> set (af_tools f)" by (rule map_of_SomeD)
    then have "i \<in> set (framer_blocks f)" by (force simp: framer_blocks_def)
    with Some a t delta_writes [OF a(1) this, of ?d] show ?thesis
      by (auto simp: frame_call_def Let_def writes_nothing split: if_splits)
  qed
qed

lemma frame_calls_writes: "framer_ok f \<Longrightarrow> frame_calls ids j cs f = (out, f') \<Longrightarrow> writes f out [] f'"
proof (induction cs arbitrary: j f out)
  case (Cons c cs)
  obtain o1 f1 where 1: "frame_call (ids j) c f = (o1, f1)" by fastforce
  obtain o2 f2 where 2: "frame_calls ids (j + 1) cs f1 = (o2, f2)" by fastforce
  have w: "writes f o1 [] f1" by (rule frame_call_writes [OF Cons.prems(1) 1])
  then have "framer_ok f1" by (simp add: writes_def)
  with Cons.IH 2 Cons.prems(2) 1 have "writes f1 o2 [] f'" "out = o1 @ o2" by auto
  with writes_trans [OF w] show ?case by simp
qed (simp add: writes_nothing)
lemma anthropic_frames_writes:
  "framer_ok f \<Longrightarrow> anthropic_frames ids c f = (out, f') \<Longrightarrow> writes f out (dl_content (read_delta c)) f'"
proof -
  assume a: "framer_ok f" "anthropic_frames ids c f = (out, f')"
  obtain o1 f1 where 1: "frame_text (dl_content (read_delta c)) f = (o1, f1)" by fastforce
  obtain o2 f2 where 2: "frame_calls ids 0 (dl_calls (read_delta c)) f1 = (o2, f2)" by fastforce
  have w: "writes f o1 (dl_content (read_delta c)) f1" by (rule frame_text_writes [OF a(1) 1])
  then have "writes f1 o2 [] f2" using 2 by (intro frame_calls_writes) (auto simp: writes_def)
  from writes_trans [OF w this] have "writes f (o1 @ o2) (dl_content (read_delta c)) f2" by simp
  moreover have "writes f x t f2 \<Longrightarrow> writes f x t (f2\<lparr>af_stop := s\<rparr>)" for x t s
    by (simp add: writes_def framer_ok_def framer_blocks_def)
  ultimately show ?thesis using a(2) 1 2 by (auto simp: anthropic_frames_def Let_def split: if_splits)
qed

fun frame_chunks :: "(nat \<Rightarrow> nat \<Rightarrow> string) \<Rightarrow> nat \<Rightarrow> members list \<Rightarrow> framer \<Rightarrow> string \<times> framer" where
  "frame_chunks ids i [] f = ([], f)"
| "frame_chunks ids i (c # cs) f =
     (case framer_chunk (ids i) c f of (out, f1) \<Rightarrow>
       (case frame_chunks ids (i + 1) cs f1 of (out', f2) \<Rightarrow> (out @ out', f2)))"

lemma frame_chunks_writes:
  "framer_ok f \<Longrightarrow> frame_chunks ids i cs (AnthropicFramer f) = (out, fr) \<Longrightarrow>
   \<exists>f'. fr = AnthropicFramer f' \<and> writes f out (concat (map (\<lambda>c. dl_content (read_delta c)) cs)) f'"
proof (induction cs arbitrary: i f out fr)
  case (Cons c cs)
  obtain o1 f1 where 1: "anthropic_frames (ids i) c f = (o1, f1)" by fastforce
  obtain o2 fr' where 2: "frame_chunks ids (i + 1) cs (AnthropicFramer f1) = (o2, fr')" by fastforce
  have w: "writes f o1 (dl_content (read_delta c)) f1" by (rule anthropic_frames_writes [OF Cons.prems(1) 1])
  then have "framer_ok f1" by (simp add: writes_def)
  from Cons.IH [OF this 2] obtain f' where "fr' = AnthropicFramer f'"
      "writes f1 o2 (concat (map (\<lambda>c. dl_content (read_delta c)) cs)) f'" by blast
  with writes_trans [OF w this(2)] Cons.prems(2) 1 2 show ?case by auto
qed (simp add: writes_nothing)

lemma stops_run: "distinct is \<Longrightarrow> set is = bs \<Longrightarrow> message_run (map BlockStop is) (Writing n bs) = Some (Writing n {})"
  by (induction "is" arbitrary: bs) auto

lemma finish_closes:
  assumes "framer_ok f" "anthropic_finish usage f = (out, f')"
  shows "\<exists>es. out = concat (map event_frame es) \<and> message_run es (writing f) = Some Ended \<and> concat (map event_text es) = [] \<and> af_closed f'"
proof -
  have s: "set (open_blocks f) = set (framer_blocks f)" "distinct (open_blocks f)"
    using assms(1) by (auto simp: open_blocks_def framer_blocks_def framer_ok_def split: option.splits)
  let ?tail = "[MessageDelta [(''stop_reason'', JStr (af_stop f)), (''stop_sequence'', JNull)]
      [(''output_tokens'', JNum (case usage of Some u \<Rightarrow> num_of ''completion_tokens'' u | None \<Rightarrow> JFin 0))], MessageStop]"
  have "message_run (map BlockStop (open_blocks f) @ ?tail) (writing f) = Some Ended"
    using stops_run [OF s(2,1)] by (simp add: message_run_append)
  moreover have "out = concat (map event_frame (map BlockStop (open_blocks f) @ ?tail))" "af_closed f'"
    using assms by (auto simp: anthropic_finish_def framer_ok_def comp_def)
  moreover have "concat (map event_text (map BlockStop (open_blocks f) @ ?tail)) = []" by (induction "open_blocks f") simp_all
  ultimately show ?thesis by blast
qed

text \<open>All that a client is sent for a stream, and the framer it leaves.\<close>

definition client_stream ::
    "(nat \<Rightarrow> nat \<Rightarrow> string) \<Rightarrow> dialect \<Rightarrow> string \<Rightarrow> string \<Rightarrow> members list \<Rightarrow> members option \<Rightarrow> string \<times> framer" where
  "client_stream ids d model i cs usage =
     (let f = create_client_framer d model i in
      case frame_chunks ids 0 cs f of (out, f1) \<Rightarrow>
        (case framer_finish usage f1 of (out', f2) \<Rightarrow> (framer_start f @ out @ out', f2)))"

text \<open>Whatever chunks an upstream produces and wherever it stops, the text an Anthropic client gets is one
  complete message of its protocol: a start, blocks opened in order under fresh indices, deltas of open
  blocks only, every block closed exactly once, the reason, the end; it holds all the text of the chunks
  in order; and finishing a second time writes nothing.\<close>
theorem anthropic_stream_is_one_message:
  "\<exists>es. fst (client_stream ids DAnthropic model i cs usage) = concat (map event_frame es) \<and>
      message_run es Unstarted = Some Ended \<and>
      concat (map event_text es) = concat (map (\<lambda>c. dl_content (read_delta c)) cs) \<and>
      fst (framer_finish usage' (snd (client_stream ids DAnthropic model i cs usage))) = []"
proof -
  let ?start = "create_client_framer DAnthropic model i"
  obtain f where f: "?start = AnthropicFramer f" "framer_ok f" "writing f = Writing 0 {}"
    by (simp add: create_client_framer_def framer_ok_def framer_blocks_def)
  obtain out fr where c: "frame_chunks ids 0 cs ?start = (out, fr)" by fastforce
  with frame_chunks_writes [OF f(2)] f(1) obtain f1 where f1: "fr = AnthropicFramer f1" "framer_ok f1"
      and w: "writes f out (concat (map (\<lambda>c. dl_content (read_delta c)) cs)) f1" by (fastforce simp: writes_def)
  obtain tail f2 where t: "anthropic_finish usage f1 = (tail, f2)" by fastforce
  from w obtain es where es: "out = concat (map event_frame es)" "message_run es (Writing 0 {}) = Some (writing f1)"
      "concat (map event_text es) = concat (map (\<lambda>c. dl_content (read_delta c)) cs)" unfolding writes_def f(3) by blast
  from finish_closes [OF f1(2) t] obtain es' where es': "tail = concat (map event_frame es')"
      "message_run es' (writing f1) = Some Ended" "concat (map event_text es') = []" "af_closed f2" by blast
  obtain m where m: "framer_start ?start = event_frame (MessageStart m)" by (simp add: f(1) message_start_def)
  have "message_run (MessageStart m # es @ es') Unstarted = Some Ended" using es(2) es'(2) by (simp add: message_run_append)
  then show ?thesis using c f1 t m es es'
    by (intro exI [of _ "MessageStart m # es @ es'"]) (simp add: client_stream_def anthropic_finish_def)
qed

subsection \<open>Chunks of an OpenAI client\<close>

lemma visible_line: "(\<And>c. c \<in> set s \<Longrightarrow> 32 \<le> (of_char c :: nat)) \<Longrightarrow> split_lines s = [s]"
proof (induction s)
  case (Cons c s)
  have "c \<noteq> CR" "c \<noteq> LF" using Cons.prems [of c] by auto
  with Cons show ?case by simp
qed simp

lemma done_frame: "sse_done = format_sse (data_frame sse_done_mark None)"
  by (simp add: sse_done_def)

lemma openai_frames: "frame_chunks ids i cs OpenaiFramer = (concat (map data_event cs), OpenaiFramer)"
  by (induction cs arbitrary: i) simp_all

definition chunk_frame :: "members \<Rightarrow> string \<times> string option" where
  "chunk_frame c = (json_stringify (JObj c), None)"

lemma openai_client_text:
  "fst (client_stream ids DOpenai model i cs usage) =
     concat (map (\<lambda>(d, n). format_sse (data_frame d n)) (map chunk_frame cs @ [(sse_done_mark, None)]))"
  by (simp add: client_stream_def create_client_framer_def openai_frames chunk_frame_def data_event_def [abs_def] comp_def
      done_frame del: json_stringify.simps)

lemma chunk_read: "printable (JObj c) \<Longrightarrow> se_data (frame_event None (chunk_frame c)) = json_stringify (JObj c)"
  using visible_line [of "json_stringify (JObj c)"] stringify_visible [of "JObj c"]
  by (simp add: frame_event_def chunk_frame_def del: json_stringify.simps printable.simps)

text \<open>C26: however the bytes are cut on the way, an OpenAI client parses back exactly the chunks the gateway
  framed, in order and nothing else, and then the mark that ends the stream.\<close>
theorem openai_client_reads_the_chunks:
  assumes "concat bytes = fst (client_stream ids DOpenai model i cs usage)" "list_all (\<lambda>c. printable (JObj c)) cs"
    "list_all (\<lambda>c. int (utf8_len (data_event c)) \<le> mx) cs" "int (utf8_len sse_done) \<le> mx"
  shows "\<exists>evs ev. sse_event_stream mx bytes = (evs @ [ev], None) \<and>
    map (\<lambda>e. json_parse (se_data e)) evs = map (\<lambda>c. Some (JObj c)) cs \<and> se_data ev = sse_done_mark"
proof -
  let ?fs = "map chunk_frame cs @ [(sse_done_mark, None)]"
  have "list_all (\<lambda>(d, n). int (utf8_len (format_sse (data_frame d n))) \<le> mx) ?fs"
    using assms(3,4) by (simp add: done_frame list_all_iff chunk_frame_def data_event_def)
  moreover have "0 \<le> mx" using assms(4) by linarith
  ultimately have r: "sse_event_stream mx bytes = (map (frame_event None) ?fs, None)"
    by (intro frames_read) (simp_all only: assms(1) openai_client_text)
  have "map (\<lambda>e. json_parse (se_data e)) (map (frame_event None) (map chunk_frame cs)) = map (\<lambda>c. Some (JObj c)) cs"
    using assms(2) by (simp add: list_all_iff chunk_read parse_stringify del: json_stringify.simps printable.simps)
  moreover have "se_data (frame_event None (sse_done_mark, None)) = sse_done_mark" by code_simp
  ultimately show ?thesis using r
    by (intro exI [of _ "map (frame_event None) (map chunk_frame cs)"] exI [of _ "frame_event None (sse_done_mark, None)"]) simp
qed

theorem openai_client_reads_the_chunks_witness:
  "\<exists>evs ev. sse_event_stream 100 [fst (client_stream (\<lambda>_ _. ''r'') DOpenai ''m'' ''i'' [[(''id'', JStr [LF, LF])]] None)] = (evs @ [ev], None) \<and>
    map (\<lambda>e. json_parse (se_data e)) evs = [Some (JObj [(''id'', JStr [LF, LF])])] \<and> se_data ev = sse_done_mark"
proof -
  have "int (utf8_len (data_event [(''id'', JStr [LF, LF])])) \<le> 100" "int (utf8_len sse_done) \<le> 100" by code_simp+
  then show ?thesis
    using openai_client_reads_the_chunks [of "[fst (client_stream (\<lambda>_ _. ''r'') DOpenai ''m'' ''i'' [[(''id'', JStr [LF, LF])]] None)]"
        "\<lambda>_ _. ''r''" "''m''" "''i''" "[[(''id'', JStr [LF, LF])]]" None 100] by simp
qed

end
