(* ===== verification/UpstreamFetch.thy ===== *)
theory UpstreamFetch
  imports SsrfLaws Headers
begin

text \<open>
  Talking to an upstream, \<open>src/lib/upstream/fetch.ts\<close> and \<open>dispatcher.ts\<close>: the guarded request with
  its redirects, the body that can neither stall nor overrun, the capped reading of a whole body and the
  lookup that pins a connection to the addresses the guard admitted. The network is an argument: \<open>net i\<close>
  answers the request of hop \<open>i\<close>; so are the clock, the URL parser and the resolver.
\<close>

subsection \<open>Bodies\<close>

text \<open>What a body delivers, each piece after a silence in milliseconds.\<close>

datatype body_event = Piece int string | Finished int | Broken int thrown

type_synonym body = "body_event list"

datatype body_end = Complete | Failed thrown | Pending_forever

definition stalled :: "int \<Rightarrow> thrown" where
  "stalled idle = Gateway (upstream_timeout (''upstream stalled for '' @ show_int idle @ ''ms''))"

definition overrun :: "int \<Rightarrow> thrown" where
  "overrun mx = Gateway (malformed_upstream_body (''upstream response exceeded '' @ show_int mx @ '' bytes''))"

text \<open>The pieces the guard passes on and how the body ended; with no idle limit silence lasts.\<close>

fun guard_stream :: "int \<Rightarrow> int \<Rightarrow> int \<Rightarrow> body \<Rightarrow> string list \<times> body_end" where
  "guard_stream mx idle tot [] = ([], if 0 < idle then Failed (stalled idle) else Pending_forever)"
| "guard_stream mx idle tot (Finished w # es) =
     ([], if 0 < idle \<and> idle \<le> w then Failed (stalled idle) else Complete)"
| "guard_stream mx idle tot (Broken w e # es) =
     ([], if 0 < idle \<and> idle \<le> w then Failed (stalled idle) else Failed e)"
| "guard_stream mx idle tot (Piece w c # es) =
     (if 0 < idle \<and> idle \<le> w then ([], Failed (stalled idle))
      else let t = tot + int (length c) in
        if 0 < mx \<and> mx < t then ([], Failed (overrun mx))
        else (case guard_stream mx idle t es of (cs, r) \<Rightarrow> (c # cs, r)))"

text \<open>The pieces joined, or what the reading throws.\<close>

fun read_capped :: "int \<Rightarrow> int \<Rightarrow> string list \<Rightarrow> string \<Rightarrow> thrown + string" where
  "read_capped mx tot [] out = Inr out"
| "read_capped mx tot (c # cs) out =
     (let t = tot + int (length c) in
      if 0 < mx \<and> mx < t then Inl (overrun mx) else read_capped mx t cs (out @ c))"

definition read_capped_text :: "int \<Rightarrow> (string list \<times> body_end) option \<Rightarrow> thrown + string" where
  "read_capped_text mx body =
     (case body of
        None \<Rightarrow> Inr []
      | Some (cs, fin) \<Rightarrow>
          (case read_capped mx 0 cs [] of
             Inl e \<Rightarrow> Inl e
           | Inr s \<Rightarrow> (case fin of Complete \<Rightarrow> Inr s | Failed e \<Rightarrow> Inl e | Pending_forever \<Rightarrow> Inl OtherThrown)))"

subsection \<open>Requests\<close>

datatype request_body = NoBody | TextBody string | StreamBody

record request_init =
  rq_method :: "string option"
  rq_headers :: headers
  rq_body :: request_body

record upstream_response =
  ur_status :: int
  ur_headers :: headers
  ur_body :: "(string list \<times> body_end) option"

record hop =
  hp_target :: resolved_upstream
  hp_init :: request_init

text \<open>How the call of one hop ends: an answer with its raw body, the client's abort, a timer's, a failure.\<close>

datatype answer = Answer int headers "body option" | ClientAborted thrown | TimerAborted | NetFailed thrown

definition headers_timed_out :: thrown where
  "headers_timed_out = Gateway (upstream_timeout ''upstream headers timed out'')"

definition origin_of :: "url \<Rightarrow> string \<times> string \<times> string" where
  "origin_of u = (u_protocol u, u_hostname u, u_port u)"

definition is_redirect :: "int \<Rightarrow> headers \<Rightarrow> string option" where
  "is_redirect status hs =
     (if status \<in> {301, 302, 303, 307, 308}
      then (case map_of hs ''location'' of Some l \<Rightarrow> if l \<noteq> [] then Some l else None | None \<Rightarrow> None) else None)"

definition body_fields :: "string list" where
  "body_fields = [''content-type'', ''content-length'', ''content-encoding'', ''transfer-encoding'']"

definition js_upper :: "string \<Rightarrow> string" where
  "js_upper s = map (\<lambda>c. let n = of_char c :: nat in if 97 \<le> n \<and> n \<le> 122 then char_of (n - 32) else c) s"

definition redirected_init :: "int \<Rightarrow> request_init \<Rightarrow> thrown + request_init" where
  "redirected_init status init =
     (let m = js_upper (case rq_method init of Some m \<Rightarrow> m | None \<Rightarrow> ''GET'') in
      if (status = 303 \<and> m \<noteq> ''HEAD'') \<or> (status \<in> {301, 302} \<and> m = ''POST'') then
        Inr \<lparr>rq_method = Some ''GET'', rq_headers = filter (\<lambda>h. js_lower (fst h) \<notin> set body_fields) (rq_headers init), rq_body = NoBody\<rparr>
      else if rq_body init = StreamBody then
        Inl (Gateway (malformed_upstream_body ''cannot replay a streamed request body across a redirect''))
      else Inr init)"

definition guarded :: "int \<Rightarrow> int \<Rightarrow> int \<Rightarrow> headers \<Rightarrow> body option \<Rightarrow> upstream_response" where
  "guarded mx idle status hs body =
     \<lparr>ur_status = status, ur_headers = hs, ur_body = map_option (guard_stream mx idle 0) body\<rparr>"

record fetch_world =
  fw_env :: env
  fw_parse :: "string \<Rightarrow> url option"
  fw_join :: "string \<Rightarrow> url \<Rightarrow> url option"
  fw_resolver :: "string \<Rightarrow> thrown + string list"
  fw_net :: "nat \<Rightarrow> hop \<Rightarrow> answer"
  fw_now :: "nat \<Rightarrow> int"
  fw_max_bytes :: int
  fw_idle_ms :: int

text \<open>\<open>left\<close> redirects may still be followed; the hops sent are recorded.\<close>

fun fetch_hops ::
    "fetch_world \<Rightarrow> nat \<Rightarrow> nat \<Rightarrow> resolved_upstream \<Rightarrow> request_init \<Rightarrow> coord \<Rightarrow>
     (thrown + upstream_response) \<times> hop list \<times> coord" where
  "fetch_hops fw left i target init co =
     (let hp = \<lparr>hp_target = target, hp_init = init\<rparr> in
      case fw_net fw i hp of
        ClientAborted e \<Rightarrow> (Inl e, [hp], co)
      | TimerAborted \<Rightarrow> (Inl headers_timed_out, [hp], co)
      | NetFailed e \<Rightarrow> (Inl e, [hp], co)
      | Answer status hs body \<Rightarrow>
          (case is_redirect status hs of
             None \<Rightarrow> (Inr (guarded (fw_max_bytes fw) (fw_idle_ms fw) status hs body), [hp], co)
           | Some location \<Rightarrow>
               if left = 0 then (Inl (Gateway (malformed_upstream_body ''too many upstream redirects'')), [hp], co)
               else (case fw_join fw location (ru_url target) of
                   None \<Rightarrow> (Inl OtherThrown, [hp], co)
                 | Some next_url \<Rightarrow>
                     if origin_of next_url \<noteq> origin_of (ru_url target)
                     then (Inl (Gateway (ssrf_blocked ''cross-origin upstream redirects are disabled'')), [hp], co)
                     else (case redirected_init status init of
                         Inl e \<Rightarrow> (Inl e, [hp], co)
                       | Inr init' \<Rightarrow>
                           (case assert_redirect_allowed (fw_env fw) (fw_join fw) (fw_parse fw) (fw_resolver fw) (fw_now fw i)
                               location (ru_url target) co of
                              (Inl e, co1) \<Rightarrow> (Inl e, [hp], co1)
                            | (Inr target', co1) \<Rightarrow>
                                (case fetch_hops fw (left - 1) (i + 1) target' init' co1 of
                                   (r, hps, co2) \<Rightarrow> (r, hp # hps, co2)))))))"

declare fetch_hops.simps [simp del]

text \<open>\<open>aborted\<close> is the reason of the client's signal when it fired before the call.\<close>

definition upstream_fetch ::
    "fetch_world \<Rightarrow> nat \<Rightarrow> thrown option \<Rightarrow> int \<Rightarrow> string \<Rightarrow> request_init \<Rightarrow> coord \<Rightarrow>
     (thrown + upstream_response) \<times> hop list \<times> coord" where
  "upstream_fetch fw max_redirects aborted now raw init co =
     (case aborted of
        Some e \<Rightarrow> (Inl e, [], co)
      | None \<Rightarrow>
          (case assert_upstream_url_allowed (fw_env fw) (fw_parse fw) (fw_resolver fw) now raw co of
             (Inl e, co1) \<Rightarrow> (Inl e, [], co1)
           | (Inr target, co1) \<Rightarrow> fetch_hops fw max_redirects 0 target init co1))"

subsection \<open>Pinned connections\<close>

datatype lookup = LookupFailed | LookupAll "(string \<times> int) list" | LookupOne string int

definition address_family :: "string \<Rightarrow> int" where
  "address_family a = (case ip_to_bytes a of None \<Rightarrow> 0 | Some bs \<Rightarrow> if length bs = 4 then 4 else 6)"

definition pinned_lookup :: "resolved_upstream \<Rightarrow> string \<Rightarrow> int \<Rightarrow> bool \<Rightarrow> lookup" where
  "pinned_lookup target hostname family all =
     (let h = js_lower hostname;
          name = (if ends_with ''.'' h then butlast h else h);
          addresses = filter (\<lambda>e. family = 0 \<or> family = snd e) (map (\<lambda>a. (a, address_family a)) (ru_addresses target))
      in if name \<noteq> ru_hostname target \<or> addresses = [] then LookupFailed
         else if all then LookupAll addresses
         else LookupOne (fst (hd addresses)) (snd (hd addresses)))"

subsection \<open>Laws\<close>

text \<open>A target of the guard is checked and public.\<close>

definition admitted :: "env \<Rightarrow> resolved_upstream \<Rightarrow> bool" where
  "admitted env r \<longleftrightarrow> check_url env (ru_url r) = Inr (ru_hostname r) \<and> ru_addresses r \<noteq> [] \<and>
     list_all (\<lambda>a. \<not> is_blocked_address a) (ru_addresses r)"

lemma admitted_target:
  assumes "assert_upstream_url_allowed env parse_url resolver now raw co = (Inr r, co')"
  shows "admitted env r \<and> parse_url raw = Some (ru_url r)"
proof -
  obtain u where u: "\<not> has_ambiguous_host_encoding raw" "parse_url raw = Some u"
    using assms by (auto simp: assert_upstream_url_allowed_def split: if_splits option.splits)
  moreover obtain h where h: "check_url env u = Inr h"
    using assms u by (auto simp: assert_upstream_url_allowed_def split: sum.splits)
  ultimately show ?thesis using assms
    by (auto simp: assert_upstream_url_allowed_def admitted_def list_all_iff
        split: if_splits prod.splits sum.splits dest: resolve_upstream_public)
qed

lemma admitted_redirect:
  assumes "assert_redirect_allowed env join_url parse_url resolver now location base co = (Inr r, co')"
    "join_url location base = Some u" "parse_url (u_href u) = Some u"
  shows "admitted env r \<and> ru_url r = u"
  using assms admitted_target [of env parse_url resolver now "u_href u" co r co']
  by (simp add: assert_redirect_allowed_def)

text \<open>The platform reads back the text of a URL it has resolved.\<close>

definition reparses :: "fetch_world \<Rightarrow> bool" where
  "reparses fw \<longleftrightarrow> (\<forall>l b u. fw_join fw l b = Some u \<longrightarrow> fw_parse fw (u_href u) = Some u)"

text \<open>One hop: either it ends the call, or the next one goes to an admitted target of the same origin.\<close>

lemma fetch_hops_cases:
  assumes "fetch_hops fw left i target init co = (r, hps, co')"
  obtains (last) "hps = [\<lparr>hp_target = target, hp_init = init\<rparr>]"
  | (follow) u location target' init' co1 hps' where
      "hps = \<lparr>hp_target = target, hp_init = init\<rparr> # hps'" "0 < left"
      "fw_join fw location (ru_url target) = Some u" "origin_of u = origin_of (ru_url target)"
      "assert_redirect_allowed (fw_env fw) (fw_join fw) (fw_parse fw) (fw_resolver fw) (fw_now fw i) location (ru_url target) co
        = (Inr target', co1)"
      "fetch_hops fw (left - 1) (i + 1) target' init' co1 = (r, hps', co')"
  using assms
  by (subst (asm) fetch_hops.simps)
    (auto simp: Let_def split: answer.splits option.splits if_splits sum.splits prod.splits)

lemma fetch_hops_admitted:
  assumes "reparses fw"
  shows "fetch_hops fw left i target init co = (r, hps, co') \<Longrightarrow> admitted (fw_env fw) target \<Longrightarrow>
    list_all (\<lambda>h. admitted (fw_env fw) (hp_target h) \<and> origin_of (ru_url (hp_target h)) = origin_of (ru_url target)) hps \<and>
    length hps \<le> left + 1"
proof (induction left arbitrary: i target init co r hps co')
  case 0
  from 0(1) show ?case
  proof (cases rule: fetch_hops_cases)
    case last
    with 0(2) show ?thesis by simp
  qed simp
next
  case (Suc left)
  from Suc.prems(1) show ?case
  proof (cases rule: fetch_hops_cases)
    case last
    with Suc.prems(2) show ?thesis by simp
  next
    case (follow u location target' init' co1 hps')
    have "admitted (fw_env fw) target' \<and> ru_url target' = u" 
      using admitted_redirect [OF follow(5,3)] assms follow(3) by (auto simp: reparses_def)
    with Suc.IH [of "i + 1" target' init' co1 r hps' co'] follow Suc.prems(2) show ?thesis by simp
  qed
qed

text \<open>C23: no request reaches a place the guard has not admitted. Every hop of a call, whatever an upstream
  answers, goes to a URL that passes the checks and whose connection is pinned to public addresses,
  all hops share the origin of the first, so a key or a prompt never moves to another host, and there are
  at most as many as redirects are allowed and one.\<close>
theorem every_hop_is_admitted:
  assumes "upstream_fetch fw max_redirects aborted now raw init co = (r, hps, co')"
    "reparses fw"
  shows "list_all (\<lambda>h. admitted (fw_env fw) (hp_target h) \<and> origin_of (ru_url (hp_target h)) = origin_of (ru_url (hp_target (hd hps)))) hps \<and>
    length hps \<le> max_redirects + 1"
proof (cases "hps = []")
  case False
  with assms(1) obtain target co1 where t: "assert_upstream_url_allowed (fw_env fw) (fw_parse fw) (fw_resolver fw) now raw co = (Inr target, co1)"
    "fetch_hops fw max_redirects 0 target init co1 = (r, hps, co')"
    by (auto simp: upstream_fetch_def split: option.splits prod.splits sum.splits)
  have "hp_target (hd hps) = target" using t(2) by (cases rule: fetch_hops_cases) simp_all
  with fetch_hops_admitted [OF assms(2) t(2)] admitted_target [OF t(1)] show ?thesis by simp
qed simp

text \<open>What a guarded body delivers is a prefix of what was sent and within the cap.\<close>

lemma guard_stream_cap:
  "guard_stream mx idle tot es = (cs, r) \<Longrightarrow> 0 < mx \<Longrightarrow> tot \<le> mx \<Longrightarrow> tot + int (length (concat cs)) \<le> mx"
proof (induction mx idle tot es arbitrary: cs rule: guard_stream.induct)
  case (4 mx idle tot w c es)
  then show ?case by (fastforce simp: Let_def split: if_splits prod.splits)
qed (auto split: if_splits)

lemma guard_stream_ends: "0 < idle \<Longrightarrow> snd (guard_stream mx idle tot es) \<noteq> Pending_forever"
  by (induction mx idle tot es rule: guard_stream.induct) (auto simp: Let_def split: prod.splits)

lemma read_capped_ok: "read_capped mx tot cs out = Inr s \<Longrightarrow> s = out @ concat cs"
  by (induction mx tot cs out rule: read_capped.induct) (auto simp: Let_def split: if_splits)

text \<open>An upstream body can neither overrun nor stall: however it is cut, what is passed on never exceeds the
  cap, and with an idle limit every body ends, whole or with an error, whatever the upstream does.\<close>
theorem guarded_body_is_bounded:
  assumes "0 < mx" "0 < idle"
  shows "int (length (concat (fst (guard_stream mx idle 0 es)))) \<le> mx \<and> snd (guard_stream mx idle 0 es) \<noteq> Pending_forever"
proof -
  have "snd (guard_stream mx idle 0 es) \<noteq> Pending_forever" using assms(2) by (rule guard_stream_ends)
  moreover have "int (length (concat (fst (guard_stream mx idle 0 es)))) \<le> mx"
    using guard_stream_cap [of mx idle 0 es "fst (guard_stream mx idle 0 es)" "snd (guard_stream mx idle 0 es)"] assms(1) by simp
  ultimately show ?thesis by blast
qed

theorem guarded_body_is_bounded_witness:
  "int (length (concat (fst (guard_stream 4 10 0 [Piece 1 ''abc'', Piece 2 ''de''])))) \<le> 4 \<and>
   snd (guard_stream 4 10 0 [Piece 1 ''abc'', Piece 2 ''de'']) \<noteq> Pending_forever"
  by (rule guarded_body_is_bounded) simp_all

text \<open>A pinned lookup hands out admitted addresses only, and only for the admitted name.\<close>

lemma pinned_lookup_admitted:
  "pinned_lookup target hostname family all = LookupOne a f \<Longrightarrow> a \<in> set (ru_addresses target)"
proof -
  let ?l = "filter (\<lambda>e. family = 0 \<or> family = snd e) (map (\<lambda>a. (a, address_family a)) (ru_addresses target))"
  assume "pinned_lookup target hostname family all = LookupOne a f"
  then have "a = fst (hd ?l) \<and> ?l \<noteq> []" by (auto simp: pinned_lookup_def Let_def split: if_splits)
  moreover have "?l \<noteq> [] \<Longrightarrow> hd ?l \<in> set ?l" by (rule hd_in_set)
  ultimately show ?thesis by auto
qed

text \<open>A call that is redirected once within its origin.\<close>

definition sample_fetch :: fetch_world where
  "sample_fetch = \<lparr>fw_env = (\<lambda>_. None), fw_parse = (\<lambda>h. Some (sample_url\<lparr>u_href := h\<rparr>)), fw_join = (\<lambda>l u. Some sample_url),
     fw_resolver = (\<lambda>_. Inr [''93.184.216.34'']),
     fw_net = (\<lambda>i h. if i = 0 then Answer 307 [(''location'', ''/v2'')] None else Answer 200 [] (Some [Piece 0 ''ok'', Finished 0])),
     fw_now = (\<lambda>_. 5), fw_max_bytes = 100, fw_idle_ms = 50\<rparr>"

theorem every_hop_is_admitted_witness:
  "map (\<lambda>h. u_hostname (ru_url (hp_target h))) (fst (snd (upstream_fetch sample_fetch 3 None 5 ''https://api.example.com/v1''
      \<lparr>rq_method = Some ''POST'', rq_headers = [], rq_body = TextBody ''x''\<rparr> sample_coord))) = [''api.example.com'', ''api.example.com''] \<and>
   list_all (\<lambda>h. admitted (\<lambda>_. None) (hp_target h)) (fst (snd (upstream_fetch sample_fetch 3 None 5 ''https://api.example.com/v1''
      \<lparr>rq_method = Some ''POST'', rq_headers = [], rq_body = TextBody ''x''\<rparr> sample_coord)))"
  (is "?names \<and> list_all ?ok (fst (snd ?f))")
proof
  show ?names by code_simp
  have "reparses sample_fetch" by (auto simp: reparses_def sample_fetch_def)
  moreover obtain r hps co' where f: "?f = (r, hps, co')" by (cases ?f)
  ultimately have "list_all (\<lambda>h. admitted (fw_env sample_fetch) (hp_target h) \<and>
      origin_of (ru_url (hp_target h)) = origin_of (ru_url (hp_target (hd hps)))) hps \<and> length hps \<le> 3 + 1"
    by (intro every_hop_is_admitted [of sample_fetch 3 None 5 _ _ sample_coord])
  then show "list_all ?ok (fst (snd ?f))" unfolding f by (auto simp: list_all_iff sample_fetch_def)
qed

end
