(* ===== verification/Respond.thy ===== *)
theory Respond
  imports JsonPrint Sse Headers
begin

text \<open>
  Responses, \<open>src/lib/http/respond.ts\<close>: the headers every answer carries, the error envelope of each
  dialect, the error inside an open stream; and the redirect target of \<open>src/lib/http/redirect.ts\<close>.
  A response is its status, its header entries and its body; a stream is a body of its own kind.
\<close>

fun error_code_text :: "error_code \<Rightarrow> string" where
  "error_code_text MissingCredentials = ''missing_credentials''"
| "error_code_text InvalidApiKey = ''invalid_api_key''"
| "error_code_text KeyDisabled = ''key_disabled''"
| "error_code_text KeyExpired = ''key_expired''"
| "error_code_text KeyExhausted = ''key_exhausted''"
| "error_code_text IpNotAllowed = ''ip_not_allowed''"
| "error_code_text ModelNotAllowed = ''model_not_allowed''"
| "error_code_text InsufficientPermissions = ''insufficient_permissions''"
| "error_code_text UserDisabled = ''user_disabled''"
| "error_code_text InsufficientQuota = ''insufficient_quota''"
| "error_code_text QuotaReservationFailed = ''quota_reservation_failed''"
| "error_code_text RateLimitExceeded = ''rate_limit_exceeded''"
| "error_code_text TpmLimitExceeded = ''tpm_limit_exceeded''"
| "error_code_text ConcurrencyLimit = ''concurrency_limit''"
| "error_code_text PayloadTooLarge = ''payload_too_large''"
| "error_code_text InvalidRequest = ''invalid_request''"
| "error_code_text MissingModel = ''missing_model''"
| "error_code_text UnsupportedEndpoint = ''unsupported_endpoint''"
| "error_code_text UnsupportedParameter = ''unsupported_parameter''"
| "error_code_text MalformedJson = ''malformed_json''"
| "error_code_text NoChannelAvailable = ''no_channel_available''"
| "error_code_text AllChannelsFailed = ''all_channels_failed''"
| "error_code_text ChannelDisabled = ''channel_disabled''"
| "error_code_text UpstreamErr = ''upstream_error''"
| "error_code_text UpstreamTimeout = ''upstream_timeout''"
| "error_code_text UpstreamUnreachable = ''upstream_unreachable''"
| "error_code_text MalformedUpstreamBody = ''malformed_upstream_body''"
| "error_code_text StreamIdleTimeout = ''stream_idle_timeout''"
| "error_code_text SsrfBlocked = ''ssrf_blocked''"
| "error_code_text ContentFiltered = ''content_filtered''"
| "error_code_text InternalErr = ''internal_error''"
| "error_code_text NotImplemented = ''not_implemented''"
| "error_code_text NotFound = ''not_found''"
| "error_code_text ServiceUnavailable = ''service_unavailable''"
| "error_code_text ConfigurationErr = ''configuration_error''"

fun error_kind_text :: "error_kind \<Rightarrow> string" where
  "error_kind_text InvalidRequestError = ''invalid_request_error''"
| "error_kind_text AuthenticationError = ''authentication_error''"
| "error_kind_text PermissionError = ''permission_error''"
| "error_kind_text NotFoundError = ''not_found_error''"
| "error_kind_text RateLimitError = ''rate_limit_error''"
| "error_kind_text InsufficientQuotaError = ''insufficient_quota''"
| "error_kind_text ApiError = ''api_error''"
| "error_kind_text OverloadedError = ''overloaded_error''"

datatype response_dialect = ROpenai | RAnthropic | RGemini | RMidjourney | RRaw

record 'b response =
  rs_status :: int
  rs_headers :: headers
  rs_body :: "'b"

record response_init =
  ri_status :: "int option"
  ri_headers :: headers
  ri_request_id :: string
  ri_origin :: "string option"

definition plain_init :: response_init where
  "plain_init = \<lparr>ri_status = None, ri_headers = [], ri_request_id = [], ri_origin = None\<rparr>"

subsection \<open>Headers\<close>

definition security_headers :: headers where
  "security_headers =
     [(''x-content-type-options'', ''nosniff''), (''referrer-policy'', ''no-referrer''), (''x-frame-options'', ''DENY''),
      (''cross-origin-opener-policy'', ''same-origin''),
      (''permissions-policy'', ''camera=(), microphone=(), geolocation=(), browsing-topics=()'')]"

definition apply_cors :: "string option \<Rightarrow> headers \<Rightarrow> headers" where
  "apply_cors origin hs =
     (let hs1 = put ''access-control-max-age'' ''86400''
            (put ''access-control-allow-methods'' ''GET, POST, PUT, PATCH, DELETE, OPTIONS''
            (put ''access-control-allow-headers'' ''authorization, content-type, x-api-key, x-goog-api-key, anthropic-version, anthropic-beta, openai-beta, mj-api-secret, accept''
            (put ''access-control-allow-origin'' ''*'' hs)))
      in case origin of
           Some site \<Rightarrow> if site \<noteq> [] then put ''vary'' (case map_of hs1 ''vary'' of Some v \<Rightarrow> v @ '', origin'' | None \<Rightarrow> ''origin'') hs1 else hs1
         | None \<Rightarrow> hs1)"

text \<open>The callers give header names of their own, all of them valid.\<close>

definition base_headers :: "response_init \<Rightarrow> headers" where
  "base_headers init =
     (let given = fold (\<lambda>(n, v) hs. put (js_lower n) (sanitize_header_value v) hs) (ri_headers init) security_headers;
          tagged = (if ri_request_id init \<noteq> []
                    then put ''x-fbapi-request-id'' (sanitize_header_value (ri_request_id init)) given else given)
      in apply_cors (ri_origin init) tagged)"

definition status_or :: "int \<Rightarrow> response_init \<Rightarrow> int" where
  "status_or d init = (case ri_status init of Some s \<Rightarrow> s | None \<Rightarrow> d)"

definition json_response :: "json \<Rightarrow> response_init \<Rightarrow> string response" where
  "json_response body init = \<lparr>rs_status = status_or 200 init,
     rs_headers = put ''cache-control'' ''no-store''
       (put ''content-type'' ''application/json; charset=utf-8'' (base_headers init)),
     rs_body = json_stringify body\<rparr>"

definition text_response :: "string \<Rightarrow> response_init \<Rightarrow> string response" where
  "text_response body init =
     (let hs = base_headers init in
      \<lparr>rs_status = status_or 200 init,
       rs_headers = (if map_of hs ''content-type'' = None then put ''content-type'' ''text/plain; charset=utf-8'' hs else hs),
       rs_body = body\<rparr>)"

definition no_content :: "response_init \<Rightarrow> string response" where
  "no_content init = \<lparr>rs_status = status_or 204 init, rs_headers = base_headers init, rs_body = []\<rparr>"

definition preflight :: "string option \<Rightarrow> string response" where
  "preflight origin = \<lparr>rs_status = 204, rs_headers = base_headers (plain_init\<lparr>ri_origin := origin\<rparr>), rs_body = []\<rparr>"

definition stream_response :: "'b \<Rightarrow> response_init \<Rightarrow> string option \<Rightarrow> 'b response" where
  "stream_response stream init content_type = \<lparr>rs_status = status_or 200 init,
     rs_headers = put ''x-accel-buffering'' ''no'' (put ''connection'' ''keep-alive''
       (put ''cache-control'' ''no-cache, no-transform''
       (put ''content-type'' (case content_type of Some c \<Rightarrow> c | None \<Rightarrow> ''text/event-stream; charset=utf-8'')
       (base_headers init)))),
     rs_body = stream\<rparr>"

subsection \<open>Error envelopes\<close>

definition anthropic_error_type :: "int \<Rightarrow> string" where
  "anthropic_error_type s =
     (if s = 400 then ''invalid_request_error'' else if s = 401 then ''authentication_error''
      else if s = 403 then ''permission_error'' else if s = 404 then ''not_found_error''
      else if s = 413 then ''request_too_large'' else if s = 429 then ''rate_limit_error''
      else if s = 529 then ''overloaded_error'' else if s \<ge> 500 then ''api_error'' else ''invalid_request_error'')"

definition gemini_status :: "int \<Rightarrow> string" where
  "gemini_status s =
     (case map_of [(400, ''INVALID_ARGUMENT''), (401, ''UNAUTHENTICATED''), (402, ''FAILED_PRECONDITION''),
         (403, ''PERMISSION_DENIED''), (404, ''NOT_FOUND''), (409, ''ABORTED''), (413, ''OUT_OF_RANGE''),
         (429, ''RESOURCE_EXHAUSTED''), (499, ''CANCELLED''), (500, ''INTERNAL''), (501, ''UNIMPLEMENTED''),
         (502, ''INTERNAL''), (503, ''UNAVAILABLE''), (504, ''DEADLINE_EXCEEDED'')] s of
        Some t \<Rightarrow> t | None \<Rightarrow> ''UNKNOWN'')"

definition error_body :: "gateway_error \<Rightarrow> response_dialect \<Rightarrow> json" where
  "error_body e d =
     (let msg = JStr (redact (ge_message e)); status = JNum (js_int (ge_status e)); code = JStr (error_code_text (ge_code e)) in
      case d of
        RAnthropic \<Rightarrow> JObj [(''type'', JStr ''error''),
          (''error'', JObj [(''type'', JStr (anthropic_error_type (ge_status e))), (''message'', msg)])]
      | RGemini \<Rightarrow> JObj [(''error'', JObj [(''code'', status), (''message'', msg),
          (''status'', JStr (gemini_status (ge_status e))),
          (''details'', JArr [JObj [(''@type'', JStr ''type.googleapis.com/google.rpc.ErrorInfo''), (''reason'', code)]])])]
      | RMidjourney \<Rightarrow> JObj [(''code'', status), (''description'', msg), (''result'', JStr []), (''properties'', JObj [])]
      | RRaw \<Rightarrow> JObj [(''error'', msg), (''code'', code)]
      | ROpenai \<Rightarrow> JObj [(''error'', JObj [(''message'', msg), (''type'', JStr (error_kind_text (ge_kind e))),
          (''param'', case ge_param e of Some p \<Rightarrow> JStr p | None \<Rightarrow> JNull), (''code'', code)])])"

text \<open>A client that has gone gets 408, since 499 is no registered status.\<close>

definition error_response :: "thrown \<Rightarrow> response_dialect \<Rightarrow> response_init \<Rightarrow> string response" where
  "error_response t d init =
     (let e = error_from t;
          hs = (case map_of (ge_details e) ''retryAfterSec'' of
              Some n \<Rightarrow> put ''retry-after'' (number_text (js_ceil n)) (ri_headers init) | None \<Rightarrow> ri_headers init)
      in json_response (error_body e d)
           (init\<lparr>ri_status := Some (if ge_status e = 499 then 408 else ge_status e),
             ri_headers := put ''x-fbapi-error-code'' (error_code_text (ge_code e)) hs\<rparr>))"

definition error_sse_chunk :: "gateway_error \<Rightarrow> response_dialect \<Rightarrow> string" where
  "error_sse_chunk e d =
     (if d = RAnthropic then ''event: error'' @ [LF] @ ''data: '' @ json_stringify (error_body e d) @ [LF, LF]
      else ''data: '' @ json_stringify (error_body e d) @ [LF, LF])"

definition dialect_for_path :: "string \<Rightarrow> response_dialect" where
  "dialect_for_path p =
     (if contains_str ''/v1/messages'' p then RAnthropic
      else if contains_str ''/v1beta/'' p \<or> contains_str ''/v1/models/'' p then RGemini
      else if contains_str ''/mj/'' p \<or> contains_str ''/mj-'' p then RMidjourney
      else ROpenai)"

subsection \<open>Redirects\<close>

definition unsafe_in_redirect :: "char \<Rightarrow> bool" where
  "unsafe_in_redirect c \<longleftrightarrow> (let n = of_char c :: nat in n = 92 \<or> n < 32 \<or> n = 127)"

definition safe_redirect :: "string option \<Rightarrow> string" where
  "safe_redirect value =
     (case value of
        None \<Rightarrow> ''/console''
      | Some v \<Rightarrow>
          if \<not> starts_with ''/'' v \<or> starts_with ''//'' v then ''/console''
          else if list_ex unsafe_in_redirect v then ''/console''
          else take 500 v)"

text \<open>Where the sign-in page sends the browser afterwards is a path of this site: whatever the
  parameter says, the target begins with one slash, holds no backslash and no control character
  (which a browser would turn into a second slash or drop), and is at most 500 characters long.\<close>
theorem redirect_stays_on_site:
  "let t = safe_redirect v in starts_with ''/'' t \<and> \<not> starts_with ''//'' t \<and> list_all (\<lambda>c. \<not> unsafe_in_redirect c) t \<and> length t \<le> 500"
proof (cases "v = None \<or> safe_redirect v = ''/console''")
  case True
  then have "safe_redirect v = ''/console''" by (auto simp: safe_redirect_def)
  then show ?thesis by (simp add: unsafe_in_redirect_def)
next
  case False
  then obtain w where w: "v = Some w" "starts_with ''/'' w" "\<not> starts_with ''//'' w" "list_all (\<lambda>c. \<not> unsafe_in_redirect c) w"
    "safe_redirect v = take 500 w"
    by (auto simp: safe_redirect_def list_ex_iff list_all_iff split: option.splits if_splits)
  then obtain r where r: "w = CHR ''/'' # r" by (cases w) auto
  then have r2: "\<not> starts_with ''/'' r" using w(3) by simp
  have "list_all (\<lambda>c. \<not> unsafe_in_redirect c) (take 500 w)" using w(4) by (auto simp: list_all_iff dest: in_set_takeD)
  moreover have "\<not> starts_with ''/'' (take 499 r)" using r2 by (cases r) auto
  ultimately show ?thesis using w(5) r by (simp add: Let_def)
qed

end
