(* ===== verification/Relay.thy ===== *)
theory Relay
  imports FramingLaws UpstreamFetch Respond Authenticate RateLimit Billing UsageLedger Ledger Retry
begin

text \<open>
  The relay pipeline, \<open>src/lib/relay/pipeline.ts\<close>: the path of every inference request over the other
  components, which share one connection to the shared store. The upstream call is an argument, as it
  is in the code; so are the clock, read once at each named moment, the random draws and the faults of
  the ledger database. A stream outlives the request that opened it: its operations are steps, one for
  each thing that can happen between two awaits.
\<close>

subsection \<open>State\<close>

datatype moment = AtEntry | AtLimits | AtWindow | AtLease | AtPricing | AtBudget | AtReserve | AtElection | AtFirstByte
  | AtRelease | AtFinalize | AtCharge | AtRecord | AtLeaseRelease | AtFailure | AtFailureRelease

record relay_input =
  yi_headers :: headers
  yi_auth :: auth_context
  yi_endpoint :: endpoint
  yi_dialect :: dialect
  yi_body :: members
  yi_model :: string
  yi_stream :: bool
  yi_usage_injected :: bool
  yi_affinity :: "string option"
  yi_max_attempts :: "int option"
  yi_budget_ms :: "int option"
  yi_buffered :: bool

text \<open>\<open>yo_call\<close> is given the URL, the request and the time limit for the headers.\<close>

record outside =
  yo_env :: env
  yo_now :: "moment \<Rightarrow> int"
  yo_open :: "channel_key_doc \<Rightarrow> thrown + string"
  yo_ticks :: "nat \<Rightarrow> tick"
  yo_call :: "string \<Rightarrow> request_init \<Rightarrow> int \<Rightarrow> thrown + upstream_response"
  yo_member :: string
  yo_ids :: "nat \<Rightarrow> nat \<Rightarrow> nat \<Rightarrow> string"
  yo_fresh :: string
  yo_db_fails :: "moment \<Rightarrow> bool"
  yo_push_fails :: "moment \<Rightarrow> thrown option"

record relay_world =
  yw_co :: coord
  yw_quota :: quota_world
  yw_routing :: routing_world
  yw_pricing :: pricing_world
  yw_usage :: usage_world

text \<open>What one request adds: its lease and the three flags the code keeps.\<close>

record relay_state = relay_world +
  yl_lease :: "(string \<times> string) option"
  yl_lease_released :: bool
  yl_reserved :: bool
  yl_settled :: bool

text \<open>A component at work on the shared store.\<close>

definition with_co :: "(coord \<Rightarrow> 'a \<times> coord) \<Rightarrow> relay_state \<Rightarrow> 'a \<times> relay_state" where
  "with_co f s = (case f (yw_co s) of (r, co) \<Rightarrow> (r, s\<lparr>yw_co := co\<rparr>))"

definition with_routing :: "(routing_world \<Rightarrow> 'a \<times> 'b \<times> routing_world) \<Rightarrow> relay_state \<Rightarrow> 'a \<times> 'b \<times> relay_state" where
  "with_routing f s = (case f ((yw_routing s)\<lparr>rw_co := yw_co s\<rparr>) of
     (r, es, w) \<Rightarrow> (r, es, s\<lparr>yw_routing := w, yw_co := rw_co w\<rparr>))"

definition with_pricing :: "(pricing_world \<Rightarrow> 'a \<times> pricing_world) \<Rightarrow> relay_state \<Rightarrow> 'a \<times> relay_state" where
  "with_pricing f s = (case f ((yw_pricing s)\<lparr>pw_co := yw_co s\<rparr>) of
     (r, w) \<Rightarrow> (r, s\<lparr>yw_pricing := w, yw_co := pw_co w\<rparr>))"

definition with_usage_log :: "(usage_world \<Rightarrow> 'a \<times> usage_world) \<Rightarrow> relay_state \<Rightarrow> 'a \<times> relay_state" where
  "with_usage_log f s = (case f ((yw_usage s)\<lparr>uw_co := yw_co s\<rparr>) of
     (r, w) \<Rightarrow> (r, s\<lparr>yw_usage := w, yw_co := uw_co w\<rparr>))"

definition with_quota :: "(quota_world \<Rightarrow> 'a \<times> quota_world) \<Rightarrow> relay_state \<Rightarrow> 'a \<times> relay_state" where
  "with_quota f s = (case f (yw_quota s) of (r, w) \<Rightarrow> (r, s\<lparr>yw_quota := w\<rparr>))"

subsection \<open>Helpers\<close>

fun endpoint_name :: "endpoint \<Rightarrow> string" where
  "endpoint_name Chat = ''chat''"
| "endpoint_name Completions = ''completions''"
| "endpoint_name Embeddings = ''embeddings''"
| "endpoint_name Models = ''models''"
| "endpoint_name CountTokens = ''countTokens''"
| "endpoint_name ImageGenerations = ''images.generations''"
| "endpoint_name ImageEdits = ''images.edits''"
| "endpoint_name AudioSpeech = ''audio.speech''"
| "endpoint_name AudioTranscriptions = ''audio.transcriptions''"
| "endpoint_name AudioTranslations = ''audio.translations''"
| "endpoint_name Moderations = ''moderations''"
| "endpoint_name Rerank = ''rerank''"

fun dialect_name :: "dialect \<Rightarrow> string" where
  "dialect_name DOpenai = ''openai''" | "dialect_name DAnthropic = ''anthropic''" | "dialect_name DGemini = ''gemini''"

fun respond_dialect :: "dialect \<Rightarrow> response_dialect" where
  "respond_dialect DOpenai = ROpenai" | "respond_dialect DAnthropic = RAnthropic" | "respond_dialect DGemini = RGemini"

definition cfg_upstream_header_timeout_ms :: "env \<Rightarrow> int" where
  "cfg_upstream_header_timeout_ms env = env_int env ''UPSTREAM_HEADER_TIMEOUT_MS'' 60000"

definition cfg_max_upstream_response_bytes :: "env \<Rightarrow> int" where
  "cfg_max_upstream_response_bytes env = env_int env ''MAX_UPSTREAM_RESPONSE_BYTES'' (64 * 1024 * 1024)"

text \<open>A group override is honoured for staff only.\<close>

definition group_for :: "identity \<Rightarrow> key_directives \<Rightarrow> string" where
  "group_for idn d =
     (if idn_role idn = RoleUser then idn_group idn
      else (case kd_group d of Some g \<Rightarrow> if g \<noteq> [] then g else idn_group idn | None \<Rightarrow> idn_group idn))"

definition concurrency_ceiling :: "identity \<Rightarrow> int" where
  "concurrency_ceiling idn =
     (if idn_rpm_limit idn \<le> 0 then 0 else max 2 \<lceil>of_int (idn_rpm_limit idn) / (10 :: rat)\<rceil>)"

definition estimate_prompt_tokens :: "members \<Rightarrow> int" where
  "estimate_prompt_tokens body = max 1 \<lceil>of_nat (length (json_stringify (JObj body))) / (4 :: rat)\<rceil>"

definition estimate_completion_tokens :: "members \<Rightarrow> rat" where
  "estimate_completion_tokens body =
     (case num_or (num_of ''max_tokens'' body) (num_of ''max_completion_tokens'' body) of
        JFin x \<Rightarrow> min (max 0 x) 4096 | JPosInf \<Rightarrow> 4096 | _ \<Rightarrow> 0)"

text \<open>The asked number of tokens may be a fraction; a usage record counts in whole tokens, so the ratio
  carries it.\<close>

definition estimated_quota :: "env \<Rightarrow> members \<Rightarrow> resolved_pricing \<times> rat \<Rightarrow> string \<Rightarrow> jsnum" where
  "estimated_quota env body price billed =
     quota_for env (empty_usage\<lparr>nu_prompt := estimate_prompt_tokens body, nu_completion := 1\<rparr>)
       ((fst price)\<lparr>rp_completion_ratio := estimate_completion_tokens body * rp_completion_ratio (fst price)\<rparr>) (snd price) billed"

definition raw_usage_of :: "dialect \<Rightarrow> members \<Rightarrow> json option" where
  "raw_usage_of d parsed = get_field (if d = DGemini then ''usageMetadata'' else ''usage'') parsed"

definition started_at :: "outside \<Rightarrow> auth_context \<Rightarrow> int" where
  "started_at y auth = (if ac_started_at auth \<noteq> 0 then ac_started_at auth else yo_now y AtEntry)"

definition release_request_lease :: "outside \<Rightarrow> relay_state \<Rightarrow> relay_state" where
  "release_request_lease y s =
     (if yl_lease_released s then s
      else snd (with_co (release_lease (yo_now y AtLeaseRelease) (yl_lease s) False) (s\<lparr>yl_lease_released := True\<rparr>)))"

subsection \<open>Admission\<close>

text \<open>What happens before the protected part: a refusal here leaves no row.\<close>

definition admission :: "outside \<Rightarrow> auth_context \<Rightarrow> string \<Rightarrow> relay_state \<Rightarrow> (gateway_error + unit) \<times> relay_state" where
  "admission y auth model s =
     (let env = yo_env y; idn = ac_identity auth in
      case assert_model_allowed idn model of
        Inl e \<Rightarrow> (Inl e, s)
      | Inr _ \<Rightarrow>
        (case with_co (enforce_request_limits env (yo_now y AtLimits) idn (ac_ip_hash auth)) s of
           (Inl e, s1) \<Rightarrow> (Inl e, s1)
         | (Inr _, s1) \<Rightarrow>
           (case with_co (enforce_success_window env (yo_now y AtWindow) idn (ac_request_id auth)) s1 of
              (Inl e, s2) \<Rightarrow> (Inl e, s2)
            | (Inr _, s2) \<Rightarrow>
              (case with_co (acquire_concurrency env (yo_now y AtLease) RateLimit.ScopeUser (idn_user_id idn)
                     (concurrency_ceiling idn) (yo_member y)) s2 of
                 (Inl e, s3) \<Rightarrow> (Inl e, s3)
               | (Inr lease, s3) \<Rightarrow>
                   (Inr (), s3\<lparr>yl_lease := lease, yl_lease_released := False, yl_reserved := False, yl_settled := False\<rparr>)))))"

definition reserve :: "outside \<Rightarrow> auth_context \<Rightarrow> jsnum \<Rightarrow> relay_state \<Rightarrow> (gateway_error + unit) \<times> relay_state" where
  "reserve y auth estimate s =
     (let now = yo_now y AtReserve in
      case pre_consumed_quota (yo_env y) of
        Inl e \<Rightarrow> (Inl e, s)
      | Inr pre \<Rightarrow>
          (case reserve_quota (is_degraded now (yw_co s)) (yo_db_fails y AtReserve) now (ac_identity auth)
                 (ac_request_id auth) (js_max (js_int pre) estimate) (qw_ledger (yw_quota s)) of
             (Inl e, l) \<Rightarrow> (Inl e, s\<lparr>yw_quota := (yw_quota s)\<lparr>qw_ledger := l\<rparr>\<rparr>)
           | (Inr _, l) \<Rightarrow> (Inr (), s\<lparr>yw_quota := (yw_quota s)\<lparr>qw_ledger := l\<rparr>, yl_reserved := True\<rparr>)))"

text \<open>The price of the model the client named, the token budget, the hold.\<close>

definition price_and_reserve ::
    "outside \<Rightarrow> relay_input \<Rightarrow> string \<Rightarrow> string \<Rightarrow> relay_state \<Rightarrow> (gateway_error + resolved_pricing \<times> rat) \<times> relay_state" where
  "price_and_reserve y i grp billed s =
     (let env = yo_env y; auth = yi_auth i in
      case with_pricing (resolve_pricing env (yo_now y AtPricing) billed grp) s of
        (price, s1) \<Rightarrow>
          (case with_co (enforce_token_budget env (yo_now y AtBudget) (ac_identity auth)
                 (of_int (estimate_prompt_tokens (yi_body i)))) s1 of
             (Inl e, s2) \<Rightarrow> (Inl e, s2)
           | (Inr _, s2) \<Rightarrow>
               (case reserve y auth (estimated_quota env (yi_body i) price billed) s2 of
                  (Inl e, s3) \<Rightarrow> (Inl e, s3)
                | (Inr _, s3) \<Rightarrow> (Inr price, s3))))"

subsection \<open>One attempt\<close>

record upstream_reply =
  up_response :: upstream_response
  up_wire :: dialect
  up_mapped :: string
  up_secret :: string

text \<open>What is sent to the elected channel: the URL and the request.\<close>

definition upstream_request :: "outside \<Rightarrow> relay_input \<Rightarrow> attempt_context \<Rightarrow> thrown + dialect \<times> string \<times> request_init" where
  "upstream_request y i ctx =
     (let env = yo_env y; channel = ac_channel ctx; mapped = rm_mapped (ac_model ctx); n = 2 * ac_attempt ctx in
      case dialect_for (ch_type channel) of
        Inl e \<Rightarrow> Inl e
      | Inr wire \<Rightarrow>
        (case transform_request env (yo_ids y n) (yo_ids y (n + 1)) (yi_dialect i) wire (yi_body i) mapped of
           Inl e \<Rightarrow> Inl e
         | Inr body \<Rightarrow>
           (case upstream_url_for env channel (yi_endpoint i) (model_text mapped) (yi_stream i) of
              Inl e \<Rightarrow> Inl e
            | Inr url \<Rightarrow>
              (case provider_auth_headers env (ch_type channel) (sk_secret (ac_key ctx)) of
                 Inl e \<Rightarrow> Inl e
               | Inr auth \<Rightarrow>
                 (case build_upstream_headers (cfg_site_name env) (yi_headers i) auth (ch_headers channel)
                        (Some ''application/json'') None of
                    Inl e \<Rightarrow> Inl e
                  | Inr hs \<Rightarrow>
                      Inr (wire, url, \<lparr>rq_method = Some ''POST'',
                        rq_headers = (if yi_stream i then put ''accept'' ''text/event-stream'' hs else hs),
                        rq_body = TextBody (json_stringify (JObj body))\<rparr>))))))"

definition header_timeout :: "env \<Rightarrow> attempt_context \<Rightarrow> int" where
  "header_timeout env ctx = max 1000 (min (cfg_upstream_header_timeout_ms env) (ac_remaining_ms ctx))"

definition response_ok :: "upstream_response \<Rightarrow> bool" where
  "response_ok r \<longleftrightarrow> 200 \<le> ur_status r \<and> ur_status r \<le> 299"

text \<open>A refusal of the provider, with its message made safe to show.\<close>

definition refusal :: "env \<Rightarrow> attempt_context \<Rightarrow> upstream_response \<Rightarrow> thrown" where
  "refusal env ctx r =
     (let detail = (case read_capped_text (cfg_max_upstream_response_bytes env) (ur_body r) of Inl e \<Rightarrow> [] | Inr t \<Rightarrow> t)
      in Gateway (from_upstream (ur_status r) (sanitize_provider_error detail (sk_secret (ac_key ctx)))
           (Some (ch_id (ac_channel ctx)))))"

definition attempt :: "outside \<Rightarrow> relay_input \<Rightarrow> attempt_context \<Rightarrow> thrown + upstream_reply" where
  "attempt y i ctx =
     (case upstream_request y i ctx of
        Inl e \<Rightarrow> Inl e
      | Inr (wire, url, init) \<Rightarrow>
          (case yo_call y url init (header_timeout (yo_env y) ctx) of
             Inl e \<Rightarrow> Inl e
           | Inr r \<Rightarrow>
               if response_ok r
               then Inr \<lparr>up_response = r, up_wire = wire, up_mapped = model_text (rm_mapped (ac_model ctx)),
                          up_secret = sk_secret (ac_key ctx)\<rparr>
               else Inl (refusal (yo_env y) ctx r)))"

text \<open>A directive of the key may lower the retry ceiling, never raise it.\<close>

definition attempt_ceiling :: "env \<Rightarrow> key_directives \<Rightarrow> int" where
  "attempt_ceiling env d =
     (let ceiling = cfg_retry_times env + 1;
          requested = (case kd_retry d of Some r \<Rightarrow> r + 1 | None \<Rightarrow> ceiling)
      in max 1 (min ceiling requested))"

definition retry_request_of :: "outside \<Rightarrow> relay_input \<Rightarrow> string \<Rightarrow> retry_request" where
  "retry_request_of y i grp =
     \<lparr>rq_group = grp, rq_model = yi_model i, rq_affinity_hash = yi_affinity i,
      rq_max_attempts = Some (case yi_max_attempts i of Some n \<Rightarrow> n
        | None \<Rightarrow> attempt_ceiling (yo_env y) (effective_directives (yi_auth i))),
      rq_budget_ms = yi_budget_ms i\<rparr>"

subsection \<open>Settlement\<close>

record settle_args =
  sa_usage :: normalized_usage
  sa_channel :: string
  sa_mapped :: string
  sa_attempts :: nat
  sa_status :: usage_status
  sa_error_code :: "string option"
  sa_first_byte :: "int option"

definition request_charge :: "outside \<Rightarrow> resolved_pricing \<times> rat \<Rightarrow> string \<Rightarrow> normalized_usage \<Rightarrow> jsnum" where
  "request_charge y price billed usage = quota_for (yo_env y) usage (fst price) (snd price) billed"

text \<open>An absent number reads as no number.\<close>

definition settled_row :: "outside \<Rightarrow> relay_input \<Rightarrow> string \<Rightarrow> jsnum \<Rightarrow> settle_args \<Rightarrow> usage_record_input" where
  "settled_row y i grp quota a =
     (let auth = yi_auth i; idn = ac_identity auth in
      \<lparr>ui_request_id = ac_request_id auth, ui_user_id = idn_user_id idn, ui_token_id = idn_token_id idn,
       ui_channel_id = sa_channel a, ui_group = grp, ui_model = yi_model i, ui_mapped_model = sa_mapped a,
       ui_billed_model = billed_model_for (yi_model i) (yi_model i), ui_endpoint = endpoint_name (yi_endpoint i),
       ui_dialect = dialect_name (yi_dialect i), ui_stream = yi_stream i, ui_usage = Some (sa_usage a), ui_quota = quota,
       ui_elapsed_ms = js_int (yo_now y AtRecord - started_at y auth),
       ui_first_byte_ms = (case sa_first_byte a of Some t \<Rightarrow> js_int t | None \<Rightarrow> JNaN),
       ui_retries = js_int (max 0 (int (sa_attempts a) - 1)), ui_status = sa_status a, ui_error_code = sa_error_code a,
       ui_http_status = JFin 200, ui_ip_hash = ac_ip_hash auth, ui_created_at = None\<rparr>)"

text \<open>What follows the check of the flag: the hold is the settlement's, the ledger may refuse, the budget,
  the row and the lease are seen to in any case, and only then is a fault of the ledger raised.\<close>

definition settle_work ::
    "outside \<Rightarrow> relay_input \<Rightarrow> string \<Rightarrow> resolved_pricing \<times> rat \<Rightarrow> settle_args \<Rightarrow> relay_state \<Rightarrow>
     (gateway_error + unit) \<times> relay_state" where
  "settle_work y i grp price a s =
     (let auth = yi_auth i; idn = ac_identity auth; billed = billed_model_for (yi_model i) (yi_model i);
          quota = request_charge y price billed (sa_usage a)
      in case with_quota (finalize_quota (yo_db_fails y AtFinalize) (yo_push_fails y AtFinalize) (yo_now y AtFinalize) idn
             (ac_request_id auth) quota) (s\<lparr>yl_reserved := False\<rparr>) of
           (r, s1) \<Rightarrow>
             (let s2 = s1\<lparr>yw_co := charge_token_budget (yo_env y) (yo_now y AtCharge) idn
                    (of_int (nu_completion (sa_usage a))) (yw_co s1)\<rparr>;
                  s3 = snd (with_usage_log (record_usage (yo_now y AtRecord) (settled_row y i grp quota a) (yi_buffered i)) s2);
                  s4 = release_request_lease y s3
              in (case r of Inl e \<Rightarrow> Inl e | Inr _ \<Rightarrow> Inr (), s4)))"

definition settle ::
    "outside \<Rightarrow> relay_input \<Rightarrow> string \<Rightarrow> resolved_pricing \<times> rat \<Rightarrow> settle_args \<Rightarrow> relay_state \<Rightarrow>
     (gateway_error + unit) \<times> relay_state" where
  "settle y i grp price a s =
     (if yl_settled s then (Inr (), s) else settle_work y i grp price a (s\<lparr>yl_settled := True\<rparr>))"

text \<open>The hold given back; a fault is swallowed.\<close>

definition give_back :: "outside \<Rightarrow> moment \<Rightarrow> auth_context \<Rightarrow> relay_state \<Rightarrow> relay_state" where
  "give_back y m auth s =
     snd (with_quota (release_quota (yo_db_fails y m) (yo_push_fails y m) (yo_now y m) (ac_identity auth)
       (ac_request_id auth)) s)\<lparr>yl_reserved := False\<rparr>"

definition malformed_body :: thrown where
  "malformed_body = Gateway (malformed_upstream_body ''upstream returned an unparseable body'')"

definition missing_body :: thrown where
  "missing_body = Gateway (malformed_upstream_body ''upstream returned no body for a streamed request'')"

subsection \<open>A buffered answer\<close>

definition parsed_body :: "env \<Rightarrow> string \<Rightarrow> members option" where
  "parsed_body env t =
     (case json_parse t of
        None \<Rightarrow> None
      | Some j \<Rightarrow> (case sanitized_record env (Some j) of Inl e \<Rightarrow> None | Inr ms \<Rightarrow> Some ms))"

definition exclusive_usage :: "string \<Rightarrow> bool" where
  "exclusive_usage billed \<longleftrightarrow> usage_semantic_for billed = Exclusive"

definition answer_buffered ::
    "outside \<Rightarrow> relay_input \<Rightarrow> string \<Rightarrow> resolved_pricing \<times> rat \<Rightarrow> upstream_reply relay_outcome \<Rightarrow> relay_state \<Rightarrow>
     (thrown + string response) \<times> relay_state" where
  "answer_buffered y i grp price outcome s =
     (let env = yo_env y; auth = yi_auth i; v = ro_value outcome; billed = billed_model_for (yi_model i) (yi_model i);
          first_byte = yo_now y AtFirstByte - started_at y auth
      in case read_capped_text (cfg_max_upstream_response_bytes env) (ur_body (up_response v)) of
           Inl e \<Rightarrow> (Inl e, s)
         | Inr t \<Rightarrow>
           (case parsed_body env t of
              None \<Rightarrow> (Inl malformed_body, release_request_lease y (give_back y AtRelease auth s))
            | Some parsed \<Rightarrow>
              (case transform_response env (yo_now y AtFirstByte div 1000) (yo_fresh y) (yo_ids y 0) (yo_ids y 1) (up_wire v)
                     (yi_dialect i) (Some (JObj parsed)) (yi_model i) of
                 Inl e \<Rightarrow> (Inl e, s)
               | Inr client_body \<Rightarrow>
                 (case settle y i grp price
                      \<lparr>sa_usage = normalize_usage (raw_usage_of (up_wire v) parsed) (exclusive_usage billed),
                       sa_channel = ro_channel_id outcome, sa_mapped = up_mapped v, sa_attempts = ro_attempts outcome,
                       sa_status = UsageSuccess, sa_error_code = None, sa_first_byte = Some first_byte\<rparr> s of
                    (Inl e, s1) \<Rightarrow> (Inl (Gateway e), s1)
                  | (Inr _, s1) \<Rightarrow>
                    (case redact_provider_value (cfg_max_json_depth env) (cfg_max_json_nodes env) (JObj client_body) (up_secret v) of
                       Inl l \<Rightarrow> (Inl (JsonLimitThrown l (limit_text env l)), s1)
                     | Inr safe \<Rightarrow> (Inr (json_response safe (plain_init\<lparr>ri_request_id := ac_request_id auth\<rparr>)), s1))))))"

subsection \<open>A stream\<close>

record stream_context =
  sc_outside :: outside
  sc_input :: relay_input
  sc_group :: string
  sc_price :: "resolved_pricing \<times> rat"
  sc_channel :: string
  sc_attempts :: nat
  sc_first_byte :: int
  sc_wire :: dialect
  sc_mapped :: string
  sc_secret :: string

text \<open>\<open>sm_pending\<close> is a settlement under way and whether the stream is closed after it; \<open>sm_events\<close> counts the
  events read, which name the random draws.\<close>

record stream_state =
  sm_relay :: relay_state
  sm_translator :: translator
  sm_framer :: framer
  sm_out :: "string list"
  sm_events :: nat
  sm_finished :: bool
  sm_cancelled :: bool
  sm_closed :: bool
  sm_errored :: bool
  sm_pending :: "(settle_args \<times> bool) option"

text \<open>What can happen to an open stream: a read ends in an event, at the end or in an error, the client hangs up,
  a settlement comes to its end.\<close>

datatype stream_label = ReadEvent sse_event | ReadEnd | ReadError thrown | ClientCancel | SettlementDone

definition enqueue :: "string \<Rightarrow> stream_state \<Rightarrow> stream_state" where
  "enqueue t m = (if t \<noteq> [] then m\<lparr>sm_out := sm_out m @ [t]\<rparr> else m)"

definition open_stream :: "stream_context \<Rightarrow> relay_state \<Rightarrow> stream_state" where
  "open_stream c s =
     (let i = sc_input c; rid = ac_request_id (yi_auth i);
          f = create_client_framer (yi_dialect i) (yi_model i) rid
      in enqueue (framer_start f)
        \<lparr>sm_relay = s\<lparr>yl_reserved := False\<rparr>,
         sm_translator = create_stream_translator (sc_wire c) (yi_model i) rid (yo_now (sc_outside c) AtFirstByte div 1000)
           (yi_usage_injected i),
         sm_framer = f, sm_out = [], sm_events = 0, sm_finished = False, sm_cancelled = False, sm_closed = False,
         sm_errored = False, sm_pending = None\<rparr>)"

definition stream_usage :: "stream_context \<Rightarrow> stream_state \<Rightarrow> normalized_usage" where
  "stream_usage c m =
     normalize_usage (Some (JObj (translator_usage (sm_translator m))))
       (exclusive_usage (billed_model_for (yi_model (sc_input c)) (yi_model (sc_input c))))"

definition stream_args :: "stream_context \<Rightarrow> usage_status \<Rightarrow> string option \<Rightarrow> int option \<Rightarrow> stream_state \<Rightarrow> settle_args" where
  "stream_args c status code first_byte m =
     \<lparr>sa_usage = stream_usage c m, sa_channel = sc_channel c, sa_mapped = sc_mapped c, sa_attempts = sc_attempts c,
      sa_status = status, sa_error_code = code, sa_first_byte = first_byte\<rparr>"

text \<open>The part of \<open>settle\<close> before its first await.\<close>

definition begin_settlement :: "settle_args \<Rightarrow> bool \<Rightarrow> stream_state \<Rightarrow> stream_state" where
  "begin_settlement a closes m =
     (if yl_settled (sm_relay m) then (if closes \<and> \<not> sm_cancelled m then m\<lparr>sm_closed := True\<rparr> else m)
      else m\<lparr>sm_relay := (sm_relay m)\<lparr>yl_settled := True\<rparr>, sm_pending := Some (a, closes)\<rparr>)"

definition finish_stream :: "stream_context \<Rightarrow> usage_status \<Rightarrow> string option \<Rightarrow> stream_state \<Rightarrow> stream_state" where
  "finish_stream c status code m =
     (if sm_finished m then m
      else (case framer_finish (Some (translator_usage (sm_translator m))) (sm_framer m) of
          (tail, f) \<Rightarrow>
            let m1 = m\<lparr>sm_finished := True, sm_framer := f\<rparr>;
                m2 = (if sm_cancelled m1 then m1 else enqueue tail m1)
            in begin_settlement (stream_args c status code (Some (sc_first_byte c)) m) True m2))"

text \<open>The event with the credential taken out; what is no JSON, or over the limits, is left as it is.\<close>

definition redacted_event :: "stream_context \<Rightarrow> sse_event \<Rightarrow> sse_event" where
  "redacted_event c ev =
     (let env = yo_env (sc_outside c) in
      case json_parse (se_data ev) of
        None \<Rightarrow> ev
      | Some j \<Rightarrow>
          (case redact_provider_value (cfg_max_json_depth env) (cfg_max_json_nodes env) j (sc_secret c) of
             Inl _ \<Rightarrow> ev
           | Inr j' \<Rightarrow> ev\<lparr>se_data := json_stringify j'\<rparr>))"

definition ends_wire :: "stream_context \<Rightarrow> sse_event \<Rightarrow> translator \<Rightarrow> bool" where
  "ends_wire c ev t \<longleftrightarrow> (if sc_wire c = DOpenai then js_trim (se_data ev) = sse_done_mark else translator_done t)"

definition read_event :: "stream_context \<Rightarrow> sse_event \<Rightarrow> stream_state \<Rightarrow> stream_state" where
  "read_event c ev m =
     (let n = sm_events m; y = sc_outside c in
      case translator_handle (yo_env y) (yo_ids y n 0) (redacted_event c ev) (sm_translator m) of
        (chunks, t) \<Rightarrow>
          (case frame_chunks (yo_ids y n) 1 chunks (sm_framer m) of
             (payload, f) \<Rightarrow>
               let m1 = enqueue payload (m\<lparr>sm_translator := t, sm_framer := f, sm_events := n + 1\<rparr>)
               in if ends_wire c ev t then finish_stream c UsageSuccess None m1 else m1))"

definition read_failed :: "stream_context \<Rightarrow> thrown \<Rightarrow> stream_state \<Rightarrow> stream_state" where
  "read_failed c e m =
     (let g = error_from e in
      finish_stream c UsageError (Some (error_code_text (ge_code g)))
        (enqueue (error_sse_chunk g (respond_dialect (yi_dialect (sc_input c)))) m))"

definition cancel_stream :: "stream_context \<Rightarrow> stream_state \<Rightarrow> stream_state" where
  "cancel_stream c m =
     begin_settlement (stream_args c UsageAborted None None m) False (m\<lparr>sm_cancelled := True, sm_finished := True\<rparr>)"

definition end_settlement :: "stream_context \<Rightarrow> settle_args \<Rightarrow> bool \<Rightarrow> stream_state \<Rightarrow> stream_state" where
  "end_settlement c a closes m =
     (case settle_work (sc_outside c) (sc_input c) (sc_group c) (sc_price c) a (sm_relay m) of
        (r, s) \<Rightarrow>
          let m1 = m\<lparr>sm_relay := s, sm_pending := None\<rparr> in
          if \<not> closes \<or> sm_cancelled m then m1
          else (case r of Inl e \<Rightarrow> m1\<lparr>sm_errored := True\<rparr> | Inr _ \<Rightarrow> m1\<lparr>sm_closed := True\<rparr>))"

text \<open>A read that comes back after the end is ignored. The platform reports a hang-up once, and only while the stream is open.\<close>

fun stream_step :: "stream_context \<Rightarrow> stream_label \<Rightarrow> stream_state \<Rightarrow> stream_state option" where
  "stream_step c (ReadEvent ev) m = Some (if sm_finished m then m else read_event c ev m)"
| "stream_step c ReadEnd m = Some (if sm_finished m then m else finish_stream c UsageSuccess None m)"
| "stream_step c (ReadError e) m = Some (if sm_finished m then m else read_failed c e m)"
| "stream_step c ClientCancel m =
     (if sm_closed m \<or> sm_errored m \<or> sm_cancelled m then None else Some (cancel_stream c m))"
| "stream_step c SettlementDone m =
     (case sm_pending m of None \<Rightarrow> None | Some (a, closes) \<Rightarrow> Some (end_settlement c a closes m))"

fun stream_run :: "stream_context \<Rightarrow> stream_label list \<Rightarrow> stream_state \<Rightarrow> stream_state option" where
  "stream_run c [] m = Some m"
| "stream_run c (l # ls) m = (case stream_step c l m of None \<Rightarrow> None | Some m' \<Rightarrow> stream_run c ls m')"

subsection \<open>The request\<close>

datatype relay_result = Refused gateway_error | Answered "string response" | Streaming stream_context "stream_state response"

definition failure_row :: "outside \<Rightarrow> relay_input \<Rightarrow> string \<Rightarrow> gateway_error \<Rightarrow> usage_record_input" where
  "failure_row y i grp e =
     (let auth = yi_auth i; idn = ac_identity auth in
      \<lparr>ui_request_id = ac_request_id auth, ui_user_id = idn_user_id idn, ui_token_id = idn_token_id idn,
       ui_channel_id = (case ge_channel_id e of Some c \<Rightarrow> c | None \<Rightarrow> []), ui_group = grp, ui_model = yi_model i,
       ui_mapped_model = yi_model i, ui_billed_model = billed_model_for (yi_model i) (yi_model i),
       ui_endpoint = endpoint_name (yi_endpoint i), ui_dialect = dialect_name (yi_dialect i), ui_stream = yi_stream i,
       ui_usage = None, ui_quota = JFin 0, ui_elapsed_ms = js_int (yo_now y AtFailure - started_at y auth),
       ui_first_byte_ms = JNaN, ui_retries = JNaN,
       ui_status = (if ge_status e = 499 then UsageAborted else UsageError),
       ui_error_code = Some (error_code_text (ge_code e)), ui_http_status = js_int (ge_status e),
       ui_ip_hash = ac_ip_hash auth, ui_created_at = None\<rparr>)"

text \<open>The handler of every failure after admission: the hold, if it is still the request's, the row, the lease.\<close>

definition fail :: "outside \<Rightarrow> relay_input \<Rightarrow> string \<Rightarrow> thrown \<Rightarrow> relay_state \<Rightarrow> gateway_error \<times> relay_state" where
  "fail y i grp t s =
     (let s1 = (if yl_reserved s then give_back y AtFailureRelease (yi_auth i) s else s);
          e = error_from t;
          s2 = snd (with_usage_log (record_usage (yo_now y AtFailure) (failure_row y i grp e) (yi_buffered i)) s1)
      in (e, release_request_lease y s2))"

definition elect_and_call ::
    "outside \<Rightarrow> relay_input \<Rightarrow> string \<Rightarrow> relay_state \<Rightarrow>
     (thrown + upstream_reply relay_outcome) \<times> retry_event list \<times> relay_state" where
  "elect_and_call y i grp s =
     with_routing (with_channel_retry (yo_env y) (yo_open y) (attempt y i) (retry_request_of y i grp)
       (yo_now y AtElection) (yo_ticks y)) s"

definition stream_context_of ::
    "outside \<Rightarrow> relay_input \<Rightarrow> string \<Rightarrow> resolved_pricing \<times> rat \<Rightarrow> upstream_reply relay_outcome \<Rightarrow> stream_context" where
  "stream_context_of y i grp price outcome =
     \<lparr>sc_outside = y, sc_input = i, sc_group = grp, sc_price = price, sc_channel = ro_channel_id outcome,
      sc_attempts = ro_attempts outcome, sc_first_byte = yo_now y AtFirstByte - started_at y (yi_auth i),
      sc_wire = up_wire (ro_value outcome), sc_mapped = up_mapped (ro_value outcome),
      sc_secret = up_secret (ro_value outcome)\<rparr>"

text \<open>After the call: the buffered answer, or the stream, which takes the hold and the lease with it.\<close>

definition respond ::
    "outside \<Rightarrow> relay_input \<Rightarrow> string \<Rightarrow> resolved_pricing \<times> rat \<Rightarrow> upstream_reply relay_outcome \<Rightarrow> relay_state \<Rightarrow>
     (thrown + relay_result) \<times> relay_state" where
  "respond y i grp price outcome s =
     (if \<not> yi_stream i then
        (case answer_buffered y i grp price outcome s of
           (Inl e, s1) \<Rightarrow> (Inl e, s1)
         | (Inr r, s1) \<Rightarrow> (Inr (Answered r), s1\<lparr>yl_reserved := False\<rparr>))
      else if ur_body (up_response (ro_value outcome)) = None then
        (Inl missing_body, release_request_lease y (give_back y AtRelease (yi_auth i) s))
      else
        let c = stream_context_of y i grp price outcome; s1 = s\<lparr>yl_reserved := False\<rparr>
        in (Inr (Streaming c (stream_response (open_stream c s1) (plain_init\<lparr>ri_request_id := ac_request_id (yi_auth i)\<rparr>) None)), s1))"

definition protected ::
    "outside \<Rightarrow> relay_input \<Rightarrow> string \<Rightarrow> relay_state \<Rightarrow> (thrown + relay_result) \<times> retry_event list \<times> relay_state" where
  "protected y i grp s =
     (case price_and_reserve y i grp (billed_model_for (yi_model i) (yi_model i)) s of
        (Inl e, s1) \<Rightarrow> (Inl (Gateway e), [], s1)
      | (Inr price, s1) \<Rightarrow>
          (case elect_and_call y i grp s1 of
             (Inl e, es, s2) \<Rightarrow> (Inl e, es, s2)
           | (Inr outcome, es, s2) \<Rightarrow> (case respond y i grp price outcome s2 of (r, s3) \<Rightarrow> (r, es, s3))))"

definition relay :: "outside \<Rightarrow> relay_input \<Rightarrow> relay_state \<Rightarrow> relay_result \<times> retry_event list \<times> relay_state" where
  "relay y i s =
     (let auth = yi_auth i; grp = group_for (ac_identity auth) (effective_directives auth) in
      case admission y auth (yi_model i) s of
        (Inl e, s1) \<Rightarrow> (Refused e, [], s1)
      | (Inr _, s1) \<Rightarrow>
          (case protected y i grp s1 of
             (Inr r, es, s2) \<Rightarrow> (r, es, s2)
           | (Inl t, es, s2) \<Rightarrow> (case fail y i grp t s2 of (e, s3) \<Rightarrow> (Refused e, es, s3))))"

end
