(* ===== verification/RelayEntry.thy ===== *)
theory RelayEntry
  imports Relay "HOL-Library.Char_ord" "HOL-Library.List_Lexorder"
begin

text \<open>
  The entry of every relay route, \<open>src/lib/relay/entry.ts\<close>: authentication before the body, the body
  under a ceiling and a deadline, parsing, the shape the
  pipeline expects, the error in the dialect of the client. Then the relay of opaque bodies,
  \<open>src/lib/relay/passthrough.ts\<close>, the catalogue of \<open>models.ts\<close> and the billing endpoints of
  \<open>dashboard.ts\<close>. Bytes that are read as text are text.
\<close>

subsection \<open>Reading a request body\<close>

definition over_bytes :: "int \<Rightarrow> thrown" where
  "over_bytes mx = JsonLimitThrown LimBytes (''payload exceeds '' @ show_int mx @ '' bytes'')"

text \<open>What the reader of \<open>JsonValue\<close> ends in, as the error that is thrown.\<close>

definition read_body :: "read_event list option \<Rightarrow> int \<Rightarrow> thrown + string" where
  "read_body b mx =
     (case read_limited_bytes mx b of
        Inr t \<Rightarrow> Inr t
      | Inl (ReadLimit LimTimeout) \<Rightarrow> Inl (JsonLimitThrown LimTimeout ''request body timed out'')
      | Inl (ReadLimit l) \<Rightarrow> Inl (over_bytes mx)
      | Inl ReadAborted \<Rightarrow> Inl AbortThrown
      | Inl ReadStarved \<Rightarrow> Inl OtherThrown)"

definition json_error_thrown :: "env \<Rightarrow> int \<Rightarrow> json_error \<Rightarrow> thrown" where
  "json_error_thrown env mx e =
     (case e of SyntaxErr \<Rightarrow> SyntaxThrown
      | LimitErr LimBytes \<Rightarrow> over_bytes mx
      | LimitErr l \<Rightarrow> JsonLimitThrown l (limit_text env l))"

definition parse_body :: "env \<Rightarrow> int \<Rightarrow> string \<Rightarrow> thrown + json" where
  "parse_body env mx t =
     (case safe_json_parse mx (cfg_max_json_depth env) (cfg_max_json_nodes env) t of
        Inl e \<Rightarrow> Inl (json_error_thrown env mx e) | Inr j \<Rightarrow> Inr j)"

subsection \<open>The shape of a request\<close>

record route_options =
  ro_endpoint :: endpoint
  ro_dialect :: dialect
  ro_chat :: bool
  ro_default_model :: "string option"
  ro_path_model :: "string option"
  ro_path_stream :: bool

definition model_required :: "string \<Rightarrow> thrown" where
  "model_required msg = Gateway (invalid_request msg (Some ''model''))"

text \<open>The model a route puts in when the body names none.\<close>

definition with_default_model :: "string option \<Rightarrow> json \<Rightarrow> json" where
  "with_default_model d raw =
     (case (d, raw) of
        (Some m, JObj ms) \<Rightarrow> if m \<noteq> [] \<and> str_of ''model'' ms = [] then JObj (put_field ''model'' (JStr m) ms) else raw
      | _ \<Rightarrow> raw)"

definition normalize_for :: "env \<Rightarrow> route_options \<Rightarrow> json \<Rightarrow> thrown + normalized_request" where
  "normalize_for env q raw =
     (if ro_dialect q = DOpenai then normalize_openai_request env (with_default_model (ro_default_model q) raw) (ro_chat q)
      else if \<not> is_plain_object raw then Inl (Gateway (invalid_request ''request body must be a JSON object'' None))
      else (case sanitized_record env (Some raw) of
          Inl e \<Rightarrow> Inl e
        | Inr body \<Rightarrow>
            if ro_dialect q = DAnthropic then
              (let model = text_or (str_of ''model'' body) (case ro_default_model q of Some m \<Rightarrow> m | None \<Rightarrow> []) in
               if model = [] then Inl (model_required ''the model field is required'')
               else Inr \<lparr>nr_body = body, nr_stream = (get_field ''stream'' body = Some (JBool True)), nr_model = model,
                         nr_usage_injected = False\<rparr>)
            else
              (let model = (case ro_path_model q of Some m \<Rightarrow> m | None \<Rightarrow> str_of ''model'' body) in
               if model = [] then Inl (model_required ''the model must be given in the path'')
               else Inr \<lparr>nr_body = body, nr_stream = ro_path_stream q, nr_model = model, nr_usage_injected = False\<rparr>)))"

subsection \<open>The handler\<close>

text \<open>What arrives, and the arguments of authentication.\<close>

record request_in =
  qi_headers :: headers
  qi_query_key :: "string option"
  qi_body :: "read_event list option"
  qi_request_id :: string

record auth_outside =
  ao_sha :: "string \<Rightarrow> string"
  ao_hash_ip :: "string \<Rightarrow> string"
  ao_clock :: auth_clock

record entry_world =
  ew_auth :: auth_world
  ew_relay :: relay_state

datatype entry_result = Responded "string response" | Opened stream_context "stream_state response"

definition relay_input_of :: "route_options \<Rightarrow> request_in \<Rightarrow> auth_context \<Rightarrow> normalized_request \<Rightarrow> relay_input" where
  "relay_input_of q r auth n =
     \<lparr>yi_headers = qi_headers r, yi_auth = auth, yi_endpoint = ro_endpoint q, yi_dialect = ro_dialect q, yi_body = nr_body n,
      yi_model = nr_model n, yi_stream = nr_stream n, yi_usage_injected = nr_usage_injected n, yi_affinity = None,
      yi_max_attempts = None, yi_budget_ms = None, yi_buffered = True\<rparr>"

text \<open>The body read, parsed and shaped; an empty one is an empty object.\<close>

definition read_request :: "env \<Rightarrow> route_options \<Rightarrow> request_in \<Rightarrow> thrown + normalized_request" where
  "read_request env q r =
     (let mx = cfg_max_request_body_bytes env in
      case read_body (qi_body r) mx of
        Inl e \<Rightarrow> Inl e
      | Inr t \<Rightarrow> (case (if t = [] then Inr (JObj []) else parse_body env mx t) of
          Inl e \<Rightarrow> Inl e
        | Inr raw \<Rightarrow> normalize_for env q raw))"

definition authenticate_request ::
    "env \<Rightarrow> auth_outside \<Rightarrow> request_in \<Rightarrow> entry_world \<Rightarrow> (thrown + auth_context) \<times> entry_world" where
  "authenticate_request env ao r w =
     (case authenticate env (ao_sha ao) (ao_hash_ip ao) (qi_request_id r) (ao_clock ao) (qi_headers r) (qi_query_key r)
             ((ew_auth w)\<lparr>aw_co := yw_co (ew_relay w)\<rparr>) of
        (a, _, aw) \<Rightarrow> (a, \<lparr>ew_auth = aw, ew_relay = (ew_relay w)\<lparr>yw_co := aw_co aw\<rparr>\<rparr>))"

definition handle_relay_request ::
    "outside \<Rightarrow> auth_outside \<Rightarrow> route_options \<Rightarrow> request_in \<Rightarrow> entry_world \<Rightarrow> entry_result \<times> retry_event list \<times> entry_world" where
  "handle_relay_request y ao q r w =
     (let failed = (\<lambda>t rid. Responded (error_response t (respond_dialect (ro_dialect q)) (plain_init\<lparr>ri_request_id := rid\<rparr>))) in
      case authenticate_request (yo_env y) ao r w of
        (Inl t, w1) \<Rightarrow> (failed t [], [], w1)
      | (Inr auth, w1) \<Rightarrow>
          (case read_request (yo_env y) q r of
             Inl t \<Rightarrow> (failed t (ac_request_id auth), [], w1)
           | Inr n \<Rightarrow>
               (case relay y (relay_input_of q r auth n) (ew_relay w1) of
                  (Refused e, es, s) \<Rightarrow> (failed (Gateway e) (ac_request_id auth), es, w1\<lparr>ew_relay := s\<rparr>)
                | (Answered a, es, s) \<Rightarrow> (Responded a, es, w1\<lparr>ew_relay := s\<rparr>)
                | (Streaming c a, es, s) \<Rightarrow> (Opened c a, es, w1\<lparr>ew_relay := s\<rparr>))))"

subsection \<open>Opaque bodies\<close>

record passthrough_input =
  pi_headers :: headers
  pi_auth :: auth_context
  pi_endpoint :: endpoint
  pi_model :: string
  pi_bytes :: string
  pi_content_type :: string
  pi_max_attempts :: "int option"
  pi_buffered :: bool

text \<open>The fields the rows of a passthrough share with those of the pipeline.\<close>

definition as_relay_input :: "passthrough_input \<Rightarrow> relay_input" where
  "as_relay_input p =
     \<lparr>yi_headers = pi_headers p, yi_auth = pi_auth p, yi_endpoint = pi_endpoint p, yi_dialect = DOpenai, yi_body = [],
      yi_model = pi_model p, yi_stream = False, yi_usage_injected = False, yi_affinity = None,
      yi_max_attempts = pi_max_attempts p, yi_budget_ms = None, yi_buffered = pi_buffered p\<rparr>"

definition size_estimate :: "passthrough_input \<Rightarrow> normalized_usage" where
  "size_estimate p =
     empty_usage\<lparr>nu_prompt := min (max 1 \<lceil>of_nat (length (pi_bytes p)) / (4 :: rat)\<rceil>) 8192\<rparr>"

definition passthrough_request :: "outside \<Rightarrow> passthrough_input \<Rightarrow> attempt_context \<Rightarrow> thrown + dialect \<times> string \<times> request_init" where
  "passthrough_request y p ctx =
     (let env = yo_env y; channel = ac_channel ctx in
      case dialect_for (ch_type channel) of
        Inl e \<Rightarrow> Inl e
      | Inr wire \<Rightarrow>
        (case upstream_url_for env channel (pi_endpoint p) (model_text (rm_mapped (ac_model ctx))) False of
           Inl e \<Rightarrow> Inl e
         | Inr url \<Rightarrow>
           (case provider_auth_headers env (ch_type channel) (sk_secret (ac_key ctx)) of
              Inl e \<Rightarrow> Inl e
            | Inr auth \<Rightarrow>
              (case build_upstream_headers (cfg_site_name env) (pi_headers p) auth (ch_headers channel)
                     (Some (pi_content_type p)) None of
                 Inl e \<Rightarrow> Inl e
               | Inr hs \<Rightarrow> Inr (wire, url, \<lparr>rq_method = Some ''POST'', rq_headers = hs, rq_body = TextBody (pi_bytes p)\<rparr>)))))"

definition passthrough_attempt :: "outside \<Rightarrow> passthrough_input \<Rightarrow> attempt_context \<Rightarrow> thrown + upstream_reply" where
  "passthrough_attempt y p ctx =
     (case passthrough_request y p ctx of
        Inl e \<Rightarrow> Inl e
      | Inr (wire, url, init) \<Rightarrow>
          (case yo_call y url init (header_timeout (yo_env y) ctx) of
             Inl e \<Rightarrow> Inl e
           | Inr r \<Rightarrow>
               if response_ok r
               then Inr \<lparr>up_response = r, up_wire = wire, up_mapped = model_text (rm_mapped (ac_model ctx)),
                          up_secret = sk_secret (ac_key ctx)\<rparr>
               else Inl (refusal (yo_env y) ctx r)))"

text \<open>A JSON answer: the payload made safe and the usage it reports; one that cannot be read is replaced.\<close>

definition json_payload :: "env \<Rightarrow> string \<Rightarrow> bool \<Rightarrow> normalized_usage \<Rightarrow> string \<Rightarrow> string \<times> normalized_usage" where
  "json_payload env secret exclusive fallback t =
     (let broken = (json_stringify (JObj [(''error'', JStr ''upstream returned invalid JSON'')]), fallback) in
      case parse_body env (cfg_max_upstream_response_bytes env) t of
        Inl e \<Rightarrow> broken
      | Inr j \<Rightarrow>
          (case redact_provider_value (cfg_max_json_depth env) (cfg_max_json_nodes env) (JObj (as_record (Some j))) secret of
             Inl l \<Rightarrow> broken
           | Inr safe \<Rightarrow>
               let reported = normalize_usage (get_field ''usage'' (as_record (Some safe))) exclusive
               in (json_stringify safe, if 0 < nu_prompt reported \<or> 0 < nu_completion reported then reported else fallback)))"

text \<open>The payload for the client and the usage to charge.\<close>

definition passthrough_payload :: "env \<Rightarrow> passthrough_input \<Rightarrow> upstream_reply \<Rightarrow> thrown + string \<times> normalized_usage" where
  "passthrough_payload env p v =
     (let r = up_response v; billed = billed_model_for (pi_model p) (pi_model p);
          content_type = (case map_of (ur_headers r) ''content-type'' of Some c \<Rightarrow> c | None \<Rightarrow> [])
      in if contains_str ''json'' content_type then
           (case read_capped_text (cfg_max_upstream_response_bytes env) (ur_body r) of
              Inl e \<Rightarrow> Inl e
            | Inr t \<Rightarrow> Inr (json_payload env (up_secret v) (exclusive_usage billed) (size_estimate p) t))
         else (case ur_body r of
              None \<Rightarrow> Inr ([], size_estimate p)
            | Some (cs, Complete) \<Rightarrow> Inr (concat cs, size_estimate p)
            | Some (cs, Failed e) \<Rightarrow> Inl e
            | Some (cs, Pending_forever) \<Rightarrow> Inl OtherThrown))"

text \<open>Here a fault of the ledger is raised at once.\<close>

definition passthrough_settle ::
    "outside \<Rightarrow> passthrough_input \<Rightarrow> string \<Rightarrow> resolved_pricing \<times> rat \<Rightarrow> normalized_usage \<Rightarrow> upstream_reply relay_outcome \<Rightarrow>
     relay_state \<Rightarrow> (gateway_error + unit) \<times> relay_state" where
  "passthrough_settle y p grp price usage outcome s =
     (let i = as_relay_input p; auth = pi_auth p; idn = ac_identity auth;
          quota = request_charge y price (billed_model_for (pi_model p) (pi_model p)) usage;
          a = \<lparr>sa_usage = usage, sa_channel = ro_channel_id outcome, sa_mapped = up_mapped (ro_value outcome),
               sa_attempts = ro_attempts outcome, sa_status = UsageSuccess, sa_error_code = None, sa_first_byte = None\<rparr>
      in case with_quota (finalize_quota (yo_db_fails y AtFinalize) (yo_push_fails y AtFinalize) (yo_now y AtFinalize) idn
             (ac_request_id auth) quota) (s\<lparr>yl_reserved := False\<rparr>) of
           (Inl e, s1) \<Rightarrow> (Inl e, s1)
         | (Inr _, s1) \<Rightarrow>
             (let s2 = s1\<lparr>yw_co := charge_token_budget (yo_env y) (yo_now y AtCharge) idn (of_int (nu_completion usage)) (yw_co s1)\<rparr>;
                  s3 = snd (with_usage_log (record_usage (yo_now y AtRecord) (settled_row y i grp quota a) (pi_buffered p)) s2)
              in (Inr (), release_request_lease y s3)))"

definition passthrough_price ::
    "outside \<Rightarrow> passthrough_input \<Rightarrow> string \<Rightarrow> relay_state \<Rightarrow> (gateway_error + resolved_pricing \<times> rat) \<times> relay_state" where
  "passthrough_price y p grp s =
     (let env = yo_env y; billed = billed_model_for (pi_model p) (pi_model p) in
      case with_pricing (resolve_pricing env (yo_now y AtPricing) billed grp) s of
        (price, s1) \<Rightarrow>
          (case reserve y (pi_auth p) (request_charge y price billed (size_estimate p)) s1 of
             (Inl e, s2) \<Rightarrow> (Inl e, s2)
           | (Inr _, s2) \<Rightarrow> (Inr price, s2)))"

definition passthrough_call ::
    "outside \<Rightarrow> passthrough_input \<Rightarrow> string \<Rightarrow> relay_state \<Rightarrow>
     (thrown + upstream_reply relay_outcome) \<times> retry_event list \<times> relay_state" where
  "passthrough_call y p grp s =
     with_routing (with_channel_retry (yo_env y) (yo_open y) (passthrough_attempt y p)
       \<lparr>rq_group = grp, rq_model = pi_model p, rq_affinity_hash = None,
        rq_max_attempts = Some (case pi_max_attempts p of Some n \<Rightarrow> n | None \<Rightarrow> cfg_retry_times (yo_env y) + 1),
        rq_budget_ms = None\<rparr> (yo_now y AtElection) (yo_ticks y)) s"

definition passthrough_answer ::
    "outside \<Rightarrow> passthrough_input \<Rightarrow> string \<Rightarrow> resolved_pricing \<times> rat \<Rightarrow> upstream_reply relay_outcome \<Rightarrow> relay_state \<Rightarrow>
     (thrown + string response) \<times> relay_state" where
  "passthrough_answer y p grp price outcome s =
     (let v = ro_value outcome in
      case filter_downstream_headers (ur_headers (up_response v)) of
        Inl e \<Rightarrow> (Inl e, s)
      | Inr hs \<Rightarrow>
        (case header_set ''x-request-id'' (ac_request_id (pi_auth p)) hs of
           Inl e \<Rightarrow> (Inl e, s)
         | Inr hs' \<Rightarrow>
           (case passthrough_payload (yo_env y) p v of
              Inl e \<Rightarrow> (Inl e, s)
            | Inr (payload, usage) \<Rightarrow>
              (case passthrough_settle y p grp price usage outcome s of
                 (Inl e, s1) \<Rightarrow> (Inl (Gateway e), s1)
               | (Inr _, s1) \<Rightarrow> (Inr \<lparr>rs_status = 200, rs_headers = hs', rs_body = payload\<rparr>, s1)))))"

definition passthrough_protected ::
    "outside \<Rightarrow> passthrough_input \<Rightarrow> string \<Rightarrow> relay_state \<Rightarrow> (thrown + string response) \<times> retry_event list \<times> relay_state" where
  "passthrough_protected y p grp s =
     (case passthrough_price y p grp s of
        (Inl e, s1) \<Rightarrow> (Inl (Gateway e), [], s1)
      | (Inr price, s1) \<Rightarrow>
          (case passthrough_call y p grp s1 of
             (Inl e, es, s2) \<Rightarrow> (Inl e, es, s2)
           | (Inr outcome, es, s2) \<Rightarrow> (case passthrough_answer y p grp price outcome s2 of (r, s3) \<Rightarrow> (r, es, s3))))"

definition passthrough_fail :: "outside \<Rightarrow> passthrough_input \<Rightarrow> string \<Rightarrow> thrown \<Rightarrow> relay_state \<Rightarrow> gateway_error \<times> relay_state" where
  "passthrough_fail y p grp t s =
     (let s1 = (if yl_reserved s then give_back y AtFailureRelease (pi_auth p) s else s);
          e = error_from t;
          row = (failure_row y (as_relay_input p) grp e)\<lparr>ui_status := UsageError\<rparr>;
          s2 = snd (with_usage_log (record_usage (yo_now y AtFailure) row (pi_buffered p)) s1)
      in (e, release_request_lease y s2))"

definition relay_passthrough ::
    "outside \<Rightarrow> passthrough_input \<Rightarrow> relay_state \<Rightarrow> (gateway_error + string response) \<times> retry_event list \<times> relay_state" where
  "relay_passthrough y p s =
     (let auth = pi_auth p; grp = group_for (ac_identity auth) (effective_directives auth) in
      case admission y auth (pi_model p) s of
        (Inl e, s1) \<Rightarrow> (Inl e, [], s1)
      | (Inr _, s1) \<Rightarrow>
          (case passthrough_protected y p grp s1 of
             (Inr r, es, s2) \<Rightarrow> (Inr r, es, s2)
           | (Inl t, es, s2) \<Rightarrow> (case passthrough_fail y p grp t s2 of (e, s3) \<Rightarrow> (Inl e, es, s3))))"

text \<open>The model of the request: \<open>form\<close> is the platform's reading of a multipart body, which may fail.\<close>

definition fallback_model :: "string option \<Rightarrow> thrown + string" where
  "fallback_model d = (case d of
      Some m \<Rightarrow> if m \<noteq> [] then Inr m else Inl (model_required ''the model field is required'')
    | None \<Rightarrow> Inl (model_required ''the model field is required''))"

definition model_from_multipart :: "(string \<Rightarrow> string \<Rightarrow> (string \<times> string) list option) \<Rightarrow> string \<Rightarrow> string \<Rightarrow> string option \<Rightarrow> thrown + string" where
  "model_from_multipart form bytes content_type d =
     (case form bytes content_type of
        Some parts \<Rightarrow> (case map_of parts ''model'' of Some m \<Rightarrow> if m \<noteq> [] then Inr m else fallback_model d | None \<Rightarrow> fallback_model d)
      | None \<Rightarrow> fallback_model d)"

definition model_from_json :: "env \<Rightarrow> string \<Rightarrow> string option \<Rightarrow> thrown + string" where
  "model_from_json env bytes d =
     (if js_trim bytes = [] then fallback_model d
      else (case parse_body env (cfg_max_request_body_bytes env) bytes of
          Inl e \<Rightarrow> Inl e
        | Inr j \<Rightarrow> (let m = str_of ''model'' (as_record (Some j)) in if m \<noteq> [] then Inr m else fallback_model d)))"

definition handle_passthrough_request ::
    "outside \<Rightarrow> auth_outside \<Rightarrow> (string \<Rightarrow> string \<Rightarrow> (string \<times> string) list option) \<Rightarrow> endpoint \<Rightarrow> bool \<Rightarrow> string option \<Rightarrow>
     request_in \<Rightarrow> entry_world \<Rightarrow> string response \<times> retry_event list \<times> entry_world" where
  "handle_passthrough_request y ao form endpoint multipart d r w =
     (let env = yo_env y; failed = (\<lambda>t rid. error_response t ROpenai (plain_init\<lparr>ri_request_id := rid\<rparr>));
          content_type = (case map_of (qi_headers r) ''content-type'' of Some c \<Rightarrow> c | None \<Rightarrow> ''application/octet-stream'')
      in case authenticate_request env ao r w of
           (Inl t, w1) \<Rightarrow> (failed t [], [], w1)
         | (Inr auth, w1) \<Rightarrow>
             (case read_body (qi_body r) (cfg_max_request_body_bytes env) of
                Inl t \<Rightarrow> (failed t (ac_request_id auth), [], w1)
              | Inr bytes \<Rightarrow>
                (case (if multipart then model_from_multipart form bytes content_type d else model_from_json env bytes d) of
                   Inl t \<Rightarrow> (failed t (ac_request_id auth), [], w1)
                 | Inr model \<Rightarrow>
                   (case relay_passthrough y \<lparr>pi_headers = qi_headers r, pi_auth = auth, pi_endpoint = endpoint, pi_model = model,
                           pi_bytes = bytes, pi_content_type = content_type, pi_max_attempts = None, pi_buffered = True\<rparr> (ew_relay w1) of
                      (Inl e, es, s) \<Rightarrow> (failed (Gateway e) (ac_request_id auth), es, w1\<lparr>ew_relay := s\<rparr>)
                    | (Inr a, es, s) \<Rightarrow> (a, es, w1\<lparr>ew_relay := s\<rparr>)))))"

subsection \<open>The catalogue\<close>

text \<open>The models a group can reach, sorted by their code units.\<close>

definition list_models_for_group :: "string \<Rightarrow> routing_world \<Rightarrow> string list" where
  "list_models_for_group grp w =
     (let enabled = filter (\<lambda>c. ch_status c = Enabled \<and> \<not> ch_auto_disabled c) (rw_channels w);
          serving = filter (\<lambda>c. ch_groups c = [] \<or> grp \<in> set (ch_groups c)) enabled;
          names = filter (\<lambda>m. m \<noteq> []) (concat (map ch_models serving) @ map mm_from (rw_mappings w))
      in sort (remdups names))"

definition model_card :: "int \<Rightarrow> string \<Rightarrow> string \<Rightarrow> json" where
  "model_card now owned_by i =
     JObj [(''id'', JStr i), (''object'', JStr ''model''), (''created'', JNum (js_int (now div 1000))), (''owned_by'', JStr owned_by)]"

definition model_cards_for_group :: "int \<Rightarrow> string \<Rightarrow> string \<Rightarrow> routing_world \<Rightarrow> json list" where
  "model_cards_for_group now owned_by grp w = map (model_card now owned_by) (list_models_for_group grp w)"

subsection \<open>The billing endpoints\<close>

definition per_unit :: "env \<Rightarrow> rat" where
  "per_unit env = max 1 (cfg_quota_per_unit env)"

text \<open>Answers for the caller, or the error of the ledger in the OpenAI shape.\<close>

definition dashboard_answer ::
    "env \<Rightarrow> auth_outside \<Rightarrow> (identity \<Rightarrow> ledger \<Rightarrow> thrown + json) \<Rightarrow> request_in \<Rightarrow> entry_world \<Rightarrow> string response \<times> entry_world" where
  "dashboard_answer env ao f r w =
     (case authenticate_request env ao r w of
        (Inl t, w1) \<Rightarrow> (error_response t ROpenai plain_init, w1)
      | (Inr auth, w1) \<Rightarrow>
          (case f (ac_identity auth) (qw_ledger (yw_quota (ew_relay w1))) of
             Inl t \<Rightarrow> (error_response t ROpenai (plain_init\<lparr>ri_request_id := ac_request_id auth\<rparr>), w1)
           | Inr j \<Rightarrow> (json_response j (plain_init\<lparr>ri_request_id := ac_request_id auth\<rparr>), w1)))"

definition subscription_body :: "env \<Rightarrow> identity \<Rightarrow> ledger \<Rightarrow> thrown + json" where
  "subscription_body env idn l =
     (case hydrate_user_quota l (idn_user_id idn) of
        Inl e \<Rightarrow> Inl (Gateway e)
      | Inr balance \<Rightarrow>
          let usd = JNum (JFin (if idn_unlimited_quota idn then 1000000 else of_int balance / per_unit env))
          in Inr (JObj [(''object'', JStr ''billing_subscription''), (''has_payment_method'', JBool True), (''canceled'', JBool False),
               (''canceled_at'', JNull), (''delinquent'', JNull), (''account_name'', JStr (idn_username idn)),
               (''plan'', JObj [(''title'', JStr (idn_group idn)), (''id'', JStr (idn_group idn))]),
               (''soft_limit_usd'', usd), (''hard_limit_usd'', usd), (''system_hard_limit_usd'', usd),
               (''access_until'', JNum (JFin 0))]))"

definition usage_body :: "env \<Rightarrow> identity \<Rightarrow> ledger \<Rightarrow> thrown + json" where
  "usage_body env idn l =
     (let used = (case find_one (\<lambda>u. usr_id u = idn_user_id idn) (l_users l) of Some u \<Rightarrow> usr_used_quota u | None \<Rightarrow> 0)
      in Inr (JObj [(''object'', JStr ''list''), (''daily_costs'', JArr []),
           (''total_usage'', JNum (JFin (of_int used / per_unit env * 100)))]))"

definition handle_billing_subscription :: "env \<Rightarrow> auth_outside \<Rightarrow> request_in \<Rightarrow> entry_world \<Rightarrow> string response \<times> entry_world" where
  "handle_billing_subscription env ao r w = dashboard_answer env ao (subscription_body env) r w"

definition handle_billing_usage :: "env \<Rightarrow> auth_outside \<Rightarrow> request_in \<Rightarrow> entry_world \<Rightarrow> string response \<times> entry_world" where
  "handle_billing_usage env ao r w = dashboard_answer env ao (usage_body env) r w"

end
