(* ===== verification/StreamLaws.thy ===== *)
theory StreamLaws
  imports Relay RetryLaws
begin

text \<open>
  What holds of an open stream however its reads, its settlement and the client's hang-up interleave.
\<close>

subsection \<open>Settlement\<close>

abbreviation stream_effect :: "stream_context \<Rightarrow> settle_args \<Rightarrow> relay_state \<Rightarrow> relay_state" where
  "stream_effect c a s \<equiv> snd (settle_work (sc_outside c) (sc_input c) (sc_group c) (sc_price c) a s)"

abbreviation stream_fault :: "stream_context \<Rightarrow> settle_args \<Rightarrow> relay_state \<Rightarrow> bool" where
  "stream_fault c a s \<equiv> isl (fst (settle_work (sc_outside c) (sc_input c) (sc_group c) (sc_price c) a s))"

abbreviation handed_over :: "relay_state \<Rightarrow> relay_state" where
  "handed_over s \<equiv> s\<lparr>yl_reserved := False\<rparr>"

text \<open>Where the settlement of a stream stands: not begun, under way, or done, once.\<close>

definition settlement_stage :: "stream_context \<Rightarrow> relay_state \<Rightarrow> stream_state \<Rightarrow> bool" where
  "settlement_stage c s m \<longleftrightarrow>
     (if \<not> sm_finished m then sm_relay m = handed_over s \<and> sm_pending m = None \<and> \<not> sm_cancelled m \<and> \<not> sm_closed m \<and> \<not> sm_errored m
      else (\<exists>a. sa_usage a = stream_usage c m \<and>
        (case sm_pending m of
           Some (b, closes) \<Rightarrow> b = a \<and> sm_relay m = (handed_over s)\<lparr>yl_settled := True\<rparr> \<and> \<not> sm_closed m \<and> \<not> sm_errored m \<and>
             (closes \<or> sm_cancelled m)
         | None \<Rightarrow> sm_relay m = stream_effect c a ((handed_over s)\<lparr>yl_settled := True\<rparr>) \<and>
             (sm_cancelled m \<or> sm_closed m \<or> sm_errored m) \<and>
             (sm_closed m \<longrightarrow> \<not> stream_fault c a ((handed_over s)\<lparr>yl_settled := True\<rparr>)))))"

lemmas stream_defs = settlement_stage_def finish_stream_def begin_settlement_def enqueue_def stream_usage_def

lemma settle_work_settled: "yl_settled (snd (settle_work y i g p a s)) = yl_settled s"
  by (simp add: settle_work_def with_quota_def with_usage_log_def with_co_def release_request_lease_def Let_def split: prod.splits)

lemma settled_iff_finished:
  "settlement_stage c s m \<Longrightarrow> \<not> yl_settled s \<Longrightarrow> yl_settled (sm_relay m) \<longleftrightarrow> sm_finished m"
  by (auto simp: settlement_stage_def settle_work_settled split: if_splits option.splits)

lemma finish_stage:
  assumes "settlement_stage c s m" "\<not> sm_finished m" "\<not> yl_settled s"
  shows "settlement_stage c s (finish_stream c st code m) \<and> sm_finished (finish_stream c st code m)"
  using assms by (auto simp: stream_defs stream_args_def Let_def split: prod.splits)

lemma enqueue_stage: "settlement_stage c s (enqueue t m) = settlement_stage c s m"
  "sm_finished (enqueue t m) = sm_finished m" "sm_cancelled (enqueue t m) = sm_cancelled m"
  by (cases m, simp_all add: stream_defs split: option.splits)

lemma read_stage:
  assumes "settlement_stage c s m" "\<not> sm_finished m" "\<not> yl_settled s"
  shows "settlement_stage c s (read_event c ev m)"
proof -
  have k: "settlement_stage c s (enqueue x (m\<lparr>sm_translator := t, sm_framer := f, sm_events := n\<rparr>)) \<and>
      \<not> sm_finished (enqueue x (m\<lparr>sm_translator := t, sm_framer := f, sm_events := n\<rparr>))" for x t f n
    using assms(1,2) by (simp add: stream_defs)
  with finish_stage assms(3) show ?thesis by (auto simp: read_event_def Let_def split: prod.splits)
qed

lemma fail_stage:
  assumes "settlement_stage c s m" "\<not> sm_finished m" "\<not> yl_settled s"
  shows "settlement_stage c s (read_failed c e m) \<and> sm_finished (read_failed c e m)"
  unfolding read_failed_def Let_def by (rule finish_stage) (simp_all add: enqueue_stage assms)

lemma cancel_stage:
  assumes "settlement_stage c s m" "\<not> yl_settled s" "\<not> sm_closed m" "\<not> sm_errored m" "\<not> sm_cancelled m"
  shows "settlement_stage c s (cancel_stream c m) \<and> sm_finished (cancel_stream c m)"
  using assms settled_iff_finished [OF assms(1,2)]
  by (auto simp: stream_defs cancel_stream_def stream_args_def split: if_splits option.splits)

lemma done_stage:
  assumes "settlement_stage c s m" "sm_pending m = Some (a, closes)"
  shows "settlement_stage c s (end_settlement c a closes m) \<and> sm_finished (end_settlement c a closes m) \<and>
    sm_pending (end_settlement c a closes m) = None"
  using assms by (auto simp: stream_defs end_settlement_def Let_def split: if_splits prod.splits sum.splits)

lemma step_stage:
  assumes "stream_step c l m = Some m'" "settlement_stage c s m" "\<not> yl_settled s"
  shows "settlement_stage c s m' \<and> (sm_finished m \<longrightarrow> sm_finished m') \<and>
    (l = ReadEnd \<or> l = ClientCancel \<or> (\<exists>e. l = ReadError e) \<longrightarrow> sm_finished m')"
  using assms finish_stage read_stage fail_stage cancel_stage done_stage
  by (cases l) (auto split: if_splits option.splits)

lemma run_stage:
  "stream_run c ls m = Some m' \<Longrightarrow> settlement_stage c s m \<Longrightarrow> \<not> yl_settled s \<Longrightarrow>
   settlement_stage c s m' \<and> (sm_finished m \<longrightarrow> sm_finished m') \<and>
   (ReadEnd \<in> set ls \<or> ClientCancel \<in> set ls \<or> (\<exists>e. ReadError e \<in> set ls) \<longrightarrow> sm_finished m')"
proof (induction ls arbitrary: m)
  case (Cons l ls)
  from Cons.prems(1) obtain m1 where 1: "stream_step c l m = Some m1" "stream_run c ls m1 = Some m'" by (auto split: option.splits)
  note step = step_stage [OF 1(1) Cons.prems(2,3)]
  with Cons.IH [OF 1(2) _ Cons.prems(3)] show ?case by auto
qed simp

lemma open_stage: "settlement_stage c s (open_stream c s)"
  by (simp add: settlement_stage_def open_stream_def enqueue_def Let_def)

lemma stream_settles:
  assumes "stream_run c ls (open_stream c s) = Some m" "\<not> yl_settled s"
  shows "(\<not> sm_finished m \<and> sm_relay m = handed_over s \<or>
      sm_finished m \<and> sm_pending m \<noteq> None \<and> sm_relay m = (handed_over s)\<lparr>yl_settled := True\<rparr> \<or>
      sm_finished m \<and> sm_pending m = None \<and> (sm_cancelled m \<or> sm_closed m \<or> sm_errored m) \<and>
        (\<exists>a. sa_usage a = stream_usage c m \<and> sm_relay m = stream_effect c a ((handed_over s)\<lparr>yl_settled := True\<rparr>) \<and>
          (sm_closed m \<longrightarrow> \<not> stream_fault c a ((handed_over s)\<lparr>yl_settled := True\<rparr>)))) \<and>
    (ReadEnd \<in> set ls \<or> ClientCancel \<in> set ls \<or> (\<exists>e. ReadError e \<in> set ls) \<longrightarrow> sm_finished m) \<and>
    (sm_pending m \<noteq> None \<longrightarrow> (\<exists>m'. stream_step c SettlementDone m = Some m' \<and> sm_pending m' = None))"
proof -
  note r = run_stage [OF assms(1) open_stage assms(2)]
  have "\<exists>m'. stream_step c SettlementDone m = Some m' \<and> sm_pending m' = None" if p: "sm_pending m \<noteq> None"
  proof -
    from p obtain a closes where a: "sm_pending m = Some (a, closes)" by (cases "sm_pending m") auto
    with done_stage [OF conjunct1 [OF r] a] show ?thesis by simp
  qed
  with r show ?thesis unfolding settlement_stage_def by (auto split: if_splits option.splits)
qed


subsection \<open>After a hang-up\<close>

lemma step_cancelled:
  assumes "stream_step c l m = Some m'" "sm_cancelled m" "sm_finished m"
  shows "sm_cancelled m' \<and> sm_finished m' \<and> sm_out m' = sm_out m \<and> sm_closed m' = sm_closed m \<and> sm_errored m' = sm_errored m"
  using assms by (cases l) (auto simp: end_settlement_def Let_def split: option.splits prod.splits)

lemma run_cancelled:
  "stream_run c ls m = Some m' \<Longrightarrow> sm_cancelled m \<Longrightarrow> sm_finished m \<Longrightarrow>
   sm_out m' = sm_out m \<and> sm_closed m' = sm_closed m \<and> sm_errored m' = sm_errored m"
proof (induction ls arbitrary: m)
  case (Cons l ls)
  from Cons.prems(1) obtain m1 where 1: "stream_step c l m = Some m1" "stream_run c ls m1 = Some m'" by (auto split: option.splits)
  with step_cancelled [OF 1(1) Cons.prems(2,3)] Cons.IH [OF 1(2)] show ?case by simp
qed simp

text \<open>C6: a client that has hung up is not written to. Whatever still arrives, and whatever settlement was under way,
  nothing is enqueued after the hang-up, and the platform's stream, which refuses it, is neither closed
  nor errored by the gateway.\<close>
theorem nothing_after_hang_up:
  assumes "stream_step c ClientCancel m = Some m1" "stream_run c ls m1 = Some m2"
  shows "sm_out m2 = sm_out m \<and> \<not> sm_closed m2 \<and> \<not> sm_errored m2"
proof -
  have m1: "m1 = cancel_stream c m" "\<not> sm_closed m" "\<not> sm_errored m" using assms(1) by (auto split: if_splits)
  then have k: "sm_cancelled m1" "sm_finished m1" "sm_out m1 = sm_out m" "\<not> sm_closed m1" "\<not> sm_errored m1"
    by (simp_all add: cancel_stream_def begin_settlement_def)
  with run_cancelled [OF assms(2) k(1,2)] show ?thesis by simp
qed

subsection \<open>What an Anthropic client receives\<close>

text \<open>The text so far is a message being written; at the end it is a whole one, around at most one error frame.\<close>

definition error_frame :: "string \<Rightarrow> bool" where
  "error_frame t \<longleftrightarrow> t = [] \<or> (\<exists>e. t = error_sse_chunk e RAnthropic)"

definition message_stage :: "stream_state \<Rightarrow> bool" where
  "message_stage m \<longleftrightarrow> \<not> sm_cancelled m \<and>
     (if \<not> sm_finished m then
        (\<exists>f es. sm_framer m = AnthropicFramer f \<and> framer_ok f \<and> concat (sm_out m) = concat (map event_frame es) \<and>
          message_run es Unstarted = Some (writing f))
      else (\<exists>es err es'. error_frame err \<and> message_run (es @ es') Unstarted = Some Ended \<and>
          concat (sm_out m) = concat (map event_frame es) @ err @ concat (map event_frame es')))"

lemma concat_enqueue [simp]: "concat (sm_out (enqueue t m)) = concat (sm_out m) @ t"
  by (simp add: enqueue_def)

lemma enqueue_keeps [simp]: "sm_framer (enqueue t m) = sm_framer m" "sm_finished (enqueue t m) = sm_finished m"
  "sm_cancelled (enqueue t m) = sm_cancelled m"
  by (simp_all add: enqueue_def)

lemma begin_keeps [simp]: "sm_out (begin_settlement a b m) = sm_out m" "sm_finished (begin_settlement a b m) = sm_finished m"
  "sm_cancelled (begin_settlement a b m) = sm_cancelled m"
  by (simp_all add: begin_settlement_def)

lemma finish_message:
  assumes "sm_framer m = AnthropicFramer f" "framer_ok f" "\<not> sm_finished m" "\<not> sm_cancelled m"
    "message_run es Unstarted = Some (writing f)" "concat (sm_out m) = concat (map event_frame es) @ err" "error_frame err"
  shows "message_stage (finish_stream c st code m)"
proof -
  let ?u = "Some (translator_usage (sm_translator m))"
  obtain tail f' where t: "anthropic_finish ?u f = (tail, f')" by fastforce
  from finish_closes [OF assms(2) t] obtain es' where es': "tail = concat (map event_frame es')"
    "message_run es' (writing f) = Some Ended" by blast
  have "message_run (es @ es') Unstarted = Some Ended" using assms(5) es'(2) by (simp add: message_run_append)
  moreover have "concat (sm_out (finish_stream c st code m)) = concat (map event_frame es) @ err @ concat (map event_frame es')"
    using assms(1,3,4,6) t es'(1) by (simp add: finish_stream_def Let_def)
  moreover have "sm_finished (finish_stream c st code m)" "\<not> sm_cancelled (finish_stream c st code m)"
    using assms(1,3,4) t by (simp_all add: finish_stream_def Let_def)
  ultimately show ?thesis unfolding message_stage_def using assms(7) by auto
qed

lemma read_message:
  assumes "message_stage m" "\<not> sm_finished m"
  shows "message_stage (read_event c ev m)"
proof -
  from assms obtain f es where f: "sm_framer m = AnthropicFramer f" "framer_ok f" "\<not> sm_cancelled m"
    "concat (sm_out m) = concat (map event_frame es)" "message_run es Unstarted = Some (writing f)"
    by (auto simp: message_stage_def)
  let ?y = "sc_outside c" and ?n = "sm_events m"
  obtain chunks t where t: "translator_handle (yo_env ?y) (yo_ids ?y ?n 0) (redacted_event c ev) (sm_translator m) = (chunks, t)"
    by fastforce
  obtain out fr where c: "frame_chunks (yo_ids ?y ?n) 1 chunks (AnthropicFramer f) = (out, fr)" by fastforce
  from frame_chunks_writes [OF f(2) c] obtain f1 where f1: "fr = AnthropicFramer f1" "framer_ok f1"
    and w: "writes f out (concat (map (\<lambda>c. dl_content (read_delta c)) chunks)) f1" by (fastforce simp: writes_def)
  from w obtain es1 where es1: "out = concat (map event_frame es1)" "message_run es1 (writing f) = Some (writing f1)"
    unfolding writes_def by blast
  let ?m = "enqueue out (m\<lparr>sm_translator := t, sm_framer := fr, sm_events := ?n + 1\<rparr>)"
  have r: "message_run (es @ es1) Unstarted = Some (writing f1)" using f(5) es1(2) by (simp add: message_run_append)
  have o: "concat (sm_out ?m) = concat (map event_frame (es @ es1))" using f(4) es1(1) by simp
  have e: "read_event c ev m = (if ends_wire c ev t then finish_stream c UsageSuccess None ?m else ?m)"
    using t c f(1) by (simp add: read_event_def Let_def)
  from r o have x: "\<exists>es. concat (sm_out ?m) = concat (map event_frame es) \<and> message_run es Unstarted = Some (writing f1)" by blast
  have "message_stage (finish_stream c UsageSuccess None ?m)"
    using f1 r o assms(2) f(3) by (intro finish_message [where es = "es @ es1" and err = "[]" and f = f1]) (simp_all add: error_frame_def)
  moreover have "message_stage ?m" unfolding message_stage_def using f1 x assms(2) f(3) by simp
  ultimately show ?thesis unfolding e by simp
qed

lemma step_message:
  assumes "stream_step c l m = Some m'" "message_stage m" "l \<noteq> ClientCancel" "yi_dialect (sc_input c) = DAnthropic"
  shows "message_stage m'"
proof (cases "sm_finished m \<or> l = SettlementDone")
  case True
  then have "sm_out m' = sm_out m \<and> sm_finished m' = sm_finished m \<and> sm_cancelled m' = sm_cancelled m \<and> sm_framer m' = sm_framer m"
    using assms(1,3) by (cases l) (auto simp: end_settlement_def Let_def split: option.splits prod.splits sum.splits if_splits)
  then have e: "sm_out m' = sm_out m" "sm_finished m' = sm_finished m" "sm_cancelled m' = sm_cancelled m" "sm_framer m' = sm_framer m"
    by simp_all
  show ?thesis using assms(2) unfolding message_stage_def e .
next
  case False
  with assms(2) obtain f es where f: "sm_framer m = AnthropicFramer f" "framer_ok f" "\<not> sm_cancelled m"
    "concat (sm_out m) = concat (map event_frame es)" "message_run es Unstarted = Some (writing f)"
    by (auto simp: message_stage_def)
  have "message_stage (finish_stream c UsageSuccess None m)"
    using f False by (intro finish_message [where err = "[]"]) (simp_all add: error_frame_def)
  moreover have "message_stage (read_failed c e m)" for e
    unfolding read_failed_def Let_def using f False assms(4)
    by (intro finish_message [where es = es and err = "error_sse_chunk (error_from e) RAnthropic"]) (auto simp: error_frame_def)
  ultimately show ?thesis using False assms read_message by (cases l) auto
qed

lemma run_message:
  "stream_run c ls m = Some m' \<Longrightarrow> message_stage m \<Longrightarrow> ClientCancel \<notin> set ls \<Longrightarrow> yi_dialect (sc_input c) = DAnthropic \<Longrightarrow>
   message_stage m'"
proof (induction ls arbitrary: m)
  case (Cons l ls)
  from Cons.prems(1) obtain m1 where 1: "stream_step c l m = Some m1" "stream_run c ls m1 = Some m'" by (auto split: option.splits)
  with step_message [OF 1(1) Cons.prems(2) _ Cons.prems(4)] Cons.IH [OF 1(2)] Cons.prems show ?case by auto
qed simp

lemma open_message:
  assumes "yi_dialect (sc_input c) = DAnthropic"
  shows "message_stage (open_stream c s)"
proof -
  let ?f = "\<lparr>af_id = ac_request_id (yi_auth (sc_input c)), af_model = yi_model (sc_input c), af_tools = [], af_next = 0,
    af_text = None, af_stop = ''end_turn'', af_closed = False\<rparr>"
  obtain m where m: "message_start ?f = event_frame (MessageStart m)" by (simp add: message_start_def)
  have "framer_ok ?f" "writing ?f = Writing 0 {}" by (simp_all add: framer_ok_def framer_blocks_def)
  then show ?thesis unfolding message_stage_def using assms m
    by (auto simp: open_stream_def create_client_framer_def Let_def enqueue_def intro!: exI [of _ "[MessageStart m]"])
qed

text \<open>C7: an upstream that dies still gives its Anthropic client a whole message: whatever the upstream sends and
  however its stream ends, cut off in the middle of a block or failing, what the client has received
  once the stream is finished is one complete message of its protocol, with at most one error frame
  inside it.\<close>
theorem stream_ends_as_whole_message:
  assumes "stream_run c ls (open_stream c s) = Some m" "sm_finished m" "ClientCancel \<notin> set ls"
    "yi_dialect (sc_input c) = DAnthropic"
  shows "\<exists>es err es'. concat (sm_out m) = concat (map event_frame es) @ err @ concat (map event_frame es') \<and>
    error_frame err \<and> message_run (es @ es') Unstarted = Some Ended"
  using run_message [OF assms(1) open_message [OF assms(4)] assms(3,4)] assms(2) unfolding message_stage_def by auto

subsection \<open>A stream that ends\<close>

definition sample_caller :: auth_context where
  "sample_caller = \<lparr>ac_identity = sample_identity\<lparr>idn_rpm_limit := 0, idn_tpm_limit := 0\<rparr>,
     ac_directives = \<lparr>kd_channel_id = None, kd_group = None, kd_retry = None, kd_tier = None, kd_region = None, kd_flags = []\<rparr>,
     ac_source = FromNone, ac_client_ip = [], ac_ip_hash = [], ac_request_id = ''r9'', ac_started_at = 1\<rparr>"

definition sample_relay :: "bool \<Rightarrow> relay_input" where
  "sample_relay stream = \<lparr>yi_headers = [], yi_auth = sample_caller, yi_endpoint = Chat, yi_dialect = DOpenai,
     yi_body = [(''model'', JStr ''gpt-4''), (''messages'', JArr [])], yi_model = ''gpt-4'', yi_stream = stream,
     yi_usage_injected = False, yi_affinity = None, yi_max_attempts = None, yi_budget_ms = None, yi_buffered = True\<rparr>"

definition sample_reply :: upstream_response where
  "sample_reply = \<lparr>ur_status = 200, ur_headers = [],
     ur_body = Some ([''{'', CHR 34 # ''id'' @ [CHR 34] @ '':1}''], Complete)\<rparr>"

definition sample_outside :: outside where
  "sample_outside = \<lparr>yo_env = no_env, yo_now = (\<lambda>_. 100), yo_open = (\<lambda>k. Inr (ck_cipher k)), yo_ticks = no_jitter,
     yo_call = (\<lambda>u i t. Inr sample_reply), yo_member = ''m'', yo_ids = (\<lambda>_ _ _. ''x''), yo_fresh = ''f'',
     yo_db_fails = (\<lambda>_. False), yo_push_fails = (\<lambda>_. None)\<rparr>"

definition sample_relay_state :: "relay_state" where
  "sample_relay_state = \<lparr>yw_co = sample_coord,
     yw_quota = \<lparr>qw_ledger = \<lparr>l_users = [sample_user\<lparr>usr_quota := 1000000\<rparr>], l_tokens = [sample_token\<lparr>tok_unlimited := True\<rparr>], l_journal = []\<rparr>,
       qw_buffer = [], qw_lock = None\<rparr>,
     yw_routing = two_channels, yw_pricing = \<lparr>pw_co = sample_coord, pw_pricing = [], pw_group_ratios = [], pw_db_ok = True\<rparr>,
     yw_usage = \<lparr>uw_co = sample_coord, uw_db = \<lparr>ud_logs = [], ud_rollups = []\<rparr>, uw_tx = []\<rparr>,
     yl_lease = None, yl_lease_released = False, yl_reserved = False, yl_settled = False\<rparr>"

definition sample_stream :: stream_context where
  "sample_stream = \<lparr>sc_outside = sample_outside, sc_input = (sample_relay True)\<lparr>yi_dialect := DAnthropic\<rparr>, sc_group = ''default'',
     sc_price = (default_pricing_for no_env ''gpt-4'', 1), sc_channel = ''c1'', sc_attempts = 1, sc_first_byte = 5,
     sc_wire = DOpenai, sc_mapped = ''gpt-4'', sc_secret = ''k''\<rparr>"

definition sample_delta :: sse_event where
  "sample_delta = \<lparr>se_event = None, se_data = json_stringify (JObj [(''choices'', JArr [JObj [(''delta'',
     JObj [(''content'', JStr ''hi'')])]])]), se_id = None, se_retry = None, se_comment = None\<rparr>"

abbreviation sample_labels :: "stream_label list" where
  "sample_labels \<equiv> [ReadEvent sample_delta, ReadError OtherThrown, SettlementDone]"

lemma sample_stream_runs: "\<exists>m. stream_run sample_stream sample_labels (open_stream sample_stream sample_relay_state) = Some m"
proof -
  have "case stream_run sample_stream sample_labels (open_stream sample_stream sample_relay_state) of None \<Rightarrow> False | Some m \<Rightarrow> True"
    by code_simp
  then show ?thesis by (cases "stream_run sample_stream sample_labels (open_stream sample_stream sample_relay_state)") (simp_all del: stream_run.simps)
qed


theorem nothing_after_hang_up_witness:
  "\<exists>m1 m2. stream_step sample_stream ClientCancel (open_stream sample_stream sample_relay_state) = Some m1 \<and>
    stream_run sample_stream [ReadEvent sample_delta] m1 = Some m2 \<and> sm_out m2 = sm_out (open_stream sample_stream sample_relay_state)"
proof -
  let ?o = "open_stream sample_stream sample_relay_state"
  have 1: "stream_step sample_stream ClientCancel ?o = Some (cancel_stream sample_stream ?o)"
    by (simp add: open_stream_def enqueue_def Let_def)
  have 2: "stream_run sample_stream [ReadEvent sample_delta] (cancel_stream sample_stream ?o) = Some (cancel_stream sample_stream ?o)"
    by (simp add: cancel_stream_def begin_settlement_def)
  from nothing_after_hang_up [OF 1 2] 1 2 show ?thesis by blast
qed

theorem stream_ends_as_whole_message_witness:
  "\<exists>m es err es'. stream_run sample_stream sample_labels (open_stream sample_stream sample_relay_state) = Some m \<and>
    concat (sm_out m) = concat (map event_frame es) @ err @ concat (map event_frame es') \<and> message_run (es @ es') Unstarted = Some Ended"
proof -
  obtain m where m: "stream_run sample_stream sample_labels (open_stream sample_stream sample_relay_state) = Some m"
    using sample_stream_runs by blast
  have "\<not> yl_settled sample_relay_state" by (simp add: sample_relay_state_def)
  from stream_settles [OF m this] have "sm_finished m" by (auto simp del: stream_run.simps)
  from stream_ends_as_whole_message [OF m this] m show ?thesis by (auto simp: sample_stream_def simp del: stream_run.simps)
qed

end
