(* ===== verification/RelayLaws.thy ===== *)
theory RelayLaws
  imports StreamLaws LedgerLaws
begin

text \<open>
  What the order of the pipeline guarantees: no upstream call without a hold the account can pay, and
  no exit, error paths and streams included, that leaves the hold or the lease behind.
\<close>

subsection \<open>Holds\<close>

text \<open>The hold of a request is no longer open, or its completion waits in the settlement buffer.\<close>

definition hold_handled :: "identity \<Rightarrow> string \<Rightarrow> quota_world \<Rightarrow> bool" where
  "hold_handled idn rid q \<longleftrightarrow> \<not> open_hold (idn_user_id idn) (idn_token_id idn) rid (qw_ledger q) \<or>
     (\<exists>st \<in> set (qw_buffer q). st_request_id st = rid \<and> st_user_id st = idn_user_id idn \<and> st_token_id st = idn_token_id idn)"

definition charge_refused :: gateway_error where
  "charge_refused = invalid_request ''charge must be a non-negative safe number'' (Some ''charge'')"

lemma charge_error: "quota_amount v ''charge'' = Inl e \<Longrightarrow> e = charge_refused"
  by (auto simp: quota_amount_def charge_refused_def Let_def split: if_splits)

lemma complete_error:
  assumes "complete dbf now uid tid rid actual kind l = (Inl e, l')" "quota_amount actual ''charge'' = Inr c"
  shows "ge_status e = 503"
  using assms
  by (auto simp: complete_def transaction_def complete_work_def Let_def ledger_unavailable_def error_defs split: if_splits option.splits sum.splits)

lemma buffered_handles:
  assumes "complete dbf now (idn_user_id idn) (idn_token_id idn) rid actual kind (qw_ledger q) = (c, l)"
    "quota_amount actual ''charge'' = Inr a" "wf_ledger (qw_ledger q)"
    "buffered_on_503 None (settlement_of idn rid actual) not_applied (c, l) q = (r, q')"
  shows "hold_handled idn rid q' \<and> \<not> isl r"
proof (cases c)
  case (Inl e)
  with complete_error assms(1,2) have "ge_status e = 503" by blast
  with Inl assms(4) show ?thesis
    by (auto simp: buffered_on_503_def push_settlement_def hold_handled_def settlement_of_def)
next
  case (Inr v)
  with complete_Inr_settles [OF _ assms(3)] assms(1) have "\<not> open_hold (idn_user_id idn) (idn_token_id idn) rid l" by blast
  with Inr assms(4) show ?thesis by (auto simp: buffered_on_503_def hold_handled_def)
qed

lemma quota_amount_0: "quota_amount (JFin 0) f = Inr 0"
  by (simp add: quota_amount_def) code_simp

lemma release_handles:
  assumes "release_quota dbf None now idn rid q = (r, q')" "wf_ledger (qw_ledger q)"
  shows "hold_handled idn rid q' \<and> wf_ledger (qw_ledger q')"
proof -
  obtain c l where c: "complete dbf now (idn_user_id idn) (idn_token_id idn) rid (JFin 0) KRelease (qw_ledger q) = (c, l)" by fastforce
  show ?thesis using buffered_handles [OF c quota_amount_0 assms(2)] assms c reaches_wf [OF release_quota_reaches [OF assms(1)] assms(2)]
    by (auto simp: release_quota_def)
qed

lemma finalize_handles:
  assumes "finalize_quota dbf None now idn rid actual q = (r, q')" "wf_ledger (qw_ledger q)"
  shows "(hold_handled idn rid q' \<and> \<not> isl r \<or> r = Inl charge_refused) \<and> wf_ledger (qw_ledger q')"
proof (cases "quota_amount actual ''charge''")
  case (Inl e)
  with assms charge_error show ?thesis by (auto simp: finalize_quota_def)
next
  case (Inr a)
  obtain c l where c: "complete dbf now (idn_user_id idn) (idn_token_id idn) rid actual (completion_kind actual) (qw_ledger q) = (c, l)" by fastforce
  show ?thesis using buffered_handles [OF c Inr assms(2)] assms c Inr reaches_wf [OF finalize_quota_reaches [OF assms(1)] assms(2)]
    by (auto simp: finalize_quota_def)
qed

subsection \<open>The steps that leave holds alone\<close>

lemma with_co_keeps [simp]: "yw_quota (snd (with_co f s)) = yw_quota s" "yl_reserved (snd (with_co f s)) = yl_reserved s"
  "yl_lease_released (snd (with_co f s)) = yl_lease_released s" "yl_settled (snd (with_co f s)) = yl_settled s"
  by (simp_all add: with_co_def split: prod.splits)

lemma with_usage_log_keeps [simp]: "yw_quota (snd (with_usage_log f s)) = yw_quota s"
  "yl_reserved (snd (with_usage_log f s)) = yl_reserved s"
  "yl_lease_released (snd (with_usage_log f s)) = yl_lease_released s" "yl_settled (snd (with_usage_log f s)) = yl_settled s"
  by (simp_all add: with_usage_log_def split: prod.splits)

lemma with_pricing_keeps [simp]: "yw_quota (snd (with_pricing f s)) = yw_quota s"
  "yl_reserved (snd (with_pricing f s)) = yl_reserved s"
  "yl_lease_released (snd (with_pricing f s)) = yl_lease_released s" "yl_settled (snd (with_pricing f s)) = yl_settled s"
  by (simp_all add: with_pricing_def split: prod.splits)

lemma with_routing_keeps [simp]: "yw_quota (snd (snd (with_routing f s))) = yw_quota s"
  "yl_reserved (snd (snd (with_routing f s))) = yl_reserved s"
  "yl_lease_released (snd (snd (with_routing f s))) = yl_lease_released s" "yl_settled (snd (snd (with_routing f s))) = yl_settled s"
  by (simp_all add: with_routing_def split: prod.splits)

lemma release_lease_keeps [simp]: "yw_quota (release_request_lease y s) = yw_quota s"
  "yl_reserved (release_request_lease y s) = yl_reserved s" "yl_settled (release_request_lease y s) = yl_settled s"
  "yl_lease_released (release_request_lease y s)"
  by (simp_all add: release_request_lease_def)

subsection \<open>Who answers for the hold\<close>

text \<open>At every point the hold of the request is the request's to give back, or dealt with.\<close>

definition pushes_work :: "outside \<Rightarrow> bool" where
  "pushes_work y \<longleftrightarrow> (\<forall>m. yo_push_fails y m = None)"

abbreviation hold_of :: "relay_input \<Rightarrow> relay_state \<Rightarrow> bool" where
  "hold_of i s \<equiv> hold_handled (ac_identity (yi_auth i)) (ac_request_id (yi_auth i)) (yw_quota s)"

definition accountable :: "relay_input \<Rightarrow> relay_state \<Rightarrow> bool" where
  "accountable i s \<longleftrightarrow> wf_ledger (qw_ledger (yw_quota s)) \<and> (yl_reserved s \<or> hold_of i s)"

lemma accountable_cong:
  "yw_quota s' = yw_quota s \<Longrightarrow> yl_reserved s' = yl_reserved s \<Longrightarrow> accountable i s' \<longleftrightarrow> accountable i s"
  by (simp add: accountable_def)

lemma give_back_accountable:
  assumes "pushes_work y" "wf_ledger (qw_ledger (yw_quota s))"
  shows "accountable i (give_back y m (yi_auth i) s) \<and> \<not> yl_reserved (give_back y m (yi_auth i) s) \<and>
    yl_settled (give_back y m (yi_auth i) s) = yl_settled s"
proof -
  obtain r q where q: "release_quota (yo_db_fails y m) None (yo_now y m) (ac_identity (yi_auth i)) (ac_request_id (yi_auth i)) (yw_quota s) = (r, q)"
    by fastforce
  from release_handles [OF q assms(2)] q assms(1) show ?thesis
    by (simp add: give_back_def with_quota_def accountable_def pushes_work_def)
qed

lemma settle_accountable:
  assumes "settle y i g p a s = (r, s')" "pushes_work y" "wf_ledger (qw_ledger (yw_quota s))" "\<not> yl_settled s"
  shows "wf_ledger (qw_ledger (yw_quota s')) \<and> (hold_of i s' \<and> r = Inr () \<or> r = Inl charge_refused) \<and>
    \<not> yl_reserved s' \<and> yl_lease_released s' \<and> yl_settled s'"
proof -
  let ?c = "request_charge y p (billed_model_for (yi_model i) (yi_model i)) (sa_usage a)"
  obtain x q where q: "finalize_quota (yo_db_fails y AtFinalize) None (yo_now y AtFinalize) (ac_identity (yi_auth i))
      (ac_request_id (yi_auth i)) ?c (yw_quota s) = (x, q)" by fastforce
  from finalize_handles [OF q assms(3)] q assms(1,2,4) show ?thesis
    by (auto simp: settle_def settle_work_def with_quota_def pushes_work_def Let_def isl_def split: sum.splits)
qed

lemma admission_keeps:
  assumes "admission y auth m s = (r, s')"
  shows "yw_quota s' = yw_quota s \<and> (r = Inr () \<longrightarrow> \<not> yl_reserved s' \<and> \<not> yl_settled s' \<and> \<not> yl_lease_released s')"
proof -
  have k: "with_co f t = (a, t') \<Longrightarrow> yw_quota t' = yw_quota t" for f :: "coord \<Rightarrow> 'z \<times> coord" and t a t'
    using with_co_keeps(1) [of f t] by simp
  show ?thesis using assms unfolding admission_def Let_def
    by (auto dest!: k split: sum.splits prod.splits)
qed

lemma reserve_result:
  assumes "reserve y auth x s = (r, s')" "\<not> yl_reserved s"
  shows "(case r of Inl e \<Rightarrow> yw_quota s' = yw_quota s \<and> \<not> yl_reserved s' | Inr _ \<Rightarrow> yl_reserved s' \<and>
      reaches (qw_ledger (yw_quota s)) (qw_ledger (yw_quota s'))) \<and> yl_settled s' = yl_settled s \<and> yl_lease_released s' = yl_lease_released s"
proof -
  have k: "reserve_quota d f n idn rid v l = (Inl e, l') \<Longrightarrow> l' = l" for d f n idn rid v l e l'
    by (erule reserve_quota_cases) simp_all
  show ?thesis using assms unfolding reserve_def Let_def
    by (auto dest: k reserve_quota_reaches split: sum.splits prod.splits)
qed

lemma price_result:
  assumes "price_and_reserve y i g b s = (r, s')" "accountable i s" "\<not> yl_reserved s"
  shows "accountable i s' \<and> (yl_reserved s' \<longleftrightarrow> \<not> isl r) \<and> yl_settled s' = yl_settled s"
proof -
  let ?e = "yo_env y" and ?idn = "ac_identity (yi_auth i)"
  obtain price s1 where 1: "with_pricing (resolve_pricing ?e (yo_now y AtPricing) b g) s = (price, s1)" by fastforce
  obtain x s2 where 2: "with_co (enforce_token_budget ?e (yo_now y AtBudget) ?idn (of_int (estimate_prompt_tokens (yi_body i)))) s1 = (x, s2)"
    by fastforce
  have s1: "yw_quota s1 = yw_quota s" "yl_reserved s1 = yl_reserved s" "yl_settled s1 = yl_settled s"
    using with_pricing_keeps [of "resolve_pricing ?e (yo_now y AtPricing) b g" s] 1 by simp_all
  have s2: "yw_quota s2 = yw_quota s" "yl_reserved s2 = yl_reserved s" "yl_settled s2 = yl_settled s"
    using with_co_keeps [of "enforce_token_budget ?e (yo_now y AtBudget) ?idn (of_int (estimate_prompt_tokens (yi_body i)))" s1] 2 s1 by simp_all
  show ?thesis
  proof (cases x)
    case (Inl e)
    with assms 1 2 s2 show ?thesis by (auto simp: price_and_reserve_def accountable_def)
  next
    case (Inr u)
    obtain w s3 where 3: "reserve y (yi_auth i) (estimated_quota ?e (yi_body i) price b) s2 = (w, s3)" by fastforce
    have "\<not> yl_reserved s2" using s2(2) assms(3) by simp
    from reserve_result [OF 3 this] assms 1 2 3 Inr s2 show ?thesis
      by (cases w) (auto simp: price_and_reserve_def accountable_def intro: reaches_wf)
  qed
qed

lemma fail_result:
  assumes "fail y i g t s = (e, s')" "pushes_work y" "accountable i s"
  shows "e = error_from t \<and> hold_of i s' \<and> yl_lease_released s'"
  using assms give_back_accountable [OF assms(2), of s i AtFailureRelease]
  by (auto simp: fail_def Let_def accountable_def)

lemma fail_unheld:
  "fail y i g t s = (e, s') \<Longrightarrow> \<not> yl_reserved s \<Longrightarrow> e = error_from t \<and> yl_lease_released s'"
  by (auto simp: fail_def Let_def)

lemma buffered_result:
  assumes "answer_buffered y i g p outcome s = (r, s')" "pushes_work y" "wf_ledger (qw_ledger (yw_quota s))"
    "yl_reserved s" "\<not> yl_settled s"
  shows "case r of Inl t \<Rightarrow> accountable i s' \<or> t = Gateway charge_refused \<and> \<not> yl_reserved s'
    | Inr x \<Rightarrow> hold_of i s' \<and> yl_lease_released s'"
proof -
  let ?env = "yo_env y" and ?v = "ro_value outcome" and ?m = "billed_model_for (yi_model i) (yi_model i)"
  have here: "accountable i s" using assms(3,4) by (simp add: accountable_def)
  show ?thesis
  proof (cases "read_capped_text (cfg_max_upstream_response_bytes ?env) (ur_body (up_response ?v))")
    case (Inl e)
    with here assms(1) show ?thesis by (auto simp: answer_buffered_def Let_def)
  next
    case (Inr t)
    note t = Inr
    show ?thesis
    proof (cases "parsed_body ?env t")
      case None
      with t assms(1) give_back_accountable [OF assms(2,3), of i AtRelease] show ?thesis
        by (auto simp: answer_buffered_def Let_def accountable_def)
    next
      case (Some parsed)
      note parsed = Some
      show ?thesis
      proof (cases "transform_response ?env (yo_now y AtFirstByte div 1000) (yo_fresh y) (yo_ids y 0) (yo_ids y 1) (up_wire ?v)
          (yi_dialect i) (Some (JObj parsed)) (yi_model i)")
        case (Inl e)
        with here t parsed assms(1) show ?thesis by (auto simp: answer_buffered_def Let_def)
      next
        case (Inr body)
        let ?a = "\<lparr>sa_usage = normalize_usage (raw_usage_of (up_wire ?v) parsed) (exclusive_usage ?m),
          sa_channel = ro_channel_id outcome, sa_mapped = up_mapped ?v, sa_attempts = ro_attempts outcome,
          sa_status = UsageSuccess, sa_error_code = None, sa_first_byte = Some (yo_now y AtFirstByte - started_at y (yi_auth i))\<rparr>"
        obtain x s1 where x: "settle y i g p ?a s = (x, s1)" by fastforce
        from settle_accountable [OF x assms(2,3,5)] x t parsed Inr assms(1) show ?thesis
          by (auto simp: answer_buffered_def Let_def accountable_def split: sum.splits)
      qed
    qed
  qed
qed

lemma respond_result:
  assumes "respond y i g p outcome s = (r, s')" "pushes_work y" "wf_ledger (qw_ledger (yw_quota s))"
    "yl_reserved s" "\<not> yl_settled s"
  shows "case r of Inl t \<Rightarrow> accountable i s' \<or> t = Gateway charge_refused \<and> \<not> yl_reserved s'
    | Inr (Refused e) \<Rightarrow> False
    | Inr (Answered a) \<Rightarrow> hold_of i s' \<and> yl_lease_released s'
    | Inr (Streaming c a) \<Rightarrow> rs_body a = open_stream c s' \<and> sc_outside c = y \<and> sc_input c = i \<and>
        wf_ledger (qw_ledger (yw_quota s')) \<and> \<not> yl_settled s'"
proof (cases "yi_stream i")
  case False
  obtain x s1 where x: "answer_buffered y i g p outcome s = (x, s1)" by fastforce
  from buffered_result [OF x assms(2-5)] False x assms(1) show ?thesis
    by (auto simp: respond_def split: sum.splits)
next
  case True
  have "accountable i (release_request_lease y (give_back y AtRelease (yi_auth i) s))"
    using give_back_accountable [OF assms(2,3), of i AtRelease] by (auto simp: accountable_def)
  with True assms show ?thesis
    by (auto simp: respond_def Let_def stream_context_of_def stream_response_def split: if_splits)
qed

subsection \<open>Every exit\<close>

lemma stream_gives_back:
  assumes "stream_run c ls (open_stream c s) = Some m" "sm_finished m" "sm_pending m = None"
    "pushes_work (sc_outside c)" "wf_ledger (qw_ledger (yw_quota s))" "\<not> yl_settled s"
  shows "yl_lease_released (sm_relay m) \<and> (hold_of (sc_input c) (sm_relay m) \<or> \<not> sm_closed m)"
proof -
  from stream_settles [OF assms(1,6)] assms(2,3) obtain a where
    a: "sm_relay m = stream_effect c a ((handed_over s)\<lparr>yl_settled := True\<rparr>)"
      "sm_closed m \<longrightarrow> \<not> stream_fault c a ((handed_over s)\<lparr>yl_settled := True\<rparr>)"
    by auto
  obtain r s1 where r: "settle (sc_outside c) (sc_input c) (sc_group c) (sc_price c) a (handed_over s) = (r, s1)" by fastforce
  have "settle_work (sc_outside c) (sc_input c) (sc_group c) (sc_price c) a ((handed_over s)\<lparr>yl_settled := True\<rparr>) = (r, s1)"
    using r assms(6) by (simp add: settle_def)
  with a settle_accountable [OF r assms(4)] assms(5,6) show ?thesis by auto
qed

lemma relay_gives_back:
  assumes "relay y i s = (r, es, s')" "pushes_work y" "wf_ledger (qw_ledger (yw_quota s))" "hold_of i s"
  shows "case r of
      Refused e \<Rightarrow> (hold_of i s' \<or> e = charge_refused) \<and> (yl_lease_released s' \<or> isl (fst (admission y (yi_auth i) (yi_model i) s)))
    | Answered a \<Rightarrow> hold_of i s' \<and> yl_lease_released s'
    | Streaming c a \<Rightarrow> rs_body a = open_stream c s' \<and> sc_outside c = y \<and> sc_input c = i \<and>
        wf_ledger (qw_ledger (yw_quota s')) \<and> \<not> yl_settled s'"
proof -
  let ?g = "group_for (ac_identity (yi_auth i)) (effective_directives (yi_auth i))"
  obtain a s1 where 1: "admission y (yi_auth i) (yi_model i) s = (a, s1)" by fastforce
  note adm = admission_keeps [OF 1]
  show ?thesis
  proof (cases a)
    case (Inl e)
    with 1 adm assms show ?thesis by (auto simp: relay_def Let_def)
  next
    case (Inr u)
    with adm have k: "yw_quota s1 = yw_quota s" "\<not> yl_reserved s1" "\<not> yl_settled s1" by simp_all
    have acc: "accountable i s1" using k(1) assms(3,4) by (simp add: accountable_def)
    obtain b s2 where 2: "price_and_reserve y i ?g (billed_model_for (yi_model i) (yi_model i)) s1 = (b, s2)" by fastforce
    note pr = price_result [OF 2 acc k(2)]
    show ?thesis
    proof (cases b)
      case (Inl e)
      obtain e' s3 where f: "fail y i ?g (Gateway e) s2 = (e', s3)" by fastforce
      from fail_result [OF f assms(2)] pr Inl 1 2 f \<open>a = Inr u\<close> assms(1) show ?thesis
        by (auto simp: relay_def protected_def Let_def)
    next
      case (Inr price)
      obtain o1 es1 s3 where 3: "elect_and_call y i ?g s2 = (o1, es1, s3)" by (rule prod_cases3)
      have k3: "yw_quota s3 = yw_quota s2" "yl_reserved s3 = yl_reserved s2" "yl_settled s3 = yl_settled s2"
        using 3 with_routing_keeps [of "with_channel_retry (yo_env y) (yo_open y) (attempt y i) (retry_request_of y i ?g)
            (yo_now y AtElection) (yo_ticks y)" s2]
        by (simp_all add: elect_and_call_def)
      with pr Inr k(3) have r3: "yl_reserved s3" "\<not> yl_settled s3" "accountable i s3" "wf_ledger (qw_ledger (yw_quota s3))"
        by (simp_all add: accountable_def)
      show ?thesis
      proof (cases o1)
        case (Inl t)
        obtain e' s4 where f: "fail y i ?g t s3 = (e', s4)" by fastforce
        from fail_result [OF f assms(2) r3(3)] Inl 1 2 3 f \<open>a = Inr u\<close> \<open>b = Inr price\<close> assms(1) show ?thesis
          by (auto simp: relay_def protected_def Let_def)
      next
        case (Inr outcome)
        obtain x s4 where 4: "respond y i ?g price outcome s3 = (x, s4)" by fastforce
        note res = respond_result [OF 4 assms(2) r3(4,1,2)]
        show ?thesis
        proof (cases x)
          case (Inl t)
          obtain e' s5 where f: "fail y i ?g t s4 = (e', s5)" by fastforce
          have "(hold_of i s5 \<or> e' = charge_refused) \<and> yl_lease_released s5"
            using res Inl fail_result [OF f assms(2)] fail_unheld [OF f] by auto
          with Inl Inr 1 2 3 4 f \<open>a = Inr u\<close> \<open>b = Inr price\<close> assms(1) show ?thesis
            by (auto simp: relay_def protected_def Let_def)
        next
          case (Inr z)
          with res \<open>o1 = Inr outcome\<close> 1 2 3 4 \<open>a = Inr u\<close> \<open>b = Inr price\<close> assms(1) show ?thesis
            by (auto simp: relay_def protected_def Let_def split: relay_result.splits)
        qed
      qed
    qed
  qed
qed


subsection \<open>A request that is answered, and one that streams\<close>

lemma sample_relay_kinds:
  "case fst (relay sample_outside (sample_relay False) sample_relay_state) of Answered a \<Rightarrow> True | _ \<Rightarrow> False"
  by code_simp

lemma sample_answered: "\<exists>a es s'. relay sample_outside (sample_relay False) sample_relay_state = (Answered a, es, s')"
  using sample_relay_kinds
  by (cases "relay sample_outside (sample_relay False) sample_relay_state" rule: prod_cases3) (auto split: relay_result.splits)

lemma sample_relay_ok: "pushes_work sample_outside" "wf_ledger (qw_ledger (yw_quota sample_relay_state))"
  "hold_of (sample_relay b) sample_relay_state"
  by (simp_all add: pushes_work_def sample_outside_def sample_relay_state_def wf_ledger_def hold_handled_def open_hold_def)


subsection \<open>Before the call\<close>

lemma quota_amount_ceiling: "quota_amount (js_max (js_int p) v) f = Inr a \<Longrightarrow> p \<le> a"
  by (cases v) (auto simp: quota_amount_def js_max_def Let_def le_ceiling_iff split: if_splits)

lemma reserve_payer:
  assumes "reserve y auth x s = (Inr u, s')" "find_one (\<lambda>j. qj_id j = ac_request_id auth) (l_journal (qw_ledger (yw_quota s))) = None"
  shows "\<exists>pre w. pre_consumed_quota (yo_env y) = Inr pre \<and> w \<in> set (l_users (qw_ledger (yw_quota s))) \<and>
    usr_id w = idn_user_id (ac_identity auth) \<and> usr_status w = Enabled \<and> pre \<le> usr_quota w"
proof -
  let ?l = "qw_ledger (yw_quota s)" and ?now = "yo_now y AtReserve" and ?idn = "ac_identity auth"
  obtain pre q l' where r: "pre_consumed_quota (yo_env y) = Inr pre"
    "reserve_quota (is_degraded ?now (yw_co s)) (yo_db_fails y AtReserve) ?now ?idn (ac_request_id auth) (js_max (js_int pre) x) ?l = (Inr q, l')"
    using assms(1) by (auto simp: reserve_def Let_def split: sum.splits prod.splits)
  from r(2) show ?thesis
  proof (cases rule: reserve_quota_cases)
    case (replay res)
    with r(2) obtain a where "reserve_work ?now ?idn (ac_request_id auth) (max 1 a) ?l = Inr (q, l')"
      by (auto simp: reserve_quota_def transaction_def split: if_splits sum.splits)
    then show ?thesis using replay assms(2) by (auto simp: reserve_work_def res_bind_Inr_iff Let_def split: if_splits option.splits)
  next
    case (new a user token)
    have "pre \<le> a" by (rule quota_amount_ceiling [OF new(1)])
    with reserve_postD(2,4,6) [OF new(3)] reserve_post_ids(1) [OF new(3)] r(1) show ?thesis
      by (intro exI [of _ pre] exI [of _ user]) (auto dest: find_one_SomeD)
  qed simp
qed

lemma relay_calls:
  assumes "relay y i s = (r, es, s')" "es \<noteq> []"
  obtains s1 price s2 where "admission y (yi_auth i) (yi_model i) s = (Inr (), s1)"
    "price_and_reserve y i (group_for (ac_identity (yi_auth i)) (effective_directives (yi_auth i)))
       (billed_model_for (yi_model i) (yi_model i)) s1 = (Inr price, s2)"
proof -
  let ?g = "group_for (ac_identity (yi_auth i)) (effective_directives (yi_auth i))"
  obtain a s1 where 1: "admission y (yi_auth i) (yi_model i) s = (a, s1)" by fastforce
  with assms have a: "a = Inr ()" by (cases a) (auto simp: relay_def Let_def)
  obtain b s2 where 2: "price_and_reserve y i ?g (billed_model_for (yi_model i) (yi_model i)) s1 = (b, s2)" by fastforce
  with assms 1 a obtain price where "b = Inr price"
    by (cases b) (auto simp: relay_def protected_def Let_def split: prod.splits)
  with 1 2 a that show thesis by blast
qed

lemma price_keeps_ledger:
  assumes "price_and_reserve y i g b s = (Inr price, s')"
  obtains x s2 s3 where "reserve y (yi_auth i) x s2 = (Inr (), s3)" "yw_quota s2 = yw_quota s"
proof -
  let ?e = "yo_env y" and ?idn = "ac_identity (yi_auth i)"
  obtain p s1 where 1: "with_pricing (resolve_pricing ?e (yo_now y AtPricing) b g) s = (p, s1)" by fastforce
  obtain x s2 where 2: "with_co (enforce_token_budget ?e (yo_now y AtBudget) ?idn (of_int (estimate_prompt_tokens (yi_body i)))) s1 = (x, s2)"
    by fastforce
  have "yw_quota s2 = yw_quota s"
    using with_pricing_keeps(1) [of "resolve_pricing ?e (yo_now y AtPricing) b g" s] 1
      with_co_keeps(1) [of "enforce_token_budget ?e (yo_now y AtBudget) ?idn (of_int (estimate_prompt_tokens (yi_body i)))" s1] 2 by simp
  moreover obtain s3 where "reserve y (yi_auth i) (estimated_quota ?e (yi_body i) p b) s2 = (Inr (), s3)"
    using assms 1 2 by (auto simp: price_and_reserve_def Let_def split: sum.splits prod.splits)
  ultimately show thesis using that by blast
qed

lemma call_has_hold:
  assumes "relay y i s = (r, es, s')" "es \<noteq> []"
    "find_one (\<lambda>j. qj_id j = ac_request_id (yi_auth i)) (l_journal (qw_ledger (yw_quota s))) = None"
  shows "assert_model_allowed (ac_identity (yi_auth i)) (yi_model i) = Inr () \<and>
    (\<exists>pre w. pre_consumed_quota (yo_env y) = Inr pre \<and> w \<in> set (l_users (qw_ledger (yw_quota s))) \<and>
      usr_id w = idn_user_id (ac_identity (yi_auth i)) \<and> usr_status w = Enabled \<and> pre \<le> usr_quota w)"
proof -
  obtain s1 price s2 where 1: "admission y (yi_auth i) (yi_model i) s = (Inr (), s1)"
    and 2: "price_and_reserve y i (group_for (ac_identity (yi_auth i)) (effective_directives (yi_auth i)))
       (billed_model_for (yi_model i) (yi_model i)) s1 = (Inr price, s2)"
    by (rule relay_calls [OF assms(1,2)])
  obtain x s3 s4 where 3: "reserve y (yi_auth i) x s3 = (Inr (), s4)" "yw_quota s3 = yw_quota s1"
    by (rule price_keeps_ledger [OF 2])
  have q: "yw_quota s1 = yw_quota s" using admission_keeps [OF 1] by simp
  have "assert_model_allowed (ac_identity (yi_auth i)) (yi_model i) = Inr ()"
    using 1 by (auto simp: admission_def Let_def split: sum.splits)
  with reserve_payer [OF 3(1)] assms(3) 3(2) q show ?thesis by simp
qed

end
