(* ===== verification/EntryLaws.thy ===== *)
theory EntryLaws
  imports RelayEntry RelayLaws AuthLaws
begin

text \<open>
  From the socket to the upstream: what shape a request has when the pipeline gets it, what an upstream
  call presupposes, and that a passthrough gives back what it takes.
\<close>

subsection \<open>What the pipeline is given\<close>

lemma clean_put: "clean_json (JObj ms) \<Longrightarrow> \<not> forbidden_key k \<Longrightarrow> clean_json v \<Longrightarrow> clean_json (JObj (put_field k v ms))"
  by (induction ms) (auto split: if_splits)

lemma clean_field: "clean_json (JObj ms) \<Longrightarrow> get_field k ms = Some v \<Longrightarrow> clean_json v"
  unfolding get_field_def by (induction ms) (auto split: if_splits dest: map_of_SomeD)

lemma clean_record: "clean_json (JObj ms) \<Longrightarrow> clean_json (JObj (rec_of k ms))"
proof (cases "get_field k ms")
  case (Some v)
  assume "clean_json (JObj ms)"
  from clean_field [OF this Some] have "clean_json v" .
  then show ?thesis by (cases v) (simp_all add: Some)
qed simp

lemma sanitized_clean: "sanitized_record env v = Inr ms \<Longrightarrow> clean_json (JObj ms)"
proof -
  assume "sanitized_record env v = Inr ms"
  then obtain j where "j = clone_sanitized (JObj (as_record v))" "ms = as_record (Some j)"
    by (auto simp: sanitized_record_def sanitize_parsed_def split: sum.splits option.splits)
  then show ?thesis using clean_clone_sanitized [of "JObj (as_record v)"] by simp
qed

lemma clean_filter: "clean_json (JObj ms) \<Longrightarrow> clean_json (JObj (filter P ms))"
  by (auto simp: list_all_iff)

lemma with_usage_clean: "clean_json (JObj ms) \<Longrightarrow> clean_json (JObj (with_usage ms))"
  unfolding with_usage_def
  by (intro clean_put clean_record) (simp_all add: forbidden_key_def)

lemma openai_request_shape:
  assumes "normalize_openai_request env raw chat = Inr n"
  shows "nr_model n \<noteq> [] \<and> clean_json (JObj (nr_body n)) \<and> nr_model n = str_of ''model'' (nr_body n) \<and>
    (\<forall>k \<in> set stripped_fields. get_field k (nr_body n) = None)"
proof -
  obtain ms where ms: "sanitized_record env (Some raw) = Inr ms"
    using assms by (auto simp: normalize_openai_request_def split: if_splits sum.splits)
  let ?in = "filter (\<lambda>m. fst m \<notin> set stripped_fields) ms"
  have c: "clean_json (JObj ?in)" by (rule clean_filter [OF sanitized_clean [OF ms]])
  have s: "get_field k ?in = None" if "k \<in> set stripped_fields" for k
    using that by (auto simp: get_field_def map_of_eq_None_iff)
  have u: "get_field k (with_usage xs) = get_field k xs" if "k \<noteq> ''stream_options''" for k xs
    using that by (simp add: with_usage_def)
  have so: "''stream_options'' \<notin> set stripped_fields" "''model'' \<noteq> ''stream_options''" by (simp_all add: stripped_fields_def)
  have "nr_body n = ?in \<or> nr_body n = with_usage ?in" "nr_model n = str_of ''model'' ?in" "nr_model n \<noteq> []"
    using assms ms by (auto simp: normalize_openai_request_def Let_def split: if_splits sum.splits)
  then show ?thesis using c s u so with_usage_clean [OF c] by (metis (no_types, lifting))
qed


text \<open>A body is read within its ceiling: what is parsed is at most that long and is what the client sent.\<close>

lemma read_body_bounded:
  assumes "read_body (Some es) mx = Inr t" "0 \<le> mx"
  shows "int (length t) \<le> mx \<and> t = body_of es"
proof -
  have r: "read_loop mx es [] 0 = Inr t"
    using assms(1) by (auto simp: read_body_def read_limited_bytes_def split: sum.splits read_error.splits json_limit.splits)
  from read_loop_bound [OF r, of mx] read_loop_Inr [OF r] assms(2) show ?thesis by simp
qed

subsection \<open>Who reaches an upstream\<close>

lemma handle_calls:
  assumes "handle_relay_request y ao q r w = (res, es, w')" "es \<noteq> []"
  obtains auth w1 n rr s where "authenticate_request (yo_env y) ao r w = (Inr auth, w1)"
    "relay y (relay_input_of q r auth n) (ew_relay w1) = (rr, es, s)"
proof -
  obtain a w1 where a: "authenticate_request (yo_env y) ao r w = (a, w1)" by fastforce
  with assms obtain auth where auth: "a = Inr auth" by (cases a) (auto simp: handle_relay_request_def Let_def)
  with assms a obtain n where n: "read_request (yo_env y) q r = Inr n"
    by (cases "read_request (yo_env y) q r") (auto simp: handle_relay_request_def Let_def)
  obtain rr es1 s where rr: "relay y (relay_input_of q r auth n) (ew_relay w1) = (rr, es1, s)" by (rule prod_cases3)
  with assms a auth n have "es1 = es" by (auto simp: handle_relay_request_def Let_def split: relay_result.splits)
  with a auth rr that show thesis by blast
qed

lemma authenticate_request_step:
  assumes "authenticate_request env ao r w = (Inr auth, w1)"
  obtains t aw where "authenticate env (ao_sha ao) (ao_hash_ip ao) (qi_request_id r) (ao_clock ao) (qi_headers r) (qi_query_key r)
      ((ew_auth w)\<lparr>aw_co := yw_co (ew_relay w)\<rparr>) = (Inr auth, t, aw)" "yw_quota (ew_relay w1) = yw_quota (ew_relay w)"
proof -
  obtain a t aw where x: "authenticate env (ao_sha ao) (ao_hash_ip ao) (qi_request_id r) (ao_clock ao) (qi_headers r) (qi_query_key r)
      ((ew_auth w)\<lparr>aw_co := yw_co (ew_relay w)\<rparr>) = (a, t, aw)" by (rule prod_cases3)
  with assms have "a = Inr auth" "yw_quota (ew_relay w1) = yw_quota (ew_relay w)"
    by (auto simp: authenticate_request_def)
  with x that show thesis by blast
qed

lemma request_id_given:
  assumes "authenticate env sha hash_ip request_id clk hs query_key w = (Inr ctx, finish, w')"
  shows "ac_request_id ctx = request_id"
  using assms by (auto simp: authenticate_def Let_def split: if_splits option.splits prod.splits sum.splits)


definition sample_request_in :: request_in where
  "sample_request_in = \<lparr>qi_headers = [(''authorization'', ''Bearer '' @ sample_key), (''x-forwarded-for'', ''198.51.100.7'')],
     qi_query_key = None, qi_body = Some [Chunk (json_stringify (JObj [(''model'', JStr ''gpt-4'')])), StreamEnd],
     qi_request_id = ''req1''\<rparr>"

definition sample_entry :: entry_world where
  "sample_entry = \<lparr>ew_auth = sample_auth, ew_relay = sample_relay_state\<rparr>"

definition sample_route :: route_options where
  "sample_route = \<lparr>ro_endpoint = Chat, ro_dialect = DOpenai, ro_chat = False, ro_default_model = None, ro_path_model = None,
     ro_path_stream = False\<rparr>"

definition sample_arrival :: auth_outside where
  "sample_arrival = \<lparr>ao_sha = sample_sha, ao_hash_ip = (\<lambda>_. ''h''), ao_clock = sample_clock\<rparr>"

lemma sample_entry_calls: "fst (snd (handle_relay_request sample_outside sample_arrival sample_route sample_request_in sample_entry)) \<noteq> []"
  by code_simp



subsection \<open>Opaque bodies\<close>

abbreviation passed :: "passthrough_input \<Rightarrow> relay_state \<Rightarrow> bool" where
  "passed p s \<equiv> hold_handled (ac_identity (pi_auth p)) (ac_request_id (pi_auth p)) (yw_quota s)"

lemma as_relay_auth [simp]: "yi_auth (as_relay_input p) = pi_auth p"
  by (simp add: as_relay_input_def)

lemma passthrough_price_result:
  assumes "passthrough_price y p g s = (r, s')" "accountable (as_relay_input p) s" "\<not> yl_reserved s"
  shows "accountable (as_relay_input p) s' \<and> (yl_reserved s' \<longleftrightarrow> \<not> isl r)"
proof -
  let ?b = "billed_model_for (pi_model p) (pi_model p)"
  obtain price s1 where 1: "with_pricing (resolve_pricing (yo_env y) (yo_now y AtPricing) ?b g) s = (price, s1)" by fastforce
  have s1: "yw_quota s1 = yw_quota s" "yl_reserved s1 = yl_reserved s"
    using with_pricing_keeps [of "resolve_pricing (yo_env y) (yo_now y AtPricing) ?b g" s] 1 by simp_all
  obtain w s2 where 2: "reserve y (pi_auth p) (request_charge y price ?b (size_estimate p)) s1 = (w, s2)" by fastforce
  have "\<not> yl_reserved s1" using s1(2) assms(3) by simp
  from reserve_result [OF 2 this] assms 1 2 s1 show ?thesis
    by (cases w) (auto simp: passthrough_price_def accountable_def Let_def intro: reaches_wf)
qed

lemma passthrough_settle_result:
  assumes "passthrough_settle y p g price u outcome s = (r, s')" "pushes_work y" "wf_ledger (qw_ledger (yw_quota s))"
  shows "case r of Inl e \<Rightarrow> e = charge_refused \<and> \<not> yl_reserved s' | Inr _ \<Rightarrow> passed p s' \<and> yl_lease_released s'"
proof -
  let ?c = "request_charge y price (billed_model_for (pi_model p) (pi_model p)) u"
  obtain x q where q: "finalize_quota (yo_db_fails y AtFinalize) None (yo_now y AtFinalize) (ac_identity (pi_auth p))
      (ac_request_id (pi_auth p)) ?c (yw_quota s) = (x, q)" by fastforce
  from finalize_handles [OF q assms(3)] q assms(1,2) show ?thesis
    by (auto simp: passthrough_settle_def with_quota_def pushes_work_def Let_def isl_def split: sum.splits)
qed

lemma passthrough_answer_result:
  assumes "passthrough_answer y p g price outcome s = (r, s')" "pushes_work y" "accountable (as_relay_input p) s" "yl_reserved s"
  shows "case r of Inl t \<Rightarrow> accountable (as_relay_input p) s' \<or> t = Gateway charge_refused \<and> \<not> yl_reserved s'
    | Inr _ \<Rightarrow> passed p s' \<and> yl_lease_released s'"
proof -
  have k: "case r of Inl e \<Rightarrow> e = charge_refused \<and> \<not> yl_reserved s' | Inr _ \<Rightarrow> passed p s' \<and> yl_lease_released s'"
    if "passthrough_settle y p g price u outcome s = (r, s')" for u r s'
    using passthrough_settle_result [OF that assms(2)] assms(3) by (simp add: accountable_def)
  show ?thesis using assms(1,3)
    by (auto simp: passthrough_answer_def Let_def split: sum.splits prod.splits dest: k)
qed

lemma passthrough_fail_result:
  assumes "passthrough_fail y p g t s = (e, s')" "pushes_work y"
  shows "e = error_from t \<and> yl_lease_released s' \<and> (accountable (as_relay_input p) s \<longrightarrow> passed p s')"
  using assms give_back_accountable [OF assms(2), of s "as_relay_input p" AtFailureRelease]
  by (auto simp: passthrough_fail_def Let_def accountable_def)

lemma passthrough_protected_result:
  assumes "passthrough_protected y p g s = (r, es, s')" "pushes_work y" "accountable (as_relay_input p) s" "\<not> yl_reserved s"
  shows "case r of Inl t \<Rightarrow> accountable (as_relay_input p) s' \<or> t = Gateway charge_refused | Inr _ \<Rightarrow> passed p s' \<and> yl_lease_released s'"
proof -
  obtain b s1 where 1: "passthrough_price y p g s = (b, s1)" by fastforce
  note pr = passthrough_price_result [OF 1 assms(3,4)]
  show ?thesis
  proof (cases b)
    case (Inl e)
    with 1 pr assms(1) show ?thesis by (auto simp: passthrough_protected_def)
  next
    case (Inr price)
    obtain o1 es1 s2 where 2: "passthrough_call y p g s1 = (o1, es1, s2)" by (rule prod_cases3)
    have k: "yw_quota s2 = yw_quota s1" "yl_reserved s2 = yl_reserved s1"
      using 2 with_routing_keeps by (auto simp: passthrough_call_def with_routing_def split: prod.splits)
    with pr Inr have r2: "yl_reserved s2" "accountable (as_relay_input p) s2" by (simp_all add: accountable_def)
    show ?thesis
    proof (cases o1)
      case (Inl t)
      with 1 2 \<open>b = Inr price\<close> r2 assms(1) show ?thesis by (auto simp: passthrough_protected_def)
    next
      case (Inr outcome)
      obtain x s3 where 3: "passthrough_answer y p g price outcome s2 = (x, s3)" by fastforce
      from passthrough_answer_result [OF 3 assms(2) r2(2,1)] 1 2 3 Inr \<open>b = Inr price\<close> assms(1) show ?thesis
        by (auto simp: passthrough_protected_def split: sum.splits)
    qed
  qed
qed


definition sample_upload :: passthrough_input where
  "sample_upload = \<lparr>pi_headers = [], pi_auth = sample_caller, pi_endpoint = AudioTranscriptions, pi_model = ''gpt-4'',
     pi_bytes = ''RIFF'', pi_content_type = ''audio/wav'', pi_max_attempts = None, pi_buffered = True\<rparr>"


end
