(* ===== verification/Tasks.thy ===== *)
theory Tasks
  imports RelayEntry "HOL-Library.Option_ord"
begin

text \<open>
  Asynchronous jobs, \<open>src/lib/tasks/index.ts\<close> and \<open>policy.ts\<close>: their identifiers, who may see one, the
  views a client gets, the search for the provider's identifier and its replacement, and which paths and
  references a submission may name. The collection is a list of documents and a flag that tells whether
  the database answers; the clock and the random texts are arguments.
\<close>

subsection \<open>The schedule\<close>

definition terminal_statuses :: "task_status list" where
  "terminal_statuses = [TSuccess, TFailure, TExpired]"

definition is_terminal :: "task_status \<Rightarrow> bool" where
  "is_terminal s \<longleftrightarrow> s \<in> set terminal_statuses"

definition poll_backoff_ms :: "int list" where
  "poll_backoff_ms = [3000, 8000, 15000, 30000, 60000, 120000]"

definition max_poll_count :: int where "max_poll_count = 240"
definition task_max_age_ms :: int where "task_max_age_ms = 24 * 60 * 60 * 1000"
definition scan_limit :: int where "scan_limit = 500"

text \<open>The index is always one of the list.\<close>

definition next_poll_delay_ms :: "int \<Rightarrow> int" where
  "next_poll_delay_ms n = poll_backoff_ms ! nat (min (max 0 n) (int (length poll_backoff_ms) - 1))"

subsection \<open>The collection\<close>

record task_store =
  tt_docs :: "task_doc list"
  tt_ok :: bool

record task_actor =
  ta_user_id :: string
  ta_role :: user_role

definition elevated :: "task_actor \<Rightarrow> bool" where
  "elevated a \<longleftrightarrow> ta_role a = RoleAdmin \<or> ta_role a = RoleRoot"

text \<open>\<^term>\<open>None\<close> when the bytes run out.\<close>

definition new_task_id :: "byte list \<Rightarrow> string option" where
  "new_task_id bytes = map_option ((@) ''task-'') (random_alphanumeric 28 bytes)"

record task_input =
  ti_platform :: task_platform
  ti_action :: string
  ti_user_id :: string
  ti_token_id :: string
  ti_channel_id :: string
  ti_channel_key_id :: "string option"
  ti_model :: string
  ti_quota :: int
  ti_properties :: members

definition new_task :: "int \<Rightarrow> string \<Rightarrow> string \<Rightarrow> task_input \<Rightarrow> task_doc" where
  "new_task now row_id task_id i =
     \<lparr>tsk_id = row_id, tsk_task_id = task_id, tsk_upstream_id = None, tsk_platform = ti_platform i, tsk_action = ti_action i,
      tsk_user_id = ti_user_id i, tsk_token_id = ti_token_id i, tsk_channel_id = ti_channel_id i,
      tsk_channel_key_id = (case ti_channel_key_id i of Some k \<Rightarrow> if k \<noteq> [] then Some k else None | None \<Rightarrow> None),
      tsk_model = ti_model i, tsk_status = TPending, tsk_progress = ''0%'', tsk_quota = ti_quota i, tsk_quota_settled = True,
      tsk_submit_time = now, tsk_start_time = None, tsk_finish_time = None, tsk_poll_count = 0,
      tsk_next_poll_at = Some (now + next_poll_delay_ms 0), tsk_properties = ti_properties i, tsk_result = None,
      tsk_fail_reason = None\<rparr>"

text \<open>Both identifiers are unique keys of the collection.\<close>

definition create_task ::
    "int \<Rightarrow> string \<Rightarrow> string \<Rightarrow> task_input \<Rightarrow> task_store \<Rightarrow> (thrown + task_doc) \<times> task_store" where
  "create_task now row_id task_id i st =
     (let doc = new_task now row_id task_id i in
      if \<not> tt_ok st \<or> task_id \<in> set (map tsk_task_id (tt_docs st)) then (Inl OtherThrown, st)
      else (case insert_one tsk_id doc (tt_docs st) of
          None \<Rightarrow> (Inl OtherThrown, st)
        | Some ds \<Rightarrow> (Inr doc, st\<lparr>tt_docs := ds\<rparr>)))"

definition find_task :: "string \<Rightarrow> task_store \<Rightarrow> thrown + task_doc option" where
  "find_task task_id st =
     (if task_id = [] then Inr None
      else if \<not> tt_ok st then Inl OtherThrown
      else Inr (find_one (\<lambda>d. tsk_task_id d = task_id) (tt_docs st)))"

definition valid_task_id :: "string \<Rightarrow> bool" where
  "valid_task_id s \<longleftrightarrow> starts_with ''task-'' s \<and> length s = 33 \<and> list_all is_alnum (drop 5 s)"

definition no_such_task :: thrown where
  "no_such_task = Gateway (not_found ''no such task'')"

definition require_task :: "string \<Rightarrow> task_actor \<Rightarrow> task_store \<Rightarrow> thrown + task_doc" where
  "require_task task_id a st =
     (if \<not> valid_task_id task_id then Inl no_such_task
      else if \<not> tt_ok st then Inl OtherThrown
      else (case find_one (\<lambda>d. tsk_task_id d = task_id \<and> (elevated a \<or> tsk_user_id d = ta_user_id a)) (tt_docs st) of
          None \<Rightarrow> Inl no_such_task
        | Some d \<Rightarrow> Inr d))"

text \<open>The newest first; a limit with a fraction is cut off by the store.\<close>

definition list_tasks :: "task_actor \<Rightarrow> rat option \<Rightarrow> rat option \<Rightarrow> task_store \<Rightarrow> thrown + task_doc list" where
  "list_tasks a asked skip st =
     (let n = min (max 1 (case asked of Some l \<Rightarrow> l | None \<Rightarrow> 50)) 200;
          k = max 0 (case skip of Some s \<Rightarrow> s | None \<Rightarrow> 0)
      in if \<not> tt_ok st then Inl OtherThrown
         else Inr (take (nat \<lfloor>n\<rfloor>) (drop (nat \<lfloor>k\<rfloor>) (sort_key (\<lambda>d. - tsk_submit_time d)
           (filter (\<lambda>d. elevated a \<or> tsk_user_id d = ta_user_id a) (tt_docs st))))))"

text \<open>A \<open>$set\<close> of some fields; \<open>fails\<close> is a fault of the database during it.\<close>

definition update_task :: "bool \<Rightarrow> string \<Rightarrow> (task_doc \<Rightarrow> task_doc) \<Rightarrow> task_store \<Rightarrow> (thrown + unit) \<times> task_store" where
  "update_task fails task_id patch st =
     (if fails \<or> \<not> tt_ok st then (Inl OtherThrown, st)
      else (Inr (), st\<lparr>tt_docs := update_one (\<lambda>d. tsk_task_id d = task_id) patch (tt_docs st)\<rparr>))"

definition mark_submitted :: "bool \<Rightarrow> int \<Rightarrow> string \<Rightarrow> string \<Rightarrow> task_store \<Rightarrow> (thrown + unit) \<times> task_store" where
  "mark_submitted fails now task_id upstream st =
     update_task fails task_id (\<lambda>d. d\<lparr>tsk_upstream_id := Some upstream, tsk_status := TSubmitted,
       tsk_start_time := Some now, tsk_next_poll_at := Some (now + next_poll_delay_ms 0)\<rparr>) st"

text \<open>Jobs whose next poll has come, the longest waiting first; one without a time comes before all.\<close>

definition is_due :: "int \<Rightarrow> task_doc \<Rightarrow> bool" where
  "is_due now d \<longleftrightarrow> \<not> is_terminal (tsk_status d) \<and> (case tsk_next_poll_at d of None \<Rightarrow> True | Some t \<Rightarrow> t \<le> now)"

definition due_tasks :: "int \<Rightarrow> int \<Rightarrow> task_store \<Rightarrow> thrown + task_doc list" where
  "due_tasks now asked st =
     (if \<not> tt_ok st then Inl OtherThrown
      else Inr (take (nat (max 1 (min scan_limit asked)))
        (sort_key tsk_next_poll_at (sort_key tsk_submit_time (filter (is_due now) (tt_docs st))))))"

definition is_expired :: "task_doc \<Rightarrow> int \<Rightarrow> bool" where
  "is_expired d now \<longleftrightarrow> tsk_poll_count d \<ge> max_poll_count \<or> now - tsk_submit_time d \<ge> task_max_age_ms"

subsection \<open>The provider's identifier\<close>

definition id_fields :: "string list" where
  "id_fields = [''result'', ''task_id'', ''taskId'', ''id'', ''job_id'', ''jobId'', ''request_id'']"

text \<open>A field that is a text or a number, as text; empty when it is neither.\<close>

definition scalar_text :: "json option \<Rightarrow> string" where
  "scalar_text v = (case v of
      Some (JStr s) \<Rightarrow> s
    | Some (JNum n) \<Rightarrow> if js_finite n then number_text n else []
    | _ \<Rightarrow> [])"

definition first_text :: "string list \<Rightarrow> string" where
  "first_text ts = (case List.find (\<lambda>t. t \<noteq> []) ts of Some t \<Rightarrow> t | None \<Rightarrow> [])"

text \<open>\<open>left\<close> levels may still be entered, four in all.\<close>

fun extract_levels :: "nat \<Rightarrow> json \<Rightarrow> string" where
  "extract_levels 0 v = []"
| "extract_levels (Suc left) v =
     (case v of
        JObj ms \<Rightarrow> first_text (map (\<lambda>f. scalar_text (get_field f ms)) id_fields @
          map (\<lambda>f. case get_field f ms of Some child \<Rightarrow> extract_levels left child | None \<Rightarrow> [])
            [''data'', ''result'', ''task'', ''output''])
      | _ \<Rightarrow> [])"

definition extract_upstream_task_id :: "json \<Rightarrow> string" where
  "extract_upstream_task_id v = extract_levels 4 v"

fun replace_id :: "string \<Rightarrow> string \<Rightarrow> json \<Rightarrow> json" where
  "replace_id old new (JStr s) = JStr (if s = old then new else s)"
| "replace_id old new (JNum n) = (if number_text n = old then JStr new else JNum n)"
| "replace_id old new (JArr xs) = JArr (map (replace_id old new) xs)"
| "replace_id old new (JObj ms) = JObj (map (\<lambda>m. (fst m, replace_id old new (snd m))) ms)"
| "replace_id old new v = v"

definition rewrite_task_id :: "env \<Rightarrow> json \<Rightarrow> string \<Rightarrow> string \<Rightarrow> thrown + json" where
  "rewrite_task_id env v old new =
     (case sanitize_parsed (cfg_max_json_depth env) (cfg_max_json_nodes env) v of
        Inl l \<Rightarrow> Inl (JsonLimitThrown l (limit_text env l))
      | Inr safe \<Rightarrow> Inr (if old = [] then safe else replace_id old new safe))"

subsection \<open>What a client sees\<close>

fun platform_text :: "task_platform \<Rightarrow> string" where
  "platform_text PMidjourney = ''midjourney''" | "platform_text PSuno = ''suno''" | "platform_text PKling = ''kling''"
| "platform_text PJimeng = ''jimeng''" | "platform_text PVidu = ''vidu''" | "platform_text PDify = ''dify''"
| "platform_text PVideo = ''video''"

fun task_status_text :: "task_status \<Rightarrow> string" where
  "task_status_text TPending = ''pending''" | "task_status_text TSubmitted = ''submitted''"
| "task_status_text TInProgress = ''in_progress''" | "task_status_text TSuccess = ''success''"
| "task_status_text TFailure = ''failure''" | "task_status_text TExpired = ''expired''"

definition date_json :: "int option \<Rightarrow> json" where
  "date_json t = (case t of Some ms \<Rightarrow> JStr (iso_string ms) | None \<Rightarrow> JNull)"

definition text_json :: "string option \<Rightarrow> json" where
  "text_json t = (case t of Some s \<Rightarrow> JStr s | None \<Rightarrow> JNull)"

definition public_task :: "env \<Rightarrow> task_doc \<Rightarrow> thrown + members" where
  "public_task env d =
     (case rewrite_task_id env (case tsk_result d of Some r \<Rightarrow> r | None \<Rightarrow> JNull) (or_empty (tsk_upstream_id d)) (tsk_task_id d) of
        Inl e \<Rightarrow> Inl e
      | Inr result \<Rightarrow> Inr
         [(''id'', JStr (tsk_task_id d)), (''object'', JStr ''task''), (''platform'', JStr (platform_text (tsk_platform d))),
          (''action'', JStr (tsk_action d)), (''model'', JStr (tsk_model d)), (''status'', JStr (task_status_text (tsk_status d))),
          (''progress'', JStr (tsk_progress d)), (''quota'', JNum (js_int (tsk_quota d))),
          (''submitTime'', JStr (iso_string (tsk_submit_time d))), (''startTime'', date_json (tsk_start_time d)),
          (''finishTime'', date_json (tsk_finish_time d)), (''result'', result), (''failReason'', text_json (tsk_fail_reason d))])"

fun mj_status :: "task_status \<Rightarrow> string" where
  "mj_status TPending = ''NOT_START''" | "mj_status TSubmitted = ''SUBMITTED''" | "mj_status TInProgress = ''IN_PROGRESS''"
| "mj_status TSuccess = ''SUCCESS''" | "mj_status TFailure = ''FAILURE''" | "mj_status TExpired = ''FAILURE''"

definition mj_task_view :: "task_doc \<Rightarrow> members" where
  "mj_task_view d =
     [(''id'', JStr (tsk_task_id d)), (''action'', JStr (js_upper (tsk_action d))), (''status'', JStr (mj_status (tsk_status d))),
      (''progress'', JStr (tsk_progress d)), (''description'', JStr (or_empty (tsk_fail_reason d))),
      (''submitTime'', JNum (js_int (tsk_submit_time d))),
      (''startTime'', JNum (js_int (case tsk_start_time d of Some t \<Rightarrow> t | None \<Rightarrow> 0))),
      (''finishTime'', JNum (js_int (case tsk_finish_time d of Some t \<Rightarrow> t | None \<Rightarrow> 0))),
      (''imageUrl'', JStr (as_string (get_field ''imageUrl'' (as_record (tsk_result d))) [])),
      (''failReason'', JStr (or_empty (tsk_fail_reason d))), (''properties'', JObj [])]"

subsection \<open>What may be submitted\<close>

definition default_paths :: "task_platform \<Rightarrow> string list" where
  "default_paths p = (case p of
      PMidjourney \<Rightarrow> [''/mj/submit/imagine'', ''/mj/submit/blend'', ''/mj/submit/describe'']
    | PVideo \<Rightarrow> [''/v1/videos'']
    | _ \<Rightarrow> [])"

definition path_char :: "char \<Rightarrow> bool" where
  "path_char c \<longleftrightarrow> is_alnum c \<or> c = CHR ''_'' \<or> c = CHR ''-''"

definition plain_path :: "string \<Rightarrow> bool" where
  "plain_path p \<longleftrightarrow> starts_with ''/'' p \<and> list_all (\<lambda>s. s \<noteq> [] \<and> list_all path_char s) (split_on (CHR ''/'') (tl p))"

definition is_task_submit_path_allowed :: "channel_doc \<Rightarrow> task_platform \<Rightarrow> string \<Rightarrow> bool" where
  "is_task_submit_path_allowed ch p path \<longleftrightarrow>
     plain_path path \<and>
     (case get_field ''submitPaths'' (ch_config ch) of
        Some (JArr xs) \<Rightarrow> JStr path \<in> set xs
      | _ \<Rightarrow> path \<in> set (default_paths p))"

definition reference_names :: "string list" where
  "reference_names = [''taskid'', ''jobid'', ''origintaskid'', ''sourcetaskid'', ''referencetaskid'',
     ''conversationid'', ''sessionid'', ''audioid'', ''clipid'']"

definition is_reference :: "string \<times> json \<Rightarrow> bool" where
  "is_reference m \<longleftrightarrow> js_lower (filter (\<lambda>c. c \<noteq> CHR ''_'') (fst m)) \<in> set reference_names \<and> snd m \<noteq> JNull \<and> snd m \<noteq> JStr []"

text \<open>The values of the reference fields, in the order of the walk.\<close>

fun reference_values :: "json \<Rightarrow> json list" where
  "reference_values (JArr xs) = concat (map reference_values xs)"
| "reference_values (JObj ms) = concat (map (\<lambda>m. if is_reference m then [snd m] else reference_values (snd m)) ms)"
| "reference_values v = []"

text \<open>The identifiers, at most 32.\<close>

fun reference_ids :: "json list \<Rightarrow> nat \<Rightarrow> thrown + string list" where
  "reference_ids [] n = Inr []"
| "reference_ids (JStr s # vs) n =
     (if n \<ge> 32 then Inl (Gateway (invalid_request ''too many task references'' None))
      else (case reference_ids vs (n + 1) of Inl e \<Rightarrow> Inl e | Inr ids \<Rightarrow> Inr (s # ids)))"
| "reference_ids (v # vs) n = Inl (Gateway (invalid_request ''task references must be gateway task ids'' None))"

fun fill_references :: "(string \<Rightarrow> string) \<Rightarrow> json \<Rightarrow> json" where
  "fill_references f (JArr xs) = JArr (map (fill_references f) xs)"
| "fill_references f (JObj ms) = JObj (map (\<lambda>m. (fst m,
     if is_reference m then (case snd m of JStr s \<Rightarrow> JStr (f s) | v \<Rightarrow> v) else fill_references f (snd m))) ms)"
| "fill_references f v = v"

definition differs :: "string option \<Rightarrow> string option \<Rightarrow> bool" where
  "differs known v \<longleftrightarrow> or_empty known \<noteq> [] \<and> known \<noteq> v"

definition bad_reference :: "string \<Rightarrow> thrown" where
  "bad_reference msg = Gateway (forbidden msg InsufficientPermissions)"

text \<open>Each identifier with the provider's; the channel and the credential of the last. Looking a job up twice
  gives the same document, so the table the code keeps is not needed.\<close>

fun resolve_references ::
    "task_actor \<Rightarrow> task_platform \<Rightarrow> task_store \<Rightarrow> string list \<Rightarrow> string option \<Rightarrow> string option \<Rightarrow>
     thrown + (string \<times> string) list \<times> string option \<times> string option" where
  "resolve_references a p st [] channel key = Inr ([], channel, key)"
| "resolve_references a p st (i # ids) channel key =
     (case require_task i a st of
        Inl e \<Rightarrow> Inl e
      | Inr t \<Rightarrow>
          if tsk_platform t \<noteq> p \<or> or_empty (tsk_upstream_id t) = []
          then Inl (bad_reference ''task is not a valid reference for this platform'')
          else if differs channel (Some (tsk_channel_id t))
          then Inl (bad_reference ''task references must belong to the same channel'')
          else if differs key (tsk_channel_key_id t)
          then Inl (bad_reference ''task references must use the same provider account'')
          else (case resolve_references a p st ids (Some (tsk_channel_id t)) (tsk_channel_key_id t) of
              Inl e \<Rightarrow> Inl e
            | Inr (tbl, ch, k) \<Rightarrow> Inr ((i, or_empty (tsk_upstream_id t)) # tbl, ch, k)))"

record prepared_body =
  pb_text :: string
  pb_channel :: "string option"
  pb_key :: "string option"

definition prepare_task_body ::
    "env \<Rightarrow> string \<Rightarrow> string \<Rightarrow> task_actor \<Rightarrow> task_platform \<Rightarrow> task_store \<Rightarrow> thrown + prepared_body" where
  "prepare_task_body env body content_type a p st =
     (if \<not> contains_str ''application/json'' (js_lower content_type)
      then Inl (Gateway (invalid_request ''task submissions currently require application/json'' None))
      else (case parse_body env (cfg_max_request_body_bytes env) body of
          Inl e \<Rightarrow> Inl e
        | Inr j \<Rightarrow>
            if \<not> is_plain_object j then Inl (Gateway (invalid_request ''task body must be an object'' None))
            else (case reference_ids (reference_values j) 0 of
                Inl e \<Rightarrow> Inl e
              | Inr ids \<Rightarrow>
                (case resolve_references a p st ids None None of
                   Inl e \<Rightarrow> Inl e
                 | Inr (tbl, ch, key) \<Rightarrow>
                     Inr \<lparr>pb_text = json_stringify (fill_references (\<lambda>i. case map_of tbl i of Some u \<Rightarrow> u | None \<Rightarrow> i) j),
                          pb_channel = ch, pb_key = key\<rparr>))))"

end
