(* ===== verification/TaskPolling.thy ===== *)
theory TaskPolling
  imports Tasks
begin

text \<open>
  Polling asynchronous jobs to completion, \<open>src/lib/tasks/poll.ts\<close>: reading a provider's answer, the URL
  that is asked, and one pass of the cron job over the jobs that are due. The upstream call, the clock and
  the faults of the database are arguments, one reading for each job of the pass.
\<close>

subsection \<open>Reading an answer\<close>

definition success_words :: "string list" where
  "success_words = [''success'', ''succeed'', ''succeeded'', ''completed'', ''complete'', ''finished'', ''done'', ''ok'']"

definition failure_words :: "string list" where
  "failure_words = [''failure'', ''failed'', ''fail'', ''error'', ''canceled'', ''cancelled'', ''rejected'', ''banned'']"

definition running_words :: "string list" where
  "running_words = [''in_progress'', ''inprogress'', ''in progress'', ''running'', ''processing'', ''generating'', ''started'',
     ''pending'', ''queued'', ''submitted'', ''not_start'', ''waiting'']"

definition first_string :: "members \<Rightarrow> string list \<Rightarrow> string" where
  "first_string ms fs = first_text (map (\<lambda>f. scalar_text (get_field f ms)) fs)"

text \<open>\<open>key in out\<close> also finds what every object inherits.\<close>

definition add_missing :: "members \<Rightarrow> members \<Rightarrow> members" where
  "add_missing inner out =
     fold (\<lambda>m out. if fst m \<in> set (map fst out) \<or> fst m \<in> set prototype_members then out else out @ [m]) inner out"

definition index_members :: "json list \<Rightarrow> members" where
  "index_members xs = map (\<lambda>(i, x). (show_nat i, x)) (enumerate 0 xs)"

text \<open>\<open>left\<close> levels may still be entered, four in all; the members of an array are its indices.\<close>

fun flatten_levels :: "nat \<Rightarrow> json \<Rightarrow> members" where
  "flatten_levels 0 v = []"
| "flatten_levels (Suc left) v =
     (case v of
        JObj ms \<Rightarrow> fold (\<lambda>f out. case get_field f ms of
            Some (JObj child) \<Rightarrow> add_missing (flatten_levels left (JObj child)) out
          | _ \<Rightarrow> out) [''data'', ''result'', ''task'', ''output'', ''response''] ms
      | JArr xs \<Rightarrow> index_members xs
      | _ \<Rightarrow> [])"

definition flatten :: "json \<Rightarrow> members" where
  "flatten v = flatten_levels 4 v"

record interpretation_result =
  ir_status :: task_status
  ir_progress :: string
  ir_result :: "members option"
  ir_fail_reason :: "string option"

definition percent_text :: "string \<Rightarrow> string" where
  "percent_text raw = (if raw = [] then ''0%'' else if ends_with ''%'' raw then raw else raw @ ''%'')"

definition interpret_poll_result :: "json \<Rightarrow> interpretation_result" where
  "interpret_poll_result payload =
     (let flat = flatten payload;
          word = js_trim (js_lower (first_string flat [''status'', ''state'', ''task_status'', ''taskStatus'']));
          progress = percent_text (first_string flat [''progress'', ''percent'', ''percentage'']);
          reason = first_string flat [''failReason'', ''fail_reason'', ''error'', ''error_message'', ''message'']
      in if word \<in> set failure_words then
           \<lparr>ir_status = TFailure, ir_progress = progress, ir_result = None,
            ir_fail_reason = Some (if reason \<noteq> [] then reason else ''the provider reported a failure'')\<rparr>
         else if word \<in> set success_words then
           \<lparr>ir_status = TSuccess, ir_progress = ''100%'', ir_result = Some flat, ir_fail_reason = None\<rparr>
         else if word \<in> set running_words then
           \<lparr>ir_status = TInProgress, ir_progress = progress, ir_result = None, ir_fail_reason = None\<rparr>
         else if progress = ''100%'' then
           \<lparr>ir_status = TSuccess, ir_progress = progress, ir_result = Some flat, ir_fail_reason = None\<rparr>
         else \<lparr>ir_status = TInProgress, ir_progress = progress, ir_result = None, ir_fail_reason = None\<rparr>)"

text \<open>The placeholder is replaced once; an encoded identifier has no character that \<open>replace\<close> treats apart.\<close>

definition fill_template :: "string \<Rightarrow> string \<Rightarrow> string" where
  "fill_template template i = (case cut ''__ID__'' template of Some (a, b) \<Rightarrow> a @ i @ b | None \<Rightarrow> template)"

definition poll_url_for :: "channel_doc \<Rightarrow> task_doc \<Rightarrow> string" where
  "poll_url_for ch t =
     (let base = trim_slash (ch_base_url ch); i = encode_uri_component (or_empty (tsk_upstream_id t));
          template = as_string (get_field ''pollPath'' (ch_config ch)) []
      in if template \<noteq> [] then base @ fill_template template i
         else (case tsk_platform t of
             PMidjourney \<Rightarrow> base @ ''/mj/task/'' @ i @ ''/fetch''
           | PSuno \<Rightarrow> base @ ''/api/v1/task/'' @ i
           | PKling \<Rightarrow> base @ ''/v1/videos/generations/'' @ i
           | PVidu \<Rightarrow> base @ ''/ent/v2/tasks/'' @ i @ ''/creations''
           | PJimeng \<Rightarrow> base @ ''/v1/tasks/'' @ i
           | PDify \<Rightarrow> base @ ''/v1/workflows/run/'' @ i
           | _ \<Rightarrow> base @ ''/v1/tasks/'' @ i))"

subsection \<open>One pass\<close>

record task_world =
  tk_tasks :: task_store
  tk_relay :: relay_state

record poll_report =
  pr_polled :: nat
  pr_finished :: nat
  pr_failed :: nat
  pr_expired :: nat
  pr_errors :: nat

text \<open>What the pass over one job reads from outside: the clock, and whether the update of its row, or the one
  after an error, fails.\<close>

record poll_moment =
  pm_now :: int
  pm_update_fails :: bool
  pm_retry_fails :: bool

text \<open>What the attempt decides: the counts before the update, the update, the counts after it.\<close>

record poll_action =
  pa_before :: "poll_report \<Rightarrow> poll_report"
  pa_patch :: "task_doc \<Rightarrow> task_doc"
  pa_after :: "poll_report \<Rightarrow> poll_report"

definition postponed :: "int \<Rightarrow> int \<Rightarrow> task_doc \<Rightarrow> task_doc" where
  "postponed now n d = d\<lparr>tsk_poll_count := n, tsk_next_poll_at := Some (now + next_poll_delay_ms n)\<rparr>"

definition verdict_action :: "int \<Rightarrow> int \<Rightarrow> interpretation_result \<Rightarrow> poll_action" where
  "verdict_action now n v =
     (let seen = (\<lambda>d. d\<lparr>tsk_status := ir_status v, tsk_progress := ir_progress v, tsk_poll_count := n\<rparr>) in
      case ir_status v of
        TSuccess \<Rightarrow> \<lparr>pa_before = (\<lambda>r. r\<lparr>pr_finished := pr_finished r + 1\<rparr>),
          pa_patch = (\<lambda>d. (seen d)\<lparr>tsk_finish_time := Some now,
            tsk_result := Some (JObj (case ir_result v of Some ms \<Rightarrow> ms | None \<Rightarrow> []))\<rparr>), pa_after = id\<rparr>
      | TFailure \<Rightarrow> \<lparr>pa_before = (\<lambda>r. r\<lparr>pr_failed := pr_failed r + 1\<rparr>),
          pa_patch = (\<lambda>d. (seen d)\<lparr>tsk_finish_time := Some now,
            tsk_fail_reason := Some (case ir_fail_reason v of Some s \<Rightarrow> s | None \<Rightarrow> ''the provider reported a failure'')\<rparr>), pa_after = id\<rparr>
      | _ \<Rightarrow> \<lparr>pa_before = id, pa_patch = (\<lambda>d. (seen d)\<lparr>tsk_next_poll_at := Some (now + next_poll_delay_ms n)\<rparr>), pa_after = id\<rparr>)"

definition task_key :: "outside \<Rightarrow> int \<Rightarrow> channel_doc \<Rightarrow> string option \<Rightarrow> relay_state \<Rightarrow> (thrown + selected_key) \<times> relay_state" where
  "task_key y now ch key s =
     (if or_empty key \<noteq> [] then (select_channel_key (yo_open y) (ch_id ch) (or_empty key) (yw_routing s), s)
      else (case with_routing (\<lambda>w. case pick_channel_key (yo_open y) now (ch_id ch) [] w of (r, w') \<Rightarrow> (r, (), w')) s of
        (r, _, s') \<Rightarrow> (r, s')))"

text \<open>The answer of the provider to one poll; an answer that cannot be read is no text, text that is no JSON
  an empty object.\<close>

definition poll_answer :: "env \<Rightarrow> string \<Rightarrow> upstream_response \<Rightarrow> json" where
  "poll_answer env secret r =
     (let t = (case read_capped_text (cfg_max_upstream_response_bytes env) (ur_body r) of Inl _ \<Rightarrow> [] | Inr t \<Rightarrow> t) in
      case parse_body env (cfg_max_upstream_response_bytes env) t of
        Inl _ \<Rightarrow> JObj []
      | Inr j \<Rightarrow> (case redact_provider_value (cfg_max_json_depth env) (cfg_max_json_nodes env) j secret of
          Inl _ \<Rightarrow> JObj [] | Inr j' \<Rightarrow> j'))"

definition poll_request :: "outside \<Rightarrow> channel_doc \<Rightarrow> task_doc \<Rightarrow> selected_key \<Rightarrow> thrown + string \<times> request_init" where
  "poll_request y ch t key =
     (case provider_auth_headers (yo_env y) (ch_type ch) (sk_secret key) of
        Inl e \<Rightarrow> Inl e
      | Inr auth \<Rightarrow>
        (case build_upstream_headers (cfg_site_name (yo_env y)) [] auth (ch_headers ch) None None of
           Inl e \<Rightarrow> Inl e
         | Inr hs \<Rightarrow> Inr (poll_url_for ch t, \<lparr>rq_method = Some ''GET'', rq_headers = hs, rq_body = NoBody\<rparr>)))"

definition poll_attempt :: "outside \<Rightarrow> int \<Rightarrow> task_doc \<Rightarrow> relay_state \<Rightarrow> (thrown + poll_action) \<times> relay_state" where
  "poll_attempt y now t s =
     (let n = tsk_poll_count t + 1; again = \<lparr>pa_before = id, pa_patch = postponed now n, pa_after = id\<rparr> in
      if or_empty (tsk_upstream_id t) = [] then (Inr again, s)
      else if \<not> rw_db_ok (yw_routing s) then (Inl OtherThrown, s)
      else (case find_one (\<lambda>c. ch_id c = tsk_channel_id t) (rw_channels (yw_routing s)) of
          None \<Rightarrow> (Inr (again\<lparr>pa_patch := (\<lambda>d. d\<lparr>tsk_status := TFailure, tsk_finish_time := Some now,
              tsk_fail_reason := Some ''the channel that accepted this job no longer exists''\<rparr>),
              pa_after := (\<lambda>r. r\<lparr>pr_failed := pr_failed r + 1\<rparr>)\<rparr>), s)
        | Some ch \<Rightarrow>
            (case task_key y now ch (tsk_channel_key_id t) s of
               (Inl e, s1) \<Rightarrow> (Inl e, s1)
             | (Inr key, s1) \<Rightarrow>
               (case poll_request y ch t key of
                  Inl e \<Rightarrow> (Inl e, s1)
                | Inr (url, init) \<Rightarrow>
                  (case yo_call y url init (min (cfg_upstream_header_timeout_ms (yo_env y)) 20000) of
                     Inl e \<Rightarrow> (Inl e, s1)
                   | Inr r \<Rightarrow>
                       if \<not> response_ok r
                       then (Inr (again\<lparr>pa_before := (\<lambda>r. r\<lparr>pr_errors := pr_errors r + 1\<rparr>)\<rparr>), s1)
                       else (Inr (verdict_action now n (interpret_poll_result (poll_answer (yo_env y) (sk_secret key) r))), s1))))))"

text \<open>One job: the row expires, or the attempt decides; a fault of the attempt or of its update postpones the job.
  Only a fault while a row expires ends the pass.\<close>

definition poll_task ::
    "outside \<Rightarrow> poll_moment \<Rightarrow> task_doc \<Rightarrow> poll_report \<Rightarrow> task_world \<Rightarrow> (thrown + poll_report) \<times> task_world" where
  "poll_task y m t rep w =
     (let now = pm_now m; rep1 = rep\<lparr>pr_polled := pr_polled rep + 1\<rparr>; put = (\<lambda>fails f w. case update_task fails (tsk_task_id t) f (tk_tasks w) of
          (r, st) \<Rightarrow> (r, w\<lparr>tk_tasks := st\<rparr>))
      in if is_expired t now then
           (case put (pm_update_fails m) (\<lambda>d. d\<lparr>tsk_status := TExpired, tsk_finish_time := Some now,
               tsk_fail_reason := Some ''the provider did not finish within the tracking window''\<rparr>) w of
              (Inl e, w1) \<Rightarrow> (Inl e, w1)
            | (Inr _, w1) \<Rightarrow> (Inr (rep1\<lparr>pr_expired := pr_expired rep1 + 1\<rparr>), w1))
         else
           let caught = (\<lambda>rep w. (Inr (rep\<lparr>pr_errors := pr_errors rep + 1\<rparr>),
             snd (put (pm_retry_fails m) (postponed now (tsk_poll_count t + 1)) w)))
           in (case poll_attempt y now t (tk_relay w) of
                 (Inl e, s) \<Rightarrow> caught rep1 (w\<lparr>tk_relay := s\<rparr>)
               | (Inr a, s) \<Rightarrow>
                   (case put (pm_update_fails m) (pa_patch a) (w\<lparr>tk_relay := s\<rparr>) of
                      (Inl e, w1) \<Rightarrow> caught (pa_before a rep1) w1
                    | (Inr _, w1) \<Rightarrow> (Inr (pa_after a (pa_before a rep1)), w1))))"

fun poll_all ::
    "outside \<Rightarrow> (nat \<Rightarrow> poll_moment) \<Rightarrow> nat \<Rightarrow> task_doc list \<Rightarrow> poll_report \<Rightarrow> task_world \<Rightarrow> (thrown + poll_report) \<times> task_world" where
  "poll_all y m i [] rep w = (Inr rep, w)"
| "poll_all y m i (t # ts) rep w =
     (case poll_task y (m i) t rep w of
        (Inl e, w1) \<Rightarrow> (Inl e, w1)
      | (Inr rep1, w1) \<Rightarrow> poll_all y m (Suc i) ts rep1 w1)"

definition poll_due_tasks ::
    "outside \<Rightarrow> int \<Rightarrow> (nat \<Rightarrow> poll_moment) \<Rightarrow> int \<Rightarrow> task_world \<Rightarrow> (thrown + poll_report) \<times> task_world" where
  "poll_due_tasks y now m asked w =
     (case due_tasks now asked (tk_tasks w) of
        Inl e \<Rightarrow> (Inl e, w)
      | Inr due \<Rightarrow> poll_all y m 0 due \<lparr>pr_polled = 0, pr_finished = 0, pr_failed = 0, pr_expired = 0, pr_errors = 0\<rparr> w)"

end
