(* ===== verification/TaskSubmit.thy ===== *)
theory TaskSubmit
  imports TaskPolling
begin

text \<open>
  Submitting an asynchronous job, fetching one and listing them, \<open>src/lib/tasks/submit.ts\<close>, over the
  components the relay pipeline uses. The identifiers and the times of a new row, and the faults of its
  collection, are arguments. Bytes that are read as text are text.
\<close>

record task_options =
  to_platform :: task_platform
  to_path :: string
  to_action :: string
  to_endpoint :: "endpoint option"
  to_max_channels :: "int option"

record task_outside =
  th_arrival :: auth_outside
  th_row_id :: string
  th_task_id :: string
  th_created :: int
  th_submitted :: int
  th_update_fails :: bool

record task_entry =
  te_auth :: auth_world
  te_tasks :: task_store
  te_relay :: relay_state

definition actor_of :: "identity \<Rightarrow> task_actor" where
  "actor_of idn = \<lparr>ta_user_id = idn_user_id idn, ta_role = idn_role idn\<rparr>"

definition submit_dialect :: "task_platform \<Rightarrow> response_dialect" where
  "submit_dialect p = (if p = PMidjourney then RMidjourney else ROpenai)"

definition task_model :: "task_options \<Rightarrow> string" where
  "task_model q = platform_text (to_platform q)"

subsection \<open>Channels\<close>

definition candidate_channels :: "task_platform \<Rightarrow> string \<Rightarrow> routing_world \<Rightarrow> thrown + channel_doc list" where
  "candidate_channels p grp w =
     (if \<not> rw_db_ok w then Inl OtherThrown
      else Inr (filter (\<lambda>c. \<not> ch_auto_disabled c \<and> (ch_groups c = [] \<or> grp \<in> set (ch_groups c)))
        (take 50 (sort_key (\<lambda>c. - ch_priority c)
          (filter (\<lambda>c. channel_type_name (ch_type c) = platform_text p \<and> ch_status c = Enabled) (rw_channels w))))))"

definition join_url :: "string \<Rightarrow> string \<Rightarrow> string" where
  "join_url base path = trim_slash base @ (if starts_with ''/'' path then path else CHR ''/'' # path)"

text \<open>The channels the request may use: of the platform, with the path allowed, the one its references belong to.\<close>

definition allowed_candidates :: "task_options \<Rightarrow> prepared_body \<Rightarrow> string \<Rightarrow> routing_world \<Rightarrow> thrown + channel_doc list" where
  "allowed_candidates q pb grp w =
     (case candidate_channels (to_platform q) grp w of
        Inl e \<Rightarrow> Inl e
      | Inr available \<Rightarrow>
          if available = [] then Inl (Gateway (no_channel_available (task_model q) grp))
          else
            let cs = filter (\<lambda>c. is_task_submit_path_allowed c (to_platform q) (to_path q) \<and>
                   (or_empty (pb_channel pb) = [] \<or> Some (ch_id c) = pb_channel pb)) available
            in if cs = [] then Inl (Gateway (forbidden ''this task submission path or reference channel is not allowed'' InsufficientPermissions))
               else Inr cs)"

subsection \<open>The call\<close>

record task_request =
  tq_options :: task_options
  tq_auth :: auth_context
  tq_headers :: headers
  tq_content_type :: string
  tq_prepared :: prepared_body

record accepted_job =
  aj_response :: upstream_response
  aj_channel :: channel_doc
  aj_key :: selected_key

record sent_job =
  sj_channel :: channel_doc
  sj_url :: string
  sj_init :: request_init

definition submit_request :: "outside \<Rightarrow> task_request \<Rightarrow> channel_doc \<Rightarrow> selected_key \<Rightarrow> thrown + string \<times> request_init" where
  "submit_request y r ch key =
     (case provider_auth_headers (yo_env y) (ch_type ch) (sk_secret key) of
        Inl e \<Rightarrow> Inl e
      | Inr auth \<Rightarrow>
        (case build_upstream_headers (cfg_site_name (yo_env y)) (tq_headers r) auth (ch_headers ch) (Some (tq_content_type r)) None of
           Inl e \<Rightarrow> Inl e
         | Inr hs \<Rightarrow> Inr (join_url (ch_base_url ch) (to_path (tq_options r)),
             \<lparr>rq_method = Some ''POST'', rq_headers = hs, rq_body = TextBody (pb_text (tq_prepared r))\<rparr>)))"

definition job_refused :: "env \<Rightarrow> channel_doc \<Rightarrow> selected_key \<Rightarrow> upstream_response \<Rightarrow> thrown" where
  "job_refused env ch key r =
     (let detail = (case read_capped_text (cfg_max_upstream_response_bytes env) (ur_body r) of Inl _ \<Rightarrow> [] | Inr t \<Rightarrow> t)
      in Gateway (from_upstream (ur_status r) (sanitize_provider_error detail (sk_secret key)) (Some (ch_id ch))))"

text \<open>The channels in turn: what fails before the request is sent passes to the next, what fails after it ends
  the loop. The jobs sent are recorded.\<close>

fun submit_loop ::
    "outside \<Rightarrow> task_request \<Rightarrow> channel_doc list \<Rightarrow> thrown option \<Rightarrow> relay_state \<Rightarrow>
     (thrown option + accepted_job) \<times> sent_job list \<times> relay_state" where
  "submit_loop y r [] seen s = (Inl seen, [], s)"
| "submit_loop y r (c # cs) seen s =
     (case task_key y (yo_now y AtElection) c (pb_key (tq_prepared r)) s of
        (Inl e, s1) \<Rightarrow> submit_loop y r cs (Some e) s1
      | (Inr key, s1) \<Rightarrow>
        (case submit_request y r c key of
           Inl e \<Rightarrow> submit_loop y r cs (Some e) s1
         | Inr (url, init) \<Rightarrow>
             (let sent = [\<lparr>sj_channel = c, sj_url = url, sj_init = init\<rparr>] in
              case yo_call y url init (cfg_upstream_header_timeout_ms (yo_env y)) of
                Inl e \<Rightarrow> (Inl (Some e), sent, s1)
              | Inr a \<Rightarrow>
                  if response_ok a then (Inr \<lparr>aj_response = a, aj_channel = c, aj_key = key\<rparr>, sent, s1)
                  else (Inl (Some (job_refused (yo_env y) c key a)), sent, s1))))"

definition attempts_for :: "task_options \<Rightarrow> channel_doc list \<Rightarrow> nat" where
  "attempts_for q cs = nat (min (int (length cs)) (max 1 (case to_max_channels q of Some n \<Rightarrow> n | None \<Rightarrow> 3)))"

definition submit_call ::
    "outside \<Rightarrow> task_request \<Rightarrow> string \<Rightarrow> channel_doc list \<Rightarrow> relay_state \<Rightarrow>
     (thrown + accepted_job) \<times> sent_job list \<times> relay_state" where
  "submit_call y r grp cs s =
     (case submit_loop y r (take (attempts_for (tq_options r) cs) cs) None s of
        (Inr a, es, s1) \<Rightarrow> (Inr a, es, s1)
      | (Inl None, es, s1) \<Rightarrow> (Inl (Gateway (no_channel_available (task_model (tq_options r)) grp)), es, s1)
      | (Inl (Some e), es, s1) \<Rightarrow> (Inl (Gateway (error_from e)), es, s1))"

subsection \<open>The answer\<close>

text \<open>The fields a row of a job shares with those of the pipeline.\<close>

definition as_row_input :: "task_request \<Rightarrow> relay_input" where
  "as_row_input r =
     \<lparr>yi_headers = tq_headers r, yi_auth = tq_auth r,
      yi_endpoint = (case to_endpoint (tq_options r) of Some e \<Rightarrow> e | None \<Rightarrow> ImageGenerations), yi_dialect = DOpenai,
      yi_body = [], yi_model = task_model (tq_options r), yi_stream = False, yi_usage_injected = False, yi_affinity = None,
      yi_max_attempts = None, yi_budget_ms = None, yi_buffered = True\<rparr>"

text \<open>The size of the body in bytes of UTF-8.\<close>

definition body_bytes :: "task_request \<Rightarrow> nat" where
  "body_bytes r = utf8_len (pb_text (tq_prepared r))"

definition job_usage :: "task_request \<Rightarrow> normalized_usage" where
  "job_usage r = empty_usage\<lparr>nu_prompt := min (max 1 \<lceil>of_nat (body_bytes r) / (4 :: rat)\<rceil>) 8192\<rparr>"

definition job_quota :: "outside \<Rightarrow> task_request \<Rightarrow> resolved_pricing \<times> rat \<Rightarrow> jsnum" where
  "job_quota y r price = request_charge y price (billed_model_for (task_model (tq_options r)) (task_model (tq_options r))) (job_usage r)"

definition parse_json_object :: "env \<Rightarrow> string \<Rightarrow> thrown + members" where
  "parse_json_object env t =
     (case parse_body env (cfg_max_upstream_response_bytes env) t of
        Inr (JObj ms) \<Rightarrow> Inr ms
      | _ \<Rightarrow> Inl (Gateway (malformed_upstream_body ''upstream returned an unparseable body'')))"

definition job_payload :: "env \<Rightarrow> accepted_job \<Rightarrow> thrown + members" where
  "job_payload env a =
     (case read_capped_text (cfg_max_upstream_response_bytes env) (ur_body (aj_response a)) of
        Inl e \<Rightarrow> Inl e
      | Inr t \<Rightarrow>
        (case parse_json_object env t of
           Inl e \<Rightarrow> Inl e
         | Inr ms \<Rightarrow>
           (case redact_provider_value (cfg_max_json_depth env) (cfg_max_json_nodes env) (JObj ms) (sk_secret (aj_key a)) of
              Inl l \<Rightarrow> Inl (JsonLimitThrown l (limit_text env l))
            | Inr j \<Rightarrow> Inr (as_record (Some j)))))"

definition job_row :: "outside \<Rightarrow> task_request \<Rightarrow> string \<Rightarrow> jsnum \<Rightarrow> accepted_job \<Rightarrow> usage_record_input" where
  "job_row y r grp quota a =
     settled_row y (as_row_input r) grp quota
       \<lparr>sa_usage = job_usage r, sa_channel = ch_id (aj_channel a), sa_mapped = task_model (tq_options r), sa_attempts = 1,
        sa_status = UsageSuccess, sa_error_code = None, sa_first_byte = None\<rparr>"

definition task_input_of :: "task_request \<Rightarrow> jsnum \<Rightarrow> accepted_job \<Rightarrow> task_input" where
  "task_input_of r quota a =
     (let idn = ac_identity (tq_auth r) in
      \<lparr>ti_platform = to_platform (tq_options r), ti_action = to_action (tq_options r), ti_user_id = idn_user_id idn,
       ti_token_id = idn_token_id idn, ti_channel_id = ch_id (aj_channel a), ti_channel_key_id = Some (sk_key_id (aj_key a)),
       ti_model = task_model (tq_options r), ti_quota = js_to_int quota,
       ti_properties = [(''bytes'', JNum (js_int (int (body_bytes r)))), (''contentType'', JStr (tq_content_type r))]\<rparr>)"

text \<open>The row of the job: created, then marked as submitted, or finished at once when there is nothing to poll.\<close>

definition store_job ::
    "task_outside \<Rightarrow> task_request \<Rightarrow> jsnum \<Rightarrow> accepted_job \<Rightarrow> members \<Rightarrow> task_store \<Rightarrow> (thrown + task_doc) \<times> task_store" where
  "store_job h r quota a payload st =
     (let upstream = extract_upstream_task_id (JObj payload) in
      case create_task (th_created h) (th_row_id h) (th_task_id h) (task_input_of r quota a) st of
        (Inl e, st1) \<Rightarrow> (Inl e, st1)
      | (Inr t, st1) \<Rightarrow>
          (case (if upstream \<noteq> [] then mark_submitted (th_update_fails h) (th_submitted h) (tsk_task_id t) upstream st1
                 else update_task (th_update_fails h) (tsk_task_id t) (\<lambda>d. d\<lparr>tsk_status := TSuccess, tsk_progress := ''100%'',
                   tsk_finish_time := Some (th_submitted h), tsk_result := Some (JObj payload)\<rparr>) st1) of
             (Inl e, st2) \<Rightarrow> (Inl e, st2)
           | (Inr _, st2) \<Rightarrow> (Inr t, st2)))"

text \<open>The payload under the gateway's identifier.\<close>

definition job_body :: "env \<Rightarrow> string \<Rightarrow> members \<Rightarrow> thrown + members" where
  "job_body env task_id payload =
     (let upstream = extract_upstream_task_id (JObj payload) in
      case (if upstream \<noteq> [] then rewrite_task_id env (JObj payload) upstream task_id else Inr (JObj payload)) of
        Inl e \<Rightarrow> Inl e
      | Inr j \<Rightarrow> Inr (put_field ''task_id'' (JStr task_id) (as_record (Some j))))"

definition job_headers :: "task_request \<Rightarrow> accepted_job \<Rightarrow> thrown + headers" where
  "job_headers r a =
     (case filter_downstream_headers (ur_headers (aj_response a)) of
        Inl e \<Rightarrow> Inl e
      | Inr hs \<Rightarrow> (case header_set ''content-type'' ''application/json'' hs of
          Inl e \<Rightarrow> Inl e
        | Inr hs1 \<Rightarrow> header_set ''x-request-id'' (ac_request_id (tq_auth r)) hs1))"

definition submit_answer ::
    "outside \<Rightarrow> task_outside \<Rightarrow> task_request \<Rightarrow> string \<Rightarrow> jsnum \<Rightarrow> accepted_job \<Rightarrow> task_store \<Rightarrow> relay_state \<Rightarrow>
     (thrown + string response) \<times> task_store \<times> relay_state" where
  "submit_answer y h r grp quota a st s =
     (let env = yo_env y in
      case with_quota (finalize_quota (yo_db_fails y AtFinalize) (yo_push_fails y AtFinalize) (yo_now y AtFinalize)
             (ac_identity (tq_auth r)) (ac_request_id (tq_auth r)) quota) (s\<lparr>yl_reserved := False\<rparr>) of
        (Inl e, s1) \<Rightarrow> (Inl (Gateway e), st, s1)
      | (Inr _, s1) \<Rightarrow>
        (case job_payload env a of
           Inl e \<Rightarrow> (Inl e, st, s1)
         | Inr payload \<Rightarrow>
           (case store_job h r quota a payload st of
              (Inl e, st1) \<Rightarrow> (Inl e, st1, s1)
            | (Inr t, st1) \<Rightarrow>
              (let s2 = snd (with_usage_log (record_usage (yo_now y AtRecord) (job_row y r grp quota a) True) s1) in
               case job_body env (tsk_task_id t) payload of
                 Inl e \<Rightarrow> (Inl e, st1, s2)
               | Inr body \<Rightarrow>
                 (case job_headers r a of
                    Inl e \<Rightarrow> (Inl e, st1, s2)
                  | Inr hs \<Rightarrow> (Inr \<lparr>rs_status = 200, rs_headers = hs, rs_body = json_stringify (JObj body)\<rparr>, st1, s2))))))"

definition job_failed ::
    "outside \<Rightarrow> task_request \<Rightarrow> string \<Rightarrow> jsnum \<Rightarrow> thrown \<Rightarrow> relay_state \<Rightarrow> gateway_error \<times> relay_state" where
  "job_failed y r grp quota t s =
     (let held = yl_reserved s;
          s1 = (if held then give_back y AtFailureRelease (tq_auth r) s else s);
          e = error_from t;
          row = (failure_row y (as_row_input r) grp e)\<lparr>ui_status := UsageError, ui_quota := (if held then JFin 0 else quota)\<rparr>
      in (e, snd (with_usage_log (record_usage (yo_now y AtFailure) row True) s1)))"

subsection \<open>The handler\<close>

text \<open>From the price to the response.\<close>

definition submit_priced ::
    "outside \<Rightarrow> task_outside \<Rightarrow> task_request \<Rightarrow> string \<Rightarrow> channel_doc list \<Rightarrow> task_store \<Rightarrow> relay_state \<Rightarrow>
     (thrown + string response) \<times> sent_job list \<times> task_store \<times> relay_state" where
  "submit_priced y h r grp cs st s =
     (let model = task_model (tq_options r) in
      case with_pricing (resolve_pricing (yo_env y) (yo_now y AtPricing) (billed_model_for model model) grp) s of
        (price, s1) \<Rightarrow>
          (case reserve y (tq_auth r) (job_quota y r price) s1 of
             (Inl e, s2) \<Rightarrow> (Inl (Gateway e), [], st, s2)
           | (Inr _, s2) \<Rightarrow>
               (case (case submit_call y r grp cs s2 of
                   (Inl e, es, s3) \<Rightarrow> (Inl e, es, st, s3)
                 | (Inr a, es, s3) \<Rightarrow> (case submit_answer y h r grp (job_quota y r price) a st s3 of (x, st1, s4) \<Rightarrow> (x, es, st1, s4))) of
                  (Inr x, es, st1, s3) \<Rightarrow> (Inr x, es, st1, s3)
                | (Inl e, es, st1, s3) \<Rightarrow>
                    (case job_failed y r grp (job_quota y r price) e s3 of (g, s4) \<Rightarrow> (Inl (Gateway g), es, st1, s4)))))"

text \<open>Admission without a lease.\<close>

definition submit_limits :: "outside \<Rightarrow> auth_context \<Rightarrow> string \<Rightarrow> relay_state \<Rightarrow> (gateway_error + unit) \<times> relay_state" where
  "submit_limits y auth model s =
     (let env = yo_env y; idn = ac_identity auth in
      case assert_model_allowed idn model of
        Inl e \<Rightarrow> (Inl e, s)
      | Inr _ \<Rightarrow>
        (case with_co (enforce_request_limits env (yo_now y AtLimits) idn (ac_ip_hash auth)) s of
           (Inl e, s1) \<Rightarrow> (Inl e, s1)
         | (Inr _, s1) \<Rightarrow> with_co (enforce_success_window env (yo_now y AtWindow) idn (ac_request_id auth)) s1))"

text \<open>The body and the choice of channels.\<close>

definition submit_plan ::
    "env \<Rightarrow> task_options \<Rightarrow> request_in \<Rightarrow> auth_context \<Rightarrow> string \<Rightarrow> task_store \<Rightarrow> routing_world \<Rightarrow> thrown + task_request \<times> channel_doc list" where
  "submit_plan env q req auth grp st w =
     (case read_body (qi_body req) (cfg_max_request_body_bytes env) of
        Inl e \<Rightarrow> Inl e
      | Inr bytes \<Rightarrow>
        (let content_type = (case map_of (qi_headers req) ''content-type'' of Some c \<Rightarrow> c | None \<Rightarrow> ''application/json'') in
         case prepare_task_body env bytes content_type (actor_of (ac_identity auth)) (to_platform q) st of
           Inl e \<Rightarrow> Inl e
         | Inr pb \<Rightarrow>
           (case allowed_candidates q pb grp w of
              Inl e \<Rightarrow> Inl e
            | Inr cs \<Rightarrow> Inr (\<lparr>tq_options = q, tq_auth = auth, tq_headers = qi_headers req, tq_content_type = content_type,
                tq_prepared = pb\<rparr>, cs))))"

definition submit_admitted ::
    "outside \<Rightarrow> task_outside \<Rightarrow> task_options \<Rightarrow> request_in \<Rightarrow> auth_context \<Rightarrow> task_store \<Rightarrow> relay_state \<Rightarrow>
     (thrown + string response) \<times> sent_job list \<times> task_store \<times> relay_state" where
  "submit_admitted y h q req auth st s =
     (let grp = group_for (ac_identity auth) (effective_directives auth) in
      case submit_limits y auth (task_model q) s of
        (Inl e, s1) \<Rightarrow> (Inl (Gateway e), [], st, s1)
      | (Inr _, s1) \<Rightarrow>
        (case submit_plan (yo_env y) q req auth grp st (yw_routing s1) of
           Inl e \<Rightarrow> (Inl e, [], st, s1)
         | Inr (r, cs) \<Rightarrow> submit_priced y h r grp cs st s1))"

definition entered :: "env \<Rightarrow> task_outside \<Rightarrow> request_in \<Rightarrow> task_entry \<Rightarrow> (thrown + auth_context) \<times> task_entry" where
  "entered env h req w =
     (case authenticate_request env (th_arrival h) req \<lparr>ew_auth = te_auth w, ew_relay = te_relay w\<rparr> of
        (r, e) \<Rightarrow> (r, w\<lparr>te_auth := ew_auth e, te_relay := ew_relay e\<rparr>))"

definition handle_task_submit ::
    "outside \<Rightarrow> task_outside \<Rightarrow> task_options \<Rightarrow> request_in \<Rightarrow> task_entry \<Rightarrow> string response \<times> sent_job list \<times> task_entry" where
  "handle_task_submit y h q req w =
     (let failed = (\<lambda>t rid. error_response (Gateway (error_from t)) (submit_dialect (to_platform q)) (plain_init\<lparr>ri_request_id := rid\<rparr>)) in
      case entered (yo_env y) h req w of
        (Inl t, w1) \<Rightarrow> (failed t [], [], w1)
      | (Inr auth, w1) \<Rightarrow>
          (case submit_admitted y h q req auth (te_tasks w1) (te_relay w1) of
             (Inl t, es, st, s) \<Rightarrow> (failed t (ac_request_id auth), es, w1\<lparr>te_tasks := st, te_relay := s\<rparr>)
           | (Inr x, es, st, s) \<Rightarrow> (x, es, w1\<lparr>te_tasks := st, te_relay := s\<rparr>)))"

text \<open>Fetching and listing: the caller, the limits, the answer.\<close>

definition limited ::
    "outside \<Rightarrow> task_outside \<Rightarrow> response_dialect \<Rightarrow> request_in \<Rightarrow> (auth_context \<Rightarrow> task_store \<Rightarrow> thrown + json) \<Rightarrow> task_entry \<Rightarrow>
     string response \<times> task_entry" where
  "limited y h d req f w =
     (let failed = (\<lambda>t rid. error_response (Gateway (error_from t)) d (plain_init\<lparr>ri_request_id := rid\<rparr>)) in
      case entered (yo_env y) h req w of
        (Inl t, w1) \<Rightarrow> (failed t [], w1)
      | (Inr auth, w1) \<Rightarrow>
          (case with_co (enforce_request_limits (yo_env y) (yo_now y AtLimits) (ac_identity auth) (ac_ip_hash auth)) (te_relay w1) of
             (Inl e, s) \<Rightarrow> (failed (Gateway e) (ac_request_id auth), w1\<lparr>te_relay := s\<rparr>)
           | (Inr _, s) \<Rightarrow>
               (case f auth (te_tasks w1) of
                  Inl t \<Rightarrow> (failed t (ac_request_id auth), w1\<lparr>te_relay := s\<rparr>)
                | Inr j \<Rightarrow> (json_response j (plain_init\<lparr>ri_request_id := ac_request_id auth\<rparr>), w1\<lparr>te_relay := s\<rparr>))))"

definition fetched :: "env \<Rightarrow> string \<Rightarrow> bool \<Rightarrow> auth_context \<Rightarrow> task_store \<Rightarrow> thrown + json" where
  "fetched env task_id midjourney auth st =
     (case require_task task_id (actor_of (ac_identity auth)) st of
        Inl e \<Rightarrow> Inl e
      | Inr d \<Rightarrow> if midjourney then Inr (JObj (mj_task_view d))
                else (case public_task env d of Inl e \<Rightarrow> Inl e | Inr ms \<Rightarrow> Inr (JObj ms)))"

definition handle_task_fetch ::
    "outside \<Rightarrow> task_outside \<Rightarrow> request_in \<Rightarrow> string \<Rightarrow> bool \<Rightarrow> task_entry \<Rightarrow> string response \<times> task_entry" where
  "handle_task_fetch y h req task_id midjourney w =
     limited y h (if midjourney then RMidjourney else ROpenai) req (fetched (yo_env y) task_id midjourney) w"

fun public_tasks :: "env \<Rightarrow> task_doc list \<Rightarrow> thrown + json list" where
  "public_tasks env [] = Inr []"
| "public_tasks env (d # ds) =
     (case public_task env d of
        Inl e \<Rightarrow> Inl e
      | Inr ms \<Rightarrow> (case public_tasks env ds of Inl e \<Rightarrow> Inl e | Inr js \<Rightarrow> Inr (JObj ms # js)))"

text \<open>\<open>limit\<close> is the text of the query parameter.\<close>

definition handle_task_list :: "outside \<Rightarrow> task_outside \<Rightarrow> request_in \<Rightarrow> string option \<Rightarrow> task_entry \<Rightarrow> string response \<times> task_entry" where
  "handle_task_list y h req asked w =
     limited y h ROpenai req (\<lambda>auth st.
       case list_tasks (actor_of (ac_identity auth))
           (Some (case number_of_string (case asked of Some t \<Rightarrow> t | None \<Rightarrow> ''50'') of JFin x \<Rightarrow> x | _ \<Rightarrow> 50)) None st of
         Inl e \<Rightarrow> Inl e
       | Inr ds \<Rightarrow> (case public_tasks (yo_env y) ds of
           Inl e \<Rightarrow> Inl e
         | Inr js \<Rightarrow> Inr (JObj [(''object'', JStr ''list''), (''data'', JArr js)]))) w"

end
