(* ===== verification/TaskLaws.thy ===== *)
theory TaskLaws
  imports TaskSubmit EntryLaws
begin

text \<open>
  What the tracking of asynchronous jobs guarantees: a job is polled a bounded number of times and a
  finished one never changes, a caller sees the own jobs only and never the identifier a provider polls by,
  references stay with their owner and their account, and a submission sends at most one request and
  gives back what it takes.
\<close>

subsection \<open>Polling ends\<close>

lemma terminal_simps [simp]: "is_terminal TSuccess" "is_terminal TFailure" "is_terminal TExpired"
  "\<not> is_terminal TPending" "\<not> is_terminal TSubmitted" "\<not> is_terminal TInProgress"
  by (simp_all add: is_terminal_def terminal_statuses_def)

text \<open>An update is a decision: it ends the job or counts the poll, and never touches the identifiers.\<close>

definition decides :: "task_doc \<Rightarrow> (task_doc \<Rightarrow> task_doc) \<Rightarrow> bool" where
  "decides t f \<longleftrightarrow> (\<forall>d. tsk_task_id (f d) = tsk_task_id d \<and> tsk_user_id (f d) = tsk_user_id d \<and>
     tsk_upstream_id (f d) = tsk_upstream_id d \<and> tsk_submit_time (f d) = tsk_submit_time d \<and>
     (is_terminal (tsk_status (f d)) \<or> tsk_poll_count (f d) = tsk_poll_count t + 1))"

lemma interpret_status: "ir_status (interpret_poll_result j) \<in> {TSuccess, TFailure, TInProgress}"
  by (simp add: interpret_poll_result_def Let_def)

lemma decides_postponed: "decides t (postponed now (tsk_poll_count t + 1))"
  by (simp add: decides_def postponed_def)

lemma decides_verdict: "decides t (pa_patch (verdict_action now (tsk_poll_count t + 1) (interpret_poll_result j)))"
  using interpret_status [of j] by (auto simp: decides_def verdict_action_def Let_def)

lemma poll_attempt_decides: "poll_attempt y now t s = (Inr a, s') \<Longrightarrow> decides t (pa_patch a)"
  by (auto simp: poll_attempt_def Let_def decides_postponed decides_verdict
      split: if_splits option.splits sum.splits prod.splits)
    (simp_all add: decides_def)

text \<open>The collection after a visit.\<close>

lemma poll_task_updates:
  assumes "poll_task y m t rep w = (r, w')"
  obtains "tk_tasks w' = tk_tasks w"
  | f where "tk_tasks w' = (tk_tasks w)\<lparr>tt_docs := update_one (\<lambda>d. tsk_task_id d = tsk_task_id t) f (tt_docs (tk_tasks w))\<rparr>"
      "decides t f" "is_expired t (pm_now m) \<longrightarrow> (\<forall>d. is_terminal (tsk_status (f d)))"
proof -
  have e: "decides t (\<lambda>d. d\<lparr>tsk_status := TExpired, tsk_finish_time := x, tsk_fail_reason := y'\<rparr>)" for x y'
    by (simp add: decides_def)
  show thesis
    using assms that e decides_postponed [of t]
    by (auto simp: poll_task_def update_task_def Let_def dest: poll_attempt_decides
        split: if_splits sum.splits prod.splits)
qed

abbreviation row :: "string \<Rightarrow> task_world \<Rightarrow> task_doc option" where
  "row i w \<equiv> find_one (\<lambda>d. tsk_task_id d = i) (tt_docs (tk_tasks w))"

text \<open>How often a job can still be polled.\<close>

definition polls_left :: "string \<Rightarrow> task_world \<Rightarrow> nat" where
  "polls_left i w = (case row i w of
      Some d \<Rightarrow> if is_terminal (tsk_status d) then 0 else Suc (nat (max_poll_count - tsk_poll_count d))
    | None \<Rightarrow> 0)"

definition takes_updates :: "poll_moment \<Rightarrow> bool" where
  "takes_updates m \<longleftrightarrow> \<not> pm_update_fails m \<and> \<not> pm_retry_fails m"

lemma poll_task_row:
  assumes "poll_task y m t rep w = (r, w')" "row (tsk_task_id t) w = Some t"
  shows "(\<forall>j. j \<noteq> tsk_task_id t \<longrightarrow> row j w' = row j w) \<and> map tsk_task_id (tt_docs (tk_tasks w')) = map tsk_task_id (tt_docs (tk_tasks w)) \<and>
    tt_ok (tk_tasks w') = tt_ok (tk_tasks w)"
  using assms(1)
proof (rule poll_task_updates)
  fix f assume f: "tk_tasks w' = (tk_tasks w)\<lparr>tt_docs := update_one (\<lambda>d. tsk_task_id d = tsk_task_id t) f (tt_docs (tk_tasks w))\<rparr>" "decides t f"
  then show ?thesis
    by (auto simp: decides_def intro!: find_update_other update_one_keys)
qed simp

lemma poll_task_progress:
  assumes "poll_task y m t rep w = (r, w')" "row (tsk_task_id t) w = Some t" "tt_ok (tk_tasks w)" "takes_updates m"
    "\<not> is_terminal (tsk_status t)"
  shows "\<not> isl r \<and> polls_left (tsk_task_id t) w' < polls_left (tsk_task_id t) w"
proof -
  have d: "\<exists>f. tk_tasks w' = (tk_tasks w)\<lparr>tt_docs := update_one (\<lambda>d. tsk_task_id d = tsk_task_id t) f (tt_docs (tk_tasks w))\<rparr> \<and>
      decides t f \<and> (is_expired t (pm_now m) \<longrightarrow> is_terminal (tsk_status (f t)))" and r: "\<not> isl r"
    using assms(1,3,4) decides_postponed [of t]
    by (auto simp: poll_task_def update_task_def takes_updates_def Let_def decides_def [of t "\<lambda>d. d\<lparr>tsk_status := TExpired, tsk_finish_time := x, tsk_fail_reason := y'\<rparr>" for x y']
        dest: poll_attempt_decides split: if_splits sum.splits prod.splits)
  then obtain f where f: "tk_tasks w' = (tk_tasks w)\<lparr>tt_docs := update_one (\<lambda>d. tsk_task_id d = tsk_task_id t) f (tt_docs (tk_tasks w))\<rparr>"
    "decides t f" "is_expired t (pm_now m) \<longrightarrow> is_terminal (tsk_status (f t))" by blast
  have "row (tsk_task_id t) w' = Some (f t)"
    using f(1,2) assms(2) find_update_same [of "\<lambda>d. tsk_task_id d = tsk_task_id t" "tt_docs (tk_tasks w)" t f] by (simp add: decides_def)
  then show ?thesis
    using f(2,3) assms(2,5) r by (auto simp: polls_left_def decides_def is_expired_def)
qed

lemma later_rows:
  assumes "distinct (map tsk_task_id (t # ts))" "\<forall>u \<in> set (t # ts). row (tsk_task_id u) w = Some u"
    "\<forall>j. j \<noteq> tsk_task_id t \<longrightarrow> row j w1 = row j w"
  shows "\<forall>u \<in> set ts. row (tsk_task_id u) w1 = Some u"
proof
  fix u assume u: "u \<in> set ts"
  have "tsk_task_id t \<notin> tsk_task_id ` set ts" using assms(1) by simp
  with u have "tsk_task_id u \<noteq> tsk_task_id t" by (metis imageI)
  with assms(3) have "row (tsk_task_id u) w1 = row (tsk_task_id u) w" by blast
  also have "\<dots> = Some u" using assms(2) u by simp
  finally show "row (tsk_task_id u) w1 = Some u" .
qed

lemma poll_all_rows:
  assumes "poll_all y m n ts rep w = (r, w')" "distinct (map tsk_task_id ts)" "\<forall>t \<in> set ts. row (tsk_task_id t) w = Some t"
  shows "(\<forall>j. j \<notin> tsk_task_id ` set ts \<longrightarrow> row j w' = row j w) \<and> map tsk_task_id (tt_docs (tk_tasks w')) = map tsk_task_id (tt_docs (tk_tasks w)) \<and>
    tt_ok (tk_tasks w') = tt_ok (tk_tasks w)"
  using assms
proof (induction ts arbitrary: n rep w)
  case (Cons t ts)
  obtain r1 w1 where 1: "poll_task y (m n) t rep w = (r1, w1)" by fastforce
  have k: "(\<forall>j. j \<noteq> tsk_task_id t \<longrightarrow> row j w1 = row j w) \<and> map tsk_task_id (tt_docs (tk_tasks w1)) = map tsk_task_id (tt_docs (tk_tasks w)) \<and>
      tt_ok (tk_tasks w1) = tt_ok (tk_tasks w)"
    using poll_task_row [OF 1] Cons.prems(3) by simp
  show ?case
  proof (cases r1)
    case (Inl e)
    with 1 k Cons.prems(1) show ?thesis by auto
  next
    case (Inr rep1)
    with 1 Cons.prems(1) have 2: "poll_all y m (Suc n) ts rep1 w1 = (r, w')" by simp
    note rows = later_rows [OF Cons.prems(2,3) conjunct1 [OF k]]
    have d: "distinct (map tsk_task_id ts)" using Cons.prems(2) by simp
    from Cons.IH [OF 2 d rows] k show ?thesis by simp
  qed
qed simp

lemma poll_all_progress:
  assumes "poll_all y m n ts rep w = (r, w')" "distinct (map tsk_task_id ts)" "\<forall>t \<in> set ts. row (tsk_task_id t) w = Some t"
    "tt_ok (tk_tasks w)" "\<forall>k. takes_updates (m k)" "\<forall>t \<in> set ts. \<not> is_terminal (tsk_status t)"
  shows "polls_left i w' + (if i \<in> tsk_task_id ` set ts then 1 else 0) \<le> polls_left i w"
  using assms
proof (induction ts arbitrary: n rep w)
  case (Cons t ts)
  obtain r1 w1 where 1: "poll_task y (m n) t rep w = (r1, w1)" by fastforce
  have p: "\<not> isl r1" "polls_left (tsk_task_id t) w1 < polls_left (tsk_task_id t) w"
    using poll_task_progress [OF 1] Cons.prems by auto
  have k: "\<forall>j. j \<noteq> tsk_task_id t \<longrightarrow> row j w1 = row j w" "tt_ok (tk_tasks w1)"
    using poll_task_row [OF 1] Cons.prems(3,4) by auto
  then have q: "j \<noteq> tsk_task_id t \<Longrightarrow> polls_left j w1 = polls_left j w" for j by (simp add: polls_left_def)
  from p(1) obtain rep1 where "r1 = Inr rep1" by (cases r1) auto
  with 1 Cons.prems(1) have 2: "poll_all y m (Suc n) ts rep1 w1 = (r, w')" by simp
  note rows = later_rows [OF Cons.prems(2,3) k(1)]
  from Cons.IH [OF 2 _ rows k(2)] Cons.prems have ih: "polls_left i w' + (if i \<in> tsk_task_id ` set ts then 1 else 0) \<le> polls_left i w1"
    by auto
  show ?case
  proof (cases "i = tsk_task_id t")
    case True
    with Cons.prems(2) ih p(2) show ?thesis by (auto split: if_splits)
  next
    case False
    with ih q [OF False] show ?thesis by auto
  qed
qed simp

text \<open>The jobs a pass visits are rows of the collection, each once, none of them finished.\<close>

lemma due_rows:
  assumes "due_tasks now asked (tk_tasks w) = Inr due" "distinct (map tsk_task_id (tt_docs (tk_tasks w)))"
  shows "tt_ok (tk_tasks w) \<and> distinct (map tsk_task_id due) \<and> (\<forall>t \<in> set due. row (tsk_task_id t) w = Some t \<and> is_due now t)"
proof -
  let ?ds = "tt_docs (tk_tasks w)"
  let ?n = "nat (max 1 (min scan_limit asked))"
  have due: "tt_ok (tk_tasks w)" "due = take ?n (sort_key tsk_next_poll_at (sort_key tsk_submit_time (filter (is_due now) ?ds)))"
    using assms(1) by (auto simp: due_tasks_def split: if_splits)
  have sub: "set due \<subseteq> set (filter (is_due now) ?ds)" unfolding due(2) by (metis set_sort set_take_subset)
  have inj: "inj_on tsk_task_id (set ?ds)" using assms(2) by (simp add: distinct_map)
  have "distinct ?ds" using assms(2) by (simp add: distinct_map)
  then have "distinct due" unfolding due(2) by (intro distinct_take) simp
  with inj sub have "distinct (map tsk_task_id due)" by (auto simp: distinct_map intro: inj_on_subset)
  moreover have "row (tsk_task_id t) w = Some t" if "t \<in> set due" for t
    using sub that by (intro find_one_distinct [OF assms(2)]) auto
  ultimately show ?thesis using due(1) sub by auto
qed

text \<open>A run of passes, each with its clock, its moments and its limit, and how often it visits a job.\<close>

type_synonym poll_pass = "int \<times> (nat \<Rightarrow> poll_moment) \<times> int"

fun times_polled :: "outside \<Rightarrow> poll_pass list \<Rightarrow> string \<Rightarrow> task_world \<Rightarrow> nat" where
  "times_polled y [] i w = 0"
| "times_polled y ((now, m, asked) # ps) i w =
     (case due_tasks now asked (tk_tasks w) of
        Inl _ \<Rightarrow> 0
      | Inr due \<Rightarrow> if i \<in> tsk_task_id ` set due then 1 else 0) +
     times_polled y ps i (snd (poll_due_tasks y now m asked w))"

lemma pass_progress:
  assumes "distinct (map tsk_task_id (tt_docs (tk_tasks w)))" "\<forall>k. takes_updates (m k)"
  shows "polls_left i (snd (poll_due_tasks y now m asked w)) +
      (case due_tasks now asked (tk_tasks w) of Inl _ \<Rightarrow> 0 | Inr due \<Rightarrow> if i \<in> tsk_task_id ` set due then 1 else 0) \<le> polls_left i w \<and>
    map tsk_task_id (tt_docs (tk_tasks (snd (poll_due_tasks y now m asked w)))) = map tsk_task_id (tt_docs (tk_tasks w))"
proof (cases "due_tasks now asked (tk_tasks w)")
  case (Inl e)
  then show ?thesis by (simp add: poll_due_tasks_def)
next
  case (Inr due)
  note d = due_rows [OF Inr assms(1)]
  let ?rep = "\<lparr>pr_polled = 0, pr_finished = 0, pr_failed = 0, pr_expired = 0, pr_errors = 0\<rparr>"
  obtain r w' where p: "poll_all y m 0 due ?rep w = (r, w')" by fastforce
  have rows: "\<forall>t \<in> set due. row (tsk_task_id t) w = Some t" "\<forall>t \<in> set due. \<not> is_terminal (tsk_status t)"
    using d by (auto simp: is_due_def)
  show ?thesis
    using poll_all_progress [OF p _ rows(1) _ assms(2) rows(2), of i] poll_all_rows [OF p _ rows(1)] d Inr p
    by (simp add: poll_due_tasks_def)
qed

lemma times_polled_bound:
  assumes "distinct (map tsk_task_id (tt_docs (tk_tasks w)))" "\<forall>(now, m, asked) \<in> set ps. \<forall>k. takes_updates (m k)"
  shows "times_polled y ps i w \<le> polls_left i w"
  using assms
proof (induction ps arbitrary: w)
  case (Cons p ps)
  obtain now m asked where p: "p = (now, m, asked)" by (cases p) auto
  let ?w = "snd (poll_due_tasks y now m asked w)"
  have t: "\<forall>k. takes_updates (m k)" using Cons.prems(2) p by simp
  note pass = pass_progress [OF Cons.prems(1) t, of i y now asked]
  then have "times_polled y ps i ?w \<le> polls_left i ?w" using Cons by (intro Cons.IH) auto
  with pass p show ?case by simp
qed simp


text \<open>A pass touches only the jobs that are due: a finished job keeps its result whatever happens, and so does
  one whose time has not come.\<close>
theorem finished_jobs_stay:
  assumes "poll_due_tasks y now m asked w = (r, w')" "distinct (map tsk_task_id (tt_docs (tk_tasks w)))"
    "d \<in> set (tt_docs (tk_tasks w))" "\<not> is_due now d"
  shows "d \<in> set (tt_docs (tk_tasks w'))"
proof (cases "due_tasks now asked (tk_tasks w)")
  case (Inl e)
  with assms show ?thesis by (simp add: poll_due_tasks_def)
next
  case (Inr due)
  note dr = due_rows [OF Inr assms(2)]
  have row: "row (tsk_task_id d) w = Some d" by (intro find_one_distinct [OF assms(2,3)]) auto
  then have "tsk_task_id d \<notin> tsk_task_id ` set due" using dr assms(4) by force
  with poll_all_rows [of y m 0 due _ w r w'] dr Inr assms(1) have "row (tsk_task_id d) w' = row (tsk_task_id d) w"
    by (simp add: poll_due_tasks_def)
  with row show ?thesis by (auto dest: find_one_SomeD)
qed

subsection \<open>Whose jobs a caller sees\<close>

definition own :: "string \<Rightarrow> task_store \<Rightarrow> task_doc list" where
  "own uid st = filter (\<lambda>d. tsk_user_id d = uid) (tt_docs st)"

definition same_for :: "task_actor \<Rightarrow> task_store \<Rightarrow> task_store \<Rightarrow> bool" where
  "same_for a st st' \<longleftrightarrow> own (ta_user_id a) st' = own (ta_user_id a) st \<and> tt_ok st' = tt_ok st"

lemma find_one_filter: "find_one (\<lambda>d. P d \<and> Q d) ds = find_one P (filter Q ds)"
  by (induction ds) auto

lemma require_same:
  "\<not> elevated a \<Longrightarrow> same_for a st st' \<Longrightarrow> require_task i a st' = require_task i a st"
  by (simp add: require_task_def find_one_filter same_for_def own_def)

lemma resolve_same:
  "\<not> elevated a \<Longrightarrow> same_for a st st' \<Longrightarrow> resolve_references a p st' ids ch key = resolve_references a p st ids ch key"
  by (induction a p st ids ch key rule: resolve_references.induct) (simp_all add: require_same split: sum.splits)

lemma prepare_same:
  assumes "\<not> elevated a" "same_for a st st'"
  shows "prepare_task_body env body ct a p st' = prepare_task_body env body ct a p st"
  by (simp only: prepare_task_body_def resolve_same [OF assms])

lemma list_same: "\<not> elevated a \<Longrightarrow> same_for a st st' \<Longrightarrow> list_tasks a n k st' = list_tasks a n k st"
  by (simp add: list_tasks_def same_for_def own_def)

lemma submit_calls_same:
  "fst (snd (submit_priced y h r g cs st' s)) = fst (snd (submit_priced y h r g cs st s))"
proof -
  let ?m = "task_model (tq_options r)"
  obtain price s1 where 1: "with_pricing (resolve_pricing (yo_env y) (yo_now y AtPricing) (billed_model_for ?m ?m) g) s = (price, s1)" by fastforce
  obtain v s2 where 2: "reserve y (tq_auth r) (job_quota y r price) s1 = (v, s2)" by fastforce
  obtain c es s3 where 3: "submit_call y r g cs s2 = (c, es, s3)" by (rule prod_cases3)
  show ?thesis
    using 1 2 3 by (cases v; cases c) (simp_all add: submit_priced_def Let_def split: prod.splits sum.splits)
qed

lemma admitted_calls_same:
  assumes "\<not> elevated (actor_of (ac_identity auth))" "same_for (actor_of (ac_identity auth)) st st'"
  shows "fst (snd (submit_admitted y h q req auth st' s)) = fst (snd (submit_admitted y h q req auth st s))"
  unfolding submit_admitted_def submit_plan_def Let_def prepare_same [OF assms]
  by (simp split: sum.splits prod.splits add: submit_calls_same)

lemma entered_tasks: "entered env h req (w\<lparr>te_tasks := st\<rparr>) = (case entered env h req w of (r, w1) \<Rightarrow> (r, w1\<lparr>te_tasks := st\<rparr>))"
  by (simp add: entered_def split: prod.splits)

lemma entered_keeps: "entered env h req w = (r, w1) \<Longrightarrow> te_tasks w1 = te_tasks w"
  by (auto simp: entered_def split: prod.splits)

lemma limited_same:
  assumes "entered (yo_env y) h req w = (Inr auth, w1)" "f auth st' = f auth (te_tasks w)"
  shows "fst (limited y h d req f (w\<lparr>te_tasks := st'\<rparr>)) = fst (limited y h d req f w)"
  using assms entered_keeps [OF assms(1)]
  by (simp add: limited_def entered_tasks Let_def split: prod.splits sum.splits)

lemma submit_sends:
  assumes "entered (yo_env y) h req w = (Inr auth, w1)"
  shows "fst (snd (handle_task_submit y h q req w)) = fst (snd (submit_admitted y h q req auth (te_tasks w1) (te_relay w1)))"
proof -
  obtain x es st s where "submit_admitted y h q req auth (te_tasks w1) (te_relay w1) = (x, es, st, s)" by (rule prod_cases4)
  with assms show ?thesis by (cases x) (simp_all add: handle_task_submit_def Let_def)
qed

text \<open>C10: a caller without a staff role cannot tell one state of other accounts' jobs from another: fetching any
  identifier, listing, and the requests a submission sends to a provider depend on the caller's own rows
  only. A job of somebody else is as absent as one that never was.\<close>
theorem jobs_are_private:
  assumes "entered (yo_env y) h req w = (Inr auth, w1)" "idn_role (ac_identity auth) = RoleUser"
    "own (idn_user_id (ac_identity auth)) st' = own (idn_user_id (ac_identity auth)) (te_tasks w)" "tt_ok st' = tt_ok (te_tasks w)"
  shows "fst (handle_task_fetch y h req i mj (w\<lparr>te_tasks := st'\<rparr>)) = fst (handle_task_fetch y h req i mj w) \<and>
    fst (handle_task_list y h req n (w\<lparr>te_tasks := st'\<rparr>)) = fst (handle_task_list y h req n w) \<and>
    fst (snd (handle_task_submit y h q req (w\<lparr>te_tasks := st'\<rparr>))) = fst (snd (handle_task_submit y h q req w))"
proof -
  let ?a = "actor_of (ac_identity auth)"
  have a: "\<not> elevated ?a" "same_for ?a (te_tasks w) st'"
    using assms(2-4) by (simp_all add: elevated_def actor_of_def same_for_def)
  have "fst (handle_task_fetch y h req i mj (w\<lparr>te_tasks := st'\<rparr>)) = fst (handle_task_fetch y h req i mj w)"
    unfolding handle_task_fetch_def
    by (rule limited_same [OF assms(1)]) (simp add: fetched_def require_same [OF a])
  moreover have "fst (handle_task_list y h req n (w\<lparr>te_tasks := st'\<rparr>)) = fst (handle_task_list y h req n w)"
    unfolding handle_task_list_def
    by (rule limited_same [OF assms(1)]) (simp add: list_same [OF a])
  moreover have "entered (yo_env y) h req (w\<lparr>te_tasks := st'\<rparr>) = (Inr auth, w1\<lparr>te_tasks := st'\<rparr>)"
    using assms(1) by (simp add: entered_tasks)
  then have "fst (snd (handle_task_submit y h q req (w\<lparr>te_tasks := st'\<rparr>))) = fst (snd (handle_task_submit y h q req w))"
    using admitted_calls_same [OF a, of y h q req "te_relay w1"] entered_keeps [OF assms(1)]
    by (simp add: submit_sends [OF assms(1)] submit_sends)
  ultimately show ?thesis by blast
qed

subsection \<open>The provider's identifier\<close>

text \<open>Whether an identifier stands as a value, a text or a number, somewhere in a document.\<close>

fun shows_id :: "string \<Rightarrow> json \<Rightarrow> bool" where
  "shows_id u (JStr s) = (s = u)"
| "shows_id u (JNum n) = (number_text n = u)"
| "shows_id u (JArr xs) = list_ex (shows_id u) xs"
| "shows_id u (JObj ms) = list_ex (\<lambda>m. shows_id u (snd m)) ms"
| "shows_id u v = False"

lemma replaced_hides: "u \<noteq> new \<Longrightarrow> \<not> shows_id u (replace_id u new v)"
  by (induction v rule: replace_id.induct [where ?a0.0 = u and ?a1.0 = new]) (auto simp: list_ex_iff)

lemma shows_put: "\<not> shows_id u (JObj ms) \<Longrightarrow> \<not> shows_id u v \<Longrightarrow> \<not> shows_id u (JObj (put_field k v ms))"
  by (induction ms) (auto split: if_splits)

lemma rewritten_hides:
  assumes "rewrite_task_id env v u new = Inr j" "u \<noteq> []" "u \<noteq> new"
  shows "\<not> shows_id u j"
  using assms replaced_hides by (auto simp: rewrite_task_id_def split: sum.splits)


text \<open>The reason a provider gives is not rewritten, in neither view.\<close>
theorem failure_reasons_pass_unchanged:
  assumes "public_task env d = Inr ms" "tsk_fail_reason d = Some u" "tsk_upstream_id d = Some u"
  shows "get_field ''failReason'' ms = Some (JStr u) \<and> get_field ''description'' (mj_task_view d) = Some (JStr u)"
  using assms by (auto simp: public_task_def mj_task_view_def get_field_def text_json_def RedisStore.or_empty_def split: sum.splits)

subsection \<open>References to earlier jobs\<close>

lemma reference_ids_values:
  "reference_ids vs n = Inr ids \<Longrightarrow> vs = map JStr ids \<and> length ids + n \<le> max n 32"
  by (induction vs n arbitrary: ids rule: reference_ids.induct) (fastforce split: if_splits sum.splits)+

text \<open>What stored jobs look like: a channel, and a credential that is none or has a name.\<close>

definition sound_row :: "task_doc \<Rightarrow> bool" where
  "sound_row d \<longleftrightarrow> tsk_channel_id d \<noteq> [] \<and> tsk_channel_key_id d \<noteq> Some []"

definition refers_to :: "task_actor \<Rightarrow> task_platform \<Rightarrow> task_store \<Rightarrow> string option \<Rightarrow> string option \<Rightarrow> string \<Rightarrow> bool" where
  "refers_to a p st ch key u \<longleftrightarrow> (\<exists>t \<in> set (tt_docs st). tsk_upstream_id t = Some u \<and> u \<noteq> [] \<and> tsk_platform t = p \<and>
     (elevated a \<or> tsk_user_id t = ta_user_id a) \<and> ch = Some (tsk_channel_id t) \<and>
     (tsk_channel_key_id t = None \<or> tsk_channel_key_id t = key))"

lemma required: "require_task i a st = Inr t \<Longrightarrow>
    t \<in> set (tt_docs st) \<and> tsk_task_id t = i \<and> (elevated a \<or> tsk_user_id t = ta_user_id a)"
  by (auto simp: require_task_def split: if_splits option.splits dest!: find_one_SomeD)

lemma resolved_references:
  assumes "resolve_references a p st ids ch key = Inr (tbl, ch', key')" "\<forall>d \<in> set (tt_docs st). sound_row d"
    "ch \<noteq> Some []" "key \<noteq> Some []"
  shows "map fst tbl = ids \<and> (\<forall>e \<in> set tbl. refers_to a p st ch' key' (snd e)) \<and> (ch \<noteq> None \<longrightarrow> ch' = ch) \<and> (key \<noteq> None \<longrightarrow> key' = key)"
  using assms
proof (induction a p st ids ch key arbitrary: tbl rule: resolve_references.induct)
  case (2 a p st i ids channel key)
  obtain t where t: "require_task i a st = Inr t" using 2(2) by (auto split: sum.splits)
  note rt = required [OF t]
  with 2(3) have row: "sound_row t" by blast
  have d: "tsk_platform t = p" "or_empty (tsk_upstream_id t) \<noteq> []" "\<not> differs channel (Some (tsk_channel_id t))"
    "\<not> differs key (tsk_channel_key_id t)"
    using 2(2) t by (auto split: if_splits)
  obtain tbl1 where tbl: "resolve_references a p st ids (Some (tsk_channel_id t)) (tsk_channel_key_id t) = Inr (tbl1, ch', key')"
    "tbl = (i, or_empty (tsk_upstream_id t)) # tbl1"
    using 2(2) t d by (auto split: if_splits sum.splits)
  have ih: "map fst tbl1 = ids \<and> (\<forall>e \<in> set tbl1. refers_to a p st ch' key' (snd e)) \<and> ch' = Some (tsk_channel_id t) \<and>
      (tsk_channel_key_id t \<noteq> None \<longrightarrow> key' = tsk_channel_key_id t)"
    using 2(1) [OF t _ _ _ tbl(1) 2(3)] d row by (auto simp: sound_row_def)
  have "refers_to a p st ch' key' (or_empty (tsk_upstream_id t))"
    unfolding refers_to_def using rt d(1,2) ih by (intro bexI [of _ t]) (auto simp: RedisStore.or_empty_def split: option.splits)
  moreover have "channel \<noteq> None \<longrightarrow> channel = Some (tsk_channel_id t)" "key \<noteq> None \<longrightarrow> key = tsk_channel_key_id t"
    using d(3,4) 2(4,5) by (auto simp: differs_def RedisStore.or_empty_def split: option.splits)
  ultimately show ?case using ih tbl(2) by auto
qed simp

abbreviation renamed :: "(string \<Rightarrow> string) \<Rightarrow> json \<Rightarrow> json" where
  "renamed f v \<equiv> case v of JStr s \<Rightarrow> JStr (f s) | v \<Rightarrow> v"

definition member_values :: "string \<times> json \<Rightarrow> json list" where
  "member_values m = (if is_reference m then [snd m] else reference_values (snd m))"

definition filled_member :: "(string \<Rightarrow> string) \<Rightarrow> string \<times> json \<Rightarrow> string \<times> json" where
  "filled_member f m = (fst m, if is_reference m then renamed f (snd m) else fill_references f (snd m))"

lemma object_values: "reference_values (JObj ms) = concat (map member_values ms)"
  by (simp add: member_values_def comp_def cong: map_cong)

lemma object_filled: "fill_references f (JObj ms) = JObj (map (filled_member f) ms)"
  by (simp add: filled_member_def comp_def cong: map_cong)

lemma concat_map_map: "(\<And>x. x \<in> set xs \<Longrightarrow> p (q x) = map g (p x)) \<Longrightarrow> concat (map p (map q xs)) = map g (concat (map p xs))"
  by (induction xs) auto

lemma filled_member_values:
  assumes "is_reference m \<Longrightarrow> \<forall>s. snd m = JStr s \<longrightarrow> f s \<noteq> []"
    "\<not> is_reference m \<Longrightarrow> reference_values (fill_references f (snd m)) = map (renamed f) (reference_values (snd m))"
  shows "member_values (filled_member f m) = map (renamed f) (member_values m)"
proof (cases "is_reference m")
  case True
  with assms(1) have "is_reference (filled_member f m)"
    by (cases "snd m") (auto simp: filled_member_def is_reference_def)
  with True show ?thesis by (simp add: member_values_def filled_member_def)
next
  case False
  then have "\<not> is_reference (filled_member f m)"
    by (cases "snd m") (auto simp: filled_member_def is_reference_def)
  with False assms(2) show ?thesis by (simp add: member_values_def filled_member_def)
qed

lemma filled_references:
  assumes "\<forall>s. JStr s \<in> set (reference_values j) \<longrightarrow> f s \<noteq> []"
  shows "reference_values (fill_references f j) = map (renamed f) (reference_values j)"
  using assms
proof (induction j rule: reference_values.induct)
  case (1 xs)
  have "concat (map reference_values (map (fill_references f) xs)) = map (renamed f) (concat (map reference_values xs))"
    by (rule concat_map_map) (use 1 in auto)
  then show ?case by (simp only: reference_values.simps(1) fill_references.simps(1))
next
  case (2 ms)
  have "concat (map member_values (map (filled_member f) ms)) = map (renamed f) (concat (map member_values ms))"
  proof (rule concat_map_map, rule filled_member_values)
    fix m assume m: "m \<in> set ms"
    have v: "\<forall>s. JStr s \<in> set (member_values m) \<longrightarrow> f s \<noteq> []"
      using 2(2) m unfolding object_values by auto
    then show "is_reference m \<Longrightarrow> \<forall>s. snd m = JStr s \<longrightarrow> f s \<noteq> []"
      by (simp add: member_values_def)
    assume n: "\<not> is_reference m"
    with v 2(1) [OF m n] show "reference_values (fill_references f (snd m)) = map (renamed f) (reference_values (snd m))"
      by (simp add: member_values_def)
  qed
  then show ?case by (simp only: object_values object_filled)
qed simp_all


subsection \<open>What a submission sends\<close>

text \<open>A job is sent to a channel of the list, at its base and the path of the request, with the prepared body.\<close>

definition sent_from :: "task_request \<Rightarrow> channel_doc list \<Rightarrow> sent_job \<Rightarrow> bool" where
  "sent_from r cs e \<longleftrightarrow> sj_channel e \<in> set cs \<and> sj_url e = join_url (ch_base_url (sj_channel e)) (to_path (tq_options r)) \<and>
     rq_body (sj_init e) = TextBody (pb_text (tq_prepared r))"

lemma submit_request_fields:
  "submit_request y r c key = Inr (url, init) \<Longrightarrow> url = join_url (ch_base_url c) (to_path (tq_options r)) \<and> rq_body init = TextBody (pb_text (tq_prepared r))"
  by (auto simp: submit_request_def split: sum.splits)

lemma submit_loop_sends:
  "submit_loop y r cs e s = (x, es, s') \<Longrightarrow> length es \<le> 1 \<and> (\<forall>j \<in> set es. sent_from r cs j) \<and> (\<not> isl x \<longrightarrow> es \<noteq> [])"
proof (induction y r cs e s arbitrary: x es s' rule: submit_loop.induct)
  case (2 y r c cs seen s)
  obtain k s1 where k: "task_key y (yo_now y AtElection) c (pb_key (tq_prepared r)) s = (k, s1)" by fastforce
  have widen: "sent_from r cs j \<Longrightarrow> sent_from r (c # cs) j" for j by (simp add: sent_from_def)
  show ?case
  proof (cases k)
    case (Inl e)
    with 2(1) [OF k [symmetric]] 2(3) k widen show ?thesis by auto
  next
    case (Inr key)
    show ?thesis
    proof (cases "submit_request y r c key")
      case (Inl e)
      with 2(2) [OF k [symmetric] Inr] 2(3) k Inr widen show ?thesis by auto
    next
      case (Inr p)
      then obtain url init where p: "submit_request y r c key = Inr (url, init)" by (cases p) auto
      with submit_request_fields [OF p] 2(3) k \<open>k = Inr key\<close> show ?thesis
        by (auto simp: Let_def sent_from_def split: sum.splits if_splits)
    qed
  qed
qed simp

lemma submit_call_sends:
  assumes "submit_call y r g cs s = (x, es, s')"
  shows "length es \<le> 1 \<and> (\<forall>j \<in> set es. sent_from r cs j)"
proof -
  obtain z fs s1 where z: "submit_loop y r (take (attempts_for (tq_options r) cs) cs) None s = (z, fs, s1)" by (rule prod_cases3)
  then have "es = fs" using assms by (auto simp: submit_call_def split: sum.splits option.splits)
  with submit_loop_sends [OF z] show ?thesis by (auto simp: sent_from_def dest: in_set_takeD)
qed

lemma submit_priced_sends:
  assumes "submit_priced y h r g cs st s = (x, es, st', s')"
  shows "length es \<le> 1 \<and> (\<forall>j \<in> set es. sent_from r cs j) \<and>
    (es \<noteq> [] \<longrightarrow> (\<exists>v s1 s2. reserve y (tq_auth r) v s1 = (Inr (), s2) \<and> yw_quota s1 = yw_quota s))"
proof -
  let ?m = "task_model (tq_options r)" and ?f = "resolve_pricing (yo_env y) (yo_now y AtPricing)"
  obtain price s1 where 1: "with_pricing (?f (billed_model_for ?m ?m) g) s = (price, s1)" by fastforce
  have q: "yw_quota s1 = yw_quota s" using with_pricing_keeps(1) [of "?f (billed_model_for ?m ?m) g" s] 1 by simp
  obtain v s2 where 2: "reserve y (tq_auth r) (job_quota y r price) s1 = (v, s2)" by fastforce
  obtain c fs s3 where 3: "submit_call y r g cs s2 = (c, fs, s3)" by (rule prod_cases3)
  show ?thesis
  proof (cases v)
    case (Inl e)
    with 1 2 assms show ?thesis by (auto simp: submit_priced_def Let_def)
  next
    case (Inr u)
    with 1 2 3 assms have "es = fs" by (auto simp: submit_priced_def Let_def split: sum.splits prod.splits)
    with submit_call_sends [OF 3] 2 q Inr show ?thesis by auto
  qed
qed

text \<open>A channel the request may use.\<close>

definition may_serve :: "task_options \<Rightarrow> string \<Rightarrow> channel_doc \<Rightarrow> bool" where
  "may_serve q g c \<longleftrightarrow> channel_type_name (ch_type c) = platform_text (to_platform q) \<and> ch_status c = Enabled \<and> \<not> ch_auto_disabled c \<and>
     (ch_groups c = [] \<or> g \<in> set (ch_groups c)) \<and> is_task_submit_path_allowed c (to_platform q) (to_path q)"

lemma taken_sorted: "c \<in> set (take n (sort_key f xs)) \<Longrightarrow> c \<in> set xs"
  by (metis in_set_takeD set_sort)

lemma allowed_candidates_serve:
  assumes "allowed_candidates q pb g w = Inr cs" "c \<in> set cs"
  shows "c \<in> set (rw_channels w) \<and> may_serve q g c \<and> (or_empty (pb_channel pb) = [] \<or> Some (ch_id c) = pb_channel pb)"
proof -
  obtain av where av: "candidate_channels (to_platform q) g w = Inr av" "c \<in> set av"
    "is_task_submit_path_allowed c (to_platform q) (to_path q)" "or_empty (pb_channel pb) = [] \<or> Some (ch_id c) = pb_channel pb"
    using assms by (auto simp only: allowed_candidates_def Let_def sum.inject sum.simps(4) sum.distinct set_filter mem_Collect_eq split: sum.splits if_splits)
  let ?on = "\<lambda>c. channel_type_name (ch_type c) = platform_text (to_platform q) \<and> ch_status c = Enabled"
  have "c \<in> set (filter ?on (rw_channels w))" "\<not> ch_auto_disabled c" "ch_groups c = [] \<or> g \<in> set (ch_groups c)"
    using av(1,2) taken_sorted [of c 50 "\<lambda>c. - ch_priority c" "filter ?on (rw_channels w)"]
    by (auto simp: candidate_channels_def split: if_splits)
  with av show ?thesis by (simp add: may_serve_def)
qed

lemma with_co_world: "with_co f s = (r, s') \<Longrightarrow> yw_routing s' = yw_routing s \<and> yw_quota s' = yw_quota s \<and> yl_reserved s' = yl_reserved s"
  by (auto simp: with_co_def split: prod.splits)

lemma submit_limits_keep:
  assumes "submit_limits y auth m s = (r, s')"
  shows "yw_routing s' = yw_routing s \<and> yw_quota s' = yw_quota s \<and> yl_reserved s' = yl_reserved s \<and>
    (\<not> isl r \<longrightarrow> assert_model_allowed (ac_identity auth) m = Inr ())"
proof (cases "assert_model_allowed (ac_identity auth) m")
  case (Inl e)
  with assms have "r = Inl e" "s' = s" by (simp_all add: submit_limits_def Let_def)
  then show ?thesis by simp
next
  case (Inr u)
  with assms show ?thesis by (auto simp: submit_limits_def Let_def split: sum.splits prod.splits dest!: with_co_world)
qed

lemma submit_plan_fields:
  assumes "submit_plan env q req auth g st w = Inr (r, cs)"
  obtains bytes ct pb where "prepare_task_body env bytes ct (actor_of (ac_identity auth)) (to_platform q) st = Inr pb"
    "allowed_candidates q pb g w = Inr cs" "tq_options r = q" "tq_auth r = auth" "tq_prepared r = pb"
  using assms by (auto simp: submit_plan_def Let_def split: sum.splits)

lemma admitted_steps:
  assumes "submit_admitted y h q req auth st s = (x, es, st', s')" "es \<noteq> []"
  obtains r cs s1 where "submit_limits y auth (task_model q) s = (Inr (), s1)"
    "submit_plan (yo_env y) q req auth (group_for (ac_identity auth) (effective_directives auth)) st (yw_routing s1) = Inr (r, cs)"
    "submit_priced y h r (group_for (ac_identity auth) (effective_directives auth)) cs st s1 = (x, es, st', s')"
  using assms by (auto simp: submit_admitted_def Let_def split: sum.splits prod.splits)

text \<open>C9: a submission sends at most one request, so an ambiguous failure never submits a job twice. It goes to an
  enabled channel of the platform that the group may use and whose operator allows exactly this path, the
  one its references are bound to if it has any; the token's model list admits the platform; and the account
  held at least the minimum hold.\<close>
theorem one_job_per_submission:
  assumes "handle_task_submit y h q req w = (res, es, w')" "es \<noteq> []"
    "find_one (\<lambda>j. qj_id j = qi_request_id req) (l_journal (qw_ledger (yw_quota (te_relay w)))) = None"
  shows "\<exists>auth w1 pb bytes ct e. entered (yo_env y) h req w = (Inr auth, w1) \<and> es = [e] \<and>
    prepare_task_body (yo_env y) bytes ct (actor_of (ac_identity auth)) (to_platform q) (te_tasks w) = Inr pb \<and>
    rq_body (sj_init e) = TextBody (pb_text pb) \<and> sj_url e = join_url (ch_base_url (sj_channel e)) (to_path q) \<and>
    sj_channel e \<in> set (rw_channels (yw_routing (te_relay w1))) \<and>
    may_serve q (group_for (ac_identity auth) (effective_directives auth)) (sj_channel e) \<and>
    (or_empty (pb_channel pb) = [] \<or> Some (ch_id (sj_channel e)) = pb_channel pb) \<and>
    assert_model_allowed (ac_identity auth) (task_model q) = Inr () \<and>
    (\<exists>pre v. pre_consumed_quota (yo_env y) = Inr pre \<and> v \<in> set (l_users (qw_ledger (yw_quota (te_relay w)))) \<and>
      usr_id v = idn_user_id (ac_identity auth) \<and> usr_status v = Enabled \<and> pre \<le> usr_quota v)"
proof -
  obtain a w1 where en: "entered (yo_env y) h req w = (a, w1)" by fastforce
  with assms obtain auth where a: "a = Inr auth" by (cases a) (auto simp: handle_task_submit_def Let_def)
  obtain x fs st s where adm: "submit_admitted y h q req auth (te_tasks w1) (te_relay w1) = (x, fs, st, s)" by (rule prod_cases4)
  with submit_sends [OF en [unfolded a], of q] assms(1,2) have fs: "fs = es" "fs \<noteq> []" by auto
  obtain e1 where au: "authenticate_request (yo_env y) (th_arrival h) req \<lparr>ew_auth = te_auth w, ew_relay = te_relay w\<rparr> = (Inr auth, e1)"
    "te_relay w1 = ew_relay e1"
    using en a by (auto simp: entered_def split: prod.splits)
  obtain t aw where x: "authenticate (yo_env y) (ao_sha (th_arrival h)) (ao_hash_ip (th_arrival h)) (qi_request_id req) (ao_clock (th_arrival h)) (qi_headers req)
      (qi_query_key req) ((te_auth w)\<lparr>aw_co := yw_co (te_relay w)\<rparr>) = (Inr auth, t, aw)" and q: "yw_quota (te_relay w1) = yw_quota (te_relay w)"
    by (rule authenticate_request_step [OF au(1)]) (use au(2) in simp)
  obtain r cs s1 where st: "submit_limits y auth (task_model q) (te_relay w1) = (Inr (), s1)"
    "submit_plan (yo_env y) q req auth (group_for (ac_identity auth) (effective_directives auth)) (te_tasks w1) (yw_routing s1) = Inr (r, cs)"
    "submit_priced y h r (group_for (ac_identity auth) (effective_directives auth)) cs (te_tasks w1) s1 = (x, fs, st, s)"
    by (rule admitted_steps [OF adm fs(2)])
  note lim = submit_limits_keep [OF st(1)]
  obtain bytes ct pb where pb: "prepare_task_body (yo_env y) bytes ct (actor_of (ac_identity auth)) (to_platform q) (te_tasks w1) = Inr pb"
    "allowed_candidates q pb (group_for (ac_identity auth) (effective_directives auth)) (yw_routing s1) = Inr cs"
    "tq_options r = q" "tq_auth r = auth" "tq_prepared r = pb"
    by (rule submit_plan_fields [OF st(2)])
  note sends = submit_priced_sends [OF st(3)]
  with fs obtain e where e: "es = [e]" "sent_from r cs e" by (cases es) auto
  from sends fs pb obtain v s2 s3 where rv: "reserve y auth v s2 = (Inr (), s3)" "yw_quota s2 = yw_quota s1" by auto
  have "find_one (\<lambda>j. qj_id j = ac_request_id auth) (l_journal (qw_ledger (yw_quota s2))) = None"
    using assms(3) request_id_given [OF x] q lim rv(2) by simp
  from reserve_payer [OF rv(1) this] have payer: "\<exists>pre v. pre_consumed_quota (yo_env y) = Inr pre \<and> v \<in> set (l_users (qw_ledger (yw_quota (te_relay w)))) \<and>
    usr_id v = idn_user_id (ac_identity auth) \<and> usr_status v = Enabled \<and> pre \<le> usr_quota v" using q lim rv(2) by simp
  have c: "sj_channel e \<in> set cs" using e by (simp add: sent_from_def)
  show ?thesis
    using en a e pb lim payer allowed_candidates_serve [OF pb(2) c] entered_keeps [OF en]
    by (intro exI [of _ auth] exI [of _ w1] exI [of _ pb] exI [of _ bytes] exI [of _ ct] exI [of _ e]) (simp add: sent_from_def)
qed

subsection \<open>What a submission leaves behind\<close>

abbreviation job_handled :: "auth_context \<Rightarrow> relay_state \<Rightarrow> bool" where
  "job_handled auth s \<equiv> hold_handled (ac_identity auth) (ac_request_id auth) (yw_quota s)"

lemma submit_answer_result:
  assumes "submit_answer y h r g quota a st s = (x, st', s')" "pushes_work y" "wf_ledger (qw_ledger (yw_quota s))"
  shows "\<not> yl_reserved s' \<and> (job_handled (tq_auth r) s' \<or> x = Inl (Gateway charge_refused))"
proof -
  let ?idn = "ac_identity (tq_auth r)"
  obtain v qw where f: "finalize_quota (yo_db_fails y AtFinalize) None (yo_now y AtFinalize) ?idn (ac_request_id (tq_auth r)) quota (yw_quota s) = (v, qw)"
    by fastforce
  note fh = finalize_handles [OF f assms(3)]
  have step: "with_quota (finalize_quota (yo_db_fails y AtFinalize) (yo_push_fails y AtFinalize) (yo_now y AtFinalize) ?idn (ac_request_id (tq_auth r)) quota)
      (s\<lparr>yl_reserved := False\<rparr>) = (v, s\<lparr>yl_reserved := False, yw_quota := qw\<rparr>)"
    using f assms(2) by (simp add: with_quota_def pushes_work_def)
  show ?thesis
  proof (cases v)
    case (Inl e)
    with step fh assms(1) show ?thesis by (auto simp: submit_answer_def Let_def)
  next
    case (Inr u)
    with fh have h: "hold_handled ?idn (ac_request_id (tq_auth r)) qw" by simp
    let ?s1 = "s\<lparr>yl_reserved := False, yw_quota := qw\<rparr>"
    have "s' = ?s1 \<or> s' = snd (with_usage_log (record_usage (yo_now y AtRecord) (job_row y r g quota a) True) ?s1)"
      using assms(1) step Inr by (auto simp: submit_answer_def Let_def split: sum.splits prod.splits)
    with h show ?thesis by auto
  qed
qed

lemma task_key_keeps: "task_key y now ch k s = (r, s') \<Longrightarrow> yw_quota s' = yw_quota s \<and> yl_reserved s' = yl_reserved s"
  by (auto simp: task_key_def with_routing_def split: if_splits prod.splits)

lemma submit_loop_keeps: "submit_loop y r cs e s = (x, es, s') \<Longrightarrow> yw_quota s' = yw_quota s \<and> yl_reserved s' = yl_reserved s"
proof (induction y r cs e s arbitrary: x es s' rule: submit_loop.induct)
  case (2 y r c cs seen s)
  obtain k s1 where k: "task_key y (yo_now y AtElection) c (pb_key (tq_prepared r)) s = (k, s1)" by fastforce
  note keeps = task_key_keeps [OF k]
  show ?case
  proof (cases k)
    case (Inl e)
    with 2(1) [OF k [symmetric]] 2(3) k keeps show ?thesis by auto
  next
    case (Inr key)
    show ?thesis
    proof (cases "submit_request y r c key")
      case (Inl e)
      with 2(2) [OF k [symmetric] Inr] 2(3) k Inr keeps show ?thesis by auto
    next
      case (Inr p)
      with 2(3) k \<open>k = Inr key\<close> keeps show ?thesis
        by (cases p) (auto simp: Let_def split: sum.splits if_splits)
    qed
  qed
qed simp

lemma submit_call_keeps: "submit_call y r g cs s = (x, es, s') \<Longrightarrow> yw_quota s' = yw_quota s \<and> yl_reserved s' = yl_reserved s"
  by (auto simp: submit_call_def split: sum.splits option.splits prod.splits dest: submit_loop_keeps)

lemma job_failed_result:
  assumes "job_failed y r g quota t s = (e, s')" "pushes_work y" "accountable (as_row_input r) s"
  shows "e = error_from t \<and> job_handled (tq_auth r) s'"
  using assms give_back_accountable [OF assms(2), of s "as_row_input r" AtFailureRelease]
  by (auto simp: job_failed_def Let_def accountable_def as_row_input_def)

lemma job_failed_unheld:
  "job_failed y r g quota t s = (e, s') \<Longrightarrow> \<not> yl_reserved s \<Longrightarrow> e = error_from t \<and> yw_quota s' = yw_quota s"
  by (auto simp: job_failed_def Let_def)

lemma submit_priced_result:
  assumes "submit_priced y h r g cs st s = (x, es, st', s')" "pushes_work y" "wf_ledger (qw_ledger (yw_quota s))"
    "job_handled (tq_auth r) s" "\<not> yl_reserved s"
  shows "job_handled (tq_auth r) s' \<or> x = Inl (Gateway charge_refused)"
proof -
  let ?m = "task_model (tq_options r)" and ?f = "resolve_pricing (yo_env y) (yo_now y AtPricing)"
  obtain price s1 where 1: "with_pricing (?f (billed_model_for ?m ?m) g) s = (price, s1)" by fastforce
  have s1: "yw_quota s1 = yw_quota s" "\<not> yl_reserved s1"
    using with_pricing_keeps [of "?f (billed_model_for ?m ?m) g" s] 1 assms(5) by simp_all
  obtain v s2 where 2: "reserve y (tq_auth r) (job_quota y r price) s1 = (v, s2)" by fastforce
  note res = reserve_result [OF 2 s1(2)]
  show ?thesis
  proof (cases v)
    case (Inl e)
    with 1 2 res s1 assms(1,4) show ?thesis by (auto simp: submit_priced_def Let_def)
  next
    case (Inr u)
    obtain c fs s3 where 3: "submit_call y r g cs s2 = (c, fs, s3)" by (rule prod_cases3)
    have wf: "wf_ledger (qw_ledger (yw_quota s3))" and held: "yl_reserved s3"
      using submit_call_keeps [OF 3] res Inr s1(1) assms(3) by (auto intro: reaches_wf)
    then have acc: "accountable (as_row_input r) s3" by (simp add: accountable_def)
    show ?thesis
    proof (cases c)
      case (Inl e)
      obtain ge s4 where 4: "job_failed y r g (job_quota y r price) e s3 = (ge, s4)" by fastforce
      from job_failed_result [OF 4 assms(2) acc] 1 2 3 4 Inl \<open>v = Inr u\<close> assms(1) show ?thesis
        by (auto simp: submit_priced_def Let_def)
    next
      case (Inr a)
      obtain z st1 s4 where 4: "submit_answer y h r g (job_quota y r price) a st s3 = (z, st1, s4)" by (rule prod_cases3)
      note ans = submit_answer_result [OF 4 assms(2) wf]
      show ?thesis
      proof (cases z)
        case (Inl e)
        obtain ge s5 where 5: "job_failed y r g (job_quota y r price) e s4 = (ge, s5)" by fastforce
        from job_failed_unheld [OF 5] ans 1 2 3 4 5 Inl Inr \<open>v = Inr u\<close> assms(1) show ?thesis
          by (auto simp: submit_priced_def Let_def)
      next
        case (Inr b)
        with ans 1 2 3 4 \<open>c = Inr a\<close> \<open>v = Inr u\<close> assms(1) show ?thesis by (auto simp: submit_priced_def Let_def)
      qed
    qed
  qed
qed


lemma update_one_hit: "d \<in> set ds \<Longrightarrow> P d \<Longrightarrow> \<exists>e \<in> set (update_one P f ds). \<exists>d \<in> set ds. P d \<and> e = f d"
  by (induction ds) auto

lemma created:
  assumes "create_task now row_id task_id i st = (Inr t, st')"
  shows "t = new_task now row_id task_id i \<and> tt_docs st' = tt_docs st @ [t] \<and> task_id \<notin> set (map tsk_task_id (tt_docs st))"
  using assms by (auto simp: create_task_def insert_one_def Let_def split: if_splits option.splits)

lemma updated_row:
  assumes "update_task fails (tsk_task_id t) f st1 = (Inr v, st')" "tt_docs st1 = ds @ [t]" "tsk_task_id t \<notin> set (map tsk_task_id ds)"
  shows "f t \<in> set (tt_docs st')"
proof -
  have "update_one (\<lambda>d. tsk_task_id d = tsk_task_id t) f (ds @ [t]) = ds @ [f t]"
    using assms(3) by (induction ds) auto
  with assms(1,2) show ?thesis by (auto simp: update_task_def split: if_splits)
qed

lemma stored_job:
  assumes "store_job h r quota a payload st = (Inr t, st')"
  shows "tsk_task_id t = th_task_id h \<and> (\<exists>d \<in> set (tt_docs st'). tsk_task_id d = th_task_id h \<and>
    tsk_user_id d = idn_user_id (ac_identity (tq_auth r)) \<and> tsk_channel_id d = ch_id (aj_channel a) \<and>
    (let u = extract_upstream_task_id (JObj payload) in
     if u = [] then tsk_status d = TSuccess \<and> tsk_result d = Some (JObj payload)
     else tsk_status d = TSubmitted \<and> tsk_upstream_id d = Some u))"
proof -
  let ?u = "extract_upstream_task_id (JObj payload)"
  obtain st1 where c: "create_task (th_created h) (th_row_id h) (th_task_id h) (task_input_of r quota a) st = (Inr t, st1)"
    using assms by (auto simp: store_job_def Let_def split: sum.splits prod.splits)
  note cr = created [OF c]
  have t: "tsk_task_id t = th_task_id h" "tsk_user_id t = idn_user_id (ac_identity (tq_auth r))" "tsk_channel_id t = ch_id (aj_channel a)"
    using cr by (simp_all add: new_task_def task_input_of_def Let_def)
  show ?thesis
  proof (cases "?u = []")
    case True
    let ?f = "\<lambda>d. d\<lparr>tsk_status := TSuccess, tsk_progress := ''100%'', tsk_finish_time := Some (th_submitted h), tsk_result := Some (JObj payload)\<rparr>"
    obtain v where "update_task (th_update_fails h) (tsk_task_id t) ?f st1 = (Inr v, st')"
      using assms c True by (auto simp: store_job_def Let_def split: sum.splits prod.splits)
    from updated_row [OF this] cr t have "?f t \<in> set (tt_docs st')" by auto
    with t True show ?thesis by (auto intro!: bexI [of _ "?f t"])
  next
    case False
    let ?f = "\<lambda>d. d\<lparr>tsk_upstream_id := Some ?u, tsk_status := TSubmitted, tsk_start_time := Some (th_submitted h),
      tsk_next_poll_at := Some (th_submitted h + next_poll_delay_ms 0)\<rparr>"
    obtain v where "update_task (th_update_fails h) (tsk_task_id t) ?f st1 = (Inr v, st')"
      using assms c False by (auto simp: store_job_def mark_submitted_def Let_def split: sum.splits prod.splits)
    from updated_row [OF this] cr t have "?f t \<in> set (tt_docs st')" by auto
    with t False show ?thesis by (auto intro!: bexI [of _ "?f t"])
  qed
qed

text \<open>A job that was accepted is tracked: the answer carries the gateway's identifier and nowhere the provider's,
  and there is a row under it that belongs to the caller and knows the channel and the identifier to poll by,
  or holds the whole result when the provider gave none.\<close>
theorem accepted_job_is_tracked:
  assumes "submit_answer y h r g quota a st s = (Inr x, st', s')"
  shows "\<exists>payload ms d. job_payload (yo_env y) a = Inr payload \<and> rs_body x = json_stringify (JObj ms) \<and>
    get_field ''task_id'' ms = Some (JStr (th_task_id h)) \<and> d \<in> set (tt_docs st') \<and> tsk_task_id d = th_task_id h \<and>
    tsk_user_id d = idn_user_id (ac_identity (tq_auth r)) \<and> tsk_channel_id d = ch_id (aj_channel a) \<and>
    (let u = extract_upstream_task_id (JObj payload) in
     if u = [] then tsk_status d = TSuccess \<and> tsk_result d = Some (JObj payload)
     else tsk_status d = TSubmitted \<and> tsk_upstream_id d = Some u \<and> (u = th_task_id h \<or> \<not> shows_id u (JObj ms)))"
proof -
  obtain payload t body where p: "job_payload (yo_env y) a = Inr payload" "store_job h r quota a payload st = (Inr t, st')"
    "job_body (yo_env y) (tsk_task_id t) payload = Inr body" "rs_body x = json_stringify (JObj body)"
    using assms by (auto simp: submit_answer_def Let_def split: sum.splits prod.splits)
  note sj = stored_job [OF p(2)]
  let ?u = "extract_upstream_task_id (JObj payload)"
  have b: "get_field ''task_id'' body = Some (JStr (th_task_id h))"
    using p(3) sj by (auto simp: job_body_def Let_def split: sum.splits if_splits)
  have "?u = [] \<or> ?u = th_task_id h \<or> \<not> shows_id ?u (JObj body)"
  proof (cases "?u = [] \<or> ?u = th_task_id h")
    case False
    then obtain j where j: "rewrite_task_id (yo_env y) (JObj payload) ?u (th_task_id h) = Inr j"
      "body = put_field ''task_id'' (JStr (th_task_id h)) (as_record (Some j))"
      using p(3) sj by (auto simp: job_body_def Let_def split: sum.splits)
    have "\<not> shows_id ?u j" using rewritten_hides [OF j(1)] False by simp
    then have "\<not> shows_id ?u (JObj (as_record (Some j)))" by (cases j) auto
    moreover have "\<not> shows_id ?u (JStr (th_task_id h))" using False by auto
    ultimately show ?thesis unfolding j(2) using shows_put by blast
  qed auto
  with p b sj show ?thesis by (auto simp: Let_def split: if_splits)
qed

subsection \<open>A job at work\<close>

definition sample_job :: task_doc where
  "sample_job = (new_task 0 ''r0'' (''task-'' @ replicate 28 CHR ''A'')
     \<lparr>ti_platform = PMidjourney, ti_action = ''imagine'', ti_user_id = ''u1'', ti_token_id = ''t1'', ti_channel_id = ''c1'',
      ti_channel_key_id = None, ti_model = ''midjourney'', ti_quota = 7, ti_properties = []\<rparr>)
     \<lparr>tsk_upstream_id := Some ''77120'', tsk_status := TSubmitted, tsk_result := Some (JObj [(''id'', JNum (JFin 77120))])\<rparr>"

definition sample_jobs :: task_store where
  "sample_jobs = \<lparr>tt_docs = [sample_job], tt_ok = True\<rparr>"

definition sample_job_relay :: relay_state where
  "sample_job_relay = sample_relay_state\<lparr>yw_routing := (yw_routing sample_relay_state)\<lparr>rw_channels :=
     map (\<lambda>c. c\<lparr>ch_type := Midjourney\<rparr>) (rw_channels (yw_routing sample_relay_state))\<rparr>\<rparr>"

definition sample_job_outside :: outside where
  "sample_job_outside = sample_outside\<lparr>yo_call := (\<lambda>u i t. Inr \<lparr>ur_status = 200, ur_headers = [],
     ur_body = Some ([json_stringify (JObj [(''result'', JStr ''88991''), (''id'', JNum (JFin 88991))])], Complete)\<rparr>)\<rparr>"

definition sample_job_request :: request_in where
  "sample_job_request = sample_request_in\<lparr>qi_body := Some [Chunk (json_stringify (JObj [(''prompt'', JStr ''cat''),
     (''task_id'', JStr (tsk_task_id sample_job))])), StreamEnd]\<rparr>"

definition sample_job_options :: task_options where
  "sample_job_options = \<lparr>to_platform = PMidjourney, to_path = ''/mj/submit/imagine'', to_action = ''imagine'',
     to_endpoint = None, to_max_channels = None\<rparr>"

definition sample_job_arrival :: task_outside where
  "sample_job_arrival = \<lparr>th_arrival = sample_arrival, th_row_id = ''r1'', th_task_id = ''task-'' @ replicate 28 CHR ''B'',
     th_created = 5, th_submitted = 6, th_update_fails = False\<rparr>"

definition sample_job_entry :: task_entry where
  "sample_job_entry = \<lparr>te_auth = sample_auth, te_tasks = sample_jobs, te_relay = sample_job_relay\<rparr>"

lemma sample_job_sent:
  "fst (snd (handle_task_submit sample_job_outside sample_job_arrival sample_job_options sample_job_request sample_job_entry)) \<noteq> []"
  by code_simp

theorem one_job_per_submission_witness:
  "\<exists>e. fst (snd (handle_task_submit sample_job_outside sample_job_arrival sample_job_options sample_job_request sample_job_entry)) = [e] \<and>
    ch_type (sj_channel e) = Midjourney \<and> sj_url e = join_url (ch_base_url (sj_channel e)) ''/mj/submit/imagine''"
proof -
  obtain res es w' where h: "handle_task_submit sample_job_outside sample_job_arrival sample_job_options sample_job_request sample_job_entry = (res, es, w')"
    by (rule prod_cases3)
  with sample_job_sent have e: "es \<noteq> []" by simp
  have j: "find_one (\<lambda>j. qj_id j = qi_request_id sample_job_request) (l_journal (qw_ledger (yw_quota (te_relay sample_job_entry)))) = None"
    by (simp add: sample_job_entry_def sample_job_relay_def sample_relay_state_def)
  obtain e w1 where w: "es = [e]" "entered (yo_env sample_job_outside) sample_job_arrival sample_job_request sample_job_entry = w1"
    "sj_channel e \<in> set (rw_channels (yw_routing (te_relay (snd w1))))" "sj_url e = join_url (ch_base_url (sj_channel e)) (to_path sample_job_options)"
    using one_job_per_submission [OF h e j] by auto
  have "rw_channels (yw_routing (te_relay (snd w1))) = rw_channels (yw_routing sample_job_relay)"
    using w(2) by (auto simp: entered_def authenticate_request_def sample_job_entry_def split: prod.splits)
  with w have "ch_type (sj_channel e) = Midjourney" by (auto simp: sample_job_relay_def)
  with w h show ?thesis by (simp add: sample_job_options_def)
qed


lemma sample_caller_enters:
  "case entered no_env sample_job_arrival sample_job_request sample_job_entry of
     (Inr a, w) \<Rightarrow> idn_role (ac_identity a) = RoleUser \<and> idn_user_id (ac_identity a) = ''u1'' | _ \<Rightarrow> False"
  by code_simp

text \<open>Somebody else's job next to the caller's own: nothing the caller gets changes.\<close>
theorem jobs_are_private_witness:
  "fst (handle_task_list sample_job_outside sample_job_arrival sample_job_request None
      (sample_job_entry\<lparr>te_tasks := sample_jobs\<lparr>tt_docs := [sample_job, sample_job\<lparr>tsk_user_id := ''u2'', tsk_task_id := ''x''\<rparr>]\<rparr>\<rparr>)) =
    fst (handle_task_list sample_job_outside sample_job_arrival sample_job_request None sample_job_entry)"
proof -
  let ?st = "sample_jobs\<lparr>tt_docs := [sample_job, sample_job\<lparr>tsk_user_id := ''u2'', tsk_task_id := ''x''\<rparr>]\<rparr>"
  obtain a w1 where e: "entered no_env sample_job_arrival sample_job_request sample_job_entry = (Inr a, w1)"
    and a: "idn_role (ac_identity a) = RoleUser" "idn_user_id (ac_identity a) = ''u1''"
    using sample_caller_enters by (auto split: prod.splits sum.splits)
  have env: "yo_env sample_job_outside = no_env" by (simp add: sample_job_outside_def sample_outside_def)
  have "own (idn_user_id (ac_identity a)) ?st = own (idn_user_id (ac_identity a)) (te_tasks sample_job_entry)" "tt_ok ?st = tt_ok (te_tasks sample_job_entry)"
    using a by (simp_all add: own_def sample_job_entry_def sample_jobs_def sample_job_def new_task_def)
  from jobs_are_private [OF e [folded env] a(1) this] show ?thesis by blast
qed


theorem failure_reasons_pass_unchanged_witness:
  "get_field ''description'' (mj_task_view (sample_job\<lparr>tsk_result := None, tsk_fail_reason := Some ''77120''\<rparr>)) = Some (JStr ''77120'')"
proof -
  let ?d = "sample_job\<lparr>tsk_result := None, tsk_fail_reason := Some ''77120''\<rparr>"
  have "case public_task no_env ?d of Inr ms \<Rightarrow> True | _ \<Rightarrow> False" by code_simp
  then obtain ms where ms: "public_task no_env ?d = Inr ms" by (auto split: sum.splits)
  show ?thesis by (rule conjunct2 [OF failure_reasons_pass_unchanged [OF ms]]) (simp_all add: sample_job_def)
qed


definition sample_accepted :: accepted_job where
  "sample_accepted = \<lparr>aj_response = \<lparr>ur_status = 200, ur_headers = [],
     ur_body = Some ([json_stringify (JObj [(''result'', JStr ''88991'')])], Complete)\<rparr>,
     aj_channel = (sample_channel ''c1'' 1 1)\<lparr>ch_type := Midjourney\<rparr>,
     aj_key = \<lparr>sk_key_id = ''k1'', sk_secret = ''s1'', sk_index = 0, sk_fingerprint = ''f1''\<rparr>\<rparr>"

definition sample_task_request :: task_request where
  "sample_task_request = \<lparr>tq_options = sample_job_options, tq_auth = sample_caller, tq_headers = [], tq_content_type = ''application/json'',
     tq_prepared = \<lparr>pb_text = ''{}'', pb_channel = None, pb_key = None\<rparr>\<rparr>"

theorem accepted_job_is_tracked_witness:
  "\<exists>x st' s' d. submit_answer sample_job_outside sample_job_arrival sample_task_request ''default'' (JFin 7) sample_accepted sample_jobs sample_job_relay =
      (Inr x, st', s') \<and> d \<in> set (tt_docs st') \<and> tsk_task_id d = ''task-'' @ replicate 28 CHR ''B''"
proof -
  let ?a = "submit_answer sample_job_outside sample_job_arrival sample_task_request ''default'' (JFin 7) sample_accepted sample_jobs sample_job_relay"
  have "case ?a of (Inr x, _) \<Rightarrow> True | _ \<Rightarrow> False" by code_simp
  then obtain x st' s' where a: "?a = (Inr x, st', s')" by (auto split: prod.splits sum.splits)
  from accepted_job_is_tracked [OF a] a show ?thesis by (auto simp: sample_job_arrival_def Let_def)
qed

definition sample_task_world :: task_world where
  "sample_task_world = \<lparr>tk_tasks = sample_jobs, tk_relay = sample_job_relay\<rparr>"

definition sample_pass :: poll_pass where
  "sample_pass = (9000, \<lambda>_. \<lparr>pm_now = 9000, pm_update_fails = False, pm_retry_fails = False\<rparr>, 50)"


theorem finished_jobs_stay_witness:
  "\<exists>d \<in> set (tt_docs (tk_tasks (snd (poll_due_tasks sample_job_outside 9000 (\<lambda>_. \<lparr>pm_now = 9000, pm_update_fails = False, pm_retry_fails = False\<rparr>) 50
      (sample_task_world\<lparr>tk_tasks := sample_jobs\<lparr>tt_docs := [sample_job\<lparr>tsk_status := TSuccess\<rparr>]\<rparr>\<rparr>))))).
    tsk_status d = TSuccess"
proof -
  let ?d = "sample_job\<lparr>tsk_status := TSuccess\<rparr>"
  let ?w = "sample_task_world\<lparr>tk_tasks := sample_jobs\<lparr>tt_docs := [?d]\<rparr>\<rparr>"
  let ?m = "\<lambda>_. \<lparr>pm_now = 9000, pm_update_fails = False, pm_retry_fails = False\<rparr>"
  obtain r w' where p: "poll_due_tasks sample_job_outside 9000 ?m 50 ?w = (r, w')" by fastforce
  have "?d \<in> set (tt_docs (tk_tasks w'))"
    by (rule finished_jobs_stay [OF p]) (simp_all add: is_due_def)
  then show ?thesis using p by (intro bexI [of _ ?d]) simp_all
qed

end
