(* ===== verification/SignedTokens.thy ===== *)
theory SignedTokens
  imports RelayEntry JsonPrint
begin

text \<open>
  Signed tokens and their encodings, \<open>src/lib/util/crypto.ts\<close>: UTF-8 and Base64 as the platform has them,
  the URL-safe alphabet, a payload with its keyed hash, and its check. The keyed hash is an argument. Bytes
  are their values; a character outside the model of strings makes a decoding fail.
\<close>

subsection \<open>UTF-8\<close>

definition utf8_bytes :: "string \<Rightarrow> nat list" where
  "utf8_bytes s = concat (map (\<lambda>c. let n = of_char c in if n < 128 then [n] else [192 + n div 64, 128 + n mod 64]) s)"

fun utf8_text :: "nat list \<Rightarrow> string option" where
  "utf8_text [] = Some []"
| "utf8_text (b # bs) =
     (if b < 128 then map_option (Cons (char_of b)) (utf8_text bs)
      else (case bs of
          [] \<Rightarrow> None
        | c # cs \<Rightarrow>
            if (b = 194 \<or> b = 195) \<and> 128 \<le> c \<and> c < 192
            then map_option (Cons (char_of ((b - 192) * 64 + (c - 128)))) (utf8_text cs) else None))"

lemma digits_join: "r < k \<Longrightarrow> (q * k + r) div k = (q :: nat)" "r < k \<Longrightarrow> (q * k + r) mod k = (r :: nat)"
  by auto
lemma less_div: "y < a * k \<Longrightarrow> y div k < (a :: nat)"
  by (simp add: less_mult_imp_div_less)

lemma two_bytes: "n < 256 \<Longrightarrow> \<not> n < 128 \<Longrightarrow> (n :: nat) div 64 = 2 \<or> n div 64 = 3"
  using less_div [of n 4 64] div_le_mono [of 128 n 64] by auto

lemma utf8_text_append:
  assumes "n < 256"
  shows "utf8_text ((if n < 128 then [n] else [192 + n div 64, 128 + n mod 64]) @ bs) = map_option (Cons (char_of n)) (utf8_text bs)"
proof (cases "n < 128")
  case False
  then have d: "n div 64 = 2 \<or> n div 64 = 3" by (rule two_bytes [OF assms])
  have c: "char_of ((192 + n div 64 - 192) * 64 + (128 + n mod 64 - 128)) = (char_of n :: char)" by simp
  have "128 + n mod 64 < 192" by simp
  with d False c show ?thesis by (simp only: utf8_text.simps if_False list.case append_Cons append_Nil) auto
qed simp

lemma utf8_text_bytes [simp]: "utf8_text (utf8_bytes s) = Some s"
proof (induction s)
  case (Cons c s)
  have "utf8_bytes (c # s) = (if (of_char c :: nat) < 128 then [of_char c] else [192 + of_char c div 64, 128 + of_char c mod 64]) @ utf8_bytes s"
    by (simp only: utf8_bytes_def Let_def list.map concat.simps)
  then show ?case using Cons by (simp only: utf8_text_append [OF nat_of_char_less_256]) simp
qed (simp add: utf8_bytes_def)

subsection \<open>Base64\<close>

definition b64_alphabet :: string where
  "b64_alphabet = ''ABCDEFGHIJKLMNOPQRSTUVWXYZabcdefghijklmnopqrstuvwxyz0123456789+/''"

text \<open>Six bits at a time.\<close>

fun sextets :: "nat list \<Rightarrow> nat list" where
  "sextets (x # y # z # r) = [x div 4, x mod 4 * 16 + y div 16, y mod 16 * 4 + z div 64, z mod 64] @ sextets r"
| "sextets [x, y] = [x div 4, x mod 4 * 16 + y div 16, y mod 16 * 4]"
| "sextets [x] = [x div 4, x mod 4 * 16]"
| "sextets [] = []"

fun octets :: "nat list \<Rightarrow> nat list" where
  "octets (a # b # c # d # r) = [a * 4 + b div 16, b mod 16 * 16 + c div 4, c mod 4 * 64 + d] @ octets r"
| "octets [a, b, c] = [a * 4 + b div 16, b mod 16 * 16 + c div 4]"
| "octets [a, b] = [a * 4 + b div 16]"
| "octets _ = []"

definition b64_pad :: "nat \<Rightarrow> string" where
  "b64_pad n = replicate ((4 - n mod 4) mod 4) (CHR ''='')"

definition btoa :: "nat list \<Rightarrow> string" where
  "btoa bs = (let s = map (\<lambda>i. b64_alphabet ! i) (sextets bs) in s @ b64_pad (length s))"

text \<open>White space is skipped, up to two signs of padding are dropped from a whole number of groups.\<close>

definition b64_unpad :: "string \<Rightarrow> string" where
  "b64_unpad s =
     (if length s mod 4 \<noteq> 0 then s
      else if ends_with ''=='' s then take (length s - 2) s
      else if ends_with ''='' s then take (length s - 1) s else s)"

definition b64_value :: "char \<Rightarrow> nat option" where
  "b64_value c = index_of c b64_alphabet"

definition b64_space :: "char \<Rightarrow> bool" where
  "b64_space c \<longleftrightarrow> (of_char c :: nat) \<in> {9, 10, 12, 13, 32}"

definition atob :: "string \<Rightarrow> nat list option" where
  "atob s =
     (let t = b64_unpad (filter (\<lambda>c. \<not> b64_space c) s) in
      if length t mod 4 = 1 then None else map_option octets (those (map b64_value t)))"

definition strip_pad :: "string \<Rightarrow> string" where
  "strip_pad s = rev (dropWhile (\<lambda>c. c = CHR ''='') (rev s))"

definition base64_url_encode :: "nat list \<Rightarrow> string" where
  "base64_url_encode bs =
     strip_pad (map (\<lambda>c. if c = CHR ''+'' then CHR ''-'' else if c = CHR ''/'' then CHR ''_'' else c) (btoa bs))"

definition base64_url_decode :: "string \<Rightarrow> nat list option" where
  "base64_url_decode v =
     (let t = map (\<lambda>c. if c = CHR ''-'' then CHR ''+'' else if c = CHR ''_'' then CHR ''/'' else c) v
      in atob (t @ b64_pad (length t)))"

subsection \<open>Tokens\<close>

definition sign_token :: "(string \<Rightarrow> string \<Rightarrow> string) \<Rightarrow> members \<Rightarrow> string \<Rightarrow> string" where
  "sign_token hmac payload secret =
     (let body = base64_url_encode (utf8_bytes (json_stringify (JObj payload))) in body @ CHR ''.'' # hmac secret body)"

text \<open>The payload of a body; its expiry must be a number that has not passed.\<close>

definition token_payload :: "int \<Rightarrow> string \<Rightarrow> members option" where
  "token_payload now body =
     (case Option.bind (Option.bind (base64_url_decode body) utf8_text) json_parse of
        Some (JObj ms) \<Rightarrow>
          (case get_field ''exp'' ms of
             Some (JNum n) \<Rightarrow> if js_lt (js_mul n (JFin 1000)) (js_int now) then None else Some ms
           | _ \<Rightarrow> None)
      | _ \<Rightarrow> None)"

definition verify_token :: "(string \<Rightarrow> string \<Rightarrow> string) \<Rightarrow> int \<Rightarrow> string \<Rightarrow> string \<Rightarrow> members option" where
  "verify_token hmac now token secret =
     (case index_of (CHR ''.'') token of
        None \<Rightarrow> None
      | Some dot \<Rightarrow>
          if dot = 0 then None
          else
            let body = take dot token; sig = drop (Suc dot) token
            in if \<not> timing_safe_equal_hex sig (hmac secret body) then None else token_payload now body)"

subsection \<open>Round trips\<close>

lemma sextet_bits:
  fixes x y z :: nat
  assumes "x < 256" "y < 256" "z < 256"
  shows "x div 4 * 4 + (x mod 4 * 16 + y div 16) div 16 = x"
    "(x mod 4 * 16 + y div 16) mod 16 * 16 + (y mod 16 * 4 + z div 64) div 4 = y"
    "(y mod 16 * 4 + z div 64) mod 4 * 64 + z mod 64 = z"
proof -
  have "y div 16 < 16" "z div 64 < 4" using assms by (simp_all add: less_div)
  then show "x div 4 * 4 + (x mod 4 * 16 + y div 16) div 16 = x"
    "(x mod 4 * 16 + y div 16) mod 16 * 16 + (y mod 16 * 4 + z div 64) div 4 = y"
    "(y mod 16 * 4 + z div 64) mod 4 * 64 + z mod 64 = z"
    by (simp_all only: digits_join div_mult_mod_eq)
qed

lemma octets_sextets: "\<forall>b \<in> set bs. b < 256 \<Longrightarrow> octets (sextets bs) = bs"
  using sextet_bits [of _ 0 0] sextet_bits [of _ _ 0]
  by (induction bs rule: sextets.induct) (auto simp: sextet_bits)

lemma sextets_small: "\<forall>b \<in> set bs. b < 256 \<Longrightarrow> i \<in> set (sextets bs) \<Longrightarrow> i < 64"
  by (induction bs rule: sextets.induct) auto

lemma sextets_length: "length (sextets bs) mod 4 \<noteq> 1"
  by (induction bs rule: sextets.induct) auto

lemma index_of_nth: "distinct s \<Longrightarrow> i < length s \<Longrightarrow> index_of (s ! i) s = Some i"
proof (induction s arbitrary: i)
  case (Cons c s)
  then show ?case by (cases i) auto
qed simp

lemma b64_chars:
  assumes "i < 64"
  shows "b64_value (b64_alphabet ! i) = Some i" "\<not> b64_space (b64_alphabet ! i)" "b64_alphabet ! i \<notin> set ''=-_.''"
proof -
  have l: "length b64_alphabet = 64" "distinct b64_alphabet" by (simp_all add: b64_alphabet_def)
  then show "b64_value (b64_alphabet ! i) = Some i" using assms by (simp add: b64_value_def index_of_nth)
  have "b64_alphabet ! i \<in> set b64_alphabet" using assms l by simp
  moreover have "\<forall>c \<in> set b64_alphabet. \<not> b64_space c \<and> c \<notin> set ''=-_.''" by (simp add: b64_alphabet_def b64_space_def)
  ultimately show "\<not> b64_space (b64_alphabet ! i)" "b64_alphabet ! i \<notin> set ''=-_.''" by blast+
qed

lemma those_map: "(\<And>x. x \<in> set xs \<Longrightarrow> f (g x) = Some x) \<Longrightarrow> those (map f (map g xs)) = Some xs"
  by (induction xs) auto

abbreviation url_char :: "char \<Rightarrow> char" where
  "url_char c \<equiv> if c = CHR ''+'' then CHR ''-'' else if c = CHR ''/'' then CHR ''_'' else c"

lemma strip_pad_append: "CHR ''='' \<notin> set s \<Longrightarrow> strip_pad (s @ replicate n (CHR ''='')) = s"
  by (cases s rule: rev_cases) (auto simp: strip_pad_def dropWhile_append3)

lemma base64_url_text:
  assumes "\<forall>b \<in> set bs. b < 256"
  shows "base64_url_encode bs = map (\<lambda>i. url_char (b64_alphabet ! i)) (sextets bs)"
proof -
  have "CHR ''='' \<notin> set (map (\<lambda>i. url_char (b64_alphabet ! i)) (sextets bs))"
    using b64_chars(3) [OF sextets_small [OF assms]] by (force split: if_splits)
  from strip_pad_append [OF this] show ?thesis
    by (simp add: base64_url_encode_def btoa_def Let_def b64_pad_def comp_def)
qed

lemma unpad_pad:
  assumes "CHR ''='' \<notin> set t" "length t mod 4 \<noteq> 1"
  shows "b64_unpad (t @ b64_pad (length t)) = t"
proof -
  have e: "\<not> ends_with ''=='' t" "\<not> ends_with ''='' t" using assms(1) by (auto simp: ends_with_iff)
  have "length t mod 4 < 4" by simp
  with assms(2) consider "length t mod 4 = 0" | "length t mod 4 = 2" | "length t mod 4 = 3" by linarith
  then show ?thesis
  proof cases
    case 1
    with e show ?thesis by (simp add: b64_unpad_def b64_pad_def)
  next
    case 2
    have "ends_with ''=='' (t @ ''=='')" by (auto simp: ends_with_iff)
    moreover from 2 have "Suc (Suc (length t)) mod 4 = 0" by presburger
    ultimately show ?thesis using 2 by (simp add: b64_unpad_def b64_pad_def numeral_2_eq_2)
  next
    case 3
    have "ends_with ''='' (t @ ''='')" by (auto simp: ends_with_iff)
    moreover have "\<not> ends_with ''=='' (t @ ''='')" using assms(1) by (auto simp: ends_with_def starts_with_iff rev_eq_Cons_iff)
    moreover from 3 have "Suc (length t) mod 4 = 0" by presburger
    ultimately show ?thesis using 3 by (simp add: b64_unpad_def b64_pad_def)
  qed
qed

lemma atob_btoa:
  assumes "\<forall>b \<in> set bs. b < 256"
  shows "atob (btoa bs) = Some bs"
proof -
  let ?t = "map (\<lambda>i. b64_alphabet ! i) (sextets bs)"
  note c = b64_chars [OF sextets_small [OF assms]]
  have p: "CHR ''='' \<notin> set ?t" using c(3) by force
  have "filter (\<lambda>c. \<not> b64_space c) (?t @ b64_pad (length ?t)) = ?t @ b64_pad (length ?t)"
    using c(2) by (auto simp: filter_id_conv b64_pad_def b64_space_def)
  moreover have "those (map b64_value ?t) = Some (sextets bs)" by (rule those_map) (rule c(1))
  ultimately show ?thesis
    using unpad_pad [OF p] sextets_length [of bs] by (simp add: atob_def btoa_def Let_def octets_sextets [OF assms])
qed

lemma base64_url_back:
  assumes "\<forall>b \<in> set bs. b < 256"
  shows "base64_url_decode (base64_url_encode bs) = Some bs"
proof -
  have "(\<lambda>c. if c = CHR ''-'' then CHR ''+'' else if c = CHR ''_'' then CHR ''/'' else c) (url_char (b64_alphabet ! i)) = b64_alphabet ! i"
    if "i \<in> set (sextets bs)" for i
    using b64_chars(3) [OF sextets_small [OF assms that]] by auto
  then have "map (\<lambda>c. if c = CHR ''-'' then CHR ''+'' else if c = CHR ''_'' then CHR ''/'' else c) (base64_url_encode bs) =
      map (\<lambda>i. b64_alphabet ! i) (sextets bs)"
    by (simp add: base64_url_text [OF assms])
  then show ?thesis
    using atob_btoa [OF assms] by (simp add: base64_url_decode_def btoa_def Let_def)
qed

lemma utf8_bytes_small: "b \<in> set (utf8_bytes s) \<Longrightarrow> b < 256"
proof -
  have d: "192 + n div 64 < 256" "128 + n mod 64 < 256" if "n < 256" for n :: nat
    using less_div [of n 4 64] mod_less_divisor [of 64 n] that by linarith+
  assume "b \<in> set (utf8_bytes s)"
  then obtain c where "b \<in> set (let n = of_char c in if n < 128 then [n] else [192 + n div 64, 128 + n mod 64])"
    by (auto simp: utf8_bytes_def)
  then show "b < 256" using d [OF nat_of_char_less_256, of c] by (auto simp: Let_def split: if_splits)
qed

lemma index_of_append: "c \<notin> set a \<Longrightarrow> index_of c (a @ c # b) = Some (length a)"
  by (induction a) auto

lemma index_of_Some: "index_of c s = Some i \<Longrightarrow> s = take i s @ c # drop (Suc i) s \<and> c \<notin> set (take i s)"
  by (induction s arbitrary: i) (auto split: if_splits)

lemma body_no_dot: "CHR ''.'' \<notin> set (base64_url_encode (utf8_bytes s))"
proof -
  have u: "\<forall>b \<in> set (utf8_bytes s). b < 256" by (simp add: utf8_bytes_small)
  show ?thesis using b64_chars(3) [OF sextets_small [OF u]] by (force simp: base64_url_text [OF u] split: if_splits)
qed

text \<open>What passes the check is a body with its keyed hash, and a body it passes has an expiry that is not over.\<close>

lemma verify_token_Some:
  assumes "verify_token hmac now token secret = Some ms"
  obtains body n where "token = body @ CHR ''.'' # hmac secret body" "token_payload now body = Some ms"
    "get_field ''exp'' ms = Some (JNum n)" "\<not> js_lt (js_mul n (JFin 1000)) (js_int now)"
proof -
  from assms obtain i where i: "index_of (CHR ''.'') token = Some i" "drop (Suc i) token = hmac secret (take i token)"
    "token_payload now (take i token) = Some ms"
    by (auto simp: verify_token_def Let_def timing_safe_equal_iff split: option.splits if_splits)
  then obtain n where "get_field ''exp'' ms = Some (JNum n)" "\<not> js_lt (js_mul n (JFin 1000)) (js_int now)"
    by (auto simp: token_payload_def split: option.splits json.splits if_splits)
  with i index_of_Some [OF i(1)] that [of "take i token" n] show thesis by simp
qed

lemma no_json: "json_parse [] = None"
  by (simp only: json_parse_def list.size mult_0_right add_0 numeral_2_eq_2 json_value.simps json_ws_def dropWhile.simps list.case option.case)

lemma decode_Nil: "base64_url_decode [] = Some []"
  using base64_url_back [of "[]"] base64_url_text [of "[]"] by simp

lemma no_payload: "token_payload now [] = None"
  unfolding token_payload_def decode_Nil by (simp add: no_json)

lemma sign_verify:
  assumes "printable (JObj ms)" "get_field ''exp'' ms = Some (JNum n)" "\<not> js_lt (js_mul n (JFin 1000)) (js_int now)"
  shows "verify_token hmac now (sign_token hmac ms secret) secret = Some ms"
proof -
  let ?b = "base64_url_encode (utf8_bytes (json_stringify (JObj ms)))"
  have u: "\<forall>b \<in> set (utf8_bytes (json_stringify (JObj ms))). b < 256" by (simp add: utf8_bytes_small)
  have p: "token_payload now ?b = Some ms"
    unfolding token_payload_def base64_url_back [OF u] using assms(2,3) parse_stringify [OF assms(1)] by simp
  have "?b \<noteq> []"
  proof
    assume "?b = []"
    with p have "token_payload now [] = Some ms" by (simp only:)
    then show False by (simp add: no_payload)
  qed
  then show ?thesis using p index_of_append [OF body_no_dot]
    unfolding sign_token_def verify_token_def Let_def by (simp add: timing_safe_equal_iff)
qed

end
