(* ===== verification/Console.thy ===== *)
theory Console
  imports SignedTokens Tasks
begin

text \<open>
  What every console route stands on: the trail of privileged changes (\<open>src/lib/admin/audit.ts\<close>), passwords
  (\<open>password.ts\<close>), sessions (\<open>session.ts\<close>) and the gate (\<open>guard.ts\<close>). The keyed hash, the derivation of
  passwords, the URL parser and the random texts are arguments; the derivation is counted in iterations.
  A request reads one clock. A session's payload is one the gateway wrote, its fields are texts.
\<close>

subsection \<open>The world of the console\<close>

record audit_row =
  au_id :: string
  au_actor_id :: string
  au_actor_role :: user_role
  au_action :: string
  au_target_type :: string
  au_target_id :: string
  au_meta :: json
  au_ip_hash :: string
  au_created_at :: int

record oauth_state =
  os_id :: string
  os_redirect :: string
  os_created_at :: int
  os_expires_at :: int
  os_consumed_at :: "int option"

datatype code_status = CodeUnused | CodeUsed | CodeDisabled

record redemption_code =
  rc_id :: string
  rc_digest :: string
  rc_prefix :: string
  rc_quota :: int
  rc_status :: code_status
  rc_batch_id :: string
  rc_created_by :: string
  rc_used_by :: "string option"
  rc_used_at :: "int option"
  rc_expires_at :: "int option"
  rc_created_at :: int

record console_world =
  nw_auth :: auth_world
  nw_routing :: routing_world
  nw_pricing :: pricing_world
  nw_usage :: usage_db
  nw_ratio_notes :: "(string \<times> int \<times> string option) list"
  nw_codes :: "redemption_code list"
  nw_settings :: "(string \<times> json) list"
  nw_states :: "oauth_state list"
  nw_revoked :: "(string \<times> jsnum) list"
  nw_audit :: "audit_row list"

text \<open>The random texts of a request, by what they are for.\<close>

datatype random_use = ForSession | ForSalt | ForRow | ForAudit nat | ForState | ForRequest | ForBatch | ForCode nat | ForCodeRow nat
  | ForName | ForSuffix | ForKeyRow nat

text \<open>What a probe of a channel reaches outside: the seal of a credential, the provider (its answer's status), random
  identifiers, and the message of an exception.\<close>

record probe_outside =
  pb_open :: "channel_key_doc \<Rightarrow> thrown + string"
  pb_send :: "string \<Rightarrow> request_init \<Rightarrow> thrown + int"
  pb_ids :: "nat \<Rightarrow> nat \<Rightarrow> string"
  pb_message :: "thrown \<Rightarrow> string"

record console_outside =
  nx_env :: env
  nx_now :: int
  nx_clock :: auth_clock
  nx_hmac :: "string \<Rightarrow> string \<Rightarrow> string"
  nx_sha :: "string \<Rightarrow> string"
  nx_derive :: "string \<Rightarrow> string \<Rightarrow> nat \<Rightarrow> string"
  nx_origin :: "string \<Rightarrow> string option"
  nx_date :: "string \<Rightarrow> int option"
  nx_random :: "random_use \<Rightarrow> string"
  nx_probe :: probe_outside
  nx_github_token :: "string \<Rightarrow> thrown + string"
  nx_github_user :: "string \<Rightarrow> thrown + bool \<times> string"
  nx_key_bytes :: "byte list \<times> byte list"
  nx_seal :: "string \<Rightarrow> string \<Rightarrow> int \<Rightarrow> string \<times> string \<times> string \<times> string"

record console_request =
  nq_method :: string
  nq_in :: request_in
  nq_query :: "(string \<times> string) list"

abbreviation db_up :: "console_world \<Rightarrow> bool" where
  "db_up w \<equiv> aw_db_ok (nw_auth w)"

abbreviation console_users :: "console_world \<Rightarrow> user_doc list" where
  "console_users w \<equiv> aw_users (nw_auth w)"

abbreviation console_tokens :: "console_world \<Rightarrow> token_doc list" where
  "console_tokens w \<equiv> aw_tokens (nw_auth w)"

definition put_users :: "user_doc list \<Rightarrow> console_world \<Rightarrow> console_world" where
  "put_users us w = w\<lparr>nw_auth := (nw_auth w)\<lparr>aw_users := us\<rparr>\<rparr>"

definition put_tokens :: "token_doc list \<Rightarrow> console_world \<Rightarrow> console_world" where
  "put_tokens ts w = w\<lparr>nw_auth := (nw_auth w)\<lparr>aw_tokens := ts\<rparr>\<rparr>"

text \<open>A step that may throw, and one after another.\<close>

type_synonym 'a console = "console_world \<Rightarrow> (thrown + 'a) \<times> console_world"

definition give :: "'a \<Rightarrow> 'a console" where
  "give a w = (Inr a, w)"

definition throw :: "thrown \<Rightarrow> 'a console" where
  "throw e w = (Inl e, w)"

definition seq :: "'a console \<Rightarrow> ('a \<Rightarrow> 'b console) \<Rightarrow> 'b console" where
  "seq m f w = (case m w of (Inl e, w1) \<Rightarrow> (Inl e, w1) | (Inr a, w1) \<Rightarrow> f a w1)"

definition from_result :: "thrown + 'a \<Rightarrow> 'a console" where
  "from_result r w = (r, w)"

text \<open>A call of the database.\<close>

definition db :: "(console_world \<Rightarrow> (thrown + 'a) \<times> console_world) \<Rightarrow> 'a console" where
  "db f w = (if db_up w then f w else (Inl OtherThrown, w))"

definition on_shared :: "(coord \<Rightarrow> (gateway_error + 'a) \<times> coord) \<Rightarrow> 'a console" where
  "on_shared f w = (case f (aw_co (nw_auth w)) of
      (Inl e, co) \<Rightarrow> (Inl (Gateway e), w\<lparr>nw_auth := (nw_auth w)\<lparr>aw_co := co\<rparr>\<rparr>)
    | (Inr a, co) \<Rightarrow> (Inr a, w\<lparr>nw_auth := (nw_auth w)\<lparr>aw_co := co\<rparr>\<rparr>))"

definition refuse :: "string \<Rightarrow> thrown" where
  "refuse msg = Gateway (forbidden msg InsufficientPermissions)"

definition bad_request :: "string \<Rightarrow> thrown" where
  "bad_request msg = Gateway (invalid_request msg None)"

definition bad_field :: "string \<Rightarrow> string \<Rightarrow> thrown" where
  "bad_field msg field = Gateway (invalid_request msg (Some field))"

definition hash_ip :: "env \<Rightarrow> (string \<Rightarrow> string \<Rightarrow> string) \<Rightarrow> string \<Rightarrow> string" where
  "hash_ip env hmac ip =
     (if ip = [] then []
      else
        let secret = (case env_str env ''IP_HASH_SECRET'' [] of [] \<Rightarrow> ''fbapi-dev-ip-salt'' | s \<Rightarrow> s)
        in take 32 (hmac secret (''ip:'' @ ip)))"

definition caller_ip_hash :: "console_outside \<Rightarrow> headers \<Rightarrow> string" where
  "caller_ip_hash x hs = hash_ip (nx_env x) (nx_hmac x) (get_client_ip hs (cfg_trusted_proxy_hops (nx_env x)))"

subsection \<open>The trail\<close>

definition sensitive_words :: "string list" where
  "sensitive_words = [''key'', ''secret'', ''token'', ''password'', ''passwd'', ''cipher'', ''credential'', ''authorization'', ''cookie'', ''digest'']"

definition sensitive_key :: "string \<Rightarrow> bool" where
  "sensitive_key k \<longleftrightarrow> list_ex (\<lambda>wd. contains_str wd (js_lower k)) sensitive_words"

text \<open>\<open>left\<close> levels may still be entered. A member \<open>__proto__\<close> counts, but assigning it stores no member.\<close>

fun scrub_levels :: "nat \<Rightarrow> json \<Rightarrow> json" where
  "scrub_levels left (JStr s) = JStr (if length s > 200 then take 200 s @ ''...'' else s)"
| "scrub_levels 0 (JArr xs) = JStr ''[truncated]''"
| "scrub_levels 0 (JObj ms) = JStr ''[truncated]''"
| "scrub_levels (Suc left) (JArr xs) = JArr (map (scrub_levels left) (take 40 xs))"
| "scrub_levels (Suc left) (JObj ms) =
     JObj (map (\<lambda>(k, v). (k, if sensitive_key k then (if v = JNull then JNull else JStr ''[redacted]'') else scrub_levels left v))
       (filter (\<lambda>m. fst m \<noteq> ''__proto__'') (take 40 ms)))"
| "scrub_levels left v = v"

definition scrub_meta :: "json \<Rightarrow> json" where
  "scrub_meta v = scrub_levels 4 v"

record audit_entry =
  ae_actor_id :: string
  ae_actor_role :: user_role
  ae_action :: string
  ae_target_type :: string
  ae_target_id :: string
  ae_meta :: "members option"
  ae_ip_hash :: string

text \<open>A failed write is swallowed.\<close>

definition record_audit :: "console_outside \<Rightarrow> nat \<Rightarrow> audit_entry \<Rightarrow> console_world \<Rightarrow> console_world" where
  "record_audit x i e w =
     (if \<not> db_up w then w
      else
        let row = \<lparr>au_id = nx_random x (ForAudit i), au_actor_id = ae_actor_id e, au_actor_role = ae_actor_role e,
              au_action = ae_action e, au_target_type = ae_target_type e, au_target_id = ae_target_id e,
              au_meta = scrub_meta (JObj (case ae_meta e of Some ms \<Rightarrow> ms | None \<Rightarrow> [])), au_ip_hash = ae_ip_hash e,
              au_created_at = nx_now x\<rparr>
        in (case insert_one au_id row (nw_audit w) of None \<Rightarrow> w | Some rows \<Rightarrow> w\<lparr>nw_audit := rows\<rparr>))"

definition audited :: "console_outside \<Rightarrow> nat \<Rightarrow> audit_entry \<Rightarrow> unit console" where
  "audited x i e w = (Inr (), record_audit x i e w)"

subsection \<open>Passwords\<close>

definition pbkdf2_iterations :: nat where "pbkdf2_iterations = 600000"
definition legacy_iterations :: nat where "legacy_iterations = 210000"
definition hash_prefix :: string where "hash_prefix = ''pbkdf2-sha256:600000:''"
definition min_password :: nat where "min_password = 10"
definition max_password :: nat where "max_password = 512"

record password_record =
  pw_hash :: "string option"
  pw_salt :: "string option"

definition assert_password_acceptable :: "json option \<Rightarrow> thrown + string" where
  "assert_password_acceptable v =
     (case v of
        Some (JStr p) \<Rightarrow>
          if length p < min_password then Inl (bad_field ''password must be at least 10 characters'' ''password'')
          else if length p > max_password then Inl (bad_field ''password is too long'' ''password'')
          else Inr p
      | _ \<Rightarrow> Inl (bad_field ''password is required'' ''password''))"

definition hash_password :: "(string \<Rightarrow> string \<Rightarrow> nat \<Rightarrow> string) \<Rightarrow> string \<Rightarrow> string \<Rightarrow> thrown + password_record" where
  "hash_password derive salt p =
     (case assert_password_acceptable (Some (JStr p)) of
        Inl e \<Rightarrow> Inl e
      | Inr _ \<Rightarrow> Inr \<lparr>pw_hash = Some (hash_prefix @ derive p salt pbkdf2_iterations), pw_salt = Some salt\<rparr>)"

definition hex_digest :: "string \<Rightarrow> bool" where
  "hex_digest s \<longleftrightarrow> length s = 64 \<and> list_all is_hex s"

definition needs_password_upgrade :: "password_record \<Rightarrow> bool" where
  "needs_password_upgrade r \<longleftrightarrow> hex_digest (or_empty (pw_hash r))"

definition stored_digest :: "password_record \<Rightarrow> string" where
  "stored_digest r =
     (let h = or_empty (pw_hash r) in
      if needs_password_upgrade r then h else if starts_with hash_prefix h then drop (length hash_prefix) h else [])"

text \<open>Whether the password matches, and how many iterations of the derivation were spent on it.\<close>

definition verify_password :: "(string \<Rightarrow> string \<Rightarrow> nat \<Rightarrow> string) \<Rightarrow> string \<Rightarrow> password_record \<Rightarrow> bool \<times> nat" where
  "verify_password derive p r =
     (if length p > max_password then (False, 0)
      else
        let legacy = needs_password_upgrade r; digest = stored_digest r; salt = or_empty (pw_salt r)
        in if \<not> hex_digest digest \<or> salt = [] \<or> length salt > 128 then (False, pbkdf2_iterations)
           else
             let n = (if legacy then legacy_iterations else pbkdf2_iterations)
             in (timing_safe_equal_hex (derive p salt n) digest,
                 n + (if legacy then pbkdf2_iterations - legacy_iterations else 0)))"

subsection \<open>Cookies\<close>

definition session_cookie :: string where "session_cookie = ''fb_session''"
definition csrf_cookie :: string where "csrf_cookie = ''fb_csrf''"
definition csrf_header :: string where "csrf_header = ''x-csrf-token''"
definition oauth_state_cookie_name :: string where "oauth_state_cookie_name = ''fb_oauth_state''"
definition session_ttl_sec :: int where "session_ttl_sec = 12 * 60 * 60"

definition cfg_public_base_url :: "env \<Rightarrow> string" where
  "cfg_public_base_url env =
     (let explicit = env_str env ''PUBLIC_BASE_URL'' []; vercel = env_str env ''VERCEL_URL'' [] in
      if explicit \<noteq> [] then trim_slash explicit
      else if vercel \<noteq> [] then ''https://'' @ vercel else ''http://localhost:3000'')"

text \<open>\<open>decodeURIComponent\<close>; \<^term>\<open>None\<close> where it throws, and for characters outside the model of strings.\<close>

fun percent_bytes :: "string \<Rightarrow> nat list option" where
  "percent_bytes (c # a # b # s) =
     (if c = CHR ''%'' then (if is_hex a \<and> is_hex b then map_option (Cons (hex_val a * 16 + hex_val b)) (percent_bytes s) else None)
      else map_option ((@) (utf8_bytes [c])) (percent_bytes (a # b # s)))"
| "percent_bytes s = (if CHR ''%'' \<in> set s then None else Some (utf8_bytes s))"

definition decode_uri_component :: "string \<Rightarrow> string option" where
  "decode_uri_component s = Option.bind (percent_bytes s) utf8_text"

fun first_cookie :: "string \<Rightarrow> string list \<Rightarrow> string" where
  "first_cookie name [] = []"
| "first_cookie name (part # parts) =
     (case index_of (CHR ''='') part of
        None \<Rightarrow> first_cookie name parts
      | Some eq \<Rightarrow>
          if eq = 0 \<or> js_trim (take eq part) \<noteq> name then first_cookie name parts
          else or_empty (decode_uri_component (js_trim (drop (Suc eq) part))))"

definition read_cookie :: "headers \<Rightarrow> string \<Rightarrow> string" where
  "read_cookie hs name =
     (case or_empty (map_of hs ''cookie'') of [] \<Rightarrow> [] | h \<Rightarrow> first_cookie name (split_on (CHR '';'') h))"

definition secure_cookies :: "env \<Rightarrow> bool" where
  "secure_cookies env \<longleftrightarrow> is_production env \<or> starts_with ''https://'' (cfg_public_base_url env)"

definition cookie :: "env \<Rightarrow> string \<Rightarrow> string \<Rightarrow> int \<Rightarrow> bool \<Rightarrow> string" where
  "cookie env name v max_age http_only =
     join_with ''; ''
       ([name @ ''='' @ encode_uri_component v, ''Path=/'', ''SameSite=Lax'', ''Max-Age='' @ show_int (max 0 max_age)] @
        (if http_only then [''HttpOnly''] else []) @ (if secure_cookies env then [''Secure''] else []))"

definition oauth_state_cookie :: "env \<Rightarrow> string \<Rightarrow> int \<Rightarrow> string" where
  "oauth_state_cookie env state ttl = cookie env oauth_state_cookie_name state ttl True"

definition session_cookies :: "env \<Rightarrow> string \<Rightarrow> string \<Rightarrow> string list" where
  "session_cookies env token csrf =
     [cookie env session_cookie token session_ttl_sec True, cookie env csrf_cookie csrf session_ttl_sec False]"

definition cleared_session_cookies :: "env \<Rightarrow> string list" where
  "cleared_session_cookies env = [cookie env session_cookie [] 0 True, cookie env csrf_cookie [] 0 False]"

definition with_cookies :: "string response \<Rightarrow> string list \<Rightarrow> string response" where
  "with_cookies r cs = r\<lparr>rs_headers := rs_headers r @ map (Pair ''set-cookie'') cs\<rparr>"

subsection \<open>Sessions\<close>

record session_payload =
  sp_sub :: string
  sp_username :: string
  sp_role :: user_role
  sp_sid :: string
  sp_exp :: jsnum

definition session_secret :: "env \<Rightarrow> thrown + string" where
  "session_secret env =
     (if \<not> production_ready env then Inl (ConfigThrown (production_issues env))
      else if env_str env ''SESSION_SECRET'' [] = []
      then Inl (Gateway (gateway_error (err_init ConfigurationErr 503 ''SESSION_SECRET is not configured'')))
      else Inr (env_str env ''SESSION_SECRET'' []))"

definition csrf_token_for :: "(string \<Rightarrow> string \<Rightarrow> string) \<Rightarrow> string \<Rightarrow> string \<Rightarrow> string" where
  "csrf_token_for hmac secret sid = hmac secret (''csrf:'' @ sid)"

definition payload_members :: "session_payload \<Rightarrow> members" where
  "payload_members p =
     [(''sub'', JStr (sp_sub p)), (''username'', JStr (sp_username p)), (''role'', JStr (role_text (sp_role p))),
      (''sid'', JStr (sp_sid p)), (''exp'', JNum (sp_exp p))]"

definition create_session :: "console_outside \<Rightarrow> user_doc \<Rightarrow> thrown + string \<times> string \<times> session_payload" where
  "create_session x u =
     (let sid = nx_random x ForSession;
          p = \<lparr>sp_sub = usr_id u, sp_username = usr_username u, sp_role = usr_role u, sp_sid = sid,
               sp_exp = js_int (now_sec (nx_now x) + session_ttl_sec)\<rparr>
      in case session_secret (nx_env x) of
           Inl e \<Rightarrow> Inl e
         | Inr secret \<Rightarrow> Inr (sign_token (nx_hmac x) (payload_members p) secret, csrf_token_for (nx_hmac x) secret sid, p))"

definition session_id_ok :: "string \<Rightarrow> bool" where
  "session_id_ok s \<longleftrightarrow> length s = 32 \<and> list_all (\<lambda>c. is_digit c \<or> c \<in> set ''abcdef'') s"

definition payload_of :: "members \<Rightarrow> session_payload option" where
  "payload_of ms =
     (case (get_field ''sub'' ms, get_field ''sid'' ms) of
        (Some (JStr sub), Some (JStr sid)) \<Rightarrow>
          if session_id_ok sid
          then Some \<lparr>sp_sub = sub, sp_username = as_string (get_field ''username'' ms) [],
                 sp_role = role_of_text (as_string (get_field ''role'' ms) []), sp_sid = sid,
                 sp_exp = (case get_field ''exp'' ms of Some (JNum n) \<Rightarrow> n | _ \<Rightarrow> JNaN)\<rparr>
          else None
      | _ \<Rightarrow> None)"

text \<open>A bad cookie is no session; revocations that cannot be read are an error.\<close>

definition read_session :: "console_outside \<Rightarrow> headers \<Rightarrow> console_world \<Rightarrow> thrown + session_payload option" where
  "read_session x hs w =
     (let raw = read_cookie hs session_cookie in
      if raw = [] \<or> length raw > 4096 then Inr None
      else (case session_secret (nx_env x) of
          Inl e \<Rightarrow> Inl e
        | Inr secret \<Rightarrow>
          (case Option.bind (verify_token (nx_hmac x) (nx_now x) raw secret) payload_of of
             None \<Rightarrow> Inr None
           | Some p \<Rightarrow>
               if \<not> db_up w
               then Inl (Gateway (gateway_error (err_init ServiceUnavailable 503 ''session verification is temporarily unavailable'')))
               else Inr (if map_of (nw_revoked w) (sp_sid p) = None then Some p else None))))"

definition revoke_session :: "session_payload \<Rightarrow> unit console" where
  "revoke_session p = db (\<lambda>w. (Inr (), w\<lparr>nw_revoked := put (sp_sid p) (js_mul (sp_exp p) (JFin 1000)) (nw_revoked w)\<rparr>))"

definition safe_methods :: "string list" where
  "safe_methods = [''GET'', ''HEAD'', ''OPTIONS'']"

definition same_origin :: "console_outside \<Rightarrow> headers \<Rightarrow> bool" where
  "same_origin x hs \<longleftrightarrow>
     (case or_empty (map_of hs ''origin'') of
        [] \<Rightarrow> True
      | origin \<Rightarrow>
          (case (nx_origin x origin, nx_origin x (cfg_public_base_url (nx_env x))) of
             (Some o1, Some o2) \<Rightarrow> o1 = origin \<and> o1 = o2
           | _ \<Rightarrow> False))"

definition assert_csrf :: "console_outside \<Rightarrow> console_request \<Rightarrow> session_payload \<Rightarrow> thrown + unit" where
  "assert_csrf x req p =
     (if js_upper (nq_method req) \<in> set safe_methods then Inr ()
      else if \<not> same_origin x (qi_headers (nq_in req)) then Inl (refuse ''request origin is not allowed'')
      else (case session_secret (nx_env x) of
          Inl e \<Rightarrow> Inl e
        | Inr secret \<Rightarrow>
            let presented = or_empty (map_of (qi_headers (nq_in req)) csrf_header)
            in if presented = [] \<or> \<not> timing_safe_equal_hex presented (csrf_token_for (nx_hmac x) secret (sp_sid p))
               then Inl (refuse ''missing or invalid CSRF token'') else Inr ()))"

subsection \<open>The gate\<close>

datatype via = ViaSession | ViaKey

record admin_context =
  an_user_id :: string
  an_username :: string
  an_role :: user_role
  an_client_ip :: string
  an_ip_hash :: string
  an_request_id :: string
  an_via :: via

definition max_admin_body_bytes :: int where "max_admin_body_bytes = 512 * 1024"

definition find_user :: "string \<Rightarrow> user_doc option console" where
  "find_user i = db (\<lambda>w. (Inr (find_one (\<lambda>u. usr_id u = i) (console_users w)), w))"

text \<open>The row of a caller, when it is active.\<close>

definition active_user :: "string \<Rightarrow> user_doc console" where
  "active_user i = seq (find_user i) (\<lambda>u. case u of
      Some u \<Rightarrow> if usr_status u \<noteq> Enabled then throw (refuse ''this account is not active'') else give u
    | None \<Rightarrow> throw (refuse ''this account is not active''))"

definition by_session :: "console_outside \<Rightarrow> console_request \<Rightarrow> user_role \<Rightarrow> session_payload \<Rightarrow> admin_context console" where
  "by_session x req minimum p =
     seq (from_result (assert_csrf x req p)) (\<lambda>_.
     seq (active_user (sp_sub p)) (\<lambda>u.
       if role_rank (usr_role u) < role_rank minimum then throw (refuse ''this operation requires elevated privileges'')
       else give \<lparr>an_user_id = usr_id u, an_username = usr_username u, an_role = usr_role u,
              an_client_ip = get_client_ip (qi_headers (nq_in req)) (cfg_trusted_proxy_hops (nx_env x)),
              an_ip_hash = caller_ip_hash x (qi_headers (nq_in req)), an_request_id = nx_random x ForRequest, an_via = ViaSession\<rparr>))"

definition console_authenticate :: "console_outside \<Rightarrow> console_request \<Rightarrow> auth_context console" where
  "console_authenticate x req w =
     (case authenticate (nx_env x) (nx_sha x) (hash_ip (nx_env x) (nx_hmac x)) (qi_request_id (nq_in req)) (nx_clock x)
             (qi_headers (nq_in req)) (qi_query_key (nq_in req)) (nw_auth w) of
        (r, _, aw) \<Rightarrow> (r, w\<lparr>nw_auth := aw\<rparr>))"

definition by_key :: "console_outside \<Rightarrow> console_request \<Rightarrow> user_role \<Rightarrow> admin_context console" where
  "by_key x req minimum =
     seq (console_authenticate x req) (\<lambda>ctx.
     seq (active_user (idn_user_id (ac_identity ctx))) (\<lambda>u.
       case assert_role ((ac_identity ctx)\<lparr>idn_role := usr_role u\<rparr>) minimum of
         Inl e \<Rightarrow> throw (Gateway e)
       | Inr _ \<Rightarrow> give \<lparr>an_user_id = idn_user_id (ac_identity ctx), an_username = idn_username (ac_identity ctx),
           an_role = usr_role u, an_client_ip = ac_client_ip ctx, an_ip_hash = ac_ip_hash ctx,
           an_request_id = ac_request_id ctx, an_via = ViaKey\<rparr>))"

definition require_admin :: "console_outside \<Rightarrow> console_request \<Rightarrow> user_role \<Rightarrow> admin_context console" where
  "require_admin x req minimum w =
     (let hs = qi_headers (nq_in req); fence = env_list (nx_env x) ''ADMIN_ALLOWED_CIDRS'' [] in
      if fence \<noteq> [] \<and> \<not> matches_any_cidr fence (get_client_ip hs (cfg_trusted_proxy_hops (nx_env x)))
      then (Inl (refuse ''admin access is not permitted from this address''), w)
      else (case read_session x hs w of
          Inl e \<Rightarrow> (Inl e, w)
        | Inr (Some p) \<Rightarrow> by_session x req minimum p w
        | Inr None \<Rightarrow> by_key x req minimum w))"

definition read_admin_body :: "env \<Rightarrow> console_request \<Rightarrow> thrown + members" where
  "read_admin_body env req =
     (if nq_method req = ''GET'' \<or> nq_method req = ''HEAD'' then Inr []
      else (case read_body (qi_body (nq_in req)) max_admin_body_bytes of
          Inl e \<Rightarrow> Inl e
        | Inr t \<Rightarrow>
            if js_trim t = [] then Inr []
            else (case parse_body env (cfg_max_request_body_bytes env) t of
                Inl e \<Rightarrow> Inl e
              | Inr (JObj ms) \<Rightarrow> Inr ms
              | Inr _ \<Rightarrow> Inl (bad_request ''request body must be a JSON object''))))"

definition page_number :: "string option \<Rightarrow> string \<Rightarrow> rat \<Rightarrow> rat" where
  "page_number asked text0 d = (case number_of_string (case asked of Some t \<Rightarrow> t | None \<Rightarrow> text0) of JFin q \<Rightarrow> q | _ \<Rightarrow> d)"

definition pagination :: "console_request \<Rightarrow> rat \<times> rat" where
  "pagination req = (page_number (map_of (nq_query req) ''limit'') ''50'' 50, page_number (map_of (nq_query req) ''skip'') ''0'' 0)"

end
