(* ===== verification/ConsoleStore.thy ===== *)
theory ConsoleStore
  imports Console
begin

text \<open>
  The operations of the control plane on what carries authority, \<open>src/lib/admin/store.ts\<close>: users, tokens and
  channels. Limits, priorities and weights are integers in the rows, a fraction in them is cut off. A loop
  over pages ordered by the unique \<open>_id\<close> is one loop over the ordered rows. The parser of dates and the
  sealing of provider keys are arguments.
\<close>

subsection \<open>Reading what a caller sends\<close>

text \<open>\<open>String(v)\<close> and \<open>Number(v)\<close>.\<close>

fun js_text :: "json \<Rightarrow> string" where
  "js_text JNull = ''null''"
| "js_text (JBool b) = (if b then ''true'' else ''false'')"
| "js_text (JNum n) = number_text n"
| "js_text (JStr s) = s"
| "js_text (JArr xs) = join_with '','' (map (\<lambda>v. if v = JNull then [] else js_text v) xs)"
| "js_text (JObj ms) = ''[object Object]''"

definition js_number :: "json \<Rightarrow> jsnum" where
  "js_number v = (case v of
      JNum n \<Rightarrow> n | JNull \<Rightarrow> JFin 0 | JBool b \<Rightarrow> JFin (if b then 1 else 0) | _ \<Rightarrow> number_of_string (js_text v))"

definition page :: "rat \<times> rat \<Rightarrow> 'a list \<Rightarrow> 'a list" where
  "page p rows = take (nat (min (max \<lfloor>fst p\<rfloor> 1) 200)) (drop (nat (max \<lfloor>snd p\<rfloor> 0)) rows)"

definition require_text :: "json option \<Rightarrow> string \<Rightarrow> nat \<Rightarrow> thrown + string" where
  "require_text v field mx =
     (case v of
        Some (JStr s) \<Rightarrow>
          if js_trim s = [] then Inl (bad_field (field @ '' is required'') field)
          else if length s > mx then Inl (bad_field (field @ '' is too long'') field)
          else Inr (js_trim s)
      | _ \<Rightarrow> Inl (bad_field (field @ '' is required'') field))"

definition absent :: "json option \<Rightarrow> bool" where
  "absent v \<longleftrightarrow> v = None \<or> v = Some JNull"

definition optional_number :: "json option \<Rightarrow> string \<Rightarrow> jsnum \<Rightarrow> thrown + jsnum" where
  "optional_number v field fallback =
     (case v of
        None \<Rightarrow> Inr fallback
      | Some JNull \<Rightarrow> Inr fallback
      | Some j \<Rightarrow> if js_finite (js_number j) then Inr (js_number j) else Inl (bad_field (field @ '' must be a number'') field))"

fun text_entries :: "nat \<Rightarrow> string \<Rightarrow> json list \<Rightarrow> thrown + string list" where
  "text_entries i field [] = Inr []"
| "text_entries i field (v # vs) =
     (case require_text (Some v) (field @ ''['' @ show_nat i @ '']'') 200 of
        Inl e \<Rightarrow> Inl e
      | Inr s \<Rightarrow> (case text_entries (Suc i) field vs of Inl e \<Rightarrow> Inl e | Inr ss \<Rightarrow> Inr (s # ss)))"

definition string_list :: "json option \<Rightarrow> string \<Rightarrow> thrown + string list" where
  "string_list v field =
     (case v of
        None \<Rightarrow> Inr []
      | Some JNull \<Rightarrow> Inr []
      | Some (JArr xs) \<Rightarrow>
          if length xs > 200 then Inl (bad_field (field @ '' has too many entries'') field) else text_entries 0 field xs
      | _ \<Rightarrow> Inl (bad_field (field @ '' must be an array'') field))"

definition as_role :: "json option \<Rightarrow> user_role \<Rightarrow> thrown + user_role" where
  "as_role v fallback =
     (if absent v then Inr fallback
      else if v = Some (JStr ''user'') then Inr RoleUser
      else if v = Some (JStr ''admin'') then Inr RoleAdmin
      else if v = Some (JStr ''root'') then Inr RoleRoot
      else Inl (bad_field ''role must be user, admin, or root'' ''role''))"

definition as_status :: "json option \<Rightarrow> entity_status \<Rightarrow> thrown + entity_status" where
  "as_status v fallback =
     (if absent v then Inr fallback
      else if v = Some (JStr ''enabled'') then Inr Enabled
      else if v = Some (JStr ''disabled'') then Inr Disabled
      else if v = Some (JStr ''deleted'') then Inr Deleted
      else Inl (bad_field ''status must be enabled, disabled, or deleted'' ''status''))"

definition as_quota :: "json option \<Rightarrow> string \<Rightarrow> jsnum \<Rightarrow> thrown + int" where
  "as_quota v field fallback =
     (case optional_number v field fallback of
        Inl e \<Rightarrow> Inl e
      | Inr n \<Rightarrow> (case quota_amount n ''quota'' of Inl e \<Rightarrow> Inl (Gateway e) | Inr q \<Rightarrow> Inr q))"

text \<open>A trimmed text when the field has one, and a cut-off text.\<close>

definition given_text :: "json option \<Rightarrow> string option" where
  "given_text v = (case v of Some (JStr s) \<Rightarrow> if js_trim s = [] then None else Some (js_trim s) | _ \<Rightarrow> None)"

text \<open>A patch sets a field only when the body has it.\<close>

definition patched :: "json option \<Rightarrow> (json option \<Rightarrow> thrown + 'a) \<Rightarrow> ('a \<Rightarrow> 'd \<Rightarrow> 'd) \<Rightarrow> thrown + ('d \<Rightarrow> 'd) \<Rightarrow> thrown + ('d \<Rightarrow> 'd)" where
  "patched v read put_it acc =
     (case acc of
        Inl e \<Rightarrow> Inl e
      | Inr f \<Rightarrow> if v = None then Inr f else (case read v of Inl e \<Rightarrow> Inl e | Inr a \<Rightarrow> Inr (put_it a \<circ> f)))"

definition entity_text :: "entity_status \<Rightarrow> string" where
  "entity_text s = (case s of Enabled \<Rightarrow> ''enabled'' | Disabled \<Rightarrow> ''disabled'' | Deleted \<Rightarrow> ''deleted'')"

text \<open>A member that is left out when its value is \<open>undefined\<close>.\<close>

definition if_given :: "string \<Rightarrow> json option \<Rightarrow> members" where
  "if_given k v = (case v of Some j \<Rightarrow> [(k, j)] | None \<Rightarrow> [])"

definition int_json :: "int \<Rightarrow> json" where
  "int_json i = JNum (js_int i)"

definition moment_json :: "int \<Rightarrow> json" where
  "moment_json t = JStr (iso_string t)"

subsection \<open>Unique rows\<close>

text \<open>What the unique indexes of \<open>src/lib/db/indexes.ts\<close> make of a write: a key that a document has and another
  document has too is refused.\<close>

definition clashes :: "('d \<Rightarrow> string list option) list \<Rightarrow> 'd \<Rightarrow> 'd list \<Rightarrow> bool" where
  "clashes keys d ds \<longleftrightarrow> list_ex (\<lambda>k. k d \<noteq> None \<and> list_ex (\<lambda>e. k e = k d) ds) keys"

definition insert_row :: "('d \<Rightarrow> string list option) list \<Rightarrow> 'd \<Rightarrow> 'd list \<Rightarrow> 'd list option" where
  "insert_row keys d ds = (if clashes keys d ds then None else Some (ds @ [d]))"

definition update_row :: "('d \<Rightarrow> string list option) list \<Rightarrow> ('d \<Rightarrow> bool) \<Rightarrow> ('d \<Rightarrow> 'd) \<Rightarrow> 'd list \<Rightarrow> 'd list option" where
  "update_row keys here f ds =
     (case find_one here ds of
        None \<Rightarrow> Some ds
      | Some d \<Rightarrow> if clashes keys (f d) (remove1 d ds) then None else Some (update_one here f ds))"

definition user_keys :: "(user_doc \<Rightarrow> string list option) list" where
  "user_keys = [\<lambda>u. Some [usr_id u], \<lambda>u. Some [usr_username u], \<lambda>u. map_option (\<lambda>m. [m]) (usr_email u),
     \<lambda>u. map_option (\<lambda>g. [g]) (usr_github_id u), \<lambda>u. map_option (\<lambda>a. [a]) (usr_aff_code u)]"

definition token_keys :: "(token_doc \<Rightarrow> string list option) list" where
  "token_keys = [\<lambda>t. Some [tok_id t], \<lambda>t. Some [tok_key_prefix t], \<lambda>t. Some [tok_key_digest t]]"

definition channel_doc_keys :: "(channel_doc \<Rightarrow> string list option) list" where
  "channel_doc_keys = [\<lambda>c. Some [ch_id c], \<lambda>c. Some [ch_name c]]"

fun remove_first :: "('d \<Rightarrow> bool) \<Rightarrow> 'd list \<Rightarrow> 'd list" where
  "remove_first here [] = []"
| "remove_first here (d # ds) = (if here d then ds else d # remove_first here ds)"

definition stored :: "'d list option \<Rightarrow> ('d list \<Rightarrow> console_world \<Rightarrow> console_world) \<Rightarrow> 'a \<Rightarrow> 'a console" where
  "stored rows put_it a w = (case rows of None \<Rightarrow> (Inl OtherThrown, w) | Some ds \<Rightarrow> (Inr a, put_it ds w))"

subsection \<open>Users\<close>

definition list_users :: "rat \<times> rat \<Rightarrow> user_doc list console" where
  "list_users p = db (\<lambda>w. (Inr (page p (sort_key (\<lambda>u. - usr_created_at u) (console_users w))), w))"

definition get_user :: "string \<Rightarrow> user_doc console" where
  "get_user i = seq (find_user i) (\<lambda>u. case u of Some u \<Rightarrow> give u | None \<Rightarrow> throw (Gateway (not_found ''user not found'')))"

definition find_user_by_username :: "string \<Rightarrow> user_doc option console" where
  "find_user_by_username name = db (\<lambda>w. (Inr (find_one (\<lambda>u. usr_username u = name) (console_users w)), w))"

definition user_view :: "user_doc \<Rightarrow> json" where
  "user_view u = JObj
     ([(''_id'', JStr (usr_id u)), (''username'', JStr (usr_username u)), (''displayName'', JStr (usr_display_name u)),
       (''email'', JStr (or_empty (usr_email u))), (''role'', JStr (role_text (usr_role u))), (''status'', JStr (entity_text (usr_status u))),
       (''group'', JStr (usr_group u)), (''quota'', int_json (usr_quota u)), (''usedQuota'', int_json (usr_used_quota u)),
       (''requestCount'', int_json (usr_request_count u))] @
      if_given ''rpmLimit'' (map_option int_json (usr_rpm_limit u)) @ if_given ''tpmLimit'' (map_option int_json (usr_tpm_limit u)) @
      [(''createdAt'', moment_json (usr_created_at u)), (''updatedAt'', moment_json (usr_updated_at u))] @
      if_given ''lastLoginAt'' (map_option moment_json (usr_last_login_at u)))"

record credentials =
  cd_password :: password_record
  cd_github_id :: "string option"

definition no_credentials :: credentials where
  "no_credentials = \<lparr>cd_password = \<lparr>pw_hash = None, pw_salt = None\<rparr>, cd_github_id = None\<rparr>"

definition new_user :: "console_outside \<Rightarrow> members \<Rightarrow> credentials \<Rightarrow> string \<Rightarrow> thrown + user_doc" where
  "new_user x input c username =
     (case as_role (get_field ''role'' input) RoleUser of
        Inl e \<Rightarrow> Inl e
      | Inr role \<Rightarrow> (case as_status (get_field ''status'' input) Enabled of
          Inl e \<Rightarrow> Inl e
        | Inr status \<Rightarrow> (case as_quota (get_field ''quota'' input) ''quota'' (JFin 0) of
            Inl e \<Rightarrow> Inl e
          | Inr quota \<Rightarrow> Inr
             \<lparr>usr_id = nx_random x ForRow, usr_username = username,
              usr_display_name = (case given_text (get_field ''displayName'' input) of Some t \<Rightarrow> take 200 t | None \<Rightarrow> username),
              usr_email = map_option (take 200) (given_text (get_field ''email'' input)),
              usr_password_hash = pw_hash (cd_password c), usr_password_salt = pw_salt (cd_password c), usr_github_id = cd_github_id c,
              usr_role = role, usr_status = status,
              usr_group = (case given_text (get_field ''group'' input) of Some g \<Rightarrow> g | None \<Rightarrow> ''default''),
              usr_quota = quota, usr_ledger_version = Some quota_ledger_version, usr_legacy_used_quota = Some 0, usr_used_quota = 0,
              usr_request_count = 0, usr_aff_code = None, usr_invited_by = None, usr_rpm_limit = None, usr_tpm_limit = None,
              usr_created_at = nx_now x, usr_updated_at = nx_now x, usr_last_login_at = None\<rparr>)))"

definition username_taken :: thrown where
  "username_taken = bad_field ''that username is taken'' ''username''"

definition insert_user :: "user_doc \<Rightarrow> user_doc console" where
  "insert_user u = db (\<lambda>w.
     if find_one (\<lambda>v. usr_username v = usr_username u) (console_users w) \<noteq> None then (Inl username_taken, w)
     else stored (insert_row user_keys u (console_users w)) put_users u w)"

definition create_user :: "console_outside \<Rightarrow> members \<Rightarrow> credentials \<Rightarrow> user_doc console" where
  "create_user x input c =
     seq (from_result (require_text (get_field ''username'' input) ''username'' 64)) (\<lambda>username.
     seq (find_user_by_username username) (\<lambda>existing.
       if existing \<noteq> None then throw username_taken
       else seq (from_result (new_user x input c username)) insert_user))"

definition user_patch :: "console_outside \<Rightarrow> user_doc \<Rightarrow> members \<Rightarrow> thrown + (user_doc \<Rightarrow> user_doc)" where
  "user_patch x u p =
     patched (get_field ''tpmLimit'' p) (\<lambda>v. optional_number v ''tpmLimit'' (JFin 0)) (\<lambda>n d. d\<lparr>usr_tpm_limit := Some (js_to_int n)\<rparr>)
    (patched (get_field ''rpmLimit'' p) (\<lambda>v. optional_number v ''rpmLimit'' (JFin 0)) (\<lambda>n d. d\<lparr>usr_rpm_limit := Some (js_to_int n)\<rparr>)
    (patched (get_field ''quota'' p) (\<lambda>v. as_quota v ''quota'' (js_int (usr_quota u))) (\<lambda>q d. d\<lparr>usr_quota := q\<rparr>)
    (patched (get_field ''group'' p) (\<lambda>v. require_text v ''group'' 64) (\<lambda>g d. d\<lparr>usr_group := g\<rparr>)
    (patched (get_field ''status'' p) (\<lambda>v. as_status v (usr_status u)) (\<lambda>s d. d\<lparr>usr_status := s\<rparr>)
    (patched (get_field ''role'' p) (\<lambda>v. as_role v (usr_role u)) (\<lambda>r d. d\<lparr>usr_role := r\<rparr>)
    (patched (get_field ''email'' p) (\<lambda>v. Inr (case v of Some j \<Rightarrow> take 200 (js_trim (js_text j)) | None \<Rightarrow> []))
       (\<lambda>m d. d\<lparr>usr_email := (if m = [] then None else Some m)\<rparr>)
    (patched (get_field ''displayName'' p) (\<lambda>v. require_text v ''displayName'' 200) (\<lambda>t d. d\<lparr>usr_display_name := t\<rparr>)
       (Inr (\<lambda>d. d\<lparr>usr_updated_at := nx_now x\<rparr>)))))))))"

text \<open>The amount the caller saw, when the edit names one.\<close>

definition expected_quota :: "members \<Rightarrow> thrown + int option" where
  "expected_quota p =
     (if get_field ''expectedQuota'' p = None then Inr None
      else if get_field ''quota'' p = None then Inl (bad_field ''expectedQuota requires a quota update'' ''expectedQuota'')
      else (case as_quota (get_field ''expectedQuota'' p) ''expectedQuota'' (JFin (- 1)) of Inl e \<Rightarrow> Inl e | Inr q \<Rightarrow> Inr (Some q)))"

definition balance_changed :: thrown where
  "balance_changed = bad_field
     ''The balance changed. Refresh the account and review the current amount before retrying.'' ''expectedQuota''"

definition write_user :: "string \<Rightarrow> int option \<Rightarrow> (user_doc \<Rightarrow> user_doc) \<Rightarrow> unit console" where
  "write_user i expected f = db (\<lambda>w.
     let here = (\<lambda>u. usr_id u = i \<and> (case expected of None \<Rightarrow> True | Some q \<Rightarrow> usr_quota u = q)) in
     if find_one here (console_users w) = None then (Inl balance_changed, w)
     else stored (update_row user_keys here f (console_users w)) put_users () w)"

definition drop_token_cache :: "console_outside \<Rightarrow> string \<Rightarrow> unit console" where
  "drop_token_cache x prefix w =
     (case invalidate_token_cache (nx_now x) prefix (aw_co (nw_auth w)) of
        (r, co) \<Rightarrow> (case r of Some _ \<Rightarrow> Inr () | None \<Rightarrow> Inl OtherThrown, w\<lparr>nw_auth := (nw_auth w)\<lparr>aw_co := co\<rparr>\<rparr>))"

fun drop_token_caches :: "console_outside \<Rightarrow> string list \<Rightarrow> unit console" where
  "drop_token_caches x [] = give ()"
| "drop_token_caches x (p # ps) = seq (drop_token_cache x p) (\<lambda>_. drop_token_caches x ps)"

definition drop_caches_of :: "console_outside \<Rightarrow> string \<Rightarrow> unit console" where
  "drop_caches_of x i =
     seq (db (\<lambda>w. (Inr (sort_key tok_id (filter (\<lambda>t. tok_user_id t = i) (console_tokens w))), w)))
       (\<lambda>owned. drop_token_caches x (map tok_key_prefix owned))"

definition update_user :: "console_outside \<Rightarrow> string \<Rightarrow> members \<Rightarrow> user_doc console" where
  "update_user x i p =
     seq (get_user i) (\<lambda>u.
     seq (from_result (user_patch x u p)) (\<lambda>f.
     seq (from_result (expected_quota p)) (\<lambda>expected.
     seq (write_user i expected f) (\<lambda>_.
     seq (drop_caches_of x i) (\<lambda>_. get_user i)))))"

subsection \<open>Tokens\<close>

definition token_view :: "token_doc \<Rightarrow> json" where
  "token_view t = JObj
     ([(''_id'', JStr (tok_id t)), (''userId'', JStr (tok_user_id t)), (''name'', JStr (tok_name t)),
       (''keyPrefix'', JStr (tok_key_prefix t)), (''keyLast4'', JStr (tok_key_last4 t)), (''status'', JStr (entity_text (tok_status t))),
       (''quota'', int_json (tok_quota t))] @
      if_given ''quotaLedgerVersion'' (map_option int_json (tok_ledger_version t)) @
      [(''usedQuota'', int_json (tok_used_quota t)), (''unlimitedQuota'', JBool (tok_unlimited t)),
       (''expiresAt'', case tok_expires_at t of Some e \<Rightarrow> moment_json e | None \<Rightarrow> JNull),
       (''allowedIps'', JArr (map JStr (tok_allowed_ips t))), (''allowedModels'', JArr (map JStr (tok_allowed_models t))),
       (''createdAt'', moment_json (tok_created_at t)), (''updatedAt'', moment_json (tok_updated_at t))] @
      if_given ''group'' (map_option JStr (tok_group t)) @ if_given ''rpmLimit'' (map_option int_json (tok_rpm_limit t)) @
      if_given ''tpmLimit'' (map_option int_json (tok_tpm_limit t)) @ if_given ''accessedAt'' (map_option moment_json (tok_accessed_at t)) @
      [(''masked'', JStr (mask_key (tok_key_prefix t) (tok_key_last4 t)))])"

definition list_tokens :: "string option \<Rightarrow> rat \<times> rat \<Rightarrow> json list console" where
  "list_tokens i p = db (\<lambda>w.
     (Inr (map token_view (page p (sort_key (\<lambda>t. - tok_created_at t)
        (filter (\<lambda>t. or_empty i = [] \<or> tok_user_id t = or_empty i) (console_tokens w))))), w))"

definition get_token :: "string \<Rightarrow> token_doc console" where
  "get_token i = db (\<lambda>w. (case find_one (\<lambda>t. tok_id t = i) (console_tokens w) of
      Some t \<Rightarrow> Inr t | None \<Rightarrow> Inl (Gateway (not_found ''token not found'')), w))"

text \<open>An expiry: absent, or a date.\<close>

definition read_expiry :: "console_outside \<Rightarrow> json option \<Rightarrow> thrown + int option" where
  "read_expiry x v =
     (if absent v \<or> v = Some (JStr []) then Inr None
      else (case nx_date x (js_text (case v of Some j \<Rightarrow> j | None \<Rightarrow> JNull)) of
          None \<Rightarrow> Inl (bad_field ''expiresAt is not a valid date'' ''expiresAt'')
        | Some t \<Rightarrow> Inr (Some t)))"

text \<open>A stream of random bytes that ends before the key is complete is no run of the code.\<close>

definition fresh_key :: "console_outside \<Rightarrow> thrown + generated_key" where
  "fresh_key x = (case generate_api_key (nx_env x) (nx_sha x) (fst (nx_key_bytes x)) (snd (nx_key_bytes x)) of
      None \<Rightarrow> Inl OtherThrown | Some g \<Rightarrow> Inr g)"

definition new_token :: "console_outside \<Rightarrow> members \<Rightarrow> string \<Rightarrow> generated_key \<Rightarrow> int option \<Rightarrow> thrown + token_doc" where
  "new_token x input owner g expires =
     (case as_quota (get_field ''quota'' input) ''quota'' (JFin 0) of
        Inl e \<Rightarrow> Inl e
      | Inr quota \<Rightarrow> (case string_list (get_field ''allowedIps'' input) ''allowedIps'' of
          Inl e \<Rightarrow> Inl e
        | Inr ips \<Rightarrow> (case string_list (get_field ''allowedModels'' input) ''allowedModels'' of
            Inl e \<Rightarrow> Inl e
          | Inr models \<Rightarrow> Inr
             \<lparr>tok_id = nx_random x ForRow, tok_user_id = owner,
              tok_name = (case given_text (get_field ''name'' input) of Some t \<Rightarrow> take 120 t | None \<Rightarrow> ''key''),
              tok_key_prefix = gk_prefix g, tok_key_digest = gk_digest g, tok_key_last4 = gk_last4 g, tok_status = Enabled,
              tok_quota = quota, tok_ledger_version = Some quota_ledger_version, tok_used_quota = 0,
              tok_unlimited = (get_field ''unlimitedQuota'' input = Some (JBool True)), tok_expires_at = expires,
              tok_allowed_ips = ips, tok_allowed_models = models, tok_group = None, tok_rpm_limit = None, tok_tpm_limit = None,
              tok_created_at = nx_now x, tok_updated_at = nx_now x, tok_accessed_at = None\<rparr>)))"

definition create_token :: "console_outside \<Rightarrow> members \<Rightarrow> (json \<times> string) console" where
  "create_token x input =
     seq (from_result (require_text (get_field ''userId'' input) ''userId'' 200)) (\<lambda>owner.
     seq (get_user owner) (\<lambda>_.
     seq (from_result (fresh_key x)) (\<lambda>g.
     seq (from_result (read_expiry x (get_field ''expiresAt'' input))) (\<lambda>expires.
     seq (from_result (new_token x input owner g expires)) (\<lambda>t.
       db (\<lambda>w. stored (insert_row token_keys t (console_tokens w)) put_tokens (token_view t, gk_key g) w))))))"

definition token_patch :: "console_outside \<Rightarrow> token_doc \<Rightarrow> members \<Rightarrow> thrown + (token_doc \<Rightarrow> token_doc)" where
  "token_patch x t p =
     patched (get_field ''expiresAt'' p) (read_expiry x) (\<lambda>e d. d\<lparr>tok_expires_at := e\<rparr>)
    (patched (get_field ''allowedModels'' p) (\<lambda>v. string_list v ''allowedModels'') (\<lambda>l d. d\<lparr>tok_allowed_models := l\<rparr>)
    (patched (get_field ''allowedIps'' p) (\<lambda>v. string_list v ''allowedIps'') (\<lambda>l d. d\<lparr>tok_allowed_ips := l\<rparr>)
    (patched (get_field ''unlimitedQuota'' p) Inr (\<lambda>v d. d\<lparr>tok_unlimited := (v = Some (JBool True))\<rparr>)
    (patched (get_field ''quota'' p) (\<lambda>v. as_quota v ''quota'' (js_int (tok_quota t))) (\<lambda>q d. d\<lparr>tok_quota := q\<rparr>)
    (patched (get_field ''status'' p) (\<lambda>v. as_status v (tok_status t)) (\<lambda>s d. d\<lparr>tok_status := s\<rparr>)
    (patched (get_field ''name'' p) (\<lambda>v. require_text v ''name'' 120) (\<lambda>n d. d\<lparr>tok_name := n\<rparr>)
       (Inr (\<lambda>d. d\<lparr>tok_updated_at := nx_now x\<rparr>))))))))"

definition write_token :: "string \<Rightarrow> (token_doc \<Rightarrow> token_doc) \<Rightarrow> unit console" where
  "write_token i f = db (\<lambda>w. stored (update_row token_keys (\<lambda>t. tok_id t = i) f (console_tokens w)) put_tokens () w)"

definition update_token :: "console_outside \<Rightarrow> string \<Rightarrow> members \<Rightarrow> json console" where
  "update_token x i p =
     seq (get_token i) (\<lambda>t.
     seq (from_result (token_patch x t p)) (\<lambda>f.
     seq (write_token i f) (\<lambda>_.
     seq (drop_token_cache x (tok_key_prefix t)) (\<lambda>_.
     seq (get_token i) (\<lambda>t2. give (token_view t2))))))"

definition delete_token :: "console_outside \<Rightarrow> string \<Rightarrow> unit console" where
  "delete_token x i =
     seq (get_token i) (\<lambda>t.
     seq (db (\<lambda>w. (Inr (), put_tokens (remove_first (\<lambda>t. tok_id t = i) (console_tokens w)) w))) (\<lambda>_.
       drop_token_cache x (tok_key_prefix t)))"

definition rotate_token :: "console_outside \<Rightarrow> string \<Rightarrow> (json \<times> string) console" where
  "rotate_token x i =
     seq (get_token i) (\<lambda>t.
     seq (from_result (fresh_key x)) (\<lambda>g.
     seq (write_token i (\<lambda>d. d\<lparr>tok_key_prefix := gk_prefix g, tok_key_digest := gk_digest g, tok_key_last4 := gk_last4 g,
            tok_updated_at := nx_now x\<rparr>)) (\<lambda>_.
     seq (drop_token_cache x (tok_key_prefix t)) (\<lambda>_.
     seq (drop_token_cache x (gk_prefix g)) (\<lambda>_.
     seq (get_token i) (\<lambda>t2. give (token_view t2, gk_key g)))))))"

definition digest_for :: "env \<Rightarrow> (string \<Rightarrow> string) \<Rightarrow> string \<Rightarrow> string \<Rightarrow> string" where
  "digest_for env sha prefix secret = digest_api_key env sha prefix secret"

end
