(* ===== verification/ConsoleChannels.thy ===== *)
theory ConsoleChannels
  imports ConsoleStore
begin

text \<open>
  The channels of \<open>src/lib/admin/store.ts\<close>: what an operator may store as a provider, its sealed
  credentials, and the rebuilding of the routing table after every change. The seal of a credential is an
  argument; it yields the ciphertext, the nonce, the tag and the fingerprint.
\<close>

definition cfg_channel_key_master :: "env \<Rightarrow> string" where
  "cfg_channel_key_master env = env_str env ''CHANNEL_KEY_MASTER'' []"

definition cfg_channel_key_version :: "env \<Rightarrow> int" where
  "cfg_channel_key_version env = env_int env ''CHANNEL_KEY_VERSION'' 1"

text \<open>Routing reads the shared store and the database the console has.\<close>

definition on_routing :: "(routing_world \<Rightarrow> (thrown + 'a) \<times> routing_world) \<Rightarrow> 'a console" where
  "on_routing f w =
     (case f ((nw_routing w)\<lparr>rw_co := aw_co (nw_auth w), rw_db_ok := db_up w\<rparr>) of
        (r, rw) \<Rightarrow> (r, w\<lparr>nw_routing := rw, nw_auth := (nw_auth w)\<lparr>aw_co := rw_co rw\<rparr>\<rparr>))"

definition drop_abilities :: "console_outside \<Rightarrow> unit console" where
  "drop_abilities x = on_routing (\<lambda>rw. (Inr (), invalidate_abilities (nx_now x) rw))"

definition refresh_abilities :: "console_outside \<Rightarrow> unit console" where
  "refresh_abilities x = seq (on_routing (rebuild_abilities (nx_now x))) (\<lambda>_. drop_abilities x)"

abbreviation console_channels :: "console_world \<Rightarrow> channel_doc list" where
  "console_channels w \<equiv> rw_channels (nw_routing w)"

abbreviation console_channel_keys :: "console_world \<Rightarrow> channel_key_doc list" where
  "console_channel_keys w \<equiv> rw_keys (nw_routing w)"

definition put_channels :: "channel_doc list \<Rightarrow> console_world \<Rightarrow> console_world" where
  "put_channels cs w = w\<lparr>nw_routing := (nw_routing w)\<lparr>rw_channels := cs\<rparr>\<rparr>"

definition put_channel_keys :: "channel_key_doc list \<Rightarrow> console_world \<Rightarrow> console_world" where
  "put_channel_keys ks w = w\<lparr>nw_routing := (nw_routing w)\<lparr>rw_keys := ks\<rparr>\<rparr>"

subsection \<open>Views\<close>

definition channel_members :: "channel_doc \<Rightarrow> members" where
  "channel_members c =
     [(''_id'', JStr (ch_id c)), (''name'', JStr (ch_name c)), (''type'', JStr (channel_type_name (ch_type c))),
      (''baseUrl'', JStr (ch_base_url c)), (''status'', JStr (entity_text (ch_status c))), (''priority'', int_json (ch_priority c)),
      (''weight'', int_json (ch_weight c)), (''groups'', JArr (map JStr (ch_groups c))), (''models'', JArr (map JStr (ch_models c))),
      (''modelMapping'', JObj (map (\<lambda>(a, b). (a, JStr b)) (ch_model_mapping c))),
      (''headers'', JObj (map (\<lambda>(a, b). (a, JStr b)) (ch_headers c))), (''autoDisabled'', JBool (ch_auto_disabled c)),
      (''failCount'', int_json (ch_fail_count c)), (''config'', JObj (ch_config c)),
      (''createdAt'', moment_json (ch_created_at c)), (''updatedAt'', moment_json (ch_updated_at c))] @
     if_given ''testModel'' (map_option JStr (ch_test_model c)) @ if_given ''balance'' (map_option int_json (ch_balance c)) @
     if_given ''balanceUpdatedAt'' (map_option moment_json (ch_balance_updated_at c)) @
     if_given ''rpmLimit'' (map_option int_json (ch_rpm_limit c))"

definition channel_view :: "channel_doc \<Rightarrow> nat \<Rightarrow> string list \<Rightarrow> json" where
  "channel_view c n prints = JObj (channel_members c @
     [(''keyCount'', int_json (int n)), (''keyFingerprints'', JArr (map JStr prints))])"

definition list_channels :: "rat \<times> rat \<Rightarrow> json list console" where
  "list_channels p = db (\<lambda>w.
     (Inr (map (\<lambda>c.
        let ks = take 100 (filter (\<lambda>k. ck_channel_id k = ch_id c) (console_channel_keys w))
        in channel_view c (length (filter (\<lambda>k. ck_status k = Enabled) ks)) (map ck_fingerprint ks))
      (page p (sort_key (\<lambda>c. - ch_priority c) (console_channels w)))), w))"

definition get_channel :: "string \<Rightarrow> channel_doc console" where
  "get_channel i = db (\<lambda>w. (case find_one (\<lambda>c. ch_id c = i) (console_channels w) of
      Some c \<Rightarrow> Inr c | None \<Rightarrow> Inl (Gateway (not_found ''channel not found'')), w))"

subsection \<open>What may be stored\<close>

definition declared_types :: "channel_type list" where
  "declared_types = [Openai, Azure, Anthropic, Gemini, Vertex, Bedrock, Mistral, Cohere, Deepseek, Moonshot, Zhipu, Qwen, Baidu,
     Xai, Groq, Openrouter, Ollama, Midjourney, Suno, Kling, Jimeng, Vidu, Dify, Custom]"

definition type_of_name :: "string \<Rightarrow> channel_type" where
  "type_of_name s = (case List.find (\<lambda>t. channel_type_name t = s) declared_types of Some t \<Rightarrow> t | None \<Rightarrow> OtherType s)"

definition as_channel_type :: "json option \<Rightarrow> thrown + channel_type" where
  "as_channel_type v = (case require_text v ''type'' 40 of Inl e \<Rightarrow> Inl e | Inr s \<Rightarrow> Inr (type_of_name s))"

text \<open>Assigning a text to \<open>__proto__\<close> stores nothing.\<close>

definition put_text :: "string \<Rightarrow> string \<Rightarrow> (string \<times> string) list \<Rightarrow> (string \<times> string) list" where
  "put_text k v out = (if k = ''__proto__'' then out else put k v out)"

fun mapping_entries :: "(string \<times> string) list \<Rightarrow> members \<Rightarrow> thrown + (string \<times> string) list" where
  "mapping_entries out [] = Inr out"
| "mapping_entries out ((k, v) # ms) =
     (case require_text (Some (JStr k)) ''modelMapping key'' 200 of
        Inl e \<Rightarrow> Inl e
      | Inr from_name \<Rightarrow> (case require_text (Some v) ''modelMapping value'' 200 of
          Inl e \<Rightarrow> Inl e
        | Inr to_name \<Rightarrow> mapping_entries (put_text from_name to_name out) ms))"

definition as_mapping :: "json option \<Rightarrow> thrown + (string \<times> string) list" where
  "as_mapping v =
     (case v of
        None \<Rightarrow> Inr []
      | Some JNull \<Rightarrow> Inr []
      | Some (JObj ms) \<Rightarrow> mapping_entries [] ms
      | _ \<Rightarrow> Inl (bad_field ''modelMapping must be an object'' ''modelMapping''))"

definition managed_headers :: "string list" where
  "managed_headers = [''authorization'', ''x-api-key'', ''x-goog-api-key'', ''api-key'', ''mj-api-secret'', ''cookie'', ''set-cookie'',
     ''proxy-authorization'']"

definition header_entry :: "string \<Rightarrow> json \<Rightarrow> (string \<times> string) option" where
  "header_entry lower v =
     (case assert_safe_header_name lower of
        Inl _ \<Rightarrow> None
      | Inr n \<Rightarrow> (case require_text (Some v) ''header value'' 1000 of
          Inl _ \<Rightarrow> None
        | Inr t \<Rightarrow> (case assert_safe_header_value t of Inl _ \<Rightarrow> None | Inr h \<Rightarrow> Some (n, h))))"

fun header_entries :: "(string \<times> string) list \<Rightarrow> members \<Rightarrow> thrown + (string \<times> string) list" where
  "header_entries out [] = Inr out"
| "header_entries out ((k, v) # ms) =
     (case require_text (Some (JStr k)) ''header name'' 120 of
        Inl e \<Rightarrow> Inl e
      | Inr k2 \<Rightarrow>
          let lower = js_lower k2 in
          if lower \<in> set managed_headers then Inl (bad_field ''credential headers are managed by the gateway'' ''headers'')
          else (case header_entry lower v of
              None \<Rightarrow> Inl (bad_field ''invalid channel header'' ''headers'')
            | Some (n, h) \<Rightarrow> header_entries (put_text n h out) ms))"

definition as_headers :: "json option \<Rightarrow> thrown + (string \<times> string) list" where
  "as_headers v =
     (case v of
        None \<Rightarrow> Inr []
      | Some JNull \<Rightarrow> Inr []
      | Some (JObj ms) \<Rightarrow> header_entries [] ms
      | _ \<Rightarrow> Inl (bad_field ''headers must be an object'' ''headers''))"

text \<open>The pattern \<open>^\/[A-Za-z0-9_-]+(?:\/[A-Za-z0-9_-]+)*$\<close>.\<close>

definition local_path :: "string \<Rightarrow> bool" where
  "local_path s \<longleftrightarrow>
     (case split_on (CHR ''/'') s of
        [] # s1 # ss \<Rightarrow> list_all (\<lambda>t. t \<noteq> [] \<and> list_all (\<lambda>c. is_alnum c \<or> c = CHR ''_'' \<or> c = CHR ''-'') t) (s1 # ss)
      | _ \<Rightarrow> False)"

definition channel_config :: "env \<Rightarrow> json option \<Rightarrow> thrown + members" where
  "channel_config env v =
     (case v of
        None \<Rightarrow> Inr []
      | Some JNull \<Rightarrow> Inr []
      | Some (JObj ms0) \<Rightarrow>
          (case sanitize_parsed (cfg_max_json_depth env) (cfg_max_json_nodes env) (JObj ms0) of
             Inl e \<Rightarrow> Inl (JsonLimitThrown e (limit_text env e))
           | Inr j \<Rightarrow>
               let ms = as_record (Some j) in
               if get_field ''submitPaths'' ms = None then Inr ms
               else (case string_list (get_field ''submitPaths'' ms) ''submitPaths'' of
                   Inl e \<Rightarrow> Inl e
                 | Inr paths \<Rightarrow>
                     if list_ex (\<lambda>p. \<not> local_path p) paths
                     then Inl (bad_request ''submitPaths must contain exact, unencoded local paths'')
                     else Inr (put_field ''submitPaths'' (JArr (map JStr paths)) ms)))
      | _ \<Rightarrow> Inl (bad_field ''config must be an object'' ''config''))"

subsection \<open>Credentials of a channel\<close>

definition sealed_key :: "console_outside \<Rightarrow> string \<Rightarrow> nat \<Rightarrow> string \<Rightarrow> channel_key_doc" where
  "sealed_key x cid i plaintext =
     (case nx_seal x plaintext (cfg_channel_key_master (nx_env x)) (cfg_channel_key_version (nx_env x)) of
        (cipher, iv, tag, fingerprint) \<Rightarrow>
          \<lparr>ck_id = nx_random x (ForKeyRow i), ck_channel_id = cid, ck_cipher = cipher, ck_iv = iv, ck_auth_tag = tag,
           ck_key_version = cfg_channel_key_version (nx_env x), ck_fingerprint = fingerprint, ck_status = Enabled, ck_index = int i,
           ck_fail_count = 0, ck_last_used_at = None, ck_created_at = nx_now x\<rparr>)"

fun seal_each :: "console_outside \<Rightarrow> string \<Rightarrow> nat \<Rightarrow> json list \<Rightarrow> thrown + channel_key_doc list" where
  "seal_each x cid i [] = Inr []"
| "seal_each x cid i (s # ss) =
     (case require_text (Some s) ''key'' 4096 of
        Inl e \<Rightarrow> Inl e
      | Inr plaintext \<Rightarrow> (case seal_each x cid (Suc i) ss of
          Inl e \<Rightarrow> Inl e
        | Inr ks \<Rightarrow> Inr (sealed_key x cid i plaintext # ks)))"

definition seal_keys_for :: "console_outside \<Rightarrow> string \<Rightarrow> json list \<Rightarrow> thrown + channel_key_doc list" where
  "seal_keys_for x cid secrets =
     (if cfg_channel_key_master (nx_env x) = []
      then Inl (bad_request ''CHANNEL_KEY_MASTER is not configured, so keys cannot be sealed'')
      else seal_each x cid 0 secrets)"

definition channel_key_keys :: "(channel_key_doc \<Rightarrow> string list option) list" where
  "channel_key_keys = [\<lambda>k. Some [ck_id k], \<lambda>k. Some [ck_channel_id k, show_int (ck_index k)]]"

text \<open>The ordered bulk insert stops at the first row that is refused; the rows before it stay.\<close>

fun insert_rows :: "('d \<Rightarrow> string list option) list \<Rightarrow> 'd list \<Rightarrow> 'd list \<Rightarrow> bool \<times> 'd list" where
  "insert_rows keys [] ds = (True, ds)"
| "insert_rows keys (d # new) ds = (case insert_row keys d ds of None \<Rightarrow> (False, ds) | Some ds2 \<Rightarrow> insert_rows keys new ds2)"

definition insert_channel_keys :: "channel_key_doc list \<Rightarrow> unit console" where
  "insert_channel_keys ks = db (\<lambda>w.
     (case insert_rows channel_key_keys ks (console_channel_keys w) of
        (fine, rows) \<Rightarrow> (if fine then Inr () else Inl OtherThrown, put_channel_keys rows w)))"

definition drop_channel_keys :: "string \<Rightarrow> unit console" where
  "drop_channel_keys i = db (\<lambda>w. (Inr (), put_channel_keys (filter (\<lambda>k. ck_channel_id k \<noteq> i) (console_channel_keys w)) w))"

subsection \<open>Operations\<close>

definition new_channel :: "console_outside \<Rightarrow> members \<Rightarrow> thrown + channel_doc" where
  "new_channel x input =
     (case require_text (get_field ''name'' input) ''name'' 120 of
        Inl e \<Rightarrow> Inl e
      | Inr name \<Rightarrow> (case as_channel_type (get_field ''type'' input) of
          Inl e \<Rightarrow> Inl e
        | Inr typ \<Rightarrow> (case require_text (get_field ''baseUrl'' input) ''baseUrl'' 500 of
            Inl e \<Rightarrow> Inl e
          | Inr base \<Rightarrow> (case as_status (get_field ''status'' input) Enabled of
              Inl e \<Rightarrow> Inl e
            | Inr status \<Rightarrow> (case optional_number (get_field ''priority'' input) ''priority'' (JFin 0) of
                Inl e \<Rightarrow> Inl e
              | Inr priority \<Rightarrow> (case optional_number (get_field ''weight'' input) ''weight'' (JFin 0) of
                  Inl e \<Rightarrow> Inl e
                | Inr weight \<Rightarrow> (case string_list (get_field ''groups'' input) ''groups'' of
                    Inl e \<Rightarrow> Inl e
                  | Inr groups \<Rightarrow> (case string_list (get_field ''models'' input) ''models'' of
                      Inl e \<Rightarrow> Inl e
                    | Inr models \<Rightarrow> (case as_mapping (get_field ''modelMapping'' input) of
                        Inl e \<Rightarrow> Inl e
                      | Inr mapping \<Rightarrow> (case as_headers (get_field ''headers'' input) of
                          Inl e \<Rightarrow> Inl e
                        | Inr headers \<Rightarrow> (case channel_config (nx_env x) (get_field ''config'' input) of
                            Inl e \<Rightarrow> Inl e
                          | Inr config \<Rightarrow> Inr
                             \<lparr>ch_id = nx_random x ForRow, ch_name = name, ch_type = typ, ch_base_url = base, ch_status = status,
                              ch_priority = js_to_int priority, ch_weight = js_to_int weight,
                              ch_groups = (if groups = [] then [''default''] else groups), ch_models = models,
                              ch_model_mapping = mapping, ch_headers = headers,
                              ch_test_model = given_text (get_field ''testModel'' input), ch_balance = None,
                              ch_balance_updated_at = None, ch_auto_disabled = False, ch_fail_count = 0, ch_rpm_limit = None,
                              ch_config = config, ch_created_at = nx_now x, ch_updated_at = nx_now x\<rparr>)))))))))))"

definition insert_channel :: "channel_doc \<Rightarrow> unit console" where
  "insert_channel c = db (\<lambda>w. stored (insert_row channel_doc_keys c (console_channels w)) put_channels () w)"

definition create_channel :: "console_outside \<Rightarrow> members \<Rightarrow> json console" where
  "create_channel x input =
     seq (from_result (string_list (get_field ''keys'' input) ''keys'')) (\<lambda>secrets.
       if secrets = [] then throw (bad_field ''at least one key is required'' ''keys'')
       else
         seq (from_result (new_channel x input)) (\<lambda>c.
         seq (from_result (seal_keys_for x (ch_id c) (map JStr secrets))) (\<lambda>sealed.
         seq (insert_channel c) (\<lambda>_.
         seq (insert_channel_keys sealed) (\<lambda>_.
         seq (refresh_abilities x) (\<lambda>_. give (channel_view c (length sealed) (map ck_fingerprint sealed))))))))"

text \<open>Enabling a channel, or taking back its automatic disabling, clears the breaker.\<close>

definition cleared_breaker :: "members \<Rightarrow> channel_doc \<Rightarrow> channel_doc" where
  "cleared_breaker p c =
     (if get_field ''autoDisabled'' p = Some (JBool False) \<or> (get_field ''status'' p \<noteq> None \<and> ch_status c = Enabled)
      then c\<lparr>ch_auto_disabled := False, ch_fail_count := 0\<rparr> else c)"

definition channel_patch :: "console_outside \<Rightarrow> channel_doc \<Rightarrow> members \<Rightarrow> thrown + (channel_doc \<Rightarrow> channel_doc)" where
  "channel_patch x c p =
     patched (get_field ''rpmLimit'' p) (\<lambda>v. optional_number v ''rpmLimit'' (JFin 0)) (\<lambda>n d. d\<lparr>ch_rpm_limit := Some (js_to_int n)\<rparr>)
    (patched (get_field ''testModel'' p) (\<lambda>v. Inr (take 200 (case v of Some j \<Rightarrow> js_text j | None \<Rightarrow> [])))
       (\<lambda>t d. d\<lparr>ch_test_model := Some t\<rparr>)
    (patched (get_field ''config'' p) (channel_config (nx_env x)) (\<lambda>m d. d\<lparr>ch_config := m\<rparr>)
    (patched (get_field ''headers'' p) as_headers (\<lambda>h d. d\<lparr>ch_headers := h\<rparr>)
    (patched (get_field ''modelMapping'' p) as_mapping (\<lambda>m d. d\<lparr>ch_model_mapping := m\<rparr>)
    (patched (get_field ''models'' p) (\<lambda>v. string_list v ''models'') (\<lambda>m d. d\<lparr>ch_models := m\<rparr>)
    (patched (get_field ''groups'' p) (\<lambda>v. string_list v ''groups'') (\<lambda>g d. d\<lparr>ch_groups := g\<rparr>)
    (patched (get_field ''weight'' p) (\<lambda>v. optional_number v ''weight'' (js_int (ch_weight c))) (\<lambda>n d. d\<lparr>ch_weight := js_to_int n\<rparr>)
    (patched (get_field ''priority'' p) (\<lambda>v. optional_number v ''priority'' (js_int (ch_priority c)))
       (\<lambda>n d. d\<lparr>ch_priority := js_to_int n\<rparr>)
    (patched (get_field ''status'' p) (\<lambda>v. as_status v (ch_status c)) (\<lambda>s d. d\<lparr>ch_status := s\<rparr>)
    (patched (get_field ''baseUrl'' p) (\<lambda>v. require_text v ''baseUrl'' 500) (\<lambda>b d. d\<lparr>ch_base_url := b\<rparr>)
    (patched (get_field ''name'' p) (\<lambda>v. require_text v ''name'' 120) (\<lambda>n d. d\<lparr>ch_name := n\<rparr>)
       (Inr (\<lambda>d. d\<lparr>ch_updated_at := nx_now x\<rparr>)))))))))))))"

definition update_channel :: "console_outside \<Rightarrow> string \<Rightarrow> members \<Rightarrow> channel_doc console" where
  "update_channel x i p =
     seq (get_channel i) (\<lambda>c.
     seq (from_result (channel_patch x c p)) (\<lambda>f.
     seq (db (\<lambda>w. stored (update_row channel_doc_keys (\<lambda>c. ch_id c = i) (cleared_breaker p \<circ> f) (console_channels w))
            put_channels () w)) (\<lambda>_.
     seq (refresh_abilities x) (\<lambda>_. get_channel i))))"

definition replace_channel_keys :: "console_outside \<Rightarrow> string \<Rightarrow> json list \<Rightarrow> nat console" where
  "replace_channel_keys x i secrets =
     seq (get_channel i) (\<lambda>_.
       if secrets = [] then throw (bad_field ''at least one key is required'' ''keys'')
       else
         seq (from_result (seal_keys_for x i secrets)) (\<lambda>sealed.
         seq (drop_channel_keys i) (\<lambda>_.
         seq (insert_channel_keys sealed) (\<lambda>_. give (length sealed)))))"

definition delete_channel :: "console_outside \<Rightarrow> string \<Rightarrow> unit console" where
  "delete_channel x i =
     seq (get_channel i) (\<lambda>_.
     seq (db (\<lambda>w. (Inr (), put_channels (remove_first (\<lambda>c. ch_id c = i) (console_channels w)) w))) (\<lambda>_.
     seq (drop_channel_keys i) (\<lambda>_. refresh_abilities x)))"

definition suggest_group_name :: "console_outside \<Rightarrow> string" where
  "suggest_group_name x = ''grp-'' @ js_lower (nx_random x ForName)"

end
