(* ===== verification/ConsoleCatalog.thy ===== *)
theory ConsoleCatalog
  imports ConsoleChannels
begin

text \<open>
  Prices, renamings, group ratios, redemption codes, settings and the reports of the console,
  \<open>src/lib/admin/catalog.ts\<close>. A transaction either commits or leaves the world as it was. The ratio of a
  group is in the world of Pricing, its date and description beside it.
\<close>

subsection \<open>Reading what a caller sends\<close>

definition non_negative :: "json option \<Rightarrow> string \<Rightarrow> thrown + jsnum" where
  "non_negative v field =
     (let n = (case v of Some j \<Rightarrow> js_number j | None \<Rightarrow> JNaN) in
      if js_finite n \<and> \<not> js_lt n (JFin 0) then Inr n else Inl (bad_field (field @ '' must be a non-negative number'') field))"

definition optional_positive :: "json option \<Rightarrow> string \<Rightarrow> thrown + jsnum option" where
  "optional_positive v field =
     (if absent v \<or> v = Some (JStr []) then Inr None
      else (case non_negative v field of Inl e \<Rightarrow> Inl e | Inr n \<Rightarrow> Inr (Some n)))"

definition a_name :: "json option \<Rightarrow> string \<Rightarrow> nat \<Rightarrow> thrown + string" where
  "a_name v field mx =
     (case v of
        Some (JStr s) \<Rightarrow>
          if js_trim s = [] then Inl (bad_field (field @ '' is required'') field)
          else if length s > mx then Inl (bad_field (field @ '' is too long'') field)
          else Inr (js_trim s)
      | _ \<Rightarrow> Inl (bad_field (field @ '' is required'') field))"

text \<open>\<open>a ?? b\<close>.\<close>

definition or_else :: "json option \<Rightarrow> json option \<Rightarrow> json option" where
  "or_else a b = (if absent a then b else a)"

subsection \<open>Prices\<close>

definition pricing_key_of :: "string \<Rightarrow> string" where
  "pricing_key_of model = pricing_cache_key (normalize_model_name model)"

abbreviation console_prices :: "console_world \<Rightarrow> model_pricing_doc list" where
  "console_prices w \<equiv> pw_pricing (nw_pricing w)"

definition put_prices :: "model_pricing_doc list \<Rightarrow> console_world \<Rightarrow> console_world" where
  "put_prices ps w = w\<lparr>nw_pricing := (nw_pricing w)\<lparr>pw_pricing := ps\<rparr>\<rparr>"

definition price_field :: "string \<Rightarrow> jsnum \<Rightarrow> members" where
  "price_field k n = (if js_finite n then [(k, JNum n)] else [])"

definition price_json :: "model_pricing_doc \<Rightarrow> json" where
  "price_json d = JObj
     ((''_id'', JStr (mp_id d)) # price_field ''modelRatio'' (mp_model_ratio d) @ price_field ''completionRatio'' (mp_completion_ratio d) @
      price_field ''cachedRatio'' (mp_cached_ratio d) @ price_field ''cacheWrite5mRatio'' (mp_cache_write_5m_ratio d) @
      price_field ''cacheWrite1hRatio'' (mp_cache_write_1h_ratio d) @ price_field ''imageRatio'' (mp_image_ratio d) @
      price_field ''audioRatio'' (mp_audio_ratio d) @ price_field ''audioCompletionRatio'' (mp_audio_completion_ratio d) @
      price_field ''perCallQuota'' (mp_per_call_quota d))"

definition list_pricing :: "model_pricing_doc list console" where
  "list_pricing = db (\<lambda>w. (Inr (take 500 (console_prices w)), w))"

definition blank_price :: "string \<Rightarrow> model_pricing_doc" where
  "blank_price i = \<lparr>mp_id = i, mp_model_ratio = JNaN, mp_completion_ratio = JNaN, mp_cached_ratio = JNaN,
     mp_cache_write_5m_ratio = JNaN, mp_cache_write_1h_ratio = JNaN, mp_image_ratio = JNaN, mp_audio_ratio = JNaN,
     mp_audio_completion_ratio = JNaN, mp_per_call_quota = JNaN, mp_usage_semantic = None\<rparr>"

text \<open>A field that is given, in the order in which the code reads them.\<close>

definition price_patched ::
    "members \<Rightarrow> string \<Rightarrow> (jsnum \<Rightarrow> model_pricing_doc \<Rightarrow> model_pricing_doc) \<Rightarrow>
     thrown + (model_pricing_doc \<Rightarrow> model_pricing_doc) \<Rightarrow> thrown + (model_pricing_doc \<Rightarrow> model_pricing_doc)" where
  "price_patched input field put_it acc =
     (case acc of
        Inl e \<Rightarrow> Inl e
      | Inr f \<Rightarrow> (case optional_positive (get_field field input) field of
          Inl e \<Rightarrow> Inl e
        | Inr None \<Rightarrow> Inr f
        | Inr (Some n) \<Rightarrow> Inr (put_it n \<circ> f)))"

definition price_patch :: "members \<Rightarrow> thrown + (model_pricing_doc \<Rightarrow> model_pricing_doc)" where
  "price_patch input =
     (case non_negative (get_field ''modelRatio'' input) ''modelRatio'' of
        Inl e \<Rightarrow> Inl e
      | Inr model_ratio \<Rightarrow> (case non_negative (get_field ''completionRatio'' input) ''completionRatio'' of
          Inl e \<Rightarrow> Inl e
        | Inr completion_ratio \<Rightarrow>
            price_patched input ''perCallQuota'' (\<lambda>n d. d\<lparr>mp_per_call_quota := n\<rparr>)
           (price_patched input ''audioCompletionRatio'' (\<lambda>n d. d\<lparr>mp_audio_completion_ratio := n\<rparr>)
           (price_patched input ''audioRatio'' (\<lambda>n d. d\<lparr>mp_audio_ratio := n\<rparr>)
           (price_patched input ''imageRatio'' (\<lambda>n d. d\<lparr>mp_image_ratio := n\<rparr>)
           (price_patched input ''cacheWrite1hRatio'' (\<lambda>n d. d\<lparr>mp_cache_write_1h_ratio := n\<rparr>)
           (price_patched input ''cacheWrite5mRatio'' (\<lambda>n d. d\<lparr>mp_cache_write_5m_ratio := n\<rparr>)
           (price_patched input ''cachedRatio'' (\<lambda>n d. d\<lparr>mp_cached_ratio := n\<rparr>)
              (Inr (\<lambda>d. d\<lparr>mp_model_ratio := model_ratio, mp_completion_ratio := completion_ratio\<rparr>))))))))))"

definition drop_price :: "console_outside \<Rightarrow> string \<Rightarrow> unit console" where
  "drop_price x model w =
     (case redis_del (nx_now x) [pricing_key_of model] (aw_co (nw_auth w)) of
        (r, co) \<Rightarrow> (case r of Some _ \<Rightarrow> Inr () | None \<Rightarrow> Inl OtherThrown, w\<lparr>nw_auth := (nw_auth w)\<lparr>aw_co := co\<rparr>\<rparr>))"

text \<open>An update that inserts the row when there is none.\<close>

definition upsert :: "('d \<Rightarrow> bool) \<Rightarrow> 'd \<Rightarrow> ('d \<Rightarrow> 'd) \<Rightarrow> 'd list \<Rightarrow> 'd list" where
  "upsert here blank f ds = (if find_one here ds = None then ds @ [f blank] else update_one here f ds)"

definition find_price :: "string \<Rightarrow> model_pricing_doc console" where
  "find_price model = db (\<lambda>w. (case find_one (\<lambda>d. mp_id d = model) (console_prices w) of
      Some d \<Rightarrow> Inr d | None \<Rightarrow> Inl (Gateway (not_found ''pricing row disappeared immediately after write'')), w))"

definition upsert_pricing :: "console_outside \<Rightarrow> members \<Rightarrow> model_pricing_doc console" where
  "upsert_pricing x input =
     seq (from_result (a_name (or_else (get_field ''model'' input) (get_field ''_id'' input)) ''model'' 200)) (\<lambda>model.
     seq (from_result (price_patch input)) (\<lambda>f.
     seq (db (\<lambda>w. (Inr (), put_prices (upsert (\<lambda>d. mp_id d = model) (blank_price model) f (console_prices w)) w))) (\<lambda>_.
     seq (drop_price x model) (\<lambda>_. find_price model))))"

definition delete_pricing :: "console_outside \<Rightarrow> string \<Rightarrow> unit console" where
  "delete_pricing x model =
     seq (db (\<lambda>w. (Inr (), put_prices (remove_first (\<lambda>d. mp_id d = model) (console_prices w)) w))) (\<lambda>_. drop_price x model)"

subsection \<open>Renamings and group ratios\<close>

abbreviation console_mappings :: "console_world \<Rightarrow> model_mapping_doc list" where
  "console_mappings w \<equiv> rw_mappings (nw_routing w)"

definition put_mappings :: "model_mapping_doc list \<Rightarrow> console_world \<Rightarrow> console_world" where
  "put_mappings ms w = w\<lparr>nw_routing := (nw_routing w)\<lparr>rw_mappings := ms\<rparr>\<rparr>"

definition mapping_json :: "model_mapping_doc \<Rightarrow> json" where
  "mapping_json m = JObj
     ([(''_id'', JStr (mm_id m)), (''from'', JStr (mm_from m)), (''to'', JStr (mm_to m)), (''createdAt'', moment_json (mm_created_at m))] @
      if_given ''channelId'' (map_option JStr (mm_channel_id m)))"

definition mapping_keys :: "(model_mapping_doc \<Rightarrow> string list option) list" where
  "mapping_keys = [\<lambda>m. Some [mm_id m], \<lambda>m. Some (mm_from m # (case mm_channel_id m of Some c \<Rightarrow> [c] | None \<Rightarrow> []))]"

definition list_mappings :: "model_mapping_doc list console" where
  "list_mappings = db (\<lambda>w. (Inr (take 500 (console_mappings w)), w))"

definition new_mapping :: "console_outside \<Rightarrow> members \<Rightarrow> thrown + model_mapping_doc" where
  "new_mapping x input =
     (case a_name (get_field ''from'' input) ''from'' 200 of
        Inl e \<Rightarrow> Inl e
      | Inr a \<Rightarrow> (case a_name (get_field ''to'' input) ''to'' 200 of
          Inl e \<Rightarrow> Inl e
        | Inr b \<Rightarrow>
            let cid = given_text (get_field ''channelId'' input)
            in Inr \<lparr>mm_id = (case cid of Some c \<Rightarrow> c @ '':'' @ a | None \<Rightarrow> a), mm_from = a, mm_to = b, mm_channel_id = cid,
                 mm_created_at = nx_now x\<rparr>))"

text \<open>The update sets what the new row has, so an older \<open>channelId\<close> stays when it has none.\<close>

definition set_mapping :: "model_mapping_doc \<Rightarrow> model_mapping_doc \<Rightarrow> model_mapping_doc" where
  "set_mapping m old = m\<lparr>mm_channel_id := (case mm_channel_id m of Some c \<Rightarrow> Some c | None \<Rightarrow> mm_channel_id old)\<rparr>"

definition upsert_mapping :: "console_outside \<Rightarrow> members \<Rightarrow> model_mapping_doc console" where
  "upsert_mapping x input =
     seq (from_result (new_mapping x input)) (\<lambda>m.
     seq (db (\<lambda>w.
        stored (if find_one (\<lambda>d. mm_id d = mm_id m) (console_mappings w) = None then insert_row mapping_keys m (console_mappings w)
                else update_row mapping_keys (\<lambda>d. mm_id d = mm_id m) (set_mapping m) (console_mappings w)) put_mappings () w)) (\<lambda>_.
     seq (drop_abilities x) (\<lambda>_. give m)))"

definition delete_mapping :: "console_outside \<Rightarrow> string \<Rightarrow> unit console" where
  "delete_mapping x i =
     seq (db (\<lambda>w. (Inr (), put_mappings (remove_first (\<lambda>d. mm_id d = i) (console_mappings w)) w))) (\<lambda>_. drop_abilities x)"

definition ratio_json :: "string \<Rightarrow> jsnum \<Rightarrow> (int \<times> string option) option \<Rightarrow> json" where
  "ratio_json grp ratio note = JObj
     ([(''_id'', JStr grp), (''ratio'', JNum ratio)] @
      (case note of Some (t, d) \<Rightarrow> (''updatedAt'', moment_json t) # if_given ''description'' (map_option JStr d) | None \<Rightarrow> []))"

definition list_group_ratios :: "json list console" where
  "list_group_ratios = db (\<lambda>w.
     (Inr (map (\<lambda>(g, r). ratio_json g r (map_of (nw_ratio_notes w) g)) (take 200 (pw_group_ratios (nw_pricing w)))), w))"

definition upsert_group_ratio :: "console_outside \<Rightarrow> members \<Rightarrow> (string \<times> json) console" where
  "upsert_group_ratio x input =
     seq (from_result (a_name (or_else (get_field ''group'' input) (get_field ''_id'' input)) ''group'' 64)) (\<lambda>grp.
     seq (from_result (non_negative (get_field ''ratio'' input) ''ratio'')) (\<lambda>ratio.
       db (\<lambda>w.
         let given = (case get_field ''description'' input of Some (JStr d) \<Rightarrow> Some (take 500 d) | _ \<Rightarrow> None);
             old = Option.bind (map_of (nw_ratio_notes w) grp) snd
         in (Inr (grp, ratio_json grp ratio (Some (nx_now x, given))),
             w\<lparr>nw_pricing := (nw_pricing w)\<lparr>pw_group_ratios := put grp ratio (pw_group_ratios (nw_pricing w))\<rparr>,
               nw_ratio_notes := put grp (nx_now x, if given = None then old else given) (nw_ratio_notes w)\<rparr>))))"

subsection \<open>Redemption codes\<close>

definition max_batch :: rat where "max_batch = 500"
definition max_redeem_attempts :: int where "max_redeem_attempts = 10"

definition code_digest_for :: "(string \<Rightarrow> string) \<Rightarrow> string \<Rightarrow> string" where
  "code_digest_for sha code = sha (''redeem:'' @ code)"

definition code_keys :: "(redemption_code \<Rightarrow> string list option) list" where
  "code_keys = [\<lambda>c. Some [rc_id c], \<lambda>c. Some [rc_digest c]]"

text \<open>The number of codes; a count that is not a number makes none.\<close>

definition batch_size :: "jsnum \<Rightarrow> nat" where
  "batch_size n = (case n of
      JFin q \<Rightarrow> nat \<lfloor>min (max (of_int \<lfloor>q\<rfloor>) 1) max_batch\<rfloor> | JPosInf \<Rightarrow> nat \<lfloor>max_batch\<rfloor> | JNegInf \<Rightarrow> 1 | JNaN \<Rightarrow> 0)"

definition new_code :: "console_outside \<Rightarrow> int \<Rightarrow> string \<Rightarrow> int option \<Rightarrow> nat \<Rightarrow> redemption_code" where
  "new_code x quota by expires i =
     (let code = js_upper (nx_random x (ForCode i)) in
      \<lparr>rc_id = nx_random x (ForCodeRow i), rc_digest = code_digest_for (nx_sha x) code, rc_prefix = take 4 code, rc_quota = quota,
       rc_status = CodeUnused, rc_batch_id = nx_random x ForBatch, rc_created_by = by, rc_used_by = None, rc_used_at = None,
       rc_expires_at = expires, rc_created_at = nx_now x\<rparr>)"

definition create_redemption_batch ::
    "console_outside \<Rightarrow> jsnum \<Rightarrow> jsnum \<Rightarrow> string \<Rightarrow> int option \<Rightarrow> (string \<times> string list) console" where
  "create_redemption_batch x asked quota by expires =
     seq (from_result (non_negative (Some (JNum quota)) ''quota'')) (\<lambda>q.
     seq (from_result (case quota_amount q ''quota'' of Inl e \<Rightarrow> Inl (Gateway e) | Inr a \<Rightarrow> Inr a)) (\<lambda>amount.
       db (\<lambda>w.
         (case insert_rows code_keys (map (new_code x amount by expires) [0..<batch_size asked]) (nw_codes w) of
            (fine, rows) \<Rightarrow>
              (if fine then Inr (nx_random x ForBatch, map (\<lambda>i. js_upper (nx_random x (ForCode i))) [0..<batch_size asked])
               else Inl OtherThrown, w\<lparr>nw_codes := rows\<rparr>)))))"

definition code_status_text :: "code_status \<Rightarrow> string" where
  "code_status_text s = (case s of CodeUnused \<Rightarrow> ''unused'' | CodeUsed \<Rightarrow> ''used'' | CodeDisabled \<Rightarrow> ''disabled'')"

definition code_view :: "redemption_code \<Rightarrow> json" where
  "code_view c = JObj
     ([(''_id'', JStr (rc_id c)), (''codePrefix'', JStr (rc_prefix c)), (''quota'', int_json (rc_quota c)),
       (''status'', JStr (code_status_text (rc_status c))), (''batchId'', JStr (rc_batch_id c)), (''createdBy'', JStr (rc_created_by c)),
       (''createdAt'', moment_json (rc_created_at c))] @
      if_given ''usedBy'' (map_option JStr (rc_used_by c)) @ if_given ''usedAt'' (map_option moment_json (rc_used_at c)) @
      if_given ''expiresAt'' (map_option moment_json (rc_expires_at c)))"

definition list_redemption_codes :: "string \<Rightarrow> json list console" where
  "list_redemption_codes batch = db (\<lambda>w.
     (Inr (map code_view (take 500 (filter (\<lambda>c. batch = [] \<or> rc_batch_id c = batch) (nw_codes w)))), w))"

text \<open>\<open>toUpperCase\<close>, then only \<open>A-Z0-9\<close>: of the letters beyond ASCII only the sharp s leaves something.\<close>

definition normal_code :: "string \<Rightarrow> string" where
  "normal_code s = filter (\<lambda>c. is_digit c \<or> 65 \<le> (of_char c :: nat) \<and> (of_char c :: nat) \<le> 90)
     (concat (map (\<lambda>c. if of_char c = (223 :: nat) then ''SS'' else js_upper [c]) s))"

definition claimable :: "string \<Rightarrow> int \<Rightarrow> redemption_code \<Rightarrow> bool" where
  "claimable digest now c \<longleftrightarrow>
     rc_digest c = digest \<and> rc_status c = CodeUnused \<and> (case rc_expires_at c of None \<Rightarrow> True | Some e \<Rightarrow> now < e)"

text \<open>What the transaction does: the claim and the credit together, or nothing.\<close>

definition claim_and_credit :: "int \<Rightarrow> string \<Rightarrow> string \<Rightarrow> (int \<times> int) console" where
  "claim_and_credit now digest owner w =
     (case find_one (\<lambda>u. usr_id u = owner \<and> usr_status u = Enabled) (console_users w) of
        None \<Rightarrow> (Inl (bad_request ''this account must be active and its quota ledger upgraded''), w)
      | Some u \<Rightarrow>
          if usr_ledger_version u \<noteq> Some quota_ledger_version
          then (Inl (bad_request ''this account must be active and its quota ledger upgraded''), w)
          else (case find_one (claimable digest now) (nw_codes w) of
              None \<Rightarrow> (Inl (bad_field ''that code is not valid'' ''code''), w)
            | Some c \<Rightarrow>
                (case quota_amount (js_int (rc_quota c)) ''quota'' of
                   Inl e \<Rightarrow> (Inl (Gateway e), w)
                 | Inr credit \<Rightarrow>
                     if \<not> safe_int (usr_quota u + credit) then (Inl (bad_request ''account balance is too large''), w)
                     else (Inr (credit, usr_quota u + credit),
                       put_users (update_one (\<lambda>u. usr_id u = owner) (\<lambda>u. u\<lparr>usr_quota := usr_quota u + credit, usr_updated_at := now\<rparr>)
                           (console_users w))
                         (w\<lparr>nw_codes := update_one (claimable digest now)
                            (\<lambda>c. c\<lparr>rc_status := CodeUsed, rc_used_by := Some owner, rc_used_at := Some now\<rparr>) (nw_codes w)\<rparr>)))))"

definition redeem_code :: "console_outside \<Rightarrow> string \<Rightarrow> string \<Rightarrow> (int \<times> int) console" where
  "redeem_code x raw owner =
     seq (from_result (a_name (Some (JStr raw)) ''code'' 64)) (\<lambda>typed.
     seq (on_shared (enforce_attempt_limit (nx_now x) (render (KRedeemAttempts owner)) max_redeem_attempts 3600
            ''too many redemption attempts, try again later'')) (\<lambda>_.
       db (claim_and_credit (nx_now x) (code_digest_for (nx_sha x) (normal_code typed)) owner)))"

subsection \<open>Settings\<close>

definition get_setting :: "string \<Rightarrow> json \<Rightarrow> json console" where
  "get_setting key fallback = db (\<lambda>w. (Inr (case map_of (nw_settings w) key of
      None \<Rightarrow> fallback | Some v \<Rightarrow> if v = JNull then fallback else v), w))"

definition set_setting :: "string \<Rightarrow> json option \<Rightarrow> unit console" where
  "set_setting key v =
     seq (from_result (a_name (Some (JStr key)) ''key'' 120)) (\<lambda>k.
       db (\<lambda>w. (Inr (), w\<lparr>nw_settings := put k (case v of Some j \<Rightarrow> j | None \<Rightarrow> JNull) (nw_settings w)\<rparr>)))"

definition list_settings :: "json list console" where
  "list_settings = db (\<lambda>w. (Inr (map (\<lambda>(k, v). JObj [(''key'', JStr k), (''value'', v)]) (take 200 (nw_settings w))), w))"

subsection \<open>Reports\<close>

record usage_totals =
  us_bucket_prefix :: string
  us_requests :: int
  us_errors :: int
  us_quota :: int
  us_usd :: rat
  us_prompt_tokens :: int
  us_completion_tokens :: int
  us_top_models :: "(string \<times> int \<times> int) list"

definition counted_rollups :: "string \<Rightarrow> usage_rollup_doc list \<Rightarrow> usage_rollup_doc list" where
  "counted_rollups prefix rows = filter (\<lambda>r. starts_with (take 6 prefix) (ro_bucket r)) rows"

fun by_model :: "(string \<times> int \<times> int) list \<Rightarrow> usage_rollup_doc list \<Rightarrow> (string \<times> int \<times> int) list" where
  "by_model m [] = m"
| "by_model m (r # rs) =
     (if ro_scope r \<noteq> ScopeModel then by_model m rs
      else (case (case map_of m (ro_key r) of Some e \<Rightarrow> e | None \<Rightarrow> (0, 0)) of
          (n, q) \<Rightarrow> by_model (put (ro_key r) (n + ro_requests r, q + ro_quota r) m) rs))"

definition summary_of :: "env \<Rightarrow> string \<Rightarrow> usage_rollup_doc list \<Rightarrow> usage_totals" where
  "summary_of env prefix all_rows =
     (let rows = counted_rollups prefix (take 5000 all_rows); users = filter (\<lambda>r. ro_scope r = ScopeUser) rows;
          quota = sum_list (map ro_quota users)
      in \<lparr>us_bucket_prefix = prefix, us_requests = sum_list (map ro_requests users), us_errors = sum_list (map ro_errors users),
          us_quota = quota, us_usd = quota_to_usd env (of_int quota), us_prompt_tokens = sum_list (map ro_prompt_tokens users),
          us_completion_tokens = sum_list (map ro_completion_tokens users),
          us_top_models = take 10 (sort_key (\<lambda>(m, n, q). - q) (by_model [] rows))\<rparr>)"

definition usage_summary :: "console_outside \<Rightarrow> string option \<Rightarrow> usage_totals console" where
  "usage_summary x prefix = db (\<lambda>w.
     (Inr (summary_of (nx_env x) (case prefix of Some p \<Rightarrow> p | None \<Rightarrow> month_bucket (nx_now x)) (ud_rollups (nw_usage w))), w))"

definition summary_json :: "usage_totals \<Rightarrow> json" where
  "summary_json s = JObj
     [(''bucketPrefix'', JStr (us_bucket_prefix s)), (''requests'', int_json (us_requests s)), (''errors'', int_json (us_errors s)),
      (''quota'', int_json (us_quota s)), (''usd'', JNum (JFin (us_usd s))), (''promptTokens'', int_json (us_prompt_tokens s)),
      (''completionTokens'', int_json (us_completion_tokens s)),
      (''topModels'', JArr (map (\<lambda>(m, n, q). JObj [(''model'', JStr m), (''requests'', int_json n), (''quota'', int_json q)])
         (us_top_models s)))]"

record usage_query =
  uq_user_id :: string
  uq_token_id :: string
  uq_channel_id :: string
  uq_model :: string
  uq_status :: string
  uq_bucket :: string

definition wanted_usage :: "usage_query \<Rightarrow> usage_log_doc \<Rightarrow> bool" where
  "wanted_usage q d \<longleftrightarrow>
     (uq_user_id q = [] \<or> ul_user_id d = uq_user_id q) \<and> (uq_token_id q = [] \<or> ul_token_id d = uq_token_id q) \<and>
     (uq_channel_id q = [] \<or> ul_channel_id d = uq_channel_id q) \<and> (uq_model q = [] \<or> ul_model d = uq_model q) \<and>
     (uq_status q = [] \<or> status_text (ul_status d) = uq_status q)"

definition list_usage :: "console_outside \<Rightarrow> usage_query \<Rightarrow> rat \<times> rat \<Rightarrow> usage_log_doc list console" where
  "list_usage x q p = db (\<lambda>w.
     let bucket = (if uq_bucket q = [] then month_bucket (nx_now x) else uq_bucket q);
         rows = (case map_of (ud_logs (nw_usage w)) bucket of Some ds \<Rightarrow> ds | None \<Rightarrow> [])
     in (Inr (page p (sort_key (\<lambda>d. - ul_created_at d) (filter (wanted_usage q) rows))), w))"

definition audit_view :: "audit_row \<Rightarrow> json" where
  "audit_view a = JObj
     [(''_id'', JStr (au_id a)), (''actorId'', JStr (au_actor_id a)), (''actorRole'', JStr (role_text (au_actor_role a))),
      (''action'', JStr (au_action a)), (''targetType'', JStr (au_target_type a)), (''targetId'', JStr (au_target_id a)),
      (''meta'', au_meta a), (''ipHash'', JStr (au_ip_hash a)), (''createdAt'', moment_json (au_created_at a))]"

definition list_audit :: "rat \<times> rat \<Rightarrow> audit_row list console" where
  "list_audit p = db (\<lambda>w. (Inr (page p (sort_key (\<lambda>a. - au_created_at a) (nw_audit w))), w))"

definition console_overview :: "console_outside \<Rightarrow> json console" where
  "console_overview x =
     seq (usage_summary x None) (\<lambda>summary.
       db (\<lambda>w. (Inr (JObj
         [(''summary'', summary_json summary), (''siteName'', JStr (cfg_site_name (nx_env x))),
          (''quotaPerUnit'', JNum (JFin (cfg_quota_per_unit (nx_env x)))), (''month'', JStr (month_bucket (nx_now x))),
          (''inventory'', JObj
             [(''channels'', int_json (int (length (console_channels w)))),
              (''enabledChannels'', int_json (int (length (filter (\<lambda>c. ch_status c = Enabled \<and> \<not> ch_auto_disabled c) (console_channels w))))),
              (''tokens'', int_json (int (length (console_tokens w)))), (''users'', int_json (int (length (console_users w))))]),
          (''coordination'', JStr (cfg_coordination_backend (nx_env x)))]), w)))"

end
