(* ===== verification/ScheduledJobs.thy ===== *)
theory ScheduledJobs
  imports ConsoleCatalog "HOL-Library.List_Lexorder" "HOL-Library.Char_ord"
begin

text \<open>
  The scheduled jobs, \<open>src/lib/cron/jobs.ts\<close>, and their gate \<open>guard.ts\<close>. A job reads one clock. The probes of
  the health check run one after another, in the code a bounded number of them overlaps. Polling of
  tasks is in TaskPolling; the upkeep of indexes is left out.
\<close>

subsection \<open>The gate\<close>

definition cfg_cron_secret :: "env \<Rightarrow> string" where
  "cfg_cron_secret env = env_str env ''CRON_SECRET'' []"

definition presented_secret :: "headers \<Rightarrow> string" where
  "presented_secret hs =
     (let h = or_empty (map_of hs ''authorization'') in
      if starts_with ''bearer '' (js_lower h) then js_trim (drop 7 h)
      else js_trim (or_empty (map_of hs ''x-cron-secret'')))"

definition assert_cron_authorized :: "env \<Rightarrow> (string \<Rightarrow> string) \<Rightarrow> headers \<Rightarrow> thrown + unit" where
  "assert_cron_authorized env sha hs =
     (if \<not> production_ready env then Inl (ConfigThrown (production_issues env))
      else if cfg_cron_secret env = []
      then Inl (Gateway (gateway_error (err_init ConfigurationErr 503 ''CRON_SECRET is not configured'')))
      else if \<not> timing_safe_equal_hex (sha (''cron:'' @ presented_secret hs)) (sha (''cron:'' @ cfg_cron_secret env))
      then Inl (Gateway (gateway_error (err_init InsufficientPermissions 403 ''cron authorization failed'')))
      else Inr ())"

text \<open>The response of a job: its members after those of the report, or the error.\<close>

definition spread :: "members \<Rightarrow> members \<Rightarrow> members" where
  "spread ms onto = fold (\<lambda>(k, v). put_field k v) ms onto"

definition run_cron_job ::
    "env \<Rightarrow> (string \<Rightarrow> string) \<Rightarrow> int \<Rightarrow> int \<Rightarrow> headers \<Rightarrow> string \<Rightarrow> ('w \<Rightarrow> (thrown + members) \<times> 'w) \<Rightarrow> 'w \<Rightarrow>
     string response \<times> 'w" where
  "run_cron_job env sha started ended hs name job w =
     (case assert_cron_authorized env sha hs of
        Inl e \<Rightarrow> (error_response e ROpenai plain_init, w)
      | Inr _ \<Rightarrow> (case job w of
          (Inl e, w2) \<Rightarrow> (error_response e ROpenai plain_init, w2)
        | (Inr ms, w2) \<Rightarrow>
            (json_response (JObj (spread ms [(''job'', JStr name), (''ok'', JBool True), (''elapsedMs'', int_json (ended - started))]))
               plain_init, w2)))"

subsection \<open>The ledgers\<close>

text \<open>At most twenty batches; each takes the lock with an owner of its own.\<close>

fun flush_passes :: "nat \<Rightarrow> int \<Rightarrow> int \<Rightarrow> (nat \<Rightarrow> string) \<Rightarrow> nat \<Rightarrow> usage_world \<Rightarrow> (thrown + nat) \<times> usage_world" where
  "flush_passes 0 now later owner flushed w = (Inr flushed, w)"
| "flush_passes (Suc n) now later owner flushed w =
     (case flush_usage_buffer now later (owner n) 500 w of
        (Inl e, w2) \<Rightarrow> (Inl e, w2)
      | (Inr moved, w2) \<Rightarrow>
          if moved = 0 then (Inr flushed, w2) else flush_passes n now later owner (flushed + moved) w2)"

definition flush_usage :: "int \<Rightarrow> int \<Rightarrow> (nat \<Rightarrow> string) \<Rightarrow> usage_world \<Rightarrow> (thrown + members) \<times> usage_world" where
  "flush_usage now later owner w =
     (case flush_passes 20 now later owner 0 w of
        (Inl e, w2) \<Rightarrow> (Inl e, w2)
      | (Inr flushed, w2) \<Rightarrow> (case pending_usage_count later w2 of
          (n, w3) \<Rightarrow> (Inr [(''flushed'', int_json (int flushed)), (''pending'', JNum n)], w3)))"

text \<open>The filter compares the first four digits of the month with the bucket, the year.\<close>

definition rollup_usage :: "int \<Rightarrow> int \<Rightarrow> (nat \<Rightarrow> string) \<Rightarrow> usage_world \<Rightarrow> (thrown + members) \<times> usage_world" where
  "rollup_usage now later owner w =
     (case flush_usage now later owner w of
        (Inl e, w2) \<Rightarrow> (Inl e, w2)
      | (Inr drained, w2) \<Rightarrow>
          let rows = filter (\<lambda>r. ro_scope r = ScopeUser) (ud_rollups (uw_db w2));
              mine = filter (\<lambda>r. starts_with (take 4 (month_bucket later)) (ro_bucket r)) rows
          in (Inr (drained @ [(''accounts'', int_json (int (length rows))), (''requests'', int_json (sum_list (map ro_requests mine))),
                (''errors'', int_json (sum_list (map ro_errors mine))), (''quota'', int_json (sum_list (map ro_quota mine)))]), w2))"

definition abandoned :: "int \<Rightarrow> quota_journal_doc \<Rightarrow> bool" where
  "abandoned now j \<longleftrightarrow> qj_state j = Pending \<and> (case qj_expires_at j of Some e \<Rightarrow> e \<le> now | None \<Rightarrow> False)"

definition reconcile_quota :: "int \<Rightarrow> int \<Rightarrow> string \<Rightarrow> quota_world \<Rightarrow> (thrown + members) \<times> quota_world" where
  "reconcile_quota now later owner w =
     (case flush_quota_settlements now later owner 500 w of
        (Inl e, w2) \<Rightarrow> (Inl (Gateway e), w2)
      | (Inr replayed, w2) \<Rightarrow>
          let holds = filter (abandoned later) (l_journal (qw_ledger w2));
              shown = take 25 (sort_key (\<lambda>j. case qj_expires_at j of Some e \<Rightarrow> e | None \<Rightarrow> 0) holds)
          in (Inr [(''replayed'', int_json (int replayed)), (''corrected'', int_json (int replayed)),
                (''pendingReview'', int_json (int (length holds))), (''requestIds'', JArr (map (JStr \<circ> qj_request_id) shown))], w2))"

subsection \<open>Tokens and partitions\<close>

definition ended_token :: "int \<Rightarrow> token_doc \<Rightarrow> bool" where
  "ended_token now t \<longleftrightarrow> (case tok_expires_at t of Some e \<Rightarrow> e \<le> now | None \<Rightarrow> False)"

fun expire_each :: "console_outside \<Rightarrow> token_doc list \<Rightarrow> nat \<Rightarrow> nat console" where
  "expire_each x [] n = give n"
| "expire_each x (t # ts) n =
     (if \<not> ended_token (nx_now x) t then expire_each x ts n
      else
        seq (write_token (tok_id t) (\<lambda>d. d\<lparr>tok_status := Disabled, tok_updated_at := nx_now x\<rparr>)) (\<lambda>_.
        seq (drop_token_cache x (tok_key_prefix t)) (\<lambda>_. expire_each x ts (Suc n))))"

definition expire_tokens :: "console_outside \<Rightarrow> members console" where
  "expire_tokens x =
     seq (db (\<lambda>w. (Inr (filter (\<lambda>t. tok_status t = Enabled) (console_tokens w)), w))) (\<lambda>enabled.
     seq (expire_each x enabled 0) (\<lambda>expired.
       give [(''examined'', int_json (int (length enabled))), (''expired'', int_json (int expired))]))"

text \<open>The month after a bucket; a month beyond the twelfth carries over, as in \<open>Date.UTC\<close>.\<close>

definition following_bucket :: "string \<Rightarrow> string" where
  "following_bucket current =
     (case (number_of_string (take 4 current), number_of_string (take 2 (drop 4 current))) of
        (JFin y, JFin m) \<Rightarrow>
          let months = \<lfloor>y\<rfloor> * 12 + \<lfloor>m\<rfloor> in show_int (months div 12) @ pad 2 (show_int (months mod 12 + 1))
      | _ \<Rightarrow> current)"

subsection \<open>The health check\<close>

definition cfg_channel_test_model :: "env \<Rightarrow> string" where
  "cfg_channel_test_model env = env_str env ''CHANNEL_TEST_MODEL'' ''gpt-4o-mini''"

definition probe_model :: "env \<Rightarrow> channel_doc \<Rightarrow> string" where
  "probe_model env c =
     (let first = (case ch_models c of m # _ \<Rightarrow> m | [] \<Rightarrow> cfg_channel_test_model env);
          model = (case ch_test_model c of Some t \<Rightarrow> if t \<noteq> [] then t else first | None \<Rightarrow> first)
      in if model = [] then cfg_channel_test_model env else model)"

definition probe_request :: "env \<Rightarrow> probe_outside \<Rightarrow> channel_doc \<Rightarrow> string \<Rightarrow> string \<Rightarrow> thrown + string \<times> request_init" where
  "probe_request env pb c model secret =
     (case dialect_for (ch_type c) of
        Inl e \<Rightarrow> Inl e
      | Inr wire \<Rightarrow>
        (case transform_request env (pb_ids pb) (pb_ids pb) DOpenai wire
            [(''model'', JStr model),
             (''messages'', JArr [JObj [(''role'', JStr ''user''), (''content'', JStr ''ping'')]]), (''max_tokens'', int_json 1)]
            (ModelName model) of
           Inl e \<Rightarrow> Inl e
         | Inr body \<Rightarrow>
           (case upstream_url_for env c Chat model False of
              Inl e \<Rightarrow> Inl e
            | Inr url \<Rightarrow>
              (case provider_auth_headers env (ch_type c) secret of
                 Inl e \<Rightarrow> Inl e
               | Inr auth \<Rightarrow>
                 (case build_upstream_headers (cfg_site_name env) [] auth (ch_headers c) (Some ''application/json'') None of
                    Inl e \<Rightarrow> Inl e
                  | Inr hs \<Rightarrow> Inr (url, \<lparr>rq_method = Some ''POST'', rq_headers = hs,
                      rq_body = TextBody (json_stringify (JObj body))\<rparr>))))))"

text \<open>A probe: whether it went well, and what there is to say.\<close>

definition probe_call ::
    "env \<Rightarrow> int \<Rightarrow> probe_outside \<Rightarrow> channel_doc \<Rightarrow> string \<Rightarrow> routing_world \<Rightarrow> (thrown + int) \<times> routing_world" where
  "probe_call env now pb c model w =
     (case pick_channel_key (pb_open pb) now (ch_id c) [] w of
        (Inl e, w2) \<Rightarrow> (Inl e, w2)
      | (Inr key, w2) \<Rightarrow>
          (case probe_request env pb c model (sk_secret key) of
             Inl e \<Rightarrow> (Inl e, w2)
           | Inr (url, init) \<Rightarrow> (pb_send pb url init, w2)))"

definition probe_report :: "string \<Rightarrow> bool \<Rightarrow> string option \<Rightarrow> json" where
  "probe_report cid fine detail = JObj ([(''channelId'', JStr cid), (''ok'', JBool fine)] @ if_given ''detail'' (map_option JStr detail))"

definition probe :: "env \<Rightarrow> int \<Rightarrow> probe_outside \<Rightarrow> channel_doc \<Rightarrow> routing_world \<Rightarrow> (bool \<times> json) \<times> routing_world" where
  "probe env now pb c w =
     (let model = probe_model env c in
      if model = [] then ((False, probe_report (ch_id c) False (Some ''no test model configured'')), w)
      else (case probe_call env now pb c model w of
          (Inl e, w2) \<Rightarrow>
            ((False, probe_report (ch_id c) False (Some (pb_message pb e))), snd (record_channel_outcome env now (ch_id c) False w2))
        | (Inr status, w2) \<Rightarrow>
            let fine = (200 \<le> status \<and> status \<le> 299)
            in ((fine, probe_report (ch_id c) fine (if fine then None else Some (''status '' @ show_int status))),
                snd (record_channel_outcome env now (ch_id c) fine w2))))"

fun probe_each :: "env \<Rightarrow> int \<Rightarrow> probe_outside \<Rightarrow> channel_doc list \<Rightarrow> routing_world \<Rightarrow> (bool \<times> json) list \<times> routing_world" where
  "probe_each env now pb [] w = ([], w)"
| "probe_each env now pb (c # cs) w =
     (case probe env now pb c w of (r, w2) \<Rightarrow> (case probe_each env now pb cs w2 of (rs, w3) \<Rightarrow> (r # rs, w3)))"

definition health_check :: "env \<Rightarrow> int \<Rightarrow> probe_outside \<Rightarrow> routing_world \<Rightarrow> (thrown + members) \<times> routing_world" where
  "health_check env now pb w =
     (if \<not> rw_db_ok w then (Inl OtherThrown, w)
      else (case probe_each env now pb (filter (\<lambda>c. ch_status c = Enabled) (rw_channels w)) w of
          (rs, w2) \<Rightarrow>
            (Inr [(''probed'', int_json (int (length rs))), (''healthy'', int_json (int (length (filter fst rs)))),
                (''results'', JArr (take 50 (map snd rs)))], snd (rebuild_abilities now w2))))"

subsection \<open>Prices\<close>

definition served_models :: "channel_doc list \<Rightarrow> string list" where
  "served_models cs = rev (remdups (rev (filter (\<lambda>m. m \<noteq> []) (concat (map ch_models (filter (\<lambda>c. ch_status c = Enabled) cs))))))"

fun warm_each :: "env \<Rightarrow> int \<Rightarrow> string list \<Rightarrow> pricing_world \<Rightarrow> pricing_world" where
  "warm_each env now [] w = w"
| "warm_each env now (m # ms) w = warm_each env now ms (snd (get_model_pricing env now m w))"

definition refresh_pricing :: "env \<Rightarrow> int \<Rightarrow> channel_doc list \<Rightarrow> pricing_world \<Rightarrow> (thrown + members) \<times> pricing_world" where
  "refresh_pricing env now cs w =
     (if \<not> pw_db_ok w then (Inl OtherThrown, w)
      else
        let names = served_models cs; explicit = map mp_id (pw_pricing w); missing = sort (filter (\<lambda>m. m \<notin> set explicit) names)
        in (Inr [(''warmed'', int_json (int (length names))), (''explicit'', int_json (int (length (remdups explicit)))),
              (''usingDefaults'', int_json (int (length missing))), (''models'', JArr (map JStr (take 50 missing)))],
            warm_each env now names w))"

end
