(* ===== verification/ConsoleLogin.thy ===== *)
theory ConsoleLogin
  imports ConsoleStore
begin

text \<open>
  Signing in and out, \<open>src/lib/admin/login.ts\<close>: passwords, registration, sessions and the flow over GitHub. GitHub's two
  answers are arguments: the text of the token exchange, and whether the profile request succeeded with
  its text. A reply without a body has an empty one.
\<close>

definition max_login_attempts :: int where "max_login_attempts = 10"
definition attempt_window_sec :: int where "attempt_window_sec = 900"
definition state_ttl_ms :: int where "state_ttl_ms = 10 * 60 * 1000"
definition max_login_body_bytes :: int where "max_login_body_bytes = 64 * 1024"

definition attempt_key :: "string \<Rightarrow> string" where
  "attempt_key ip_hash = ''login:att:'' @ ip_hash"

definition configuration_missing :: "string \<Rightarrow> thrown" where
  "configuration_missing msg = Gateway (gateway_error (err_init ConfigurationErr 503 msg))"

definition redirect_to :: "string \<Rightarrow> string list \<Rightarrow> string response" where
  "redirect_to location cookies = with_cookies \<lparr>rs_status = 302, rs_headers = [(''location'', location)], rs_body = []\<rparr> cookies"

definition public_user :: "user_doc \<Rightarrow> json" where
  "public_user u = JObj
     ([(''id'', JStr (usr_id u)), (''username'', JStr (usr_username u)), (''displayName'', JStr (usr_display_name u))] @
      if_given ''email'' (map_option JStr (usr_email u)) @
      [(''role'', JStr (role_text (usr_role u))), (''group'', JStr (usr_group u)), (''quota'', int_json (usr_quota u)),
       (''usedQuota'', int_json (usr_used_quota u)), (''requestCount'', int_json (usr_request_count u))])"

definition read_login_body :: "env \<Rightarrow> console_request \<Rightarrow> thrown + members" where
  "read_login_body env req =
     (if nq_method req = ''GET'' \<or> nq_method req = ''HEAD'' then Inr []
      else (case read_body (qi_body (nq_in req)) max_login_body_bytes of
          Inl e \<Rightarrow> Inl e
        | Inr t \<Rightarrow>
            if js_trim t = [] then Inr []
            else (case parse_body env (cfg_max_request_body_bytes env) t of Inl e \<Rightarrow> Inl e | Inr j \<Rightarrow> Inr (as_record (Some j)))))"

text \<open>\<open>String(v ?? "")\<close>.\<close>

definition text_or_empty :: "json option \<Rightarrow> string" where
  "text_or_empty v = (case v of Some j \<Rightarrow> if j = JNull then [] else js_text j | None \<Rightarrow> [])"

abbreviation headers_of :: "console_request \<Rightarrow> headers" where
  "headers_of req \<equiv> qi_headers (nq_in req)"

definition attempts :: "console_outside \<Rightarrow> string \<Rightarrow> int \<Rightarrow> string \<Rightarrow> unit console" where
  "attempts x key n msg = on_shared (enforce_attempt_limit (nx_now x) key n attempt_window_sec msg)"

definition trail :: "console_outside \<Rightarrow> nat \<Rightarrow> string \<Rightarrow> user_role \<Rightarrow> string \<Rightarrow> string \<Rightarrow> string \<Rightarrow> unit console" where
  "trail x i actor role action target ip_hash = audited x i
     \<lparr>ae_actor_id = actor, ae_actor_role = role, ae_action = action, ae_target_type = ''user'', ae_target_id = target,
      ae_meta = None, ae_ip_hash = ip_hash\<rparr>"

subsection \<open>Passwords\<close>

definition stored_password :: "user_doc option \<Rightarrow> password_record" where
  "stored_password u = (case u of
      Some u \<Rightarrow> \<lparr>pw_hash = usr_password_hash u, pw_salt = usr_password_salt u\<rparr> | None \<Rightarrow> \<lparr>pw_hash = None, pw_salt = None\<rparr>)"

text \<open>The stronger hash is written only over the credential that was verified.\<close>

definition upgrade_password :: "console_outside \<Rightarrow> user_doc \<Rightarrow> string \<Rightarrow> unit console" where
  "upgrade_password x u password =
     (if \<not> needs_password_upgrade (stored_password (Some u)) then give ()
      else
        seq (from_result (hash_password (nx_derive x) (nx_random x ForSalt) password)) (\<lambda>r.
          db (\<lambda>w. (Inr (), put_users (update_one
             (\<lambda>v. usr_id v = usr_id u \<and> usr_password_hash v = usr_password_hash u \<and> usr_password_salt v = usr_password_salt u)
             (\<lambda>v. v\<lparr>usr_password_hash := pw_hash r, usr_password_salt := pw_salt r\<rparr>) (console_users w)) w))))"

definition touch_login :: "console_outside \<Rightarrow> user_doc \<Rightarrow> unit console" where
  "touch_login x u = db (\<lambda>w. (Inr (), put_users (update_one (\<lambda>v. usr_id v = usr_id u)
     (\<lambda>v. v\<lparr>usr_last_login_at := Some (nx_now x)\<rparr>) (console_users w)) w))"

definition signed_in :: "console_outside \<Rightarrow> user_doc \<Rightarrow> string \<Rightarrow> string \<Rightarrow> int option \<Rightarrow> string response" where
  "signed_in x u token csrf status = with_cookies
     (json_response (JObj [(''user'', public_user u), (''csrf'', JStr csrf)]) (plain_init\<lparr>ri_status := status\<rparr>))
     (session_cookies (nx_env x) token csrf)"

definition accepted :: "console_outside \<Rightarrow> string \<Rightarrow> user_doc option \<Rightarrow> user_doc option" where
  "accepted x password u = (case u of
      Some u \<Rightarrow> if fst (verify_password (nx_derive x) password (stored_password (Some u))) \<and> usr_status u = Enabled then Some u else None
    | None \<Rightarrow> None)"

definition login :: "console_outside \<Rightarrow> console_request \<Rightarrow> string response console" where
  "login x req =
     seq (from_result (read_login_body (nx_env x) req)) (\<lambda>body.
       let username = js_trim (text_or_empty (get_field ''username'' body)); password = text_or_empty (get_field ''password'' body);
           ip_hash = caller_ip_hash x (headers_of req)
       in if username = [] \<or> password = [] then throw (bad_request ''username and password are required'')
          else
            seq (attempts x (attempt_key ip_hash) max_login_attempts ''too many sign-in attempts, try again later'') (\<lambda>_.
            seq (find_user_by_username username) (\<lambda>found.
              case accepted x password found of
                None \<Rightarrow>
                  seq (trail x 0 (case found of Some u \<Rightarrow> usr_id u | None \<Rightarrow> ''unknown'')
                      (case found of Some u \<Rightarrow> usr_role u | None \<Rightarrow> RoleUser) ''auth.login.failed'' username ip_hash) (\<lambda>_.
                    throw (refuse ''those credentials are not valid''))
              | Some u \<Rightarrow>
                  seq (upgrade_password x u password) (\<lambda>_.
                  seq (from_result (create_session x u)) (\<lambda>(token, csrf, _).
                  seq (touch_login x u) (\<lambda>_.
                  seq (trail x 0 (usr_id u) (usr_role u) ''auth.login'' (usr_id u) ip_hash) (\<lambda>_.
                    give (signed_in x u token csrf None))))))))"

definition cfg_registration_enabled :: "env \<Rightarrow> bool" where
  "cfg_registration_enabled env = env_bool env ''REGISTRATION_ENABLED'' True"

text \<open>What a visitor may say about the account: its name, shown name and address.\<close>

definition registration_input :: "members \<Rightarrow> members" where
  "registration_input body =
     if_given ''username'' (get_field ''username'' body) @ if_given ''displayName'' (get_field ''displayName'' body) @
     if_given ''email'' (get_field ''email'' body) @ [(''role'', JStr ''user'')]"

definition register :: "console_outside \<Rightarrow> console_request \<Rightarrow> string response console" where
  "register x req =
     (if \<not> cfg_registration_enabled (nx_env x) then throw (refuse ''self-registration is disabled on this deployment'')
      else
        seq (from_result (read_login_body (nx_env x) req)) (\<lambda>body.
        seq (attempts x (''register:att:'' @ caller_ip_hash x (headers_of req)) 5 ''too many registration attempts, try again later'') (\<lambda>_.
        seq (from_result (assert_password_acceptable (get_field ''password'' body))) (\<lambda>password.
        seq (from_result (hash_password (nx_derive x) (nx_random x ForSalt) password)) (\<lambda>r.
        seq (create_user x (registration_input body) \<lparr>cd_password = r, cd_github_id = None\<rparr>) (\<lambda>u.
        seq (from_result (create_session x u)) (\<lambda>(token, csrf, _).
          give (signed_in x u token csrf (Some 201)))))))))"

definition session_of :: "console_outside \<Rightarrow> console_request \<Rightarrow> session_payload option console" where
  "session_of x req w = (read_session x (headers_of req) w, w)"

definition signed_out :: "env \<Rightarrow> string response" where
  "signed_out env = with_cookies (json_response (JObj [(''signedOut'', JBool True)]) plain_init) (cleared_session_cookies env)"

definition logout :: "console_outside \<Rightarrow> console_request \<Rightarrow> string response console" where
  "logout x req =
     seq (session_of x req) (\<lambda>s. case s of
       None \<Rightarrow> give (signed_out (nx_env x))
     | Some p \<Rightarrow>
         seq (from_result (assert_csrf x req p)) (\<lambda>_.
         seq (revoke_session p) (\<lambda>_.
         seq (trail x 0 (sp_sub p) (sp_role p) ''auth.logout'' (sp_sub p) (caller_ip_hash x (headers_of req))) (\<lambda>_.
           give (signed_out (nx_env x))))))"

definition no_user :: "string response" where
  "no_user = json_response (JObj [(''user'', JNull)]) plain_init"

definition current_session :: "console_outside \<Rightarrow> console_request \<Rightarrow> string response console" where
  "current_session x req =
     seq (session_of x req) (\<lambda>s. case s of
       None \<Rightarrow> give no_user
     | Some p \<Rightarrow>
         seq (find_user (sp_sub p)) (\<lambda>u. case u of
           None \<Rightarrow> give (with_cookies no_user (cleared_session_cookies (nx_env x)))
         | Some u \<Rightarrow>
             if usr_status u \<noteq> Enabled then give (with_cookies no_user (cleared_session_cookies (nx_env x)))
             else give (json_response (JObj [(''user'', public_user u)]) plain_init)))"

subsection \<open>GitHub\<close>

definition cfg_github_client_id :: "env \<Rightarrow> string" where
  "cfg_github_client_id env = env_str env ''GITHUB_CLIENT_ID'' []"

definition cfg_github_client_secret :: "env \<Rightarrow> string" where
  "cfg_github_client_secret env = env_str env ''GITHUB_CLIENT_SECRET'' []"

definition github_configured :: "env \<Rightarrow> thrown + unit" where
  "github_configured env =
     (if cfg_github_client_id env = [] \<or> cfg_github_client_secret env = []
      then Inl (configuration_missing ''GitHub sign-in is not configured'')
      else if cfg_public_base_url env = [] then Inl (configuration_missing ''PUBLIC_BASE_URL must be set for OAuth callbacks'')
      else Inr ())"

text \<open>The serialiser of \<open>URLSearchParams\<close>.\<close>

definition form_encode :: "string \<Rightarrow> string" where
  "form_encode s = concat (map (\<lambda>n.
     if n = 32 then ''+''
     else if is_alnum (char_of n) \<or> n \<in> {42, 45, 46, 95} then [char_of n]
     else [CHR ''%'', upper_hex (n div 16), upper_hex (n mod 16)]) (utf8_bytes s))"

definition with_params :: "string \<Rightarrow> (string \<times> string) list \<Rightarrow> string" where
  "with_params base ps = base @ ''?'' @ join_with ''&'' (map (\<lambda>(k, v). form_encode k @ ''='' @ form_encode v) ps)"

definition callback_url :: "env \<Rightarrow> string" where
  "callback_url env = cfg_public_base_url env @ ''/api/auth/github/callback''"

definition new_state :: "console_outside \<Rightarrow> console_request \<Rightarrow> oauth_state" where
  "new_state x req =
     \<lparr>os_id = nx_random x ForState, os_redirect = safe_redirect (map_of (nq_query req) ''redirect''), os_created_at = nx_now x,
      os_expires_at = nx_now x + state_ttl_ms, os_consumed_at = None\<rparr>"

definition github_start :: "console_outside \<Rightarrow> console_request \<Rightarrow> string response console" where
  "github_start x req =
     seq (from_result (github_configured (nx_env x))) (\<lambda>_.
     seq (attempts x (''oauth:att:'' @ caller_ip_hash x (headers_of req)) 20 ''too many sign-in attempts, try again later'') (\<lambda>_.
     seq (db (\<lambda>w. stored (insert_row [\<lambda>s. Some [os_id s]] (new_state x req) (nw_states w)) (\<lambda>ss w. w\<lparr>nw_states := ss\<rparr>) () w)) (\<lambda>_.
       give (redirect_to
         (with_params ''https://github.com/login/oauth/authorize''
           [(''client_id'', cfg_github_client_id (nx_env x)), (''redirect_uri'', callback_url (nx_env x)),
            (''scope'', ''read:user user:email''), (''state'', os_id (new_state x req)), (''allow_signup'', ''false'')])
         [oauth_state_cookie (nx_env x) (os_id (new_state x req)) (state_ttl_ms div 1000)]))))"

definition parsed_record :: "env \<Rightarrow> string \<Rightarrow> thrown + members" where
  "parsed_record env t = (case parse_body env (cfg_max_request_body_bytes env) t of Inl e \<Rightarrow> Inl e | Inr j \<Rightarrow> Inr (as_record (Some j)))"

definition exchange_code :: "console_outside \<Rightarrow> string \<Rightarrow> thrown + string" where
  "exchange_code x code =
     (case nx_github_token x (json_stringify (JObj
         [(''client_id'', JStr (cfg_github_client_id (nx_env x))), (''client_secret'', JStr (cfg_github_client_secret (nx_env x))),
          (''code'', JStr code), (''redirect_uri'', JStr (callback_url (nx_env x)))])) of
        Inl e \<Rightarrow> Inl e
      | Inr t \<Rightarrow> (case parsed_record (nx_env x) t of
          Inl e \<Rightarrow> Inl e
        | Inr ms \<Rightarrow>
            let token = as_string (get_field ''access_token'' ms) []
            in if token = [] then Inl (refuse ''GitHub did not return an access token'') else Inr token))"

record github_profile =
  gp_id :: string
  gp_login :: string
  gp_email :: string
  gp_name :: string

definition fetch_github_user :: "console_outside \<Rightarrow> string \<Rightarrow> thrown + github_profile" where
  "fetch_github_user x token =
     (case nx_github_user x token of
        Inl e \<Rightarrow> Inl e
      | Inr (fine, t) \<Rightarrow>
          if \<not> fine then Inl (refuse ''GitHub rejected the profile request'')
          else (case parsed_record (nx_env x) t of
              Inl e \<Rightarrow> Inl e
            | Inr ms \<Rightarrow>
                let i = text_or_empty (get_field ''id'' ms)
                in if i = [] then Inl (refuse ''GitHub profile had no id'')
                   else Inr \<lparr>gp_id = i, gp_login = as_string (get_field ''login'' ms) (''gh-'' @ i),
                          gp_email = as_string (get_field ''email'' ms) [], gp_name = as_string (get_field ''name'' ms) []\<rparr>))"

definition attempt_over :: thrown where
  "attempt_over = refuse ''that sign-in attempt is no longer valid''"

text \<open>One conditional update claims a state.\<close>

definition open_state :: "int \<Rightarrow> string \<Rightarrow> oauth_state \<Rightarrow> bool" where
  "open_state now i s \<longleftrightarrow> os_id s = i \<and> os_consumed_at s = None \<and> now < os_expires_at s"

definition claim_state :: "int \<Rightarrow> string \<Rightarrow> oauth_state console" where
  "claim_state now i = db (\<lambda>w.
     case find_one (open_state now i) (nw_states w) of
       None \<Rightarrow> (Inl attempt_over, w)
     | Some s \<Rightarrow> (Inr (s\<lparr>os_consumed_at := Some now\<rparr>),
         w\<lparr>nw_states := update_one (open_state now i) (\<lambda>s. s\<lparr>os_consumed_at := Some now\<rparr>) (nw_states w)\<rparr>))"

definition github_name :: "github_profile \<Rightarrow> string" where
  "github_name g =
     (let n = take 48 (filter (\<lambda>c. is_digit c \<or> 97 \<le> (of_char c :: nat) \<and> (of_char c :: nat) \<le> 122 \<or> c = CHR ''_'' \<or> c = CHR ''-'')
         (js_lower (gp_login g)))
      in if n = [] then ''gh-'' @ gp_id g else n)"

definition register_github :: "console_outside \<Rightarrow> string \<Rightarrow> github_profile \<Rightarrow> user_doc console" where
  "register_github x ip_hash g =
     (if \<not> cfg_registration_enabled (nx_env x) then throw (refuse ''this GitHub account is not linked to a user'')
      else
        seq (find_user_by_username (github_name g)) (\<lambda>taken.
        let username = (if taken = None then github_name g else github_name g @ ''-'' @ nx_random x ForSuffix) in
        seq (create_user x
            [(''username'', JStr username), (''displayName'', JStr (if gp_name g = [] then username else gp_name g)),
             (''email'', JStr (gp_email g)), (''role'', JStr ''user'')]
            (no_credentials\<lparr>cd_github_id := Some (gp_id g)\<rparr>)) (\<lambda>u.
        seq (trail x 0 (usr_id u) RoleUser ''auth.github.register'' (usr_id u) ip_hash) (\<lambda>_. give u))))"

definition linked_user :: "console_outside \<Rightarrow> string \<Rightarrow> github_profile \<Rightarrow> user_doc console" where
  "linked_user x ip_hash g =
     seq (db (\<lambda>w. (Inr (find_one (\<lambda>u. usr_github_id u = Some (gp_id g)) (console_users w)), w))) (\<lambda>found.
       case found of Some u \<Rightarrow> give u | None \<Rightarrow> register_github x ip_hash g)"

text \<open>What follows a claimed state: the exchange of the code, the account, its session.\<close>

definition github_session :: "console_outside \<Rightarrow> console_request \<Rightarrow> string \<Rightarrow> oauth_state \<Rightarrow> string response console" where
  "github_session x req code s =
     (let ip_hash = caller_ip_hash x (headers_of req) in
      seq (from_result (exchange_code x code)) (\<lambda>token.
      seq (from_result (fetch_github_user x token)) (\<lambda>g.
      seq (linked_user x ip_hash g) (\<lambda>u.
        if usr_status u \<noteq> Enabled then throw (refuse ''this account is not active'')
        else
          seq (from_result (create_session x u)) (\<lambda>(session, csrf, _).
          seq (touch_login x u) (\<lambda>_.
          seq (trail x 1 (usr_id u) (usr_role u) ''auth.github.login'' (usr_id u) ip_hash) (\<lambda>_.
            give (redirect_to (safe_redirect (Some (os_redirect s)))
              (session_cookies (nx_env x) session csrf @ [oauth_state_cookie (nx_env x) [] 0])))))))))"

definition github_callback :: "console_outside \<Rightarrow> console_request \<Rightarrow> string response console" where
  "github_callback x req =
     seq (from_result (github_configured (nx_env x))) (\<lambda>_.
       let code = or_empty (map_of (nq_query req) ''code''); i = or_empty (map_of (nq_query req) ''state'')
       in if code = [] \<or> i = [] then throw (bad_request ''missing code or state'')
          else if \<not> session_id_ok i \<or> \<not> timing_safe_equal_hex i (read_cookie (headers_of req) oauth_state_cookie_name)
          then throw attempt_over
          else seq (claim_state (nx_now x) i) (github_session x req code))"

subsection \<open>The routes\<close>

definition nth_segment :: "nat \<Rightarrow> string list \<Rightarrow> string" where
  "nth_segment n segments = (if n < length segments then segments ! n else [])"

definition auth_route :: "console_outside \<Rightarrow> console_request \<Rightarrow> string list \<Rightarrow> string response console" where
  "auth_route x req segments =
     (let m = js_upper (nq_method req); a = nth_segment 0 segments; b = nth_segment 1 segments in
      if \<not> production_ready (nx_env x) then throw (ConfigThrown (production_issues (nx_env x)))
      else if a = ''login'' \<and> m = ''POST'' then login x req
      else if a = ''register'' \<and> m = ''POST'' then register x req
      else if a = ''logout'' \<and> m = ''POST'' then logout x req
      else if a = ''session'' \<and> m = ''GET'' then current_session x req
      else if a = ''github'' \<and> b = [] \<and> m = ''GET'' then github_start x req
      else if a = ''github'' \<and> b = ''callback'' \<and> m = ''GET'' then github_callback x req
      else throw (bad_request (''no auth route for '' @ m @ '' /'' @ join_with ''/'' segments)))"

definition handle_auth_request :: "console_outside \<Rightarrow> console_request \<Rightarrow> string list \<Rightarrow> console_world \<Rightarrow> string response \<times> console_world" where
  "handle_auth_request x req segments w =
     (case auth_route x req segments w of
        (Inl e, w2) \<Rightarrow> (error_response e ROpenai plain_init, w2)
      | (Inr r, w2) \<Rightarrow> (r, w2))"

end
