(* ===== verification/ConsoleRouter.thy ===== *)
theory ConsoleRouter
  imports ScheduledJobs ConsoleLogin
begin

text \<open>
  The dispatcher of the control plane, \<open>src/lib/admin/router.ts\<close>: the gate, the body, one group of routes per
  resource, the trail of every change and the answer. A group that has no route for the request is
  \<^term>\<open>None\<close>, where the code leaves its \<open>switch\<close>.
\<close>

type_synonym answer = "(int \<times> json) console"

definition with_trail :: "console_outside \<Rightarrow> admin_context \<Rightarrow> string \<Rightarrow> string \<Rightarrow> string \<Rightarrow> members option \<Rightarrow> unit console" where
  "with_trail x ctx action target_type target meta = audited x 0
     \<lparr>ae_actor_id = an_user_id ctx, ae_actor_role = an_role ctx, ae_action = action, ae_target_type = target_type,
      ae_target_id = target, ae_meta = meta, ae_ip_hash = an_ip_hash ctx\<rparr>"

definition reply :: "members \<Rightarrow> answer" where
  "reply ms = give (200, JObj ms)"

definition created :: "members \<Rightarrow> answer" where
  "created ms = give (201, JObj ms)"

text \<open>Administrators manage members; only root manages authorities.\<close>

definition assert_can_manage_user :: "admin_context \<Rightarrow> user_doc option \<Rightarrow> json option \<Rightarrow> thrown + unit" where
  "assert_can_manage_user ctx target next_role =
     (if an_role ctx = RoleRoot then Inr ()
      else if (case target of Some u \<Rightarrow> usr_role u \<noteq> RoleUser | None \<Rightarrow> False) \<or> (next_role \<noteq> None \<and> next_role \<noteq> Some (JStr ''user''))
      then Inl (refuse ''only root can manage elevated accounts and their credentials'')
      else Inr ())"

definition list_answer :: "string \<Rightarrow> json list \<Rightarrow> answer" where
  "list_answer k rows = reply [(k, JArr rows)]"

subsection \<open>Users and tokens\<close>

definition text_member :: "string \<Rightarrow> json \<Rightarrow> string" where
  "text_member k j = as_string (get_field k (as_record (Some j))) []"

definition users_route ::
    "console_outside \<Rightarrow> admin_context \<Rightarrow> string \<Rightarrow> string \<Rightarrow> rat \<times> rat \<Rightarrow> members \<Rightarrow> answer option" where
  "users_route x ctx m i p body =
     (if i = [] \<and> m = ''GET'' then Some (seq (list_users p) (\<lambda>us. list_answer ''users'' (map user_view us)))
      else if i = [] \<and> m = ''POST'' then Some
        (seq (from_result (assert_can_manage_user ctx None (get_field ''role'' body))) (\<lambda>_.
         seq (create_user x body no_credentials) (\<lambda>u.
         seq (with_trail x ctx ''user.create'' ''user'' (usr_id u) (Some [(''username'', JStr (usr_username u))])) (\<lambda>_.
           created [(''user'', user_view u)]))))
      else if i \<noteq> [] \<and> m = ''GET'' then Some (seq (get_user i) (\<lambda>u. reply [(''user'', user_view u)]))
      else if i \<noteq> [] \<and> (m = ''PATCH'' \<or> m = ''PUT'') then Some
        (seq (get_user i) (\<lambda>u0.
         seq (from_result (assert_can_manage_user ctx (Some u0) (get_field ''role'' body))) (\<lambda>_.
         seq (update_user x i body) (\<lambda>u.
         seq (with_trail x ctx ''user.update'' ''user'' i (Some body)) (\<lambda>_. reply [(''user'', user_view u)])))))
      else None)"

text \<open>The account that owns the credential must be one the caller may manage.\<close>

definition owner_checked :: "admin_context \<Rightarrow> string \<Rightarrow> unit console" where
  "owner_checked ctx i =
     seq (get_token i) (\<lambda>t. seq (get_user (tok_user_id t)) (\<lambda>u. from_result (assert_can_manage_user ctx (Some u) None)))"

definition tokens_route ::
    "console_outside \<Rightarrow> admin_context \<Rightarrow> string \<Rightarrow> string \<Rightarrow> string \<Rightarrow> rat \<times> rat \<Rightarrow> string option \<Rightarrow> members \<Rightarrow> answer option" where
  "tokens_route x ctx m i sub p owner body =
     (if i = [] \<and> m = ''GET'' then Some (seq (list_tokens owner p) (list_answer ''tokens''))
      else if i = [] \<and> m = ''POST'' then Some
        (seq (get_user (text_or_empty (get_field ''userId'' body))) (\<lambda>u.
         seq (from_result (assert_can_manage_user ctx (Some u) None)) (\<lambda>_.
         seq (create_token x body) (\<lambda>(t, key).
         seq (with_trail x ctx ''token.create'' ''token'' (text_member ''_id'' t) (Some [(''userId'', JStr (text_member ''userId'' t))])) (\<lambda>_.
           created [(''token'', t), (''key'', JStr key)])))))
      else if i \<noteq> [] \<and> sub = ''rotate'' \<and> m = ''POST'' then Some
        (seq (owner_checked ctx i) (\<lambda>_.
         seq (rotate_token x i) (\<lambda>(t, key).
         seq (with_trail x ctx ''token.rotate'' ''token'' i None) (\<lambda>_. reply [(''token'', t), (''key'', JStr key)]))))
      else if i \<noteq> [] \<and> m = ''GET'' then Some (seq (get_token i) (\<lambda>t. reply [(''token'', token_view t)]))
      else if i \<noteq> [] \<and> (m = ''PATCH'' \<or> m = ''PUT'') then Some
        (seq (owner_checked ctx i) (\<lambda>_.
         seq (update_token x i body) (\<lambda>t.
         seq (with_trail x ctx ''token.update'' ''token'' i (Some body)) (\<lambda>_. reply [(''token'', t)]))))
      else if i \<noteq> [] \<and> m = ''DELETE'' then Some
        (seq (owner_checked ctx i) (\<lambda>_.
         seq (delete_token x i) (\<lambda>_.
         seq (with_trail x ctx ''token.delete'' ''token'' i None) (\<lambda>_. reply [(''deleted'', JBool True)]))))
      else None)"

subsection \<open>Channels\<close>

definition channels_route ::
    "console_outside \<Rightarrow> admin_context \<Rightarrow> string \<Rightarrow> string \<Rightarrow> string \<Rightarrow> rat \<times> rat \<Rightarrow> members \<Rightarrow> answer option" where
  "channels_route x ctx m i sub p body =
     (if i = ''test'' \<and> m = ''POST'' then Some
        (seq (on_routing (health_check (nx_env x) (nx_now x) (nx_probe x))) (\<lambda>report.
         seq (with_trail x ctx ''channel.test'' ''channel'' ''*'' None) (\<lambda>_. reply report)))
      else if i = [] \<and> m = ''GET'' then Some (seq (list_channels p) (list_answer ''channels''))
      else if i = [] \<and> m = ''POST'' then Some
        (seq (create_channel x body) (\<lambda>c.
         seq (with_trail x ctx ''channel.create'' ''channel'' (text_member ''_id'' c) (Some body)) (\<lambda>_. created [(''channel'', c)])))
      else if i \<noteq> [] \<and> sub = ''keys'' \<and> m = ''POST'' then Some
        (seq (replace_channel_keys x i (as_array (get_field ''keys'' body))) (\<lambda>n.
         seq (with_trail x ctx ''channel.keys.replace'' ''channel'' i (Some [(''count'', int_json (int n))])) (\<lambda>_.
           reply [(''keyCount'', int_json (int n))])))
      else if i \<noteq> [] \<and> (m = ''PATCH'' \<or> m = ''PUT'') then Some
        (seq (update_channel x i body) (\<lambda>c.
         seq (with_trail x ctx ''channel.update'' ''channel'' i (Some body)) (\<lambda>_. reply [(''channel'', JObj (channel_members c))])))
      else if i \<noteq> [] \<and> m = ''DELETE'' then Some
        (seq (delete_channel x i) (\<lambda>_.
         seq (with_trail x ctx ''channel.delete'' ''channel'' i None) (\<lambda>_. reply [(''deleted'', JBool True)])))
      else None)"

subsection \<open>The catalogue\<close>

definition decoded :: "string \<Rightarrow> thrown + string" where
  "decoded s = (case decode_uri_component s of None \<Rightarrow> Inl OtherThrown | Some t \<Rightarrow> Inr t)"

definition pricing_route :: "console_outside \<Rightarrow> admin_context \<Rightarrow> string \<Rightarrow> string \<Rightarrow> members \<Rightarrow> answer option" where
  "pricing_route x ctx m i body =
     (if i = [] \<and> m = ''GET'' then Some (seq list_pricing (\<lambda>ps. list_answer ''pricing'' (map price_json ps)))
      else if i = [] \<and> (m = ''POST'' \<or> m = ''PUT'') then Some
        (seq (upsert_pricing x body) (\<lambda>d.
         seq (with_trail x ctx ''pricing.upsert'' ''pricing'' (mp_id d) (Some body)) (\<lambda>_. reply [(''pricing'', price_json d)])))
      else if i \<noteq> [] \<and> m = ''DELETE'' then Some
        (seq (from_result (decoded i)) (\<lambda>model.
         seq (delete_pricing x model) (\<lambda>_.
         seq (with_trail x ctx ''pricing.delete'' ''pricing'' i None) (\<lambda>_. reply [(''deleted'', JBool True)]))))
      else None)"

definition mappings_route :: "console_outside \<Rightarrow> admin_context \<Rightarrow> string \<Rightarrow> string \<Rightarrow> members \<Rightarrow> answer option" where
  "mappings_route x ctx m i body =
     (if i = [] \<and> m = ''GET'' then Some (seq list_mappings (\<lambda>ms. list_answer ''mappings'' (map mapping_json ms)))
      else if i = [] \<and> (m = ''POST'' \<or> m = ''PUT'') then Some
        (seq (upsert_mapping x body) (\<lambda>d.
         seq (with_trail x ctx ''mapping.upsert'' ''mapping'' (mm_id d) (Some body)) (\<lambda>_. reply [(''mapping'', mapping_json d)])))
      else if i \<noteq> [] \<and> m = ''DELETE'' then Some
        (seq (from_result (decoded i)) (\<lambda>d.
         seq (delete_mapping x d) (\<lambda>_.
         seq (with_trail x ctx ''mapping.delete'' ''mapping'' i None) (\<lambda>_. reply [(''deleted'', JBool True)]))))
      else None)"

definition ratios_route :: "console_outside \<Rightarrow> admin_context \<Rightarrow> string \<Rightarrow> members \<Rightarrow> answer option" where
  "ratios_route x ctx m body =
     (if m = ''GET'' then Some (seq list_group_ratios (list_answer ''groupRatios''))
      else if m = ''POST'' \<or> m = ''PUT'' then Some
        (seq (upsert_group_ratio x body) (\<lambda>(i, d).
         seq (with_trail x ctx ''groupRatio.upsert'' ''groupRatio'' i (Some body)) (\<lambda>_. reply [(''groupRatio'', d)])))
      else None)"

text \<open>A date of a batch that is no date is dropped.\<close>

definition batch_expiry :: "console_outside \<Rightarrow> json option \<Rightarrow> int option" where
  "batch_expiry x v = (case v of Some j \<Rightarrow> if js_truthy j then nx_date x (js_text j) else None | None \<Rightarrow> None)"

definition number_or :: "json option \<Rightarrow> jsnum \<Rightarrow> jsnum" where
  "number_or v d = (case v of Some j \<Rightarrow> if j = JNull then d else js_number j | None \<Rightarrow> d)"

definition redemption_route :: "console_outside \<Rightarrow> admin_context \<Rightarrow> string \<Rightarrow> string \<Rightarrow> members \<Rightarrow> answer option" where
  "redemption_route x ctx m batch body =
     (if m = ''GET'' then Some (seq (list_redemption_codes batch) (list_answer ''codes''))
      else if m = ''POST'' then Some
        (seq (create_redemption_batch x (number_or (get_field ''count'' body) (JFin 1)) (number_or (get_field ''quota'' body) (JFin 0))
                (an_user_id ctx) (batch_expiry x (get_field ''expiresAt'' body))) (\<lambda>(i, codes).
         seq (with_trail x ctx ''redemption.create'' ''redemption'' i
                (Some ((''count'', int_json (int (length codes))) # if_given ''quota'' (get_field ''quota'' body)))) (\<lambda>_.
           created [(''batchId'', JStr i), (''codes'', JArr (map JStr codes))])))
      else None)"

definition redeem_route :: "console_outside \<Rightarrow> admin_context \<Rightarrow> string \<Rightarrow> members \<Rightarrow> answer option" where
  "redeem_route x ctx m body =
     (if m = ''POST'' then Some
        (seq (redeem_code x (text_or_empty (get_field ''code'' body)) (an_user_id ctx)) (\<lambda>(quota, balance).
         seq (with_trail x ctx ''redemption.redeem'' ''user'' (an_user_id ctx) (Some [(''quota'', int_json quota)])) (\<lambda>_.
           reply [(''quota'', int_json quota), (''balance'', int_json balance)])))
      else None)"

definition settings_route :: "console_outside \<Rightarrow> admin_context \<Rightarrow> string \<Rightarrow> members \<Rightarrow> answer option" where
  "settings_route x ctx m body =
     (let key = text_or_empty (get_field ''key'' body) in
      if m = ''GET'' then Some (seq list_settings (list_answer ''settings''))
      else if m = ''POST'' \<or> m = ''PUT'' then Some
        (seq (set_setting key (get_field ''value'' body)) (\<lambda>_.
         seq (with_trail x ctx ''setting.set'' ''setting'' key (Some [(''key'', JStr key)])) (\<lambda>_. reply [(''saved'', JBool True)])))
      else None)"

subsection \<open>Reports\<close>

definition query_text :: "console_request \<Rightarrow> string \<Rightarrow> string" where
  "query_text req k = or_empty (map_of (nq_query req) k)"

definition usage_route :: "console_outside \<Rightarrow> console_request \<Rightarrow> string \<Rightarrow> string \<Rightarrow> answer option" where
  "usage_route x req m i =
     (if m \<noteq> ''GET'' then None
      else if i = ''summary'' then Some
        (seq (usage_summary x (if query_text req ''bucket'' = [] then None else Some (query_text req ''bucket''))) (\<lambda>s.
           reply [(''summary'', summary_json s)]))
      else Some (seq (list_usage x
          \<lparr>uq_user_id = query_text req ''userId'', uq_token_id = query_text req ''tokenId'', uq_channel_id = query_text req ''channelId'',
           uq_model = query_text req ''model'', uq_status = query_text req ''status'', uq_bucket = query_text req ''bucket''\<rparr>
          (pagination req)) (\<lambda>rows. list_answer ''usage'' (map row_json rows))))"

definition whoami :: "admin_context \<Rightarrow> answer" where
  "whoami ctx = reply [(''userId'', JStr (an_user_id ctx)), (''username'', JStr (an_username ctx)),
     (''role'', JStr (role_text (an_role ctx))), (''via'', JStr (case an_via ctx of ViaSession \<Rightarrow> ''session'' | ViaKey \<Rightarrow> ''key''))]"

definition admin_route ::
    "console_outside \<Rightarrow> admin_context \<Rightarrow> console_request \<Rightarrow> string list \<Rightarrow> members \<Rightarrow> answer option" where
  "admin_route x ctx req segments body =
     (let m = js_upper (nq_method req); a = nth_segment 0 segments; i = nth_segment 1 segments; sub = nth_segment 2 segments;
          p = pagination req
      in if a = [] \<or> a = ''overview'' then Some (seq (console_overview x) (\<lambda>j. give (200, j)))
         else if a = ''whoami'' then Some (whoami ctx)
         else if a = ''users'' then users_route x ctx m i p body
         else if a = ''tokens'' then tokens_route x ctx m i sub p (map_of (nq_query req) ''userId'') body
         else if a = ''channels'' then channels_route x ctx m i sub p body
         else if a = ''pricing'' then pricing_route x ctx m i body
         else if a = ''mappings'' then mappings_route x ctx m i body
         else if a = ''group-ratios'' then ratios_route x ctx m body
         else if a = ''redemption'' then redemption_route x ctx m i body
         else if a = ''redeem'' then redeem_route x ctx m body
         else if a = ''settings'' then settings_route x ctx m body
         else if a = ''usage'' then usage_route x req m i
         else if a = ''audit'' then
           (if m = ''GET'' then Some (seq (list_audit p) (\<lambda>rows. list_answer ''audit'' (map audit_view rows))) else None)
         else None)"

definition minimum_role :: "string list \<Rightarrow> user_role" where
  "minimum_role segments = (if nth_segment 0 segments = ''redeem'' then RoleUser else RoleAdmin)"

definition admitted :: "console_outside \<Rightarrow> console_request \<Rightarrow> string list \<Rightarrow> admin_context \<Rightarrow> answer" where
  "admitted x req segments ctx =
     seq (from_result (read_admin_body (nx_env x) req)) (\<lambda>body.
       case admin_route x ctx req segments body of
         Some f \<Rightarrow> f
       | None \<Rightarrow> throw (Gateway (not_found (''no admin route for '' @ js_upper (nq_method req) @ '' /'' @ join_with ''/'' segments))))"

definition handle_admin_request ::
    "console_outside \<Rightarrow> console_request \<Rightarrow> string list \<Rightarrow> console_world \<Rightarrow> string response \<times> console_world" where
  "handle_admin_request x req segments w =
     (case require_admin x req (minimum_role segments) w of
        (Inl e, w1) \<Rightarrow> (error_response e ROpenai plain_init, w1)
      | (Inr ctx, w1) \<Rightarrow>
          (case admitted x req segments ctx w1 of
             (Inl e, w2) \<Rightarrow> (error_response e ROpenai (plain_init\<lparr>ri_request_id := an_request_id ctx\<rparr>), w2)
           | (Inr (status, body), w2) \<Rightarrow>
               (json_response body (plain_init\<lparr>ri_status := Some status, ri_request_id := an_request_id ctx\<rparr>), w2)))"

end
