(* ===== verification/ConsoleLaws.thy ===== *)
theory ConsoleLaws
  imports ConsoleRouter AuthLaws
begin

text \<open>
  The laws of the control plane: what it takes to change anything, and what an administrator who is not
  root cannot change. Two relations carry the proofs: \<open>keeps V m\<close>, a step leaves a view of the world as
  it was, and \<open>ensures P m Q\<close>, from a state with \<open>P\<close> a step ends in one with \<open>Q\<close>, whether it throws or not.
\<close>

named_theorems keeps_rules \<open>steps that leave a view of the world as it was\<close>

subsection \<open>Steps that keep a view\<close>

definition keeps :: "(console_world \<Rightarrow> 'v) \<Rightarrow> 'a console \<Rightarrow> bool" where
  "keeps V m \<longleftrightarrow> (\<forall>w. V (snd (m w)) = V w)"

lemma keepsI: "(\<And>w. V (snd (m w)) = V w) \<Longrightarrow> keeps V m"
  by (simp add: keeps_def)

lemma keepsD: "keeps V m \<Longrightarrow> m w = (r, w') \<Longrightarrow> V w' = V w"
  by (metis keeps_def snd_conv)

lemma keeps_give [keeps_rules]: "keeps V (give a)"
  by (simp add: keeps_def give_def)

lemma keeps_throw [keeps_rules]: "keeps V (throw e)"
  by (simp add: keeps_def throw_def)

lemma keeps_from_result [keeps_rules]: "keeps V (from_result r)"
  by (simp add: keeps_def from_result_def)

lemma keeps_seq [keeps_rules]:
  assumes "keeps V m" "\<And>a. keeps V (f a)"
  shows "keeps V (seq m f)"
proof (rule keepsI)
  fix w
  show "V (snd (seq m f w)) = V w"
  proof (cases "m w")
    case (Pair r w1)
    with assms(1) have "V w1 = V w" by (rule keepsD)
    with Pair assms(2) show ?thesis by (cases r) (simp_all add: seq_def keeps_def)
  qed
qed

lemma keeps_db: "(\<And>w. V (snd (f w)) = V w) \<Longrightarrow> keeps V (db f)"
  by (simp add: keeps_def db_def)

lemma keeps_read [keeps_rules]: "keeps V (db (\<lambda>w. (r w, w)))"
  by (rule keeps_db) simp

lemma keeps_case_option [keeps_rules]:
  "keeps V m \<Longrightarrow> (\<And>a. z = Some a \<Longrightarrow> keeps V (f a)) \<Longrightarrow> keeps V (case z of None \<Rightarrow> m | Some a \<Rightarrow> f a)"
  by (cases z) simp_all

lemma keeps_case_sum [keeps_rules]:
  "(\<And>a. keeps V (f a)) \<Longrightarrow> (\<And>b. keeps V (g b)) \<Longrightarrow> keeps V (case z of Inl a \<Rightarrow> f a | Inr b \<Rightarrow> g b)"
  by (cases z) simp_all

lemma keeps_case_prod [keeps_rules]: "(\<And>a b. keeps V (f a b)) \<Longrightarrow> keeps V (case z of (a, b) \<Rightarrow> f a b)"
  by (cases z) simp

lemma keeps_if [keeps_rules]: "(b \<Longrightarrow> keeps V m) \<Longrightarrow> (\<not> b \<Longrightarrow> keeps V n) \<Longrightarrow> keeps V (if b then m else n)"
  by simp

subsection \<open>The rows of the control plane\<close>

text \<open>All that is stored: everything but the shared store.\<close>

definition documents :: "console_world \<Rightarrow> _" where
  "documents w =
     ((console_users w, console_tokens w, console_channels w, console_channel_keys w, console_mappings w, rw_abilities (nw_routing w)),
      (console_prices w, pw_group_ratios (nw_pricing w), nw_ratio_notes w, nw_usage w),
      (nw_codes w, nw_settings w, nw_states w, nw_revoked w, nw_audit w))"

definition accounts :: "console_world \<Rightarrow> user_doc list \<times> token_doc list" where
  "accounts w = (console_users w, console_tokens w)"

lemma documents_accounts: "documents w = documents w' \<Longrightarrow> accounts w = accounts w'"
  by (simp add: documents_def accounts_def)

lemma keeps_on_shared [keeps_rules]: "keeps documents (on_shared f)" "keeps accounts (on_shared f)"
  by (auto simp: keeps_def on_shared_def documents_def accounts_def split: prod.splits sum.splits)

lemma keeps_drop_token_cache [keeps_rules]: "keeps documents (drop_token_cache x p)" "keeps accounts (drop_token_cache x p)"
  by (auto simp: keeps_def drop_token_cache_def documents_def accounts_def split: prod.splits)

lemma keeps_drop_token_caches [keeps_rules]: "keeps accounts (drop_token_caches x ps)"
  by (induction ps) (auto intro!: keeps_rules)

lemma keeps_drop_caches_of [keeps_rules]: "keeps accounts (drop_caches_of x i)"
  unfolding drop_caches_of_def by (intro keeps_rules)

lemma keeps_on_routing [keeps_rules]: "keeps accounts (on_routing f)"
  by (auto simp: keeps_def on_routing_def accounts_def split: prod.splits)

lemma keeps_drop_price [keeps_rules]: "keeps accounts (drop_price x model)"
  by (auto simp: keeps_def drop_price_def accounts_def split: prod.splits)

lemma keeps_trail [keeps_rules]: "keeps accounts (with_trail x ctx action target_type target meta)"
  by (auto simp: keeps_def with_trail_def audited_def record_audit_def accounts_def Let_def split: option.splits)

lemma keeps_console_authenticate [keeps_rules]:
  "keeps documents (console_authenticate x req)" "keeps accounts (console_authenticate x req)"
proof -
  have "aw_users aw = aw_users (nw_auth w) \<and> aw_tokens aw = aw_tokens (nw_auth w)"
    if "authenticate (nx_env x) (nx_sha x) (hash_ip (nx_env x) (nx_hmac x)) (qi_request_id (nq_in req)) (nx_clock x)
             (qi_headers (nq_in req)) (qi_query_key (nq_in req)) (nw_auth w) = (r, f, aw)" for w r f aw
    using that load_identity_docs [of "nx_env x"]
    by (auto simp: authenticate_def Let_def split: if_splits option.splits prod.splits sum.splits) (metis snd_conv)+
  then show "keeps documents (console_authenticate x req)" "keeps accounts (console_authenticate x req)"
    by (auto simp: keeps_def console_authenticate_def documents_def accounts_def split: prod.splits)
qed

lemma keeps_require_admin [keeps_rules]: "keeps documents (require_admin x req r)"
proof -
  have *: "keeps documents (find_user i)" "keeps documents (active_user i)" for i
    unfolding active_user_def find_user_def by (intro keeps_rules)+
  have "keeps documents (by_session x req r p)" "keeps documents (by_key x req r)" for p
    unfolding by_session_def by_key_def by (intro keeps_rules *)+
  then show ?thesis by (auto simp: keeps_def require_admin_def Let_def split: sum.splits option.splits)
qed

subsection \<open>Reading\<close>

lemma keeps_reads [keeps_rules]:
  "keeps V (find_user i)" "keeps V (get_user i)" "keeps V (get_token i)" "keeps V (get_channel i)" "keeps V (list_users p)"
  "keeps V (list_tokens z p)" "keeps V (list_channels p)" "keeps V list_pricing" "keeps V list_mappings" "keeps V list_group_ratios"
  "keeps V (list_redemption_codes b)" "keeps V list_settings" "keeps V (usage_summary x z)" "keeps V (list_usage x q p)"
  "keeps V (list_audit p)" "keeps V (console_overview x)" "keeps V (reply ms)" "keeps V (list_answer k rows)" "keeps V (whoami ctx)"
  "keeps V (created ms)" "keeps V (find_user_by_username n)" "keeps V (find_price m)"
  unfolding find_user_def get_user_def get_token_def get_channel_def list_users_def list_tokens_def list_channels_def list_pricing_def
    list_mappings_def list_group_ratios_def list_redemption_codes_def list_settings_def usage_summary_def list_usage_def list_audit_def
    console_overview_def reply_def list_answer_def whoami_def created_def find_user_by_username_def find_price_def Let_def
  by (intro keeps_rules)+

lemmas routes = users_route_def tokens_route_def channels_route_def pricing_route_def mappings_route_def ratios_route_def
  redemption_route_def redeem_route_def settings_route_def usage_route_def

text \<open>A request with a safe method changes no row, whatever it asks for.\<close>

lemma safe_routes_read:
  assumes "js_upper (nq_method req) \<in> set safe_methods" "admin_route x ctx req segments body = Some f"
  shows "keeps V f"
  using assms unfolding admin_route_def routes Let_def safe_methods_def
  by (auto split: if_splits intro!: keeps_rules)

subsection \<open>Who may do what\<close>

lemma keeps_updates [keeps_rules]:
  "(\<And>r a w. accounts (put_it r w) = accounts w) \<Longrightarrow> keeps accounts (db (\<lambda>w. stored (rows w) put_it a w))"
  by (intro keeps_db) (simp add: stored_def split: option.splits)

lemma puts_keep_accounts [simp]:
  "accounts (put_channels cs w) = accounts w" "accounts (put_channel_keys ks w) = accounts w" "accounts (put_prices ps w) = accounts w"
  "accounts (put_mappings ms w) = accounts w"
  by (simp_all add: accounts_def put_channels_def put_channel_keys_def put_prices_def put_mappings_def)

lemma keeps_channel_steps [keeps_rules]:
  "keeps accounts (refresh_abilities x)" "keeps accounts (drop_abilities x)" "keeps accounts (insert_channel c)"
  "keeps accounts (insert_channel_keys ks)" "keeps accounts (drop_channel_keys i)"
  unfolding refresh_abilities_def drop_abilities_def insert_channel_def insert_channel_keys_def drop_channel_keys_def
  by (intro keeps_rules keeps_db; simp split: prod.splits)+

lemma keeps_channel_operations [keeps_rules]:
  "keeps accounts (create_channel x body)" "keeps accounts (update_channel x i body)"
  "keeps accounts (replace_channel_keys x i ks)" "keeps accounts (delete_channel x i)"
  unfolding create_channel_def update_channel_def replace_channel_keys_def delete_channel_def
  by (intro keeps_rules keeps_db; simp)+

lemma keeps_catalogue [keeps_rules]:
  "keeps accounts (upsert_pricing x body)" "keeps accounts (delete_pricing x m)" "keeps accounts (upsert_mapping x body)"
  "keeps accounts (delete_mapping x i)" "keeps accounts (upsert_group_ratio x body)" "keeps accounts (set_setting k v)"
  "keeps accounts (create_redemption_batch x n q by ex)"
  unfolding upsert_pricing_def delete_pricing_def upsert_mapping_def delete_mapping_def upsert_group_ratio_def set_setting_def
    create_redemption_batch_def Let_def
  by (intro keeps_rules keeps_db; simp add: accounts_def put_prices_def put_mappings_def split: prod.splits)+

lemma other_routes_keep_accounts:
  assumes "admin_route x ctx req segments body = Some f" "nth_segment 0 segments \<notin> {''users'', ''tokens'', ''redeem''}"
  shows "keeps accounts f"
  using assms unfolding admin_route_def Let_def
  by (auto simp: channels_route_def pricing_route_def mappings_route_def ratios_route_def redemption_route_def settings_route_def
    usage_route_def Let_def split: if_splits intro!: keeps_rules)

subsection \<open>Steps between states\<close>

definition ensures :: "(console_world \<Rightarrow> bool) \<Rightarrow> 'a console \<Rightarrow> ('a \<Rightarrow> console_world \<Rightarrow> bool) \<Rightarrow> (console_world \<Rightarrow> bool) \<Rightarrow> bool" where
  "ensures P m Q E \<longleftrightarrow> (\<forall>w. P w \<longrightarrow> (case m w of (Inl e, w') \<Rightarrow> E w' | (Inr a, w') \<Rightarrow> Q a w'))"

lemma ensuresI: "(\<And>w. P w \<Longrightarrow> case m w of (Inl e, w') \<Rightarrow> E w' | (Inr a, w') \<Rightarrow> Q a w') \<Longrightarrow> ensures P m Q E"
  by (simp add: ensures_def)

lemma ensures_snd: "ensures P m (\<lambda>_. E) E \<Longrightarrow> P w \<Longrightarrow> E (snd (m w))"
  by (cases "m w"; cases "fst (m w)") (auto simp: ensures_def)

lemma ensures_seq: "ensures P m R E \<Longrightarrow> (\<And>a. ensures (R a) (f a) Q E) \<Longrightarrow> ensures P (seq m f) Q E"
  by (fastforce simp: ensures_def seq_def split: prod.splits sum.splits)

lemma ensures_from: "(\<And>a w. r = Inr a \<Longrightarrow> P w \<Longrightarrow> Q a w) \<Longrightarrow> (\<And>w. P w \<Longrightarrow> E w) \<Longrightarrow> ensures P (from_result r) Q E"
  by (auto simp: ensures_def from_result_def split: sum.splits)

lemma ensures_all: "(\<And>w. P w \<Longrightarrow> E (snd (m w))) \<Longrightarrow> ensures P m (\<lambda>_. E) E"
proof (rule ensuresI)
  fix w
  assume "P w" and *: "\<And>w. P w \<Longrightarrow> E (snd (m w))"
  then have "E (snd (m w))" by blast
  then show "case m w of (Inl e, w') \<Rightarrow> E w' | (Inr a, w') \<Rightarrow> E w'" by (cases "m w"; cases "fst (m w)") auto
qed

lemma ensures_kept: "keeps V m \<Longrightarrow> (\<And>w w'. V w = V w' \<Longrightarrow> P w \<Longrightarrow> P w') \<Longrightarrow> ensures P m (\<lambda>_. P) P"
  by (rule ensures_all) (metis keeps_def)

subsection \<open>Accounts of authority\<close>

text \<open>The rows an administrator who is not root must leave alone: the accounts above a plain user, and
  the keys they own.\<close>

definition elevated_users :: "user_doc list \<Rightarrow> user_doc list" where
  "elevated_users us = filter (\<lambda>u. usr_role u \<noteq> RoleUser) us"

definition authorities :: "console_world \<Rightarrow> user_doc list \<times> token_doc list" where
  "authorities w = (elevated_users (console_users w),
     filter (\<lambda>t. tok_user_id t \<in> usr_id ` set (elevated_users (console_users w))) (console_tokens w))"

definition keyed :: "console_world \<Rightarrow> bool" where
  "keyed w \<longleftrightarrow> distinct (map usr_id (console_users w)) \<and> distinct (map tok_id (console_tokens w))"

definition untouched :: "user_doc list \<times> token_doc list \<Rightarrow> console_world \<Rightarrow> bool" where
  "untouched a w \<longleftrightarrow> authorities w = a \<and> keyed w"

lemma untouched_accounts: "accounts w = accounts w' \<Longrightarrow> untouched a w \<Longrightarrow> untouched a w'"
  by (simp add: untouched_def authorities_def keyed_def accounts_def)

lemma untouched_kept: "keeps accounts m \<Longrightarrow> ensures (untouched a) m (\<lambda>_. untouched a) (untouched a)"
  by (rule ensures_kept [where V = accounts]) (auto dest: untouched_accounts)

lemma filter_update_one:
  "(\<And>d. d \<in> set ds \<Longrightarrow> here d \<Longrightarrow> \<not> Q d \<and> \<not> Q (f d)) \<Longrightarrow> filter Q (update_one here f ds) = filter Q ds"
  by (induction ds) auto

lemma update_one_map:
  "(\<And>d. d \<in> set ds \<Longrightarrow> here d \<Longrightarrow> key (f d) = key d) \<Longrightarrow> map key (update_one here f ds) = map key ds"
  by (induction ds) auto

lemma filter_remove_first:
  "(\<And>d. d \<in> set ds \<Longrightarrow> here d \<Longrightarrow> \<not> Q d) \<Longrightarrow> filter Q (remove_first here ds) = filter Q ds"
  by (induction ds) auto

lemma remove_first_subseq: "set (remove_first here ds) \<subseteq> set ds"
  by (induction ds) auto

lemma remove_first_distinct: "distinct (map key ds) \<Longrightarrow> distinct (map key (remove_first here ds))"
  by (induction ds) (auto dest: remove_first_subseq [THEN subsetD])

lemma update_rowD: "update_row keys here f ds = Some ds' \<Longrightarrow> ds' = update_one here f ds"
  by (auto simp: update_row_def update_one_none split: option.splits if_splits)

lemma insert_row_fresh:
  "insert_row keys d ds = Some ds' \<Longrightarrow> (\<lambda>d. Some [k d]) \<in> set keys \<Longrightarrow> ds' = ds @ [d] \<and> k d \<notin> k ` set ds"
  by (force simp: insert_row_def clashes_def list_ex_iff split: if_splits)

lemma found_by_id:
  assumes "distinct (map key ds)" "find_one (\<lambda>d. key d = i) ds = Some d" "e \<in> set ds" "key e = i"
  shows "e = d"
  using find_one_SomeD [OF assms(2)] assms(1,3,4) by (auto simp: distinct_map dest: inj_onD)

lemma untouched_insert_user:
  assumes "untouched a w" "insert_row user_keys u (console_users w) = Some us" "usr_role u = RoleUser"
  shows "untouched a (put_users us w)"
proof -
  have us: "us = console_users w @ [u]" "usr_id u \<notin> usr_id ` set (console_users w)"
    using insert_row_fresh [OF assms(2), of usr_id] by (simp_all add: user_keys_def)
  have "elevated_users us = elevated_users (console_users w)" by (simp add: elevated_users_def us(1) assms(3))
  moreover have "distinct (map usr_id us) \<longleftrightarrow> distinct (map usr_id (console_users w))" using us(2) by (simp add: us(1))
  ultimately show ?thesis using assms(1) by (simp add: untouched_def authorities_def keyed_def put_users_def)
qed

lemma untouched_update_user:
  assumes "untouched a w" "update_row user_keys here f (console_users w) = Some us"
    "\<And>u. u \<in> set (console_users w) \<Longrightarrow> here u \<Longrightarrow> usr_role u = RoleUser \<and> usr_role (f u) = RoleUser \<and> usr_id (f u) = usr_id u"
  shows "untouched a (put_users us w)"
proof -
  have us: "us = update_one here f (console_users w)" using assms(2) by (rule update_rowD)
  have "elevated_users us = elevated_users (console_users w)"
    unfolding us elevated_users_def by (rule filter_update_one) (use assms(3) in auto)
  moreover have "map usr_id us = map usr_id (console_users w)"
    unfolding us using assms(3) by (intro update_one_map) auto
  ultimately show ?thesis using assms(1) by (simp add: untouched_def authorities_def keyed_def put_users_def)
qed

definition owned_high :: "console_world \<Rightarrow> token_doc \<Rightarrow> bool" where
  "owned_high w t \<longleftrightarrow> tok_user_id t \<in> usr_id ` set (elevated_users (console_users w))"

lemma untouched_put_tokens:
  assumes "untouched a w" "filter (owned_high w) ts = filter (owned_high w) (console_tokens w)" "distinct (map tok_id ts)"
  shows "untouched a (put_tokens ts w)"
  using assms unfolding owned_high_def [abs_def] by (simp add: untouched_def authorities_def keyed_def put_tokens_def)

lemma untouched_insert_token:
  assumes "untouched a w" "insert_row token_keys t (console_tokens w) = Some ts" "\<not> owned_high w t"
  shows "untouched a (put_tokens ts w)"
proof (rule untouched_put_tokens [OF assms(1)])
  have ts: "ts = console_tokens w @ [t]" "tok_id t \<notin> tok_id ` set (console_tokens w)"
    using insert_row_fresh [OF assms(2), of tok_id] by (simp_all add: token_keys_def)
  show "filter (owned_high w) ts = filter (owned_high w) (console_tokens w)" using assms(3) by (simp add: ts(1))
  show "distinct (map tok_id ts)" using assms(1) ts(2) by (simp add: ts(1) untouched_def keyed_def)
qed

text \<open>The key with this id is the first and only one, and no authority owns it.\<close>

definition free_token :: "string \<Rightarrow> console_world \<Rightarrow> bool" where
  "free_token i w \<longleftrightarrow> (\<exists>t. find_one (\<lambda>t. tok_id t = i) (console_tokens w) = Some t \<and> \<not> owned_high w t)"

lemma free_tokenD:
  assumes "untouched a w" "free_token i w" "t \<in> set (console_tokens w)" "tok_id t = i"
  shows "\<not> owned_high w t"
  using assms found_by_id [of tok_id "console_tokens w" i] by (auto simp: free_token_def untouched_def keyed_def)

lemma untouched_update_token:
  assumes "untouched a w" "free_token i w" "update_row token_keys (\<lambda>t. tok_id t = i) f (console_tokens w) = Some ts"
    "\<And>t. tok_id (f t) = tok_id t \<and> tok_user_id (f t) = tok_user_id t"
  shows "untouched a (put_tokens ts w)"
proof (rule untouched_put_tokens [OF assms(1)])
  have ts: "ts = update_one (\<lambda>t. tok_id t = i) f (console_tokens w)" using assms(3) by (rule update_rowD)
  show "filter (owned_high w) ts = filter (owned_high w) (console_tokens w)"
    unfolding ts by (rule filter_update_one) (use free_tokenD [OF assms(1,2)] assms(4) in \<open>auto simp: owned_high_def\<close>)
  have "map tok_id ts = map tok_id (console_tokens w)" unfolding ts by (rule update_one_map) (simp add: assms(4))
  then show "distinct (map tok_id ts)" using assms(1) by (simp add: untouched_def keyed_def)
qed

lemma untouched_remove_token:
  assumes "untouched a w" "free_token i w"
  shows "untouched a (put_tokens (remove_first (\<lambda>t. tok_id t = i) (console_tokens w)) w)"
proof (rule untouched_put_tokens [OF assms(1)])
  show "filter (owned_high w) (remove_first (\<lambda>t. tok_id t = i) (console_tokens w)) = filter (owned_high w) (console_tokens w)"
    by (rule filter_remove_first) (use free_tokenD [OF assms] in blast)
  show "distinct (map tok_id (remove_first (\<lambda>t. tok_id t = i) (console_tokens w)))"
    using assms(1) by (intro remove_first_distinct) (simp add: untouched_def keyed_def)
qed

subsection \<open>Patches\<close>

text \<open>Every reading of a patch leads from rows with a property to rows with it.\<close>

definition carries :: "('d \<Rightarrow> bool) \<Rightarrow> thrown + ('d \<Rightarrow> 'd) \<Rightarrow> bool" where
  "carries Q r \<longleftrightarrow> (\<forall>f d. r = Inr f \<longrightarrow> Q d \<longrightarrow> Q (f d))"

lemma carries_Inr: "(\<And>d. Q d \<Longrightarrow> Q (f d)) \<Longrightarrow> carries Q (Inr f)"
  by (simp add: carries_def)

lemma carries_patched:
  "(\<And>a d. v \<noteq> None \<Longrightarrow> read v = Inr a \<Longrightarrow> Q d \<Longrightarrow> Q (put_it a d)) \<Longrightarrow> carries Q acc \<Longrightarrow> carries Q (patched v read put_it acc)"
  by (auto simp: carries_def patched_def split: sum.splits if_splits)

definition plain_role :: "json option \<Rightarrow> bool" where
  "plain_role v \<longleftrightarrow> v = None \<or> v = Some (JStr ''user'')"

lemma as_role_plain: "plain_role v \<Longrightarrow> as_role v RoleUser = Inr RoleUser"
  by (auto simp: plain_role_def as_role_def absent_def)

lemma user_patch_carries:
  assumes "plain_role (get_field ''role'' p)"
  shows "carries (\<lambda>d. usr_id d = i \<and> usr_role d = RoleUser) (user_patch x u p)"
  unfolding user_patch_def
  by (intro carries_patched carries_Inr)
    (use assms in \<open>auto simp: plain_role_def as_role_def absent_def\<close>)

lemma token_patch_carries: "carries (\<lambda>d. tok_id d = i \<and> tok_user_id d = j) (token_patch x t p)"
  unfolding token_patch_def by (intro carries_patched carries_Inr) auto

lemma new_user_plain: "new_user x p c n = Inr u \<Longrightarrow> plain_role (get_field ''role'' p) \<Longrightarrow> usr_role u = RoleUser"
  by (auto simp: new_user_def as_role_plain split: sum.splits)

subsection \<open>The operations on accounts\<close>

lemma ensures_if: "(b \<Longrightarrow> ensures P m Q E) \<Longrightarrow> (\<not> b \<Longrightarrow> ensures P n Q E) \<Longrightarrow> ensures P (if b then m else n) Q E"
  by simp

lemma ensures_throw: "(\<And>w. P w \<Longrightarrow> E w) \<Longrightarrow> ensures P (throw e) Q E"
  by (simp add: ensures_def throw_def)

lemma ensures_weaken: "ensures P m Q E \<Longrightarrow> (\<And>w. P' w \<Longrightarrow> P w) \<Longrightarrow> ensures P' m Q E"
  by (simp add: ensures_def)

lemma ensures_post:
  assumes "ensures P m Q E'" "\<And>w. E' w \<Longrightarrow> E w"
  shows "ensures P m Q E"
proof (rule ensuresI)
  fix w
  assume "P w"
  with assms(1) have "case m w of (Inl e, w') \<Rightarrow> E' w' | (Inr a, w') \<Rightarrow> Q a w'" by (simp add: ensures_def)
  then show "case m w of (Inl e, w') \<Rightarrow> E w' | (Inr a, w') \<Rightarrow> Q a w'"
    using assms(2) by (cases "m w"; cases "fst (m w)") auto
qed

lemma ensures_seq_kept:
  assumes "keeps V m" "\<And>w w'. V w = V w' \<Longrightarrow> P w \<Longrightarrow> P w'" "\<And>w. P w \<Longrightarrow> E w" "\<And>a. ensures P (f a) Q E"
  shows "ensures P (seq m f) Q E"
proof (rule ensures_seq [OF _ assms(4)])
  show "ensures P m (\<lambda>_. P) E"
  proof (rule ensuresI)
    fix w
    assume "P w"
    then have "P (snd (m w))" using assms(1,2) by (metis keeps_def)
    with assms(3) show "case m w of (Inl e, w') \<Rightarrow> E w' | (Inr a, w') \<Rightarrow> P w'" by (cases "m w"; cases "fst (m w)") auto
  qed
qed

lemma seq_from_Inl [simp]: "seq (from_result (Inl e)) f = throw e"
  by (rule ext) (simp add: seq_def from_result_def throw_def)

lemma seq_from_Inr [simp]: "seq (from_result (Inr a)) f = f a"
  by (rule ext) (simp add: seq_def from_result_def)

text \<open>A write of the database keeps the authorities when what it stores does.\<close>

lemma ensures_db:
  "(\<And>w. P w \<Longrightarrow> E (snd (f w))) \<Longrightarrow> (\<And>w. P w \<Longrightarrow> E w) \<Longrightarrow> ensures P (db f) (\<lambda>_. E) E"
  by (rule ensures_all) (simp add: db_def)

lemma stored_snd: "snd (stored rows put_it z w) = (case rows of None \<Rightarrow> w | Some ds \<Rightarrow> put_it ds w)"
  by (simp add: stored_def split: option.splits)

lemma create_user_untouched:
  assumes "plain_role (get_field ''role'' body)"
  shows "ensures (untouched a) (create_user x body c) (\<lambda>_. untouched a) (untouched a)"
proof -
  have "ensures (\<lambda>w. untouched a w \<and> usr_role u = RoleUser) (insert_user u) (\<lambda>_. untouched a) (untouched a)" for u
    unfolding insert_user_def by (rule ensures_db) (auto simp: stored_snd intro: untouched_insert_user split: option.splits)
  then show ?thesis unfolding create_user_def
    by (intro ensures_seq [OF untouched_kept] ensures_if ensures_throw
        ensures_seq [OF ensures_from [where Q = "\<lambda>u w. untouched a w \<and> usr_role u = RoleUser"]] keeps_rules)
      (auto dest: new_user_plain [OF _ assms])
qed

definition managed :: "string \<Rightarrow> console_world \<Rightarrow> bool" where
  "managed i w \<longleftrightarrow> (\<exists>u. find_one (\<lambda>u. usr_id u = i) (console_users w) = Some u \<and> usr_role u = RoleUser)"

lemma managedD:
  assumes "untouched a w" "managed i w" "u \<in> set (console_users w)" "usr_id u = i"
  shows "usr_role u = RoleUser"
  using assms found_by_id [of usr_id "console_users w" i] by (auto simp: managed_def untouched_def keyed_def)

lemma write_user_untouched:
  assumes "carries (\<lambda>d. usr_id d = i \<and> usr_role d = RoleUser) (Inr f)"
  shows "ensures (\<lambda>w. untouched a w \<and> managed i w) (write_user i q f) (\<lambda>_. untouched a) (untouched a)"
  unfolding write_user_def
proof (rule ensures_db)
  fix w
  assume w: "untouched a w \<and> managed i w"
  let ?here = "\<lambda>u. usr_id u = i \<and> (case q of None \<Rightarrow> True | Some z \<Rightarrow> usr_quota u = z)"
  have "untouched a (put_users us w)" if "update_row user_keys ?here f (console_users w) = Some us" for us
    using w managedD [of a w i] assms
    by (intro untouched_update_user [OF _ that]) (auto simp: carries_def)
  with w show "untouched a (snd (let here = ?here in if find_one here (console_users w) = None then (Inl balance_changed, w)
      else stored (update_row user_keys here f (console_users w)) put_users () w))"
    by (cases "update_row user_keys ?here f (console_users w)") (simp_all add: Let_def stored_snd del: not_None_eq)
qed simp

lemma update_user_untouched:
  assumes "plain_role (get_field ''role'' body)"
  shows "ensures (\<lambda>w. untouched a w \<and> managed i w) (update_user x i body) (\<lambda>_. untouched a) (untouched a)"
proof -
  let ?P = "\<lambda>w. untouched a w \<and> managed i w"
  have P: "?P w'" if "accounts w = accounts w'" "?P w" for w w'
    using that untouched_accounts [OF that(1)] by (simp add: managed_def accounts_def)
  have "ensures ?P (seq (from_result (user_patch x u body)) (\<lambda>f. seq (from_result (expected_quota body)) (\<lambda>q.
      seq (write_user i q f) (\<lambda>_. seq (drop_caches_of x i) (\<lambda>_. get_user i))))) (\<lambda>_. untouched a) (untouched a)" for u
  proof (cases "user_patch x u body")
    case (Inr f)
    then have "carries (\<lambda>d. usr_id d = i \<and> usr_role d = RoleUser) (Inr f)" using user_patch_carries [OF assms, of i x u] by simp
    then show ?thesis unfolding Inr seq_from_Inr
      by (intro ensures_seq_kept [where V = accounts and P = ?P, OF keeps_from_result P] ensures_seq [OF write_user_untouched]
          ensures_seq [OF untouched_kept] untouched_kept keeps_rules) auto
  qed (auto intro: ensures_throw)
  then show ?thesis unfolding update_user_def
    by (intro ensures_seq_kept [where V = accounts and P = ?P, OF keeps_reads(2) P]) auto
qed

lemma write_token_untouched:
  assumes "\<And>t. tok_id (f t) = tok_id t \<and> tok_user_id (f t) = tok_user_id t"
  shows "ensures (\<lambda>w. untouched a w \<and> free_token i w) (write_token i f) (\<lambda>_. untouched a) (untouched a)"
  unfolding write_token_def
  by (rule ensures_db) (auto simp: stored_snd intro: untouched_update_token [OF _ _ _ assms] split: option.splits)

lemma free_token_accounts:
  "accounts w = accounts w' \<Longrightarrow> untouched a w \<and> free_token i w \<Longrightarrow> untouched a w' \<and> free_token i w'"
  using untouched_accounts [of w w' a] by (simp add: free_token_def owned_high_def accounts_def)

lemma free_kept:
  "keeps accounts m \<Longrightarrow> (\<And>z. ensures (\<lambda>w. untouched a w \<and> free_token i w) (f z) Q (untouched a)) \<Longrightarrow>
    ensures (\<lambda>w. untouched a w \<and> free_token i w) (seq m f) Q (untouched a)"
  by (rule ensures_seq_kept [where V = accounts]) (auto dest: free_token_accounts)

lemma update_token_untouched:
  "ensures (\<lambda>w. untouched a w \<and> free_token i w) (update_token x i body) (\<lambda>_. untouched a) (untouched a)"
proof -
  have "ensures (\<lambda>w. untouched a w \<and> free_token i w) (seq (from_result (token_patch x t body)) (\<lambda>f. seq (write_token i f) (\<lambda>_.
      seq (drop_token_cache x (tok_key_prefix t)) (\<lambda>_. seq (get_token i) (\<lambda>t2. give (token_view t2)))))) (\<lambda>_. untouched a) (untouched a)" for t
  proof (cases "token_patch x t body")
    case (Inr f)
    have "tok_id (f d) = tok_id d \<and> tok_user_id (f d) = tok_user_id d" for d
      using token_patch_carries [of "tok_id d" "tok_user_id d" x t body] by (simp add: Inr carries_def)
    then show ?thesis unfolding Inr seq_from_Inr
      by (intro ensures_seq [OF write_token_untouched] ensures_seq [OF untouched_kept] untouched_kept keeps_rules) auto
  qed (auto intro: ensures_throw)
  then show ?thesis unfolding update_token_def by (intro free_kept [OF keeps_reads(3)]) auto
qed

lemma delete_token_untouched:
  "ensures (\<lambda>w. untouched a w \<and> free_token i w) (delete_token x i) (\<lambda>_. untouched a) (untouched a)"
proof -
  have "ensures (\<lambda>w. untouched a w \<and> free_token i w)
      (db (\<lambda>w. (Inr (), put_tokens (remove_first (\<lambda>t. tok_id t = i) (console_tokens w)) w))) (\<lambda>_. untouched a) (untouched a)"
    by (rule ensures_db) (auto intro: untouched_remove_token)
  then have "ensures (\<lambda>w. untouched a w \<and> free_token i w)
      (seq (db (\<lambda>w. (Inr (), put_tokens (remove_first (\<lambda>t. tok_id t = i) (console_tokens w)) w)))
         (\<lambda>_. drop_token_cache x p)) (\<lambda>_. untouched a) (untouched a)" for p
    by (rule ensures_seq) (intro untouched_kept keeps_rules)
  then show ?thesis unfolding delete_token_def by (intro free_kept [OF keeps_reads(3)]) auto
qed

lemma rotate_token_untouched:
  "ensures (\<lambda>w. untouched a w \<and> free_token i w) (rotate_token x i) (\<lambda>_. untouched a) (untouched a)"
  unfolding rotate_token_def
  by (intro free_kept [OF keeps_reads(3)] free_kept [OF keeps_from_result] ensures_seq [OF write_token_untouched]
      ensures_seq [OF untouched_kept] untouched_kept keeps_rules) auto

lemma create_token_untouched:
  assumes "\<And>owner. require_text (get_field ''userId'' body) ''userId'' 200 = Inr owner \<Longrightarrow> owner \<notin> O1"
  shows "ensures (\<lambda>w. untouched a w \<and> usr_id ` set (elevated_users (console_users w)) = O1) (create_token x body) (\<lambda>_. untouched a) (untouched a)"
proof -
  let ?P = "\<lambda>w. untouched a w \<and> usr_id ` set (elevated_users (console_users w)) = O1"
  have P: "?P w'" if "accounts w = accounts w'" "?P w" for w w'
    using that untouched_accounts [OF that(1)] by (simp add: accounts_def)
  have new: "ensures ?P (seq (from_result (new_token x body owner g ex)) (\<lambda>t.
      db (\<lambda>w. stored (insert_row token_keys t (console_tokens w)) put_tokens (token_view t, gk_key g) w))) (\<lambda>_. untouched a) (untouched a)"
    if "owner \<notin> O1" for owner g ex
  proof (cases "new_token x body owner g ex")
    case (Inr t)
    then have "tok_user_id t = owner" by (auto simp: new_token_def split: sum.splits)
    then show ?thesis unfolding Inr seq_from_Inr using that
      by (intro ensures_db) (auto simp: stored_snd owned_high_def intro: untouched_insert_token split: option.splits)
  qed (auto intro: ensures_throw)
  show ?thesis
  proof (cases "require_text (get_field ''userId'' body) ''userId'' 200")
    case (Inr owner)
    show ?thesis unfolding create_token_def Inr seq_from_Inr
      by (intro ensures_seq_kept [where V = accounts and P = ?P, OF _ P] keeps_rules new assms [OF Inr]) auto
  qed (auto simp: create_token_def intro: ensures_throw)
qed

subsection \<open>What an administrator may reach\<close>

lemma may_manageD:
  "assert_can_manage_user ctx target r = Inr z \<Longrightarrow> an_role ctx \<noteq> RoleRoot \<Longrightarrow>
    (\<forall>u. target = Some u \<longrightarrow> usr_role u = RoleUser) \<and> plain_role r"
  by (auto simp: assert_can_manage_user_def plain_role_def split: if_splits)

definition tidy :: "console_world \<Rightarrow> bool" where
  "tidy w \<longleftrightarrow> list_all (\<lambda>u. js_trim (usr_id u) = usr_id u) (console_users w)"

lemma get_user_found:
  "ensures P (get_user i) (\<lambda>u w. P w \<and> find_one (\<lambda>u. usr_id u = i) (console_users w) = Some u) P"
  by (auto simp: ensures_def get_user_def find_user_def seq_def db_def give_def throw_def split: option.splits)

lemma owner_not_high:
  assumes "untouched a w" "find_one (\<lambda>u. usr_id u = j) (console_users w) = Some u" "usr_role u = RoleUser"
  shows "j \<notin> usr_id ` set (elevated_users (console_users w))"
  using assms found_by_id [of usr_id "console_users w" j u] by (auto simp: elevated_users_def untouched_def keyed_def)

lemma owner_checked_free:
  assumes "an_role ctx \<noteq> RoleRoot"
  shows "ensures (untouched a) (owner_checked ctx i) (\<lambda>_ w. untouched a w \<and> free_token i w) (untouched a)"
  by (auto simp: ensures_def owner_checked_def get_token_def get_user_def find_user_def seq_def db_def give_def throw_def
      from_result_def free_token_def owned_high_def dest: may_manageD [OF _ assms] owner_not_high split: option.splits sum.splits)

lemma users_route_untouched:
  assumes "users_route x ctx m i p body = Some f" "an_role ctx \<noteq> RoleRoot"
  shows "ensures (untouched a) f (\<lambda>_. untouched a) (untouched a)"
proof -
  have post: "ensures (untouched a) (seq (from_result (assert_can_manage_user ctx None (get_field ''role'' body))) (\<lambda>_.
      seq (create_user x body no_credentials) (\<lambda>u.
      seq (with_trail x ctx ''user.create'' ''user'' (usr_id u) (Some [(''username'', JStr (usr_username u))])) (\<lambda>_.
        created [(''user'', user_view u)])))) (\<lambda>_. untouched a) (untouched a)"
  proof (cases "assert_can_manage_user ctx None (get_field ''role'' body)")
    case (Inr z)
    from may_manageD [OF Inr assms(2)] show ?thesis unfolding Inr seq_from_Inr
      by (intro ensures_seq [OF create_user_untouched] ensures_seq [OF untouched_kept] untouched_kept keeps_rules) auto
  qed (auto intro: ensures_throw)
  have "ensures (\<lambda>w. untouched a w \<and> find_one (\<lambda>u. usr_id u = i) (console_users w) = Some u0)
      (seq (from_result (assert_can_manage_user ctx (Some u0) (get_field ''role'' body))) (\<lambda>_. seq (update_user x i body) (\<lambda>u.
       seq (with_trail x ctx ''user.update'' ''user'' i (Some body)) (\<lambda>_. reply [(''user'', user_view u)]))))
      (\<lambda>_. untouched a) (untouched a)" for u0
  proof (cases "assert_can_manage_user ctx (Some u0) (get_field ''role'' body)")
    case (Inr z)
    from may_manageD [OF Inr assms(2)] show ?thesis unfolding Inr seq_from_Inr
      by (intro ensures_seq [OF ensures_weaken [OF update_user_untouched]] ensures_seq [OF untouched_kept] untouched_kept keeps_rules)
        (auto simp: managed_def)
  qed (auto intro: ensures_throw)
  then have patch: "ensures (untouched a) (seq (get_user i) (\<lambda>u0.
      seq (from_result (assert_can_manage_user ctx (Some u0) (get_field ''role'' body))) (\<lambda>_. seq (update_user x i body) (\<lambda>u.
       seq (with_trail x ctx ''user.update'' ''user'' i (Some body)) (\<lambda>_. reply [(''user'', user_view u)])))))
      (\<lambda>_. untouched a) (untouched a)"
    by (rule ensures_seq [OF get_user_found])
  have reads: "ensures (untouched a) (seq (list_users p) (\<lambda>us. list_answer ''users'' (map user_view us))) (\<lambda>_. untouched a) (untouched a)"
    "ensures (untouched a) (seq (get_user i) (\<lambda>u. reply [(''user'', user_view u)])) (\<lambda>_. untouched a) (untouched a)"
    by (intro untouched_kept keeps_rules)+
  show ?thesis using assms(1) post patch reads unfolding users_route_def by (auto split: if_splits)
qed

lemma tidy_accounts: "accounts w = accounts w' \<Longrightarrow> tidy w \<Longrightarrow> tidy w'"
  by (simp add: tidy_def accounts_def)

text \<open>The account that was checked is the one the key is issued for, since ids have no blanks around them.\<close>

lemma issue_untouched:
  assumes "an_role ctx \<noteq> RoleRoot"
  shows "ensures (\<lambda>w. (untouched a w \<and> tidy w) \<and>
        find_one (\<lambda>u. usr_id u = text_or_empty (get_field ''userId'' body)) (console_users w) = Some u)
      (seq (from_result (assert_can_manage_user ctx (Some u) None)) (\<lambda>_. create_token x body)) (\<lambda>_. untouched a) (untouched a)"
proof (cases "assert_can_manage_user ctx (Some u) None")
  case (Inr z)
  from may_manageD [OF Inr assms] have plain: "usr_role u = RoleUser" by simp
  show ?thesis unfolding Inr seq_from_Inr
  proof (rule ensuresI)
    fix w
    let ?s = "text_or_empty (get_field ''userId'' body)"
    assume w: "(untouched a w \<and> tidy w) \<and> find_one (\<lambda>u. usr_id u = ?s) (console_users w) = Some u"
    then have "usr_id u = ?s" "u \<in> set (console_users w)" by (auto dest: find_one_SomeD)
    moreover have "\<forall>v \<in> set (console_users w). js_trim (usr_id v) = usr_id v" using w by (simp add: tidy_def list_all_iff)
    ultimately have trim: "js_trim ?s = ?s" by metis
    have high: "?s \<notin> usr_id ` set (elevated_users (console_users w))" using owner_not_high [of a w ?s u] w plain by simp
    have "owner = ?s" if "require_text (get_field ''userId'' body) ''userId'' 200 = Inr owner" for owner
    proof -
      from that obtain s where "get_field ''userId'' body = Some (JStr s)" "owner = js_trim s"
        by (auto simp: require_text_def split: option.splits json.splits if_splits)
      with trim show ?thesis by (simp add: text_or_empty_def)
    qed
    with high have "owner \<notin> usr_id ` set (elevated_users (console_users w))"
      if "require_text (get_field ''userId'' body) ''userId'' 200 = Inr owner" for owner using that by metis
    from create_token_untouched [OF this] w
    show "case create_token x body w of (Inl e, w') \<Rightarrow> untouched a w' | (Inr b, w') \<Rightarrow> untouched a w'"
      by (auto simp: ensures_def)
  qed
qed (auto intro: ensures_throw)

lemma chosen: "(if b then Some g else r) = Some f \<Longrightarrow> (b \<Longrightarrow> Q g) \<Longrightarrow> (\<not> b \<Longrightarrow> r = Some f \<Longrightarrow> Q f) \<Longrightarrow> Q f"
  by (auto split: if_splits)

lemma seq_assoc: "seq (seq m f) g = seq m (\<lambda>a. seq (f a) g)"
  by (rule ext) (simp add: seq_def split: prod.splits sum.splits)

lemma tokens_route_untouched:
  assumes "tokens_route x ctx m i sub p owner body = Some f" "an_role ctx \<noteq> RoleRoot"
  shows "ensures (\<lambda>w. untouched a w \<and> tidy w) f (\<lambda>_. untouched a) (untouched a)"
proof -
  let ?U = "\<lambda>w. untouched a w \<and> tidy w"
  have "ensures ?U (get_user (text_or_empty (get_field ''userId'' body)))
      (\<lambda>u w. ?U w \<and> find_one (\<lambda>u. usr_id u = text_or_empty (get_field ''userId'' body)) (console_users w) = Some u) (untouched a)"
    by (rule ensures_post [OF get_user_found]) simp
  from ensures_seq [OF this issue_untouched [OF assms(2)]]
  have "ensures ?U (seq (seq (get_user (text_or_empty (get_field ''userId'' body))) (\<lambda>u.
        seq (from_result (assert_can_manage_user ctx (Some u) None)) (\<lambda>_. create_token x body))) (\<lambda>(t, key).
        seq (with_trail x ctx ''token.create'' ''token'' (text_member ''_id'' t) (Some [(''userId'', JStr (text_member ''userId'' t))])) (\<lambda>_.
          created [(''token'', t), (''key'', JStr key)]))) (\<lambda>_. untouched a) (untouched a)"
    by (rule ensures_seq) (intro untouched_kept keeps_rules)
  then have issue: "ensures ?U (seq (get_user (text_or_empty (get_field ''userId'' body))) (\<lambda>u.
        seq (from_result (assert_can_manage_user ctx (Some u) None)) (\<lambda>_. seq (create_token x body) (\<lambda>(t, key).
        seq (with_trail x ctx ''token.create'' ''token'' (text_member ''_id'' t) (Some [(''userId'', JStr (text_member ''userId'' t))])) (\<lambda>_.
          created [(''token'', t), (''key'', JStr key)]))))) (\<lambda>_. untouched a) (untouched a)"
    by (simp only: seq_assoc)
  have changes: "ensures ?U (seq (owner_checked ctx i) (\<lambda>_. seq f1 f2)) (\<lambda>_. untouched a) (untouched a)"
    if "ensures (\<lambda>w. untouched a w \<and> free_token i w) f1 (\<lambda>_. untouched a) (untouched a)" "\<And>z. keeps accounts (f2 z)" for f1 :: "'b console" and f2
    by (rule ensures_weaken [where P = "untouched a"],
        rule ensures_seq [OF owner_checked_free [OF assms(2)]], rule ensures_seq [OF that(1)], rule untouched_kept [OF that(2)]) simp
  have reads: "ensures ?U g (\<lambda>_. untouched a) (untouched a)" if "keeps accounts g" for g :: answer
    by (rule ensures_weaken [OF untouched_kept [OF that]]) simp
  note steps = issue changes [OF rotate_token_untouched] changes [OF update_token_untouched] changes [OF delete_token_untouched]
  show ?thesis using assms(1) unfolding tokens_route_def
    by (elim chosen) (rule issue | (rule steps, intro keeps_rules) | (rule reads, intro keeps_rules) | simp)+
qed

lemma admitted_untouched:
  assumes "an_role ctx \<noteq> RoleRoot" "nth_segment 0 segments \<noteq> ''redeem''"
  shows "ensures (\<lambda>w. untouched a w \<and> tidy w) (admitted x req segments ctx) (\<lambda>_. untouched a) (untouched a)"
proof (cases "read_admin_body (nx_env x) req")
  case (Inr body)
  show ?thesis
  proof (cases "admin_route x ctx req segments body")
    case (Some f)
    have "ensures (\<lambda>w. untouched a w \<and> tidy w) f (\<lambda>_. untouched a) (untouched a)"
    proof (cases "nth_segment 0 segments \<in> {''users'', ''tokens''}")
      case True
      with Some show ?thesis
        by (auto simp: admin_route_def Let_def intro: tokens_route_untouched [OF _ assms(1)]
            ensures_weaken [OF users_route_untouched [OF _ assms(1)]])
    next
      case False
      with Some assms(2) have "keeps accounts f" by (intro other_routes_keep_accounts) auto
      then show ?thesis by (intro ensures_weaken [OF untouched_kept]) auto
    qed
    then show ?thesis by (simp add: admitted_def Inr Some)
  qed (auto simp: admitted_def Inr intro: ensures_throw)
qed (auto simp: admitted_def intro: ensures_throw)

lemma handled_admin:
  "require_admin x req (minimum_role segments) w = (Inr ctx, w1) \<Longrightarrow>
    snd (handle_admin_request x req segments w) = snd (admitted x req segments ctx w1)"
  by (simp add: handle_admin_request_def split: prod.splits sum.splits)

lemma refused_admin:
  "require_admin x req (minimum_role segments) w = (Inl e, w1) \<Longrightarrow> snd (handle_admin_request x req segments w) = w1"
  by (simp add: handle_admin_request_def)

text \<open>C13: whatever an administrator who is not root sends to the control plane, the accounts above a plain user
  stay exactly as they are, none is added to them, and the same holds for the keys they own: no such
  request can raise a role, change an authority's quota or state, or issue, rotate, change or delete
  one of its keys. The one exception is \<open>redeem\<close>, which credits the caller's own account.\<close>
theorem only_root_manages_authorities:
  assumes "require_admin x req (minimum_role segments) w = (Inr ctx, w1)" "an_role ctx \<noteq> RoleRoot"
    "nth_segment 0 segments \<noteq> ''redeem''" "keyed w" "tidy w"
  shows "authorities (snd (handle_admin_request x req segments w)) = authorities w"
proof -
  have same: "accounts w1 = accounts w" by (rule documents_accounts) (rule keepsD [OF keeps_require_admin assms(1)])
  have "untouched (authorities w) w" using assms(4) by (simp add: untouched_def)
  with same assms(5) have "untouched (authorities w) w1 \<and> tidy w1"
    using untouched_accounts [OF same [symmetric]] tidy_accounts [OF same [symmetric]] by blast
  from ensures_snd [OF admitted_untouched [OF assms(2,3)] this] show ?thesis
    by (simp add: handled_admin [OF assms(1)] untouched_def)
qed

subsection \<open>What it takes to change anything\<close>

lemma active_userD:
  assumes "active_user i w = (Inr u, w')"
  shows "u \<in> set (console_users w) \<and> usr_id u = i \<and> usr_status u = Enabled \<and> w' = w"
  using assms by (auto simp: active_user_def find_user_def seq_def db_def give_def throw_def dest!: find_one_SomeD
      split: option.splits if_splits)

lemma assert_csrfD:
  assumes "assert_csrf x req p = Inr z"
  shows "js_upper (nq_method req) \<in> set safe_methods \<or> same_origin x (qi_headers (nq_in req)) \<and>
    (\<exists>secret. session_secret (nx_env x) = Inr secret \<and>
       or_empty (map_of (qi_headers (nq_in req)) csrf_header) = csrf_token_for (nx_hmac x) secret (sp_sid p))"
  using assms by (auto simp: assert_csrf_def Let_def timing_safe_equal_iff split: if_splits sum.splits)

text \<open>Who a request comes from: the account, and by what it is known.\<close>

definition by_browser :: "console_outside \<Rightarrow> console_request \<Rightarrow> console_world \<Rightarrow> user_doc \<Rightarrow> bool" where
  "by_browser x req w u \<longleftrightarrow>
     (\<exists>p. read_session x (headers_of req) w = Inr (Some p) \<and> sp_sub p = usr_id u \<and>
        (js_upper (nq_method req) \<in> set safe_methods \<or> same_origin x (headers_of req) \<and>
          (\<exists>secret. session_secret (nx_env x) = Inr secret \<and>
             or_empty (map_of (headers_of req) csrf_header) = csrf_token_for (nx_hmac x) secret (sp_sid p))))"

definition by_api_key :: "console_outside \<Rightarrow> console_request \<Rightarrow> console_world \<Rightarrow> user_doc \<Rightarrow> bool" where
  "by_api_key x req w u \<longleftrightarrow>
     (\<exists>t p. t \<in> set (console_tokens w) \<and> tok_user_id t = usr_id u \<and> tok_status t = Enabled \<and>
        parse_api_key (cr_raw (extract_credential (headers_of req) (qi_query_key (nq_in req)))) = Some p \<and>
        digest_api_key (nx_env x) (nx_sha x) (pk_prefix p) (pk_secret p) = tok_key_digest t)"

lemma require_adminD:
  assumes "require_admin x req minimum w = (Inr ctx, w1)"
  shows "\<exists>u \<in> set (console_users w). usr_id u = an_user_id ctx \<and> usr_role u = an_role ctx \<and> usr_status u = Enabled \<and>
    role_rank minimum \<le> role_rank (usr_role u) \<and> (by_browser x req w u \<or> by_api_key x req w u) \<and>
    (env_list (nx_env x) ''ADMIN_ALLOWED_CIDRS'' [] = [] \<or>
      matches_any_cidr (env_list (nx_env x) ''ADMIN_ALLOWED_CIDRS'' []) (get_client_ip (headers_of req) (cfg_trusted_proxy_hops (nx_env x))))"
proof -
  let ?fence = "env_list (nx_env x) ''ADMIN_ALLOWED_CIDRS'' []"
  have fence: "?fence = [] \<or> matches_any_cidr ?fence (get_client_ip (headers_of req) (cfg_trusted_proxy_hops (nx_env x)))"
    using assms by (auto simp: require_admin_def Let_def split: if_splits)
  from assms consider p where "read_session x (headers_of req) w = Inr (Some p)" "by_session x req minimum p w = (Inr ctx, w1)"
    | "by_key x req minimum w = (Inr ctx, w1)"
    by (auto simp: require_admin_def Let_def split: if_splits sum.splits option.splits)
  then show ?thesis
  proof cases
    case 1
    from 1(2) obtain z u where "assert_csrf x req p = Inr z" "active_user (sp_sub p) w = (Inr u, w1)"
      "role_rank minimum \<le> role_rank (usr_role u)" "an_user_id ctx = usr_id u" "an_role ctx = usr_role u"
      by (auto simp: by_session_def seq_def from_result_def give_def throw_def split: sum.splits prod.splits if_splits)
    with 1(1) fence active_userD [of "sp_sub p" w u w1] assert_csrfD [of x req p z] show ?thesis
      unfolding by_browser_def by (intro bexI [of _ u]) auto
  next
    case 2
    from 2 obtain c w2 u where c: "console_authenticate x req w = (Inr c, w2)" "active_user (idn_user_id (ac_identity c)) w2 = (Inr u, w1)"
      "role_rank minimum \<le> role_rank (usr_role u)" "an_user_id ctx = idn_user_id (ac_identity c)" "an_role ctx = usr_role u"
      by (auto simp: by_key_def seq_def give_def throw_def assert_role_def split: sum.splits prod.splits if_splits)
    have same: "accounts w2 = accounts w" by (rule keepsD [OF keeps_console_authenticate(2) c(1)])
    from c(1) obtain f aw where "authenticate (nx_env x) (nx_sha x) (hash_ip (nx_env x) (nx_hmac x)) (qi_request_id (nq_in req))
        (nx_clock x) (headers_of req) (qi_query_key (nq_in req)) (nw_auth w) = (Inr c, f, aw)"
      by (auto simp: console_authenticate_def split: prod.splits)
    from admitted_rows [OF this] have "by_api_key x req w u"
      using active_userD [OF c(2)] by (fastforce simp: by_api_key_def)
    with same fence active_userD [OF c(2)] c(3-5) show ?thesis by (intro bexI [of _ u]) (auto simp: accounts_def)
  qed
qed

lemma safe_admitted:
  assumes "js_upper (nq_method req) \<in> set safe_methods"
  shows "keeps V (admitted x req segments ctx)"
  unfolding admitted_def by (intro keeps_rules safe_routes_read [OF assms])

text \<open>C14: a row of the control plane changes only for an enabled account of this moment, an administrator's or, for
  the redemption of a code, any, that comes from an address the fence admits and is known either by a
  key whose digest is stored and enabled, or by a signed, unrevoked session whose request comes from
  the console's own origin with the token bound to that session. Requests with a safe method change
  nothing for anyone.\<close>
theorem what_it_takes_to_change_the_console:
  assumes "documents (snd (handle_admin_request x req segments w)) \<noteq> documents w"
  shows "\<exists>u \<in> set (console_users w). usr_status u = Enabled \<and>
    (role_rank RoleAdmin \<le> role_rank (usr_role u) \<or> nth_segment 0 segments = ''redeem'') \<and>
    (by_browser x req w u \<or> by_api_key x req w u) \<and> js_upper (nq_method req) \<notin> set safe_methods \<and>
    (env_list (nx_env x) ''ADMIN_ALLOWED_CIDRS'' [] = [] \<or>
      matches_any_cidr (env_list (nx_env x) ''ADMIN_ALLOWED_CIDRS'' []) (get_client_ip (headers_of req) (cfg_trusted_proxy_hops (nx_env x))))"
proof (cases "require_admin x req (minimum_role segments) w")
  case (Pair r w1)
  have same: "documents w1 = documents w" by (rule keepsD [OF keeps_require_admin Pair])
  show ?thesis
  proof (cases r)
    case (Inl e)
    with Pair same assms show ?thesis by (simp add: refused_admin)
  next
    case (Inr ctx)
    with Pair have ok: "require_admin x req (minimum_role segments) w = (Inr ctx, w1)" by simp
    have "js_upper (nq_method req) \<notin> set safe_methods"
    proof
      assume "js_upper (nq_method req) \<in> set safe_methods"
      from safe_admitted [OF this, where V = documents] same assms show False by (simp add: handled_admin [OF ok] keeps_def)
    qed
    with require_adminD [OF ok] show ?thesis by (auto simp: minimum_role_def split: if_splits)
  qed
qed

subsection \<open>An administrator at work\<close>

text \<open>A console with one administrator, whose key is known, and root; what is random is named.\<close>

definition sample_outside :: console_outside where
  "sample_outside = \<lparr>nx_env = (\<lambda>_. None), nx_now = 1000, nx_clock = sample_clock, nx_hmac = (\<lambda>k m. m), nx_sha = sample_sha,
     nx_derive = (\<lambda>p s n. p), nx_origin = (\<lambda>u. Some u), nx_date = (\<lambda>_. None), nx_random = (\<lambda>r. ''r''),
     nx_probe = \<lparr>pb_open = (\<lambda>_. Inr ''s''), pb_send = (\<lambda>_ _. Inr 200), pb_ids = (\<lambda>_ _. ''i''), pb_message = (\<lambda>_. ''m'')\<rparr>,
     nx_github_token = (\<lambda>_. Inr ''{}''), nx_github_user = (\<lambda>_. Inr (True, ''{}'')),
     nx_key_bytes = (replicate 8 62, replicate 48 1), nx_seal = (\<lambda>p k v. (p, ''iv'', ''tag'', ''f''))\<rparr>"

definition sample_console :: console_world where
  "sample_console =
     \<lparr>nw_auth = sample_auth\<lparr>aw_users := [sample_user\<lparr>usr_role := RoleAdmin\<rparr>,
        sample_user\<lparr>usr_id := ''u0'', usr_username := ''root'', usr_role := RoleRoot\<rparr>]\<rparr>,
      nw_routing = \<lparr>rw_co = aw_co sample_auth, rw_channels = [], rw_abilities = [], rw_mappings = [], rw_keys = [], rw_db_ok = True\<rparr>,
      nw_pricing = \<lparr>pw_co = aw_co sample_auth, pw_pricing = [], pw_group_ratios = [], pw_db_ok = True\<rparr>,
      nw_usage = \<lparr>ud_logs = [], ud_rollups = []\<rparr>, nw_ratio_notes = [], nw_codes = [], nw_settings = [], nw_states = [],
      nw_revoked = [], nw_audit = []\<rparr>"

definition sample_request :: "string \<Rightarrow> string \<Rightarrow> console_request" where
  "sample_request m body =
     \<lparr>nq_method = m, nq_in = \<lparr>qi_headers = [(''authorization'', ''Bearer '' @ sample_key)], qi_query_key = None,
        qi_body = Some [Chunk body, StreamEnd], qi_request_id = ''req1''\<rparr>, nq_query = []\<rparr>"

lemma sample_admin:
  "\<exists>ctx w1. require_admin sample_outside (sample_request ''PATCH'' ''{}'') RoleAdmin sample_console = (Inr ctx, w1) \<and> an_role ctx = RoleAdmin"
proof -
  have "(case require_admin sample_outside (sample_request ''PATCH'' ''{}'') RoleAdmin sample_console of
      (Inr ctx, _) \<Rightarrow> an_role ctx = RoleAdmin | _ \<Rightarrow> False)" by code_simp
  then show ?thesis by (auto split: prod.splits sum.splits)
qed

lemma sample_setting:
  "nw_settings (snd (handle_admin_request sample_outside (sample_request ''POST'' ''{\"key\":\"a\"}'') [''settings''] sample_console)) = [(''a'', JNull)]"
  by code_simp

theorem only_root_manages_authorities_witness:
  "authorities (snd (handle_admin_request sample_outside (sample_request ''PATCH'' ''{}'') [''users'', ''u0''] sample_console)) =
    authorities sample_console"
proof -
  obtain ctx w1 where "require_admin sample_outside (sample_request ''PATCH'' ''{}'') RoleAdmin sample_console = (Inr ctx, w1)"
    "an_role ctx = RoleAdmin" using sample_admin by blast
  moreover have "keyed sample_console" "tidy sample_console"
    by (simp_all add: keyed_def tidy_def sample_console_def sample_auth_def sample_user_def js_trim_def is_ws_def)
  ultimately show ?thesis by (intro only_root_manages_authorities) (auto simp: minimum_role_def nth_segment_def)
qed

theorem what_it_takes_to_change_the_console_witness:
  "\<exists>u \<in> set (console_users sample_console). by_browser sample_outside (sample_request ''POST'' ''{\"key\":\"a\"}'') sample_console u \<or>
    by_api_key sample_outside (sample_request ''POST'' ''{\"key\":\"a\"}'') sample_console u"
proof -
  have "nw_settings sample_console = []" by (simp add: sample_console_def)
  with sample_setting have "documents (snd (handle_admin_request sample_outside (sample_request ''POST'' ''{\"key\":\"a\"}'') [''settings''] sample_console))
      \<noteq> documents sample_console" by (auto simp: documents_def)
  from what_it_takes_to_change_the_console [OF this] show ?thesis by blast
qed

end
