(* ===== verification/ConsoleBooks.thy ===== *)
theory ConsoleBooks
  imports ConsoleLaws
begin

text \<open>
  The laws of what the console gives away and reports: redemption codes and sign-in states are used once,
  money is neither made nor lost, a price that is typed is the price that is charged, and where a report
  or a probe does not say what it is meant to.
\<close>

subsection \<open>What is used at most once\<close>

text \<open>Attempts in any order, one after another, with what became of each.\<close>

primrec run_claims :: "('a \<Rightarrow> 'w \<Rightarrow> bool \<times> 'w) \<Rightarrow> 'a list \<Rightarrow> 'w \<Rightarrow> ('a \<times> bool) list \<times> 'w" where
  "run_claims claim [] w = ([], w)"
| "run_claims claim (a # as) w =
     (case claim a w of (won, w1) \<Rightarrow> (case run_claims claim as w1 of (rs, w2) \<Rightarrow> ((a, won) # rs, w2)))"

text \<open>What promises a single use: a claim that wins finds its key unspent and leaves it spent, and nothing makes a
  spent key whole again.\<close>

locale single_use =
  fixes claim :: "'a \<Rightarrow> 'w \<Rightarrow> bool \<times> 'w" and key :: "'a \<Rightarrow> 'k" and spent :: "'k \<Rightarrow> 'w \<Rightarrow> bool" and inv :: "'w \<Rightarrow> bool"
  assumes won: "inv w \<Longrightarrow> claim a w = (True, w') \<Longrightarrow> \<not> spent (key a) w \<and> spent (key a) w'"
    and stays: "inv w \<Longrightarrow> spent k w \<Longrightarrow> spent k (snd (claim a w))"
    and inv: "inv w \<Longrightarrow> inv (snd (claim a w))"
begin

lemma wins_bounded:
  "inv w \<Longrightarrow> length (filter (\<lambda>(a, won). won \<and> key a = k) (fst (run_claims claim as w))) \<le> (if spent k w then 0 else 1)"
proof (induction as arbitrary: w)
  case (Cons a as)
  obtain r w1 where c: "claim a w = (r, w1)" by fastforce
  have i: "inv w1" using inv [OF Cons.prems, of a] c by simp
  have s: "spent k w \<Longrightarrow> spent k w1" using stays [OF Cons.prems, of k a] c by simp
  have w: "r \<Longrightarrow> key a = k \<Longrightarrow> \<not> spent k w \<and> spent k w1" using won [OF Cons.prems, of a w1] c by simp
  obtain rs w2 where run: "run_claims claim as w1 = (rs, w2)" by fastforce
  from Cons.IH [OF i] s w show ?case by (auto simp: c run split: if_splits)
qed simp

theorem used_once:
  "inv w \<Longrightarrow> length (filter (\<lambda>(a, won). won \<and> key a = k) (fst (run_claims claim as w))) \<le> 1"
  using wins_bounded [of w k as] by (simp split: if_splits)

end

subsection \<open>Redemption codes\<close>

text \<open>An attempt: the request's outside, what was typed, and for whom.\<close>

definition redeem_attempt :: "console_outside \<times> string \<times> string \<Rightarrow> console_world \<Rightarrow> bool \<times> console_world" where
  "redeem_attempt a w = (case a of (x, raw, owner) \<Rightarrow> (case redeem_code x raw owner w of (r, w') \<Rightarrow> (\<not> isl r, w')))"

definition code_of :: "console_outside \<times> string \<times> string \<Rightarrow> string" where
  "code_of a = (case a of (x, raw, owner) \<Rightarrow> code_digest_for (nx_sha x) (normal_code (js_trim raw)))"

definition code_spent :: "string \<Rightarrow> console_world \<Rightarrow> bool" where
  "code_spent d w \<longleftrightarrow> list_all (\<lambda>c. rc_digest c = d \<longrightarrow> rc_status c \<noteq> CodeUnused) (nw_codes w)"

definition codes_keyed :: "console_world \<Rightarrow> bool" where
  "codes_keyed w \<longleftrightarrow> distinct (map rc_digest (nw_codes w))"

definition unused_worth :: "redemption_code list \<Rightarrow> int" where
  "unused_worth cs = sum_list (map (\<lambda>c. if rc_status c = CodeUnused then rc_quota c else 0) cs)"

text \<open>What the accounts hold and what the unused codes are worth.\<close>

definition worth :: "console_world \<Rightarrow> int" where
  "worth w = sum_list (map usr_quota (console_users w)) +
     unused_worth (nw_codes w)"

definition used_by :: "string option \<Rightarrow> int option \<Rightarrow> redemption_code \<Rightarrow> redemption_code" where
  "used_by b t c = c\<lparr>rc_status := CodeUsed, rc_used_by := b, rc_used_at := t\<rparr>"

lemma used_by_sels [simp]: "rc_digest (used_by b t c) = rc_digest c" "rc_status (used_by b t c) = CodeUsed"
  by (simp_all add: used_by_def)

lemma redeem_cases:
  obtains (refused) e w' where "redeem_code x raw owner w = (Inl e, w')" "console_users w' = console_users w" "nw_codes w' = nw_codes w"
  | (paid) u c w' where "redeem_code x raw owner w = (Inr (rc_quota c, usr_quota u + rc_quota c), w')"
      "find_one (\<lambda>u. usr_id u = owner \<and> usr_status u = Enabled) (console_users w) = Some u"
      "find_one (claimable (code_of (x, raw, owner)) (nx_now x)) (nw_codes w) = Some c"
      "console_users w' = update_one (\<lambda>u. usr_id u = owner)
         (\<lambda>u. u\<lparr>usr_quota := usr_quota u + rc_quota c, usr_updated_at := nx_now x\<rparr>) (console_users w)"
      "nw_codes w' = update_one (claimable (code_of (x, raw, owner)) (nx_now x)) (used_by (Some owner) (Some (nx_now x))) (nw_codes w)"
proof -
  have amount: "quota_amount (js_int (rc_quota c)) ''quota'' = Inr q \<Longrightarrow> q = rc_quota c" for c q
    by (auto simp: quota_amount_def Let_def split: if_splits)
  obtain r w' where rw: "redeem_code x raw owner w = (r, w')" by fastforce
  show thesis
  proof (cases r)
    case (Inl e)
    with rw have "console_users w' = console_users w" "nw_codes w' = nw_codes w"
      by (auto simp: redeem_code_def seq_def from_result_def on_shared_def db_def claim_and_credit_def
          split: sum.splits prod.splits if_splits option.splits)
    with Inl rw refused show thesis by blast
  next
    case (Inr v)
    with rw show thesis using paid
      by (auto simp: redeem_code_def seq_def from_result_def on_shared_def db_def claim_and_credit_def a_name_def code_of_def put_users_def
          used_by_def [abs_def]
          dest!: amount split: sum.splits prod.splits if_splits option.splits)
  qed
qed

lemma update_one_unique:
  "distinct (map key ds) \<Longrightarrow> find_one here ds = Some c \<Longrightarrow> (\<And>d. here d \<Longrightarrow> key d = key c) \<Longrightarrow>
    update_one here f ds = map (\<lambda>d. if key d = key c then f d else d) ds"
proof (induction ds)
  case (Cons a ds)
  have fresh: "key d \<noteq> key a" if "d \<in> set ds" for d using Cons.prems(1) that by (auto simp: image_iff)
  show ?case
  proof (cases "here a")
    case True
    with Cons.prems(2) have "c = a" by simp
    with True fresh show ?thesis by (simp add: map_idI)
  next
    case False
    with Cons.prems(2) have found: "find_one here ds = Some c" by simp
    then have "key a \<noteq> key c" using fresh [of c] find_one_SomeD [OF found] by metis
    with False found Cons show ?thesis by simp
  qed
qed simp

lemma claim_map:
  assumes "codes_keyed w" "find_one (claimable d now) (nw_codes w) = Some c"
  shows "update_one (claimable d now) f (nw_codes w) = map (\<lambda>e. if rc_digest e = rc_digest c then f e else e) (nw_codes w)"
  by (rule update_one_unique [OF _ assms(2)])
    (use assms(1) find_one_SomeD [OF assms(2)] in \<open>simp_all add: codes_keyed_def claimable_def\<close>)

lemma claim_codes:
  assumes "codes_keyed w" "find_one (claimable d now) (nw_codes w) = Some c"
  shows "update_one (claimable d now) f (nw_codes w) = map (\<lambda>e. if rc_digest e = d then f e else e) (nw_codes w)"
proof -
  have "rc_digest c = d" using find_one_SomeD [OF assms(2)] by (simp add: claimable_def)
  with claim_map [OF assms, of f] show ?thesis by simp
qed

lemma claim_unspent:
  assumes "find_one (claimable d now) (nw_codes w) = Some c"
  shows "\<not> code_spent d w"
proof
  assume "code_spent d w"
  then have "\<forall>e \<in> set (nw_codes w). rc_digest e = d \<longrightarrow> rc_status e \<noteq> CodeUnused" by (simp add: code_spent_def list_all_iff)
  moreover have "c \<in> set (nw_codes w)" "rc_digest c = d" "rc_status c = CodeUnused"
    using find_one_SomeD [OF assms] by (simp_all add: claimable_def)
  ultimately show False by blast
qed

lemma map_spends:
  assumes "nw_codes w' = map (\<lambda>e. if rc_digest e = d then used_by b t e else e) (nw_codes w)"
  shows "code_spent d w'" "codes_keyed w \<Longrightarrow> codes_keyed w'" "code_spent k w \<Longrightarrow> code_spent k w'"
proof -
  have from_old: "e \<in> set (nw_codes w) \<and> rc_digest e \<noteq> d \<or> rc_status e \<noteq> CodeUnused" if new: "e \<in> set (nw_codes w')" for e
  proof -
    from new obtain e0 where "e0 \<in> set (nw_codes w)" "e = (if rc_digest e0 = d then used_by b t e0 else e0)"
      unfolding assms set_map by blast
    then show ?thesis by (cases "rc_digest e0 = d") simp_all
  qed
  then show "code_spent d w'" unfolding code_spent_def list_all_iff by blast
  from from_old show "code_spent k w \<Longrightarrow> code_spent k w'" unfolding code_spent_def list_all_iff by blast
  have "map rc_digest (nw_codes w') = map rc_digest (nw_codes w)" by (simp add: assms)
  then show "codes_keyed w \<Longrightarrow> codes_keyed w'" unfolding codes_keyed_def by argo
qed

lemma claim_worth:
  assumes "find_one (claimable d now) (nw_codes w) = Some c"
  shows "unused_worth (update_one (claimable d now) (used_by b t) (nw_codes w)) = unused_worth (nw_codes w) - rc_quota c"
proof -
  have "rc_status c = CodeUnused" using find_one_SomeD [OF assms] by (simp add: claimable_def)
  then show ?thesis unfolding unused_worth_def by (simp add: sum_update_one [OF assms])
qed

lemma redeem_attempt_codes:
  assumes "codes_keyed w" "redeem_attempt a w = (r, w')"
  shows "codes_keyed w'" "code_spent k w \<Longrightarrow> code_spent k w'" "r \<Longrightarrow> \<not> code_spent (code_of a) w \<and> code_spent (code_of a) w'"
    "worth w' = worth w"
proof -
  obtain x raw owner where a: "a = (x, raw, owner)" by (cases a)
  have "codes_keyed w' \<and> (code_spent k w \<longrightarrow> code_spent k w') \<and> (r \<longrightarrow> \<not> code_spent (code_of a) w \<and> code_spent (code_of a) w') \<and>
    worth w' = worth w"
  proof (cases rule: redeem_cases [where x = x and raw = raw and owner = owner and w = w])
    case (refused e w1)
    with assms show ?thesis by (simp add: redeem_attempt_def a codes_keyed_def code_spent_def worth_def)
  next
    case (paid u c w1)
    then have w1: "w1 = w'" using assms(2) by (simp add: redeem_attempt_def a)
    note codes = paid(5) [unfolded w1 claim_codes [OF assms(1) paid(3)]]
    have "code_of (x, raw, owner) = code_of a" by (simp add: a)
    with map_spends [OF codes] claim_unspent [OF paid(3)] assms(1)
    have "codes_keyed w'" "code_spent k w \<longrightarrow> code_spent k w'" "\<not> code_spent (code_of a) w \<and> code_spent (code_of a) w'" by simp_all
    moreover have "worth w' = worth w"
    proof -
      have "find_one (\<lambda>u. usr_id u = owner) (console_users w) \<noteq> None"
        using find_one_SomeD [OF paid(2)] by (auto simp: find_one_None_iff)
      then obtain v where "find_one (\<lambda>u. usr_id u = owner) (console_users w) = Some v" by blast
      from sum_update_one [OF this, where g = usr_quota] claim_worth [OF paid(3)]
      show ?thesis by (simp add: worth_def w1 [symmetric] paid(4,5))
    qed
    ultimately show ?thesis by blast
  qed
  then show "codes_keyed w'" "code_spent k w \<Longrightarrow> code_spent k w'" "r \<Longrightarrow> \<not> code_spent (code_of a) w \<and> code_spent (code_of a) w'"
    "worth w' = worth w" by blast+
qed

interpretation codes: single_use redeem_attempt code_of code_spent codes_keyed
proof
  fix w a w'
  assume "codes_keyed w" "redeem_attempt a w = (True, w')"
  from redeem_attempt_codes(3) [OF this] show "\<not> code_spent (code_of a) w \<and> code_spent (code_of a) w'" by blast
next
  fix w k a
  assume "codes_keyed w" "code_spent k w"
  then show "code_spent k (snd (redeem_attempt a w))" using redeem_attempt_codes(2) [of w a] by (metis prod.collapse)
next
  fix w a
  assume "codes_keyed w"
  then show "codes_keyed (snd (redeem_attempt a w))" using redeem_attempt_codes(1) [of w a] by (metis prod.collapse)
qed

lemma run_keeps_worth: "codes_keyed w \<Longrightarrow> worth (snd (run_claims redeem_attempt as w)) = worth w"
proof (induction as arbitrary: w)
  case (Cons a as)
  obtain r w1 where a: "redeem_attempt a w = (r, w1)" by fastforce
  from Cons.IH [OF redeem_attempt_codes(1) [OF Cons.prems a]] redeem_attempt_codes(4) [OF Cons.prems a]
  show ?case by (cases "run_claims redeem_attempt as w1") (simp add: a)
qed simp

text \<open>C15: however many attempts at redeeming, by whomever, in whatever order and with whatever faults of the store, each
  code is honoured at most once, and money is neither made nor lost: what the accounts hold together with
  what the unused codes are worth stays the same through every attempt.\<close>
theorem codes_pay_once:
  assumes "codes_keyed w"
  shows "length (filter (\<lambda>(a, won). won \<and> code_of a = d) (fst (run_claims redeem_attempt as w))) \<le> 1 \<and>
    worth (snd (run_claims redeem_attempt as w)) = worth w"
  using codes.used_once [OF assms] run_keeps_worth [OF assms] by blast

subsection \<open>Sign-in states\<close>

definition callback_attempt :: "console_outside \<times> console_request \<Rightarrow> console_world \<Rightarrow> bool \<times> console_world" where
  "callback_attempt a w = (case github_callback (fst a) (snd a) w of (r, w') \<Rightarrow> (\<not> isl r, w'))"

definition state_of :: "console_outside \<times> console_request \<Rightarrow> string" where
  "state_of a = or_empty (map_of (nq_query (snd a)) ''state'')"

definition state_spent :: "string \<Rightarrow> console_world \<Rightarrow> bool" where
  "state_spent i w \<longleftrightarrow> list_all (\<lambda>s. os_id s = i \<longrightarrow> os_consumed_at s \<noteq> None) (nw_states w)"

definition states_keyed :: "console_world \<Rightarrow> bool" where
  "states_keyed w \<longleftrightarrow> distinct (map os_id (nw_states w))"

lemma claim_state_spends:
  assumes "states_keyed w" "claim_state now i w = (r, w')"
  shows "states_keyed w'" "state_spent k w \<Longrightarrow> state_spent k w'" "\<not> isl r \<Longrightarrow> \<not> state_spent i w \<and> state_spent i w'"
proof -
  have "states_keyed w' \<and> (state_spent k w \<longrightarrow> state_spent k w') \<and> (\<not> isl r \<longrightarrow> \<not> state_spent i w \<and> state_spent i w')"
  proof (cases "db_up w \<and> find_one (open_state now i) (nw_states w) \<noteq> None")
    case False
    with assms show ?thesis by (auto simp: claim_state_def db_def split: if_splits option.splits)
  next
    case True
    then obtain s where s: "find_one (open_state now i) (nw_states w) = Some s" by blast
    from find_one_SomeD [OF s] have open_s: "s \<in> set (nw_states w)" "os_id s = i" "os_consumed_at s = None"
      by (simp_all add: open_state_def)
    let ?f = "\<lambda>s. s\<lparr>os_consumed_at := Some now\<rparr>"
    have "nw_states w' = update_one (open_state now i) ?f (nw_states w)" using assms(2) True s by (auto simp: claim_state_def db_def)
    also have "\<dots> = map (\<lambda>e. if os_id e = os_id s then ?f e else e) (nw_states w)"
      by (rule update_one_unique [OF _ s]) (use assms(1) open_s in \<open>simp_all add: states_keyed_def open_state_def\<close>)
    finally have w': "nw_states w' = map (\<lambda>e. if os_id e = i then ?f e else e) (nw_states w)" by (simp add: open_s(2))
    have old: "e \<in> set (nw_states w) \<and> os_id e \<noteq> i \<or> os_consumed_at e \<noteq> None" if new: "e \<in> set (nw_states w')" for e
    proof -
      from new obtain e0 where "e0 \<in> set (nw_states w)" "e = (if os_id e0 = i then ?f e0 else e0)" unfolding w' set_map by blast
      then show ?thesis by (cases "os_id e0 = i") simp_all
    qed
    have "map os_id (nw_states w') = map os_id (nw_states w)" by (simp add: w')
    with assms(1) have "states_keyed w'" unfolding states_keyed_def by argo
    moreover have "state_spent k w \<longrightarrow> state_spent k w'" "state_spent i w'" unfolding state_spent_def list_all_iff using old by blast+
    moreover have "\<not> state_spent i w" unfolding state_spent_def list_all_iff using open_s by blast
    ultimately show ?thesis by blast
  qed
  then show "states_keyed w'" "state_spent k w \<Longrightarrow> state_spent k w'" "\<not> isl r \<Longrightarrow> \<not> state_spent i w \<and> state_spent i w'" by blast+
qed

lemma sign_in_keeps_states: "keeps nw_states (linked_user x h g)" "keeps nw_states (touch_login x u)" "keeps nw_states (trail x i a ro ac t h)"
proof -
  have trail: "keeps nw_states (trail x i a ro ac t h)" for i a ro ac t
    by (auto simp: keeps_def trail_def audited_def record_audit_def Let_def split: option.splits)
  have "keeps nw_states (create_user x b c)" for b c
    unfolding create_user_def insert_user_def
    by (intro keeps_rules keeps_db) (simp add: stored_snd put_users_def split: option.splits)
  then show "keeps nw_states (linked_user x h g)"
    unfolding linked_user_def register_github_def Let_def by (intro keeps_rules trail)
  show "keeps nw_states (touch_login x u)" unfolding touch_login_def by (intro keeps_db) (simp add: put_users_def)
  show "keeps nw_states (trail x i a ro ac t h)" by (rule trail)
qed

lemma callback_states:
  assumes "callback_attempt a w = (r, w')"
  shows "nw_states w' = nw_states w \<and> \<not> r \<or>
    (\<exists>s w1. claim_state (nx_now (fst a)) (state_of a) w = (s, w1) \<and> (r \<longrightarrow> \<not> isl s) \<and> nw_states w' = nw_states w1)"
proof -
  obtain x req where a: "a = (x, req)" by (cases a)
  define rest where "rest = github_session x req (or_empty (map_of (nq_query req) ''code''))"
  have kept: "keeps nw_states (rest s)" for s
    unfolding rest_def github_session_def Let_def by (intro keeps_rules sign_in_keeps_states)
  have "github_callback x req w = seq (claim_state (nx_now x) (state_of a)) rest w \<or> (\<exists>e. github_callback x req w = (Inl e, w))"
    unfolding github_callback_def rest_def state_of_def a Let_def
    by (cases "github_configured (nx_env x)") (simp_all add: throw_def)
  then show ?thesis
  proof
    assume g: "github_callback x req w = seq (claim_state (nx_now x) (state_of a)) rest w"
    obtain s w1 where c: "claim_state (nx_now x) (state_of a) w = (s, w1)" by fastforce
    have "nw_states w' = nw_states w1 \<and> (r \<longrightarrow> \<not> isl s)"
    proof (cases s)
      case (Inl e)
      then have "github_callback x req w = (Inl e, w1)" by (simp add: g seq_def c)
      with assms show ?thesis by (auto simp: callback_attempt_def a)
    next
      case (Inr b)
      obtain r2 w2 where r2: "rest b w1 = (r2, w2)" by fastforce
      with Inr have "github_callback x req w = (r2, w2)" by (simp add: g seq_def c)
      with assms keepsD [OF kept r2] Inr show ?thesis by (auto simp: callback_attempt_def a)
    qed
    with c show ?thesis by (auto simp: a)
  qed (use assms in \<open>auto simp: callback_attempt_def a\<close>)
qed

interpretation states: single_use callback_attempt state_of state_spent states_keyed
proof
  fix w a w'
  assume i: "states_keyed w" and c: "callback_attempt a w = (True, w')"
  from callback_states [OF c] obtain s w1 where
    "claim_state (nx_now (fst a)) (state_of a) w = (s, w1)" "\<not> isl s" "nw_states w' = nw_states w1" by blast
  with claim_state_spends(3) [OF i] show "\<not> state_spent (state_of a) w \<and> state_spent (state_of a) w'"
    by (simp add: state_spent_def)
next
  fix w k a
  assume "states_keyed w" "state_spent k w"
  then show "state_spent k (snd (callback_attempt a w))"
    using callback_states [of a w "fst (callback_attempt a w)" "snd (callback_attempt a w)"] claim_state_spends(2) [of w]
    by (auto simp: state_spent_def)
next
  fix w a
  assume "states_keyed w"
  then show "states_keyed (snd (callback_attempt a w))"
    using callback_states [of a w "fst (callback_attempt a w)" "snd (callback_attempt a w)"] claim_state_spends(1) [of w]
    by (auto simp: states_keyed_def)
qed

text \<open>C19: a state of the sign-in over GitHub signs in at most once, in whatever order its callbacks arrive and
  whatever GitHub answers to each: a replayed callback finds it consumed.\<close>
theorem sign_in_states_used_once:
  assumes "states_keyed w"
  shows "length (filter (\<lambda>(a, signed_in). signed_in \<and> state_of a = i) (fst (run_claims callback_attempt as w))) \<le> 1"
  by (rule states.used_once [OF assms])

subsection \<open>Prices\<close>

definition price_world :: "console_world \<Rightarrow> pricing_world" where
  "price_world w = (nw_pricing w)\<lparr>pw_co := aw_co (nw_auth w)\<rparr>"

lemma delete_keys_one: "map_of (snd (delete_keys now [k] st)) k = None"
  by (simp add: delete_keys_def Let_def split: prod.splits)

lemma live_absent: "map_of st k = None \<Longrightarrow> live now k st = st"
  by (simp add: live_def)

lemma get_after_absent:
  assumes "map_of (co_store co) k = None"
  shows "fst (redis_get_json now k co) \<in> {None, Some None}"
  using assms
  by (auto simp: redis_get_json_def redis_get_def redis_command_def shared_call_def Let_def live_absent str_at_def
      split: prod.splits option.splits)

lemma drop_price_absent:
  assumes "drop_price x model w = (Inr z, w')"
  shows "map_of (co_store (aw_co (nw_auth w'))) (pricing_key_of model) = None" "nw_pricing w' = nw_pricing w"
  using assms delete_keys_one [of "of_int (nx_now x)" "pricing_key_of model" "co_store (aw_co (nw_auth w))"]
  by (auto simp: drop_price_def redis_del_def redis_command_def shared_call_def Let_def split: prod.splits option.splits if_splits)

text \<open>C35: a price takes effect with its edit: once the edit of a model's row has succeeded, the next request for that
  model, under any name that means it, is priced by the row that was just written, whatever the cache
  held before and whether or not the shared store can be read.\<close>
theorem price_edit_applies:
  assumes "upsert_pricing x input w = (Inr d, w')" "normalize_model_name (mp_id d) = mp_id d"
    "normalize_model_name m = mp_id d" "pw_db_ok (nw_pricing w)"
  shows "fst (get_model_pricing env now m (price_world w')) = (override d (default_pricing_for env (mp_id d)))\<lparr>rp_model := mp_id d\<rparr>"
proof -
  from assms(1) obtain model f w1 z w2 where steps: "db (\<lambda>w. (Inr (), put_prices (upsert (\<lambda>d. mp_id d = model) (blank_price model) f (console_prices w)) w)) w = (Inr (), w1)"
    "drop_price x model w1 = (Inr z, w2)" "find_price model w2 = (Inr d, w')"
    by (auto simp: upsert_pricing_def seq_def from_result_def split: sum.splits prod.splits)
  have d: "find_one (\<lambda>d. mp_id d = model) (console_prices w') = Some d" "w' = w2"
    using steps(3) by (auto simp: find_price_def db_def split: option.splits if_splits)
  then have id: "mp_id d = model" by (auto dest: find_one_SomeD)
  have ok: "pw_db_ok (nw_pricing w')"
    using steps(1) drop_price_absent(2) [OF steps(2)] assms(4) d(2) by (auto simp: db_def put_prices_def split: if_splits)
  obtain c co1 where get: "redis_get_json now (pricing_cache_key model) (aw_co (nw_auth w')) = (c, co1)" by fastforce
  have "fst (redis_get_json now (pricing_cache_key model) (aw_co (nw_auth w'))) \<in> {None, Some None}"
    using drop_price_absent(1) [OF steps(2)] assms(2) by (intro get_after_absent) (simp add: pricing_key_of_def id d(2))
  with get have "Option.bind (Option.bind c id) pricing_of_json = None" by auto
  then show ?thesis using d(1) ok assms(2,3)
    by (simp add: get_model_pricing_def Let_def price_world_def stored_pricing_def id get)
qed

lemma normal_name_lower: "js_lower (normalize_model_name m) = normalize_model_name m"
proof -
  have "lower_char (lower_char c) = lower_char c" for c by (auto simp: lower_char_def Let_def)
  then have "js_lower s = s" if "set s \<subseteq> set (js_lower t)" for s t
    unfolding js_lower_def using that by (intro map_idI) (auto simp: js_lower_def)
  then show ?thesis unfolding normalize_model_name_def Let_def
    by (cases "index_of CHR ''/'' (js_lower (js_trim m))") (auto dest: in_set_dropD)
qed

lemma carries_price_patched:
  "carries Q acc \<Longrightarrow> (\<And>n d. Q d \<Longrightarrow> Q (put_it n d)) \<Longrightarrow> carries Q (price_patched input field put_it acc)"
  by (auto simp: carries_def price_patched_def split: sum.splits option.splits)

lemma price_patch_id: "carries (\<lambda>d. mp_id d = i) (price_patch input)"
proof (cases "non_negative (get_field ''modelRatio'' input) ''modelRatio''")
  case (Inr a)
  then show ?thesis
    by (cases "non_negative (get_field ''completionRatio'' input) ''completionRatio''")
      (auto simp: price_patch_def carries_def [of _ "Inl _"] intro!: carries_price_patched carries_Inr)
qed (simp add: price_patch_def carries_def)

lemma find_upsert_other:
  assumes "\<And>d. here d \<Longrightarrow> \<not> there d" "\<And>d. here d \<Longrightarrow> \<not> there (f d)" "\<not> there (f blank)"
  shows "find_one there (upsert here blank f ds) = find_one there ds"
proof -
  have "find_one there (update_one here f ds) = find_one there ds" using assms(1,2) by (induction ds) auto
  then show ?thesis using assms(3) by (simp add: upsert_def find_one_append split: option.splits)
qed

text \<open>C36: a price typed under a name with a capital letter is stored, confirmed and listed, but never applied: no
  request for any model is priced differently by it, since every lookup is by the name in small letters.\<close>
theorem capital_names_never_apply:
  assumes "upsert_pricing x input w = (Inr d, w')" "js_lower (mp_id d) \<noteq> mp_id d"
  shows "stored_pricing env (normalize_model_name m) (nw_pricing w') = stored_pricing env (normalize_model_name m) (nw_pricing w) \<and>
    find_one (\<lambda>e. mp_id e = mp_id d) (console_prices w') = Some d"
proof -
  from assms(1) obtain model f w1 z w2 where steps: "db (\<lambda>w. (Inr (), put_prices (upsert (\<lambda>d. mp_id d = model) (blank_price model) f (console_prices w)) w)) w = (Inr (), w1)"
    "price_patch input = Inr f" "drop_price x model w1 = (Inr z, w2)" "find_price model w2 = (Inr d, w')"
    by (auto simp: upsert_pricing_def seq_def from_result_def split: sum.splits prod.splits)
  have id: "mp_id d = model" and found: "find_one (\<lambda>e. mp_id e = model) (console_prices w') = Some d"
    using steps(4) by (auto simp: find_price_def db_def dest: find_one_SomeD split: option.splits if_splits)
  have f: "mp_id (f e) = mp_id e" for e
    using price_patch_id [of "mp_id e" input] steps(2) by (simp add: carries_def)
  have w2: "w2 = w'" using steps(4) by (auto simp: find_price_def db_def split: option.splits if_splits)
  have prices: "console_prices w' = upsert (\<lambda>d. mp_id d = model) (blank_price model) f (console_prices w)"
    "pw_db_ok (nw_pricing w') = pw_db_ok (nw_pricing w)"
    using steps(1) drop_price_absent(2) [OF steps(3)] by (auto simp: db_def put_prices_def w2 split: if_splits)
  have "normalize_model_name m \<noteq> model" using assms(2) normal_name_lower [of m] id by metis
  with f have "find_one (\<lambda>e. mp_id e = normalize_model_name m) (console_prices w') =
      find_one (\<lambda>e. mp_id e = normalize_model_name m) (console_prices w)"
    unfolding prices(1) by (intro find_upsert_other) (auto simp: blank_price_def)
  with prices(2) found id show ?thesis by (simp add: stored_pricing_def Let_def)
qed

subsection \<open>Reports\<close>

lemma show_nat_length: "n < 10 ^ Suc k \<Longrightarrow> length (show_nat n) \<le> Suc k"
proof (induction k arbitrary: n)
  case (Suc k)
  then have "n div 10 < 10 ^ Suc k" by (simp add: less_mult_imp_div_less)
  from Suc.IH [OF this] show ?case by (subst show_nat.simps) simp
qed (subst show_nat.simps, simp)

lemma hour_bucket_dash:
  assumes "0 \<le> fst (civil_of_day (day_of t))" "fst (civil_of_day (day_of t)) \<le> 9999"
  shows "hour_bucket t ! 4 = CHR ''-''"
proof -
  obtain y m d where c: "civil_of_day (day_of t) = (y, m, d)" by (cases "civil_of_day (day_of t)")
  with assms have "length (iso_year y) = 4" using show_nat_length [of "nat y" 3] by (simp add: iso_year_def pad_def show_int_def)
  then show ?thesis by (simp add: hour_bucket_def iso_day_hour_def c nth_append)
qed

text \<open>The totals of the console are always nothing: the rows of the ledger are kept by the hour, written as in
  \<open>2026-08-30T21\<close>, and the summary looks for rows that begin with the six digits of a month, as in
  \<open>202608\<close>. No row can match, so requests, errors, quota, dollars, tokens and the list of models are
  empty whatever was charged.\<close>
theorem console_totals_are_nothing:
  assumes "list_all (\<lambda>r. \<exists>t. ro_bucket r = hour_bucket t \<and> 0 \<le> fst (civil_of_day (day_of t)) \<and> fst (civil_of_day (day_of t)) \<le> 9999) rows"
    "list_all is_digit prefix" "5 \<le> length prefix"
  shows "summary_of env prefix rows =
    \<lparr>us_bucket_prefix = prefix, us_requests = 0, us_errors = 0, us_quota = 0, us_usd = 0, us_prompt_tokens = 0,
     us_completion_tokens = 0, us_top_models = []\<rparr>"
proof -
  have "\<not> starts_with (take 6 prefix) (ro_bucket r)" if r: "r \<in> set rows" for r
  proof
    assume "starts_with (take 6 prefix) (ro_bucket r)"
    then obtain rest where "ro_bucket r = take 6 prefix @ rest" by (auto simp: starts_with_iff)
    with assms(3) have "ro_bucket r ! 4 = prefix ! 4" by (simp add: nth_append)
    moreover have "is_digit (prefix ! 4)" using assms(2,3) by (simp add: list_all_length)
    moreover have "ro_bucket r ! 4 = CHR ''-''" using r assms(1) hour_bucket_dash by (auto simp: list_all_iff)
    ultimately have "is_digit (CHR ''-'')" by metis
    then show False by (simp add: is_digit_def)
  qed
  then have "counted_rollups prefix (take 5000 rows) = []"
    by (auto simp: counted_rollups_def filter_empty_conv dest: in_set_takeD)
  then show ?thesis by (simp add: summary_of_def quota_to_usd_def Let_def)
qed

subsection \<open>Probes\<close>

lemma pick_key_docs:
  "pick_channel_key opener now cid skip w = (r, w') \<Longrightarrow>
    rw_channels w' = rw_channels w \<and> rw_keys w' = rw_keys w \<and> rw_db_ok w' = rw_db_ok w \<and> rw_abilities w' = rw_abilities w"
  by (auto simp: pick_channel_key_def on_co_def Let_def split: sum.splits prod.splits if_splits)

text \<open>The health check counts a failure against every channel whose type has no chat dialect, the kinds for
  pictures, music and video among them, whatever the provider would answer: it does not even call it, yet
  records the outcome of a failed call, which opens the channel's breaker and in the end disables it.\<close>
theorem task_channels_fail_every_probe:
  assumes "dialect_for (ch_type c) = Inl e" "probe_model env c \<noteq> []"
  shows "\<exists>w1 report. probe env now pb c w = ((False, report), snd (record_channel_outcome env now (ch_id c) False w1)) \<and>
    rw_channels w1 = rw_channels w \<and>
    (\<forall>send. probe env now (pb\<lparr>pb_send := send\<rparr>) c w = probe env now pb c w)"
proof -
  obtain r w1 where p: "pick_channel_key (pb_open pb) now (ch_id c) [] w = (r, w1)" by fastforce
  have call: "\<exists>t. \<forall>send. probe_call env now (pb\<lparr>pb_send := send\<rparr>) c (probe_model env c) w = (Inl t, w1)"
  proof (cases r)
    case (Inr key)
    with assms(1) p show ?thesis by (simp add: probe_call_def probe_request_def)
  qed (simp add: probe_call_def p)
  then obtain t where t: "\<And>send. probe_call env now (pb\<lparr>pb_send := send\<rparr>) c (probe_model env c) w = (Inl t, w1)" by blast
  from t [of "pb_send pb"] have t0: "probe_call env now pb c (probe_model env c) w = (Inl t, w1)" by simp
  show ?thesis using assms(2) pick_key_docs [OF p] by (intro exI [of _ w1]) (simp add: probe_def Let_def t t0)
qed

text \<open>The kinds of channel this happens to.\<close>

lemma no_chat_dialect:
  "t \<in> {Bedrock, Midjourney, Suno, Kling, Jimeng, Vidu, Dify, Custom} \<Longrightarrow> \<exists>e. dialect_for t = Inl e"
  by (auto simp: dialect_for_def)

subsection \<open>Instances\<close>

definition sample_code :: redemption_code where
  "sample_code = \<lparr>rc_id = ''c1'', rc_digest = ''ABCD1234'', rc_prefix = ''ABCD'', rc_quota = 50, rc_status = CodeUnused, rc_batch_id = ''b'',
     rc_created_by = ''u0'', rc_used_by = None, rc_used_at = None, rc_expires_at = Some 2000, rc_created_at = 0\<rparr>"

lemma sample_redemption:
  "fst (redeem_attempt (sample_outside, ''abcd-1234'', ''u1'') (sample_console\<lparr>nw_codes := [sample_code]\<rparr>)) \<and>
   code_of (sample_outside, ''abcd-1234'', ''u1'') = ''ABCD1234''"
  by code_simp

theorem codes_pay_once_witness:
  "length (filter (\<lambda>(a, won). won \<and> code_of a = ''ABCD1234'') (fst (run_claims redeem_attempt
      [(sample_outside, ''abcd-1234'', ''u1''), (sample_outside, ''ABCD1234'', ''u0'')] (sample_console\<lparr>nw_codes := [sample_code]\<rparr>)))) = 1 \<and>
   worth (snd (run_claims redeem_attempt
      [(sample_outside, ''abcd-1234'', ''u1''), (sample_outside, ''ABCD1234'', ''u0'')] (sample_console\<lparr>nw_codes := [sample_code]\<rparr>))) =
   worth (sample_console\<lparr>nw_codes := [sample_code]\<rparr>)"
proof -
  let ?w = "sample_console\<lparr>nw_codes := [sample_code]\<rparr>"
  let ?as = "[(sample_outside, ''abcd-1234'', ''u1''), (sample_outside, ''ABCD1234'', ''u0'')]"
  have "codes_keyed ?w" by (simp add: codes_keyed_def)
  from codes_pay_once [OF this, of "''ABCD1234''" ?as]
  have "length (filter (\<lambda>(a, won). won \<and> code_of a = ''ABCD1234'') (fst (run_claims redeem_attempt ?as ?w))) \<le> 1"
    and worth: "worth (snd (run_claims redeem_attempt ?as ?w)) = worth ?w" by blast+
  moreover obtain w1 where "redeem_attempt (sample_outside, ''abcd-1234'', ''u1'') ?w = (True, w1)"
    using sample_redemption by (metis (full_types) prod.collapse)
  ultimately show ?thesis using sample_redemption by (auto split: prod.splits if_splits)
qed

lemma sample_price:
  "(case upsert_pricing sample_outside [(''model'', JStr ''m''), (''modelRatio'', JNum (JFin 2)), (''completionRatio'', JNum (JFin 3))] sample_console of
     (Inr d, _) \<Rightarrow> mp_id d = ''m'' | _ \<Rightarrow> False) \<and>
   (case upsert_pricing sample_outside [(''model'', JStr ''M''), (''modelRatio'', JNum (JFin 2)), (''completionRatio'', JNum (JFin 3))] sample_console of
     (Inr d, _) \<Rightarrow> mp_id d = ''M'' | _ \<Rightarrow> False) \<and>
   normalize_model_name ''m'' = ''m'' \<and> normalize_model_name '' X/m'' = ''m'' \<and> js_lower ''M'' \<noteq> ''M''"
  by code_simp

theorem price_edit_applies_witness:
  "\<exists>d w'. fst (get_model_pricing (\<lambda>_. None) 5 '' X/m'' (price_world w')) = (override d (default_pricing_for (\<lambda>_. None) ''m''))\<lparr>rp_model := ''m''\<rparr>"
proof -
  from sample_price obtain d w' where u: "upsert_pricing sample_outside [(''model'', JStr ''m''), (''modelRatio'', JNum (JFin 2)),
      (''completionRatio'', JNum (JFin 3))] sample_console = (Inr d, w')" "mp_id d = ''m''"
    by (auto split: prod.splits sum.splits)
  from price_edit_applies [OF u(1), of "'' X/m''" "\<lambda>_. None" 5] sample_price u(2) show ?thesis
    by (auto simp: sample_console_def)
qed

theorem capital_names_never_apply_witness:
  "\<exists>w' d. stored_pricing (\<lambda>_. None) (normalize_model_name ''M'') (nw_pricing w') =
      stored_pricing (\<lambda>_. None) (normalize_model_name ''M'') (nw_pricing sample_console) \<and>
    find_one (\<lambda>e. mp_id e = ''M'') (console_prices w') = Some d"
proof -
  from sample_price obtain d w' where u: "upsert_pricing sample_outside [(''model'', JStr ''M''), (''modelRatio'', JNum (JFin 2)),
      (''completionRatio'', JNum (JFin 3))] sample_console = (Inr d, w')" "mp_id d = ''M''"
    by (auto split: prod.splits sum.splits)
  from capital_names_never_apply [OF u(1), of "\<lambda>_. None" "''M''"] sample_price u(2) show ?thesis by auto
qed

theorem console_totals_are_nothing_witness:
  "us_quota (summary_of (\<lambda>_. None) ''202608'' [\<lparr>ro_scope = ScopeUser, ro_key = ''u1'', ro_bucket = hour_bucket 1788000000000,
     ro_requests = 3, ro_errors = 0, ro_quota = 700, ro_prompt_tokens = 5, ro_completion_tokens = 6, ro_updated_at = 0\<rparr>]) = 0"
proof -
  have "fst (civil_of_day (day_of 1788000000000)) = 2026" by code_simp
  then show ?thesis by (subst console_totals_are_nothing) (auto simp: is_digit_def intro!: exI [of _ 1788000000000])
qed

theorem task_channels_fail_every_probe_witness:
  "\<exists>w1 report. probe (\<lambda>_. None) 1000 (nx_probe sample_outside) ((sample_channel ''ch'' 0 1)\<lparr>ch_type := Midjourney\<rparr>)
      (nw_routing sample_console) =
    ((False, report), snd (record_channel_outcome (\<lambda>_. None) 1000 ''ch'' False w1))"
proof -
  obtain e where "dialect_for Midjourney = Inl e" using no_chat_dialect [of Midjourney] by auto
  moreover have "probe_model (\<lambda>_. None) ((sample_channel ''ch'' 0 1)\<lparr>ch_type := Midjourney\<rparr>) \<noteq> []" by code_simp
  ultimately show ?thesis
    using task_channels_fail_every_probe [of "(sample_channel ''ch'' 0 1)\<lparr>ch_type := Midjourney\<rparr>" e "\<lambda>_. None" 1000
        "nx_probe sample_outside" "nw_routing sample_console"]
    by (auto simp: sample_channel_def)
qed

definition github_env :: env where
  "github_env k = map_of [(''GITHUB_CLIENT_ID'', ''c''), (''GITHUB_CLIENT_SECRET'', ''s''), (''SESSION_SECRET'', ''k'')] k"

definition github_outside :: console_outside where
  "github_outside = sample_outside\<lparr>nx_env := github_env, nx_hmac := (\<lambda>k m. ''00''),
     nx_random := (\<lambda>r. ''0123456789abcdef0123456789abcdef''), nx_github_token := (\<lambda>_. Inr ''{\"access_token\":\"t\"}''),
     nx_github_user := (\<lambda>_. Inr (True, ''{\"id\":7}''))\<rparr>"

definition github_console :: console_world where
  "github_console = sample_console\<lparr>nw_auth := sample_auth\<lparr>aw_users := [sample_user\<lparr>usr_github_id := Some ''7''\<rparr>]\<rparr>,
     nw_states := [\<lparr>os_id = ''0123456789abcdef0123456789abcdef'', os_redirect = ''/console'', os_created_at = 0, os_expires_at = 2000,
       os_consumed_at = None\<rparr>]\<rparr>"

definition github_request :: console_request where
  "github_request = \<lparr>nq_method = ''GET'', nq_in = \<lparr>qi_headers = [(''cookie'', ''fb_oauth_state=0123456789abcdef0123456789abcdef'')],
      qi_query_key = None, qi_body = None, qi_request_id = ''r''\<rparr>,
     nq_query = [(''code'', ''x''), (''state'', ''0123456789abcdef0123456789abcdef'')]\<rparr>"

lemma sample_sign_in: "fst (callback_attempt (github_outside, github_request) github_console)"
  by code_simp

theorem sign_in_states_used_once_witness:
  "length (filter (\<lambda>(a, signed_in). signed_in \<and> state_of a = ''0123456789abcdef0123456789abcdef'')
     (fst (run_claims callback_attempt [(github_outside, github_request), (github_outside, github_request)] github_console))) = 1"
proof -
  let ?a = "(github_outside, github_request)"
  have "states_keyed github_console" by (simp add: states_keyed_def github_console_def)
  from sign_in_states_used_once [OF this, of "''0123456789abcdef0123456789abcdef''" "[?a, ?a]"]
  have "length (filter (\<lambda>(a, signed_in). signed_in \<and> state_of a = ''0123456789abcdef0123456789abcdef'')
     (fst (run_claims callback_attempt [?a, ?a] github_console))) \<le> 1" .
  moreover obtain w1 where "callback_attempt ?a github_console = (True, w1)"
    using sample_sign_in by (metis (full_types) prod.collapse)
  moreover have "state_of ?a = ''0123456789abcdef0123456789abcdef''" by (simp add: state_of_def github_request_def or_empty_def)
  ultimately show ?thesis by (auto split: prod.splits if_splits)
qed

end
