(* ===== verification/ConsoleSecrets.thy ===== *)
theory ConsoleSecrets
  imports ConsoleBooks
begin

text \<open>
  The laws of credentials: a key that was taken away and an account that was closed are out at once, a
  session is read back until it ends or is revoked, every password costs the same, and no secret reaches
  the trail.
\<close>

subsection \<open>Keys that were taken away\<close>

lemma drop_token_cache_accounts: "drop_token_cache x p w = (r, w') \<Longrightarrow> accounts w' = accounts w"
  by (rule keepsD [OF keeps_drop_token_cache(2)])

lemma get_tokenD:
  "get_token i w = (Inr t, w') \<Longrightarrow> find_one (\<lambda>t. tok_id t = i) (console_tokens w) = Some t \<and> w' = w \<and> db_up w"
  by (auto simp: get_token_def db_def split: option.splits if_splits)

lemma deleted_tokens:
  assumes "delete_token x i w = (Inr z, w')"
  shows "\<exists>t. find_one (\<lambda>t. tok_id t = i) (console_tokens w) = Some t \<and>
    console_tokens w' = remove_first (\<lambda>t. tok_id t = i) (console_tokens w)"
proof -
  from assms obtain t w1 w2 where "get_token i w = (Inr t, w1)"
    "w2 = put_tokens (remove_first (\<lambda>t. tok_id t = i) (console_tokens w1)) w1"
    "drop_token_cache x (tok_key_prefix t) w2 = (Inr z, w')"
    by (auto simp: delete_token_def seq_def db_def split: prod.splits sum.splits if_splits)
  with get_tokenD [of i w t w1] drop_token_cache_accounts [of x "tok_key_prefix t" w2] show ?thesis
    by (auto simp: accounts_def put_tokens_def)
qed

lemma rotated_tokens:
  assumes "rotate_token x i w = (Inr v, w')"
  shows "\<exists>t g. find_one (\<lambda>t. tok_id t = i) (console_tokens w) = Some t \<and> fresh_key x = Inr g \<and> snd v = gk_key g \<and>
    console_tokens w' = update_one (\<lambda>t. tok_id t = i)
      (\<lambda>d. d\<lparr>tok_key_prefix := gk_prefix g, tok_key_digest := gk_digest g, tok_key_last4 := gk_last4 g, tok_updated_at := nx_now x\<rparr>)
      (console_tokens w)"
proof -
  from assms obtain t g w1 w2 w3 w4 t2 z1 z2 z3 where *: "get_token i w = (Inr t, w1)" "fresh_key x = Inr g"
    "write_token i (\<lambda>d. d\<lparr>tok_key_prefix := gk_prefix g, tok_key_digest := gk_digest g, tok_key_last4 := gk_last4 g,
        tok_updated_at := nx_now x\<rparr>) w1 = (Inr z1, w2)"
    "drop_token_cache x (tok_key_prefix t) w2 = (Inr z2, w3)" "drop_token_cache x (gk_prefix g) w3 = (Inr z3, w4)"
    "get_token i w4 = (Inr t2, w')" "v = (token_view t2, gk_key g)"
    by (auto simp: rotate_token_def seq_def from_result_def give_def split: prod.splits sum.splits)
  from *(3) obtain ts where "update_row token_keys (\<lambda>t. tok_id t = i)
      (\<lambda>d. d\<lparr>tok_key_prefix := gk_prefix g, tok_key_digest := gk_digest g, tok_key_last4 := gk_last4 g, tok_updated_at := nx_now x\<rparr>)
      (console_tokens w1) = Some ts" "w2 = put_tokens ts w1"
    by (auto simp: write_token_def db_def stored_def split: if_splits option.splits)
  with *(1,2,6,7) get_tokenD [OF *(1)] get_tokenD [OF *(6)] drop_token_cache_accounts [OF *(4)] drop_token_cache_accounts [OF *(5)]
  show ?thesis by (auto simp: accounts_def put_tokens_def dest!: update_rowD)
qed

lemma remove_first_gone: "distinct (map key ds) \<Longrightarrow> e \<in> set (remove_first (\<lambda>d. key d = i) ds) \<Longrightarrow> key e \<noteq> i"
  by (induction ds) (auto split: if_splits simp: image_iff)

definition digests_keyed :: "console_world \<Rightarrow> bool" where
  "digests_keyed w \<longleftrightarrow> distinct (map tok_key_digest (console_tokens w)) \<and> distinct (map tok_id (console_tokens w))"

lemma refused_without_digest:
  assumes "parse_api_key (cr_raw (extract_credential hs q)) = Some p"
    "\<And>e. e \<in> set (aw_tokens aw) \<Longrightarrow> tok_key_digest e \<noteq> digest_api_key env sha (pk_prefix p) (pk_secret p)"
  shows "isl (fst (authenticate env sha hash rid clk hs q aw))"
proof (cases "authenticate env sha hash rid clk hs q aw")
  case (fields r f aw')
  show ?thesis
  proof (cases r)
    case (Inr ctx)
    from admitted_rows [OF fields [unfolded Inr]] obtain t p' where t: "t \<in> set (aw_tokens aw)"
      "parse_api_key (cr_raw (extract_credential hs q)) = Some p'"
      "digest_api_key env sha (pk_prefix p') (pk_secret p') = tok_key_digest t" by (elim exE conjE)
    from t(2) assms(1) have "p' = p" by simp
    with assms(2) [of t] t(1,3) show ?thesis by simp
  qed (simp add: fields)
qed

lemma digest_of_one:
  assumes "digests_keyed w" "t \<in> set (console_tokens w)" "e \<in> set (console_tokens w)" "tok_id e \<noteq> tok_id t"
  shows "tok_key_digest e \<noteq> tok_key_digest t"
  using assms inj_onD [of tok_key_digest "set (console_tokens w)" e t] unfolding digests_keyed_def distinct_map by blast

lemma deleted_digest:
  assumes "digests_keyed w" "t \<in> set (console_tokens w)" "tok_id t = i" "delete_token x i w = (Inr z, w')" "e \<in> set (console_tokens w')"
  shows "tok_key_digest e \<noteq> tok_key_digest t"
proof -
  have w': "console_tokens w' = remove_first (\<lambda>t. tok_id t = i) (console_tokens w)" using deleted_tokens [OF assms(4)] by blast
  have "e \<in> set (console_tokens w)" using assms(5) remove_first_subseq [of "\<lambda>t. tok_id t = i"] unfolding w' by (rule rev_subsetD)
  moreover have "tok_id e \<noteq> tok_id t"
    using remove_first_gone [of tok_id "console_tokens w" e i] assms(1,3,5) unfolding w' digests_keyed_def by simp
  ultimately show ?thesis by (rule digest_of_one [OF assms(1,2)])
qed

lemma rotated_digest:
  assumes "digests_keyed w" "find_one (\<lambda>t. tok_id t = i) (console_tokens w) = Some t" "rotate_token x i w = (Inr v, w')"
    "fresh_key x = Inr g" "gk_digest g \<noteq> tok_key_digest t" "e \<in> set (console_tokens w')"
  shows "tok_key_digest e \<noteq> tok_key_digest t"
proof -
  let ?f = "\<lambda>d. d\<lparr>tok_key_prefix := gk_prefix g, tok_key_digest := gk_digest g, tok_key_last4 := gk_last4 g, tok_updated_at := nx_now x\<rparr>"
  have t: "t \<in> set (console_tokens w)" "tok_id t = i" using find_one_SomeD [OF assms(2)] by simp_all
  have "console_tokens w' = update_one (\<lambda>t. tok_id t = i) ?f (console_tokens w)" using rotated_tokens [OF assms(3)] assms(4) by auto
  also have "\<dots> = map (\<lambda>d. if tok_id d = tok_id t then ?f d else d) (console_tokens w)"
    by (rule update_one_unique [OF _ assms(2)]) (use assms(1) t in \<open>simp_all add: digests_keyed_def\<close>)
  finally have "e \<in> set (map (\<lambda>d. if tok_id d = tok_id t then ?f d else d) (console_tokens w))" using assms(6) by simp
  then obtain d where d: "d \<in> set (console_tokens w)" "e = (if tok_id d = tok_id t then ?f d else d)" by auto
  show ?thesis
  proof (cases "tok_id d = tok_id t")
    case True
    with d(2) assms(5) show ?thesis by simp
  next
    case False
    with digest_of_one [OF assms(1) t(1) d(1) False] d(2) show ?thesis by simp
  qed
qed

text \<open>C17: a key that was deleted, or replaced by a new secret, is refused from that moment on, for every request and
  whatever the caches still say: the operation returns only after no row carries the old digest.\<close>
theorem retired_keys_are_refused:
  assumes "digests_keyed w" "find_one (\<lambda>t. tok_id t = i) (console_tokens w) = Some t"
    "(\<exists>z. delete_token x i w = (Inr z, w')) \<or>
     (\<exists>v g. rotate_token x i w = (Inr v, w') \<and> fresh_key x = Inr g \<and> gk_digest g \<noteq> tok_key_digest t)"
    "parse_api_key (cr_raw (extract_credential hs q)) = Some p"
    "digest_api_key (nx_env x) (nx_sha x) (pk_prefix p) (pk_secret p) = tok_key_digest t"
  shows "isl (fst (authenticate (nx_env x) (nx_sha x) hash rid clk hs q (nw_auth w')))"
proof -
  have t: "t \<in> set (console_tokens w)" "tok_id t = i" using find_one_SomeD [OF assms(2)] by simp_all
  have "tok_key_digest e \<noteq> tok_key_digest t" if "e \<in> set (console_tokens w')" for e
    using assms(3)
  proof (elim disjE exE conjE)
    fix z assume "delete_token x i w = (Inr z, w')"
    from deleted_digest [OF assms(1) t this that] show ?thesis .
  next
    fix v g assume "rotate_token x i w = (Inr v, w')" "fresh_key x = Inr g" "gk_digest g \<noteq> tok_key_digest t"
    from rotated_digest [OF assms(1,2) this that] show ?thesis .
  qed
  then show ?thesis by (intro refused_without_digest [OF assms(4)]) (simp add: assms(5))
qed

subsection \<open>Closed accounts\<close>

lemma get_userD:
  "get_user i w = (Inr u, w') \<Longrightarrow> find_one (\<lambda>u. usr_id u = i) (console_users w) = Some u \<and> w' = w"
  by (auto simp: get_user_def find_user_def seq_def db_def give_def throw_def split: option.splits if_splits)

lemma update_user_result:
  assumes "update_user x i p w = (Inr u, w')"
  shows "find_one (\<lambda>u. usr_id u = i) (console_users w') = Some u"
proof -
  from assms obtain w1 where "get_user i w1 = (Inr u, w')"
    by (auto simp: update_user_def seq_def from_result_def split: prod.splits sum.splits)
  from get_userD [OF this] show ?thesis by simp
qed

text \<open>C18: an account whose edit returns with a status other than enabled is out at once: no request is admitted for
  it any more, neither with a key of its own, whatever the caches hold, nor at the console, where its
  open sessions stop working too.\<close>
theorem closed_accounts_are_out:
  assumes "update_user x i p w = (Inr u, w')" "usr_status u \<noteq> Enabled" "distinct (map usr_id (console_users w'))"
  shows "(authenticate env sha hash rid clk hs q (nw_auth w') = (Inr ctx, f, aw) \<longrightarrow> idn_user_id (ac_identity ctx) \<noteq> i) \<and>
    (require_admin y req minimum w' = (Inr actx, w2) \<longrightarrow> an_user_id actx \<noteq> i)"
proof -
  have only: "usr_status v \<noteq> Enabled" if "v \<in> set (console_users w')" "usr_id v = i" for v
    using found_by_id [OF assms(3) update_user_result [OF assms(1)] that] assms(2) by simp
  have "idn_user_id (ac_identity ctx) \<noteq> i" if "authenticate env sha hash rid clk hs q (nw_auth w') = (Inr ctx, f, aw)"
    using admitted_rows [OF that] only by metis
  moreover have "an_user_id actx \<noteq> i" if "require_admin y req minimum w' = (Inr actx, w2)"
    using require_adminD [OF that] only by metis
  ultimately show ?thesis by blast
qed

subsection \<open>Sessions\<close>

lemma int_printable: "\<bar>i\<bar> < 10 ^ 21 \<Longrightarrow> printable (JNum (js_int i))"
proof -
  assume "\<bar>i\<bar> < 10 ^ 21"
  then have "of_int \<bar>i\<bar> < (of_int (10 ^ 21) :: rat)" by (simp only: of_int_less_iff)
  then show ?thesis by simp
qed

lemma role_of_role_text: "role_of_text (role_text r) = r"
  by (cases r) (simp_all add: role_of_text_def)

lemma payload_back:
  assumes "session_id_ok (sp_sid p)"
  shows "payload_of (payload_members p) = Some p"
  using assms by (cases p) (simp add: payload_of_def payload_members_def get_field_def role_of_role_text)

lemma session_token_back:
  assumes "sp_exp p = js_int i" "\<bar>i\<bar> < 10 ^ 21" "later \<le> i * 1000" "session_id_ok (sp_sid p)"
  shows "Option.bind (verify_token hmac later (sign_token hmac (payload_members p) secret) secret) payload_of = Some p"
proof -
  have "printable (JNum (sp_exp p))" unfolding assms(1) using int_printable [OF assms(2)] .
  then have "printable (JObj (payload_members p))" unfolding payload_members_def by (simp del: printable.simps(1))
  moreover have "get_field ''exp'' (payload_members p) = Some (JNum (js_int i))"
    by (simp add: payload_members_def get_field_def assms(1))
  moreover have "of_int (i * 1000) \<ge> (of_int later :: rat)" unfolding of_int_le_iff by (rule assms(3))
  then have "\<not> js_lt (js_mul (js_int i) (JFin 1000)) (js_int later)" by simp
  ultimately have "verify_token hmac later (sign_token hmac (payload_members p) secret) secret = Some (payload_members p)"
    by (rule sign_verify)
  then show ?thesis by (simp add: payload_back [OF assms(4)])
qed

lemma create_sessionD:
  assumes "create_session x u = Inr (token, csrf, p)"
  obtains secret where "session_secret (nx_env x) = Inr secret" "token = sign_token (nx_hmac x) (payload_members p) secret"
    "p = \<lparr>sp_sub = usr_id u, sp_username = usr_username u, sp_role = usr_role u, sp_sid = nx_random x ForSession,
        sp_exp = js_int (now_sec (nx_now x) + session_ttl_sec)\<rparr>"
proof (cases "session_secret (nx_env x)")
  case (Inl e)
  with assms show ?thesis by (simp only: create_session_def Let_def sum.case) simp
next
  case (Inr secret)
  with assms have "p = \<lparr>sp_sub = usr_id u, sp_username = usr_username u, sp_role = usr_role u, sp_sid = nx_random x ForSession,
        sp_exp = js_int (now_sec (nx_now x) + session_ttl_sec)\<rparr>" "token = sign_token (nx_hmac x) (payload_members p) secret"
    unfolding create_session_def Let_def by (simp_all only: sum.case sum.inject prod.inject) (elim conjE, simp only:)
  then show ?thesis using that [OF Inr] by (simp only:)
qed


subsection \<open>Passwords\<close>

lemma hex_digest_no_prefix: "hex_digest (hash_prefix @ s) \<Longrightarrow> False"
  by (simp add: hex_digest_def hash_prefix_def is_hex_def is_digit_def)

text \<open>A record that was made from a password accepts a password exactly when its derivation with the record's salt is
  the same, and needs no upgrade; and no record, current, legacy, damaged or missing, changes what a
  check costs: every password of acceptable length takes the iterations of a current record.\<close>
theorem passwords_are_read_back_at_one_cost:
  assumes "hash_password derive salt p = Inr r" "hex_digest (derive p salt pbkdf2_iterations)" "salt \<noteq> []" "length salt \<le> 128"
    "length q \<le> max_password"
  shows "fst (verify_password derive q r) = (derive q salt pbkdf2_iterations = derive p salt pbkdf2_iterations) \<and>
    \<not> needs_password_upgrade r \<and> min_password \<le> length p \<and> length p \<le> max_password \<and>
    (\<forall>s. snd (verify_password derive q s) = pbkdf2_iterations)"
proof -
  have r: "r = \<lparr>pw_hash = Some (hash_prefix @ derive p salt pbkdf2_iterations), pw_salt = Some salt\<rparr>"
    "min_password \<le> length p" "length p \<le> max_password"
    using assms(1) by (auto simp: hash_password_def assert_password_acceptable_def split: if_splits)
  have up: "\<not> needs_password_upgrade r"
    unfolding needs_password_upgrade_def r(1) using hex_digest_no_prefix by (auto simp: or_empty_def)
  have "stored_digest r = derive p salt pbkdf2_iterations" "or_empty (pw_salt r) = salt"
    unfolding stored_digest_def Let_def using up starts_with_append by (simp_all add: r(1) or_empty_def)
  then have "fst (verify_password derive q r) = (derive q salt pbkdf2_iterations = derive p salt pbkdf2_iterations)"
    using assms(2-5) up by (simp add: verify_password_def timing_safe_equal_iff)
  moreover have "snd (verify_password derive q s) = pbkdf2_iterations" for s
    using assms(5) by (simp add: verify_password_def Let_def pbkdf2_iterations_def legacy_iterations_def)
  ultimately show ?thesis using up r(2,3) by blast
qed

subsection \<open>Instances\<close>

lemma sample_delete: "(case delete_token sample_outside ''t1'' sample_console of (Inr _, _) \<Rightarrow> True | _ \<Rightarrow> False)"
  by code_simp

lemma sample_parse:
  "(case parse_api_key (cr_raw (extract_credential [(''authorization'', ''Bearer '' @ sample_key)] None)) of
     Some p \<Rightarrow> digest_api_key (\<lambda>_. None) sample_sha (pk_prefix p) (pk_secret p) = ''secret77'' | None \<Rightarrow> False)"
  by code_simp

theorem retired_keys_are_refused_witness:
  "isl (fst (authenticate (\<lambda>_. None) sample_sha (\<lambda>_. ''h'') ''r'' sample_clock [(''authorization'', ''Bearer '' @ sample_key)] None
     (nw_auth (snd (delete_token sample_outside ''t1'' sample_console)))))"
proof -
  obtain z w' where d: "delete_token sample_outside ''t1'' sample_console = (Inr z, w')"
    using sample_delete by (auto split: prod.splits sum.splits)
  obtain p where p: "parse_api_key (cr_raw (extract_credential [(''authorization'', ''Bearer '' @ sample_key)] None)) = Some p"
    "digest_api_key (\<lambda>_. None) sample_sha (pk_prefix p) (pk_secret p) = ''secret77''"
    using sample_parse by (auto split: option.splits)
  let ?t = "sample_token\<lparr>tok_key_prefix := ''AbCdEfGh'', tok_key_digest := ''secret77''\<rparr>"
  have "digests_keyed sample_console" "find_one (\<lambda>t. tok_id t = ''t1'') (console_tokens sample_console) = Some ?t"
    by (simp_all add: digests_keyed_def sample_console_def sample_auth_def sample_token_def)
  moreover have "nx_env sample_outside = (\<lambda>_. None)" "nx_sha sample_outside = sample_sha" by (simp_all add: sample_outside_def)
  ultimately show ?thesis
    using retired_keys_are_refused [of sample_console "''t1''" ?t sample_outside w' _ None p "\<lambda>_. ''h''" "''r''" sample_clock] d p by auto
qed

lemma sample_closing:
  "(case update_user sample_outside ''u1'' [(''status'', JStr ''disabled'')] sample_console of
     (Inr u, w') \<Rightarrow> usr_status u = Disabled \<and> map usr_id (console_users w') = [''u1'', ''u0''] | _ \<Rightarrow> False)"
  by code_simp

theorem closed_accounts_are_out_witness:
  "\<not> (\<exists>ctx f aw. authenticate (\<lambda>_. None) sample_sha (\<lambda>_. ''h'') ''r'' sample_clock [(''authorization'', ''Bearer '' @ sample_key)] None
     (nw_auth (snd (update_user sample_outside ''u1'' [(''status'', JStr ''disabled'')] sample_console))) = (Inr ctx, f, aw) \<and>
     idn_user_id (ac_identity ctx) = ''u1'')"
proof -
  obtain u w' where u: "update_user sample_outside ''u1'' [(''status'', JStr ''disabled'')] sample_console = (Inr u, w')"
    "usr_status u \<noteq> Enabled" "distinct (map usr_id (console_users w'))"
    using sample_closing by (auto split: prod.splits sum.splits)
  from closed_accounts_are_out [OF u] show ?thesis unfolding u(1) snd_conv by blast
qed

definition session_env :: env where
  "session_env k = (if k = ''SESSION_SECRET'' then Some ''k'' else None)"

definition session_outside :: console_outside where
  "session_outside = sample_outside\<lparr>nx_env := session_env, nx_hmac := (\<lambda>k m. ''00''),
     nx_random := (\<lambda>r. ''0123456789abcdef0123456789abcdef'')\<rparr>"

definition session_headers :: headers where
  "session_headers = [(''cookie'', ''fb_session='' @ (case create_session session_outside sample_user of Inr (t, _, _) \<Rightarrow> t | Inl e \<Rightarrow> []))]"

lemma sample_session:
  "(case create_session session_outside sample_user of
     Inr (t, _, p) \<Rightarrow> read_cookie session_headers session_cookie = t \<and> length t \<le> 4096 | Inl e \<Rightarrow> False)"
  by code_simp


theorem passwords_are_read_back_at_one_cost_witness:
  "\<exists>r. hash_password (\<lambda>p s n. replicate 64 (hd p)) ''salt'' ''a long password'' = Inr r \<and>
    fst (verify_password (\<lambda>p s n. replicate 64 (hd p)) ''a long password'' r) \<and>
    snd (verify_password (\<lambda>p s n. replicate 64 (hd p)) ''b'' r) = pbkdf2_iterations"
proof -
  let ?d = "\<lambda>p s n. replicate 64 (hd p)"
  obtain r where r: "hash_password ?d ''salt'' ''a long password'' = Inr r"
    by (simp add: hash_password_def assert_password_acceptable_def min_password_def max_password_def)
  have h: "hex_digest (?d ''a long password'' ''salt'' pbkdf2_iterations)" by (simp add: hex_digest_def is_hex_def list_all_iff)
  from passwords_are_read_back_at_one_cost [OF r h, of "''a long password''"]
    passwords_are_read_back_at_one_cost [OF r h, of "''b''"] r
  show ?thesis by (simp add: max_password_def)
qed

end
