(* ===== verification/ConsoleTrail.thy ===== *)
theory ConsoleTrail
  imports ConsoleLaws
begin

text \<open>
  The laws of the trail (\<open>src/lib/admin/audit.ts\<close>, written by \<open>router.ts\<close>): what a request adds to it, and what a row may say.
\<close>

subsection \<open>What a row may say\<close>

fun discreet :: "json \<Rightarrow> bool" where
  "discreet (JStr s) = (length s \<le> 203)"
| "discreet (JArr xs) = (length xs \<le> 40 \<and> list_all discreet xs)"
| "discreet (JObj ms) = (length ms \<le> 40 \<and>
     list_all (\<lambda>m. if sensitive_key (fst m) then snd m \<in> {JNull, JStr ''[redacted]''} else discreet (snd m)) ms)"
| "discreet _ = True"

lemma scrubbed_discreet: "discreet (scrub_levels n v)"
proof (induction n v rule: scrub_levels.induct)
  case (4 left xs)
  then show ?case by (auto simp: list_all_iff dest: in_set_takeD)
next
  case (5 left ms)
  have "length (filter (\<lambda>m. fst m \<noteq> ''__proto__'') (take 40 ms)) \<le> 40"
    by (rule order_trans [OF length_filter_le]) simp
  with 5 show ?case by (auto simp: list_all_iff split: prod.splits)
qed auto

subsection \<open>Steps that leave the trail alone\<close>

definition trail_view :: "console_world \<Rightarrow> audit_row list \<times> bool" where
  "trail_view w = (nw_audit w, db_up w)"

lemma trail_puts [simp]:
  "trail_view (put_users us w) = trail_view w" "trail_view (put_tokens ts w) = trail_view w"
  "trail_view (put_channels cs w) = trail_view w" "trail_view (put_channel_keys ks w) = trail_view w"
  "trail_view (put_prices ps w) = trail_view w" "trail_view (put_mappings ms w) = trail_view w"
  "trail_view (w\<lparr>nw_codes := rs\<rparr>) = trail_view w" "trail_view (w\<lparr>nw_settings := ss\<rparr>) = trail_view w"
  "trail_view (w\<lparr>nw_routing := r\<rparr>) = trail_view w" "trail_view (w\<lparr>nw_pricing := p\<rparr>) = trail_view w"
  "trail_view (w\<lparr>nw_ratio_notes := ns\<rparr>) = trail_view w"
  "trail_view (w\<lparr>nw_auth := (nw_auth w)\<lparr>aw_co := co\<rparr>\<rparr>) = trail_view w"
  by (simp_all add: trail_view_def put_users_def put_tokens_def put_channels_def put_channel_keys_def put_prices_def put_mappings_def)

lemma trail_stored:
  "(\<And>r w. trail_view (put_it r w) = trail_view w) \<Longrightarrow> trail_view (snd (stored rows put_it a w)) = trail_view w"
  by (simp add: stored_def split: option.splits)

lemma trail_steps [keeps_rules]:
  "keeps trail_view (on_shared f)" "keeps trail_view (drop_token_cache x p)" "keeps trail_view (on_routing g)"
  "keeps trail_view (drop_price x m)"
  by (auto simp: keeps_def on_shared_def drop_token_cache_def on_routing_def drop_price_def trail_view_def Let_def split: prod.splits sum.splits)

lemma trail_token_caches [keeps_rules]: "keeps trail_view (drop_token_caches x ps)"
  by (induction ps) (auto intro!: keeps_rules)

lemma trail_writes [keeps_rules]:
  "keeps trail_view (insert_user u)" "keeps trail_view (write_user i e f)" "keeps trail_view (write_token i g)"
  "keeps trail_view (refresh_abilities x)" "keeps trail_view (drop_abilities x)" "keeps trail_view (insert_channel c)"
  "keeps trail_view (insert_channel_keys ks)" "keeps trail_view (drop_channel_keys i)"
  unfolding insert_user_def write_user_def write_token_def refresh_abilities_def drop_abilities_def insert_channel_def
    insert_channel_keys_def drop_channel_keys_def Let_def
  by (intro keeps_rules keeps_db; simp add: trail_stored split: prod.splits)+

lemma trail_accounts [keeps_rules]:
  "keeps trail_view (create_user x b c)" "keeps trail_view (update_user x i p)" "keeps trail_view (create_token x p)"
  "keeps trail_view (update_token x i p)" "keeps trail_view (delete_token x i)" "keeps trail_view (rotate_token x i)"
  unfolding create_user_def update_user_def create_token_def update_token_def delete_token_def rotate_token_def drop_caches_of_def
  by (intro keeps_rules keeps_db; simp add: trail_stored)+

lemma trail_channels [keeps_rules]:
  "keeps trail_view (create_channel x body)" "keeps trail_view (update_channel x i body)"
  "keeps trail_view (replace_channel_keys x i ks)" "keeps trail_view (delete_channel x i)"
  unfolding create_channel_def update_channel_def replace_channel_keys_def delete_channel_def
  by (intro keeps_rules keeps_db; simp add: trail_stored)+

lemma trail_claim [simp]: "trail_view (snd (claim_and_credit now d u w)) = trail_view w"
  by (simp add: claim_and_credit_def split: option.splits sum.splits)

lemma trail_catalogue [keeps_rules]:
  "keeps trail_view (upsert_pricing x body)" "keeps trail_view (delete_pricing x m)" "keeps trail_view (upsert_mapping x body)"
  "keeps trail_view (delete_mapping x i)" "keeps trail_view (upsert_group_ratio x body)" "keeps trail_view (set_setting k v)"
  "keeps trail_view (create_redemption_batch x n q by ex)" "keeps trail_view (redeem_code x c u)"
  unfolding upsert_pricing_def delete_pricing_def upsert_mapping_def delete_mapping_def upsert_group_ratio_def set_setting_def
    create_redemption_batch_def redeem_code_def Let_def
  by (intro keeps_rules keeps_db; simp add: trail_stored split: prod.splits)+

subsection \<open>Steps that add one row\<close>

definition row_by :: "console_outside \<Rightarrow> admin_context \<Rightarrow> audit_row \<Rightarrow> bool" where
  "row_by x ctx r \<longleftrightarrow> au_actor_id r = an_user_id ctx \<and> au_actor_role r = an_role ctx \<and> au_ip_hash r = an_ip_hash ctx \<and>
     au_created_at r = nx_now x \<and> discreet (au_meta r)"

definition can_record :: "console_outside \<Rightarrow> console_world \<Rightarrow> bool" where
  "can_record x w \<longleftrightarrow> db_up w \<and> nx_random x (ForAudit 0) \<notin> au_id ` set (nw_audit w)"

text \<open>The rows a step adds: none when it throws, at most one of the caller's otherwise, and one when it must.\<close>

definition adds :: "console_outside \<Rightarrow> admin_context \<Rightarrow> bool \<Rightarrow> bool \<Rightarrow> console_world \<Rightarrow> console_world \<Rightarrow> bool" where
  "adds x ctx must threw w w' \<longleftrightarrow> (\<exists>rows. nw_audit w' = nw_audit w @ rows \<and> length rows \<le> 1 \<and> list_all (row_by x ctx) rows \<and>
     (threw \<longrightarrow> rows = []) \<and> (\<not> threw \<and> must \<and> can_record x w \<longrightarrow> rows \<noteq> []))"

definition traced :: "console_outside \<Rightarrow> admin_context \<Rightarrow> bool \<Rightarrow> 'a console \<Rightarrow> bool" where
  "traced x ctx must m \<longleftrightarrow> (\<forall>w. adds x ctx must (isl (fst (m w))) w (snd (m w)))"

named_theorems traced_rules \<open>steps that add the caller's row\<close>

lemma traced_seq [traced_rules]:
  assumes "keeps trail_view m" "\<And>a. traced x ctx must (f a)"
  shows "traced x ctx must (seq m f)"
  unfolding traced_def
proof
  fix w
  obtain r w1 where m: "m w = (r, w1)" by (cases "m w")
  from keepsD [OF assms(1) m] have v: "nw_audit w1 = nw_audit w" "can_record x w1 = can_record x w"
    by (simp_all add: trail_view_def can_record_def)
  show "adds x ctx must (isl (fst (seq m f w))) w (snd (seq m f w))"
  proof (cases r)
    case (Inl e)
    with m v show ?thesis by (simp add: seq_def adds_def)
  next
    case (Inr a)
    have "adds x ctx must (isl (fst (f a w1))) w1 (snd (f a w1))" using assms(2) by (simp add: traced_def)
    with m Inr v show ?thesis by (simp add: seq_def adds_def)
  qed
qed

lemma recorded:
  "\<exists>rows. nw_audit (snd (with_trail x ctx a ty t meta w)) = nw_audit w @ rows \<and> length rows \<le> 1 \<and> list_all (row_by x ctx) rows \<and>
     (can_record x w \<longrightarrow> rows \<noteq> [])"
  unfolding with_trail_def audited_def record_audit_def insert_one_def Let_def can_record_def
  by (auto simp: row_by_def scrub_meta_def scrubbed_discreet)

lemma traced_row [traced_rules]: "traced x ctx must (seq (with_trail x ctx a ty t meta) (\<lambda>_. give z))"
  unfolding traced_def adds_def
proof
  fix w
  have "fst (with_trail x ctx a ty t meta w) = Inr ()" by (simp add: with_trail_def audited_def)
  then obtain w1 where "with_trail x ctx a ty t meta w = (Inr (), w1)" by (cases "with_trail x ctx a ty t meta w") simp
  with recorded [of x ctx a ty t meta w] show "\<exists>rows. nw_audit (snd (seq (with_trail x ctx a ty t meta) (\<lambda>_. give z) w)) = nw_audit w @ rows \<and>
      length rows \<le> 1 \<and> list_all (row_by x ctx) rows \<and> (isl (fst (seq (with_trail x ctx a ty t meta) (\<lambda>_. give z) w)) \<longrightarrow> rows = []) \<and>
      (\<not> isl (fst (seq (with_trail x ctx a ty t meta) (\<lambda>_. give z) w)) \<and> must \<and> can_record x w \<longrightarrow> rows \<noteq> [])"
    by (auto simp: seq_def give_def)
qed

lemma traced_prod [traced_rules]: "(\<And>a b. traced x ctx must (f a b)) \<Longrightarrow> traced x ctx must (case z of (a, b) \<Rightarrow> f a b)"
  by (cases z) simp

lemma traced_kept: "keeps trail_view m \<Longrightarrow> traced x ctx False m"
  by (auto simp: traced_def adds_def keeps_def trail_view_def)

lemma traced_must: "traced x ctx True m \<Longrightarrow> traced x ctx must m"
  by (fastforce simp: traced_def adds_def)

lemma traced_throw: "traced x ctx must (throw e)"
  by (simp add: traced_def adds_def throw_def)

lemma trail_documents: "keeps documents m \<Longrightarrow> keeps nw_audit m"
  by (auto simp: keeps_def documents_def)

lemma trail_checks [keeps_rules]: "keeps trail_view (owner_checked ctx i)"
  unfolding owner_checked_def by (intro keeps_rules)

definition changing :: "console_request \<Rightarrow> string list \<Rightarrow> bool" where
  "changing req segments \<longleftrightarrow> js_upper (nq_method req) \<notin> set safe_methods \<and>
     nth_segment 0 segments \<notin> {[], ''overview'', ''whoami''}"

lemma traced_routes:
  assumes "admin_route x ctx req segments body = Some f"
  shows "traced x ctx (changing req segments) f"
proof (cases "changing req segments")
  case True
  with assms have "traced x ctx True f"
    unfolding admin_route_def routes Let_def changing_def safe_methods_def reply_def created_def
    by (auto split: if_splits intro!: traced_rules keeps_rules)
  then show ?thesis by (rule traced_must)
next
  case False
  show ?thesis
  proof (cases "js_upper (nq_method req) \<in> set safe_methods")
    case True
    from traced_kept [OF safe_routes_read [OF this assms]] False show ?thesis by simp
  next
    case unsafe: False
    with False assms have "keeps trail_view f"
      by (auto simp: changing_def admin_route_def Let_def intro!: keeps_rules)
    from traced_kept [OF this] False show ?thesis by simp
  qed
qed

subsection \<open>A request\<close>

lemma trail_gate: "keeps trail_view (require_admin x req r)"
proof -
  have *: "keeps trail_view (active_user i)" for i
    unfolding active_user_def by (intro keeps_rules)
  have "aw_db_ok aw = db_up w"
    if "authenticate (nx_env x) (nx_sha x) (hash_ip (nx_env x) (nx_hmac x)) (qi_request_id (nq_in req)) (nx_clock x)
             (qi_headers (nq_in req)) (qi_query_key (nq_in req)) (nw_auth w) = (r, f, aw)" for w r f aw
    using that load_identity_docs [of "nx_env x"]
    by (auto simp: authenticate_def Let_def split: if_splits option.splits prod.splits sum.splits) (metis snd_conv)+
  then have "keeps trail_view (console_authenticate x req)"
    by (auto simp: keeps_def console_authenticate_def trail_view_def split: prod.splits)
  then have "keeps trail_view (by_session x req r p)" "keeps trail_view (by_key x req r)" for p
    unfolding by_session_def by_key_def by (intro keeps_rules *; assumption)+
  then show ?thesis by (auto simp: keeps_def require_admin_def Let_def split: sum.splits option.splits)
qed

lemma traced_admitted: "traced x ctx (changing req segments) (admitted x req segments ctx)"
  unfolding admitted_def
  by (intro traced_seq keeps_rules) (auto simp: traced_throw traced_routes split: option.splits)

text \<open>C16: what a request of a caller who was let in does to the trail: it removes and changes no row, adds at most one, and that
  row names the caller, the role the database gives it now and its address's hash, and says nothing it must not: every member with a
  sensitive name is redacted, no text is longer than 203 characters and no level wider than 40 entries. A
  request that fails adds none; one that succeeds in changing a resource adds its row, unless the
  database is down or the row's id is taken.\<close>
theorem changes_leave_a_discreet_row:
  assumes "require_admin x req (minimum_role segments) w = (Inr ctx, w1)"
  shows "\<exists>rows. nw_audit (snd (handle_admin_request x req segments w)) = nw_audit w @ rows \<and> length rows \<le> 1 \<and>
    list_all (\<lambda>r. au_actor_id r = an_user_id ctx \<and> au_actor_role r = an_role ctx \<and> au_ip_hash r = an_ip_hash ctx \<and>
      au_created_at r = nx_now x \<and> discreet (au_meta r)) rows \<and>
    (rows \<noteq> [] \<or> \<not> can_record x w \<or> \<not> changing req segments \<or> isl (fst (admitted x req segments ctx w1))) \<and>
    (rows = [] \<or> \<not> isl (fst (admitted x req segments ctx w1)))"
proof -
  from keepsD [OF trail_gate assms] have v: "nw_audit w1 = nw_audit w" "can_record x w1 = can_record x w"
    by (simp_all add: trail_view_def can_record_def)
  have "adds x ctx (changing req segments) (isl (fst (admitted x req segments ctx w1))) w1 (snd (admitted x req segments ctx w1))"
    using traced_admitted by (simp add: traced_def)
  moreover have "snd (handle_admin_request x req segments w) = snd (admitted x req segments ctx w1)"
    by (rule handled_admin [OF assms])
  ultimately show ?thesis unfolding adds_def row_by_def v by auto
qed

lemma sample_row:
  "(case require_admin sample_outside (sample_request ''POST'' ''{\"key\":\"a\",\"value\":1}'') (minimum_role [''settings'']) sample_console of
     (Inr ctx, w1) \<Rightarrow> \<not> isl (fst (admitted sample_outside (sample_request ''POST'' ''{\"key\":\"a\",\"value\":1}'') [''settings''] ctx w1)) \<and>
       an_user_id ctx = ''u1''
   | _ \<Rightarrow> False)"
  by code_simp

theorem changes_leave_a_discreet_row_witness:
  "\<exists>row. nw_audit (snd (handle_admin_request sample_outside (sample_request ''POST'' ''{\"key\":\"a\",\"value\":1}'') [''settings''] sample_console)) =
     [row] \<and> au_actor_id row = ''u1''"
proof -
  let ?q = "sample_request ''POST'' ''{\"key\":\"a\",\"value\":1}''"
  obtain ctx w1 where c: "require_admin sample_outside ?q (minimum_role [''settings'']) sample_console = (Inr ctx, w1)"
    "\<not> isl (fst (admitted sample_outside ?q [''settings''] ctx w1))" "an_user_id ctx = ''u1''"
    using sample_row by (auto split: prod.splits sum.splits)
  have "nw_audit sample_console = []" "can_record sample_outside sample_console"
    by (simp_all add: sample_console_def can_record_def sample_auth_def)
  moreover have "changing ?q [''settings'']"
    by (simp add: changing_def sample_request_def safe_methods_def nth_segment_def js_upper_def)
  ultimately obtain rows where "nw_audit (snd (handle_admin_request sample_outside ?q [''settings''] sample_console)) = rows"
    "length rows \<le> 1" "list_all (\<lambda>r. au_actor_id r = ''u1'') rows" "rows \<noteq> []"
    using changes_leave_a_discreet_row [OF c(1)] c(2,3) by (auto simp: list_all_iff)
  then show ?thesis by (cases rows) auto
qed

end
