(* ===== verification/Spec2Isabelle.thy ===== *)
theory Spec2Isabelle
  imports LedgerLaws RetryLaws SsrfLaws AuthLaws BillingLaws UsageLaws SseLaws TransformLaws EntryLaws TaskLaws ConsoleSecrets ConsoleTrail
begin

text \<open>
  A verification of the gateway of this repository: one HTTP endpoint in front of many providers of
  language models, which authenticates a caller, limits and bills it, elects a provider's channel,
  translates the request and the answer between the dialects of OpenAI, Anthropic and Gemini, and tracks
  the jobs that are answered later. Every definition that models code follows the function it is named
  after; the laws stand in theories of their own.

  \<^bold>\<open>The path of a request.\<close> \<open>handleRelayRequest\<close> (\<open>src/lib/relay/entry.ts\<close>, theory RelayEntry) authenticates
  (Authenticate, with Credentials for the key a request carries and Addresses for the address rules), reads
  and normalises the body (JsonText, JsonValue, Transform), and hands it to \<open>relay\<close>
  (\<open>src/lib/relay/pipeline.ts\<close>, theory Relay). The pipeline applies the limiters (RateLimit over the atomic
  scripts of RedisScripts), prices the request (Pricing, Billing), takes a hold from the durable ledger
  (Ledger), elects a channel and a credential (Election, Routing), calls it with retries (Retry, Clock,
  Errors), and answers: buffered, or as a stream whose reads, settlement and hang-up are separate steps.
  What an answer reports as usage (Measure) is charged, the hold is settled or given back, and a row goes
  to the usage ledger (UsageLedger). Answers and their headers are built in Respond and Headers, secrets are
  removed by Redact, streams are cut and framed in Sse. Bodies that are not JSON take the shorter path of
  \<open>src/lib/relay/passthrough.ts\<close>, asynchronous jobs that of \<open>src/lib/tasks\<close> (Tasks, TaskSubmit,
  TaskPolling). Every outbound URL passes the guard of Ssrf and is fetched by UpstreamFetch.

  \<^bold>\<open>The control plane.\<close> Operators and members reach the rows all this stands on through \<open>/api/admin\<close> and
  \<open>/api/auth\<close>. \<open>handleAdminRequest\<close> (\<open>src/lib/admin/router.ts\<close>, theory ConsoleRouter) passes the gate of Console
  (fence, session or key, intent, current role), dispatches to the operations of ConsoleStore,
  ConsoleChannels and ConsoleCatalog, and leaves a row of the trail; \<open>handleAuthRequest\<close> (ConsoleLogin) signs in
  and out. Their state, \<open>console_world\<close>, holds the very worlds of Authenticate, Routing, Pricing and UsageLedger, so
  that a law can say what an edit does to the next request. The jobs of \<open>src/lib/cron\<close> (ScheduledJobs) drain the
  queues, probe channels and end keys. A step that may throw is a function of that state; \<open>seq\<close> runs one
  after another, and a step that throws keeps what the ones before it stored.

  \<^bold>\<open>Theories and sources.\<close>
  \<^item> Prelude, JsNumber: string functions, collections of documents, numbers of the language.
  \<^item> JsonValue, JsonText, JsonPrint: \<open>src/lib/util/json.ts\<close>, \<open>JSON.parse\<close> and \<open>JSON.stringify\<close>.
  \<^item> Redact, Errors, Headers, Respond: \<open>src/lib/http\<close>. Env: \<open>src/lib/config/env.ts\<close>. Clock, Calendar, Crypto:
    \<open>src/lib/util\<close>. Domain: \<open>src/lib/db/types.ts\<close>.
  \<^item> RedisKeys, RedisStore, RedisScripts, LuaScripts, RedisClient: \<open>src/lib/redis\<close>. RateLimit:
    \<open>src/lib/ratelimit\<close>.
  \<^item> Addresses, Credentials, Authenticate: \<open>src/lib/auth\<close>. Election, Routing, Retry: \<open>src/lib/routing\<close>.
  \<^item> Pricing: \<open>src/lib/pricing\<close>. Measure, Billing, UsageLedger: \<open>src/lib/usage\<close>. Ledger: \<open>src/lib/quota\<close>.
  \<^item> Sse, Dialects, OpenaiDialect, AnthropicDialect, GeminiDialect, Transform:
    \<open>src/lib/transform\<close>, with the framing of \<open>framing.ts\<close> in Transform. Ssrf, UpstreamFetch: \<open>src/lib/upstream\<close>.
  \<^item> Relay, RelayEntry: \<open>src/lib/relay\<close>. Tasks, TaskPolling, TaskSubmit: \<open>src/lib/tasks\<close>.
  \<^item> SignedTokens: UTF-8, Base64 and signed tokens of \<open>src/lib/util/crypto.ts\<close>. Console, ConsoleStore, ConsoleChannels,
    ConsoleCatalog, ConsoleLogin, ConsoleRouter: \<open>src/lib/admin\<close>. ScheduledJobs: \<open>src/lib/cron\<close>.

  \<^bold>\<open>Interfaces.\<close> Where a client relies on a contract the contract is a locale, interpreted on the model of
  the code that provides it: \<open>replayable\<close> (ReplayQueue) for the two work queues, whose entries may be applied
  twice because a crash makes a prefix of the queue run again, on the quota ledger and the usage
  ledger; \<open>admission_gate\<close> (LimiterLaws), for what admits up to a limit and lets go, on leases and on the
  sliding window of successes; \<open>single_use\<close> (ConsoleBooks), for what can be claimed once, on redemption codes and on the
  states of a sign-in.

  \<^bold>\<open>What the laws show.\<close>
  \<^item> LedgerLaws: balance, consumption and open holds of an account add up to a constant over any history
    with any faults, and a request is settled at most once. UsageLaws: one row per request, totals that are
    the sums of the rows. BillingLaws: the charge is monotone, never nothing for a priced request, and the
    same for the same work whichever provider reports it.
  \<^item> RelayLaws, StreamLaws, EntryLaws: no provider is called without a valid key of an enabled row, a
    permitted model and a hold; on every exit, error paths and hang-ups included, the hold is settled, given
    back or queued and the lease released; a stream is settled exactly once under every interleaving.
  \<^item> RoutingLaws, RetryLaws, HealthLaws, CacheLaws: what is elected is authorised at that moment, calls are
    bounded and never repeated, breakers count what the comments say; three theorems show where a cache
    and its comments disagree.
  \<^item> LimiterLaws, ScriptTwins: limits are ceilings under any interleaving and any fault; each Lua source
    and its JavaScript twin leave the same store.
  \<^item> AuthLaws, SsrfLaws: only current rows admit, refusals tell nothing apart, the address of a client
    cannot be forged, a URL that passes the guard leads to public addresses.
  \<^item> SseLaws, TransformLaws, FramingLaws: how a stream is cut is invisible, frames are read back, a client
    gets whole messages and sees the model it asked for, instructions stay instructions.
  \<^item> TaskLaws: a job is polled at most 241 times, a submission sends at most one request, a caller sees the
    own jobs only and never a provider's identifier in a result, references stay with their owner.
  \<^item> ConsoleLaws: what it takes to change any row, and that no one but root touches an account above a plain user.
    ConsoleTrail: at most one row of the trail per request, the caller's, with nothing sensitive in it, and none
    missing for a change that succeeded. ConsoleBooks: codes and sign-in states are used once, what a price edit does
    to the next request, and three places where an edit or a report does nothing. ConsoleSecrets: a retired
    key and a closed account are out at once, sessions and passwords are read back.

  \<^bold>\<open>Bounds and fuel.\<close> Recursions over documents are structural. The parsers of JSON and of event streams
  recurse on the text that is left. Loops of the code that are bounded by a counter keep that counter:
  the attempts of the retry loop, the draws of an election, the redirects of a fetch, the four levels
  that are searched for a provider's identifier, the batches of a drain. The pattern matcher of Redact has
  fuel, one unit per character it may still visit, so it never runs out before the text does. Lua
  programs have no loops but those over the members of a set, which are unrolled over that set.

  \<^bold>\<open>Abstractions.\<close> Strings are lists of code units below 256. Numbers are exact rationals with the
  non-finite values beside them: the rounding of doubles is not modelled. Dates are milliseconds. An object
  keeps its members in the order of insertion, also those whose names are integers. The clock, random texts
  and draws, digests, ciphers, the URL parser, the resolver, the network and the faults of the stores are
  arguments; one moment of a request reads the clock once. Bytes that are read as text are text. The
  collections of the ledger and those authentication reads are separate copies of the same rows. An
  operation on a document is atomic, as the database makes it; a transaction either commits or leaves the
  state as it was, and which of the two happens is an argument.

  \<^bold>\<open>Not modelled.\<close> The pages of the console and the landing page with their helpers
  (\<open>src/app\<close>, \<open>src/lib/console\<close>, \<open>src/lib/landing\<close>) are user interface. The route files under
  \<open>src/app/api\<close> only pass a request on with fixed options. \<open>src/lib/db/mongo.ts\<close> wraps the driver of the
  database. The database itself (\<open>src/lib/db/memory.ts\<close>; of \<open>indexes.ts\<close> the unique keys are modelled), the shared store on
  top of it (\<open>src/lib/redis/mongo.ts\<close>), the creation of indexes in \<open>partitionMaintenance\<close>, the set-up of the scheduler and the
  migration of old balances are not modelled. Timers, HMAC, the derivation of passwords and AES are calls of the platform. Scripts,
  load tests and the tests themselves
  are not part of the gateway.
\<close>

end
